(* ===== verification/Prelude.thy ===== *)
theory Prelude
  imports Main "HOL-Library.AList" "HOL-Library.Char_ord" "HOL-Library.List_Lexorder"
    "HOL-Library.Product_Lexorder" "HOL-Library.Multiset"
begin

section \<open>The language level: errors, effects, maps, strings and time as the Go code uses them\<close>

text \<open>
  This theory holds what every component of SafeConfig shares:
  \<^item> Go's \<open>error\<close> values: sentinels (\<open>errors.New\<close> at package level), values built by
    \<open>fmt.Errorf\<close> whose \<open>%w\<close> argument is found again by \<open>errors.Is\<close>;
  \<^item> the effect type \<open>('w, 'a) M\<close> of code that runs against stores: a function of the world
    that returns an error or a value together with the new world (also on the error path, so
    that what a failed call has already written stays visible), and a weakest-precondition
    calculus for it;
  \<^item> Go maps as association lists with distinct keys, iterated in list order;
  \<^item> byte strings with \<open>strings.TrimSpace\<close>, \<open>strings.Cut\<close> and \<open>strings.EqualFold\<close>;
  \<^item> \<open>time.Time\<close> and \<open>time.Duration\<close> in nanoseconds, with the saturating \<open>Sub\<close> and the
    64-bit wrap-around of \<open>int64\<close> arithmetic.
\<close>

named_theorems wp_simps \<open>simplification rules of the weakest-precondition calculus\<close>
named_theorems go_map \<open>lookups after updates and deletions of Go maps\<close>
named_theorems go_state \<open>definitions of the store operations, unfolded together\<close>

subsection \<open>Errors\<close>

datatype sentinel =
    domain_ErrMissingID | domain_ErrMissingTenantID | domain_ErrMissingConfigKey
  | domain_ErrMissingSchema | domain_ErrMissingValue | domain_ErrInvalidJSON
  | domain_ErrInvalidVersionNumber | domain_ErrInvalidEnvironment
  | domain_ErrStableVersionDuringRun
  | configregistry_ErrAlreadyExists | configregistry_ErrNotFound
  | configregistry_ErrInvalidInput | configregistry_ErrConflict
  | agentregistry_ErrInvalidInput | agentregistry_ErrUnauthorized
  | agentregistry_ErrForbidden | agentregistry_ErrNotFound
  | agentregistry_ErrExpiredCredential
  | rollout_ErrAlreadyExists | rollout_ErrNotFound
  | rollout_ErrInvalidInput | rollout_ErrConflict
  | guardrail_ErrInvalidInput | guardrail_ErrNoData | guardrail_ErrMultipleSeries
  | dataplane_ErrMissingCredential | dataplane_ErrInvalidCredential
  | dataplane_ErrForbidden | dataplane_ErrSnapshotNotFound
  | agent_ErrNoSnapshot | agent_ErrConfigNotFound | agent_ErrBadChecksum
  | context_Canceled | context_DeadlineExceeded

text \<open>
  \<open>Errorf\<close> keeps the format string of the source and its arguments in order. Only a \<open>%w\<close>
  argument is wrapped: \<open>errors.Is\<close> sees through \<open>FW\<close> and not through \<open>FV\<close>.
  \<open>New\<close> is an \<open>errors.New\<close> or an argument-free \<open>fmt.Errorf\<close> inside a function, and
  \<open>Foreign\<close> an error that a library hands back.
\<close>

datatype error =
    Sentinel sentinel
  | New string
  | Errorf string "fmtarg list"
  | Foreign string
and fmtarg = FW error | FV error | FQ string | FS string | FD int

fun errors_Is :: "error \<Rightarrow> sentinel \<Rightarrow> bool"
  and args_Is :: "fmtarg list \<Rightarrow> sentinel \<Rightarrow> bool"
  and arg_Is :: "fmtarg \<Rightarrow> sentinel \<Rightarrow> bool" where
  "errors_Is (Sentinel s) t = (s = t)"
| "errors_Is (New m) t = False"
| "errors_Is (Errorf f as) t = args_Is as t"
| "errors_Is (Foreign m) t = False"
| "args_Is [] t = False"
| "args_Is (a # as) t = (arg_Is a t \<or> args_Is as t)"
| "arg_Is (FW e) t = errors_Is e t"
| "arg_Is (FV e) t = False"
| "arg_Is (FQ s) t = False"
| "arg_Is (FS s) t = False"
| "arg_Is (FD i) t = False"

subsection \<open>Effects\<close>

type_synonym ('w, 'a) M = "'w \<Rightarrow> (error + 'a) \<times> 'w"

definition retM :: "'a \<Rightarrow> ('w, 'a) M" where
  "retM a w = (Inr a, w)"

definition raiseM :: "error \<Rightarrow> ('w, 'a) M" where
  "raiseM e w = (Inl e, w)"

definition bindM :: "('w, 'a) M \<Rightarrow> ('a \<Rightarrow> ('w, 'b) M) \<Rightarrow> ('w, 'b) M" where
  "bindM f g w = (case f w of (Inl e, w') \<Rightarrow> (Inl e, w') | (Inr a, w') \<Rightarrow> g a w')"

definition tryM :: "('w, 'a) M \<Rightarrow> (error \<Rightarrow> ('w, 'b) M) \<Rightarrow> ('a \<Rightarrow> ('w, 'b) M) \<Rightarrow> ('w, 'b) M" where
  "tryM f h g w = (case f w of (Inl e, w') \<Rightarrow> h e w' | (Inr a, w') \<Rightarrow> g a w')"

text \<open>An effect that cannot fail, such as reading the clock.\<close>

definition effM :: "('w \<Rightarrow> 'a \<times> 'w) \<Rightarrow> ('w, 'a) M" where
  "effM f w = (case f w of (a, w') \<Rightarrow> (Inr a, w'))"

text \<open>The check \<open>if err := f(x); err != nil \<open>{\<close> return err \<open>}\<close>\<close> of a pure function.\<close>

definition checkM :: "error option \<Rightarrow> ('w, unit) M" where
  "checkM e = (case e of None \<Rightarrow> retM () | Some x \<Rightarrow> raiseM x)"

definition liftE :: "error + 'a \<Rightarrow> ('w, 'a) M" where
  "liftE r w = (r, w)"

text \<open>What a successful run is made of.\<close>

lemma bindM_Inr: "bindM f g w = (Inr b, w') \<longleftrightarrow> (\<exists>a w1. f w = (Inr a, w1) \<and> g a w1 = (Inr b, w'))"
  by (auto simp: bindM_def split: prod.splits sum.splits)

lemma effM_Inr: "effM f w = (Inr a, w') \<longleftrightarrow> f w = (a, w')"
  by (auto simp: effM_def split: prod.splits)

lemma retM_Inr: "retM a w = (Inr b, w') \<longleftrightarrow> b = a \<and> w' = w"
  by (auto simp: retM_def)

lemma raiseM_Inr: "raiseM e w = (Inr b, w') \<longleftrightarrow> False"
  by (simp add: raiseM_def)

lemma checkM_Inr: "checkM c w = (Inr b, w') \<longleftrightarrow> c = None \<and> w' = w"
  by (cases c) (auto simp: checkM_def retM_def raiseM_def)

lemma liftE_Inr: "liftE x w = (Inr b, w') \<longleftrightarrow> x = Inr b \<and> w' = w"
  by (auto simp: liftE_def)

lemmas run_Inr = bindM_Inr effM_Inr retM_Inr raiseM_Inr checkM_Inr liftE_Inr

definition wp :: "('w, 'a) M \<Rightarrow> ('a \<Rightarrow> 'w \<Rightarrow> bool) \<Rightarrow> (error \<Rightarrow> 'w \<Rightarrow> bool) \<Rightarrow> 'w \<Rightarrow> bool" where
  "wp f Q E w = (case f w of (Inl e, w') \<Rightarrow> E e w' | (Inr a, w') \<Rightarrow> Q a w')"

text \<open>The rules are equations of predicates, so that they rewrite under a continuation as well.\<close>

lemma wp_ret [wp_simps]: "wp (retM a) Q E = Q a"
  by (rule ext) (simp add: wp_def retM_def)

lemma wp_raise [wp_simps]: "wp (raiseM e) Q E = E e"
  by (rule ext) (simp add: wp_def raiseM_def)

lemma wp_bind [wp_simps]: "wp (bindM f g) Q E = wp f (\<lambda>a. wp (g a) Q E) E"
  by (rule ext) (simp add: wp_def bindM_def split: prod.splits sum.splits)

lemma wp_try [wp_simps]: "wp (tryM f h g) Q E = wp f (\<lambda>a. wp (g a) Q E) (\<lambda>e. wp (h e) Q E)"
  by (rule ext) (simp add: wp_def tryM_def split: prod.splits sum.splits)

lemma wp_eff [wp_simps]: "wp (effM f) Q E = (\<lambda>w. Q (fst (f w)) (snd (f w)))"
  by (rule ext) (simp add: wp_def effM_def split: prod.splits)

lemma wp_check [wp_simps]:
  "wp (checkM c) Q E w = (case c of None \<Rightarrow> Q () w | Some e \<Rightarrow> E e w)"
  by (cases c) (simp_all add: checkM_def wp_simps)

lemma wp_liftE [wp_simps]: "wp (liftE r) Q E w = (case r of Inl e \<Rightarrow> E e w | Inr a \<Rightarrow> Q a w)"
  by (simp add: wp_def liftE_def)

lemma wp_if [wp_simps]: "wp (if b then f else g) Q E w = (if b then wp f Q E w else wp g Q E w)"
  by simp

lemma wp_mono:
  assumes "wp f Q E w" and "\<And>a w'. Q a w' \<Longrightarrow> Q' a w'" and "\<And>e w'. E e w' \<Longrightarrow> E' e w'"
  shows "wp f Q' E' w"
  using assms by (auto simp: wp_def split: prod.splits sum.splits)

lemma wp_conj:
  "wp f Q E w \<Longrightarrow> wp f Q' E' w \<Longrightarrow> wp f (\<lambda>a w'. Q a w' \<and> Q' a w') (\<lambda>e w'. E e w' \<and> E' e w') w"
  by (auto simp: wp_def split: prod.splits sum.splits)

text \<open>Reading off a triple at a run, and back.\<close>

lemma wpD_Inr: "wp f Q E w \<Longrightarrow> f w = (Inr a, w') \<Longrightarrow> Q a w'"
  by (simp add: wp_def)

lemma wpD_Inl: "wp f Q E w \<Longrightarrow> f w = (Inl e, w') \<Longrightarrow> E e w'"
  by (simp add: wp_def)

lemma wpI:
  "(\<And>a w'. f w = (Inr a, w') \<Longrightarrow> Q a w') \<Longrightarrow> (\<And>e w'. f w = (Inl e, w') \<Longrightarrow> E e w') \<Longrightarrow> wp f Q E w"
  by (auto simp: wp_def split: prod.splits sum.splits)

text \<open>An invariant holds after a call, however the call ends.\<close>

lemma wp_invariantD: "wp f (\<lambda>_. I) (\<lambda>_. I) w \<Longrightarrow> I (snd (f w))"
  by (auto simp: wp_def split: prod.splits sum.splits)

lemma bindM_assoc: "bindM (bindM f g) h = bindM f (\<lambda>a. bindM (g a) h)"
  by (rule ext) (simp add: bindM_def split: prod.splits sum.splits)

lemma bindM_ret [simp]: "bindM (retM a) g = g a"
  by (rule ext) (simp add: bindM_def retM_def)

lemma bindM_raise [simp]: "bindM (raiseM e) g = raiseM e"
  by (rule ext) (simp add: bindM_def raiseM_def)

subsection \<open>Contracts\<close>

text \<open>
  What the interfaces promise. \<open>contract J ab P f R\<close>: from a world that satisfies the
  invariant and whose abstract state satisfies \<open>P\<close>, the call keeps the invariant; a successful
  call relates the abstract state before, the value returned and the abstract state after by
  \<open>R\<close>, and a failed call leaves the abstract state alone.
\<close>

definition contract ::
  "('w \<Rightarrow> bool) \<Rightarrow> ('w \<Rightarrow> 'd) \<Rightarrow> ('d \<Rightarrow> bool) \<Rightarrow> ('w, 'a) M \<Rightarrow> ('d \<Rightarrow> 'a \<Rightarrow> 'd \<Rightarrow> bool) \<Rightarrow> bool" where
  "contract J ab P f R \<longleftrightarrow>
     (\<forall>w. J w \<longrightarrow> P (ab w) \<longrightarrow>
        wp f (\<lambda>a w'. J w' \<and> R (ab w) a (ab w')) (\<lambda>_ w'. J w' \<and> ab w' = ab w) w)"

lemma contractI:
  assumes "\<And>w. J w \<Longrightarrow> P (ab w) \<Longrightarrow>
    wp f (\<lambda>a w'. J w' \<and> R (ab w) a (ab w')) (\<lambda>_ w'. J w' \<and> ab w' = ab w) w"
  shows "contract J ab P f R"
  using assms by (simp add: contract_def)

lemma wp_contract:
  assumes "contract J ab P f R" and "J w" and "P (ab w)"
    and "\<And>a w'. J w' \<Longrightarrow> R (ab w) a (ab w') \<Longrightarrow> Q a w'"
    and "\<And>e w'. J w' \<Longrightarrow> ab w' = ab w \<Longrightarrow> E e w'"
  shows "wp f Q E w"
proof (rule wp_mono)
  show "wp f (\<lambda>a w'. J w' \<and> R (ab w) a (ab w')) (\<lambda>_ w'. J w' \<and> ab w' = ab w) w"
    using assms(1-3) by (simp add: contract_def)
qed (use assms(4,5) in auto)

lemma contract_conseq:
  assumes "contract J ab P f R" and "\<And>d. P' d \<Longrightarrow> P d" and "\<And>d a d'. P' d \<Longrightarrow> R d a d' \<Longrightarrow> R' d a d'"
  shows "contract J ab P' f R'"
  by (rule contractI) (rule wp_contract [OF assms(1)], use assms(2,3) in auto)

text \<open>
  A component of the world: \<open>get\<close> reads it, \<open>put\<close> writes it, and a call on the component
  becomes a call on the world. The calls of a store read the request context first, whose
  error (cancelled, past its deadline) may differ from call to call.
\<close>

definition on_cell ::
  "('w \<Rightarrow> 's) \<Rightarrow> ('s \<Rightarrow> 'w \<Rightarrow> 'w) \<Rightarrow> ('w \<Rightarrow> error option) \<Rightarrow> (error option \<Rightarrow> ('s, 'a) M) \<Rightarrow> ('w, 'a) M" where
  "on_cell get put ctx f w = (case f (ctx w) (get w) of (r, s) \<Rightarrow> (r, put s w))"

lemma wp_on_cell:
  "wp (on_cell get put ctx f) Q E w = wp (f (ctx w)) (\<lambda>a s. Q a (put s w)) (\<lambda>e s. E e (put s w)) (get w)"
  by (simp add: wp_def on_cell_def split: prod.splits sum.splits)

lemma contract_on_cell:
  assumes "\<And>c. contract J ab P (f c) R"
    and "\<And>s w. get (put s w) = s" and "\<And>s w. I (put s w) = I w" and "\<And>s w. rest (put s w) = rest w"
  shows "contract (\<lambda>w. J (get w) \<and> I w) (\<lambda>w. (ab (get w), rest w)) (\<lambda>d. P (fst d))
    (on_cell get put ctx f) (\<lambda>d a d'. R (fst d) a (fst d') \<and> snd d' = snd d)"
  by (rule contractI) (use assms in \<open>auto simp: wp_on_cell intro!: wp_contract [OF assms(1)]\<close>)

subsection \<open>Go maps\<close>

type_synonym ('k, 'v) gomap = "('k \<times> 'v) list"

definition gomap_ok :: "('k, 'v) gomap \<Rightarrow> bool" where
  "gomap_ok m \<longleftrightarrow> distinct (map fst m)"

definition gomap_get :: "('k, 'v) gomap \<Rightarrow> 'k \<Rightarrow> 'v option" where
  "gomap_get m k = map_of m k"

definition gomap_set :: "'k \<Rightarrow> 'v \<Rightarrow> ('k, 'v) gomap \<Rightarrow> ('k, 'v) gomap" where
  "gomap_set k v m = AList.update k v m"

definition gomap_delete :: "'k \<Rightarrow> ('k, 'v) gomap \<Rightarrow> ('k, 'v) gomap" where
  "gomap_delete k m = AList.delete k m"

text \<open>The slice-valued map access \<open>m[k]\<close> of a missing key is the nil slice.\<close>

definition gomap_slice :: "('k, 'v list) gomap \<Rightarrow> 'k \<Rightarrow> 'v list" where
  "gomap_slice m k = (case gomap_get m k of None \<Rightarrow> [] | Some xs \<Rightarrow> xs)"

lemma gomap_get_Nil [simp, go_map]: "gomap_get [] k = None"
  by (simp add: gomap_get_def)

lemma gomap_get_set [simp, go_map]:
  "gomap_get (gomap_set k v m) k' = (if k' = k then Some v else gomap_get m k')"
  by (simp add: gomap_get_def gomap_set_def update_conv')

lemma gomap_get_delete [simp, go_map]:
  "gomap_get (gomap_delete k m) k' = (if k' = k then None else gomap_get m k')"
  by (simp add: gomap_get_def gomap_delete_def delete_conv')

lemma gomap_slice_set [simp, go_map]:
  "gomap_slice (gomap_set k v m) k' = (if k' = k then v else gomap_slice m k')"
  by (simp add: gomap_slice_def)

lemma gomap_ok_Nil [simp, intro]: "gomap_ok []"
  by (simp add: gomap_ok_def)

lemma gomap_ok_set [simp, intro]: "gomap_ok m \<Longrightarrow> gomap_ok (gomap_set k v m)"
  by (simp add: gomap_ok_def gomap_set_def distinct_update)

lemma gomap_ok_delete [simp, intro]: "gomap_ok m \<Longrightarrow> gomap_ok (gomap_delete k m)"
  by (simp add: gomap_ok_def gomap_delete_def distinct_delete)

lemma gomap_get_iff: "gomap_ok m \<Longrightarrow> gomap_get m k = Some v \<longleftrightarrow> (k, v) \<in> set m"
  by (simp add: gomap_ok_def gomap_get_def)

lemma gomap_ok_same_key: "gomap_ok m \<Longrightarrow> (k, v) \<in> set m \<Longrightarrow> (k, v') \<in> set m \<Longrightarrow> v = v'"
  by (metis gomap_get_iff option.inject)

subsection \<open>Strings\<close>

type_synonym bytes = string

definition nul :: char where
  "nul = CHR 0x00"

definition nul_free :: "string \<Rightarrow> bool" where
  "nul_free s \<longleftrightarrow> nul \<notin> set s"

text \<open>The composite map keys of the in-memory stores join two strings with a zero byte.\<close>

definition nul_join :: "string \<Rightarrow> string \<Rightarrow> string" where
  "nul_join a b = a @ nul # b"

lemma append_Cons_inj:
  "x \<notin> set a \<Longrightarrow> x \<notin> set a' \<Longrightarrow> a @ x # b = a' @ x # b' \<Longrightarrow> a = a' \<and> b = b'"
proof (induction a arbitrary: a')
  case Nil
  then show ?case by (cases a') auto
next
  case (Cons y a)
  then show ?case by (cases a') auto
qed

lemma nul_join_inj:
  "nul_free a \<Longrightarrow> nul_free a' \<Longrightarrow> nul_join a b = nul_join a' b' \<longleftrightarrow> a = a' \<and> b = b'"
  using append_Cons_inj [of nul a a' b b'] by (auto simp: nul_join_def nul_free_def)

text \<open>The same where the second parts hold no zero byte: the last one separates.\<close>

lemma nul_join_inj_right:
  assumes "nul_free b" and "nul_free b'"
  shows "nul_join a b = nul_join a' b' \<longleftrightarrow> a = a' \<and> b = b'"
proof -
  have "rev (nul_join a b) = rev b @ nul # rev a" for a b by (simp add: nul_join_def)
  then have "nul_join a b = nul_join a' b' \<longleftrightarrow> rev b @ nul # rev a = rev b' @ nul # rev a'"
    by (metis rev_rev_ident)
  then show ?thesis
    using append_Cons_inj [of nul "rev b" "rev b'" "rev a" "rev a'"] assms by (auto simp: nul_free_def)
qed

text \<open>
  \<open>strings.TrimSpace\<close> removes the white space of Unicode. In UTF-8 these are six ASCII bytes,
  two sequences of two bytes and the three-byte sequences below. \<open>space_prefix\<close> is the length
  of the white-space rune a string starts with (0 when there is none), and \<open>space_suffix\<close>
  the same on the reversed string.
\<close>

definition ascii_space :: "char \<Rightarrow> bool" where
  "ascii_space c \<longleftrightarrow> c \<in> set [CHR 0x09, CHR 0x0A, CHR 0x0B, CHR 0x0C, CHR 0x0D, CHR 0x20]"

definition space2 :: "char \<Rightarrow> char \<Rightarrow> bool" where
  "space2 a b \<longleftrightarrow> a = CHR 0xC2 \<and> (b = CHR 0x85 \<or> b = CHR 0xA0)"

definition space3 :: "char \<Rightarrow> char \<Rightarrow> char \<Rightarrow> bool" where
  "space3 a b c \<longleftrightarrow>
     (a = CHR 0xE1 \<and> b = CHR 0x9A \<and> c = CHR 0x80) \<or>
     (a = CHR 0xE2 \<and> b = CHR 0x80 \<and>
        (128 \<le> (of_char c :: nat) \<and> (of_char c :: nat) \<le> 138 \<or>
         c \<in> set [CHR 0xA8, CHR 0xA9, CHR 0xAF])) \<or>
     (a = CHR 0xE2 \<and> b = CHR 0x81 \<and> c = CHR 0x9F) \<or>
     (a = CHR 0xE3 \<and> b = CHR 0x80 \<and> c = CHR 0x80)"

fun space_prefix :: "string \<Rightarrow> nat" where
  "space_prefix [] = 0"
| "space_prefix [a] = (if ascii_space a then 1 else 0)"
| "space_prefix [a, b] = (if ascii_space a then 1 else if space2 a b then 2 else 0)"
| "space_prefix (a # b # c # s) =
     (if ascii_space a then 1 else if space2 a b then 2 else if space3 a b c then 3 else 0)"

fun space_suffix :: "string \<Rightarrow> nat" where
  "space_suffix [] = 0"
| "space_suffix [a] = (if ascii_space a then 1 else 0)"
| "space_suffix [b, a] = (if ascii_space b then 1 else if space2 a b then 2 else 0)"
| "space_suffix (c # b # a # s) =
     (if ascii_space c then 1 else if space2 b c then 2 else if space3 a b c then 3 else 0)"

function trim_by :: "(string \<Rightarrow> nat) \<Rightarrow> string \<Rightarrow> string" where
  "trim_by f s = (if s = [] \<or> f s = 0 then s else trim_by f (drop (f s) s))"
  by pat_completeness auto
termination
  by (relation "measure (\<lambda>(f, s). length s)") auto

declare trim_by.simps [simp del]

definition TrimSpace :: "string \<Rightarrow> string" where
  "TrimSpace s = rev (trim_by space_suffix (rev (trim_by space_prefix s)))"

lemma TrimSpace_Nil [simp]: "TrimSpace [] = []"
  by (simp add: TrimSpace_def trim_by.simps)

lemma TrimSpace_nonempty_imp [dest]: "TrimSpace s \<noteq> [] \<Longrightarrow> s \<noteq> []"
  by auto

text \<open>\<open>strings.Cut(s, " ")\<close>: the parts around the first separator, if there is one.\<close>

fun Cut :: "char \<Rightarrow> string \<Rightarrow> (string \<times> string) option" where
  "Cut c [] = None"
| "Cut c (x # xs) = (if x = c then Some ([], xs) else map_option (\<lambda>(a, b). (x # a, b)) (Cut c xs))"

text \<open>ASCII lower case, on which \<open>strings.EqualFold\<close> agrees for the letters of \<open>Bearer\<close>.\<close>

definition ascii_lower :: "char \<Rightarrow> char" where
  "ascii_lower c = (let n = (of_char c :: nat) in if 65 \<le> n \<and> n \<le> 90 then char_of (n + 32) else c)"

definition EqualFold :: "string \<Rightarrow> string \<Rightarrow> bool" where
  "EqualFold a b \<longleftrightarrow> map ascii_lower a = map ascii_lower b"

subsection \<open>Rendering: \<open>%d\<close>, \<open>%q\<close> and the text of an error\<close>

definition dec_digit :: "int \<Rightarrow> char" where
  "dec_digit n = char_of (48 + n)"

function show_uint :: "int \<Rightarrow> string" where
  "show_uint n = (if n < 10 then [dec_digit n] else show_uint (n div 10) @ [dec_digit (n mod 10)])"
  by pat_completeness auto
termination
  by (relation "measure nat") auto

declare show_uint.simps [simp del]

definition show_int :: "int \<Rightarrow> string" where
  "show_int n = (if n < 0 then CHR ''-'' # show_uint (- n) else show_uint n)"

definition read_uint :: "string \<Rightarrow> int" where
  "read_uint s = foldl (\<lambda>a c. 10 * a + (of_char c - 48)) 0 s"

lemma of_char_dec_digit: "0 \<le> n \<Longrightarrow> n < 10 \<Longrightarrow> of_char (dec_digit n) = 48 + n"
  by (simp add: dec_digit_def)

lemma read_show_uint: "0 \<le> n \<Longrightarrow> read_uint (show_uint n) = n"
proof (induction n rule: show_uint.induct)
  case (1 n)
  show ?case
  proof (cases "n < 10")
    case True
    then show ?thesis using 1 by (simp add: show_uint.simps [of n] read_uint_def of_char_dec_digit)
  next
    case False
    then have "read_uint (show_uint (n div 10)) = n div 10" using 1 by simp
    then show ?thesis using False
      by (simp add: show_uint.simps [of n] read_uint_def of_char_dec_digit)
  qed
qed

lemma show_uint_digits: "0 \<le> n \<Longrightarrow> c \<in> set (show_uint n) \<Longrightarrow> 48 \<le> (of_char c :: int) \<and> (of_char c :: int) \<le> 57"
proof (induction n rule: show_uint.induct)
  case (1 n)
  then show ?case
    by (subst (asm) show_uint.simps) (auto simp: of_char_dec_digit split: if_splits)
qed

definition read_int :: "string \<Rightarrow> int" where
  "read_int s = (case s of [] \<Rightarrow> 0 | c # cs \<Rightarrow> if c = CHR ''-'' then - read_uint cs else read_uint s)"

lemma read_show_int: "read_int (show_int n) = n"
proof (cases "n < 0")
  case True
  then show ?thesis by (simp add: read_int_def show_int_def read_show_uint)
next
  case False
  then have "CHR ''-'' \<notin> set (show_uint n)"
    using show_uint_digits [of n "CHR ''-''"] by auto
  moreover have "read_uint (show_uint n) = n" using False by (simp add: read_show_uint)
  moreover have "read_uint [] = 0" by (simp add: read_uint_def)
  ultimately show ?thesis using False
    by (auto simp: read_int_def show_int_def split: list.splits)
qed

lemma show_int_inj: "show_int m = show_int n \<longleftrightarrow> m = n"
  by (metis read_show_int)

definition hex_low :: "int \<Rightarrow> char" where
  "hex_low n = (if n < 10 then char_of (48 + n) else char_of (87 + n))"

text \<open>
  \<open>%q\<close> puts a string in double quotes and escapes quotes, backslashes and control characters;
  bytes from 128 on stand as they are, which is what Go prints for printable UTF-8.
\<close>

definition quote_char :: "char \<Rightarrow> string" where
  "quote_char c =
     (let n = (of_char c :: int); bs = CHR 0x5C in
      if c = CHR 0x22 \<or> c = bs then [bs, c]
      else if c = CHR 0x07 then [bs, CHR ''a''] else if c = CHR 0x08 then [bs, CHR ''b'']
      else if c = CHR 0x0C then [bs, CHR ''f''] else if c = CHR 0x0A then [bs, CHR ''n'']
      else if c = CHR 0x0D then [bs, CHR ''r''] else if c = CHR 0x09 then [bs, CHR ''t'']
      else if c = CHR 0x0B then [bs, CHR ''v'']
      else if n < 32 \<or> n = 127 then [bs, CHR ''x'', hex_low (n div 16), hex_low (n mod 16)]
      else [c])"

definition go_quote :: "string \<Rightarrow> string" where
  "go_quote s = CHR 0x22 # concat (map quote_char s) @ [CHR 0x22]"

definition sentinel_text :: "sentinel \<Rightarrow> string" where
  "sentinel_text s = (case s of
     domain_ErrMissingID \<Rightarrow> ''id is required''
   | domain_ErrMissingTenantID \<Rightarrow> ''tenant id is required''
   | domain_ErrMissingConfigKey \<Rightarrow> ''config key is required''
   | domain_ErrMissingSchema \<Rightarrow> ''schema is required''
   | domain_ErrMissingValue \<Rightarrow> ''value is required''
   | domain_ErrInvalidJSON \<Rightarrow> ''json is invalid''
   | domain_ErrInvalidVersionNumber \<Rightarrow> ''version number must be positive''
   | domain_ErrInvalidEnvironment \<Rightarrow> ''environment is invalid''
   | domain_ErrStableVersionDuringRun \<Rightarrow> ''stable version cannot change while rollout is active''
   | configregistry_ErrAlreadyExists \<Rightarrow> ''already exists''
   | configregistry_ErrNotFound \<Rightarrow> ''not found''
   | configregistry_ErrInvalidInput \<Rightarrow> ''invalid input''
   | configregistry_ErrConflict \<Rightarrow> ''conflict''
   | agentregistry_ErrInvalidInput \<Rightarrow> ''invalid input''
   | agentregistry_ErrUnauthorized \<Rightarrow> ''unauthorized''
   | agentregistry_ErrForbidden \<Rightarrow> ''forbidden''
   | agentregistry_ErrNotFound \<Rightarrow> ''not found''
   | agentregistry_ErrExpiredCredential \<Rightarrow> ''credential expired''
   | rollout_ErrAlreadyExists \<Rightarrow> ''already exists''
   | rollout_ErrNotFound \<Rightarrow> ''not found''
   | rollout_ErrInvalidInput \<Rightarrow> ''invalid input''
   | rollout_ErrConflict \<Rightarrow> ''conflict''
   | guardrail_ErrInvalidInput \<Rightarrow> ''invalid input''
   | guardrail_ErrNoData \<Rightarrow> ''no data''
   | guardrail_ErrMultipleSeries \<Rightarrow> ''multiple series''
   | dataplane_ErrMissingCredential \<Rightarrow> ''missing credential''
   | dataplane_ErrInvalidCredential \<Rightarrow> ''invalid credential''
   | dataplane_ErrForbidden \<Rightarrow> ''credential subject does not match agent''
   | dataplane_ErrSnapshotNotFound \<Rightarrow> ''snapshot not found''
   | agent_ErrNoSnapshot \<Rightarrow> ''no snapshot is available''
   | agent_ErrConfigNotFound \<Rightarrow> ''config not found''
   | agent_ErrBadChecksum \<Rightarrow> ''snapshot checksum is invalid''
   | context_Canceled \<Rightarrow> ''context canceled''
   | context_DeadlineExceeded \<Rightarrow> ''context deadline exceeded'')"

text \<open>Each verb of the format takes the next rendered argument.\<close>

fun fill_format :: "string \<Rightarrow> string list \<Rightarrow> string" where
  "fill_format [] as = []"
| "fill_format [c] as = [c]"
| "fill_format (c # v # s) as =
     (if c = CHR ''%'' then (case as of [] \<Rightarrow> fill_format s [] | a # as' \<Rightarrow> a @ fill_format s as')
      else c # fill_format (v # s) as)"

fun error_text :: "error \<Rightarrow> string"
  and args_text :: "fmtarg list \<Rightarrow> string list"
  and arg_text :: "fmtarg \<Rightarrow> string" where
  "error_text (Sentinel s) = sentinel_text s"
| "error_text (New m) = m"
| "error_text (Errorf f as) = fill_format f (args_text as)"
| "error_text (Foreign m) = m"
| "args_text [] = []"
| "args_text (a # as) = arg_text a # args_text as"
| "arg_text (FW e) = error_text e"
| "arg_text (FV e) = error_text e"
| "arg_text (FQ s) = go_quote s"
| "arg_text (FS s) = s"
| "arg_text (FD i) = show_int i"

lemma error_text_example:
  "error_text (Errorf ''%w: rollout %q'' [FW (Sentinel rollout_ErrNotFound), FQ ''r1'']) =
     ''not found: rollout '' @ [CHR 0x22] @ ''r1'' @ [CHR 0x22]"
  by code_simp

subsection \<open>Integers, times and durations\<close>

text \<open>
  A \<open>time.Time\<close> is its distance in nanoseconds from Go's zero time, so the zero value is 0 and
  \<open>IsZero\<close> is \<open>= 0\<close>; a \<open>time.Duration\<close> is an \<open>int64\<close> number of nanoseconds. \<open>wrap64\<close> is
  the two's complement reading of an integer in 64 bits.
\<close>

type_synonym go_time = int
type_synonym duration = int

definition wrap64 :: "int \<Rightarrow> int" where
  "wrap64 x = (x + 2 ^ 63) mod 2 ^ 64 - 2 ^ 63"

definition in_int64 :: "int \<Rightarrow> bool" where
  "in_int64 x \<longleftrightarrow> - (2 ^ 63) \<le> x \<and> x < 2 ^ 63"

definition time_Sub :: "go_time \<Rightarrow> go_time \<Rightarrow> duration" where
  "time_Sub a b = max (- (2 ^ 63)) (min (2 ^ 63 - 1) (a - b))"

definition Second :: duration where "Second = 1000000000"
definition Minute :: duration where "Minute = 60 * Second"

lemma wrap64_id [simp]: "in_int64 x \<Longrightarrow> wrap64 x = x"
  by (simp add: wrap64_def in_int64_def)

lemma wrap64_range: "in_int64 (wrap64 x)"
proof -
  have "0 \<le> (x + 2 ^ 63) mod 2 ^ 64" and "(x + 2 ^ 63) mod 2 ^ 64 < 2 ^ 64"
    by simp_all
  then show ?thesis by (simp add: wrap64_def in_int64_def)
qed

lemma time_Sub_mono: "a \<le> a' \<Longrightarrow> time_Sub a b \<le> time_Sub a' b"
  by (auto simp: time_Sub_def)

lemma time_Sub_ge_iff: "in_int64 d \<Longrightarrow> d \<le> time_Sub a b \<longleftrightarrow> (d = - (2 ^ 63) \<or> d \<le> a - b)"
  by (auto simp: time_Sub_def in_int64_def)

lemma time_Sub_ge_pos: "0 < d \<Longrightarrow> d < 2 ^ 63 \<Longrightarrow> d \<le> time_Sub a b \<longleftrightarrow> d \<le> a - b"
  by (auto simp: time_Sub_def)

subsection \<open>Sorting\<close>

text \<open>
  \<open>slices.SortFunc\<close> with a comparison of keys. It is not stable, so its result is determined
  only where the keys are distinct; every use in the program sorts by a key that is.
\<close>

lemma sort_key_perm: "mset (sort_key f xs) = mset xs"
  by simp

lemma sort_key_unique:
  fixes f :: "'a \<Rightarrow> 'k::linorder"
  assumes "mset ys = mset xs" and "sorted (map f ys)" and "distinct (map f xs)"
  shows "ys = sort_key f xs"
proof (rule properties_for_sort_key [symmetric])
  show "mset ys = mset xs" by (rule assms(1))
  show "sorted (map f ys)" by (rule assms(2))
  fix k assume "k \<in> set ys"
  have inj: "inj_on f (set xs)" using assms(3) by (simp add: distinct_map)
  have "set ys = set xs" using assms(1) by (rule mset_eq_setD)
  with inj \<open>k \<in> set ys\<close> have "filter (\<lambda>x. f k = f x) zs = filter ((=) k) zs"
    if "set zs = set xs" for zs
    using that by (intro filter_cong refl) (auto dest: inj_onD)
  moreover have "filter ((=) k) ys = filter ((=) k) xs"
    using assms(1) by (metis replicate_count_mset_eq_filter_eq)
  ultimately show "filter (\<lambda>x. f k = f x) ys = filter (\<lambda>x. f k = f x) xs"
    using \<open>set ys = set xs\<close> by simp
qed

end
