(* ===== verification/Json.thy ===== *)
theory Json
  imports Prelude
begin

section \<open>encoding/json: which byte strings are valid JSON\<close>

text \<open>
  \<open>json.Valid\<close> runs the scanner of the standard library over every byte and asks at the end
  whether one complete value was read. The scanner is a state machine with a stack of the
  enclosing objects and arrays (at most 10000 deep); \<open>jstep\<close> is its step function, one
  equation group per state function of the scanner.
\<close>

datatype jctx = ParseObjectKey | ParseObjectValue | ParseArrayValue

datatype jstate =
    BeginValueOrEmpty | BeginValue | BeginStringOrEmpty | BeginString | EndValue | EndTop
  | InString | InStringEsc | InStringEscU nat
  | Neg | Num1 | Num0 | Dot | Dot0 | NumE | NumESign | NumE0
  | Lit string | JErr

definition json_space :: "char \<Rightarrow> bool" where
  "json_space c \<longleftrightarrow> c = CHR 0x20 \<or> c = CHR 0x09 \<or> c = CHR 0x0D \<or> c = CHR 0x0A"

definition json_digit :: "char \<Rightarrow> bool" where
  "json_digit c \<longleftrightarrow> (let n = (of_char c :: int) in 48 \<le> n \<and> n \<le> 57)"

definition json_hex :: "char \<Rightarrow> bool" where
  "json_hex c \<longleftrightarrow> json_digit c \<or>
     (let n = (of_char c :: int) in (97 \<le> n \<and> n \<le> 102) \<or> (65 \<le> n \<and> n \<le> 70))"

definition maxNestingDepth :: int where
  "maxNestingDepth = 10000"

definition jpush :: "jctx \<Rightarrow> jctx list \<Rightarrow> jstate \<Rightarrow> jstate \<times> jctx list" where
  "jpush x st next = (if int (length st) + 1 \<le> maxNestingDepth then (next, x # st) else (JErr, st))"

definition jpop :: "jctx list \<Rightarrow> jstate \<times> jctx list" where
  "jpop st = (if tl st = [] then (EndTop, []) else (EndValue, tl st))"

fun jend_value :: "jctx list \<Rightarrow> char \<Rightarrow> jstate \<times> jctx list" where
  "jend_value [] c = (if json_space c then (EndTop, []) else (JErr, []))"
| "jend_value (p # st) c =
     (if json_space c then (EndValue, p # st)
      else case p of
        ParseObjectKey \<Rightarrow> if c = CHR '':'' then (BeginValue, ParseObjectValue # st) else (JErr, p # st)
      | ParseObjectValue \<Rightarrow>
          if c = CHR '','' then (BeginString, ParseObjectKey # st)
          else if c = CHR 0x7D then jpop (p # st) else (JErr, p # st)
      | ParseArrayValue \<Rightarrow>
          if c = CHR '','' then (BeginValue, p # st)
          else if c = CHR 0x5D then jpop (p # st) else (JErr, p # st))"

definition jbegin_value :: "jctx list \<Rightarrow> char \<Rightarrow> jstate \<times> jctx list" where
  "jbegin_value st c =
     (if json_space c then (BeginValue, st)
      else if c = CHR 0x7B then jpush ParseObjectKey st BeginStringOrEmpty
      else if c = CHR 0x5B then jpush ParseArrayValue st BeginValueOrEmpty
      else if c = CHR 0x22 then (InString, st)
      else if c = CHR ''-'' then (Neg, st)
      else if c = CHR ''0'' then (Num0, st)
      else if c = CHR ''t'' then (Lit ''rue'', st)
      else if c = CHR ''f'' then (Lit ''alse'', st)
      else if c = CHR ''n'' then (Lit ''ull'', st)
      else if json_digit c then (Num1, st)
      else (JErr, st))"

definition jbegin_string :: "jctx list \<Rightarrow> char \<Rightarrow> jstate \<times> jctx list" where
  "jbegin_string st c =
     (if json_space c then (BeginString, st) else if c = CHR 0x22 then (InString, st) else (JErr, st))"

definition jafter_int :: "jctx list \<Rightarrow> char \<Rightarrow> jstate \<times> jctx list" where
  "jafter_int st c =
     (if c = CHR ''.'' then (Dot, st)
      else if c = CHR ''e'' \<or> c = CHR ''E'' then (NumE, st)
      else jend_value st c)"

definition jescape :: "char \<Rightarrow> bool" where
  "jescape c \<longleftrightarrow> c \<in> set [CHR ''b'', CHR ''f'', CHR ''n'', CHR ''r'', CHR ''t'', CHR 0x5C, CHR ''/'', CHR 0x22]"

fun jstep :: "jstate \<times> jctx list \<Rightarrow> char \<Rightarrow> jstate \<times> jctx list" where
  "jstep (BeginValueOrEmpty, st) c =
     (if json_space c then (BeginValueOrEmpty, st)
      else if c = CHR 0x5D then jend_value st c else jbegin_value st c)"
| "jstep (BeginValue, st) c = jbegin_value st c"
| "jstep (BeginStringOrEmpty, st) c =
     (if json_space c then (BeginStringOrEmpty, st)
      else if c = CHR 0x7D then jend_value (ParseObjectValue # tl st) c else jbegin_string st c)"
| "jstep (BeginString, st) c = jbegin_string st c"
| "jstep (EndValue, st) c = jend_value st c"
| "jstep (EndTop, st) c = (if json_space c then (EndTop, st) else (JErr, st))"
| "jstep (InString, st) c =
     (if c = CHR 0x22 then (EndValue, st)
      else if c = CHR 0x5C then (InStringEsc, st)
      else if (of_char c :: int) < 32 then (JErr, st) else (InString, st))"
| "jstep (InStringEsc, st) c =
     (if jescape c then (InString, st)
      else if c = CHR ''u'' then (InStringEscU 4, st) else (JErr, st))"
| "jstep (InStringEscU k, st) c =
     (if json_hex c then (if k \<le> 1 then (InString, st) else (InStringEscU (k - 1), st)) else (JErr, st))"
| "jstep (Neg, st) c =
     (if c = CHR ''0'' then (Num0, st) else if json_digit c then (Num1, st) else (JErr, st))"
| "jstep (Num1, st) c = (if json_digit c then (Num1, st) else jafter_int st c)"
| "jstep (Num0, st) c = jafter_int st c"
| "jstep (Dot, st) c = (if json_digit c then (Dot0, st) else (JErr, st))"
| "jstep (Dot0, st) c =
     (if json_digit c then (Dot0, st)
      else if c = CHR ''e'' \<or> c = CHR ''E'' then (NumE, st) else jend_value st c)"
| "jstep (NumE, st) c =
     (if c = CHR ''+'' \<or> c = CHR ''-'' then (NumESign, st)
      else if json_digit c then (NumE0, st) else (JErr, st))"
| "jstep (NumESign, st) c = (if json_digit c then (NumE0, st) else (JErr, st))"
| "jstep (NumE0, st) c = (if json_digit c then (NumE0, st) else jend_value st c)"
| "jstep (Lit l, st) c =
     (case l of
        [] \<Rightarrow> jend_value st c
      | x # xs \<Rightarrow> if c = x then (if xs = [] then (EndValue, st) else (Lit xs, st)) else (JErr, st))"
| "jstep (JErr, st) c = (JErr, st)"

definition jrun :: "string \<Rightarrow> jstate \<times> jctx list" where
  "jrun s = foldl jstep (BeginValue, []) s"

text \<open>At the end of the input one space is fed to a state that has not reached the end of the value.\<close>

definition json_Valid :: "bytes \<Rightarrow> bool" where
  "json_Valid s = (let q = jrun s in
     fst q = EndTop \<or> (fst q \<noteq> JErr \<and> fst (jstep q (CHR 0x20)) = EndTop))"

lemma jrun_JErr: "foldl jstep (JErr, st) s = (JErr, st)"
  by (induction s) simp_all

lemma json_Valid_Nil [simp]: "\<not> json_Valid []"
  by (simp add: json_Valid_def jrun_def jbegin_value_def json_space_def)

lemma json_Valid_examples:
  "json_Valid ''{}''" "json_Valid '' 0.2 ''" "json_Valid ''[1,-2e3,true]''" "json_Valid ''0''"
  "\<not> json_Valid ''01''" "\<not> json_Valid ''[1,]''" "\<not> json_Valid ''1 2''"
  by code_simp+

end
