(* ===== verification/Domain.thy ===== *)
theory Domain
  imports Prelude Json
begin

section \<open>internal/domain: tenants, definitions, versions, environments, agents\<close>

text \<open>
  The records of \<open>domain/types.go\<close> with one field per struct field, and the validation methods
  of \<open>domain/validation.go\<close>: a method returns \<open>None\<close> where the source returns \<open>nil\<close> and
  \<open>Some e\<close> where it returns the error \<open>e\<close>, its checks in the order of the source. A
  \<open>json.RawMessage\<close> is its byte string, the nil and the empty message being the same empty
  string, and an \<open>Environment\<close> is a string as in the source, valid or not.
\<close>

type_synonym RawMessage = bytes
type_synonym Environment = string

record Tenant =
  tenant_ID :: string
  tenant_Name :: string
  tenant_Description :: string
  tenant_Owner :: string
  tenant_CreatedAt :: go_time
  tenant_UpdatedAt :: go_time

record ConfigDefinition =
  def_ID :: string
  def_TenantID :: string
  def_Key :: string
  def_Description :: string
  def_Schema :: RawMessage
  def_DefaultValue :: RawMessage
  def_CreatedAt :: go_time
  def_UpdatedAt :: go_time

record ConfigVersion =
  ver_ID :: string
  ver_ConfigDefinitionID :: string
  ver_VersionNumber :: int
  ver_Value :: RawMessage
  ver_SourceCommitSHA :: string
  ver_CreatedBy :: string
  ver_CreatedAt :: go_time

definition EnvironmentDevelopment :: Environment where
  "EnvironmentDevelopment = ''development''"

definition EnvironmentStaging :: Environment where
  "EnvironmentStaging = ''staging''"

definition EnvironmentProduction :: Environment where
  "EnvironmentProduction = ''production''"

record ConfigEnvironmentState =
  env_ConfigDefinitionID :: string
  env_Environment :: Environment
  env_StableVersionID :: string
  env_ActiveRolloutID :: string
  env_UpdatedAt :: go_time

record Agent =
  agent_ID :: string
  agent_Service :: string
  agent_Environment :: Environment
  agent_Zone :: string
  agent_Instance :: string
  agent_Labels :: "(string, string) gomap"
  agent_RegisteredAt :: go_time
  agent_LastSeenAt :: go_time

record AgentCredential =
  cred_Token :: string
  cred_AgentID :: string
  cred_ExpiresAt :: go_time
  cred_CreatedAt :: go_time

record AgentAcknowledgement =
  aack_ID :: string
  aack_AgentID :: string
  aack_ConfigDefinitionID :: string
  aack_VersionID :: string
  aack_SnapshotRevision :: int
  aack_Counted :: bool
  aack_CreatedAt :: go_time

subsection \<open>Validation\<close>

definition Tenant_Validate :: "Tenant \<Rightarrow> error option" where
  "Tenant_Validate t =
     (if TrimSpace (tenant_ID t) = [] then Some (Sentinel domain_ErrMissingID)
      else if TrimSpace (tenant_Name t) = [] then Some (New ''tenant name is required'')
      else None)"

definition ConfigDefinition_Validate :: "ConfigDefinition \<Rightarrow> error option" where
  "ConfigDefinition_Validate d =
     (if TrimSpace (def_ID d) = [] then Some (Sentinel domain_ErrMissingID)
      else if TrimSpace (def_TenantID d) = [] then Some (Sentinel domain_ErrMissingTenantID)
      else if TrimSpace (def_Key d) = [] then Some (Sentinel domain_ErrMissingConfigKey)
      else if length (def_Schema d) = 0 then Some (Sentinel domain_ErrMissingSchema)
      else if \<not> json_Valid (def_Schema d)
        then Some (Errorf ''%w: schema'' [FW (Sentinel domain_ErrInvalidJSON)])
      else if length (def_DefaultValue d) > 0 \<and> \<not> json_Valid (def_DefaultValue d)
        then Some (Errorf ''%w: default value'' [FW (Sentinel domain_ErrInvalidJSON)])
      else None)"

definition ConfigVersion_Validate :: "ConfigVersion \<Rightarrow> error option" where
  "ConfigVersion_Validate v =
     (if TrimSpace (ver_ID v) = [] then Some (Sentinel domain_ErrMissingID)
      else if TrimSpace (ver_ConfigDefinitionID v) = []
        then Some (New ''config definition id is required'')
      else if ver_VersionNumber v < 1 then Some (Sentinel domain_ErrInvalidVersionNumber)
      else if length (ver_Value v) = 0 then Some (Sentinel domain_ErrMissingValue)
      else if \<not> json_Valid (ver_Value v)
        then Some (Errorf ''%w: value'' [FW (Sentinel domain_ErrInvalidJSON)])
      else None)"

definition Environment_Validate :: "Environment \<Rightarrow> error option" where
  "Environment_Validate e =
     (if e = EnvironmentDevelopment \<or> e = EnvironmentStaging \<or> e = EnvironmentProduction then None
      else Some (Sentinel domain_ErrInvalidEnvironment))"

definition ConfigEnvironmentState_Validate :: "ConfigEnvironmentState \<Rightarrow> error option" where
  "ConfigEnvironmentState_Validate s =
     (if TrimSpace (env_ConfigDefinitionID s) = [] then Some (New ''config definition id is required'')
      else case Environment_Validate (env_Environment s) of Some e \<Rightarrow> Some e | None \<Rightarrow> None)"

definition WithStableVersion ::
  "ConfigEnvironmentState \<Rightarrow> string \<Rightarrow> error + ConfigEnvironmentState" where
  "WithStableVersion s versionID =
     (if TrimSpace (env_ActiveRolloutID s) \<noteq> [] \<and> env_StableVersionID s \<noteq> versionID
      then Inl (Sentinel domain_ErrStableVersionDuringRun)
      else Inr (s\<lparr>env_StableVersionID := versionID\<rparr>))"

text \<open>\<open>cloneRaw\<close> and \<open>cloneLabels\<close> copy; as values they change nothing.\<close>

definition cloneRaw :: "RawMessage \<Rightarrow> RawMessage" where
  "cloneRaw value = (if length value = 0 then [] else value)"

lemma cloneRaw_id [simp]: "cloneRaw v = v"
  by (simp add: cloneRaw_def)

definition valid_env :: "Environment \<Rightarrow> bool" where
  "valid_env e \<longleftrightarrow> Environment_Validate e = None"

lemma valid_env_cases:
  "valid_env e \<longleftrightarrow> e = ''development'' \<or> e = ''staging'' \<or> e = ''production''"
  by (auto simp: valid_env_def Environment_Validate_def EnvironmentDevelopment_def
      EnvironmentStaging_def EnvironmentProduction_def)

lemma valid_env_nul_free: "valid_env e \<Longrightarrow> nul_free e"
  by (auto simp: valid_env_cases nul_free_def nul_def)

lemma Environment_Validate_Some: "Environment_Validate e = Some x \<Longrightarrow> x = Sentinel domain_ErrInvalidEnvironment"
  by (simp add: Environment_Validate_def split: if_splits)

lemma ConfigVersion_Validate_None:
  "ConfigVersion_Validate v = None \<longleftrightarrow>
     TrimSpace (ver_ID v) \<noteq> [] \<and> TrimSpace (ver_ConfigDefinitionID v) \<noteq> [] \<and>
     1 \<le> ver_VersionNumber v \<and> json_Valid (ver_Value v)"
  by (auto simp: ConfigVersion_Validate_def)

lemma ConfigDefinition_Validate_None:
  "ConfigDefinition_Validate d = None \<longleftrightarrow>
     TrimSpace (def_ID d) \<noteq> [] \<and> TrimSpace (def_TenantID d) \<noteq> [] \<and> TrimSpace (def_Key d) \<noteq> [] \<and>
     json_Valid (def_Schema d) \<and> (def_DefaultValue d = [] \<or> json_Valid (def_DefaultValue d))"
  by (auto simp: ConfigDefinition_Validate_def)

text \<open>
  The guard of \<open>WithStableVersion\<close>: the stable pointer moves unless a rollout is recorded as
  active, and a move to the version it already names always succeeds.
\<close>

lemma WithStableVersion_Inr:
  "WithStableVersion s v = Inr s' \<longleftrightarrow>
     (TrimSpace (env_ActiveRolloutID s) = [] \<or> env_StableVersionID s = v) \<and>
     s' = s\<lparr>env_StableVersionID := v\<rparr>"
  by (auto simp: WithStableVersion_def)

lemma WithStableVersion_same: "WithStableVersion s (env_StableVersionID s) = Inr s"
  by (simp add: WithStableVersion_def)

end
