(* ===== verification/Float64.thy ===== *)
theory Float64
  imports Complex_Main "HOL-Library.Log_Nat"
begin

section \<open>The float64 of Go\<close>

text \<open>
  Acknowledgement percentages and guardrail samples are \<open>float64\<close> values, IEEE 754 binary64.
  A finite value is kept as the rational number it denotes (the two zeros coincide, which no
  comparison of the program can tell apart); every operation rounds its exact result to the
  nearest representable number, ties to even, and overflows to an infinity. The rounding is
  monotone and leaves representable numbers alone: these two facts carry every bound on
  percentages proved later.
\<close>

datatype float64 = Fin rat | PInf | NInf | NaN

definition ilog2 :: "rat \<Rightarrow> int" where
  "ilog2 x = (let (n, d) = quotient_of x; e = bitlen n - bitlen d
              in if x < 2 powi e then e - 1 else e)"

definition round_even :: "rat \<Rightarrow> int" where
  "round_even q = (let f = \<lfloor>q\<rfloor>; r = q - of_int f in
     if r < 1 / 2 then f else if 1 / 2 < r then f + 1 else if even f then f else f + 1)"

definition ulp_exp :: "rat \<Rightarrow> int" where
  "ulp_exp x = max (ilog2 \<bar>x\<bar>) (- 1022) - 52"

definition rnd :: "rat \<Rightarrow> rat" where
  "rnd x = (if x = 0 then 0 else let u = 2 powi (ulp_exp x) in of_int (round_even (x / u)) * u)"

definition to_float64 :: "rat \<Rightarrow> float64" where
  "to_float64 x = (let y = rnd x in
     if 2 ^ 1024 \<le> y then PInf else if y \<le> - (2 ^ 1024) then NInf else Fin y)"

definition f64_of_int :: "int \<Rightarrow> float64" where
  "f64_of_int n = to_float64 (of_int n)"

fun f64_div :: "float64 \<Rightarrow> float64 \<Rightarrow> float64" where
  "f64_div (Fin a) (Fin b) =
     (if b = 0 then (if a = 0 then NaN else if 0 < a then PInf else NInf) else to_float64 (a / b))"
| "f64_div (Fin a) PInf = Fin 0"
| "f64_div (Fin a) NInf = Fin 0"
| "f64_div PInf (Fin b) = (if 0 \<le> b then PInf else NInf)"
| "f64_div NInf (Fin b) = (if 0 \<le> b then NInf else PInf)"
| "f64_div _ _ = NaN"

fun f64_mul :: "float64 \<Rightarrow> float64 \<Rightarrow> float64" where
  "f64_mul (Fin a) (Fin b) = to_float64 (a * b)"
| "f64_mul (Fin a) PInf = (if a = 0 then NaN else if 0 < a then PInf else NInf)"
| "f64_mul (Fin a) NInf = (if a = 0 then NaN else if 0 < a then NInf else PInf)"
| "f64_mul PInf (Fin b) = (if b = 0 then NaN else if 0 < b then PInf else NInf)"
| "f64_mul NInf (Fin b) = (if b = 0 then NaN else if 0 < b then NInf else PInf)"
| "f64_mul PInf PInf = PInf"
| "f64_mul NInf NInf = PInf"
| "f64_mul PInf NInf = NInf"
| "f64_mul NInf PInf = NInf"
| "f64_mul _ _ = NaN"

fun f64_lt :: "float64 \<Rightarrow> float64 \<Rightarrow> bool" where
  "f64_lt (Fin a) (Fin b) = (a < b)"
| "f64_lt (Fin a) PInf = True"
| "f64_lt NInf (Fin b) = True"
| "f64_lt NInf PInf = True"
| "f64_lt _ _ = False"

definition f64_eq :: "float64 \<Rightarrow> float64 \<Rightarrow> bool" where
  "f64_eq a b \<longleftrightarrow> a = b \<and> a \<noteq> NaN"

definition f64_le :: "float64 \<Rightarrow> float64 \<Rightarrow> bool" where
  "f64_le a b \<longleftrightarrow> f64_lt a b \<or> f64_eq a b"

definition is_finite64 :: "float64 \<Rightarrow> bool" where
  "is_finite64 a \<longleftrightarrow> (case a of Fin _ \<Rightarrow> True | _ \<Rightarrow> False)"

lemma f64_le_Fin [simp]: "f64_le (Fin a) (Fin b) \<longleftrightarrow> a \<le> b"
  by (auto simp: f64_le_def f64_eq_def)

lemma f64_le_trans: "f64_le a b \<Longrightarrow> f64_le b c \<Longrightarrow> f64_le a c"
  by (cases a; cases b; cases c) (auto simp: f64_le_def f64_eq_def)

lemma f64_le_total: "a \<noteq> NaN \<Longrightarrow> b \<noteq> NaN \<Longrightarrow> f64_le a b \<or> f64_lt b a"
  by (cases a; cases b) (auto simp: f64_le_def f64_eq_def)

subsection \<open>The binary exponent\<close>

lemma powi_nat: "0 \<le> e \<Longrightarrow> (2::rat) powi e = of_int (2 ^ nat e)"
  by (simp add: power_int_def)

lemma bitlen_powi:
  assumes "0 < n"
  shows "(2::rat) powi (bitlen n - 1) \<le> of_int n \<and> of_int n < (2::rat) powi (bitlen n)"
proof -
  have b: "2 ^ nat (bitlen n - 1) \<le> n" "n < 2 ^ nat (bitlen n)"
    using bitlen_bounds [OF assms] by simp_all
  have pos: "1 \<le> bitlen n"
    using assms bitlen_nonneg [of n] bitlen_eq_zero_iff [of n] by auto
  have "of_int (2 ^ nat (bitlen n - 1)) \<le> (of_int n :: rat)"
    using b(1) by (simp only: of_int_le_iff)
  moreover have "(of_int n :: rat) < of_int (2 ^ nat (bitlen n))"
    using b(2) by (simp only: of_int_less_iff)
  ultimately show ?thesis using pos by (simp only: powi_nat)
qed

lemma ilog2_bounds:
  assumes "0 < x"
  shows "2 powi (ilog2 x) \<le> x \<and> x < 2 powi (ilog2 x + 1)"
proof -
  obtain n d where q: "quotient_of x = (n, d)" by (cases "quotient_of x")
  have d: "0 < d" using q quotient_of_denom_pos by blast
  have x: "x = of_int n / of_int d" using q by (rule quotient_of_div)
  have n: "0 < n" using assms d x by (simp add: zero_less_divide_iff)
  define bn bd where "bn = bitlen n" and "bd = bitlen d"
  have nb: "(2::rat) powi (bn - 1) \<le> of_int n" "of_int n < (2::rat) powi bn"
    using bitlen_powi [OF n] by (simp_all add: bn_def)
  have db: "(2::rat) powi (bd - 1) \<le> of_int d" "of_int d < (2::rat) powi bd"
    using bitlen_powi [OF d] by (simp_all add: bd_def)
  have lo: "(2::rat) powi (bn - bd - 1) \<le> x"
  proof -
    have "(2::rat) powi (bn - bd - 1) * of_int d \<le> 2 powi (bn - bd - 1) * 2 powi bd"
      using db by simp
    also have "\<dots> = (2::rat) powi (bn - 1)" by (simp flip: power_int_add)
    finally have "(2::rat) powi (bn - bd - 1) * of_int d \<le> of_int n" using nb by simp
    then show ?thesis using d by (simp add: x pos_le_divide_eq)
  qed
  have hi: "x < (2::rat) powi (bn - bd + 1)"
  proof -
    have "(2::rat) powi bn = 2 powi (bn - bd + 1) * 2 powi (bd - 1)" by (simp flip: power_int_add)
    also have "\<dots> \<le> (2::rat) powi (bn - bd + 1) * of_int d" using db by simp
    finally have "of_int n < (2::rat) powi (bn - bd + 1) * of_int d" using nb by simp
    then show ?thesis using d by (simp add: x pos_divide_less_eq)
  qed
  show ?thesis using lo hi by (auto simp: ilog2_def q Let_def bn_def bd_def)
qed

lemma powi2_mono: "a \<le> b \<Longrightarrow> (2::rat) powi a \<le> 2 powi b"
  by (simp add: power_int_increasing)

lemma powi2_less_iff: "(2::rat) powi a < 2 powi b \<longleftrightarrow> a < b"
  by (metis leD not_le_imp_less powi2_mono power_int_strict_increasing one_less_numeral_iff semiring_norm(76))

lemma ilog2_mono: "0 < x \<Longrightarrow> x \<le> y \<Longrightarrow> ilog2 x \<le> ilog2 y"
proof -
  assume x: "0 < x" "x \<le> y"
  then have "(2::rat) powi (ilog2 x) < 2 powi (ilog2 y + 1)"
    using ilog2_bounds [of x] ilog2_bounds [of y] by simp
  then show ?thesis by (simp add: powi2_less_iff)
qed

lemma ilog2_less: "0 < x \<Longrightarrow> x < 2 powi e \<Longrightarrow> ilog2 x < e"
proof -
  assume "0 < x" "x < 2 powi e"
  then have "(2::rat) powi (ilog2 x) < 2 powi e" using ilog2_bounds [of x] by simp
  then show ?thesis by (simp add: powi2_less_iff)
qed

subsection \<open>Rounding to nearest, ties to even\<close>

lemma round_even_of_int [simp]: "round_even (of_int n) = n"
  by (simp add: round_even_def)

lemma round_even_bounds: "\<lfloor>q\<rfloor> \<le> round_even q \<and> round_even q \<le> \<lfloor>q\<rfloor> + 1"
  by (simp add: round_even_def Let_def)

lemma round_even_mono:
  assumes "p \<le> q"
  shows "round_even p \<le> round_even q"
proof (cases "\<lfloor>p\<rfloor> = \<lfloor>q\<rfloor>")
  case True
  then show ?thesis using assms by (auto simp: round_even_def Let_def)
next
  case False
  then have "\<lfloor>p\<rfloor> + 1 \<le> \<lfloor>q\<rfloor>" using floor_mono [OF assms] by simp
  then show ?thesis using round_even_bounds [of p] round_even_bounds [of q] by simp
qed

lemma round_even_ge: "of_int n \<le> q \<Longrightarrow> n \<le> round_even q"
  using round_even_mono [of "of_int n" q] by simp

lemma round_even_le: "q \<le> of_int n \<Longrightarrow> round_even q \<le> n"
  using round_even_mono [of q "of_int n"] by simp

lemma rnd_0 [simp]: "rnd 0 = 0"
  by (simp add: rnd_def)

lemma rnd_nonneg: "0 \<le> x \<Longrightarrow> 0 \<le> rnd x"
  using round_even_ge [of 0 "x / 2 powi (ulp_exp x)"] by (simp add: rnd_def Let_def)

lemma rnd_upper:
  assumes "0 < x"
  shows "rnd x \<le> 2 powi (ulp_exp x + 53)"
proof -
  let ?u = "(2::rat) powi (ulp_exp x)"
  have "ilog2 x + 1 \<le> ulp_exp x + 53" using assms by (simp add: ulp_exp_def)
  then have "x \<le> (2::rat) powi (ulp_exp x + 53)"
    using ilog2_bounds [OF assms] powi2_mono [of "ilog2 x + 1" "ulp_exp x + 53"] by linarith
  also have "\<dots> = of_int (2 ^ 53) * ?u" by (simp add: power_int_add)
  finally have "x / ?u \<le> of_int (2 ^ 53)" by (simp add: pos_divide_le_eq)
  then have "round_even (x / ?u) \<le> 2 ^ 53" by (rule round_even_le)
  then have "of_int (round_even (x / ?u)) * ?u \<le> of_int (2 ^ 53) * ?u"
    by (intro mult_right_mono) (simp_all flip: of_int_le_iff)
  then show ?thesis using assms by (simp add: rnd_def Let_def power_int_add)
qed

lemma rnd_lower:
  assumes "0 < x" and "- 1022 \<le> ilog2 x"
  shows "2 powi (ulp_exp x + 52) \<le> rnd x"
proof -
  let ?u = "(2::rat) powi (ulp_exp x)"
  have "(2::rat) powi (ulp_exp x + 52) \<le> x"
    using assms ilog2_bounds [OF assms(1)] by (simp add: ulp_exp_def)
  moreover have "(2::rat) powi (ulp_exp x + 52) = of_int (2 ^ 52) * ?u" by (simp add: power_int_add)
  ultimately have "of_int (2 ^ 52) \<le> x / ?u" by (simp add: pos_le_divide_eq)
  then have "2 ^ 52 \<le> round_even (x / ?u)" by (rule round_even_ge)
  then have "of_int (2 ^ 52) * ?u \<le> of_int (round_even (x / ?u)) * ?u"
    by (intro mult_right_mono) (simp_all flip: of_int_le_iff)
  then show ?thesis using assms by (simp add: rnd_def Let_def power_int_add)
qed

lemma rnd_mono:
  assumes "0 \<le> x" and "x \<le> y"
  shows "rnd x \<le> rnd y"
proof (cases "x = 0")
  case True
  then show ?thesis using assms rnd_nonneg by simp
next
  case False
  then have x: "0 < x" and y: "0 < y" using assms by simp_all
  have le: "ilog2 x \<le> ilog2 y" using x assms(2) by (rule ilog2_mono)
  show ?thesis
  proof (cases "ulp_exp x = ulp_exp y")
    case True
    have "round_even (x / 2 powi (ulp_exp y)) \<le> round_even (y / 2 powi (ulp_exp y))"
      using assms(2) by (intro round_even_mono divide_right_mono) simp_all
    then show ?thesis using x y True
      by (simp add: rnd_def Let_def mult_right_mono flip: of_int_le_iff)
  next
    case False
    then have lt: "ulp_exp x < ulp_exp y" and big: "- 1022 \<le> ilog2 y"
      using le x y by (auto simp: ulp_exp_def)
    have "rnd x \<le> 2 powi (ulp_exp x + 53)" using x by (rule rnd_upper)
    also have "\<dots> \<le> 2 powi (ulp_exp y + 52)" using lt by (intro powi2_mono) simp
    also have "\<dots> \<le> rnd y" using y big by (rule rnd_lower)
    finally show ?thesis .
  qed
qed

subsection \<open>Representable numbers\<close>

definition f64_repr :: "rat \<Rightarrow> bool" where
  "f64_repr x \<longleftrightarrow> (\<exists>m e. x = of_int m * 2 powi e \<and> \<bar>m\<bar> < 2 ^ 53 \<and> - 1074 \<le> e)"

lemma rnd_repr:
  assumes "f64_repr x"
  shows "rnd x = x"
proof (cases "x = 0")
  case False
  obtain m e where x: "x = of_int m * 2 powi e" and m: "\<bar>m\<bar> < 2 ^ 53" and e: "- 1074 \<le> e"
    using assms by (auto simp: f64_repr_def)
  have "\<bar>x\<bar> = of_int \<bar>m\<bar> * 2 powi e" by (simp add: x abs_mult)
  also have "\<dots> < of_int (2 ^ 53) * 2 powi e"
    using m by (intro mult_strict_right_mono) (simp_all flip: of_int_less_iff)
  also have "\<dots> = (2::rat) powi (e + 53)" by (simp add: power_int_add)
  finally have "ilog2 \<bar>x\<bar> < e + 53" using False by (intro ilog2_less) simp_all
  then have "ulp_exp x \<le> e" using e by (simp add: ulp_exp_def)
  moreover define k where "k = ulp_exp x"
  ultimately obtain j where j: "e = k + int j" by (metis zle_iff_zadd)
  have x': "x = of_int (m * 2 ^ j) * 2 powi k"
    using x unfolding j by (simp add: power_int_add)
  have "rnd x = of_int (round_even (x / 2 powi k)) * 2 powi k"
    using False by (simp add: rnd_def Let_def k_def)
  also have "x / 2 powi k = of_int (m * 2 ^ j)"
    using x' by (metis nonzero_mult_div_cancel_right power_int_not_zero zero_neq_numeral)
  also have "of_int (round_even (of_int (m * 2 ^ j))) * 2 powi k = x"
    unfolding round_even_of_int using x' by (rule sym)
  finally show ?thesis .
qed simp

lemma f64_repr_int: "\<bar>n\<bar> < 2 ^ 53 \<Longrightarrow> f64_repr (of_int n)"
  unfolding f64_repr_def by (intro exI [of _ n] exI [of _ 0]) simp

lemma to_float64_repr: "f64_repr x \<Longrightarrow> \<bar>x\<bar> < 2 ^ 1024 \<Longrightarrow> to_float64 x = Fin x"
  by (auto simp: to_float64_def rnd_repr Let_def)

lemma f64_of_int_exact: "\<bar>n\<bar> < 2 ^ 53 \<Longrightarrow> f64_of_int n = Fin (of_int n)"
proof -
  assume n: "\<bar>n\<bar> < 2 ^ 53"
  have "\<bar>of_int n :: rat\<bar> = of_int \<bar>n\<bar>" by simp
  also have "\<dots> < of_int (2 ^ 53)" using n by (simp only: of_int_less_iff)
  also have "\<dots> < (2::rat) ^ 1024" by (simp add: power_strict_increasing)
  finally show ?thesis using n by (simp add: f64_of_int_def to_float64_repr f64_repr_int)
qed

text \<open>An equation for evaluation: small integers, which are most of what the program computes, need no rounding.\<close>

lemma to_float64_code [code]:
  "to_float64 x = (case quotient_of x of (n, d) \<Rightarrow>
     if d = 1 \<and> \<bar>n\<bar> < 9007199254740992 then Fin x
     else let y = rnd x in if 2 ^ 1024 \<le> y then PInf else if y \<le> - (2 ^ 1024) then NInf else Fin y)"
proof -
  obtain n d where q: "quotient_of x = (n, d)" by (cases "quotient_of x")
  have "to_float64 x = Fin x" if "d = 1" "\<bar>n\<bar> < 2 ^ 53"
    using f64_of_int_exact [OF that(2)] quotient_of_div [OF q] that(1) by (simp add: f64_of_int_def)
  then show ?thesis by (simp add: q to_float64_def)
qed

lemma to_float64_between:
  assumes "0 \<le> x" and "x \<le> c" and "f64_repr c" and "c < 2 ^ 1024"
  shows "to_float64 x = Fin (rnd x) \<and> 0 \<le> rnd x \<and> rnd x \<le> c"
proof -
  have "rnd x \<le> rnd c" using assms by (intro rnd_mono)
  then have le: "rnd x \<le> c" using assms by (simp add: rnd_repr)
  have ge: "0 \<le> rnd x" using assms by (intro rnd_nonneg)
  have "\<not> rnd x \<le> - (2 ^ 1024)" using ge by (simp add: not_le order.strict_trans2)
  then show ?thesis using le ge assms by (simp add: to_float64_def Let_def)
qed

end
