(* ===== verification/Guardrail.thy ===== *)
theory Guardrail
  imports Prelude Float64
begin

section \<open>internal/guardrail: rules, their evaluation, and Prometheus answers\<close>

text \<open>
  The types and functions of \<open>guardrail/types.go\<close>, \<open>guardrail/evaluator.go\<close> and the decoding half
  of \<open>guardrail/prometheus.go\<close>. An operator is a string, as in the source, so that an
  unsupported one can be written and is rejected. The HTTP round trip to Prometheus and the
  decoding of its JSON are a parameter of the query function; what the code does with the
  answer (status checks, the shape of the result, one series only) is defined here.
\<close>

datatype Status = StatusHealthy | StatusUnhealthy | StatusUnknown

type_synonym Operator = string

definition OperatorLessThan :: Operator where "OperatorLessThan = ''<''"
definition OperatorLessThanOrEqual :: Operator where "OperatorLessThanOrEqual = ''<=''"
definition OperatorGreaterThan :: Operator where "OperatorGreaterThan = ''>''"
definition OperatorGreaterThanOrEqual :: Operator where "OperatorGreaterThanOrEqual = ''>=''"
definition OperatorEqual :: Operator where "OperatorEqual = ''==''"
definition OperatorNotEqual :: Operator where "OperatorNotEqual = ''!=''"

lemmas operator_defs =
  OperatorLessThan_def OperatorLessThanOrEqual_def OperatorGreaterThan_def
  OperatorGreaterThanOrEqual_def OperatorEqual_def OperatorNotEqual_def

record Rule =
  rule_Name :: string
  rule_Query :: string
  rule_Operator :: Operator
  rule_Threshold :: float64
  rule_ConsecutiveFailures :: int

record Evaluation =
  eval_Name :: string
  eval_Query :: string
  eval_Status :: Status
  eval_Value :: float64
  eval_Threshold :: float64
  eval_Operator :: Operator
  eval_ConsecutiveFailures :: int
  eval_RequiredConsecutiveFailures :: int
  eval_Reason :: string
  eval_ObservedAt :: go_time

definition validOperator :: "Operator \<Rightarrow> bool" where
  "validOperator op \<longleftrightarrow> op \<in> set [OperatorLessThan, OperatorLessThanOrEqual, OperatorGreaterThan,
     OperatorGreaterThanOrEqual, OperatorEqual, OperatorNotEqual]"

definition Rule_Validate :: "Rule \<Rightarrow> error option" where
  "Rule_Validate r =
     (if rule_Name r = [] then
        Some (Errorf ''%w: guardrail name is required'' [FW (Sentinel guardrail_ErrInvalidInput)])
      else if \<not> validOperator (rule_Operator r) then
        Some (Errorf ''%w: unsupported guardrail operator %q''
          [FW (Sentinel guardrail_ErrInvalidInput), FQ (rule_Operator r)])
      else if rule_ConsecutiveFailures r < 0 then
        Some (Errorf ''%w: consecutive failures cannot be negative'' [FW (Sentinel guardrail_ErrInvalidInput)])
      else None)"

definition requiredFailures :: "Rule \<Rightarrow> int" where
  "requiredFailures r = (if rule_ConsecutiveFailures r = 0 then 1 else rule_ConsecutiveFailures r)"

definition Compare :: "float64 \<Rightarrow> Operator \<Rightarrow> float64 \<Rightarrow> bool" where
  "Compare value op threshold =
     (if op = OperatorLessThan then f64_lt value threshold
      else if op = OperatorLessThanOrEqual then f64_le value threshold
      else if op = OperatorGreaterThan then f64_lt threshold value
      else if op = OperatorGreaterThanOrEqual then f64_le threshold value
      else if op = OperatorEqual then f64_eq value threshold
      else if op = OperatorNotEqual then \<not> f64_eq value threshold
      else False)"

definition Unknown :: "Rule \<Rightarrow> int \<Rightarrow> string \<Rightarrow> go_time \<Rightarrow> error + Evaluation" where
  "Unknown rule previousFailures reason observedAt =
     (case Rule_Validate rule of
        Some e \<Rightarrow> Inl e
      | None \<Rightarrow>
          if previousFailures < 0 then
            Inl (Errorf ''%w: previous failures cannot be negative'' [FW (Sentinel guardrail_ErrInvalidInput)])
          else
            Inr \<lparr>eval_Name = rule_Name rule,
                 eval_Query = rule_Query rule,
                 eval_Status = StatusUnknown,
                 eval_Value = Fin 0,
                 eval_Threshold = rule_Threshold rule,
                 eval_Operator = rule_Operator rule,
                 eval_ConsecutiveFailures = previousFailures,
                 eval_RequiredConsecutiveFailures = requiredFailures rule,
                 eval_Reason = (if reason = [] then ''guardrail status is unknown'' else reason),
                 eval_ObservedAt = observedAt\<rparr>)"

definition Evaluate :: "Rule \<Rightarrow> float64 \<Rightarrow> int \<Rightarrow> go_time \<Rightarrow> error + Evaluation" where
  "Evaluate rule value previousFailures observedAt =
     (case Rule_Validate rule of
        Some e \<Rightarrow> Inl e
      | None \<Rightarrow>
          if previousFailures < 0 then
            Inl (Errorf ''%w: previous failures cannot be negative'' [FW (Sentinel guardrail_ErrInvalidInput)])
          else if \<not> is_finite64 value then
            Unknown rule previousFailures ''guardrail sample is not finite'' observedAt
          else
            (let passed = Compare value (rule_Operator rule) (rule_Threshold rule);
                 required = requiredFailures rule;
                 result = \<lparr>eval_Name = rule_Name rule,
                           eval_Query = rule_Query rule,
                           eval_Status = StatusHealthy,
                           eval_Value = value,
                           eval_Threshold = rule_Threshold rule,
                           eval_Operator = rule_Operator rule,
                           eval_ConsecutiveFailures = 0,
                           eval_RequiredConsecutiveFailures = required,
                           eval_Reason = [],
                           eval_ObservedAt = observedAt\<rparr>
             in if passed then Inr result
                else let failures = wrap64 (previousFailures + 1);
                         result = result\<lparr>eval_ConsecutiveFailures := failures\<rparr>
                     in if required \<le> failures
                        then Inr (result\<lparr>eval_Status := StatusUnhealthy,
                                         eval_Reason := ''guardrail threshold violated''\<rparr>)
                        else Inr (result\<lparr>eval_Reason :=
                          ''guardrail threshold violated below consecutive failure threshold''\<rparr>)))"

definition EvaluateQueryResult ::
  "Rule \<Rightarrow> float64 \<Rightarrow> error option \<Rightarrow> int \<Rightarrow> go_time \<Rightarrow> error + Evaluation" where
  "EvaluateQueryResult rule value queryErr previousFailures observedAt =
     (case queryErr of
        Some e \<Rightarrow> Unknown rule previousFailures (error_text e) observedAt
      | None \<Rightarrow> Evaluate rule value previousFailures observedAt)"

fun aggregate_loop :: "Status \<Rightarrow> Evaluation list \<Rightarrow> Status" where
  "aggregate_loop status [] = status"
| "aggregate_loop status (e # es) =
     (if eval_Status e = StatusUnhealthy then StatusUnhealthy
      else aggregate_loop (if eval_Status e = StatusUnknown then StatusUnknown else status) es)"

definition AggregateStatus :: "Evaluation list \<Rightarrow> Status" where
  "AggregateStatus evaluations = aggregate_loop StatusHealthy evaluations"

subsection \<open>What an evaluation says\<close>

lemma Rule_Validate_None:
  "Rule_Validate r = None \<longleftrightarrow> rule_Name r \<noteq> [] \<and> validOperator (rule_Operator r) \<and> 0 \<le> rule_ConsecutiveFailures r"
  by (auto simp: Rule_Validate_def)

lemma Rule_Validate_Some: "Rule_Validate r = Some e \<Longrightarrow> errors_Is e guardrail_ErrInvalidInput"
  by (auto simp: Rule_Validate_def split: if_splits)

lemma requiredFailures_pos: "Rule_Validate r = None \<Longrightarrow> 1 \<le> requiredFailures r"
  by (auto simp: Rule_Validate_None requiredFailures_def)

lemma aggregate_loop_Unhealthy:
  "aggregate_loop s es = StatusUnhealthy \<longleftrightarrow>
     s = StatusUnhealthy \<and> (\<forall>e \<in> set es. eval_Status e = StatusHealthy) \<or>
     (\<exists>e \<in> set es. eval_Status e = StatusUnhealthy)"
proof (induction es arbitrary: s)
  case (Cons e es)
  then show ?case by (cases "eval_Status e") auto
qed simp

lemma aggregate_loop_Healthy:
  "aggregate_loop s es = StatusHealthy \<longleftrightarrow> s = StatusHealthy \<and> (\<forall>e \<in> set es. eval_Status e = StatusHealthy)"
proof (induction es arbitrary: s)
  case (Cons e es)
  then show ?case by (cases "eval_Status e") auto
qed simp

lemma AggregateStatus_Unhealthy:
  "AggregateStatus es = StatusUnhealthy \<longleftrightarrow> (\<exists>e \<in> set es. eval_Status e = StatusUnhealthy)"
  by (auto simp: AggregateStatus_def aggregate_loop_Unhealthy)

lemma AggregateStatus_Healthy:
  "AggregateStatus es = StatusHealthy \<longleftrightarrow> (\<forall>e \<in> set es. eval_Status e = StatusHealthy)"
  by (simp add: AggregateStatus_def aggregate_loop_Healthy)

subsection \<open>A rule over a sequence of samples\<close>

text \<open>
  The failure counter of a rule passes from one evaluation to the next (\<open>evaluateGuardrails\<close> of
  the rollout service stores it with the rollout). \<open>observe\<close> evaluates a sequence of answers of the
  metrics source in this way, an answer being an error or a sample.
\<close>

type_synonym answer = "error + float64"

definition EvaluateAnswer :: "Rule \<Rightarrow> answer \<Rightarrow> int \<Rightarrow> go_time \<Rightarrow> error + Evaluation" where
  "EvaluateAnswer rule a previousFailures observedAt =
     (case a of Inl e \<Rightarrow> EvaluateQueryResult rule (Fin 0) (Some e) previousFailures observedAt
      | Inr v \<Rightarrow> EvaluateQueryResult rule v None previousFailures observedAt)"

fun observe :: "Rule \<Rightarrow> go_time \<Rightarrow> int \<Rightarrow> answer list \<Rightarrow> error + Evaluation list" where
  "observe rule t failures [] = Inr []"
| "observe rule t failures (a # as) =
     (case EvaluateAnswer rule a failures t of
        Inl e \<Rightarrow> Inl e
      | Inr ev \<Rightarrow> (case observe rule t (eval_ConsecutiveFailures ev) as of Inl e \<Rightarrow> Inl e | Inr evs \<Rightarrow> Inr (ev # evs)))"

definition passes :: "Rule \<Rightarrow> answer \<Rightarrow> bool" where
  "passes rule a = (case a of Inl _ \<Rightarrow> False | Inr v \<Rightarrow> is_finite64 v \<and> Compare v (rule_Operator rule) (rule_Threshold rule))"

definition violates :: "Rule \<Rightarrow> answer \<Rightarrow> bool" where
  "violates rule a = (case a of Inl _ \<Rightarrow> False | Inr v \<Rightarrow> is_finite64 v \<and> \<not> Compare v (rule_Operator rule) (rule_Threshold rule))"

text \<open>The specification of the counter: the violations since the last sample that passed, where answers
  without a finite sample count neither way.\<close>

definition violations_since_pass :: "Rule \<Rightarrow> answer list \<Rightarrow> nat" where
  "violations_since_pass rule as = length (filter (violates rule) (takeWhile (\<lambda>a. \<not> passes rule a) (rev as)))"

lemma Unknown_Inr:
  "Unknown rule p reason t = Inr e \<Longrightarrow> eval_Name e = rule_Name rule \<and> eval_Status e = StatusUnknown \<and> eval_ConsecutiveFailures e = p"
  by (auto simp: Unknown_def split: option.splits if_splits)

lemma EvaluateQueryResult_Inr: "EvaluateQueryResult rule v qe p t = Inr e \<Longrightarrow> eval_Name e = rule_Name rule"
  by (auto simp: EvaluateQueryResult_def Evaluate_def Unknown_Inr Let_def split: option.splits if_splits dest: Unknown_Inr)

lemma EvaluateAnswer_valid:
  assumes "Rule_Validate rule = None" and "0 \<le> p" and "p < 2 ^ 63 - 1"
  shows "\<exists>e. EvaluateAnswer rule a p t = Inr e \<and>
     eval_ConsecutiveFailures e = (if passes rule a then 0 else if violates rule a then p + 1 else p) \<and>
     eval_Status e = (if passes rule a then StatusHealthy
       else if violates rule a then (if requiredFailures rule \<le> p + 1 then StatusUnhealthy else StatusHealthy)
       else StatusUnknown)"
proof -
  have "wrap64 (p + 1) = p + 1" using assms(2,3) by (intro wrap64_id) (simp add: in_int64_def)
  then show ?thesis using assms(1,2)
    by (cases a) (auto simp: EvaluateAnswer_def EvaluateQueryResult_def Evaluate_def Unknown_def passes_def violates_def Let_def)
qed

lemma violations_since_pass_snoc:
  "violations_since_pass rule (as @ [a]) =
     (if passes rule a then 0 else violations_since_pass rule as + (if violates rule a then 1 else 0))"
  by (simp add: violations_since_pass_def)

lemma violations_bound: "violations_since_pass rule as \<le> length as"
proof -
  have "violations_since_pass rule as \<le> length (takeWhile (\<lambda>a. \<not> passes rule a) (rev as))"
    unfolding violations_since_pass_def by (rule length_filter_le)
  also have "\<dots> \<le> length (rev as)" by (rule length_takeWhile_le)
  finally show ?thesis by simp
qed

definition verdict :: "Rule \<Rightarrow> answer list \<Rightarrow> Status" where
  "verdict rule as =
     (if passes rule (last as) then StatusHealthy
      else if violates rule (last as) then
        (if requiredFailures rule \<le> int (violations_since_pass rule as) then StatusUnhealthy else StatusHealthy)
      else StatusUnknown)"

lemma observe_from:
  assumes "Rule_Validate rule = None" and "length pre + length as < 2 ^ 63 - 1"
  shows "\<exists>evs. observe rule t (int (violations_since_pass rule pre)) as = Inr evs \<and> length evs = length as \<and>
    (\<forall>k < length as. eval_ConsecutiveFailures (evs ! k) = int (violations_since_pass rule (pre @ take (Suc k) as)) \<and>
       eval_Status (evs ! k) = verdict rule (pre @ take (Suc k) as))"
  using assms(2)
proof (induction as arbitrary: pre)
  case Nil
  then show ?case by simp
next
  case (Cons a as)
  let ?v = "violations_since_pass rule"
  have "int (?v pre) < 2 ^ 63 - 1" using violations_bound [of rule pre] Cons.prems by simp
  then obtain e where e: "EvaluateAnswer rule a (int (?v pre)) t = Inr e"
      "eval_ConsecutiveFailures e = int (?v (pre @ [a]))" "eval_Status e = verdict rule (pre @ [a])"
    using EvaluateAnswer_valid [OF assms(1), of "int (?v pre)" a t]
    by (auto simp: violations_since_pass_snoc verdict_def add.commute)
  obtain evs where evs: "observe rule t (int (?v (pre @ [a]))) as = Inr evs" "length evs = length as"
      "\<forall>k < length as. eval_ConsecutiveFailures (evs ! k) = int (?v (pre @ a # take (Suc k) as)) \<and>
         eval_Status (evs ! k) = verdict rule (pre @ a # take (Suc k) as)"
    using Cons.IH [of "pre @ [a]"] Cons.prems by auto
  have "eval_ConsecutiveFailures ((e # evs) ! k) = int (?v (pre @ take (Suc k) (a # as))) \<and>
      eval_Status ((e # evs) ! k) = verdict rule (pre @ take (Suc k) (a # as))" if "k < length (a # as)" for k
    using that e evs(3) by (cases k) simp_all
  then show ?case using e(1,2) evs(1,2) by auto
qed

text \<open>C11 (equivalence). Over any sequence of answers of the metrics source, evaluated one after the other with the
  counter carried along, the failure counter of a valid rule is at each answer the number of violating samples
  since the last passing one, errors and non-finite samples counting neither way; and the status is unhealthy exactly
  when the answer is a violating sample and this number has reached the required consecutive failures, unknown exactly when
  the answer has no finite sample, and healthy otherwise.\<close>
theorem guardrail_counts_violations_since_pass:
  assumes "Rule_Validate rule = None" and "length as < 2 ^ 63 - 1" and "k < length as"
  shows "\<exists>evs. observe rule t 0 as = Inr evs \<and> length evs = length as \<and>
    eval_ConsecutiveFailures (evs ! k) = int (violations_since_pass rule (take (Suc k) as)) \<and>
    eval_Status (evs ! k) = verdict rule (take (Suc k) as)"
  using observe_from [OF assms(1), of "[]" as t] assms(2,3) by (auto simp: violations_since_pass_def)

theorem guardrail_counts_violations_since_pass_witness:
  "\<exists>rule as evs. Rule_Validate rule = None \<and> length as = 4 \<and> observe rule 7 0 as = Inr evs \<and>
     eval_ConsecutiveFailures (evs ! 3) = 2 \<and> eval_Status (evs ! 3) = StatusUnhealthy"
proof -
  define rule where "rule = \<lparr>rule_Name = ''error-rate'', rule_Query = ''q'', rule_Operator = ''<'', rule_Threshold = Fin 2, rule_ConsecutiveFailures = 2\<rparr>"
  define as :: "answer list" where "as = [Inr (Fin 1), Inr (Fin 3), Inl (Errorf ''unavailable'' []), Inr (Fin 4)]"
  have v: "Rule_Validate rule = None" unfolding rule_def by code_simp
  have n: "length as = 4" by (simp add: as_def)
  have c: "violations_since_pass rule (take (Suc 3) as) = 2" "verdict rule (take (Suc 3) as) = StatusUnhealthy"
    unfolding rule_def as_def by code_simp+
  show ?thesis using guardrail_counts_violations_since_pass [OF v, of as 3 7] n c v by fastforce
qed

end
