(* ===== verification/Sha256.thy ===== *)
theory Sha256
  imports Main "HOL-Library.Word"
begin

section \<open>The digests of the standard library: crypto/sha256, encoding/hex, encoding/binary\<close>

text \<open>
  Rollout cohorts are cut by a SHA-256 digest, snapshot items carry one as checksum and ETags
  are built from one. The hash is defined as FIPS 180-4 gives it, on 32-bit words, so that
  nothing about it is assumed: what later theories need of it is only that it is a function
  into 32 bytes.
\<close>

unbundle bit_operations_syntax

type_synonym u32 = "32 word"
type_synonym byte = "8 word"

definition rotr :: "nat \<Rightarrow> u32 \<Rightarrow> u32" where
  "rotr n x = drop_bit n x OR push_bit (32 - n) x"

definition sha_ch :: "u32 \<Rightarrow> u32 \<Rightarrow> u32 \<Rightarrow> u32" where
  "sha_ch x y z = (x AND y) XOR (NOT x AND z)"

definition sha_maj :: "u32 \<Rightarrow> u32 \<Rightarrow> u32 \<Rightarrow> u32" where
  "sha_maj x y z = (x AND y) XOR (x AND z) XOR (y AND z)"

definition bsig0 :: "u32 \<Rightarrow> u32" where "bsig0 x = rotr 2 x XOR rotr 13 x XOR rotr 22 x"
definition bsig1 :: "u32 \<Rightarrow> u32" where "bsig1 x = rotr 6 x XOR rotr 11 x XOR rotr 25 x"
definition ssig0 :: "u32 \<Rightarrow> u32" where "ssig0 x = rotr 7 x XOR rotr 18 x XOR drop_bit 3 x"
definition ssig1 :: "u32 \<Rightarrow> u32" where "ssig1 x = rotr 17 x XOR rotr 19 x XOR drop_bit 10 x"

definition sha_k :: "u32 list" where
  "sha_k = [1116352408, 1899447441, 3049323471, 3921009573, 961987163, 1508970993, 2453635748,
     2870763221, 3624381080, 310598401, 607225278, 1426881987, 1925078388, 2162078206,
     2614888103, 3248222580, 3835390401, 4022224774, 264347078, 604807628, 770255983,
     1249150122, 1555081692, 1996064986, 2554220882, 2821834349, 2952996808, 3210313671,
     3336571891, 3584528711, 113926993, 338241895, 666307205, 773529912, 1294757372,
     1396182291, 1695183700, 1986661051, 2177026350, 2456956037, 2730485921, 2820302411,
     3259730800, 3345764771, 3516065817, 3600352804, 4094571909, 275423344, 430227734,
     506948616, 659060556, 883997877, 958139571, 1322822218, 1537002063, 1747873779,
     1955562222, 2024104815, 2227730452, 2361852424, 2428436474, 2756734187, 3204031479,
     3329325298]"

definition sha_h0 :: "u32 list" where
  "sha_h0 = [1779033703, 3144134277, 1013904242, 2773480762, 1359893119, 2600822924, 528734635,
     1541459225]"

text \<open>
  The constants are the first 32 bits of the fractional parts of the cube roots of the first
  sixty-four primes, and of the square roots of the first eight; the tables above are checked
  against that description.
\<close>

definition first_primes :: "int list" where
  "first_primes = [2, 3, 5, 7, 11, 13, 17, 19, 23, 29, 31, 37, 41, 43, 47, 53, 59, 61, 67, 71, 73, 79,
     83, 89, 97, 101, 103, 107, 109, 113, 127, 131, 137, 139, 149, 151, 157, 163, 167, 173, 179, 181,
     191, 193, 197, 199, 211, 223, 227, 229, 233, 239, 241, 251, 257, 263, 269, 271, 277, 281, 283,
     293, 307, 311]"

definition root_fraction :: "nat \<Rightarrow> int \<Rightarrow> u32 \<Rightarrow> bool" where
  "root_fraction e p k \<longleftrightarrow>
     list_ex (\<lambda>c. (c * 4294967296 + uint k) ^ e \<le> p * 4294967296 ^ e \<and>
                   p * 4294967296 ^ e < (c * 4294967296 + uint k + 1) ^ e) [1, 2, 3, 4, 5, 6]"

lemma sha_k_cube_roots: "list_all2 (root_fraction 3) first_primes sha_k"
  by code_simp

lemma sha_h0_square_roots: "list_all2 (root_fraction 2) (take 8 first_primes) sha_h0"
  by code_simp

text \<open>The message schedule, newest word first.\<close>

fun sha_expand :: "nat \<Rightarrow> u32 list \<Rightarrow> u32 list" where
  "sha_expand 0 ws = rev ws"
| "sha_expand (Suc n) ws =
     sha_expand n ((ssig1 (ws ! 1) + ws ! 6 + ssig0 (ws ! 14) + ws ! 15) # ws)"

fun sha_rounds :: "(u32 \<times> u32) list \<Rightarrow> u32 list \<Rightarrow> u32 list" where
  "sha_rounds ((k, w) # kws) [a, b, c, d, e, f, g, h] =
     (let t1 = h + bsig1 e + sha_ch e f g + k + w;
          t2 = bsig0 a + sha_maj a b c
      in sha_rounds kws [t1 + t2, a, b, c, d + t1, e, f, g])"
| "sha_rounds _ hs = hs"

definition sha_block :: "u32 list \<Rightarrow> u32 list \<Rightarrow> u32 list" where
  "sha_block hs ws = map2 (+) hs (sha_rounds (zip sha_k (sha_expand 48 (rev ws))) hs)"

fun sha_blocks :: "u32 list \<Rightarrow> u32 list list \<Rightarrow> u32 list" where
  "sha_blocks hs [] = hs"
| "sha_blocks hs (b # bs) = sha_blocks (sha_block hs b) bs"

fun be32 :: "byte list \<Rightarrow> u32 list" where
  "be32 (a # b # c # d # bs) = (push_bit 24 (ucast a) OR push_bit 16 (ucast b) OR push_bit 8 (ucast c) OR ucast d) # be32 bs"
| "be32 _ = []"

function chunks16 :: "'a list \<Rightarrow> 'a list list" where
  "chunks16 xs = (if length xs < 16 then [] else take 16 xs # chunks16 (drop 16 xs))"
  by pat_completeness auto
termination
  by (relation "measure length") auto

declare chunks16.simps [simp del]

definition be64_bytes :: "int \<Rightarrow> byte list" where
  "be64_bytes n = map (\<lambda>i. word_of_int (n div 256 ^ i)) [7,6,5,4,3,2,1,0]"

definition sha_pad :: "byte list \<Rightarrow> byte list" where
  "sha_pad bs = bs @ 0x80 # replicate ((119 - length bs mod 64) mod 64) 0 @ be64_bytes (8 * int (length bs))"

definition sum256 :: "byte list \<Rightarrow> byte list" where
  "sum256 bs = concat (map (\<lambda>w::u32. map (\<lambda>i. ucast (drop_bit i w)) [24,16,8,0]) (sha_blocks sha_h0 (chunks16 (be32 (sha_pad bs)))))"

subsection \<open>Hexadecimal and big-endian readings\<close>

definition bytes_of :: "string \<Rightarrow> byte list" where
  "bytes_of s = map of_char s"

definition hex_alphabet :: string where
  "hex_alphabet = ''0123456789abcdef''"

definition hex_digit :: "nat \<Rightarrow> char" where
  "hex_digit n = hex_alphabet ! n"

definition hex_EncodeToString :: "byte list \<Rightarrow> string" where
  "hex_EncodeToString bs = concat (map (\<lambda>b. [hex_digit (unat b div 16), hex_digit (unat b mod 16)]) bs)"

definition BigEndian_Uint64 :: "byte list \<Rightarrow> 64 word" where
  "BigEndian_Uint64 bs = foldl (\<lambda>acc b. push_bit 8 acc OR ucast b) 0 (take 8 bs)"

lemma length_sha_rounds: "length hs = 8 \<Longrightarrow> length (sha_rounds kws hs) = 8"
  by (induction kws hs rule: sha_rounds.induct) (auto simp: Let_def)

lemma length_sha_blocks: "length hs = 8 \<Longrightarrow> length (sha_blocks hs bs) = 8"
  by (induction hs bs rule: sha_blocks.induct) (auto simp: sha_block_def length_sha_rounds)

lemma length_sum256 [simp]: "length (sum256 bs) = 32"
proof -
  have "length (sha_blocks sha_h0 (chunks16 (be32 (sha_pad bs)))) = 8"
    by (rule length_sha_blocks) (simp add: sha_h0_def)
  then show ?thesis by (simp add: sum256_def length_concat o_def sum_list_triv)
qed

lemma hex_digit_mem: "n < 16 \<Longrightarrow> hex_digit n \<in> set hex_alphabet"
  unfolding hex_digit_def by (rule nth_mem) (simp add: hex_alphabet_def)

lemma hex_EncodeToString_chars: "set (hex_EncodeToString bs) \<subseteq> set hex_alphabet"
proof -
  have "unat b < 256" for b :: byte
    using unsigned_less [of b, where ?'a = nat] by simp
  then have "unat b div 16 < 16" "unat b mod 16 < 16" for b :: byte
    by (simp_all add: less_mult_imp_div_less)
  then show ?thesis by (auto simp: hex_EncodeToString_def hex_digit_mem)
qed

lemma length_hex [simp]: "length (hex_EncodeToString bs) = 2 * length bs"
  by (induction bs) (auto simp: hex_EncodeToString_def)

end
