(* ===== verification/Rollout_Core.thy ===== *)
theory Rollout_Core
  imports Domain Guardrail Sha256
begin

section \<open>internal/rollout: stages, buckets, targets, coverage, decisions\<close>

text \<open>
  The pure half of the rollout package: \<open>state.go\<close> (the transition table), \<open>bucket.go\<close>
  (deterministic assignment), \<open>stage.go\<close> (stage plans), \<open>target.go\<close> (stage targets,
  acknowledgements, coverage), \<open>promotion.go\<close> (the decision of a stage) and \<open>effective.go\<close>
  (the version an agent is served). The service that drives them is in \<open>Rollout_Service\<close>.
\<close>

subsection \<open>state.go\<close>

text \<open>\<open>StateUnset\<close> is the empty string, the state of a zero \<open>Rollout\<close>.\<close>

datatype State =
    StateUnset | StatePending | StateValidating | StateReady | StateDeploying | StateEvaluating
  | StatePromoting | StatePaused | StateCompleted | StateRollingBack | StateRolledBack
  | StateFailed

fun allowedTransitions :: "State \<Rightarrow> State list" where
  "allowedTransitions StatePending = [StateValidating]"
| "allowedTransitions StateValidating = [StateReady]"
| "allowedTransitions StateReady = [StateDeploying]"
| "allowedTransitions StateDeploying = [StateEvaluating, StatePaused, StateRollingBack]"
| "allowedTransitions StateEvaluating = [StatePromoting, StatePaused, StateRollingBack, StateCompleted]"
| "allowedTransitions StatePromoting = [StateDeploying, StateRollingBack]"
| "allowedTransitions StatePaused = [StateEvaluating, StateRollingBack]"
| "allowedTransitions StateRollingBack = [StateRolledBack]"
| "allowedTransitions _ = []"

definition CanTransition :: "State \<Rightarrow> State \<Rightarrow> bool" where
  "CanTransition from to \<longleftrightarrow> to \<in> set (allowedTransitions from)"

fun state_text :: "State \<Rightarrow> string" where
  "state_text StateUnset = []"
| "state_text StatePending = ''PENDING''"
| "state_text StateValidating = ''VALIDATING''"
| "state_text StateReady = ''READY''"
| "state_text StateDeploying = ''DEPLOYING''"
| "state_text StateEvaluating = ''EVALUATING''"
| "state_text StatePromoting = ''PROMOTING''"
| "state_text StatePaused = ''PAUSED''"
| "state_text StateCompleted = ''COMPLETED''"
| "state_text StateRollingBack = ''ROLLING_BACK''"
| "state_text StateRolledBack = ''ROLLED_BACK''"
| "state_text StateFailed = ''FAILED''"

definition Transition :: "State \<Rightarrow> State \<Rightarrow> error option" where
  "Transition from to =
     (if CanTransition from to then None
      else Some (Errorf ''invalid rollout state transition: %s -> %s'' [FS (state_text from), FS (state_text to)]))"

definition Terminal :: "State \<Rightarrow> bool" where
  "Terminal s \<longleftrightarrow> s = StateCompleted \<or> s = StateRolledBack \<or> s = StateFailed"

lemma Terminal_simps [simp]:
  "Terminal StateCompleted" "Terminal StateRolledBack" "Terminal StateFailed"
  "\<not> Terminal StateDeploying" "\<not> Terminal StatePaused" "\<not> Terminal StateRollingBack"
  "\<not> Terminal StatePending" "\<not> Terminal StateValidating" "\<not> Terminal StateReady"
  "\<not> Terminal StateEvaluating" "\<not> Terminal StatePromoting" "\<not> Terminal StateUnset"
  by (simp_all add: Terminal_def)

lemma Transition_None [simp]: "Transition a b = None \<longleftrightarrow> CanTransition a b"
  by (simp add: Transition_def)

lemma terminal_no_transition: "Terminal s \<Longrightarrow> \<not> CanTransition s t"
  by (auto simp: Terminal_def CanTransition_def)

subsection \<open>stage.go\<close>

record Stage =
  stage_ID :: string
  stage_Percentage :: int
  stage_MinimumDuration :: duration

definition DefaultStagePlan :: "Stage list" where
  "DefaultStagePlan =
     [\<lparr>stage_ID = ''stage-5'', stage_Percentage = 5, stage_MinimumDuration = Minute\<rparr>,
      \<lparr>stage_ID = ''stage-25'', stage_Percentage = 25, stage_MinimumDuration = 2 * Minute\<rparr>,
      \<lparr>stage_ID = ''stage-100'', stage_Percentage = 100, stage_MinimumDuration = 3 * Minute\<rparr>]"

fun stage_loop :: "int \<Rightarrow> Stage list \<Rightarrow> error option" where
  "stage_loop previous [] = None"
| "stage_loop previous (s # ss) =
     (if stage_ID s = [] then Some (New ''stage id is required'')
      else if stage_Percentage s \<le> 0 \<or> stage_Percentage s > 100 then
        Some (Errorf ''invalid stage percentage: %d'' [FD (stage_Percentage s)])
      else if stage_Percentage s \<le> previous then Some (New ''stage percentages must increase'')
      else stage_loop (stage_Percentage s) ss)"

definition ValidateStagePlan :: "Stage list \<Rightarrow> error option" where
  "ValidateStagePlan stages =
     (if length stages = 0 then Some (New ''stage plan is required'')
      else case stage_loop 0 stages of
        Some e \<Rightarrow> Some e
      | None \<Rightarrow> if stage_Percentage (last stages) \<noteq> 100 then Some (New ''final stage must be 100 percent'')
               else None)"

subsection \<open>bucket.go\<close>

definition BucketCount :: int where
  "BucketCount = 10000"

record AssignmentKey =
  key_ConfigDefinitionID :: string
  key_CandidateVersionID :: string
  key_AgentID :: string

definition bucket_number :: "AssignmentKey \<Rightarrow> 64 word" where
  "bucket_number key = BigEndian_Uint64 (take 8 (sum256 (bytes_of
     (key_ConfigDefinitionID key @ nul # key_CandidateVersionID key @ nul # key_AgentID key))))"

definition Bucket :: "AssignmentKey \<Rightarrow> error + int" where
  "Bucket key =
     (if key_ConfigDefinitionID key = [] then Inl (New ''config definition id is required'')
      else if key_CandidateVersionID key = [] then Inl (New ''candidate version id is required'')
      else if key_AgentID key = [] then Inl (New ''agent id is required'')
      else Inr (uint (bucket_number key mod word_of_int BucketCount)))"

definition Eligible :: "int \<Rightarrow> int \<Rightarrow> bool" where
  "Eligible bucket percentage =
     (if percentage \<le> 0 then False
      else if percentage \<ge> 100 then bucket \<ge> 0 \<and> bucket < BucketCount
      else bucket \<ge> 0 \<and> bucket < percentage * 100)"

subsection \<open>target.go\<close>

datatype TargetStatus = TargetPending | TargetAcked

datatype RollbackStatus = RollbackStatusNone | RollbackStatusVerified | RollbackStatusPartial

record Rollout =
  ro_ID :: string
  ro_ConfigDefinitionID :: string
  ro_TenantID :: string
  ro_ConfigKey :: string
  ro_Environment :: Environment
  ro_TargetServices :: "string list"
  ro_StableVersionID :: string
  ro_CandidateVersionID :: string
  ro_CandidateVersion :: int
  ro_State :: State
  ro_CurrentStageID :: string
  ro_CurrentStageIndex :: int
  ro_RequiredAckPercent :: float64
  ro_Guardrails :: "Rule list"
  ro_GuardrailFailures :: "(string, int) gomap"
  ro_StageStartedAt :: go_time
  ro_DeploymentTimeout :: duration
  ro_RolloutMaxDuration :: duration
  ro_RollbackTimeout :: duration
  ro_RollbackStatus :: RollbackStatus
  ro_CreatedAt :: go_time
  ro_UpdatedAt :: go_time

record StageTarget =
  tgt_RolloutID :: string
  tgt_StageID :: string
  tgt_AgentID :: string
  tgt_Bucket :: int
  tgt_ExpectedVersionID :: string
  tgt_SnapshotRevision :: int
  tgt_CreatedAt :: go_time
  tgt_AckedAt :: go_time
  tgt_Status :: TargetStatus

record BuildTargetsInput =
  bti_Rollout :: Rollout
  bti_Stage :: Stage
  bti_Agents :: "Agent list"
  bti_SnapshotRevision :: int
  bti_CreatedAt :: go_time

definition agent_key :: "BuildTargetsInput \<Rightarrow> Agent \<Rightarrow> AssignmentKey" where
  "agent_key input agent =
     \<lparr>key_ConfigDefinitionID = ro_ConfigDefinitionID (bti_Rollout input),
      key_CandidateVersionID = ro_CandidateVersionID (bti_Rollout input),
      key_AgentID = agent_ID agent\<rparr>"

definition new_target :: "BuildTargetsInput \<Rightarrow> Agent \<Rightarrow> int \<Rightarrow> StageTarget" where
  "new_target input agent bucket =
     \<lparr>tgt_RolloutID = ro_ID (bti_Rollout input),
      tgt_StageID = stage_ID (bti_Stage input),
      tgt_AgentID = agent_ID agent,
      tgt_Bucket = bucket,
      tgt_ExpectedVersionID = ro_CandidateVersionID (bti_Rollout input),
      tgt_SnapshotRevision = bti_SnapshotRevision input,
      tgt_CreatedAt = bti_CreatedAt input,
      tgt_AckedAt = 0,
      tgt_Status = TargetPending\<rparr>"

fun targets_loop :: "BuildTargetsInput \<Rightarrow> Agent list \<Rightarrow> error + StageTarget list" where
  "targets_loop input [] = Inr []"
| "targets_loop input (agent # agents) =
     (case Bucket (agent_key input agent) of
        Inl e \<Rightarrow> Inl e
      | Inr bucket \<Rightarrow>
          (case targets_loop input agents of
             Inl e \<Rightarrow> Inl e
           | Inr ts \<Rightarrow>
               if \<not> Eligible bucket (stage_Percentage (bti_Stage input)) then Inr ts
               else Inr (new_target input agent bucket # ts)))"

definition target_order :: "StageTarget \<Rightarrow> int \<times> string" where
  "target_order t = (tgt_Bucket t, tgt_AgentID t)"

definition BuildStageTargets :: "BuildTargetsInput \<Rightarrow> error + StageTarget list" where
  "BuildStageTargets input =
     (if ro_ID (bti_Rollout input) = [] then Inl (New ''rollout id is required'')
      else if ro_ConfigDefinitionID (bti_Rollout input) = [] then Inl (New ''config definition id is required'')
      else if ro_CandidateVersionID (bti_Rollout input) = [] then Inl (New ''candidate version id is required'')
      else if stage_ID (bti_Stage input) = [] then Inl (New ''stage id is required'')
      else if bti_SnapshotRevision input < 1 then Inl (New ''snapshot revision must be positive'')
      else case targets_loop input (bti_Agents input) of
        Inl e \<Rightarrow> Inl e
      | Inr targets \<Rightarrow> Inr (sort_key target_order targets))"

record Ack =
  ack_RolloutID :: string
  ack_StageID :: string
  ack_AgentID :: string
  ack_VersionID :: string
  ack_SnapshotRevision :: int
  ack_AckedAt :: go_time

definition ack_matches :: "StageTarget \<Rightarrow> Ack \<Rightarrow> bool" where
  "ack_matches target ack \<longleftrightarrow>
     \<not> (tgt_RolloutID target \<noteq> ack_RolloutID ack \<or>
        tgt_StageID target \<noteq> ack_StageID ack \<or>
        tgt_ExpectedVersionID target \<noteq> ack_VersionID ack \<or>
        tgt_SnapshotRevision target \<noteq> ack_SnapshotRevision ack)"

text \<open>The targets are updated in place, so the function returns the slice it leaves behind.\<close>

fun ApplyAck :: "StageTarget list \<Rightarrow> Ack \<Rightarrow> bool \<times> StageTarget list" where
  "ApplyAck [] ack = (False, [])"
| "ApplyAck (target # targets) ack =
     (if tgt_AgentID target \<noteq> ack_AgentID ack then
        (case ApplyAck targets ack of (counted, ts) \<Rightarrow> (counted, target # ts))
      else if \<not> ack_matches target ack then (False, target # targets)
      else if tgt_Status target = TargetAcked then (False, target # targets)
      else (True, target\<lparr>tgt_Status := TargetAcked, tgt_AckedAt := ack_AckedAt ack\<rparr> # targets))"

record Coverage =
  cov_Total :: int
  cov_Acked :: int
  cov_Percentage :: float64

fun acked_loop :: "int \<Rightarrow> StageTarget list \<Rightarrow> int" where
  "acked_loop n [] = n"
| "acked_loop n (t # ts) = acked_loop (if tgt_Status t = TargetAcked then n + 1 else n) ts"

definition AcknowledgementCoverage :: "StageTarget list \<Rightarrow> Coverage" where
  "AcknowledgementCoverage targets =
     (let total = int (length targets); acked = acked_loop 0 targets in
      \<lparr>cov_Total = total, cov_Acked = acked,
       cov_Percentage =
         (if total > 0 then f64_mul (f64_div (f64_of_int acked) (f64_of_int total)) (Fin 100) else Fin 0)\<rparr>)"

definition CoverageReached :: "StageTarget list \<Rightarrow> float64 \<Rightarrow> bool" where
  "CoverageReached targets required =
     (let coverage = AcknowledgementCoverage targets in
      if cov_Total coverage = 0 then False else f64_le required (cov_Percentage coverage))"

subsection \<open>promotion.go\<close>

datatype StageDecision = DecisionWait | DecisionPromote | DecisionPause | DecisionRollback

record StageProgressInput =
  spi_Targets :: "StageTarget list"
  spi_RequiredAckPercentage :: float64
  spi_StageStartedAt :: go_time
  spi_Now :: go_time
  spi_MinimumDuration :: duration
  spi_DeploymentTimeout :: duration

definition EvaluateStageProgress :: "StageProgressInput \<Rightarrow> StageDecision" where
  "EvaluateStageProgress input =
     (let elapsed = time_Sub (spi_Now input) (spi_StageStartedAt input);
          coverageReached = CoverageReached (spi_Targets input) (spi_RequiredAckPercentage input)
      in if coverageReached \<and> elapsed \<ge> spi_MinimumDuration input then DecisionPromote
         else if \<not> coverageReached \<and> spi_DeploymentTimeout input > 0 \<and> elapsed \<ge> spi_DeploymentTimeout input
           then DecisionRollback
         else DecisionWait)"

subsection \<open>effective.go\<close>

record EffectiveVersion =
  eff_VersionID :: string
  eff_AssignedRollout :: string
  eff_AssignedStage :: string
  eff_SnapshotRevision :: int

definition stable_effective :: "Rollout \<Rightarrow> EffectiveVersion" where
  "stable_effective r =
     \<lparr>eff_VersionID = ro_StableVersionID r, eff_AssignedRollout = [], eff_AssignedStage = [], eff_SnapshotRevision = 0\<rparr>"

definition servesCandidate :: "State \<Rightarrow> bool" where
  "servesCandidate s \<longleftrightarrow> s \<in> set [StateDeploying, StateEvaluating, StatePromoting, StatePaused]"

fun rollbackVerificationVersionForAgent :: "Rollout \<Rightarrow> StageTarget list \<Rightarrow> string \<Rightarrow> EffectiveVersion" where
  "rollbackVerificationVersionForAgent r [] agentID = stable_effective r"
| "rollbackVerificationVersionForAgent r (t # ts) agentID =
     (if tgt_AgentID t \<noteq> agentID then rollbackVerificationVersionForAgent r ts agentID
      else if tgt_RolloutID t \<noteq> ro_ID r \<or> tgt_StageID t \<noteq> ro_CurrentStageID r
        then rollbackVerificationVersionForAgent r ts agentID
      else if tgt_ExpectedVersionID t \<noteq> ro_StableVersionID r then stable_effective r
      else \<lparr>eff_VersionID = ro_StableVersionID r, eff_AssignedRollout = tgt_RolloutID t,
            eff_AssignedStage = tgt_StageID t, eff_SnapshotRevision = tgt_SnapshotRevision t\<rparr>)"

fun candidate_loop :: "Rollout \<Rightarrow> StageTarget list \<Rightarrow> string \<Rightarrow> EffectiveVersion" where
  "candidate_loop r [] agentID = stable_effective r"
| "candidate_loop r (t # ts) agentID =
     (if tgt_AgentID t \<noteq> agentID then candidate_loop r ts agentID
      else if tgt_RolloutID t \<noteq> ro_ID r \<or> tgt_StageID t \<noteq> ro_CurrentStageID r
        then candidate_loop r ts agentID
      else \<lparr>eff_VersionID = tgt_ExpectedVersionID t, eff_AssignedRollout = tgt_RolloutID t,
            eff_AssignedStage = tgt_StageID t, eff_SnapshotRevision = tgt_SnapshotRevision t\<rparr>)"

definition EffectiveVersionForAgent :: "Rollout \<Rightarrow> StageTarget list \<Rightarrow> string \<Rightarrow> EffectiveVersion" where
  "EffectiveVersionForAgent r targets agentID =
     (if ro_State r = StateRollingBack then rollbackVerificationVersionForAgent r targets agentID
      else if \<not> servesCandidate (ro_State r) then stable_effective r
      else candidate_loop r targets agentID)"

section \<open>What the pure functions guarantee\<close>

subsection \<open>Buckets and cohorts\<close>

lemma uint_mod_bucket: "uint (w mod word_of_int BucketCount :: 64 word) = uint w mod BucketCount"
  by (simp add: BucketCount_def uint_mod)

lemma Bucket_Inr:
  "Bucket key = Inr b \<longleftrightarrow>
     key_ConfigDefinitionID key \<noteq> [] \<and> key_CandidateVersionID key \<noteq> [] \<and> key_AgentID key \<noteq> [] \<and>
     b = uint (bucket_number key) mod BucketCount"
  by (auto simp: Bucket_def uint_mod_bucket)

lemma Bucket_range: "Bucket key = Inr b \<Longrightarrow> 0 \<le> b \<and> b < BucketCount"
  by (auto simp: Bucket_Inr BucketCount_def)

lemma Eligible_mono: "p \<le> q \<Longrightarrow> Eligible b p \<Longrightarrow> Eligible b q"
  by (auto simp: Eligible_def BucketCount_def split: if_splits)

lemma Eligible_100: "100 \<le> p \<Longrightarrow> Eligible b p \<longleftrightarrow> 0 \<le> b \<and> b < BucketCount"
  by (simp add: Eligible_def)

definition bucket_of :: "BuildTargetsInput \<Rightarrow> Agent \<Rightarrow> int" where
  "bucket_of input a = (case Bucket (agent_key input a) of Inr b \<Rightarrow> b | Inl _ \<Rightarrow> 0)"

definition in_cohort :: "BuildTargetsInput \<Rightarrow> Agent \<Rightarrow> bool" where
  "in_cohort input a \<longleftrightarrow> Eligible (bucket_of input a) (stage_Percentage (bti_Stage input))"

lemma targets_loop_Inr:
  "targets_loop input as = Inr ts \<longleftrightarrow>
     (\<forall>a \<in> set as. \<exists>b. Bucket (agent_key input a) = Inr b) \<and>
     ts = map (\<lambda>a. new_target input a (bucket_of input a)) (filter (in_cohort input) as)"
proof (induction as arbitrary: ts)
  case (Cons a as)
  show ?case
  proof (cases "Bucket (agent_key input a)")
    case (Inr b)
    then have b: "bucket_of input a = b" by (simp add: bucket_of_def)
    show ?thesis
    proof (cases "targets_loop input as")
      case (Inl e)
      then have "\<not> (\<forall>a \<in> set as. \<exists>b. Bucket (agent_key input a) = Inr b)"
        by (metis Cons.IH sum.distinct(1))
      with Inl Inr show ?thesis by auto
    next
      case (Inr us)
      with Cons.IH [of us] \<open>Bucket (agent_key input a) = Inr b\<close> b show ?thesis
        by (auto simp: in_cohort_def)
    qed
  qed simp
qed auto

lemma agent_key_simps [simp]:
  "key_ConfigDefinitionID (agent_key i a) = ro_ConfigDefinitionID (bti_Rollout i)"
  "key_CandidateVersionID (agent_key i a) = ro_CandidateVersionID (bti_Rollout i)"
  "key_AgentID (agent_key i a) = agent_ID a"
  by (simp_all add: agent_key_def)

lemma BuildStageTargets_Inr:
  "BuildStageTargets input = Inr ts \<longleftrightarrow>
     ro_ID (bti_Rollout input) \<noteq> [] \<and> ro_ConfigDefinitionID (bti_Rollout input) \<noteq> [] \<and>
     ro_CandidateVersionID (bti_Rollout input) \<noteq> [] \<and> stage_ID (bti_Stage input) \<noteq> [] \<and>
     1 \<le> bti_SnapshotRevision input \<and> (\<forall>a \<in> set (bti_Agents input). agent_ID a \<noteq> []) \<and>
     ts = sort_key target_order (map (\<lambda>a. new_target input a (bucket_of input a))
            (filter (in_cohort input) (bti_Agents input)))"
proof (cases "targets_loop input (bti_Agents input)")
  case (Inl e)
  then have "\<not> (\<forall>a \<in> set (bti_Agents input). \<exists>b. Bucket (agent_key input a) = Inr b)"
    by (metis sum.distinct(1) targets_loop_Inr)
  with Inl show ?thesis by (auto simp: BuildStageTargets_def Bucket_Inr)
next
  case (Inr us)
  with Inr [unfolded targets_loop_Inr] show ?thesis
    by (auto simp: BuildStageTargets_def Bucket_Inr)
qed

lemma set_BuildStageTargets:
  assumes "BuildStageTargets input = Inr ts"
  shows "set ts = (\<lambda>a. new_target input a (bucket_of input a)) ` {a \<in> set (bti_Agents input). in_cohort input a}"
  using assms by (auto simp: BuildStageTargets_Inr)

lemma new_target_simps [simp]:
  "tgt_RolloutID (new_target i a b) = ro_ID (bti_Rollout i)"
  "tgt_StageID (new_target i a b) = stage_ID (bti_Stage i)"
  "tgt_AgentID (new_target i a b) = agent_ID a"
  "tgt_Bucket (new_target i a b) = b"
  "tgt_ExpectedVersionID (new_target i a b) = ro_CandidateVersionID (bti_Rollout i)"
  "tgt_SnapshotRevision (new_target i a b) = bti_SnapshotRevision i"
  "tgt_Status (new_target i a b) = TargetPending"
  by (simp_all add: new_target_def)

lemma mset_target_agents:
  assumes "BuildStageTargets input = Inr ts"
  shows "mset (map tgt_AgentID ts) = mset (map agent_ID (filter (in_cohort input) (bti_Agents input)))"
proof -
  let ?us = "map (\<lambda>a. new_target input a (bucket_of input a)) (filter (in_cohort input) (bti_Agents input))"
  have "mset (map tgt_AgentID ts) = image_mset tgt_AgentID (mset ?us)"
    using assms by (simp only: BuildStageTargets_Inr mset_map mset_sort)
  also have "\<dots> = mset (map tgt_AgentID ?us)" by (simp only: mset_map)
  also have "map tgt_AgentID ?us = map agent_ID (filter (in_cohort input) (bti_Agents input))" by simp
  finally show ?thesis .
qed

lemma BuildStageTargets_distinct:
  assumes "BuildStageTargets input = Inr ts" and "distinct (map agent_ID (bti_Agents input))"
  shows "distinct (map tgt_AgentID ts)"
proof -
  have "distinct (map agent_ID (filter (in_cohort input) (bti_Agents input)))"
    using assms(2) by (rule distinct_map_filter)
  then show ?thesis using mset_target_agents [OF assms(1)] by (metis mset_eq_imp_distinct_iff)
qed

subsection \<open>Stage plans\<close>

lemma stage_loop_None:
  "stage_loop p ss = None \<longleftrightarrow>
     (\<forall>s \<in> set ss. stage_ID s \<noteq> [] \<and> 0 < stage_Percentage s \<and> stage_Percentage s \<le> 100) \<and>
     sorted_wrt (<) (map stage_Percentage ss) \<and> (\<forall>s \<in> set ss. p < stage_Percentage s)"
proof (induction ss arbitrary: p)
  case (Cons s ss)
  then show ?case by (auto simp: Cons.IH intro: order.strict_trans)
qed simp

lemma ValidateStagePlan_None:
  "ValidateStagePlan ss = None \<longleftrightarrow>
     ss \<noteq> [] \<and> (\<forall>s \<in> set ss. stage_ID s \<noteq> [] \<and> 0 < stage_Percentage s \<and> stage_Percentage s \<le> 100) \<and>
     sorted_wrt (<) (map stage_Percentage ss) \<and> stage_Percentage (last ss) = 100"
proof -
  have "(\<forall>s \<in> set ss. stage_ID s \<noteq> [] \<and> 0 < stage_Percentage s \<and> stage_Percentage s \<le> 100) \<and>
      sorted_wrt (<) (map stage_Percentage ss) \<longleftrightarrow> stage_loop 0 ss = None"
    by (auto simp: stage_loop_None)
  then show ?thesis by (auto simp: ValidateStagePlan_def split: option.splits)
qed

subsection \<open>Acknowledgements\<close>

definition is_acked :: "StageTarget \<Rightarrow> bool" where
  "is_acked t \<longleftrightarrow> tgt_Status t = TargetAcked"

definition acked_count :: "StageTarget list \<Rightarrow> nat" where
  "acked_count ts = length (filter is_acked ts)"

lemma acked_loop_count: "acked_loop n ts = n + int (acked_count ts)"
  by (induction n ts rule: acked_loop.induct) (auto simp: acked_count_def is_acked_def)

lemma acked_count_le: "acked_count ts \<le> length ts"
  by (simp add: acked_count_def)

lemma acked_count_full: "acked_count ts = length ts \<longleftrightarrow> (\<forall>t \<in> set ts. is_acked t)"
proof -
  have "length (filter is_acked ts) < length ts" if "t \<in> set ts" "\<not> is_acked t" for t
    using that by (rule length_filter_less)
  then show ?thesis by (force simp: acked_count_def)
qed

text \<open>The fields of a target that identify it, everything but the acknowledgement.\<close>

definition tgt_identity :: "StageTarget \<Rightarrow> StageTarget" where
  "tgt_identity t = t\<lparr>tgt_Status := TargetPending, tgt_AckedAt := 0\<rparr>"

lemma ApplyAck_not_counted: "ApplyAck ts a = (False, ts') \<Longrightarrow> ts' = ts"
  by (induction ts arbitrary: ts') (auto split: if_splits prod.splits)

lemma ApplyAck_identity: "map tgt_identity (snd (ApplyAck ts a)) = map tgt_identity ts"
  by (induction ts) (auto simp: tgt_identity_def split: prod.splits)

lemma ApplyAck_length: "length (snd (ApplyAck ts a)) = length ts"
  using ApplyAck_identity [of ts a] by (metis length_map)

lemma ApplyAck_count:
  "ApplyAck ts a = (c, ts') \<Longrightarrow> acked_count ts' = acked_count ts + (if c then 1 else 0)"
proof (induction ts arbitrary: ts' c)
  case (Cons t ts)
  then show ?case
    by (fastforce simp: acked_count_def is_acked_def split: if_splits prod.splits)
qed (simp add: acked_count_def)

lemma ApplyAck_again: "ApplyAck ts a = (c, ts') \<Longrightarrow> ApplyAck ts' a = (False, ts')"
proof (induction ts arbitrary: ts' c)
  case (Cons t ts)
  then show ?case
    by (auto simp: ack_matches_def split: if_splits prod.splits)
qed simp

lemma ApplyAck_counted_iff:
  assumes "distinct (map tgt_AgentID ts)"
  shows "fst (ApplyAck ts a) \<longleftrightarrow>
    (\<exists>t \<in> set ts. tgt_AgentID t = ack_AgentID a \<and> ack_matches t a \<and> tgt_Status t = TargetPending)"
  using assms
proof (induction ts)
  case (Cons t ts)
  have "tgt_AgentID t = ack_AgentID a \<Longrightarrow> \<forall>u \<in> set ts. tgt_AgentID u \<noteq> ack_AgentID a"
    using Cons.prems by force
  then show ?case using Cons
    by (cases "tgt_Status t") (auto split: prod.splits)
qed simp

subsection \<open>Coverage\<close>

lemma Coverage_simps [simp]:
  "cov_Total (AcknowledgementCoverage ts) = int (length ts)"
  "cov_Acked (AcknowledgementCoverage ts) = int (acked_count ts)"
  by (simp_all add: AcknowledgementCoverage_def acked_loop_count Let_def)

definition percent :: "nat \<Rightarrow> nat \<Rightarrow> rat" where
  "percent acked tot = rnd (rnd (of_nat acked / of_nat tot) * 100)"

lemma nat_lt_2_53: "n < 2 ^ 53 \<Longrightarrow> \<bar>int n\<bar> < 2 ^ 53"
  by simp

lemma percent_facts:
  assumes "acked \<le> tot" and "0 < tot" and "tot < 2 ^ 53"
  shows "f64_mul (f64_div (f64_of_int (int acked)) (f64_of_int (int tot))) (Fin 100) = Fin (percent acked tot)"
    and "0 \<le> percent acked tot" and "percent acked tot \<le> 100"
proof -
  let ?q = "of_nat acked / of_nat tot :: rat"
  have repr1: "f64_repr 1" "f64_repr 100"
    using f64_repr_int [of 1] f64_repr_int [of 100] by simp_all
  have small: "(1::rat) < 2 ^ 1024" "(100::rat) < 2 ^ 1024"
    by (simp_all add: less_le_trans [OF _ power_increasing [of 7 1024]])
  have q: "0 \<le> ?q" "?q \<le> 1" using assms by simp_all
  have one: "to_float64 ?q = Fin (rnd ?q)" "0 \<le> rnd ?q" "rnd ?q \<le> 1"
    using to_float64_between [OF q repr1(1) small(1)] by simp_all
  then have two: "to_float64 (rnd ?q * 100) = Fin (percent acked tot)"
    "0 \<le> percent acked tot" "percent acked tot \<le> 100"
    using to_float64_between [OF _ _ repr1(2) small(2), of "rnd ?q * 100"] by (simp_all add: percent_def)
  have "f64_of_int (int acked) = Fin (of_nat acked)" "f64_of_int (int tot) = Fin (of_nat tot)"
    using assms by (simp_all add: f64_of_int_exact)
  then show "f64_mul (f64_div (f64_of_int (int acked)) (f64_of_int (int tot))) (Fin 100) = Fin (percent acked tot)"
    using one two assms by simp
  show "0 \<le> percent acked tot" "percent acked tot \<le> 100" using two by simp_all
qed

lemma percent_full: "0 < tot \<Longrightarrow> percent tot tot = 100"
proof -
  assume "0 < tot"
  then have "rnd (of_nat tot / of_nat tot :: rat) = 1"
    using rnd_repr [OF f64_repr_int [of 1]] by simp
  then show ?thesis using rnd_repr [OF f64_repr_int [of 100]] by (simp add: percent_def)
qed

lemma percent_mono: "a \<le> b \<Longrightarrow> percent a tot \<le> percent b tot"
  unfolding percent_def
  by (intro rnd_mono mult_right_mono divide_right_mono mult_nonneg_nonneg rnd_nonneg) simp_all

text \<open>
  Below 100 percent the rounding cannot reach 100: the two numbers just below 1 and 100 that
  bound the exact results are representable, and rounding is monotone.
\<close>

lemma percent_less:
  assumes "acked < tot" and "tot \<le> 2 ^ 40"
  shows "percent acked tot < 100"
proof -
  let ?d = "(2::rat) powi (- 40)"
  have c1: "f64_repr (1 - ?d)" unfolding f64_repr_def
    by (rule exI [of _ "2 ^ 40 - 1"], rule exI [of _ "- 40"]) (simp add: power_int_minus field_simps)
  have c2: "f64_repr (100 - 2 powi (- 34))" unfolding f64_repr_def
    by (rule exI [of _ "100 * 2 ^ 34 - 1"], rule exI [of _ "- 34"]) (simp add: power_int_minus field_simps)
  have t: "(0::rat) < of_nat tot" using assms by simp
  have "(of_nat tot :: rat) \<le> 2 ^ 40" using assms(2) by (metis of_nat_le_iff of_nat_numeral of_nat_power)
  then have "?d \<le> 1 / of_nat tot" using t by (simp add: power_int_minus field_simps)
  moreover have "(of_nat acked + 1 :: rat) \<le> of_nat tot"
    using assms(1) by (metis Suc_leI of_nat_Suc of_nat_le_iff add.commute)
  then have "(of_nat acked :: rat) / of_nat tot \<le> 1 - 1 / of_nat tot" using t by (simp add: field_simps)
  ultimately have "(of_nat acked :: rat) / of_nat tot \<le> 1 - ?d" by linarith
  then have "rnd (of_nat acked / of_nat tot) \<le> 1 - ?d"
    using rnd_mono [of "of_nat acked / of_nat tot" "1 - ?d"] rnd_repr [OF c1] by simp
  then have "rnd (of_nat acked / of_nat tot) * 100 \<le> 100 - 2 powi (- 34)"
    by (simp add: power_int_minus field_simps)
  then have "percent acked tot \<le> 100 - 2 powi (- 34)"
    unfolding percent_def using rnd_mono [of _ "100 - 2 powi (- 34)"] rnd_repr [OF c2] rnd_nonneg
    by (metis divide_nonneg_nonneg mult_nonneg_nonneg of_nat_0_le_iff zero_le_numeral)
  then show ?thesis by (simp add: power_int_minus less_le_trans)
qed

lemma CoverageReached_percent:
  assumes "length ts < 2 ^ 53"
  shows "CoverageReached ts req \<longleftrightarrow> ts \<noteq> [] \<and> f64_le req (Fin (percent (acked_count ts) (length ts)))"
  using assms percent_facts(1) [OF acked_count_le [of ts]]
  by (cases ts) (auto simp: CoverageReached_def AcknowledgementCoverage_def acked_loop_count Let_def)

lemma CoverageReached_nonempty: "CoverageReached ts req \<Longrightarrow> ts \<noteq> []"
  by (auto simp: CoverageReached_def Let_def)

subsection \<open>The version an agent is served\<close>

lemma candidate_loop_cases:
  "candidate_loop r ts a = stable_effective r \<or>
   (\<exists>t \<in> set ts. tgt_AgentID t = a \<and> tgt_RolloutID t = ro_ID r \<and> tgt_StageID t = ro_CurrentStageID r \<and>
      candidate_loop r ts a =
        \<lparr>eff_VersionID = tgt_ExpectedVersionID t, eff_AssignedRollout = tgt_RolloutID t,
         eff_AssignedStage = tgt_StageID t, eff_SnapshotRevision = tgt_SnapshotRevision t\<rparr>)"
  by (induction r ts a rule: candidate_loop.induct) auto

lemma candidate_loop_stable_iff:
  assumes "\<forall>t \<in> set ts. tgt_AgentID t = a \<longrightarrow> tgt_RolloutID t \<noteq> ro_ID r \<or> tgt_StageID t \<noteq> ro_CurrentStageID r"
  shows "candidate_loop r ts a = stable_effective r"
  using assms by (induction r ts a rule: candidate_loop.induct) auto

lemma rollback_version_stable:
  "eff_VersionID (rollbackVerificationVersionForAgent r ts a) = ro_StableVersionID r"
  by (induction r ts a rule: rollbackVerificationVersionForAgent.induct) (auto simp: stable_effective_def)

lemma servesCandidate_iff:
  "servesCandidate s \<longleftrightarrow> s = StateDeploying \<or> s = StateEvaluating \<or> s = StatePromoting \<or> s = StatePaused"
  by (simp add: servesCandidate_def)

section \<open>Properties\<close>

text \<open>Concrete values at which the properties are exercised.\<close>

definition ex_agent :: "string \<Rightarrow> Agent" where
  "ex_agent i = \<lparr>agent_ID = i, agent_Service = ''payment-service'', agent_Environment = ''production'',
     agent_Zone = [], agent_Instance = i, agent_Labels = [], agent_RegisteredAt = 1, agent_LastSeenAt = 1\<rparr>"

definition ex_stage :: "string \<Rightarrow> int \<Rightarrow> Stage" where
  "ex_stage i p = \<lparr>stage_ID = i, stage_Percentage = p, stage_MinimumDuration = 0\<rparr>"

definition ex_rollout :: Rollout where
  "ex_rollout = \<lparr>ro_ID = ''r1'', ro_ConfigDefinitionID = ''cfg1'', ro_TenantID = ''payments'',
     ro_ConfigKey = ''failure_rate'', ro_Environment = ''production'', ro_TargetServices = [],
     ro_StableVersionID = ''v1'', ro_CandidateVersionID = ''v2'', ro_CandidateVersion = 2,
     ro_State = StateDeploying, ro_CurrentStageID = ''s1'', ro_CurrentStageIndex = 0,
     ro_RequiredAckPercent = Fin 100, ro_Guardrails = [], ro_GuardrailFailures = [],
     ro_StageStartedAt = 10, ro_DeploymentTimeout = 90 * Second, ro_RolloutMaxDuration = 15 * Minute,
     ro_RollbackTimeout = 2 * Minute, ro_RollbackStatus = RollbackStatusNone,
     ro_CreatedAt = 10, ro_UpdatedAt = 10\<rparr>"

definition ex_target :: "string \<Rightarrow> TargetStatus \<Rightarrow> StageTarget" where
  "ex_target a st = \<lparr>tgt_RolloutID = ''r1'', tgt_StageID = ''s1'', tgt_AgentID = a, tgt_Bucket = 7,
     tgt_ExpectedVersionID = ''v2'', tgt_SnapshotRevision = 1, tgt_CreatedAt = 10, tgt_AckedAt = 0,
     tgt_Status = st\<rparr>"

definition ex_ack :: "string \<Rightarrow> Ack" where
  "ex_ack a = \<lparr>ack_RolloutID = ''r1'', ack_StageID = ''s1'', ack_AgentID = a, ack_VersionID = ''v2'',
     ack_SnapshotRevision = 1, ack_AckedAt = 20\<rparr>"

definition ex_input :: "Agent list \<Rightarrow> Stage \<Rightarrow> BuildTargetsInput" where
  "ex_input as s = \<lparr>bti_Rollout = ex_rollout, bti_Stage = s, bti_Agents = as,
     bti_SnapshotRevision = 1, bti_CreatedAt = 10\<rparr>"

lemmas ex_defs = ex_agent_def ex_stage_def ex_rollout_def ex_target_def ex_ack_def ex_input_def

lemma ex_input_targets:
  "\<forall>a \<in> set as. agent_ID a \<noteq> [] \<Longrightarrow> stage_ID s \<noteq> [] \<Longrightarrow>
   \<exists>ts. BuildStageTargets (ex_input as s) = Inr ts"
  by (simp add: BuildStageTargets_Inr ex_input_def ex_rollout_def)

text \<open>A bucket that is computed at all lies in the 10000 buckets, depends on the three
  identifiers only, is in the 100 percent cohort and in no empty one.\<close>

theorem bucket_in_range:
  assumes "Bucket key = Inr b"
  shows "0 \<le> b \<and> b < 10000 \<and> b = uint (bucket_number key) mod 10000 \<and> Eligible b 100 \<and> \<not> Eligible b 0"
  using assms Bucket_range [OF assms] by (simp add: Bucket_Inr Eligible_def BucketCount_def)

theorem bucket_in_range_witness:
  "\<exists>b. Bucket (agent_key (ex_input [] (ex_stage ''s1'' 5)) (ex_agent ''a1'')) = Inr b \<and>
       0 \<le> b \<and> b < 10000 \<and> Eligible b 100"
proof -
  let ?k = "agent_key (ex_input [] (ex_stage ''s1'' 5)) (ex_agent ''a1'')"
  have "Bucket ?k = Inr (uint (bucket_number ?k) mod BucketCount)"
    by (simp add: Bucket_Inr ex_defs)
  with bucket_in_range [OF this] show ?thesis by blast
qed

text \<open>A successful \<open>BuildStageTargets\<close> returns the targets of exactly the
  agents whose bucket is eligible at the stage's percentage, one per agent occurrence, each
  pending, expecting the candidate version at the given revision, in the order of bucket and
  agent identifier.\<close>

theorem stage_targets_are_the_cohort:
  assumes "BuildStageTargets input = Inr ts"
  shows "sorted (map target_order ts) \<and>
     mset (map tgt_AgentID ts) = mset (map agent_ID (filter (in_cohort input) (bti_Agents input))) \<and>
     (\<forall>t \<in> set ts. tgt_RolloutID t = ro_ID (bti_Rollout input) \<and> tgt_StageID t = stage_ID (bti_Stage input) \<and>
        tgt_ExpectedVersionID t = ro_CandidateVersionID (bti_Rollout input) \<and>
        tgt_SnapshotRevision t = bti_SnapshotRevision input \<and> tgt_Status t = TargetPending \<and>
        Eligible (tgt_Bucket t) (stage_Percentage (bti_Stage input)))"
proof (intro conjI)
  show "sorted (map target_order ts)" using assms by (simp add: BuildStageTargets_Inr)
  show "mset (map tgt_AgentID ts) = mset (map agent_ID (filter (in_cohort input) (bti_Agents input)))"
    using assms by (rule mset_target_agents)
qed (use set_BuildStageTargets [OF assms] in \<open>auto simp: in_cohort_def\<close>)

theorem stage_targets_are_the_cohort_witness:
  "\<exists>ts. BuildStageTargets (ex_input [ex_agent ''a1'', ex_agent ''a2''] (ex_stage ''s1'' 100)) = Inr ts \<and>
        sorted (map target_order ts) \<and> length ts = 2"
proof -
  let ?i = "ex_input [ex_agent ''a1'', ex_agent ''a2''] (ex_stage ''s1'' 100)"
  obtain ts where ts: "BuildStageTargets ?i = Inr ts"
    using ex_input_targets [of "[ex_agent ''a1'', ex_agent ''a2'']" "ex_stage ''s1'' 100"]
    by (auto simp: ex_agent_def ex_stage_def)
  have all: "in_cohort ?i a" for a
    by (auto simp: in_cohort_def bucket_of_def ex_input_def ex_stage_def Eligible_100 BucketCount_def
        dest!: Bucket_range split: sum.splits)
  from stage_targets_are_the_cohort [OF ts] have "sorted (map target_order ts)"
    and "mset (map tgt_AgentID ts) = mset (map agent_ID (bti_Agents ?i))" by (simp_all add: all)
  moreover from this(2) have "length (map tgt_AgentID ts) = length (map agent_ID (bti_Agents ?i))"
    by (rule mset_eq_length)
  then have "length ts = 2" by (simp add: ex_input_def)
  ultimately show ?thesis using ts by blast
qed

text \<open>C12 (safety). Cohorts are nested: an agent targeted at one stage is targeted at every later
  stage of a higher percentage, whatever agents have joined in between.\<close>

theorem cohorts_nested:
  assumes "BuildStageTargets input = Inr ts" and "BuildStageTargets input' = Inr ts'"
    and "bti_Rollout input' = bti_Rollout input"
    and "stage_Percentage (bti_Stage input) \<le> stage_Percentage (bti_Stage input')"
    and "set (bti_Agents input) \<subseteq> set (bti_Agents input')"
  shows "tgt_AgentID ` set ts \<subseteq> tgt_AgentID ` set ts'"
proof
  fix x assume "x \<in> tgt_AgentID ` set ts"
  then obtain a where a: "a \<in> set (bti_Agents input)" "in_cohort input a" "x = agent_ID a"
    unfolding set_BuildStageTargets [OF assms(1)] by auto
  have "bucket_of input' a = bucket_of input a" using assms(3) by (simp add: bucket_of_def agent_key_def)
  then have "in_cohort input' a" using a(2) assms(4) Eligible_mono unfolding in_cohort_def by metis
  then show "x \<in> tgt_AgentID ` set ts'"
    unfolding set_BuildStageTargets [OF assms(2)] using a assms(5) by force
qed

theorem cohorts_nested_witness:
  "\<exists>ts ts'. BuildStageTargets (ex_input [ex_agent ''a1''] (ex_stage ''s1'' 5)) = Inr ts \<and>
     BuildStageTargets (ex_input [ex_agent ''a0'', ex_agent ''a1''] (ex_stage ''s2'' 25)) = Inr ts' \<and>
     tgt_AgentID ` set ts \<subseteq> tgt_AgentID ` set ts'"
proof -
  obtain ts where ts: "BuildStageTargets (ex_input [ex_agent ''a1''] (ex_stage ''s1'' 5)) = Inr ts"
    using ex_input_targets [of "[ex_agent ''a1'']" "ex_stage ''s1'' 5"] by (auto simp: ex_agent_def ex_stage_def)
  obtain ts' where ts': "BuildStageTargets (ex_input [ex_agent ''a0'', ex_agent ''a1''] (ex_stage ''s2'' 25)) = Inr ts'"
    using ex_input_targets [of "[ex_agent ''a0'', ex_agent ''a1'']" "ex_stage ''s2'' 25"]
    by (auto simp: ex_agent_def ex_stage_def)
  have "tgt_AgentID ` set ts \<subseteq> tgt_AgentID ` set ts'"
    by (rule cohorts_nested [OF ts ts']) (simp_all add: ex_input_def ex_stage_def)
  with ts ts' show ?thesis by blast
qed

text \<open>\<open>ValidateStagePlan\<close> accepts exactly the non-empty plans of named stages whose
  percentages lie between 1 and 100, strictly increase and end at 100.\<close>

theorem stage_plan_accepted_iff:
  "ValidateStagePlan ss = None \<longleftrightarrow>
     ss \<noteq> [] \<and> list_all (\<lambda>s. stage_ID s \<noteq> [] \<and> 1 \<le> stage_Percentage s \<and> stage_Percentage s \<le> 100) ss \<and>
     sorted_wrt (<) (map stage_Percentage ss) \<and> stage_Percentage (last ss) = 100"
  unfolding ValidateStagePlan_None list_all_iff by (auto simp: int_one_le_iff_zero_less)

text \<open>Applying an acknowledgement counts at most one target: the number of
  acknowledged targets grows by one exactly when the call reports it, a call that does not
  count changes nothing, the targets keep their identity, and the same acknowledgement is never
  counted again.\<close>

theorem acknowledgement_counts_once:
  assumes "ApplyAck ts a = (counted, ts')"
  shows "acked_count ts' = acked_count ts + (if counted then 1 else 0) \<and>
     map tgt_identity ts' = map tgt_identity ts \<and> (counted \<or> ts' = ts) \<and> ApplyAck ts' a = (False, ts')"
  using ApplyAck_count [OF assms] ApplyAck_identity [of ts a] ApplyAck_again [OF assms]
    ApplyAck_not_counted [of ts a ts'] assms
  by (cases counted) auto

theorem acknowledgement_counts_once_witness:
  "ApplyAck [ex_target ''a1'' TargetPending] (ex_ack ''a1'') =
     (True, [(ex_target ''a1'' TargetPending)\<lparr>tgt_Status := TargetAcked, tgt_AckedAt := 20\<rparr>]) \<and>
   acked_count [(ex_target ''a1'' TargetPending)\<lparr>tgt_Status := TargetAcked, tgt_AckedAt := 20\<rparr>] =
     acked_count [ex_target ''a1'' TargetPending] + 1"
proof -
  have run: "ApplyAck [ex_target ''a1'' TargetPending] (ex_ack ''a1'') =
     (True, [(ex_target ''a1'' TargetPending)\<lparr>tgt_Status := TargetAcked, tgt_AckedAt := 20\<rparr>])"
    by (simp add: ex_defs ack_matches_def)
  from acknowledgement_counts_once [OF run] run show ?thesis by simp
qed

text \<open>Where every agent has one target, an acknowledgement is counted exactly when
  the agent's target is pending and agrees with it in rollout, stage, version and snapshot
  revision.\<close>

theorem acknowledgement_counted_iff:
  assumes "distinct (map tgt_AgentID ts)"
  shows "fst (ApplyAck ts a) \<longleftrightarrow>
    (\<exists>t \<in> set ts. tgt_AgentID t = ack_AgentID a \<and> tgt_RolloutID t = ack_RolloutID a \<and>
       tgt_StageID t = ack_StageID a \<and> tgt_ExpectedVersionID t = ack_VersionID a \<and>
       tgt_SnapshotRevision t = ack_SnapshotRevision a \<and> tgt_Status t = TargetPending)"
  unfolding ApplyAck_counted_iff [OF assms] by (auto simp: ack_matches_def)

theorem acknowledgement_counted_iff_witness:
  "distinct (map tgt_AgentID [ex_target ''a1'' TargetPending]) \<and>
   \<not> fst (ApplyAck [ex_target ''a1'' TargetPending] ((ex_ack ''a1'')\<lparr>ack_SnapshotRevision := 2\<rparr>))"
  using acknowledgement_counted_iff [of "[ex_target ''a1'' TargetPending]" "(ex_ack ''a1'')\<lparr>ack_SnapshotRevision := 2\<rparr>"]
  by (simp add: ex_defs)

text \<open>C13 (bounds). The acknowledgement percentage is a finite number between 0 and 100 that never
  falls when a target is acknowledged, and a requirement of 100 percent is reached exactly when
  every target of a non-empty stage is acknowledged: the rounding of the two floating-point
  operations never reports full coverage early.\<close>

theorem full_coverage_iff_all_acknowledged:
  assumes "length ts \<le> 2 ^ 40"
  shows "(CoverageReached ts (Fin 100) \<longleftrightarrow> ts \<noteq> [] \<and> acked_count ts = length ts) \<and>
     (\<exists>p. cov_Percentage (AcknowledgementCoverage ts) = Fin p \<and> 0 \<le> p \<and> p \<le> 100)"
proof (cases "ts = []")
  case True
  then show ?thesis by (simp add: CoverageReached_def AcknowledgementCoverage_def)
next
  case False
  let ?p = "percent (acked_count ts) (length ts)"
  have len: "0 < length ts" "length ts < 2 ^ 53" using False assms by auto
  have p: "0 \<le> ?p" "?p \<le> 100" using percent_facts(2,3) [OF acked_count_le len] by simp_all
  have "100 \<le> ?p \<longleftrightarrow> acked_count ts = length ts"
    using percent_full [OF len(1)] percent_less [of "acked_count ts" "length ts"] assms acked_count_le [of ts]
    by (cases "acked_count ts = length ts") auto
  moreover have "cov_Percentage (AcknowledgementCoverage ts) = Fin ?p"
    using percent_facts(1) [OF acked_count_le len] False
    by (simp add: AcknowledgementCoverage_def acked_loop_count Let_def)
  ultimately show ?thesis using p False len(2) by (simp add: CoverageReached_percent)
qed

theorem full_coverage_iff_all_acknowledged_witness:
  "length [ex_target ''a1'' TargetAcked, ex_target ''a2'' TargetPending] \<le> 2 ^ 40 \<and>
   \<not> CoverageReached [ex_target ''a1'' TargetAcked, ex_target ''a2'' TargetPending] (Fin 100)"
  using full_coverage_iff_all_acknowledged [of "[ex_target ''a1'' TargetAcked, ex_target ''a2'' TargetPending]"]
  by (simp add: acked_count_def is_acked_def ex_defs)

text \<open>The decision of a stage: promotion exactly when coverage is reached and the
  minimum duration has passed, rollback exactly when coverage is missing and a positive
  deployment timeout has passed, waiting otherwise. A stage without targets is never
  promoted.\<close>

theorem stage_decision:
  "(EvaluateStageProgress i = DecisionPromote \<longleftrightarrow>
      CoverageReached (spi_Targets i) (spi_RequiredAckPercentage i) \<and>
      spi_MinimumDuration i \<le> time_Sub (spi_Now i) (spi_StageStartedAt i)) \<and>
   (EvaluateStageProgress i = DecisionRollback \<longleftrightarrow>
      \<not> CoverageReached (spi_Targets i) (spi_RequiredAckPercentage i) \<and> 0 < spi_DeploymentTimeout i \<and>
      spi_DeploymentTimeout i \<le> time_Sub (spi_Now i) (spi_StageStartedAt i)) \<and>
   EvaluateStageProgress i \<noteq> DecisionPause \<and>
   EvaluateStageProgress (i\<lparr>spi_Targets := []\<rparr>) \<noteq> DecisionPromote"
  by (auto simp: EvaluateStageProgress_def Let_def CoverageReached_def)

text \<open>An agent is served another version than the stable one only while the rollout is
  deploying, evaluating, promoting or paused, and only as a target of the current stage, whose
  expected version it is; a rollout that is rolling back or over serves the stable version to
  everyone.\<close>

theorem candidate_only_for_current_targets:
  assumes "eff_VersionID (EffectiveVersionForAgent r ts a) \<noteq> ro_StableVersionID r"
  shows "servesCandidate (ro_State r) \<and>
    (\<exists>t \<in> set ts. tgt_AgentID t = a \<and> tgt_RolloutID t = ro_ID r \<and> tgt_StageID t = ro_CurrentStageID r \<and>
       eff_VersionID (EffectiveVersionForAgent r ts a) = tgt_ExpectedVersionID t \<and>
       eff_SnapshotRevision (EffectiveVersionForAgent r ts a) = tgt_SnapshotRevision t)"
proof -
  have s: "ro_State r \<noteq> StateRollingBack" "servesCandidate (ro_State r)"
    using assms by (auto simp: EffectiveVersionForAgent_def rollback_version_stable stable_effective_def split: if_splits)
  then have "EffectiveVersionForAgent r ts a = candidate_loop r ts a" by (simp add: EffectiveVersionForAgent_def)
  with assms s(2) candidate_loop_cases [of r ts a] show ?thesis by (auto simp: stable_effective_def)
qed

theorem candidate_only_for_current_targets_witness:
  "eff_VersionID (EffectiveVersionForAgent ex_rollout [ex_target ''a1'' TargetPending] ''a1'') = ''v2'' \<and>
   servesCandidate (ro_State ex_rollout)"
proof -
  have v: "eff_VersionID (EffectiveVersionForAgent ex_rollout [ex_target ''a1'' TargetPending] ''a1'') = ''v2''"
    by (simp add: EffectiveVersionForAgent_def servesCandidate_def ex_defs)
  then have "eff_VersionID (EffectiveVersionForAgent ex_rollout [ex_target ''a1'' TargetPending] ''a1'')
      \<noteq> ro_StableVersionID ex_rollout" by (simp add: ex_rollout_def)
  from candidate_only_for_current_targets [OF this] v show ?thesis by blast
qed

end
