(* ===== verification/Rollout_Store.thy ===== *)
theory Rollout_Store
  imports Rollout_Core
begin

section \<open>internal/rollout: the Store interface and its in-memory implementation\<close>

text \<open>
  \<open>ro_Store\<close> is the interface \<open>rollout.Store\<close> of \<open>service.go\<close>, one function per method, over
  an arbitrary world: the request context is part of the world. \<open>ro_MemoryStore\<close> and the
  functions \<open>ro_mem_...\<close> are \<open>rollout/memory_store.go\<close>; each takes the value of \<open>ctx.Err()\<close>
  first, as the source does before it takes the lock. The lock makes each method atomic, so
  a method is one function of the store. The order in which Go ranges over a map is an
  argument of the one method whose result depends on it.

  \<open>rollout_store\<close> is the contract of the interface over the abstract state \<open>rollout_db\<close>, and
  the lemmas \<open>ro_mem_..._contract\<close> show that the in-memory store keeps it. The interpretation
  is in \<open>Control_World\<close>, where the store is a part of the world.
\<close>

subsection \<open>service.go: Store\<close>

record 'w ro_Store =
  st_CreateRollout :: "Rollout \<Rightarrow> Stage list \<Rightarrow> ('w, unit) M"
  st_GetRollout :: "string \<Rightarrow> ('w, Rollout) M"
  st_GetActiveRollout :: "string \<Rightarrow> string \<Rightarrow> ('w, Rollout) M"
  st_ListActiveRollouts :: "('w, Rollout list) M"
  st_UpdateRollout :: "Rollout \<Rightarrow> ('w, unit) M"
  st_ListStages :: "string \<Rightarrow> ('w, Stage list) M"
  st_SaveStage :: "string \<Rightarrow> Stage \<Rightarrow> ('w, unit) M"
  st_SaveStageTargets :: "StageTarget list \<Rightarrow> ('w, unit) M"
  st_ReplaceStageTargets :: "string \<Rightarrow> string \<Rightarrow> StageTarget list \<Rightarrow> ('w, unit) M"
  st_ListStageTargets :: "string \<Rightarrow> string \<Rightarrow> ('w, StageTarget list) M"
  st_NextSnapshotRevision :: "('w, int) M"

subsection \<open>memory_store.go\<close>

record ro_MemoryStore =
  rms_rollouts :: "(string, Rollout) gomap"
  rms_activeRollout :: "(string, string) gomap"
  rms_stages :: "(string, Stage list) gomap"
  rms_targets :: "(string, StageTarget list) gomap"
  rms_nextRevision :: int

definition ro_NewMemoryStore :: ro_MemoryStore where
  "ro_NewMemoryStore = \<lparr>rms_rollouts = [], rms_activeRollout = [], rms_stages = [], rms_targets = [],
     rms_nextRevision = 1\<rparr>"

text \<open>The zero value a map of rollouts yields for a missing key.\<close>

definition zero_Rollout :: Rollout where
  "zero_Rollout = \<lparr>ro_ID = [], ro_ConfigDefinitionID = [], ro_TenantID = [], ro_ConfigKey = [],
     ro_Environment = [], ro_TargetServices = [], ro_StableVersionID = [], ro_CandidateVersionID = [],
     ro_CandidateVersion = 0, ro_State = StateUnset, ro_CurrentStageID = [], ro_CurrentStageIndex = 0,
     ro_RequiredAckPercent = Fin 0, ro_Guardrails = [], ro_GuardrailFailures = [], ro_StageStartedAt = 0,
     ro_DeploymentTimeout = 0, ro_RolloutMaxDuration = 0, ro_RollbackTimeout = 0,
     ro_RollbackStatus = RollbackStatusNone, ro_CreatedAt = 0, ro_UpdatedAt = 0\<rparr>"

definition rollout_at :: "ro_MemoryStore \<Rightarrow> string \<Rightarrow> Rollout" where
  "rollout_at s i = (case gomap_get (rms_rollouts s) i of None \<Rightarrow> zero_Rollout | Some r \<Rightarrow> r)"

definition rolloutActiveKey :: "string \<Rightarrow> string \<Rightarrow> string" where
  "rolloutActiveKey configDefinitionID environment = nul_join configDefinitionID environment"

definition targetKey :: "string \<Rightarrow> string \<Rightarrow> string" where
  "targetKey rolloutID stageID = nul_join rolloutID stageID"

text \<open>\<open>cloneRollout\<close> copies the slices and the failure map; the copy has the same value.\<close>

definition cloneRollout :: "Rollout \<Rightarrow> Rollout" where
  "cloneRollout r = r\<lparr>ro_TargetServices := [] @ ro_TargetServices r, ro_Guardrails := [] @ ro_Guardrails r,
     ro_GuardrailFailures := map (\<lambda>(name, count). (name, count)) (ro_GuardrailFailures r)\<rparr>"

lemma cloneRollout_id [simp]: "cloneRollout r = r"
  by (simp add: cloneRollout_def)

definition ro_mem_CreateRollout :: "error option \<Rightarrow> Rollout \<Rightarrow> Stage list \<Rightarrow> (ro_MemoryStore, unit) M" where
  "ro_mem_CreateRollout ctxErr r stages s =
     (case ctxErr of Some e \<Rightarrow> (Inl e, s) | None \<Rightarrow>
      if gomap_get (rms_rollouts s) (ro_ID r) \<noteq> None then
        (Inl (Errorf ''%w: rollout %q'' [FW (Sentinel rollout_ErrAlreadyExists), FQ (ro_ID r)]), s)
      else let activeKey = rolloutActiveKey (ro_ConfigDefinitionID r) (ro_Environment r) in
        if (case gomap_get (rms_activeRollout s) activeKey of
              None \<Rightarrow> False
            | Some existingID \<Rightarrow> \<not> Terminal (ro_State (rollout_at s existingID)))
        then (Inl (Errorf ''%w: active rollout exists'' [FW (Sentinel rollout_ErrConflict)]), s)
        else (Inr (), s\<lparr>rms_rollouts := gomap_set (ro_ID r) (cloneRollout r) (rms_rollouts s),
                        rms_stages := gomap_set (ro_ID r) ([] @ stages) (rms_stages s),
                        rms_activeRollout :=
                          (if \<not> Terminal (ro_State r)
                           then gomap_set activeKey (ro_ID r) (rms_activeRollout s)
                           else rms_activeRollout s)\<rparr>))"

definition ro_mem_GetRollout :: "error option \<Rightarrow> string \<Rightarrow> (ro_MemoryStore, Rollout) M" where
  "ro_mem_GetRollout ctxErr rolloutID s =
     (case ctxErr of Some e \<Rightarrow> (Inl e, s) | None \<Rightarrow>
      case gomap_get (rms_rollouts s) rolloutID of
        None \<Rightarrow> (Inl (Errorf ''%w: rollout %q'' [FW (Sentinel rollout_ErrNotFound), FQ rolloutID]), s)
      | Some r \<Rightarrow> (Inr (cloneRollout r), s))"

definition ro_mem_GetActiveRollout :: "error option \<Rightarrow> string \<Rightarrow> string \<Rightarrow> (ro_MemoryStore, Rollout) M" where
  "ro_mem_GetActiveRollout ctxErr configDefinitionID environment s =
     (case ctxErr of Some e \<Rightarrow> (Inl e, s) | None \<Rightarrow>
      case gomap_get (rms_activeRollout s) (nul_join configDefinitionID environment) of
        None \<Rightarrow> (Inl (Errorf ''%w: active rollout'' [FW (Sentinel rollout_ErrNotFound)]), s)
      | Some rolloutID \<Rightarrow>
          let r = rollout_at s rolloutID in
          if Terminal (ro_State r)
          then (Inl (Errorf ''%w: active rollout'' [FW (Sentinel rollout_ErrNotFound)]), s)
          else (Inr (cloneRollout r), s))"

text \<open>
  The order of \<open>range\<close> over a map is a permutation of its entries; an argument that is not one
  stands for the order of the list.
\<close>

definition range_order :: "nat list \<Rightarrow> 'a list \<Rightarrow> 'a list" where
  "range_order p xs = (if sort p = [0..<length xs] then map ((!) xs) p else xs)"

fun active_loop :: "ro_MemoryStore \<Rightarrow> (string \<times> string) list \<Rightarrow> Rollout list" where
  "active_loop s [] = []"
| "active_loop s ((key, rolloutID) # m) =
     (let r = rollout_at s rolloutID in
      if Terminal (ro_State r) then active_loop s m else cloneRollout r # active_loop s m)"

definition ro_mem_ListActiveRollouts :: "nat list \<Rightarrow> error option \<Rightarrow> (ro_MemoryStore, Rollout list) M" where
  "ro_mem_ListActiveRollouts order ctxErr s =
     (case ctxErr of Some e \<Rightarrow> (Inl e, s) | None \<Rightarrow>
      (Inr (active_loop s (range_order order (rms_activeRollout s))), s))"

definition ro_mem_UpdateRollout :: "error option \<Rightarrow> Rollout \<Rightarrow> (ro_MemoryStore, unit) M" where
  "ro_mem_UpdateRollout ctxErr r s =
     (case ctxErr of Some e \<Rightarrow> (Inl e, s) | None \<Rightarrow>
      if gomap_get (rms_rollouts s) (ro_ID r) = None then
        (Inl (Errorf ''%w: rollout %q'' [FW (Sentinel rollout_ErrNotFound), FQ (ro_ID r)]), s)
      else let activeKey = rolloutActiveKey (ro_ConfigDefinitionID r) (ro_Environment r) in
        (Inr (), s\<lparr>rms_rollouts := gomap_set (ro_ID r) (cloneRollout r) (rms_rollouts s),
                   rms_activeRollout :=
                     (if Terminal (ro_State r) then gomap_delete activeKey (rms_activeRollout s)
                      else gomap_set activeKey (ro_ID r) (rms_activeRollout s))\<rparr>))"

definition ro_mem_ListStages :: "error option \<Rightarrow> string \<Rightarrow> (ro_MemoryStore, Stage list) M" where
  "ro_mem_ListStages ctxErr rolloutID s =
     (case ctxErr of Some e \<Rightarrow> (Inl e, s) | None \<Rightarrow>
      case gomap_get (rms_stages s) rolloutID of
        None \<Rightarrow> (Inl (Errorf ''%w: stages for rollout %q'' [FW (Sentinel rollout_ErrNotFound), FQ rolloutID]), s)
      | Some stages \<Rightarrow> (Inr ([] @ stages), s))"

definition ro_mem_SaveStage :: "error option \<Rightarrow> string \<Rightarrow> Stage \<Rightarrow> (ro_MemoryStore, unit) M" where
  "ro_mem_SaveStage ctxErr rolloutID stage s =
     (case ctxErr of Some e \<Rightarrow> (Inl e, s) | None \<Rightarrow>
      if gomap_get (rms_rollouts s) rolloutID = None then
        (Inl (Errorf ''%w: rollout %q'' [FW (Sentinel rollout_ErrNotFound), FQ rolloutID]), s)
      else if list_ex (\<lambda>existing. stage_ID existing = stage_ID stage) (gomap_slice (rms_stages s) rolloutID)
        then (Inr (), s)
      else (Inr (), s\<lparr>rms_stages :=
              gomap_set rolloutID (gomap_slice (rms_stages s) rolloutID @ [stage]) (rms_stages s)\<rparr>))"

fun save_targets_loop :: "StageTarget list \<Rightarrow> (string, StageTarget list) gomap \<Rightarrow> (string, StageTarget list) gomap" where
  "save_targets_loop [] m = m"
| "save_targets_loop (t # ts) m =
     (let key = targetKey (tgt_RolloutID t) (tgt_StageID t)
      in save_targets_loop ts (gomap_set key (gomap_slice m key @ [t]) m))"

definition ro_mem_SaveStageTargets :: "error option \<Rightarrow> StageTarget list \<Rightarrow> (ro_MemoryStore, unit) M" where
  "ro_mem_SaveStageTargets ctxErr targets s =
     (case ctxErr of Some e \<Rightarrow> (Inl e, s) | None \<Rightarrow>
      (Inr (), s\<lparr>rms_targets := save_targets_loop targets (rms_targets s)\<rparr>))"

definition ro_mem_ReplaceStageTargets ::
  "error option \<Rightarrow> string \<Rightarrow> string \<Rightarrow> StageTarget list \<Rightarrow> (ro_MemoryStore, unit) M" where
  "ro_mem_ReplaceStageTargets ctxErr rolloutID stageID targets s =
     (case ctxErr of Some e \<Rightarrow> (Inl e, s) | None \<Rightarrow>
      (Inr (), s\<lparr>rms_targets := gomap_set (targetKey rolloutID stageID) ([] @ targets) (rms_targets s)\<rparr>))"

definition ro_mem_ListStageTargets :: "error option \<Rightarrow> string \<Rightarrow> string \<Rightarrow> (ro_MemoryStore, StageTarget list) M" where
  "ro_mem_ListStageTargets ctxErr rolloutID stageID s =
     (case ctxErr of Some e \<Rightarrow> (Inl e, s) | None \<Rightarrow>
      (Inr ([] @ gomap_slice (rms_targets s) (targetKey rolloutID stageID)), s))"

definition ro_mem_NextSnapshotRevision :: "error option \<Rightarrow> (ro_MemoryStore, int) M" where
  "ro_mem_NextSnapshotRevision ctxErr s =
     (case ctxErr of Some e \<Rightarrow> (Inl e, s) | None \<Rightarrow>
      (let revision = rms_nextRevision s
       in (Inr revision, s\<lparr>rms_nextRevision := wrap64 (rms_nextRevision s + 1)\<rparr>)))"

lemmas ro_mem_defs =
  ro_mem_CreateRollout_def ro_mem_GetRollout_def ro_mem_GetActiveRollout_def
  ro_mem_ListActiveRollouts_def ro_mem_UpdateRollout_def ro_mem_ListStages_def ro_mem_SaveStage_def
  ro_mem_SaveStageTargets_def ro_mem_ReplaceStageTargets_def ro_mem_ListStageTargets_def
  ro_mem_NextSnapshotRevision_def

subsection \<open>The contract of a store\<close>

text \<open>
  The abstract state: rollouts and stages by rollout, targets by rollout and stage, and the
  next snapshot revision.
\<close>

record rollout_db =
  db_rollouts :: "string \<rightharpoonup> Rollout"
  db_stages :: "string \<rightharpoonup> Stage list"
  db_targets :: "string \<Rightarrow> string \<Rightarrow> StageTarget list"
  db_next :: int

definition is_active :: "rollout_db \<Rightarrow> Rollout \<Rightarrow> bool" where
  "is_active db r \<longleftrightarrow> db_rollouts db (ro_ID r) = Some r \<and> \<not> Terminal (ro_State r)"

definition same_slot :: "Rollout \<Rightarrow> Rollout \<Rightarrow> bool" where
  "same_slot r r' \<longleftrightarrow> ro_ConfigDefinitionID r = ro_ConfigDefinitionID r' \<and> ro_Environment r = ro_Environment r'"

definition db_put :: "Rollout \<Rightarrow> rollout_db \<Rightarrow> rollout_db" where
  "db_put r db = db\<lparr>db_rollouts := (db_rollouts db)(ro_ID r \<mapsto> r)\<rparr>"

definition db_create :: "Rollout \<Rightarrow> Stage list \<Rightarrow> rollout_db \<Rightarrow> rollout_db" where
  "db_create r ss db = (db_put r db)\<lparr>db_stages := (db_stages db)(ro_ID r \<mapsto> ss)\<rparr>"

definition db_save_stage :: "string \<Rightarrow> Stage \<Rightarrow> rollout_db \<Rightarrow> rollout_db" where
  "db_save_stage i st db =
     (let ss = (case db_stages db i of None \<Rightarrow> [] | Some ss \<Rightarrow> ss)
      in if \<exists>x \<in> set ss. stage_ID x = stage_ID st then db
         else db\<lparr>db_stages := (db_stages db)(i \<mapsto> ss @ [st])\<rparr>)"

definition targets_of :: "string \<Rightarrow> string \<Rightarrow> StageTarget list \<Rightarrow> StageTarget list" where
  "targets_of i sid ts = filter (\<lambda>t. tgt_RolloutID t = i \<and> tgt_StageID t = sid) ts"

definition db_add_targets :: "StageTarget list \<Rightarrow> rollout_db \<Rightarrow> rollout_db" where
  "db_add_targets ts db = db\<lparr>db_targets := (\<lambda>i sid. db_targets db i sid @ targets_of i sid ts)\<rparr>"

definition db_set_targets :: "string \<Rightarrow> string \<Rightarrow> StageTarget list \<Rightarrow> rollout_db \<Rightarrow> rollout_db" where
  "db_set_targets i sid ts db =
     db\<lparr>db_targets := (db_targets db)(i := (db_targets db i)(sid := ts))\<rparr>"

definition new_ok :: "Rollout \<Rightarrow> bool" where
  "new_ok r \<longleftrightarrow> nul_free (ro_ID r) \<and> valid_env (ro_Environment r) \<and> \<not> Terminal (ro_State r)"

text \<open>
  \<open>UpdateRollout\<close> is only ever called on a rollout that is there, is not over, and keeps its
  configuration and environment: this is what the contract asks of the caller. In return at
  most one rollout that is not over exists per configuration and environment.
\<close>

definition update_ok :: "Rollout \<Rightarrow> rollout_db \<Rightarrow> bool" where
  "update_ok r db \<longleftrightarrow>
     (\<exists>r0. db_rollouts db (ro_ID r) = Some r0 \<and> \<not> Terminal (ro_State r0) \<and> same_slot r r0)"

definition one_active :: "rollout_db \<Rightarrow> bool" where
  "one_active db \<longleftrightarrow>
     (\<forall>r r'. is_active db r \<longrightarrow> is_active db r' \<longrightarrow> same_slot r r' \<longrightarrow> r = r')"

locale rollout_store =
  fixes S :: "'w ro_Store" and J :: "'w \<Rightarrow> bool" and ab :: "'w \<Rightarrow> rollout_db \<times> 'r"
  assumes CreateRollout: "contract J ab (\<lambda>_. new_ok r) (st_CreateRollout S r ss)
      (\<lambda>d _ d'. db_rollouts (fst d) (ro_ID r) = None \<and> (\<forall>r'. is_active (fst d) r' \<longrightarrow> \<not> same_slot r r') \<and>
         d' = (db_create r ss (fst d), snd d))"
    and GetRollout: "contract J ab (\<lambda>_. True) (st_GetRollout S i)
      (\<lambda>d r d'. d' = d \<and> db_rollouts (fst d) i = Some r)"
    and GetActiveRollout: "contract J ab (\<lambda>_. valid_env e) (st_GetActiveRollout S c e)
      (\<lambda>d r d'. d' = d \<and> is_active (fst d) r \<and> ro_ConfigDefinitionID r = c \<and> ro_Environment r = e)"
    and ListActiveRollouts: "contract J ab (\<lambda>_. True) (st_ListActiveRollouts S)
      (\<lambda>d rs d'. d' = d \<and> distinct (map ro_ID rs) \<and> set rs = {r. is_active (fst d) r})"
    and UpdateRollout: "contract J ab (\<lambda>d. update_ok r (fst d)) (st_UpdateRollout S r)
      (\<lambda>d _ d'. d' = (db_put r (fst d), snd d))"
    and ListStages: "contract J ab (\<lambda>_. True) (st_ListStages S i)
      (\<lambda>d ss d'. d' = d \<and> db_stages (fst d) i = Some ss)"
    and SaveStage: "contract J ab (\<lambda>_. True) (st_SaveStage S i st)
      (\<lambda>d _ d'. db_rollouts (fst d) i \<noteq> None \<and> d' = (db_save_stage i st (fst d), snd d))"
    and SaveStageTargets: "contract J ab (\<lambda>_. \<forall>t \<in> set ts. nul_free (tgt_RolloutID t)) (st_SaveStageTargets S ts)
      (\<lambda>d _ d'. d' = (db_add_targets ts (fst d), snd d))"
    and ReplaceStageTargets: "contract J ab (\<lambda>_. nul_free i) (st_ReplaceStageTargets S i sid ts)
      (\<lambda>d _ d'. d' = (db_set_targets i sid ts (fst d), snd d))"
    and ListStageTargets: "contract J ab (\<lambda>_. nul_free i) (st_ListStageTargets S i sid)
      (\<lambda>d ts d'. d' = d \<and> ts = db_targets (fst d) i sid)"
    and NextSnapshotRevision: "contract J ab (\<lambda>_. True) (st_NextSnapshotRevision S)
      (\<lambda>d n d'. n = db_next (fst d) \<and> d' = ((fst d)\<lparr>db_next := wrap64 (n + 1)\<rparr>, snd d))"
    and db_ids: "J w \<Longrightarrow> db_rollouts (fst (ab w)) i = Some r \<Longrightarrow> ro_ID r = i \<and> nul_free i \<and> valid_env (ro_Environment r)"
    and db_one_active: "J w \<Longrightarrow> one_active (fst (ab w))"

subsection \<open>The in-memory store keeps the contract\<close>

definition ro_abs :: "ro_MemoryStore \<Rightarrow> rollout_db" where
  "ro_abs s = \<lparr>db_rollouts = gomap_get (rms_rollouts s), db_stages = gomap_get (rms_stages s),
     db_targets = (\<lambda>i sid. if nul_free i then gomap_slice (rms_targets s) (targetKey i sid) else []),
     db_next = rms_nextRevision s\<rparr>"

definition active_key :: "Rollout \<Rightarrow> string" where
  "active_key r = rolloutActiveKey (ro_ConfigDefinitionID r) (ro_Environment r)"

definition ro_mem_inv :: "ro_MemoryStore \<Rightarrow> bool" where
  "ro_mem_inv s \<longleftrightarrow>
     gomap_ok (rms_rollouts s) \<and> gomap_ok (rms_activeRollout s) \<and>
     (\<forall>i r. gomap_get (rms_rollouts s) i = Some r \<longrightarrow>
        ro_ID r = i \<and> nul_free i \<and> valid_env (ro_Environment r) \<and>
        (\<not> Terminal (ro_State r) \<longrightarrow> gomap_get (rms_activeRollout s) (active_key r) = Some i)) \<and>
     (\<forall>k i. gomap_get (rms_activeRollout s) k = Some i \<longrightarrow>
        (\<exists>r. gomap_get (rms_rollouts s) i = Some r \<and> \<not> Terminal (ro_State r) \<and> active_key r = k))"

lemma active_key_inj:
  "valid_env (ro_Environment r) \<Longrightarrow> valid_env (ro_Environment r') \<Longrightarrow> active_key r = active_key r' \<longleftrightarrow> same_slot r r'"
  by (auto simp: active_key_def rolloutActiveKey_def same_slot_def nul_join_inj_right valid_env_nul_free)

lemma ro_abs_simps [simp]:
  "db_rollouts (ro_abs s) = gomap_get (rms_rollouts s)"
  "db_stages (ro_abs s) = gomap_get (rms_stages s)"
  "db_next (ro_abs s) = rms_nextRevision s"
  "nul_free i \<Longrightarrow> db_targets (ro_abs s) i sid = gomap_slice (rms_targets s) (targetKey i sid)"
  by (simp_all add: ro_abs_def)

lemma ro_mem_inv_ids:
  "ro_mem_inv s \<Longrightarrow> gomap_get (rms_rollouts s) i = Some r \<Longrightarrow> ro_ID r = i \<and> nul_free i \<and> valid_env (ro_Environment r)"
  by (auto simp: ro_mem_inv_def)

lemma ro_mem_inv_active:
  "ro_mem_inv s \<Longrightarrow> gomap_get (rms_activeRollout s) k = Some i \<longleftrightarrow>
     (\<exists>r. gomap_get (rms_rollouts s) i = Some r \<and> \<not> Terminal (ro_State r) \<and> active_key r = k)"
  by (auto simp: ro_mem_inv_def)

lemma ro_mem_is_active:
  assumes "ro_mem_inv s"
  shows "is_active (ro_abs s) r \<longleftrightarrow> gomap_get (rms_activeRollout s) (active_key r) = Some (ro_ID r) \<and>
    gomap_get (rms_rollouts s) (ro_ID r) = Some r"
  using assms by (auto simp: is_active_def ro_mem_inv_active)

lemma ro_mem_one_active: "ro_mem_inv s \<Longrightarrow> one_active (ro_abs s)"
  unfolding one_active_def using ro_mem_inv_ids
  by (metis (no_types, lifting) active_key_inj is_active_def option.inject ro_abs_simps(1) ro_mem_is_active)

lemma ro_mem_init: "ro_mem_inv ro_NewMemoryStore"
  by (simp add: ro_mem_inv_def ro_NewMemoryStore_def)

lemma ro_mem_inv_put:
  assumes J: "ro_mem_inv s" and r: "nul_free (ro_ID r)" "valid_env (ro_Environment r)"
    and free: "\<And>r'. is_active (ro_abs s) r' \<Longrightarrow> same_slot r r' \<Longrightarrow> ro_ID r' = ro_ID r"
    and slot: "\<And>r0. gomap_get (rms_rollouts s) (ro_ID r) = Some r0 \<Longrightarrow> \<not> Terminal (ro_State r0) \<and> same_slot r r0"
  shows "ro_mem_inv (s\<lparr>rms_rollouts := gomap_set (ro_ID r) r (rms_rollouts s),
     rms_activeRollout := (if Terminal (ro_State r) then gomap_delete (active_key r) (rms_activeRollout s)
                            else gomap_set (active_key r) (ro_ID r) (rms_activeRollout s)),
     rms_stages := ss\<rparr>)" (is "ro_mem_inv ?s")
proof -
  have key: "active_key r' = active_key r \<longleftrightarrow> same_slot r r'" if "gomap_get (rms_rollouts s) i = Some r'" for i r'
    using ro_mem_inv_ids [OF J that] r(2) active_key_inj [of r r'] by metis
  have other: "i = ro_ID r" if "gomap_get (rms_rollouts s) i = Some r'" "\<not> Terminal (ro_State r')"
      "active_key r' = active_key r" for i r'
    using free [of r'] key [OF that(1)] that ro_mem_inv_ids [OF J that(1)] by (auto simp: is_active_def)
  have "gomap_ok (rms_rollouts ?s)" "gomap_ok (rms_activeRollout ?s)" using J by (simp_all add: ro_mem_inv_def)
  moreover have "ro_ID r' = i \<and> nul_free i \<and> valid_env (ro_Environment r') \<and>
        (\<not> Terminal (ro_State r') \<longrightarrow> gomap_get (rms_activeRollout ?s) (active_key r') = Some i)"
    if g: "gomap_get (rms_rollouts ?s) i = Some r'" for i r'
  proof (cases "i = ro_ID r")
    case True
    with g r show ?thesis by auto
  next
    case False
    with g have g': "gomap_get (rms_rollouts s) i = Some r'" by (simp split: if_splits)
    have "\<not> Terminal (ro_State r') \<Longrightarrow> active_key r' \<noteq> active_key r" using other [OF g'] False by auto
    then show ?thesis using J g' by (auto simp: ro_mem_inv_def)
  qed
  moreover have "\<exists>r'. gomap_get (rms_rollouts ?s) i = Some r' \<and> \<not> Terminal (ro_State r') \<and> active_key r' = k"
    if g: "gomap_get (rms_activeRollout ?s) k = Some i" for k i
  proof (cases "k = active_key r")
    case True
    with g show ?thesis by (auto split: if_splits)
  next
    case False
    with g have "gomap_get (rms_activeRollout s) k = Some i" by (simp split: if_splits)
    then obtain r' where r': "gomap_get (rms_rollouts s) i = Some r'" "\<not> Terminal (ro_State r')" "active_key r' = k"
      using J by (auto simp: ro_mem_inv_active)
    have "i \<noteq> ro_ID r" using slot [of r'] key [OF r'(1)] r' False by auto
    then show ?thesis using r' by auto
  qed
  ultimately show ?thesis unfolding ro_mem_inv_def by blast
qed

lemma contract_mem:
  assumes "\<And>s a s'. ro_mem_inv s \<Longrightarrow> P (ro_abs s) \<Longrightarrow> f s = (Inr a, s') \<Longrightarrow> ro_mem_inv s' \<and> R (ro_abs s) a (ro_abs s')"
    and "\<And>s e s'. f s = (Inl e, s') \<Longrightarrow> s' = s"
  shows "contract ro_mem_inv ro_abs P f R"
  by (rule contractI, rule wpI) (use assms in blast)+

lemma ro_mem_CreateRollout_contract:
  "contract ro_mem_inv ro_abs (\<lambda>_. new_ok r) (ro_mem_CreateRollout c r ss)
     (\<lambda>d _ d'. db_rollouts d (ro_ID r) = None \<and> (\<forall>r'. is_active d r' \<longrightarrow> \<not> same_slot r r') \<and> d' = db_create r ss d)"
proof (rule contract_mem)
  fix s a s' assume J: "ro_mem_inv s" and ok: "new_ok r" and run: "ro_mem_CreateRollout c r ss s = (Inr a, s')"
  have new: "gomap_get (rms_rollouts s) (ro_ID r) = None" using run by (auto simp: ro_mem_CreateRollout_def split: if_splits option.splits)
  have free: "\<not> same_slot r r'" if "is_active (ro_abs s) r'" for r'
  proof
    assume "same_slot r r'"
    then have "active_key r' = active_key r" by (simp add: active_key_def same_slot_def)
    then have "gomap_get (rms_activeRollout s) (active_key r) = Some (ro_ID r')"
      using that by (simp add: ro_mem_is_active [OF J])
    moreover have "rollout_at s (ro_ID r') = r'" "\<not> Terminal (ro_State r')"
      using that by (simp_all add: is_active_def rollout_at_def)
    ultimately show False using run new
      by (simp add: ro_mem_CreateRollout_def active_key_def Let_def split: if_splits option.splits)
  qed
  have s': "s' = s\<lparr>rms_rollouts := gomap_set (ro_ID r) r (rms_rollouts s),
     rms_activeRollout := (if Terminal (ro_State r) then gomap_delete (active_key r) (rms_activeRollout s)
                            else gomap_set (active_key r) (ro_ID r) (rms_activeRollout s)),
     rms_stages := gomap_set (ro_ID r) ss (rms_stages s)\<rparr>"
    using run new ok
    by (auto simp: ro_mem_CreateRollout_def active_key_def new_ok_def Let_def split: if_splits option.splits)
  have "ro_mem_inv s'" unfolding s'
    by (rule ro_mem_inv_put) (use J ok free new in \<open>auto simp: new_ok_def\<close>)
  moreover have "ro_abs s' = db_create r ss (ro_abs s)"
    by (auto simp: s' ro_abs_def db_create_def db_put_def fun_eq_iff)
  ultimately show "ro_mem_inv s' \<and> db_rollouts (ro_abs s) (ro_ID r) = None \<and>
      (\<forall>r'. is_active (ro_abs s) r' \<longrightarrow> \<not> same_slot r r') \<and> ro_abs s' = db_create r ss (ro_abs s)"
    using new free by simp
qed (auto simp: ro_mem_CreateRollout_def Let_def split: if_splits option.splits)

lemma ro_mem_GetRollout_contract:
  "contract ro_mem_inv ro_abs (\<lambda>_. True) (ro_mem_GetRollout c i) (\<lambda>d r d'. d' = d \<and> db_rollouts d i = Some r)"
  by (rule contract_mem) (auto simp: ro_mem_GetRollout_def split: option.splits)

lemma ro_mem_GetActiveRollout_Inr:
  assumes "ro_mem_GetActiveRollout c d0 e s = (Inr r, s')"
  shows "\<exists>i. gomap_get (rms_activeRollout s) (nul_join d0 e) = Some i \<and> r = rollout_at s i \<and> s' = s"
proof (cases "gomap_get (rms_activeRollout s) (nul_join d0 e)")
  case None
  then show ?thesis using assms by (simp add: ro_mem_GetActiveRollout_def split: option.splits)
next
  case (Some i)
  then show ?thesis using assms
    by (auto simp: ro_mem_GetActiveRollout_def Let_def split: option.splits if_splits)
qed

lemma ro_mem_GetActiveRollout_contract:
  "contract ro_mem_inv ro_abs (\<lambda>_. valid_env e) (ro_mem_GetActiveRollout c d0 e)
     (\<lambda>d r d'. d' = d \<and> is_active d r \<and> ro_ConfigDefinitionID r = d0 \<and> ro_Environment r = e)"
proof (rule contract_mem)
  fix s r s' assume J: "ro_mem_inv s" and e: "valid_env e" and run: "ro_mem_GetActiveRollout c d0 e s = (Inr r, s')"
  obtain i where i: "gomap_get (rms_activeRollout s) (nul_join d0 e) = Some i" and r: "r = rollout_at s i" and s': "s' = s"
    using ro_mem_GetActiveRollout_Inr [OF run] by blast
  obtain r' where r': "gomap_get (rms_rollouts s) i = Some r'" "\<not> Terminal (ro_State r')" "active_key r' = nul_join d0 e"
    using i by (auto simp: ro_mem_inv_active [OF J])
  have "r = r'" using r' by (simp add: r rollout_at_def)
  then have "ro_ConfigDefinitionID r = d0 \<and> ro_Environment r = e"
    using ro_mem_inv_ids [OF J r'(1)] e r'(3)
    by (simp add: active_key_def rolloutActiveKey_def nul_join_inj_right valid_env_nul_free)
  moreover have "is_active (ro_abs s) r" using \<open>r = r'\<close> r' ro_mem_inv_ids [OF J r'(1)] by (simp add: is_active_def)
  ultimately show "ro_mem_inv s' \<and> ro_abs s' = ro_abs s \<and> is_active (ro_abs s) r \<and> ro_ConfigDefinitionID r = d0 \<and> ro_Environment r = e"
    using J s' by simp
qed (auto simp: ro_mem_GetActiveRollout_def Let_def split: option.splits if_splits)

lemma set_range_order [simp]: "set (range_order p xs) = set xs"
proof (cases "sort p = [0..<length xs]")
  case True
  then have "set p = {0..<length xs}" by (metis set_sort set_upt)
  then show ?thesis using True by (auto simp: range_order_def in_set_conv_nth)
qed (simp add: range_order_def)

lemma distinct_range_order: "distinct xs \<Longrightarrow> distinct (range_order p xs)"
proof (cases "sort p = [0..<length xs]")
  case True
  assume "distinct xs"
  have "distinct p" "set p = {0..<length xs}" using True by (metis distinct_sort distinct_upt, metis set_sort set_upt)
  then show ?thesis using True \<open>distinct xs\<close>
    by (auto simp: range_order_def distinct_map inj_on_def nth_eq_iff_index_eq)
qed (simp add: range_order_def)

lemma range_order_map: "map f (range_order p xs) = range_order p (map f xs)"
proof (cases "sort p = [0..<length xs]")
  case True
  then have "\<forall>i \<in> set p. i < length xs" by (metis atLeastLessThan_iff set_sort set_upt)
  then show ?thesis using True by (auto simp: range_order_def)
qed (simp add: range_order_def)

lemma active_loop_filter:
  "active_loop s m = filter (\<lambda>r. \<not> Terminal (ro_State r)) (map (\<lambda>x. rollout_at s (snd x)) m)"
  by (induction s m rule: active_loop.induct) (simp_all add: Let_def)

lemma ro_mem_ListActiveRollouts_contract:
  "contract ro_mem_inv ro_abs (\<lambda>_. True) (ro_mem_ListActiveRollouts p c)
     (\<lambda>d rs d'. d' = d \<and> distinct (map ro_ID rs) \<and> set rs = {r. is_active d r})"
proof (rule contract_mem)
  fix s rs s' assume J: "ro_mem_inv s" and run: "ro_mem_ListActiveRollouts p c s = (Inr rs, s')"
  let ?m = "rms_activeRollout s"
  have entry: "\<exists>r. gomap_get (rms_rollouts s) (snd x) = Some r \<and> \<not> Terminal (ro_State r) \<and> active_key r = fst x \<and>
      ro_ID r = snd x \<and> rollout_at s (snd x) = r" if "x \<in> set ?m" for x
  proof -
    have "gomap_ok ?m" using J by (simp add: ro_mem_inv_def)
    then have "gomap_get ?m (fst x) = Some (snd x)" using that by (simp add: gomap_get_iff)
    then show ?thesis using ro_mem_inv_ids [OF J] by (auto simp: ro_mem_inv_active [OF J] rollout_at_def)
  qed
  have rs: "rs = map (\<lambda>x. rollout_at s (snd x)) (range_order p ?m)" and s': "s' = s"
    using run entry by (auto simp: ro_mem_ListActiveRollouts_def active_loop_filter filter_id_conv split: option.splits)
  have ids: "map ro_ID rs = map snd (range_order p ?m)" unfolding rs using entry by auto
  have "distinct (map snd ?m)"
  proof -
    have "x = y" if "x \<in> set ?m" "y \<in> set ?m" "snd x = snd y" for x y
      using entry [OF that(1)] entry [OF that(2)] that(3) by (auto simp: prod_eq_iff)
    moreover have "distinct ?m" using J by (simp add: ro_mem_inv_def gomap_ok_def distinct_map)
    ultimately show ?thesis by (simp add: distinct_map inj_on_def)
  qed
  then have "distinct (map ro_ID rs)" by (simp add: ids range_order_map distinct_range_order)
  moreover have "set rs = {r. is_active (ro_abs s) r}"
  proof
    show "set rs \<subseteq> {r. is_active (ro_abs s) r}" unfolding rs using entry by (auto simp: is_active_def)
    show "{r. is_active (ro_abs s) r} \<subseteq> set rs"
    proof
      fix r assume r: "r \<in> {r. is_active (ro_abs s) r}"
      then have "gomap_get ?m (active_key r) = Some (ro_ID r)" "rollout_at s (ro_ID r) = r"
        by (simp_all add: ro_mem_is_active [OF J] rollout_at_def)
      moreover have "gomap_ok ?m" using J by (simp add: ro_mem_inv_def)
      ultimately have "(active_key r, ro_ID r) \<in> set ?m" "rollout_at s (ro_ID r) = r"
        by (simp_all add: gomap_get_iff)
      then show "r \<in> set rs" unfolding rs by (force simp: image_iff)
    qed
  qed
  ultimately show "ro_mem_inv s' \<and> ro_abs s' = ro_abs s \<and> distinct (map ro_ID rs) \<and> set rs = {r. is_active (ro_abs s) r}"
    using J s' by simp
qed (auto simp: ro_mem_ListActiveRollouts_def split: option.splits)

lemma ro_mem_UpdateRollout_contract:
  "contract ro_mem_inv ro_abs (update_ok r) (ro_mem_UpdateRollout c r) (\<lambda>d _ d'. d' = db_put r d)"
proof (rule contract_mem)
  fix s a s' assume J: "ro_mem_inv s" and ok: "update_ok r (ro_abs s)" and run: "ro_mem_UpdateRollout c r s = (Inr a, s')"
  obtain r0 where r0: "gomap_get (rms_rollouts s) (ro_ID r) = Some r0" "\<not> Terminal (ro_State r0)" "same_slot r r0"
    using ok by (auto simp: update_ok_def)
  have s': "s' = s\<lparr>rms_rollouts := gomap_set (ro_ID r) r (rms_rollouts s),
     rms_activeRollout := (if Terminal (ro_State r) then gomap_delete (active_key r) (rms_activeRollout s)
                            else gomap_set (active_key r) (ro_ID r) (rms_activeRollout s)),
     rms_stages := rms_stages s\<rparr>"
    using run r0(1) by (auto simp: ro_mem_UpdateRollout_def active_key_def Let_def split: option.splits)
  have act: "is_active (ro_abs s) r0" using r0 ro_mem_inv_ids [OF J r0(1)] by (simp add: is_active_def)
  have "ro_ID r' = ro_ID r" if "is_active (ro_abs s) r'" "same_slot r r'" for r'
  proof -
    have "same_slot r0 r'" using r0(3) that(2) by (simp add: same_slot_def)
    then have "r0 = r'" using ro_mem_one_active [OF J] act that(1) by (simp add: one_active_def)
    then show ?thesis using ro_mem_inv_ids [OF J r0(1)] by simp
  qed
  then have "ro_mem_inv s'" unfolding s'
    by (intro ro_mem_inv_put) (use J r0 ro_mem_inv_ids [OF J r0(1)] in \<open>auto simp: same_slot_def\<close>)
  moreover have "ro_abs s' = db_put r (ro_abs s)" by (auto simp: s' ro_abs_def db_put_def fun_eq_iff)
  ultimately show "ro_mem_inv s' \<and> ro_abs s' = db_put r (ro_abs s)" ..
qed (auto simp: ro_mem_UpdateRollout_def Let_def split: option.splits if_splits)

lemma ro_mem_ListStages_contract:
  "contract ro_mem_inv ro_abs (\<lambda>_. True) (ro_mem_ListStages c i) (\<lambda>d ss d'. d' = d \<and> db_stages d i = Some ss)"
  by (rule contract_mem) (auto simp: ro_mem_ListStages_def split: option.splits)

text \<open>The invariant says nothing of stages, targets and revisions.\<close>

lemma ro_mem_inv_other [simp]:
  "ro_mem_inv (s\<lparr>rms_stages := x\<rparr>) = ro_mem_inv s"
  "ro_mem_inv (s\<lparr>rms_targets := y\<rparr>) = ro_mem_inv s"
  "ro_mem_inv (s\<lparr>rms_nextRevision := z\<rparr>) = ro_mem_inv s"
  by (simp_all add: ro_mem_inv_def)

lemma ro_mem_SaveStage_contract:
  "contract ro_mem_inv ro_abs (\<lambda>_. True) (ro_mem_SaveStage c i st)
     (\<lambda>d _ d'. db_rollouts d i \<noteq> None \<and> d' = db_save_stage i st d)"
proof (rule contract_mem)
  fix s a s' assume J: "ro_mem_inv s" and run: "ro_mem_SaveStage c i st s = (Inr a, s')"
  have slice: "(case gomap_get (rms_stages s) i of None \<Rightarrow> [] | Some ss \<Rightarrow> ss) = gomap_slice (rms_stages s) i"
    by (simp add: gomap_slice_def)
  have "ro_abs s' = db_save_stage i st (ro_abs s)" using run
    by (auto simp: ro_mem_SaveStage_def db_save_stage_def slice Let_def ro_abs_def list_ex_iff fun_eq_iff
        split: option.splits if_splits)
  then show "ro_mem_inv s' \<and> db_rollouts (ro_abs s) i \<noteq> None \<and> ro_abs s' = db_save_stage i st (ro_abs s)"
    using run J by (auto simp: ro_mem_SaveStage_def split: option.splits if_splits)
qed (auto simp: ro_mem_SaveStage_def split: option.splits if_splits)

lemma save_targets_loop_slice:
  assumes "\<forall>t \<in> set ts. nul_free (tgt_RolloutID t)" and "nul_free i"
  shows "gomap_slice (save_targets_loop ts m) (targetKey i sid) = gomap_slice m (targetKey i sid) @ targets_of i sid ts"
  using assms
proof (induction ts m rule: save_targets_loop.induct)
  case (2 t ts m)
  then show ?case
    by (simp add: Let_def targets_of_def targetKey_def nul_join_inj)
qed (simp add: targets_of_def)

lemma ro_mem_SaveStageTargets_contract:
  "contract ro_mem_inv ro_abs (\<lambda>_. \<forall>t \<in> set ts. nul_free (tgt_RolloutID t)) (ro_mem_SaveStageTargets c ts)
     (\<lambda>d _ d'. d' = db_add_targets ts d)"
proof (rule contract_mem)
  fix s a s' assume J: "ro_mem_inv s" and ts: "\<forall>t \<in> set ts. nul_free (tgt_RolloutID t)"
    and run: "ro_mem_SaveStageTargets c ts s = (Inr a, s')"
  have s': "s' = s\<lparr>rms_targets := save_targets_loop ts (rms_targets s)\<rparr>"
    using run by (auto simp: ro_mem_SaveStageTargets_def split: option.splits)
  have "targets_of i sid ts = []" if "\<not> nul_free i" for i sid
    using that ts by (auto simp: targets_of_def filter_empty_conv)
  then have "ro_abs s' = db_add_targets ts (ro_abs s)"
    using save_targets_loop_slice [OF ts] by (auto simp: s' ro_abs_def db_add_targets_def fun_eq_iff)
  then show "ro_mem_inv s' \<and> ro_abs s' = db_add_targets ts (ro_abs s)" using J s' by simp
qed (auto simp: ro_mem_SaveStageTargets_def split: option.splits)

lemma ro_mem_ReplaceStageTargets_contract:
  "contract ro_mem_inv ro_abs (\<lambda>_. nul_free i) (ro_mem_ReplaceStageTargets c i sid ts)
     (\<lambda>d _ d'. d' = db_set_targets i sid ts d)"
proof (rule contract_mem)
  fix s a s' assume J: "ro_mem_inv s" and i: "nul_free i" and run: "ro_mem_ReplaceStageTargets c i sid ts s = (Inr a, s')"
  have s': "s' = s\<lparr>rms_targets := gomap_set (targetKey i sid) ts (rms_targets s)\<rparr>"
    using run by (auto simp: ro_mem_ReplaceStageTargets_def split: option.splits)
  have "ro_abs s' = db_set_targets i sid ts (ro_abs s)"
    using i by (auto simp: s' ro_abs_def db_set_targets_def fun_eq_iff targetKey_def nul_join_inj)
  then show "ro_mem_inv s' \<and> ro_abs s' = db_set_targets i sid ts (ro_abs s)" using J s' by simp
qed (auto simp: ro_mem_ReplaceStageTargets_def split: option.splits)

lemma ro_mem_ListStageTargets_contract:
  "contract ro_mem_inv ro_abs (\<lambda>_. nul_free i) (ro_mem_ListStageTargets c i sid)
     (\<lambda>d ts d'. d' = d \<and> ts = db_targets d i sid)"
  by (rule contract_mem) (auto simp: ro_mem_ListStageTargets_def split: option.splits)

lemma ro_mem_NextSnapshotRevision_contract:
  "contract ro_mem_inv ro_abs (\<lambda>_. True) (ro_mem_NextSnapshotRevision c)
     (\<lambda>d n d'. n = db_next d \<and> d' = d\<lparr>db_next := wrap64 (n + 1)\<rparr>)"
  by (rule contract_mem) (auto simp: ro_mem_NextSnapshotRevision_def ro_abs_def fun_eq_iff split: option.splits)

lemmas ro_mem_contracts =
  ro_mem_CreateRollout_contract ro_mem_GetRollout_contract ro_mem_GetActiveRollout_contract
  ro_mem_ListActiveRollouts_contract ro_mem_UpdateRollout_contract ro_mem_ListStages_contract
  ro_mem_SaveStage_contract ro_mem_SaveStageTargets_contract ro_mem_ReplaceStageTargets_contract
  ro_mem_ListStageTargets_contract ro_mem_NextSnapshotRevision_contract

end
