(* ===== verification/Config_Registry.thy ===== *)
theory Config_Registry
  imports Domain Sha256 "HOL-Library.Sublist"
begin

section \<open>internal/configregistry: tenants, definitions, immutable versions, stable pointers\<close>

text \<open>
  \<open>cr_Store\<close> is the interface \<open>configregistry.Store\<close> over an arbitrary world, \<open>cr_Service\<close> and
  the functions \<open>cr_...\<close> are \<open>service.go\<close>, \<open>cr_MemoryStore\<close> and \<open>cr_mem_...\<close> are
  \<open>memory_store.go\<close>, and \<open>JSONSchemaValidator\<close> is \<open>schema.go\<close>. The JSON-schema library is not
  part of the repository: the functions the validator calls are the fields of a record that
  the definitions take as an argument. The locale \<open>config_store\<close> is the contract of a store over the abstract
  state \<open>registry_db\<close>; what the service guarantees is proved from that contract.
\<close>

subsection \<open>schema.go\<close>

record ('doc, 'compiler, 'schema) jsonschema =
  js_UnmarshalJSON :: "bytes \<Rightarrow> error + 'doc"
  js_NewCompiler :: 'compiler
  js_AddResource :: "'compiler \<Rightarrow> string \<Rightarrow> 'doc \<Rightarrow> error + 'compiler"
  js_Compile :: "'compiler \<Rightarrow> string \<Rightarrow> error + 'schema"
  js_Validate :: "'schema \<Rightarrow> 'doc \<Rightarrow> error option"

record SchemaValidator =
  sv_ValidateSchema :: "bytes \<Rightarrow> error option"
  sv_ValidateValue :: "bytes \<Rightarrow> bytes \<Rightarrow> error option"

definition compileSchema :: "('doc, 'compiler, 'schema) jsonschema \<Rightarrow> bytes \<Rightarrow> error + 'schema" where
  "compileSchema js schema =
     (case js_UnmarshalJSON js schema of
        Inl e \<Rightarrow> Inl e
      | Inr document \<Rightarrow>
          (case js_AddResource js (js_NewCompiler js) ''schema.json'' document of
             Inl e \<Rightarrow> Inl e
           | Inr compiler \<Rightarrow> js_Compile js compiler ''schema.json''))"

definition JSONSchemaValidator_ValidateSchema ::
  "('doc, 'compiler, 'schema) jsonschema \<Rightarrow> bytes \<Rightarrow> error option" where
  "JSONSchemaValidator_ValidateSchema js schema =
     (case compileSchema js schema of
        Inl e \<Rightarrow> Some (Errorf ''%w: schema validation failed: %v'' [FW (Sentinel configregistry_ErrInvalidInput), FV e])
      | Inr _ \<Rightarrow> None)"

definition JSONSchemaValidator_ValidateValue ::
  "('doc, 'compiler, 'schema) jsonschema \<Rightarrow> bytes \<Rightarrow> bytes \<Rightarrow> error option" where
  "JSONSchemaValidator_ValidateValue js schema value =
     (case compileSchema js schema of
        Inl e \<Rightarrow> Some (Errorf ''%w: schema validation failed: %v'' [FW (Sentinel configregistry_ErrInvalidInput), FV e])
      | Inr compiled \<Rightarrow>
          (case js_UnmarshalJSON js value of
             Inl e \<Rightarrow> Some (Errorf ''%w: invalid config value json: %v'' [FW (Sentinel configregistry_ErrInvalidInput), FV e])
           | Inr document \<Rightarrow>
               (case js_Validate js compiled document of
                  Some e \<Rightarrow> Some (Errorf ''%w: config value does not match schema: %v''
                             [FW (Sentinel configregistry_ErrInvalidInput), FV e])
                | None \<Rightarrow> None)))"

definition JSONSchemaValidator :: "('doc, 'compiler, 'schema) jsonschema \<Rightarrow> SchemaValidator" where
  "JSONSchemaValidator js = \<lparr>sv_ValidateSchema = JSONSchemaValidator_ValidateSchema js,
                              sv_ValidateValue = JSONSchemaValidator_ValidateValue js\<rparr>"

subsection \<open>service.go: Store and Service\<close>

record 'w cr_Store =
  cs_CreateTenant :: "Tenant \<Rightarrow> ('w, unit) M"
  cs_ListTenants :: "('w, Tenant list) M"
  cs_GetTenant :: "string \<Rightarrow> ('w, Tenant) M"
  cs_CreateDefinition :: "ConfigDefinition \<Rightarrow> ('w, unit) M"
  cs_ListDefinitions :: "string \<Rightarrow> ('w, ConfigDefinition list) M"
  cs_GetDefinitionByKey :: "string \<Rightarrow> string \<Rightarrow> ('w, ConfigDefinition) M"
  cs_CreateVersion :: "ConfigVersion \<Rightarrow> ('w, ConfigVersion) M"
  cs_ListVersions :: "string \<Rightarrow> ('w, ConfigVersion list) M"
  cs_GetVersionByNumber :: "string \<Rightarrow> int \<Rightarrow> ('w, ConfigVersion) M"
  cs_SaveEnvironmentState :: "ConfigEnvironmentState \<Rightarrow> ('w, unit) M"
  cs_GetEnvironmentState :: "string \<Rightarrow> Environment \<Rightarrow> ('w, ConfigEnvironmentState) M"

record 'w cr_Service =
  crs_store :: "'w cr_Store"
  crs_validator :: SchemaValidator
  crs_now :: "'w \<Rightarrow> go_time \<times> 'w"
  crs_newID :: "string \<Rightarrow> 'w \<Rightarrow> string \<times> 'w"

text \<open>\<open>randomID\<close>: a prefix, an underscore and twelve random bytes in hexadecimal.\<close>

definition randomID :: "string \<Rightarrow> byte list \<Rightarrow> string" where
  "randomID pfx b = pfx @ ''_'' @ hex_EncodeToString b"

lemma hex_nul_free: "nul_free (hex_EncodeToString b)"
proof -
  have "nul \<notin> set hex_alphabet" by code_simp
  then show ?thesis using hex_EncodeToString_chars [of b] by (auto simp: nul_free_def)
qed

lemma randomID_nul_free: "nul_free pfx \<Longrightarrow> nul_free (randomID pfx b)"
  using hex_nul_free by (auto simp: randomID_def nul_free_def nul_def)

record CreateTenantInput =
  cti_ID :: string
  cti_Name :: string
  cti_Description :: string
  cti_Owner :: string

record CreateDefinitionInput =
  cdi_TenantID :: string
  cdi_Key :: string
  cdi_Description :: string
  cdi_Schema :: RawMessage
  cdi_DefaultValue :: RawMessage

record CreateVersionInput =
  cvi_TenantID :: string
  cvi_Key :: string
  cvi_Value :: RawMessage
  cvi_SourceCommitSHA :: string
  cvi_CreatedBy :: string

record SetStableVersionInput =
  ssv_TenantID :: string
  ssv_Key :: string
  ssv_Environment :: Environment
  ssv_VersionNumber :: int

definition cr_invalid :: "error \<Rightarrow> error" where
  "cr_invalid e = Errorf ''%w: %v'' [FW (Sentinel configregistry_ErrInvalidInput), FV e]"

definition cr_CreateTenant :: "'w cr_Service \<Rightarrow> CreateTenantInput \<Rightarrow> ('w, Tenant) M" where
  "cr_CreateTenant svc input =
     bindM (effM (crs_now svc)) (\<lambda>now.
     let tenant = \<lparr>tenant_ID = cti_ID input, tenant_Name = cti_Name input,
                   tenant_Description = cti_Description input, tenant_Owner = cti_Owner input,
                   tenant_CreatedAt = now, tenant_UpdatedAt = now\<rparr> in
     bindM (checkM (map_option cr_invalid (Tenant_Validate tenant))) (\<lambda>_.
     bindM (cs_CreateTenant (crs_store svc) tenant) (\<lambda>_.
     retM tenant)))"

definition cr_ListTenants :: "'w cr_Service \<Rightarrow> ('w, Tenant list) M" where
  "cr_ListTenants svc = cs_ListTenants (crs_store svc)"

definition cr_GetTenant :: "'w cr_Service \<Rightarrow> string \<Rightarrow> ('w, Tenant) M" where
  "cr_GetTenant svc tenantID = cs_GetTenant (crs_store svc) tenantID"

definition cr_CreateDefinition :: "'w cr_Service \<Rightarrow> CreateDefinitionInput \<Rightarrow> ('w, ConfigDefinition) M" where
  "cr_CreateDefinition svc input =
     bindM (cs_GetTenant (crs_store svc) (cdi_TenantID input)) (\<lambda>_.
     bindM (checkM (sv_ValidateSchema (crs_validator svc) (cdi_Schema input))) (\<lambda>_.
     bindM (if length (cdi_DefaultValue input) > 0
            then checkM (sv_ValidateValue (crs_validator svc) (cdi_Schema input) (cdi_DefaultValue input))
            else retM ()) (\<lambda>_.
     bindM (effM (crs_now svc)) (\<lambda>now.
     bindM (effM (crs_newID svc ''cfg'')) (\<lambda>newID.
     let definition1 = \<lparr>def_ID = newID, def_TenantID = cdi_TenantID input, def_Key = cdi_Key input,
                        def_Description = cdi_Description input, def_Schema = cloneRaw (cdi_Schema input),
                        def_DefaultValue = cloneRaw (cdi_DefaultValue input),
                        def_CreatedAt = now, def_UpdatedAt = now\<rparr> in
     bindM (checkM (map_option cr_invalid (ConfigDefinition_Validate definition1))) (\<lambda>_.
     bindM (cs_CreateDefinition (crs_store svc) definition1) (\<lambda>_.
     retM definition1)))))))"

definition cr_ListDefinitions :: "'w cr_Service \<Rightarrow> string \<Rightarrow> ('w, ConfigDefinition list) M" where
  "cr_ListDefinitions svc tenantID =
     bindM (cs_GetTenant (crs_store svc) tenantID) (\<lambda>_. cs_ListDefinitions (crs_store svc) tenantID)"

definition cr_GetDefinition :: "'w cr_Service \<Rightarrow> string \<Rightarrow> string \<Rightarrow> ('w, ConfigDefinition) M" where
  "cr_GetDefinition svc tenantID key = cs_GetDefinitionByKey (crs_store svc) tenantID key"

definition cr_CreateVersion :: "'w cr_Service \<Rightarrow> CreateVersionInput \<Rightarrow> ('w, ConfigVersion) M" where
  "cr_CreateVersion svc input =
     bindM (cs_GetDefinitionByKey (crs_store svc) (cvi_TenantID input) (cvi_Key input)) (\<lambda>definition1.
     bindM (checkM (sv_ValidateValue (crs_validator svc) (def_Schema definition1) (cvi_Value input))) (\<lambda>_.
     bindM (effM (crs_newID svc ''ver'')) (\<lambda>newID.
     bindM (effM (crs_now svc)) (\<lambda>now.
     cs_CreateVersion (crs_store svc)
       \<lparr>ver_ID = newID, ver_ConfigDefinitionID = def_ID definition1, ver_VersionNumber = 0,
        ver_Value = cloneRaw (cvi_Value input), ver_SourceCommitSHA = cvi_SourceCommitSHA input,
        ver_CreatedBy = cvi_CreatedBy input, ver_CreatedAt = now\<rparr>))))"

definition cr_ListVersions :: "'w cr_Service \<Rightarrow> string \<Rightarrow> string \<Rightarrow> ('w, ConfigVersion list) M" where
  "cr_ListVersions svc tenantID key =
     bindM (cs_GetDefinitionByKey (crs_store svc) tenantID key) (\<lambda>definition1.
     cs_ListVersions (crs_store svc) (def_ID definition1))"

definition cr_SetStableVersion :: "'w cr_Service \<Rightarrow> SetStableVersionInput \<Rightarrow> ('w, ConfigEnvironmentState) M" where
  "cr_SetStableVersion svc input =
     bindM (checkM (map_option cr_invalid (Environment_Validate (ssv_Environment input)))) (\<lambda>_.
     bindM (cs_GetDefinitionByKey (crs_store svc) (ssv_TenantID input) (ssv_Key input)) (\<lambda>definition1.
     bindM (cs_GetVersionByNumber (crs_store svc) (def_ID definition1) (ssv_VersionNumber input)) (\<lambda>version.
     bindM (tryM (cs_GetEnvironmentState (crs_store svc) (def_ID definition1) (ssv_Environment input))
              (\<lambda>err. if \<not> errors_Is err configregistry_ErrNotFound then raiseM err
                     else retM \<lparr>env_ConfigDefinitionID = def_ID definition1,
                                env_Environment = ssv_Environment input, env_StableVersionID = [],
                                env_ActiveRolloutID = [], env_UpdatedAt = 0\<rparr>)
              retM) (\<lambda>state.
     bindM (case WithStableVersion state (ver_ID version) of
              Inl err \<Rightarrow> raiseM (Errorf ''%w: %v'' [FW (Sentinel configregistry_ErrConflict), FV err])
            | Inr next \<Rightarrow> retM next) (\<lambda>next.
     bindM (effM (crs_now svc)) (\<lambda>now.
     let next = next\<lparr>env_UpdatedAt := now\<rparr> in
     bindM (checkM (map_option cr_invalid (ConfigEnvironmentState_Validate next))) (\<lambda>_.
     bindM (cs_SaveEnvironmentState (crs_store svc) next) (\<lambda>_.
     retM next))))))))"

definition cr_GetEnvironmentState ::
  "'w cr_Service \<Rightarrow> string \<Rightarrow> string \<Rightarrow> Environment \<Rightarrow> ('w, ConfigEnvironmentState) M" where
  "cr_GetEnvironmentState svc tenantID key environment =
     bindM (cs_GetDefinitionByKey (crs_store svc) tenantID key) (\<lambda>definition1.
     cs_GetEnvironmentState (crs_store svc) (def_ID definition1) environment)"

subsection \<open>memory_store.go\<close>

record cr_MemoryStore =
  cms_tenants :: "(string, Tenant) gomap"
  cms_definitions :: "(string, ConfigDefinition) gomap"
  cms_definitionsByKey :: "(string, string) gomap"
  cms_versions :: "(string, ConfigVersion list) gomap"
  cms_versionsByNumber :: "(string, ConfigVersion) gomap"
  cms_states :: "(string, ConfigEnvironmentState) gomap"

definition cr_NewMemoryStore :: cr_MemoryStore where
  "cr_NewMemoryStore = \<lparr>cms_tenants = [], cms_definitions = [], cms_definitionsByKey = [], cms_versions = [],
     cms_versionsByNumber = [], cms_states = []\<rparr>"

definition definitionKey :: "string \<Rightarrow> string \<Rightarrow> string" where
  "definitionKey tenantID key = nul_join tenantID key"

definition versionNumberKey :: "string \<Rightarrow> int \<Rightarrow> string" where
  "versionNumberKey configDefinitionID versionNumber = nul_join configDefinitionID (show_int versionNumber)"

definition stateKey :: "string \<Rightarrow> Environment \<Rightarrow> string" where
  "stateKey configDefinitionID environment = nul_join configDefinitionID environment"

definition zero_ConfigDefinition :: ConfigDefinition where
  "zero_ConfigDefinition = \<lparr>def_ID = [], def_TenantID = [], def_Key = [], def_Description = [], def_Schema = [],
     def_DefaultValue = [], def_CreatedAt = 0, def_UpdatedAt = 0\<rparr>"

definition cr_mem_CreateTenant :: "error option \<Rightarrow> Tenant \<Rightarrow> (cr_MemoryStore, unit) M" where
  "cr_mem_CreateTenant ctxErr tenant s =
     (case ctxErr of Some e \<Rightarrow> (Inl e, s) | None \<Rightarrow>
      if gomap_get (cms_tenants s) (tenant_ID tenant) \<noteq> None then
        (Inl (Errorf ''%w: tenant %q'' [FW (Sentinel configregistry_ErrAlreadyExists), FQ (tenant_ID tenant)]), s)
      else (Inr (), s\<lparr>cms_tenants := gomap_set (tenant_ID tenant) tenant (cms_tenants s)\<rparr>))"

definition cr_mem_ListTenants :: "error option \<Rightarrow> (cr_MemoryStore, Tenant list) M" where
  "cr_mem_ListTenants ctxErr s =
     (case ctxErr of Some e \<Rightarrow> (Inl e, s) | None \<Rightarrow>
      (Inr (sort_key tenant_ID (map snd (cms_tenants s))), s))"

definition cr_mem_GetTenant :: "error option \<Rightarrow> string \<Rightarrow> (cr_MemoryStore, Tenant) M" where
  "cr_mem_GetTenant ctxErr tenantID s =
     (case ctxErr of Some e \<Rightarrow> (Inl e, s) | None \<Rightarrow>
      case gomap_get (cms_tenants s) tenantID of
        None \<Rightarrow> (Inl (Errorf ''%w: tenant %q'' [FW (Sentinel configregistry_ErrNotFound), FQ tenantID]), s)
      | Some tenant \<Rightarrow> (Inr tenant, s))"

definition clone_definition :: "ConfigDefinition \<Rightarrow> ConfigDefinition" where
  "clone_definition d = d\<lparr>def_Schema := cloneRaw (def_Schema d), def_DefaultValue := cloneRaw (def_DefaultValue d)\<rparr>"

definition cr_mem_CreateDefinition :: "error option \<Rightarrow> ConfigDefinition \<Rightarrow> (cr_MemoryStore, unit) M" where
  "cr_mem_CreateDefinition ctxErr d s =
     (case ctxErr of Some e \<Rightarrow> (Inl e, s) | None \<Rightarrow>
      if gomap_get (cms_tenants s) (def_TenantID d) = None then
        (Inl (Errorf ''%w: tenant %q'' [FW (Sentinel configregistry_ErrNotFound), FQ (def_TenantID d)]), s)
      else if gomap_get (cms_definitions s) (def_ID d) \<noteq> None then
        (Inl (Errorf ''%w: definition %q'' [FW (Sentinel configregistry_ErrAlreadyExists), FQ (def_ID d)]), s)
      else let key = definitionKey (def_TenantID d) (def_Key d) in
        if gomap_get (cms_definitionsByKey s) key \<noteq> None then
          (Inl (Errorf ''%w: config key %q'' [FW (Sentinel configregistry_ErrAlreadyExists), FQ (def_Key d)]), s)
        else (Inr (), s\<lparr>cms_definitions := gomap_set (def_ID d) (clone_definition d) (cms_definitions s),
                        cms_definitionsByKey := gomap_set key (def_ID d) (cms_definitionsByKey s)\<rparr>))"

definition cr_mem_ListDefinitions :: "error option \<Rightarrow> string \<Rightarrow> (cr_MemoryStore, ConfigDefinition list) M" where
  "cr_mem_ListDefinitions ctxErr tenantID s =
     (case ctxErr of Some e \<Rightarrow> (Inl e, s) | None \<Rightarrow>
      if gomap_get (cms_tenants s) tenantID = None then
        (Inl (Errorf ''%w: tenant %q'' [FW (Sentinel configregistry_ErrNotFound), FQ tenantID]), s)
      else (Inr (sort_key def_Key
              (map clone_definition (filter (\<lambda>d. def_TenantID d = tenantID) (map snd (cms_definitions s))))), s))"

definition cr_mem_GetDefinitionByKey :: "error option \<Rightarrow> string \<Rightarrow> string \<Rightarrow> (cr_MemoryStore, ConfigDefinition) M" where
  "cr_mem_GetDefinitionByKey ctxErr tenantID key s =
     (case ctxErr of Some e \<Rightarrow> (Inl e, s) | None \<Rightarrow>
      case gomap_get (cms_definitionsByKey s) (definitionKey tenantID key) of
        None \<Rightarrow> (Inl (Errorf ''%w: config %q'' [FW (Sentinel configregistry_ErrNotFound), FQ key]), s)
      | Some i \<Rightarrow>
          (Inr (clone_definition
            (case gomap_get (cms_definitions s) i of None \<Rightarrow> zero_ConfigDefinition | Some d \<Rightarrow> d)), s))"

definition clone_version :: "ConfigVersion \<Rightarrow> ConfigVersion" where
  "clone_version v = v\<lparr>ver_Value := cloneRaw (ver_Value v)\<rparr>"

definition cr_mem_CreateVersion :: "error option \<Rightarrow> ConfigVersion \<Rightarrow> (cr_MemoryStore, ConfigVersion) M" where
  "cr_mem_CreateVersion ctxErr version s =
     (case ctxErr of Some e \<Rightarrow> (Inl e, s) | None \<Rightarrow>
      let c = ver_ConfigDefinitionID version in
      if gomap_get (cms_definitions s) c = None then
        (Inl (Errorf ''%w: definition %q'' [FW (Sentinel configregistry_ErrNotFound), FQ c]), s)
      else let version = version\<lparr>ver_VersionNumber := int (length (gomap_slice (cms_versions s) c)) + 1\<rparr> in
        case ConfigVersion_Validate version of
          Some e \<Rightarrow> (Inl (cr_invalid e), s)
        | None \<Rightarrow>
            let version = clone_version version in
            (Inr version, s\<lparr>cms_versions := gomap_set c (gomap_slice (cms_versions s) c @ [version]) (cms_versions s),
                            cms_versionsByNumber := gomap_set (versionNumberKey c (ver_VersionNumber version)) version
                              (cms_versionsByNumber s)\<rparr>))"

definition cr_mem_ListVersions :: "error option \<Rightarrow> string \<Rightarrow> (cr_MemoryStore, ConfigVersion list) M" where
  "cr_mem_ListVersions ctxErr configDefinitionID s =
     (case ctxErr of Some e \<Rightarrow> (Inl e, s) | None \<Rightarrow>
      if gomap_get (cms_definitions s) configDefinitionID = None then
        (Inl (Errorf ''%w: definition %q'' [FW (Sentinel configregistry_ErrNotFound), FQ configDefinitionID]), s)
      else (Inr (map clone_version (gomap_slice (cms_versions s) configDefinitionID)), s))"

definition cr_mem_GetVersionByNumber :: "error option \<Rightarrow> string \<Rightarrow> int \<Rightarrow> (cr_MemoryStore, ConfigVersion) M" where
  "cr_mem_GetVersionByNumber ctxErr configDefinitionID versionNumber s =
     (case ctxErr of Some e \<Rightarrow> (Inl e, s) | None \<Rightarrow>
      case gomap_get (cms_versionsByNumber s) (versionNumberKey configDefinitionID versionNumber) of
        None \<Rightarrow> (Inl (Errorf ''%w: version %d'' [FW (Sentinel configregistry_ErrNotFound), FD versionNumber]), s)
      | Some version \<Rightarrow> (Inr (clone_version version), s))"

definition cr_mem_SaveEnvironmentState :: "error option \<Rightarrow> ConfigEnvironmentState \<Rightarrow> (cr_MemoryStore, unit) M" where
  "cr_mem_SaveEnvironmentState ctxErr state s =
     (case ctxErr of Some e \<Rightarrow> (Inl e, s) | None \<Rightarrow>
      (Inr (), s\<lparr>cms_states := gomap_set (stateKey (env_ConfigDefinitionID state) (env_Environment state)) state (cms_states s)\<rparr>))"

definition cr_mem_GetEnvironmentState ::
  "error option \<Rightarrow> string \<Rightarrow> Environment \<Rightarrow> (cr_MemoryStore, ConfigEnvironmentState) M" where
  "cr_mem_GetEnvironmentState ctxErr configDefinitionID environment s =
     (case ctxErr of Some e \<Rightarrow> (Inl e, s) | None \<Rightarrow>
      case gomap_get (cms_states s) (stateKey configDefinitionID environment) of
        None \<Rightarrow> (Inl (Errorf ''%w: environment state %q'' [FW (Sentinel configregistry_ErrNotFound), FQ environment]), s)
      | Some state \<Rightarrow> (Inr state, s))"

lemma clone_id [simp]: "clone_definition = (\<lambda>d. d)" "clone_version = (\<lambda>v. v)"
  by (simp_all add: clone_definition_def clone_version_def fun_eq_iff)

subsection \<open>The contract of a store\<close>

text \<open>
  The abstract state. Definitions are found by the joined key of tenant and configuration key,
  so that the contract also describes what happens when two pairs join to the same string;
  versions by definition, in the order of their creation; the stable pointer by definition and
  environment.
\<close>

record registry_db =
  reg_tenants :: "string \<rightharpoonup> Tenant"
  reg_defs :: "string \<rightharpoonup> ConfigDefinition"
  reg_versions :: "string \<Rightarrow> ConfigVersion list"
  reg_states :: "string \<Rightarrow> Environment \<rightharpoonup> ConfigEnvironmentState"

definition joined_key :: "ConfigDefinition \<Rightarrow> string" where
  "joined_key d = definitionKey (def_TenantID d) (def_Key d)"

text \<open>The invariant of the abstract state.\<close>

definition has_id :: "registry_db \<Rightarrow> string \<Rightarrow> bool" where
  "has_id db c \<longleftrightarrow> (\<exists>k d. reg_defs db k = Some d \<and> def_ID d = c)"

definition tenants_ok :: "registry_db \<Rightarrow> bool" where
  "tenants_ok db \<longleftrightarrow> (\<forall>i t. reg_tenants db i = Some t \<longrightarrow> tenant_ID t = i)"

definition defs_ok :: "registry_db \<Rightarrow> bool" where
  "defs_ok db \<longleftrightarrow>
     (\<forall>k d. reg_defs db k = Some d \<longrightarrow>
        joined_key d = k \<and> nul_free (def_ID d) \<and> reg_tenants db (def_TenantID d) \<noteq> None) \<and>
     (\<forall>k d k' d'. reg_defs db k = Some d \<longrightarrow> reg_defs db k' = Some d' \<longrightarrow> def_ID d = def_ID d' \<longrightarrow> k = k')"

definition version_at :: "string \<Rightarrow> nat \<Rightarrow> ConfigVersion \<Rightarrow> bool" where
  "version_at c n v \<longleftrightarrow>
     ver_VersionNumber v = int n + 1 \<and> ver_ConfigDefinitionID v = c \<and> ConfigVersion_Validate v = None"

definition versions_ok :: "registry_db \<Rightarrow> bool" where
  "versions_ok db \<longleftrightarrow>
     (\<forall>c n. n < length (reg_versions db c) \<longrightarrow> version_at c n (reg_versions db c ! n)) \<and>
     (\<forall>c. reg_versions db c \<noteq> [] \<longrightarrow> has_id db c)"

definition states_ok :: "registry_db \<Rightarrow> bool" where
  "states_ok db \<longleftrightarrow>
     (\<forall>c e st. reg_states db c e = Some st \<longrightarrow> env_ConfigDefinitionID st = c \<and> env_Environment st = e)"

definition registry_ok :: "registry_db \<Rightarrow> bool" where
  "registry_ok db \<longleftrightarrow> tenants_ok db \<and> defs_ok db \<and> versions_ok db \<and> states_ok db"

definition reg_add_tenant :: "Tenant \<Rightarrow> registry_db \<Rightarrow> registry_db" where
  "reg_add_tenant t db = db\<lparr>reg_tenants := (reg_tenants db)(tenant_ID t \<mapsto> t)\<rparr>"

definition reg_add_def :: "ConfigDefinition \<Rightarrow> registry_db \<Rightarrow> registry_db" where
  "reg_add_def d db = db\<lparr>reg_defs := (reg_defs db)(joined_key d \<mapsto> d)\<rparr>"

definition numbered :: "registry_db \<Rightarrow> ConfigVersion \<Rightarrow> ConfigVersion" where
  "numbered db v = v\<lparr>ver_VersionNumber := int (length (reg_versions db (ver_ConfigDefinitionID v))) + 1\<rparr>"

definition reg_add_version :: "ConfigVersion \<Rightarrow> registry_db \<Rightarrow> registry_db" where
  "reg_add_version v db =
     db\<lparr>reg_versions := (reg_versions db)(ver_ConfigDefinitionID v := reg_versions db (ver_ConfigDefinitionID v) @ [v])\<rparr>"

definition reg_set_state :: "ConfigEnvironmentState \<Rightarrow> registry_db \<Rightarrow> registry_db" where
  "reg_set_state st db =
     db\<lparr>reg_states := (reg_states db)(env_ConfigDefinitionID st :=
       (reg_states db (env_ConfigDefinitionID st))(env_Environment st \<mapsto> st))\<rparr>"

locale config_store =
  fixes S :: "'w cr_Store" and J :: "'w \<Rightarrow> bool" and ab :: "'w \<Rightarrow> registry_db \<times> 'r"
  assumes CreateTenant: "contract J ab (\<lambda>_. True) (cs_CreateTenant S t)
      (\<lambda>d _ d'. reg_tenants (fst d) (tenant_ID t) = None \<and> d' = (reg_add_tenant t (fst d), snd d))"
    and ListTenants: "contract J ab (\<lambda>_. True) (cs_ListTenants S)
      (\<lambda>d ts d'. d' = d \<and> sorted (map tenant_ID ts) \<and> distinct (map tenant_ID ts) \<and> set ts = ran (reg_tenants (fst d)))"
    and GetTenant: "contract J ab (\<lambda>_. True) (cs_GetTenant S i)
      (\<lambda>d t d'. d' = d \<and> reg_tenants (fst d) i = Some t)"
    and CreateDefinition: "contract J ab (\<lambda>_. nul_free (def_ID x)) (cs_CreateDefinition S x)
      (\<lambda>d _ d'. reg_tenants (fst d) (def_TenantID x) \<noteq> None \<and> \<not> has_id (fst d) (def_ID x) \<and>
         reg_defs (fst d) (joined_key x) = None \<and> d' = (reg_add_def x (fst d), snd d))"
    and ListDefinitions: "contract J ab (\<lambda>_. True) (cs_ListDefinitions S i)
      (\<lambda>d xs d'. d' = d \<and> sorted (map def_Key xs) \<and> distinct (map def_Key xs) \<and>
         set xs = {x \<in> ran (reg_defs (fst d)). def_TenantID x = i})"
    and GetDefinitionByKey: "contract J ab (\<lambda>_. True) (cs_GetDefinitionByKey S i k)
      (\<lambda>d x d'. d' = d \<and> reg_defs (fst d) (definitionKey i k) = Some x)"
    and CreateVersion: "contract J ab (\<lambda>_. True) (cs_CreateVersion S v)
      (\<lambda>d v' d'. has_id (fst d) (ver_ConfigDefinitionID v) \<and> v' = numbered (fst d) v \<and>
         ConfigVersion_Validate v' = None \<and> d' = (reg_add_version v' (fst d), snd d))"
    and ListVersions: "contract J ab (\<lambda>_. True) (cs_ListVersions S c)
      (\<lambda>d vs d'. d' = d \<and> vs = reg_versions (fst d) c)"
    and GetVersionByNumber: "contract J ab (\<lambda>_. True) (cs_GetVersionByNumber S c n)
      (\<lambda>d v d'. d' = d \<and> v \<in> set (reg_versions (fst d) c) \<and> ver_VersionNumber v = n)"
    and SaveEnvironmentState: "contract J ab (\<lambda>_. nul_free (env_ConfigDefinitionID st)) (cs_SaveEnvironmentState S st)
      (\<lambda>d _ d'. d' = (reg_set_state st (fst d), snd d))"
    and GetEnvironmentState: "contract J ab (\<lambda>_. nul_free c) (cs_GetEnvironmentState S c e)
      (\<lambda>d st d'. d' = d \<and> reg_states (fst d) c e = Some st)"
    and store_ok: "J w \<Longrightarrow> registry_ok (fst (ab w))"

subsection \<open>The in-memory store keeps the contract\<close>

definition cr_abs :: "cr_MemoryStore \<Rightarrow> registry_db" where
  "cr_abs s = \<lparr>reg_tenants = gomap_get (cms_tenants s),
     reg_defs = (\<lambda>k. case gomap_get (cms_definitionsByKey s) k of None \<Rightarrow> None | Some i \<Rightarrow> gomap_get (cms_definitions s) i),
     reg_versions = gomap_slice (cms_versions s),
     reg_states = (\<lambda>c e. if nul_free c then gomap_get (cms_states s) (stateKey c e) else None)\<rparr>"

definition cr_index_ok :: "cr_MemoryStore \<Rightarrow> bool" where
  "cr_index_ok s \<longleftrightarrow>
     gomap_ok (cms_tenants s) \<and> gomap_ok (cms_definitions s) \<and>
     (\<forall>k i. gomap_get (cms_definitionsByKey s) k = Some i \<longrightarrow> gomap_get (cms_definitions s) i \<noteq> None) \<and>
     (\<forall>i d. gomap_get (cms_definitions s) i = Some d \<longrightarrow>
        def_ID d = i \<and> gomap_get (cms_definitionsByKey s) (joined_key d) = Some i) \<and>
     (\<forall>c n. gomap_get (cms_versionsByNumber s) (versionNumberKey c n) =
        (let vs = gomap_slice (cms_versions s) c
         in if 1 \<le> n \<and> n \<le> int (length vs) then Some (vs ! nat (n - 1)) else None))"

definition cr_mem_inv :: "cr_MemoryStore \<Rightarrow> bool" where
  "cr_mem_inv s \<longleftrightarrow> cr_index_ok s \<and> registry_ok (cr_abs s)"

lemma cr_abs_simps [simp]:
  "reg_tenants (cr_abs s) = gomap_get (cms_tenants s)"
  "reg_versions (cr_abs s) = gomap_slice (cms_versions s)"
  "nul_free c \<Longrightarrow> reg_states (cr_abs s) c e = gomap_get (cms_states s) (stateKey c e)"
  by (simp_all add: cr_abs_def)

lemma reg_defs_iff:
  "reg_defs (cr_abs s) k = Some d \<longleftrightarrow>
     (\<exists>i. gomap_get (cms_definitionsByKey s) k = Some i \<and> gomap_get (cms_definitions s) i = Some d)"
  by (simp add: cr_abs_def split: option.splits)

lemma cr_defs_id:
  assumes "cr_index_ok s"
  shows "gomap_get (cms_definitions s) i = Some d \<longleftrightarrow> def_ID d = i \<and> reg_defs (cr_abs s) (joined_key d) = Some d"
proof
  assume d: "gomap_get (cms_definitions s) i = Some d"
  then have "def_ID d = i" "gomap_get (cms_definitionsByKey s) (joined_key d) = Some i"
    using assms by (auto simp: cr_index_ok_def)
  with d show "def_ID d = i \<and> reg_defs (cr_abs s) (joined_key d) = Some d" by (auto simp: reg_defs_iff)
next
  assume "def_ID d = i \<and> reg_defs (cr_abs s) (joined_key d) = Some d"
  then obtain j where "def_ID d = i" "gomap_get (cms_definitions s) j = Some d" by (auto simp: reg_defs_iff)
  then show "gomap_get (cms_definitions s) i = Some d" using assms by (auto simp: cr_index_ok_def)
qed

lemma cr_has_id:
  assumes "cr_mem_inv s"
  shows "has_id (cr_abs s) c \<longleftrightarrow> gomap_get (cms_definitions s) c \<noteq> None"
proof -
  have idx: "cr_index_ok s" and ok: "registry_ok (cr_abs s)" using assms by (simp_all add: cr_mem_inv_def)
  have "(\<exists>k d. reg_defs (cr_abs s) k = Some d \<and> def_ID d = c) \<longleftrightarrow> (\<exists>d. gomap_get (cms_definitions s) c = Some d)"
    unfolding cr_defs_id [OF idx] using ok by (auto simp: registry_ok_def defs_ok_def)
  then show ?thesis by (simp add: has_id_def)
qed

lemma joined_key_unique:
  assumes "def_TenantID d = def_TenantID d'"
  shows "joined_key d = joined_key d' \<longleftrightarrow> def_Key d = def_Key d'"
  using assms by (simp add: joined_key_def definitionKey_def nul_join_def)

lemma versionNumberKey_inj: "versionNumberKey c n = versionNumberKey c' n' \<longleftrightarrow> c = c' \<and> n = n'"
proof -
  have digits: "nul_free (show_uint m)" if "0 \<le> m" for m
    using show_uint_digits [OF that, of nul] by (auto simp: nul_free_def nul_def)
  have "nul_free (show_int m)" for m
    using digits [of m] digits [of "- m"] by (auto simp: show_int_def nul_free_def nul_def)
  then show ?thesis by (simp add: versionNumberKey_def nul_join_inj_right show_int_inj)
qed

lemma cr_mem_init: "cr_mem_inv cr_NewMemoryStore"
  by (simp add: cr_mem_inv_def cr_index_ok_def registry_ok_def tenants_ok_def defs_ok_def versions_ok_def states_ok_def
      cr_abs_def cr_NewMemoryStore_def gomap_slice_def)

lemma contract_cr_mem:
  assumes "\<And>s a s'. cr_mem_inv s \<Longrightarrow> P (cr_abs s) \<Longrightarrow> f s = (Inr a, s') \<Longrightarrow> cr_mem_inv s' \<and> R (cr_abs s) a (cr_abs s')"
    and "\<And>s e s'. f s = (Inl e, s') \<Longrightarrow> s' = s"
  shows "contract cr_mem_inv cr_abs P f R"
  by (rule contractI, rule wpI) (use assms in blast)+

lemma cr_mem_CreateTenant_contract:
  "contract cr_mem_inv cr_abs (\<lambda>_. True) (cr_mem_CreateTenant c t)
     (\<lambda>d _ d'. reg_tenants d (tenant_ID t) = None \<and> d' = reg_add_tenant t d)"
proof (rule contract_cr_mem)
  fix s a s' assume J: "cr_mem_inv s" and run: "cr_mem_CreateTenant c t s = (Inr a, s')"
  have new: "gomap_get (cms_tenants s) (tenant_ID t) = None"
    and s': "s' = s\<lparr>cms_tenants := gomap_set (tenant_ID t) t (cms_tenants s)\<rparr>"
    using run by (auto simp: cr_mem_CreateTenant_def split: option.splits if_splits)
  have ab: "cr_abs s' = reg_add_tenant t (cr_abs s)"
    by (auto simp: s' cr_abs_def reg_add_tenant_def fun_eq_iff cong: option.case_cong)
  have "cr_index_ok s'" using J by (simp add: s' cr_mem_inv_def cr_index_ok_def)
  moreover have "registry_ok (reg_add_tenant t (cr_abs s))"
    using J by (auto simp: cr_mem_inv_def registry_ok_def reg_add_tenant_def tenants_ok_def defs_ok_def
        versions_ok_def states_ok_def has_id_def)
  ultimately show "cr_mem_inv s' \<and> reg_tenants (cr_abs s) (tenant_ID t) = None \<and> cr_abs s' = reg_add_tenant t (cr_abs s)"
    using new ab by (simp add: cr_mem_inv_def)
qed (auto simp: cr_mem_CreateTenant_def split: option.splits if_splits)

lemma ran_gomap: "gomap_ok m \<Longrightarrow> ran (gomap_get m) = snd ` set m"
  by (force simp: ran_def gomap_get_iff image_iff)

lemma cr_mem_ListTenants_contract:
  "contract cr_mem_inv cr_abs (\<lambda>_. True) (cr_mem_ListTenants c)
     (\<lambda>d ts d'. d' = d \<and> sorted (map tenant_ID ts) \<and> distinct (map tenant_ID ts) \<and> set ts = ran (reg_tenants d))"
proof (rule contract_cr_mem)
  fix s ts s' assume J: "cr_mem_inv s" and run: "cr_mem_ListTenants c s = (Inr ts, s')"
  have ts: "ts = sort_key tenant_ID (map snd (cms_tenants s))" and s': "s' = s"
    using run by (auto simp: cr_mem_ListTenants_def split: option.splits)
  have ok: "gomap_ok (cms_tenants s)" using J by (simp add: cr_mem_inv_def cr_index_ok_def)
  have "map tenant_ID (map snd (cms_tenants s)) = map fst (cms_tenants s)"
    using J ok by (auto simp: cr_mem_inv_def registry_ok_def tenants_ok_def gomap_get_iff)
  then have "distinct (map tenant_ID (map snd (cms_tenants s)))" using ok by (simp only: gomap_ok_def)
  then have "distinct (map tenant_ID ts)"
    unfolding ts by (metis mset_eq_imp_distinct_iff mset_map mset_sort)
  then show "cr_mem_inv s' \<and> cr_abs s' = cr_abs s \<and> sorted (map tenant_ID ts) \<and> distinct (map tenant_ID ts) \<and>
      set ts = ran (reg_tenants (cr_abs s))"
    using J ok by (simp add: s' ts ran_gomap)
qed (auto simp: cr_mem_ListTenants_def split: option.splits)

lemma cr_mem_GetTenant_contract:
  "contract cr_mem_inv cr_abs (\<lambda>_. True) (cr_mem_GetTenant c i) (\<lambda>d t d'. d' = d \<and> reg_tenants d i = Some t)"
  by (rule contract_cr_mem) (auto simp: cr_mem_GetTenant_def split: option.splits)

lemma registry_ok_add_def:
  assumes ok: "registry_ok db" and fresh: "\<not> has_id db (def_ID x)" and "nul_free (def_ID x)"
    and "reg_tenants db (def_TenantID x) \<noteq> None" and "reg_defs db (joined_key x) = None"
  shows "registry_ok (reg_add_def x db)"
proof -
  have "defs_ok (reg_add_def x db)"
    using assms unfolding registry_ok_def defs_ok_def reg_add_def_def has_id_def by (simp split: if_splits) metis
  moreover have "has_id (reg_add_def x db) c" if "has_id db c" for c
    using that assms(5) by (auto simp: has_id_def reg_add_def_def) (metis option.distinct(1))
  ultimately show ?thesis using ok
    by (simp add: registry_ok_def reg_add_def_def tenants_ok_def versions_ok_def states_ok_def)
qed

lemma cr_mem_CreateDefinition_contract:
  "contract cr_mem_inv cr_abs (\<lambda>_. nul_free (def_ID x)) (cr_mem_CreateDefinition c x)
     (\<lambda>d _ d'. reg_tenants d (def_TenantID x) \<noteq> None \<and> \<not> has_id d (def_ID x) \<and> reg_defs d (joined_key x) = None \<and>
        d' = reg_add_def x d)"
proof (rule contract_cr_mem)
  fix s a s' assume J: "cr_mem_inv s" and nf: "nul_free (def_ID x)" and run: "cr_mem_CreateDefinition c x s = (Inr a, s')"
  have g: "gomap_get (cms_tenants s) (def_TenantID x) \<noteq> None" "gomap_get (cms_definitions s) (def_ID x) = None"
      "gomap_get (cms_definitionsByKey s) (joined_key x) = None"
    and s': "s' = s\<lparr>cms_definitions := gomap_set (def_ID x) x (cms_definitions s),
                      cms_definitionsByKey := gomap_set (joined_key x) (def_ID x) (cms_definitionsByKey s)\<rparr>"
    using run by (auto simp: cr_mem_CreateDefinition_def Let_def joined_key_def split: option.splits if_splits)
  have idx: "cr_index_ok s" and ok: "registry_ok (cr_abs s)" using J by (simp_all add: cr_mem_inv_def)
  have fresh: "\<not> has_id (cr_abs s) (def_ID x)" using cr_has_id [OF J] g(2) by simp
  have dn: "reg_defs (cr_abs s) (joined_key x) = None" using g(3) by (simp add: cr_abs_def)
  have "gomap_get (cms_definitionsByKey s) k \<noteq> Some (def_ID x)" for k
    using idx g(2) unfolding cr_index_ok_def by metis
  then have ab: "cr_abs s' = reg_add_def x (cr_abs s)"
    by (auto simp: s' cr_abs_def reg_add_def_def fun_eq_iff split: option.splits)
  have "joined_key d \<noteq> joined_key x" if "gomap_get (cms_definitions s) i = Some d" for i d
    using idx g(3) that unfolding cr_index_ok_def by (metis option.distinct(1))
  then have "cr_index_ok s'" using idx by (auto simp: s' cr_index_ok_def)
  moreover have "registry_ok (reg_add_def x (cr_abs s))"
    by (rule registry_ok_add_def [OF ok fresh nf]) (use g(1) dn in simp_all)
  ultimately show "cr_mem_inv s' \<and> reg_tenants (cr_abs s) (def_TenantID x) \<noteq> None \<and> \<not> has_id (cr_abs s) (def_ID x) \<and>
      reg_defs (cr_abs s) (joined_key x) = None \<and> cr_abs s' = reg_add_def x (cr_abs s)"
    using ab fresh dn g(1) by (simp add: cr_mem_inv_def)
qed (auto simp: cr_mem_CreateDefinition_def Let_def split: option.splits if_splits)

lemma cr_mem_ListDefinitions_contract:
  "contract cr_mem_inv cr_abs (\<lambda>_. True) (cr_mem_ListDefinitions c i)
     (\<lambda>d xs d'. d' = d \<and> sorted (map def_Key xs) \<and> distinct (map def_Key xs) \<and>
        set xs = {x \<in> ran (reg_defs d). def_TenantID x = i})"
proof (rule contract_cr_mem)
  fix s xs s' assume J: "cr_mem_inv s" and run: "cr_mem_ListDefinitions c i s = (Inr xs, s')"
  let ?ds = "filter (\<lambda>d. def_TenantID d = i) (map snd (cms_definitions s))"
  have xs: "xs = sort_key def_Key ?ds" and s': "s' = s"
    using run by (auto simp: cr_mem_ListDefinitions_def split: option.splits if_splits)
  have idx: "cr_index_ok s" using J by (simp add: cr_mem_inv_def)
  then have ok: "gomap_ok (cms_definitions s)" by (simp add: cr_index_ok_def)
  have mem: "d \<in> snd ` set (cms_definitions s) \<longleftrightarrow> reg_defs (cr_abs s) (joined_key d) = Some d" for d
  proof -
    have "d \<in> snd ` set (cms_definitions s) \<longleftrightarrow> (\<exists>j. gomap_get (cms_definitions s) j = Some d)"
      by (force simp: image_iff gomap_get_iff [OF ok])
    then show ?thesis by (simp add: cr_defs_id [OF idx])
  qed
  have keys: "map def_ID (map snd (cms_definitions s)) = map fst (cms_definitions s)"
    using cr_defs_id [OF idx] gomap_get_iff [OF ok] by auto
  then have "distinct (map def_ID (map snd (cms_definitions s)))" using ok by (simp only: gomap_ok_def)
  then have "distinct (map snd (cms_definitions s))" by (metis distinct_map)
  then have "distinct ?ds" by simp
  moreover have "inj_on def_Key (set ?ds)"
  proof (rule inj_onI)
    fix x y assume x: "x \<in> set ?ds" and y: "y \<in> set ?ds" and "def_Key x = def_Key y"
    then have "joined_key x = joined_key y" by (auto simp: joined_key_unique)
    moreover have "reg_defs (cr_abs s) (joined_key d) = Some d" if "d \<in> set ?ds" for d
      by (rule iffD1 [OF mem]) (use that in force)
    ultimately show "x = y" using x y by (metis option.inject)
  qed
  ultimately have "distinct (map def_Key ?ds)" by (simp only: distinct_map simp_thms)
  then have "distinct (map def_Key xs)" unfolding xs by (rule mset_eq_imp_distinct_iff [THEN iffD1, rotated]) simp
  moreover have "set xs = {x \<in> ran (reg_defs (cr_abs s)). def_TenantID x = i}"
  proof -
    have "ran (reg_defs (cr_abs s)) = snd ` set (cms_definitions s)"
      using J mem unfolding cr_mem_inv_def registry_ok_def defs_ok_def ran_def by blast
    then show ?thesis by (auto simp: xs)
  qed
  ultimately show "cr_mem_inv s' \<and> cr_abs s' = cr_abs s \<and> sorted (map def_Key xs) \<and> distinct (map def_Key xs) \<and>
      set xs = {x \<in> ran (reg_defs (cr_abs s)). def_TenantID x = i}"
    using J by (simp add: s' xs)
qed (auto simp: cr_mem_ListDefinitions_def split: option.splits if_splits)

lemma cr_mem_GetDefinitionByKey_contract:
  "contract cr_mem_inv cr_abs (\<lambda>_. True) (cr_mem_GetDefinitionByKey c i k)
     (\<lambda>d x d'. d' = d \<and> reg_defs d (definitionKey i k) = Some x)"
proof (rule contract_cr_mem)
  fix s x s' assume J: "cr_mem_inv s" and run: "cr_mem_GetDefinitionByKey c i k s = (Inr x, s')"
  then obtain j where j: "gomap_get (cms_definitionsByKey s) (definitionKey i k) = Some j" and s': "s' = s"
    and x: "x = (case gomap_get (cms_definitions s) j of None \<Rightarrow> zero_ConfigDefinition | Some d \<Rightarrow> d)"
    by (auto simp: cr_mem_GetDefinitionByKey_def split: option.splits)
  have "gomap_get (cms_definitions s) j \<noteq> None" using J j by (auto simp: cr_mem_inv_def cr_index_ok_def)
  then have "reg_defs (cr_abs s) (definitionKey i k) = Some x" using j x by (auto simp: reg_defs_iff)
  then show "cr_mem_inv s' \<and> cr_abs s' = cr_abs s \<and> reg_defs (cr_abs s) (definitionKey i k) = Some x" using J s' by simp
qed (auto simp: cr_mem_GetDefinitionByKey_def split: option.splits)

lemma registry_ok_add_version:
  assumes ok: "registry_ok db" and "has_id db (ver_ConfigDefinitionID v)" and "ConfigVersion_Validate (numbered db v) = None"
  shows "registry_ok (reg_add_version (numbered db v) db)"
proof -
  let ?v = "numbered db v" and ?db = "reg_add_version (numbered db v) db"
  have c: "ver_ConfigDefinitionID ?v = ver_ConfigDefinitionID v" by (simp add: numbered_def)
  have same: "reg_tenants ?db = reg_tenants db" "reg_defs ?db = reg_defs db" "reg_states ?db = reg_states db"
    by (simp_all add: reg_add_version_def)
  have "version_at c' n (reg_versions ?db c' ! n)" if n: "n < length (reg_versions ?db c')" for c' n
  proof (cases "c' = ver_ConfigDefinitionID v \<and> n = length (reg_versions db c')")
    case True
    then show ?thesis using assms(3) by (simp add: reg_add_version_def c version_at_def) (simp add: numbered_def)
  next
    case False
    with n have "n < length (reg_versions db c')" "reg_versions ?db c' ! n = reg_versions db c' ! n"
      by (auto simp: reg_add_version_def c nth_append split: if_splits)
    then show ?thesis using ok by (simp add: registry_ok_def versions_ok_def)
  qed
  moreover have "has_id ?db c'" if "reg_versions ?db c' \<noteq> []" for c'
    using that ok assms(2)
    by (cases "c' = ver_ConfigDefinitionID v") (simp_all add: has_id_def same, simp add: reg_add_version_def c registry_ok_def versions_ok_def has_id_def)
  ultimately show ?thesis using ok
    by (simp add: registry_ok_def tenants_ok_def defs_ok_def versions_ok_def states_ok_def same)
qed

lemma cr_mem_CreateVersion_contract:
  "contract cr_mem_inv cr_abs (\<lambda>_. True) (cr_mem_CreateVersion c v)
     (\<lambda>d v' d'. has_id d (ver_ConfigDefinitionID v) \<and> v' = numbered d v \<and> ConfigVersion_Validate v' = None \<and>
        d' = reg_add_version v' d)"
proof (rule contract_cr_mem)
  fix s v' s' assume J: "cr_mem_inv s" and run: "cr_mem_CreateVersion c v s = (Inr v', s')"
  let ?c = "ver_ConfigDefinitionID v" and ?v = "numbered (cr_abs s) v"
  let ?vs = "gomap_slice (cms_versions s) ?c"
  have n: "v\<lparr>ver_VersionNumber := int (length ?vs) + 1\<rparr> = ?v" by (simp add: numbered_def)
  have g: "gomap_get (cms_definitions s) ?c \<noteq> None" "ConfigVersion_Validate ?v = None" and v': "v' = ?v"
    and s': "s' = s\<lparr>cms_versions := gomap_set ?c (?vs @ [?v]) (cms_versions s),
       cms_versionsByNumber := gomap_set (versionNumberKey ?c (ver_VersionNumber ?v)) ?v (cms_versionsByNumber s)\<rparr>"
    using run by (auto simp: cr_mem_CreateVersion_def Let_def n split: option.splits if_splits)
  have id: "has_id (cr_abs s) ?c" using cr_has_id [OF J] g(1) by simp
  have num: "ver_VersionNumber ?v = int (length ?vs) + 1" "ver_ConfigDefinitionID ?v = ?c" by (simp_all add: numbered_def)
  have ab: "cr_abs s' = reg_add_version x (cr_abs s)" if "x = ?v" for x
    using num(2) unfolding s' that [symmetric] by (simp add: cr_abs_def reg_add_version_def fun_eq_iff cong: option.case_cong)
  have "cr_index_ok s'" using J
    by (auto simp: s' cr_mem_inv_def cr_index_ok_def versionNumberKey_inj num Let_def nth_append nat_less_iff)
  then have "cr_mem_inv s'" using registry_ok_add_version [OF _ id g(2)] J by (simp add: cr_mem_inv_def ab [OF refl])
  then show "cr_mem_inv s' \<and> has_id (cr_abs s) ?c \<and> v' = ?v \<and> ConfigVersion_Validate v' = None \<and>
      cr_abs s' = reg_add_version v' (cr_abs s)"
    using id v' g(2) ab [OF refl] by simp
qed (auto simp: cr_mem_CreateVersion_def Let_def split: option.splits if_splits)

lemma cr_mem_ListVersions_contract:
  "contract cr_mem_inv cr_abs (\<lambda>_. True) (cr_mem_ListVersions c i) (\<lambda>d vs d'. d' = d \<and> vs = reg_versions d i)"
  by (rule contract_cr_mem) (auto simp: cr_mem_ListVersions_def map_idI split: option.splits if_splits)

lemma cr_mem_GetVersionByNumber_contract:
  "contract cr_mem_inv cr_abs (\<lambda>_. True) (cr_mem_GetVersionByNumber c i n)
     (\<lambda>d v d'. d' = d \<and> v \<in> set (reg_versions d i) \<and> ver_VersionNumber v = n)"
proof (rule contract_cr_mem)
  fix s v s' assume J: "cr_mem_inv s" and run: "cr_mem_GetVersionByNumber c i n s = (Inr v, s')"
  let ?vs = "gomap_slice (cms_versions s) i"
  have s': "s' = s" and v: "gomap_get (cms_versionsByNumber s) (versionNumberKey i n) = Some v"
    using run by (auto simp: cr_mem_GetVersionByNumber_def split: option.splits)
  have n: "1 \<le> n" "n \<le> int (length ?vs)" "v = ?vs ! nat (n - 1)"
    using J v by (auto simp: cr_mem_inv_def cr_index_ok_def Let_def split: if_splits)
  then have "nat (n - 1) < length ?vs" by (simp add: nat_less_iff)
  moreover from this have "ver_VersionNumber v = n"
    using J n by (auto simp: cr_mem_inv_def registry_ok_def versions_ok_def version_at_def)
  ultimately show "cr_mem_inv s' \<and> cr_abs s' = cr_abs s \<and> v \<in> set (reg_versions (cr_abs s) i) \<and> ver_VersionNumber v = n"
    using J n(3) by (simp add: s')
qed (auto simp: cr_mem_GetVersionByNumber_def split: option.splits)

lemma cr_mem_SaveEnvironmentState_contract:
  "contract cr_mem_inv cr_abs (\<lambda>_. nul_free (env_ConfigDefinitionID st)) (cr_mem_SaveEnvironmentState c st)
     (\<lambda>d _ d'. d' = reg_set_state st d)"
proof (rule contract_cr_mem)
  fix s a s' assume J: "cr_mem_inv s" and nf: "nul_free (env_ConfigDefinitionID st)"
    and run: "cr_mem_SaveEnvironmentState c st s = (Inr a, s')"
  have s': "s' = s\<lparr>cms_states := gomap_set (stateKey (env_ConfigDefinitionID st) (env_Environment st)) st (cms_states s)\<rparr>"
    using run by (auto simp: cr_mem_SaveEnvironmentState_def split: option.splits)
  have ab: "cr_abs s' = reg_set_state st (cr_abs s)" using nf
    by (auto simp: s' cr_abs_def reg_set_state_def fun_eq_iff stateKey_def nul_join_inj cong: option.case_cong)
  have "registry_ok (reg_set_state st (cr_abs s))"
    using J by (auto simp: cr_mem_inv_def registry_ok_def tenants_ok_def defs_ok_def versions_ok_def states_ok_def
        has_id_def reg_set_state_def)
  moreover have "cr_index_ok s'" using J by (simp add: s' cr_mem_inv_def cr_index_ok_def)
  ultimately show "cr_mem_inv s' \<and> cr_abs s' = reg_set_state st (cr_abs s)" using ab by (simp add: cr_mem_inv_def)
qed (auto simp: cr_mem_SaveEnvironmentState_def split: option.splits)

lemma cr_mem_GetEnvironmentState_contract:
  "contract cr_mem_inv cr_abs (\<lambda>_. nul_free i) (cr_mem_GetEnvironmentState c i e)
     (\<lambda>d st d'. d' = d \<and> reg_states d i e = Some st)"
  by (rule contract_cr_mem) (auto simp: cr_mem_GetEnvironmentState_def split: option.splits)

lemmas cr_mem_contracts =
  cr_mem_CreateTenant_contract cr_mem_ListTenants_contract cr_mem_GetTenant_contract
  cr_mem_CreateDefinition_contract cr_mem_ListDefinitions_contract cr_mem_GetDefinitionByKey_contract
  cr_mem_CreateVersion_contract cr_mem_ListVersions_contract cr_mem_GetVersionByNumber_contract
  cr_mem_SaveEnvironmentState_contract cr_mem_GetEnvironmentState_contract

subsection \<open>What the service guarantees over any such store\<close>

text \<open>
  Two promises of the registry, as predicates of its abstract state. \<open>pointers_ok\<close>: a stable
  pointer names a version of its own definition, in a valid environment, and no rollout is
  recorded on it. \<open>values_ok\<close>: a version holds a value that its definition's schema accepts.
  \<open>registry_grows\<close> is how the state may change: tenants and definitions are added and never
  changed, versions are appended to a definition's history, and both promises are kept.
\<close>

definition pointers_ok :: "registry_db \<Rightarrow> bool" where
  "pointers_ok db \<longleftrightarrow>
     (\<forall>c e st. reg_states db c e = Some st \<longrightarrow>
        env_StableVersionID st \<in> ver_ID ` set (reg_versions db c) \<and> env_ActiveRolloutID st = [] \<and> valid_env e)"

definition values_ok :: "SchemaValidator \<Rightarrow> registry_db \<Rightarrow> bool" where
  "values_ok V db \<longleftrightarrow>
     (\<forall>k d v. reg_defs db k = Some d \<longrightarrow> v \<in> set (reg_versions db (def_ID d)) \<longrightarrow>
        sv_ValidateValue V (def_Schema d) (ver_Value v) = None)"

definition registry_grows :: "SchemaValidator \<Rightarrow> registry_db \<Rightarrow> registry_db \<Rightarrow> bool" where
  "registry_grows V db db' \<longleftrightarrow>
     reg_tenants db \<subseteq>\<^sub>m reg_tenants db' \<and> reg_defs db \<subseteq>\<^sub>m reg_defs db' \<and>
     (\<forall>c. prefix (reg_versions db c) (reg_versions db' c)) \<and>
     (pointers_ok db \<longrightarrow> pointers_ok db') \<and> (registry_ok db \<longrightarrow> values_ok V db \<longrightarrow> values_ok V db')"

lemma registry_grows_refl [simp]: "registry_grows V db db"
  by (simp add: registry_grows_def)

lemma registry_grows_trans:
  "registry_grows V a b \<Longrightarrow> registry_ok b \<Longrightarrow> registry_grows V b c \<Longrightarrow> registry_grows V a c"
  unfolding registry_grows_def by (meson map_le_trans prefix_order.trans)

lemma grows_add_tenant: "reg_tenants db (tenant_ID t) = None \<Longrightarrow> registry_grows V db (reg_add_tenant t db)"
  by (auto simp: registry_grows_def reg_add_tenant_def pointers_ok_def values_ok_def map_le_def)

lemma grows_add_def:
  assumes "\<not> has_id db (def_ID x)" and "reg_defs db (joined_key x) = None"
  shows "registry_grows V db (reg_add_def x db)"
proof -
  have "reg_versions db (def_ID x) = []" if "registry_ok db"
    using assms(1) that by (auto simp: registry_ok_def versions_ok_def)
  then show ?thesis using assms(2)
    by (auto simp: registry_grows_def reg_add_def_def pointers_ok_def values_ok_def map_le_def)
qed

lemma grows_add_version:
  assumes "reg_defs db k = Some x" and "ver_ConfigDefinitionID v = def_ID x"
    and "sv_ValidateValue V (def_Schema x) (ver_Value v) = None"
  shows "registry_grows V db (reg_add_version v db)"
proof -
  have "y = x" if "reg_defs db k' = Some y" "def_ID y = def_ID x" "registry_ok db" for k' y
  proof -
    have "k' = k" using that assms(1) unfolding registry_ok_def defs_ok_def by blast
    then show ?thesis using that(1) assms(1) by simp
  qed
  then show ?thesis using assms
    by (auto simp: registry_grows_def reg_add_version_def pointers_ok_def values_ok_def)
qed

lemma grows_set_state:
  assumes "v \<in> set (reg_versions db (env_ConfigDefinitionID st))" and "env_StableVersionID st = ver_ID v"
    and "valid_env (env_Environment st)"
    and "pointers_ok db \<Longrightarrow> env_ActiveRolloutID st = []"
  shows "registry_grows V db (reg_set_state st db)"
  using assms by (auto simp: registry_grows_def reg_set_state_def pointers_ok_def values_ok_def)

locale config_registry = config_store "crs_store svc" J ab
  for svc :: "'w cr_Service" and J :: "'w \<Rightarrow> bool" and ab :: "'w \<Rightarrow> registry_db \<times> 'r" +
  assumes now_J: "J w \<Longrightarrow> J (snd (crs_now svc w))" and now_ab: "J w \<Longrightarrow> ab (snd (crs_now svc w)) = ab w"
    and id_J: "J w \<Longrightarrow> J (snd (crs_newID svc p w))" and id_ab: "J w \<Longrightarrow> ab (snd (crs_newID svc p w)) = ab w"
    and id_nul_free: "nul_free p \<Longrightarrow> nul_free (fst (crs_newID svc p w))"
begin

lemmas env_simps = now_J now_ab id_J id_ab

lemma CreateTenant_spec:
  "contract J ab (\<lambda>_. True) (cr_CreateTenant svc i)
     (\<lambda>d t d'. tenant_ID t = cti_ID i \<and> reg_tenants (fst d) (cti_ID i) = None \<and> d' = (reg_add_tenant t (fst d), snd d))"
  by (rule contractI)
    (auto simp: cr_CreateTenant_def wp_simps Let_def env_simps split: option.splits intro!: wp_contract [OF CreateTenant])

lemma CreateDefinition_spec:
  "contract J ab (\<lambda>_. True) (cr_CreateDefinition svc i)
     (\<lambda>d x d'. def_TenantID x = cdi_TenantID i \<and> def_Key x = cdi_Key i \<and> def_Schema x = cdi_Schema i \<and>
        sv_ValidateSchema (crs_validator svc) (def_Schema x) = None \<and> ConfigDefinition_Validate x = None \<and>
        reg_tenants (fst d) (def_TenantID x) \<noteq> None \<and> \<not> has_id (fst d) (def_ID x) \<and>
        reg_defs (fst d) (joined_key x) = None \<and> d' = (reg_add_def x (fst d), snd d))"
proof (rule contractI)
  fix w assume J: "J w"
  have nf: "nul_free (fst (crs_newID svc ''cfg'' w'))" for w'
    by (rule id_nul_free) (simp add: nul_free_def nul_def)
  show "wp (cr_CreateDefinition svc i) (\<lambda>x w'. J w' \<and> def_TenantID x = cdi_TenantID i \<and> def_Key x = cdi_Key i \<and>
        def_Schema x = cdi_Schema i \<and> sv_ValidateSchema (crs_validator svc) (def_Schema x) = None \<and>
        ConfigDefinition_Validate x = None \<and> reg_tenants (fst (ab w)) (def_TenantID x) \<noteq> None \<and>
        \<not> has_id (fst (ab w)) (def_ID x) \<and> reg_defs (fst (ab w)) (joined_key x) = None \<and>
        ab w' = (reg_add_def x (fst (ab w)), snd (ab w))) (\<lambda>_ w'. J w' \<and> ab w' = ab w) w"
    unfolding cr_CreateDefinition_def wp_simps Let_def
    by (rule wp_contract [OF GetTenant J TrueI])
      (auto simp: env_simps nf split: option.splits intro!: wp_contract [OF CreateDefinition])
qed

lemma CreateVersion_spec:
  "contract J ab (\<lambda>_. True) (cr_CreateVersion svc i)
     (\<lambda>d v d'. \<exists>x. reg_defs (fst d) (definitionKey (cvi_TenantID i) (cvi_Key i)) = Some x \<and>
        sv_ValidateValue (crs_validator svc) (def_Schema x) (cvi_Value i) = None \<and>
        ver_ConfigDefinitionID v = def_ID x \<and> ver_Value v = cvi_Value i \<and>
        ver_VersionNumber v = int (length (reg_versions (fst d) (def_ID x))) + 1 \<and>
        d' = (reg_add_version v (fst d), snd d))"
proof (rule contractI)
  fix w assume J: "J w"
  show "wp (cr_CreateVersion svc i) (\<lambda>v w'. J w' \<and> (\<exists>x. reg_defs (fst (ab w)) (definitionKey (cvi_TenantID i) (cvi_Key i)) = Some x \<and>
        sv_ValidateValue (crs_validator svc) (def_Schema x) (cvi_Value i) = None \<and>
        ver_ConfigDefinitionID v = def_ID x \<and> ver_Value v = cvi_Value i \<and>
        ver_VersionNumber v = int (length (reg_versions (fst (ab w)) (def_ID x))) + 1 \<and>
        ab w' = (reg_add_version v (fst (ab w)), snd (ab w)))) (\<lambda>_ w'. J w' \<and> ab w' = ab w) w"
    unfolding cr_CreateVersion_def wp_simps Let_def
    by (rule wp_contract [OF GetDefinitionByKey J TrueI])
      (auto simp: env_simps numbered_def split: option.splits intro!: wp_contract [OF CreateVersion])
qed

lemma ListDefinitions_spec:
  "contract J ab (\<lambda>_. True) (cr_ListDefinitions svc i)
     (\<lambda>d xs d'. d' = d \<and> (\<forall>x \<in> set xs. reg_defs (fst d) (definitionKey i (def_Key x)) = Some x))"
proof (rule contractI)
  fix w assume J: "J w"
  have key: "reg_defs (fst (ab w)) (definitionKey i (def_Key x)) = Some x" if "x \<in> ran (reg_defs (fst (ab w)))" "def_TenantID x = i" for x
    using store_ok [OF J] that by (auto simp: registry_ok_def defs_ok_def ran_def joined_key_def)
  show "wp (cr_ListDefinitions svc i) (\<lambda>xs w'. J w' \<and> ab w' = ab w \<and>
      (\<forall>x \<in> set xs. reg_defs (fst (ab w)) (definitionKey i (def_Key x)) = Some x)) (\<lambda>_ w'. J w' \<and> ab w' = ab w) w"
    unfolding cr_ListDefinitions_def wp_bind
    by (rule wp_contract [OF GetTenant J TrueI]) (use key in \<open>auto intro!: wp_contract [OF ListDefinitions]\<close>)
qed

lemma ListVersions_spec:
  "contract J ab (\<lambda>_. True) (cr_ListVersions svc i k)
     (\<lambda>d vs d'. d' = d \<and> (\<exists>x. reg_defs (fst d) (definitionKey i k) = Some x \<and> vs = reg_versions (fst d) (def_ID x)))"
  by (rule contractI)
    (auto simp: cr_ListVersions_def wp_simps intro!: wp_contract [OF GetDefinitionByKey] wp_contract [OF ListVersions])

lemma GetEnvironmentState_spec:
  "contract J ab (\<lambda>_. True) (cr_GetEnvironmentState svc i k e)
     (\<lambda>d st d'. d' = d \<and> (\<exists>x. reg_defs (fst d) (definitionKey i k) = Some x \<and> reg_states (fst d) (def_ID x) e = Some st))"
proof (rule contractI)
  fix w assume J: "J w"
  have "nul_free (def_ID x)" if "J w'" "reg_defs (fst (ab w')) j = Some x" for w' j x
    using store_ok [OF that(1)] that(2) by (auto simp: registry_ok_def defs_ok_def)
  then show "wp (cr_GetEnvironmentState svc i k e) (\<lambda>st w'. J w' \<and> ab w' = ab w \<and>
      (\<exists>x. reg_defs (fst (ab w)) (definitionKey i k) = Some x \<and> reg_states (fst (ab w)) (def_ID x) e = Some st))
      (\<lambda>_ w'. J w' \<and> ab w' = ab w) w"
    unfolding cr_GetEnvironmentState_def wp_simps using J
    by (intro wp_contract [OF GetDefinitionByKey J TrueI]) (auto intro!: wp_contract [OF GetEnvironmentState])
qed

lemma SetStableVersion_spec:
  "contract J ab (\<lambda>_. True) (cr_SetStableVersion svc i)
     (\<lambda>d st d'. \<exists>x v. reg_defs (fst d) (definitionKey (ssv_TenantID i) (ssv_Key i)) = Some x \<and>
        v \<in> set (reg_versions (fst d) (def_ID x)) \<and> ver_VersionNumber v = ssv_VersionNumber i \<and>
        valid_env (ssv_Environment i) \<and> env_ConfigDefinitionID st = def_ID x \<and> env_Environment st = ssv_Environment i \<and>
        env_StableVersionID st = ver_ID v \<and> (pointers_ok (fst d) \<longrightarrow> env_ActiveRolloutID st = []) \<and>
        d' = (reg_set_state st (fst d), snd d))" (is "contract J ab _ _ ?R")
proof (rule contractI)
  fix w assume J: "J w"
  let ?Q = "\<lambda>st w'. J w' \<and> ?R (ab w) st (ab w')" and ?E = "\<lambda>_ w'. J w' \<and> ab w' = ab w"
  have save: "wp (bindM (case WithStableVersion state (ver_ID v) of
        Inl err \<Rightarrow> raiseM (Errorf ''%w: %v'' [FW (Sentinel configregistry_ErrConflict), FV err])
      | Inr next \<Rightarrow> retM next) (\<lambda>next. bindM (effM (crs_now svc)) (\<lambda>now.
        bindM (checkM (map_option cr_invalid (ConfigEnvironmentState_Validate (next\<lparr>env_UpdatedAt := now\<rparr>)))) (\<lambda>_.
        bindM (cs_SaveEnvironmentState (crs_store svc) (next\<lparr>env_UpdatedAt := now\<rparr>)) (\<lambda>_.
        retM (next\<lparr>env_UpdatedAt := now\<rparr>)))))) ?Q ?E w'"
    if "J w'" "ab w' = ab w" "reg_defs (fst (ab w)) (definitionKey (ssv_TenantID i) (ssv_Key i)) = Some x"
      "v \<in> set (reg_versions (fst (ab w)) (def_ID x))" "ver_VersionNumber v = ssv_VersionNumber i"
      "valid_env (ssv_Environment i)" "env_ConfigDefinitionID state = def_ID x" "env_Environment state = ssv_Environment i"
      "pointers_ok (fst (ab w)) \<Longrightarrow> env_ActiveRolloutID state = []" "nul_free (def_ID x)" for state x v w'
  proof (cases "WithStableVersion state (ver_ID v)")
    case (Inl e)
    then show ?thesis using that by (simp add: wp_simps)
  next
    case (Inr st)
    then have "st = state\<lparr>env_StableVersionID := ver_ID v\<rparr>" by (simp add: WithStableVersion_Inr)
    with Inr that show ?thesis
      by (auto simp: wp_simps env_simps split: option.splits intro!: wp_contract [OF SaveEnvironmentState])
  qed
  have nf: "nul_free (def_ID x)" if "J w'" "reg_defs (fst (ab w')) j = Some x" for w' j x
    using store_ok [OF that(1)] that(2) by (auto simp: registry_ok_def defs_ok_def)
  show "wp (cr_SetStableVersion svc i) ?Q ?E w"
  proof (cases "Environment_Validate (ssv_Environment i)")
    case (Some e)
    then show ?thesis using J by (simp add: cr_SetStableVersion_def wp_simps)
  next
    case None
    then have env: "valid_env (ssv_Environment i)" by (simp add: valid_env_def)
    have start: "wp (tryM (cs_GetEnvironmentState (crs_store svc) (def_ID x) (ssv_Environment i))
              (\<lambda>err. if \<not> errors_Is err configregistry_ErrNotFound then raiseM err
                     else retM \<lparr>env_ConfigDefinitionID = def_ID x,
                                env_Environment = ssv_Environment i, env_StableVersionID = [],
                                env_ActiveRolloutID = [], env_UpdatedAt = 0\<rparr>) retM)
        (\<lambda>state w''. J w'' \<and> ab w'' = ab w \<and> env_ConfigDefinitionID state = def_ID x \<and>
           env_Environment state = ssv_Environment i \<and> (pointers_ok (fst (ab w)) \<longrightarrow> env_ActiveRolloutID state = []))
        ?E w'"
      if "J w'" "ab w' = ab w" "nul_free (def_ID x)" for w' x
      using that store_ok [OF \<open>J w'\<close>] unfolding wp_try
      by (intro wp_contract [OF GetEnvironmentState])
        (auto simp: wp_simps registry_ok_def states_ok_def pointers_ok_def)
    show ?thesis
      unfolding cr_SetStableVersion_def Let_def wp_bind [of "checkM _"] wp_check None option.map option.case
        wp_bind [of "cs_GetDefinitionByKey _ _ _"]
    proof (rule wp_contract [OF GetDefinitionByKey J TrueI], goal_cases)
      case (1 x w1)
      show ?case unfolding wp_bind [of "cs_GetVersionByNumber _ _ _"]
      proof (rule wp_contract [OF GetVersionByNumber \<open>J w1\<close> TrueI], goal_cases)
        case (1 v w2)
        note v = 1 \<open>ab w1 = ab w \<and> reg_defs (fst (ab w)) (definitionKey (ssv_TenantID i) (ssv_Key i)) = Some x\<close>
        then have "nul_free (def_ID x)" using nf [OF J] by blast
        then show ?case unfolding wp_bind [of "tryM _ _ _"]
          by (intro wp_mono [OF start]) (use v env save in auto)
      qed (use 1 in simp)
    qed simp
  qed
qed

text \<open>Every call of the service, whether it succeeds or fails, lets the registry grow only.\<close>

lemma growsI:
  assumes "contract J ab (\<lambda>_. True) f R"
    and "\<And>d a d'. R d a d' \<Longrightarrow> registry_grows V (fst d) (fst d') \<and> snd d' = snd d"
  shows "contract J ab (\<lambda>_. True) f (\<lambda>d _ d'. registry_grows V (fst d) (fst d') \<and> snd d' = snd d)"
  by (rule contract_conseq [OF assms(1)]) (use assms(2) in auto)

lemma CreateTenant_grows:
  "contract J ab (\<lambda>_. True) (cr_CreateTenant svc i) (\<lambda>d _ d'. registry_grows V (fst d) (fst d') \<and> snd d' = snd d)"
  by (rule growsI [OF CreateTenant_spec]) (auto intro: grows_add_tenant)

lemma CreateDefinition_grows:
  "contract J ab (\<lambda>_. True) (cr_CreateDefinition svc i) (\<lambda>d _ d'. registry_grows V (fst d) (fst d') \<and> snd d' = snd d)"
  by (rule growsI [OF CreateDefinition_spec]) (auto intro: grows_add_def)

lemma CreateVersion_grows:
  "contract J ab (\<lambda>_. True) (cr_CreateVersion svc i)
     (\<lambda>d _ d'. registry_grows (crs_validator svc) (fst d) (fst d') \<and> snd d' = snd d)"
  by (rule growsI [OF CreateVersion_spec]) (use grows_add_version in fastforce)

lemma SetStableVersion_grows:
  "contract J ab (\<lambda>_. True) (cr_SetStableVersion svc i) (\<lambda>d _ d'. registry_grows V (fst d) (fst d') \<and> snd d' = snd d)"
  by (rule growsI [OF SetStableVersion_spec]) (auto intro!: grows_set_state)

end

end
