(* ===== verification/Rollout_Service.thy ===== *)
theory Rollout_Service
  imports Rollout_Store Config_Registry
begin

section \<open>internal/rollout: the service that drives rollouts\<close>

text \<open>
  \<open>service.go\<close>: creation, acknowledgement, reconciliation, promotion and rollback of rollouts,
  over the interfaces \<open>Store\<close>, \<open>Registry\<close>, \<open>AgentSource\<close> and \<open>guardrail.Queryer\<close>. Every call
  that the source makes on an interface, on the clock and on the identifier generator is a
  step of the effect type, in the order of the source; what a call has written before a later
  one fails stays written. \<open>CreateRollout\<close>, \<open>Acknowledge\<close> and \<open>ReconcileActive\<close> hold the
  service's mutex throughout, so each is one atomic function here.
\<close>

subsection \<open>service.go: types\<close>

record 'w ro_Registry =
  rg_GetDefinition :: "string \<Rightarrow> string \<Rightarrow> ('w, ConfigDefinition) M"
  rg_ListVersions :: "string \<Rightarrow> string \<Rightarrow> ('w, ConfigVersion list) M"
  rg_GetEnvironmentState :: "string \<Rightarrow> string \<Rightarrow> Environment \<Rightarrow> ('w, ConfigEnvironmentState) M"
  rg_SetStableVersion :: "SetStableVersionInput \<Rightarrow> ('w, ConfigEnvironmentState) M"

type_synonym 'w AgentSource = "('w, Agent list) M"

text \<open>A query either fails or yields a sample; the query error is a value the service goes on with.\<close>

type_synonym 'w Queryer = "string \<Rightarrow> go_time \<Rightarrow> 'w \<Rightarrow> (error + float64) \<times> 'w"

record 'w ro_Service =
  ros_store :: "'w ro_Store"
  ros_registry :: "'w ro_Registry"
  ros_agents :: "'w AgentSource"
  ros_now :: "'w \<Rightarrow> go_time \<times> 'w"
  ros_newID :: "string \<Rightarrow> 'w \<Rightarrow> string \<times> 'w"
  ros_stagePlan :: "Stage list"
  ros_queryer :: "'w Queryer option"

definition ro_NewService ::
  "'w ro_Store \<Rightarrow> 'w ro_Registry \<Rightarrow> 'w AgentSource \<Rightarrow> ('w \<Rightarrow> go_time \<times> 'w) \<Rightarrow> (string \<Rightarrow> 'w \<Rightarrow> string \<times> 'w) \<Rightarrow> 'w ro_Service" where
  "ro_NewService store registry agents now newID =
     \<lparr>ros_store = store, ros_registry = registry, ros_agents = agents, ros_now = now, ros_newID = newID,
      ros_stagePlan = DefaultStagePlan, ros_queryer = None\<rparr>"

definition SetGuardrailQueryer :: "'w Queryer \<Rightarrow> 'w ro_Service \<Rightarrow> 'w ro_Service" where
  "SetGuardrailQueryer queryer svc = svc\<lparr>ros_queryer := Some queryer\<rparr>"

record CreateRolloutInput =
  cri_TenantID :: string
  cri_Key :: string
  cri_Environment :: Environment
  cri_CandidateVersionNumber :: int
  cri_TargetServices :: "string list"
  cri_Stages :: "Stage list"
  cri_Guardrails :: "Rule list"
  cri_RequiredAckPercentage :: float64
  cri_DeploymentTimeout :: duration
  cri_RolloutMaxDuration :: duration
  cri_RollbackTimeout :: duration

record AcknowledgeInput =
  aki_RolloutID :: string
  aki_StageID :: string
  aki_AgentID :: string
  aki_VersionID :: string
  aki_SnapshotRevision :: int

record AcknowledgeResult =
  akr_Counted :: bool
  akr_Coverage :: Coverage
  akr_Decision :: StageDecision
  akr_Rollout :: Rollout

subsection \<open>service.go: helpers\<close>

fun filterAgents :: "Agent list \<Rightarrow> Environment \<Rightarrow> string list \<Rightarrow> Agent list" where
  "filterAgents [] environment services = []"
| "filterAgents (agent # agents) environment services =
     (if agent_Environment agent \<noteq> environment then filterAgents agents environment services
      else if length services > 0 \<and> \<not> List.member services (agent_Service agent)
        then filterAgents agents environment services
      else agent # filterAgents agents environment services)"

fun findVersionByNumber :: "ConfigVersion list \<Rightarrow> int \<Rightarrow> ConfigVersion option" where
  "findVersionByNumber [] number = None"
| "findVersionByNumber (version # versions) number =
     (if ver_VersionNumber version = number then Some version else findVersionByNumber versions number)"

definition rollbackVerificationStageID :: "string \<Rightarrow> string" where
  "rollbackVerificationStageID rolloutID = rolloutID @ ''-rollback-verification''"

fun guardrail_checks :: "Rule list \<Rightarrow> error option" where
  "guardrail_checks [] = None"
| "guardrail_checks (rule # rules) =
     (case Rule_Validate rule of
        Some e \<Rightarrow> Some e
      | None \<Rightarrow>
          if rule_Query rule = [] then
            Some (Errorf ''%w: guardrail query is required'' [FW (Sentinel rollout_ErrInvalidInput)])
          else guardrail_checks rules)"

definition activateStage ::
  "'w ro_Service \<Rightarrow> Rollout \<Rightarrow> Stage \<Rightarrow> string list \<Rightarrow> ('w, StageTarget list) M" where
  "activateStage svc r stage targetServices =
     bindM (ros_agents svc) (\<lambda>agents.
     let agents = filterAgents agents (ro_Environment r) targetServices in
     bindM (st_NextSnapshotRevision (ros_store svc)) (\<lambda>revision.
     bindM (effM (ros_now svc)) (\<lambda>now.
     bindM (liftE (BuildStageTargets \<lparr>bti_Rollout = r, bti_Stage = stage, bti_Agents = agents,
                                      bti_SnapshotRevision = revision, bti_CreatedAt = now\<rparr>)) (\<lambda>targets.
     bindM (st_SaveStageTargets (ros_store svc) targets) (\<lambda>_.
     retM targets)))))"

definition transition :: "'w ro_Service \<Rightarrow> Rollout \<Rightarrow> State \<Rightarrow> ('w, Rollout) M" where
  "transition svc r next =
     bindM (checkM (Transition (ro_State r) next)) (\<lambda>_.
     bindM (effM (ros_now svc)) (\<lambda>now.
     let r = r\<lparr>ro_State := next, ro_UpdatedAt := now\<rparr> in
     bindM (st_UpdateRollout (ros_store svc) r) (\<lambda>_.
     retM r)))"

definition startRollback :: "'w ro_Service \<Rightarrow> Rollout \<Rightarrow> ('w, Rollout) M" where
  "startRollback svc r =
     (if ro_State r = StateRollingBack then retM r else transition svc r StateRollingBack)"

definition rollback_target :: "Rollout \<Rightarrow> int \<Rightarrow> go_time \<Rightarrow> StageTarget \<Rightarrow> StageTarget" where
  "rollback_target r revision now target =
     \<lparr>tgt_RolloutID = ro_ID r, tgt_StageID = rollbackVerificationStageID (ro_ID r),
      tgt_AgentID = tgt_AgentID target, tgt_Bucket = tgt_Bucket target,
      tgt_ExpectedVersionID = ro_StableVersionID r, tgt_SnapshotRevision = revision,
      tgt_CreatedAt = now, tgt_AckedAt = 0, tgt_Status = TargetPending\<rparr>"

definition finish_rollback :: "'w ro_Service \<Rightarrow> Rollout \<Rightarrow> RollbackStatus \<Rightarrow> ('w, Rollout) M" where
  "finish_rollback svc r status =
     bindM (effM (ros_now svc)) (\<lambda>now.
     let r = r\<lparr>ro_State := StateRolledBack, ro_RollbackStatus := status, ro_UpdatedAt := now\<rparr> in
     bindM (st_UpdateRollout (ros_store svc) r) (\<lambda>_.
     retM r))"

definition activateRollbackVerification ::
  "'w ro_Service \<Rightarrow> Rollout \<Rightarrow> StageTarget list \<Rightarrow> ('w, Rollout) M" where
  "activateRollbackVerification svc r candidateTargets =
     bindM (st_NextSnapshotRevision (ros_store svc)) (\<lambda>revision.
     bindM (effM (ros_now svc)) (\<lambda>now.
     let verificationStageID = rollbackVerificationStageID (ro_ID r);
         rollbackTargets = map (rollback_target r revision now) candidateTargets in
     bindM (st_SaveStage (ros_store svc) (ro_ID r)
              \<lparr>stage_ID = verificationStageID, stage_Percentage = 100, stage_MinimumDuration = 0\<rparr>) (\<lambda>_.
     bindM (st_SaveStageTargets (ros_store svc) rollbackTargets) (\<lambda>_.
     let r = r\<lparr>ro_CurrentStageID := verificationStageID, ro_StageStartedAt := now, ro_UpdatedAt := now\<rparr> in
     bindM (st_UpdateRollout (ros_store svc) r) (\<lambda>_.
     if length rollbackTargets = 0 then finish_rollback svc r RollbackStatusVerified
     else retM r)))))"

definition reconcileRollback :: "'w ro_Service \<Rightarrow> Rollout \<Rightarrow> StageTarget list \<Rightarrow> ('w, Rollout) M" where
  "reconcileRollback svc r targets =
     (if ro_CurrentStageID r \<noteq> rollbackVerificationStageID (ro_ID r) then
        activateRollbackVerification svc r targets
      else if CoverageReached targets (ro_RequiredAckPercent r) \<or> length targets = 0 then
        finish_rollback svc r RollbackStatusVerified
      else bindM (if ro_RollbackTimeout r > 0
                  then bindM (effM (ros_now svc)) (\<lambda>now.
                    retM (ro_RollbackTimeout r \<le> time_Sub now (ro_StageStartedAt r)))
                  else retM False) (\<lambda>timed_out.
        if timed_out then finish_rollback svc r RollbackStatusPartial else retM r))"

definition promote :: "'w ro_Service \<Rightarrow> Rollout \<Rightarrow> Stage list \<Rightarrow> ('w, Rollout) M" where
  "promote svc r stages =
     (if ro_CurrentStageIndex r = int (length stages) - 1 then
        bindM (case Transition (ro_State r) StateEvaluating of
                 Some err \<Rightarrow> if ro_State r \<noteq> StateEvaluating then raiseM err else retM ()
               | None \<Rightarrow> retM ()) (\<lambda>_.
        bindM (rg_SetStableVersion (ros_registry svc)
                 \<lparr>ssv_TenantID = ro_TenantID r, ssv_Key = ro_ConfigKey r,
                  ssv_Environment = ro_Environment r, ssv_VersionNumber = ro_CandidateVersion r\<rparr>) (\<lambda>_.
        bindM (effM (ros_now svc)) (\<lambda>now.
        let r = r\<lparr>ro_State := StateCompleted, ro_UpdatedAt := now\<rparr> in
        bindM (st_UpdateRollout (ros_store svc) r) (\<lambda>_.
        retM r))))
      else
        let nextIndex = ro_CurrentStageIndex r + 1; nextStage = stages ! nat nextIndex in
        bindM (effM (ros_now svc)) (\<lambda>now.
        let r = r\<lparr>ro_State := StateDeploying, ro_CurrentStageIndex := nextIndex,
                  ro_CurrentStageID := stage_ID nextStage, ro_StageStartedAt := now, ro_UpdatedAt := now\<rparr> in
        bindM (st_UpdateRollout (ros_store svc) r) (\<lambda>_.
        bindM (activateStage svc r nextStage (ro_TargetServices r)) (\<lambda>_.
        retM r))))"

text \<open>The loop over the guardrails: the failure counters and the evaluations so far are its state.\<close>

definition failures_of :: "(string, int) gomap \<Rightarrow> string \<Rightarrow> int" where
  "failures_of m name = (case gomap_get m name of None \<Rightarrow> 0 | Some n \<Rightarrow> n)"

definition evaluate_rule :: "'w ro_Service \<Rightarrow> Rule \<Rightarrow> int \<Rightarrow> go_time \<Rightarrow> ('w, Evaluation) M" where
  "evaluate_rule svc rule previousFailures observedAt =
     (case ros_queryer svc of
        None \<Rightarrow> liftE (Unknown rule previousFailures ''prometheus queryer is not configured'' observedAt)
      | Some queryer \<Rightarrow>
          bindM (effM (queryer (rule_Query rule) observedAt)) (\<lambda>answer.
          liftE (case answer of
                   Inl queryErr \<Rightarrow> EvaluateQueryResult rule (Fin 0) (Some queryErr) previousFailures observedAt
                 | Inr value \<Rightarrow> EvaluateQueryResult rule value None previousFailures observedAt)))"

fun guardrail_loop ::
  "'w ro_Service \<Rightarrow> go_time \<Rightarrow> Rule list \<Rightarrow> (string, int) gomap \<Rightarrow> Evaluation list \<Rightarrow>
   ('w, (string, int) gomap \<times> Evaluation list) M" where
  "guardrail_loop svc observedAt [] failures evaluations = retM (failures, evaluations)"
| "guardrail_loop svc observedAt (rule # rules) failures evaluations =
     bindM (evaluate_rule svc rule (failures_of failures (rule_Name rule)) observedAt) (\<lambda>evaluation.
     guardrail_loop svc observedAt rules
       (gomap_set (rule_Name rule) (eval_ConsecutiveFailures evaluation) failures)
       (evaluations @ [evaluation]))"

definition evaluateGuardrails :: "'w ro_Service \<Rightarrow> Rollout \<Rightarrow> go_time \<Rightarrow> ('w, Status \<times> Rollout) M" where
  "evaluateGuardrails svc r observedAt =
     bindM (guardrail_loop svc observedAt (ro_Guardrails r) (ro_GuardrailFailures r) []) (\<lambda>(failures, evaluations).
     let r = r\<lparr>ro_GuardrailFailures := failures, ro_UpdatedAt := observedAt\<rparr> in
     bindM (st_UpdateRollout (ros_store svc) r) (\<lambda>_.
     retM (AggregateStatus evaluations, r)))"

definition evaluateStageDecision ::
  "'w ro_Service \<Rightarrow> Rollout \<Rightarrow> StageTarget list \<Rightarrow> Stage \<Rightarrow> ('w, StageDecision \<times> Rollout) M" where
  "evaluateStageDecision svc r targets currentStage =
     bindM (effM (ros_now svc)) (\<lambda>now.
     if ro_RolloutMaxDuration r > 0 \<and> time_Sub now (ro_CreatedAt r) \<ge> ro_RolloutMaxDuration r then
       retM (DecisionRollback, r)
     else let decision = EvaluateStageProgress
                \<lparr>spi_Targets = targets, spi_RequiredAckPercentage = ro_RequiredAckPercent r,
                 spi_StageStartedAt = ro_StageStartedAt r, spi_Now = now,
                 spi_MinimumDuration = stage_MinimumDuration currentStage,
                 spi_DeploymentTimeout = ro_DeploymentTimeout r\<rparr> in
       if decision \<noteq> DecisionPromote then retM (decision, r)
       else if length (ro_Guardrails r) = 0 then retM (DecisionPromote, r)
       else bindM (evaluateGuardrails svc r now) (\<lambda>(status, evaluated).
         retM (case status of
                 StatusHealthy \<Rightarrow> DecisionPromote
               | StatusUnhealthy \<Rightarrow> DecisionRollback
               | StatusUnknown \<Rightarrow> DecisionPause, evaluated)))"

text \<open>The switch on the decision, which \<open>Acknowledge\<close> and \<open>reconcileRollout\<close> both make.\<close>

definition act_on_decision :: "'w ro_Service \<Rightarrow> StageDecision \<Rightarrow> Rollout \<Rightarrow> Stage list \<Rightarrow> ('w, Rollout) M" where
  "act_on_decision svc decision r stages =
     (case decision of
        DecisionPromote \<Rightarrow> promote svc r stages
      | DecisionRollback \<Rightarrow> startRollback svc r
      | DecisionPause \<Rightarrow> if ro_State r = StatePaused then retM r else transition svc r StatePaused
      | DecisionWait \<Rightarrow> retM r)"

definition stage_range_error :: error where
  "stage_range_error = Errorf ''%w: current stage index out of range'' [FW (Sentinel rollout_ErrInvalidInput)]"

definition reconcileRollout :: "'w ro_Service \<Rightarrow> Rollout \<Rightarrow> ('w, Rollout) M" where
  "reconcileRollout svc r =
     bindM (st_ListStageTargets (ros_store svc) (ro_ID r) (ro_CurrentStageID r)) (\<lambda>targets.
     if ro_State r = StateRollingBack then reconcileRollback svc r targets
     else
       bindM (st_ListStages (ros_store svc) (ro_ID r)) (\<lambda>stages.
       if ro_CurrentStageIndex r < 0 \<or> ro_CurrentStageIndex r \<ge> int (length stages) then raiseM stage_range_error
       else
         bindM (evaluateStageDecision svc r targets (stages ! nat (ro_CurrentStageIndex r))) (\<lambda>(decision, evaluated).
         act_on_decision svc decision evaluated stages)))"

subsection \<open>service.go: the operations\<close>

definition ro_invalid :: "error \<Rightarrow> error" where
  "ro_invalid e = Errorf ''%w: %v'' [FW (Sentinel rollout_ErrInvalidInput), FV e]"

definition create_stages :: "'w ro_Service \<Rightarrow> CreateRolloutInput \<Rightarrow> Stage list" where
  "create_stages svc input = (if length (cri_Stages input) = 0 then ros_stagePlan svc else cri_Stages input)"

definition new_rollout ::
  "CreateRolloutInput \<Rightarrow> Stage list \<Rightarrow> ConfigDefinition \<Rightarrow> ConfigVersion \<Rightarrow> ConfigEnvironmentState \<Rightarrow> go_time \<Rightarrow> string \<Rightarrow> Rollout" where
  "new_rollout input stages definition1 candidate state now newID =
     \<lparr>ro_ID = newID,
      ro_ConfigDefinitionID = def_ID definition1,
      ro_TenantID = cri_TenantID input,
      ro_ConfigKey = cri_Key input,
      ro_Environment = cri_Environment input,
      ro_TargetServices = [] @ cri_TargetServices input,
      ro_StableVersionID = env_StableVersionID state,
      ro_CandidateVersionID = ver_ID candidate,
      ro_CandidateVersion = ver_VersionNumber candidate,
      ro_State = StateDeploying,
      ro_CurrentStageID = stage_ID (stages ! 0),
      ro_CurrentStageIndex = 0,
      ro_RequiredAckPercent =
        (if f64_eq (cri_RequiredAckPercentage input) (Fin 0) then Fin 95 else cri_RequiredAckPercentage input),
      ro_Guardrails = [] @ cri_Guardrails input,
      ro_GuardrailFailures = [],
      ro_StageStartedAt = now,
      ro_DeploymentTimeout =
        (if cri_DeploymentTimeout input = 0 then 90 * Second else cri_DeploymentTimeout input),
      ro_RolloutMaxDuration =
        (if cri_RolloutMaxDuration input = 0 then 15 * Minute else cri_RolloutMaxDuration input),
      ro_RollbackTimeout =
        (if cri_RollbackTimeout input = 0 then 2 * Minute else cri_RollbackTimeout input),
      ro_RollbackStatus = RollbackStatusNone,
      ro_CreatedAt = now,
      ro_UpdatedAt = now\<rparr>"

definition ro_CreateRollout :: "'w ro_Service \<Rightarrow> CreateRolloutInput \<Rightarrow> ('w, Rollout \<times> StageTarget list) M" where
  "ro_CreateRollout svc input =
     (if cri_TenantID input = [] \<or> cri_Key input = [] then
        raiseM (Errorf ''%w: tenant and key are required'' [FW (Sentinel rollout_ErrInvalidInput)])
      else
        bindM (checkM (map_option ro_invalid (Environment_Validate (cri_Environment input)))) (\<lambda>_.
        if cri_CandidateVersionNumber input < 1 then
          raiseM (Errorf ''%w: candidate version number must be positive'' [FW (Sentinel rollout_ErrInvalidInput)])
        else
          let stages = create_stages svc input in
          bindM (checkM (map_option ro_invalid (ValidateStagePlan stages))) (\<lambda>_.
          bindM (checkM (guardrail_checks (cri_Guardrails input))) (\<lambda>_.
          bindM (rg_GetDefinition (ros_registry svc) (cri_TenantID input) (cri_Key input)) (\<lambda>definition1.
          bindM (rg_ListVersions (ros_registry svc) (cri_TenantID input) (cri_Key input)) (\<lambda>versions.
          bindM (case findVersionByNumber versions (cri_CandidateVersionNumber input) of
                   None \<Rightarrow> raiseM (Errorf ''%w: candidate version'' [FW (Sentinel rollout_ErrNotFound)])
                 | Some v \<Rightarrow> retM v) (\<lambda>candidate.
          bindM (rg_GetEnvironmentState (ros_registry svc) (cri_TenantID input) (cri_Key input) (cri_Environment input)) (\<lambda>state.
          if env_StableVersionID state = [] then
            raiseM (Errorf ''%w: stable version is required'' [FW (Sentinel rollout_ErrInvalidInput)])
          else if env_StableVersionID state = ver_ID candidate then
            raiseM (Errorf ''%w: candidate is already stable'' [FW (Sentinel rollout_ErrConflict)])
          else
            bindM (effM (ros_now svc)) (\<lambda>now.
            bindM (effM (ros_newID svc ''rollout'')) (\<lambda>newID.
            let r = new_rollout input stages definition1 candidate state now newID in
            bindM (st_CreateRollout (ros_store svc) r stages) (\<lambda>_.
            bindM (activateStage svc r (stages ! 0) (cri_TargetServices input)) (\<lambda>targets.
            retM (r, targets)))))))))))))"

definition ro_GetRollout :: "'w ro_Service \<Rightarrow> string \<Rightarrow> ('w, Rollout \<times> StageTarget list \<times> Coverage) M" where
  "ro_GetRollout svc rolloutID =
     bindM (st_GetRollout (ros_store svc) rolloutID) (\<lambda>r.
     bindM (st_ListStageTargets (ros_store svc) (ro_ID r) (ro_CurrentStageID r)) (\<lambda>targets.
     retM (r, targets, AcknowledgementCoverage targets)))"

definition ro_Acknowledge :: "'w ro_Service \<Rightarrow> AcknowledgeInput \<Rightarrow> ('w, AcknowledgeResult) M" where
  "ro_Acknowledge svc input =
     bindM (st_GetRollout (ros_store svc) (aki_RolloutID input)) (\<lambda>r.
     if Terminal (ro_State r) then
       raiseM (Errorf ''%w: rollout is terminal'' [FW (Sentinel rollout_ErrConflict)])
     else
       bindM (st_ListStageTargets (ros_store svc) (ro_ID r) (ro_CurrentStageID r)) (\<lambda>targets0.
       bindM (effM (ros_now svc)) (\<lambda>now.
       case ApplyAck targets0 \<lparr>ack_RolloutID = aki_RolloutID input, ack_StageID = aki_StageID input,
              ack_AgentID = aki_AgentID input, ack_VersionID = aki_VersionID input,
              ack_SnapshotRevision = aki_SnapshotRevision input, ack_AckedAt = now\<rparr> of (counted, targets) \<Rightarrow>
       bindM (if counted then st_ReplaceStageTargets (ros_store svc) (ro_ID r) (ro_CurrentStageID r) targets
              else retM ()) (\<lambda>_.
       bindM (st_ListStages (ros_store svc) (ro_ID r)) (\<lambda>stages.
       if ro_State r = StateRollingBack then
         bindM (reconcileRollback svc r targets) (\<lambda>r.
         retM \<lparr>akr_Counted = counted, akr_Coverage = AcknowledgementCoverage targets,
               akr_Decision = DecisionWait, akr_Rollout = r\<rparr>)
       else if ro_CurrentStageIndex r < 0 \<or> ro_CurrentStageIndex r \<ge> int (length stages) then raiseM stage_range_error
       else
         bindM (evaluateStageDecision svc r targets (stages ! nat (ro_CurrentStageIndex r))) (\<lambda>(decision, evaluated).
         bindM (act_on_decision svc decision evaluated stages) (\<lambda>r.
         retM \<lparr>akr_Counted = counted, akr_Coverage = AcknowledgementCoverage targets,
               akr_Decision = decision, akr_Rollout = r\<rparr>)))))))"

definition ro_ActiveRollout ::
  "'w ro_Service \<Rightarrow> string \<Rightarrow> Environment \<Rightarrow> ('w, Rollout \<times> StageTarget list) M" where
  "ro_ActiveRollout svc configDefinitionID environment =
     bindM (st_GetActiveRollout (ros_store svc) configDefinitionID environment) (\<lambda>r.
     bindM (st_ListStageTargets (ros_store svc) (ro_ID r) (ro_CurrentStageID r)) (\<lambda>targets.
     retM (r, targets)))"

fun reconcile_loop :: "'w ro_Service \<Rightarrow> Rollout list \<Rightarrow> ('w, unit) M" where
  "reconcile_loop svc [] = retM ()"
| "reconcile_loop svc (r # rs) =
     (if Terminal (ro_State r) then reconcile_loop svc rs
      else bindM (reconcileRollout svc r) (\<lambda>_. reconcile_loop svc rs))"

definition ro_ReconcileActive :: "'w ro_Service \<Rightarrow> ('w, unit) M" where
  "ro_ReconcileActive svc = bindM (st_ListActiveRollouts (ros_store svc)) (\<lambda>active. reconcile_loop svc active)"

end
