(* ===== verification/Rollout_Steps.thy ===== *)
theory Rollout_Steps
  imports Rollout_Service
begin

section \<open>The life of a rollout: an abstract step relation and its invariants\<close>

text \<open>
  \<open>ro_step\<close> is the specification of the rollout service at the level of its abstract state:
  one rule per write of the store, with the condition under which the service may make it.
  \<open>Rollout_Refinement\<close> shows that every operation of the service, successful or not, is a sequence of these
  steps. Here are the invariants of the relation: what a stored rollout looks like
  (\<open>row_ok\<close>), what the targets say (\<open>targets_ok\<close>), and how a rollout may change over time
  (\<open>progress\<close>).
\<close>

definition verification_stage :: "string \<Rightarrow> Stage" where
  "verification_stage i = \<lparr>stage_ID = rollbackVerificationStageID i, stage_Percentage = 100, stage_MinimumDuration = 0\<rparr>"

definition in_progress :: "Rollout \<Rightarrow> bool" where
  "in_progress r \<longleftrightarrow> ro_State r = StateDeploying \<or> ro_State r = StatePaused"

definition fresh_rollout :: "Rollout \<Rightarrow> Stage list \<Rightarrow> bool" where
  "fresh_rollout r ss \<longleftrightarrow>
     new_ok r \<and> ro_State r = StateDeploying \<and> ValidateStagePlan ss = None \<and> ro_CurrentStageIndex r = 0 \<and>
     ro_CurrentStageID r = stage_ID (ss ! 0) \<and> ro_StableVersionID r \<noteq> [] \<and>
     ro_StableVersionID r \<noteq> ro_CandidateVersionID r \<and> ro_RollbackStatus r = RollbackStatusNone \<and>
     ro_StageStartedAt r = ro_CreatedAt r"

text \<open>The condition of a promotion: coverage over the targets of the current stage and its minimum duration.\<close>

definition stage_passed :: "rollout_db \<Rightarrow> Rollout \<Rightarrow> Stage list \<Rightarrow> go_time \<Rightarrow> bool" where
  "stage_passed db r ss now \<longleftrightarrow>
     CoverageReached (db_targets db (ro_ID r) (ro_CurrentStageID r)) (ro_RequiredAckPercent r) \<and>
     stage_MinimumDuration (ss ! nat (ro_CurrentStageIndex r)) \<le> time_Sub now (ro_StageStartedAt r)"

inductive ro_step :: "rollout_db \<Rightarrow> rollout_db \<Rightarrow> bool" where
  Create: "fresh_rollout r ss \<Longrightarrow> db_rollouts db (ro_ID r) = None \<Longrightarrow>
    \<forall>r'. is_active db r' \<longrightarrow> \<not> same_slot r r' \<Longrightarrow> ro_step db (db_create r ss db)"
| Revision: "ro_step db (db\<lparr>db_next := wrap64 (db_next db + 1)\<rparr>)"
| Target: "is_active db r \<Longrightarrow> ro_State r = StateDeploying \<Longrightarrow> BuildStageTargets i = Inr ts \<Longrightarrow> bti_Rollout i = r \<Longrightarrow>
    stage_ID (bti_Stage i) = ro_CurrentStageID r \<Longrightarrow> ro_step db (db_add_targets ts db)"
| Ack: "is_active db r \<Longrightarrow> ApplyAck (db_targets db (ro_ID r) (ro_CurrentStageID r)) a = (True, ts) \<Longrightarrow>
    ro_step db (db_set_targets (ro_ID r) (ro_CurrentStageID r) ts db)"
| Evaluated: "is_active db r \<Longrightarrow> in_progress r \<Longrightarrow>
    ro_step db (db_put (r\<lparr>ro_GuardrailFailures := f, ro_UpdatedAt := t\<rparr>) db)"
| Pause: "is_active db r \<Longrightarrow> ro_State r = StateDeploying \<Longrightarrow>
    ro_step db (db_put (r\<lparr>ro_State := StatePaused, ro_UpdatedAt := t\<rparr>) db)"
| Promote: "is_active db r \<Longrightarrow> in_progress r \<Longrightarrow> db_stages db (ro_ID r) = Some ss \<Longrightarrow>
    ro_CurrentStageIndex r + 1 < int (length ss) \<Longrightarrow> stage_passed db r ss now \<Longrightarrow>
    ro_step db (db_put (r\<lparr>ro_State := StateDeploying, ro_CurrentStageIndex := ro_CurrentStageIndex r + 1,
      ro_CurrentStageID := stage_ID (ss ! nat (ro_CurrentStageIndex r + 1)), ro_StageStartedAt := t, ro_UpdatedAt := t\<rparr>) db)"
| Complete: "is_active db r \<Longrightarrow> in_progress r \<Longrightarrow> db_stages db (ro_ID r) = Some ss \<Longrightarrow>
    ro_CurrentStageIndex r + 1 = int (length ss) \<Longrightarrow> stage_passed db r ss now \<Longrightarrow>
    ro_step db (db_put (r\<lparr>ro_State := StateCompleted, ro_UpdatedAt := t\<rparr>) db)"
| Roll_Back: "is_active db r \<Longrightarrow> in_progress r \<Longrightarrow>
    ro_step db (db_put (r\<lparr>ro_State := StateRollingBack, ro_UpdatedAt := t\<rparr>) db)"
| Save_Verification: "is_active db r \<Longrightarrow> ro_State r = StateRollingBack \<Longrightarrow>
    ro_step db (db_save_stage (ro_ID r) (verification_stage (ro_ID r)) db)"
| Rollback_Targets: "is_active db r \<Longrightarrow> ro_State r = StateRollingBack \<Longrightarrow>
    ro_CurrentStageID r \<noteq> rollbackVerificationStageID (ro_ID r) \<Longrightarrow>
    ro_step db (db_add_targets (map (rollback_target r n t) (db_targets db (ro_ID r) (ro_CurrentStageID r))) db)"
| Enter_Verification: "is_active db r \<Longrightarrow> ro_State r = StateRollingBack \<Longrightarrow>
    ro_CurrentStageID r \<noteq> rollbackVerificationStageID (ro_ID r) \<Longrightarrow>
    ro_step db (db_put (r\<lparr>ro_CurrentStageID := rollbackVerificationStageID (ro_ID r), ro_StageStartedAt := t, ro_UpdatedAt := t\<rparr>) db)"
| Verified: "is_active db r \<Longrightarrow> ro_State r = StateRollingBack \<Longrightarrow>
    ro_CurrentStageID r = rollbackVerificationStageID (ro_ID r) \<Longrightarrow> db_stages db (ro_ID r) = Some ss \<Longrightarrow>
    CoverageReached (db_targets db (ro_ID r) (ro_CurrentStageID r)) (ro_RequiredAckPercent r) \<or>
    db_targets db (ro_ID r) (ro_CurrentStageID r) = [] \<or>
    db_targets db (ro_ID r) (stage_ID (ss ! nat (ro_CurrentStageIndex r))) = [] \<Longrightarrow>
    ro_step db (db_put (r\<lparr>ro_State := StateRolledBack, ro_RollbackStatus := RollbackStatusVerified, ro_UpdatedAt := t\<rparr>) db)"
| Timed_Out: "is_active db r \<Longrightarrow> ro_State r = StateRollingBack \<Longrightarrow>
    ro_CurrentStageID r = rollbackVerificationStageID (ro_ID r) \<Longrightarrow> 0 < ro_RollbackTimeout r \<Longrightarrow>
    ro_RollbackTimeout r \<le> time_Sub now (ro_StageStartedAt r) \<Longrightarrow>
    ro_step db (db_put (r\<lparr>ro_State := StateRolledBack, ro_RollbackStatus := RollbackStatusPartial, ro_UpdatedAt := t\<rparr>) db)"

abbreviation ro_steps :: "rollout_db \<Rightarrow> rollout_db \<Rightarrow> bool" where
  "ro_steps \<equiv> ro_step\<^sup>*\<^sup>*"

subsection \<open>What is stored of a rollout\<close>

definition stages_ok :: "Rollout \<Rightarrow> Stage list \<Rightarrow> bool" where
  "stages_ok r ss \<longleftrightarrow>
     (\<exists>plan. ValidateStagePlan plan = None \<and>
        (ss = plan \<or> ss = plan @ [verification_stage (ro_ID r)] \<and> ro_State r \<in> {StateRollingBack, StateRolledBack}) \<and>
        0 \<le> ro_CurrentStageIndex r \<and> ro_CurrentStageIndex r < int (length plan) \<and>
        (ro_CurrentStageID r = stage_ID (plan ! nat (ro_CurrentStageIndex r)) \<or>
         ro_CurrentStageID r = rollbackVerificationStageID (ro_ID r) \<and> ro_State r \<in> {StateRollingBack, StateRolledBack}) \<and>
        (ro_State r = StateCompleted \<longrightarrow> ro_CurrentStageIndex r + 1 = int (length plan)))"

definition row_ok :: "rollout_db \<Rightarrow> Rollout \<Rightarrow> bool" where
  "row_ok db r \<longleftrightarrow>
     ro_State r \<in> {StateDeploying, StatePaused, StateRollingBack, StateCompleted, StateRolledBack} \<and>
     (ro_State r = StateRolledBack \<longleftrightarrow> ro_RollbackStatus r \<noteq> RollbackStatusNone) \<and>
     ro_StableVersionID r \<noteq> [] \<and> ro_StableVersionID r \<noteq> ro_CandidateVersionID r \<and>
     (\<exists>ss. db_stages db (ro_ID r) = Some ss \<and> stages_ok r ss)"

definition rows_ok :: "rollout_db \<Rightarrow> bool" where
  "rows_ok db \<longleftrightarrow> (\<forall>i r. db_rollouts db i = Some r \<longrightarrow> ro_ID r = i \<and> nul_free i \<and> valid_env (ro_Environment r) \<and> row_ok db r)"

text \<open>A target belongs to its rollout and stage and expects one of the rollout's two versions, the
  candidate except in the verification stage.\<close>

definition target_ok :: "rollout_db \<Rightarrow> string \<Rightarrow> string \<Rightarrow> StageTarget \<Rightarrow> bool" where
  "target_ok db i sid t \<longleftrightarrow>
     tgt_RolloutID t = i \<and> tgt_StageID t = sid \<and>
     (\<exists>r. db_rollouts db i = Some r \<and>
        (tgt_ExpectedVersionID t = ro_CandidateVersionID r \<or>
         tgt_ExpectedVersionID t = ro_StableVersionID r \<and> sid = rollbackVerificationStageID i))"

definition targets_ok :: "rollout_db \<Rightarrow> bool" where
  "targets_ok db \<longleftrightarrow> (\<forall>i sid. \<forall>t \<in> set (db_targets db i sid). target_ok db i sid t)"

definition rollouts_ok :: "rollout_db \<Rightarrow> bool" where
  "rollouts_ok db \<longleftrightarrow> rows_ok db \<and> targets_ok db \<and> one_active db"

subsection \<open>How a rollout changes\<close>

text \<open>The fields that never change: a rollout without the fields that its life is about.\<close>

definition identity :: "Rollout \<Rightarrow> Rollout" where
  "identity r = r\<lparr>ro_State := StateUnset, ro_CurrentStageID := [], ro_CurrentStageIndex := 0, ro_GuardrailFailures := [],
     ro_StageStartedAt := 0, ro_RollbackStatus := RollbackStatusNone, ro_UpdatedAt := 0\<rparr>"

text \<open>The states a rollout can be in later.\<close>

fun later_states :: "State \<Rightarrow> State list" where
  "later_states StateDeploying = [StateDeploying, StatePaused, StateRollingBack, StateCompleted, StateRolledBack]"
| "later_states StatePaused = [StateDeploying, StatePaused, StateRollingBack, StateCompleted, StateRolledBack]"
| "later_states StateRollingBack = [StateRollingBack, StateRolledBack]"
| "later_states s = [s]"

definition progress :: "Rollout \<Rightarrow> Rollout \<Rightarrow> bool" where
  "progress r r' \<longleftrightarrow>
     identity r' = identity r \<and> ro_State r' \<in> set (later_states (ro_State r)) \<and>
     ro_CurrentStageIndex r \<le> ro_CurrentStageIndex r' \<and>
     (\<not> in_progress r \<longrightarrow> ro_CurrentStageIndex r' = ro_CurrentStageIndex r) \<and>
     (Terminal (ro_State r) \<longrightarrow> r' = r)"

lemma identity_fields:
  assumes "identity r' = identity r"
  shows "ro_ID r' = ro_ID r" "ro_ConfigDefinitionID r' = ro_ConfigDefinitionID r" "ro_Environment r' = ro_Environment r"
    "ro_StableVersionID r' = ro_StableVersionID r" "ro_CandidateVersionID r' = ro_CandidateVersionID r"
    "ro_CandidateVersion r' = ro_CandidateVersion r" "ro_TenantID r' = ro_TenantID r" "ro_ConfigKey r' = ro_ConfigKey r"
    "ro_CreatedAt r' = ro_CreatedAt r" "ro_RequiredAckPercent r' = ro_RequiredAckPercent r"
    "ro_Guardrails r' = ro_Guardrails r" "ro_TargetServices r' = ro_TargetServices r"
    "ro_RollbackTimeout r' = ro_RollbackTimeout r" "ro_RolloutMaxDuration r' = ro_RolloutMaxDuration r"
  using
    arg_cong [OF assms, of ro_ID] arg_cong [OF assms, of ro_ConfigDefinitionID] arg_cong [OF assms, of ro_Environment]
    arg_cong [OF assms, of ro_StableVersionID] arg_cong [OF assms, of ro_CandidateVersionID] arg_cong [OF assms, of ro_CandidateVersion]
    arg_cong [OF assms, of ro_TenantID] arg_cong [OF assms, of ro_ConfigKey] arg_cong [OF assms, of ro_CreatedAt]
    arg_cong [OF assms, of ro_RequiredAckPercent] arg_cong [OF assms, of ro_Guardrails] arg_cong [OF assms, of ro_TargetServices]
    arg_cong [OF assms, of ro_RollbackTimeout] arg_cong [OF assms, of ro_RolloutMaxDuration]
  by (simp_all add: identity_def)

lemma progress_refl: "progress r r"
  by (cases "ro_State r") (auto simp: progress_def)

lemma later_states_trans: "s' \<in> set (later_states s) \<Longrightarrow> s'' \<in> set (later_states s') \<Longrightarrow> s'' \<in> set (later_states s)"
  by (cases s) auto

lemma later_not_in_progress:
  "s' \<in> set (later_states s) \<Longrightarrow> s \<noteq> StateDeploying \<Longrightarrow> s \<noteq> StatePaused \<Longrightarrow> s' \<noteq> StateDeploying \<and> s' \<noteq> StatePaused"
  by (cases s) auto

lemma progress_trans:
  assumes "progress a b" and "progress b c"
  shows "progress a c"
proof -
  have "ro_State c \<in> set (later_states (ro_State a))" using assms later_states_trans by (auto simp: progress_def)
  moreover have "\<not> in_progress a \<Longrightarrow> \<not> in_progress b"
    using assms(1) later_not_in_progress [of "ro_State b" "ro_State a"] by (auto simp: progress_def in_progress_def)
  ultimately show ?thesis using assms by (auto simp: progress_def)
qed

text \<open>Every write of a rollout that the rules allow is progress.\<close>

lemma is_active_put:
  assumes "progress r r'" and "is_active db r"
  shows "db_rollouts (db_put r' db) i = Some x \<longleftrightarrow> (if i = ro_ID r then x = r' else db_rollouts db i = Some x)"
  using assms identity_fields(1) [of r' r] by (auto simp: db_put_def progress_def)

lemma step_put_cases:
  assumes "ro_step db db'"
  obtains (new) r ss where "fresh_rollout r ss" "db_rollouts db (ro_ID r) = None"
      "\<forall>r'. is_active db r' \<longrightarrow> \<not> same_slot r r'" "db' = db_create r ss db"
    | (put) r r' where "is_active db r" "progress r r'" "db' = db_put r' db"
    | (side) "db_rollouts db' = db_rollouts db"
  using assms
proof cases
  case (Create r ss)
  then show ?thesis by (intro new)
next
  case (Evaluated r f t)
  then show ?thesis by (intro put [OF Evaluated(2) _ Evaluated(1)]) (auto simp: progress_def identity_def in_progress_def)
next
  case (Pause r t)
  then show ?thesis by (intro put [OF Pause(2) _ Pause(1)]) (auto simp: progress_def identity_def in_progress_def)
next
  case (Promote r ss now t)
  then show ?thesis by (intro put [OF Promote(2) _ Promote(1)]) (auto simp: progress_def identity_def in_progress_def)
next
  case (Complete r ss now t)
  then show ?thesis by (intro put [OF Complete(2) _ Complete(1)]) (auto simp: progress_def identity_def in_progress_def)
next
  case (Roll_Back r t)
  then show ?thesis by (intro put [OF Roll_Back(2) _ Roll_Back(1)]) (auto simp: progress_def identity_def in_progress_def)
next
  case (Enter_Verification r t)
  then show ?thesis by (intro put [OF Enter_Verification(2) _ Enter_Verification(1)]) (auto simp: progress_def identity_def in_progress_def)
next
  case (Verified r ss t)
  then show ?thesis by (intro put [OF Verified(2) _ Verified(1)]) (auto simp: progress_def identity_def in_progress_def)
next
  case (Timed_Out r now t)
  then show ?thesis by (intro put [OF Timed_Out(2) _ Timed_Out(1)]) (auto simp: progress_def identity_def in_progress_def)
qed (simp_all add: side db_add_targets_def db_set_targets_def db_save_stage_def Let_def)

lemma step_progress:
  assumes "ro_step db db'" and "db_rollouts db i = Some r" and "rows_ok db"
  shows "\<exists>r'. db_rollouts db' i = Some r' \<and> progress r r'"
  using assms(1)
proof (cases rule: step_put_cases)
  case (new q ss)
  then show ?thesis using assms(2) by (auto simp: db_create_def db_put_def intro: progress_refl)
next
  case (put q q')
  then show ?thesis using assms(2,3) is_active_put [OF put(2,1), of i]
    by (cases "i = ro_ID q") (auto simp: is_active_def intro: progress_refl)
next
  case side
  then show ?thesis using assms(2) by (auto intro: progress_refl)
qed

subsection \<open>The invariants are kept\<close>

lemma one_active_step:
  assumes "ro_step db db'" and "rows_ok db" and "one_active db"
  shows "one_active db'"
  using assms(1)
proof (cases rule: step_put_cases)
  case (new r ss)
  have old: "x = r \<or> is_active db x" if "is_active db' x" for x
  proof (cases "ro_ID x = ro_ID r")
    case True
    then show ?thesis using that by (simp add: new(4) is_active_def db_create_def db_put_def)
  next
    case False
    then show ?thesis using that by (simp add: new(4) is_active_def db_create_def db_put_def)
  qed
  have "\<not> same_slot r x \<and> \<not> same_slot x r" if "is_active db x" for x
    using new(3) that by (auto simp: same_slot_def)
  then show ?thesis using old assms(3) unfolding one_active_def by blast
next
  case (put r r')
  have id: "identity r' = identity r" using put(2) by (simp add: progress_def)
  have old: "x = r' \<or> is_active db x \<and> ro_ID x \<noteq> ro_ID r" if "is_active db' x" for x
    using that is_active_put [OF put(2,1), of "ro_ID x" x] put(3) by (simp add: is_active_def split: if_splits)
  have slot: "same_slot r' x = same_slot r x" "same_slot x r' = same_slot x r" for x
    using identity_fields(2,3) [OF id] by (simp_all add: same_slot_def)
  show ?thesis unfolding one_active_def
  proof (intro allI impI)
    fix x y assume xy: "is_active db' x" "is_active db' y" "same_slot x y"
    have "x = r' \<Longrightarrow> y = r'" and "y = r' \<Longrightarrow> x = r'"
      using old [OF xy(1)] old [OF xy(2)] xy(3) slot put(1) assms(3) unfolding one_active_def by metis+
    then show "x = y" using old [OF xy(1)] old [OF xy(2)] xy(3) assms(3) unfolding one_active_def by blast
  qed
next
  case side
  then have "is_active db' = is_active db" by (simp add: is_active_def fun_eq_iff)
  then show ?thesis using assms(3) by (simp add: one_active_def)
qed

text \<open>A target stays right when rows are added or make progress.\<close>

lemma target_ok_step:
  assumes "ro_step db db'" and "rows_ok db" and "target_ok db i sid t"
  shows "target_ok db' i sid t"
proof -
  obtain r where r: "db_rollouts db i = Some r" using assms(3) by (auto simp: target_ok_def)
  obtain r' where r': "db_rollouts db' i = Some r'" "progress r r'"
    using step_progress [OF assms(1) r assms(2)] by blast
  then have "ro_CandidateVersionID r' = ro_CandidateVersionID r" "ro_StableVersionID r' = ro_StableVersionID r"
    using identity_fields [of r' r] by (simp_all add: progress_def)
  then show ?thesis using assms(3) r r' by (simp add: target_ok_def)
qed

lemma ApplyAck_members:
  "ApplyAck ts a = (c, ts') \<Longrightarrow> t' \<in> set ts' \<Longrightarrow> \<exists>t \<in> set ts. tgt_identity t' = tgt_identity t"
  using ApplyAck_identity [of ts a] by simp (metis image_iff list.set_map)

lemma target_ok_identity:
  assumes "tgt_identity t' = tgt_identity t"
  shows "target_ok db i sid t' = target_ok db i sid t"
proof -
  have "tgt_RolloutID t' = tgt_RolloutID t" "tgt_StageID t' = tgt_StageID t"
    "tgt_ExpectedVersionID t' = tgt_ExpectedVersionID t"
    using arg_cong [OF assms, of tgt_RolloutID] arg_cong [OF assms, of tgt_StageID]
      arg_cong [OF assms, of tgt_ExpectedVersionID] by (simp_all add: tgt_identity_def)
  then show ?thesis by (simp add: target_ok_def)
qed

lemma new_targets_step:
  assumes "ro_step db db'" and "targets_ok db" and "t \<in> set (db_targets db' i sid)" and "rows_ok db"
  shows "target_ok db i sid t"
proof -
  have old: "target_ok db i sid t" if "t \<in> set (db_targets db i sid)" for t i sid
    using assms(2) that by (simp add: targets_ok_def)
  from assms(1) show ?thesis
  proof cases
    case (Target r j ts)
    have "t \<in> set (db_targets db i sid) \<or> t \<in> set (targets_of i sid ts)"
      using assms(3) Target(1) by (simp add: db_add_targets_def)
    then show ?thesis using old set_BuildStageTargets [OF Target(4)] Target
      by (auto simp: target_ok_def targets_of_def is_active_def)
  next
    case (Ack r a ts)
    show ?thesis
    proof (cases "i = ro_ID r \<and> sid = ro_CurrentStageID r")
      case True
      with assms(3) Ack(1) have "t \<in> set ts" by (simp add: db_set_targets_def)
      then obtain t0 where "t0 \<in> set (db_targets db i sid)" "tgt_identity t = tgt_identity t0"
        using ApplyAck_members [OF Ack(3)] True by blast
      then show ?thesis using old target_ok_identity by blast
    next
      case False
      with assms(3) Ack(1) show ?thesis by (intro old) (auto simp: db_set_targets_def split: if_splits)
    qed
  next
    case (Rollback_Targets r n u)
    have "t \<in> set (db_targets db i sid) \<or> t \<in> set (targets_of i sid (map (rollback_target r n u) (db_targets db (ro_ID r) (ro_CurrentStageID r))))"
      using assms(3) Rollback_Targets(1) by (simp add: db_add_targets_def)
    then show ?thesis using old Rollback_Targets(2)
      by (auto simp: target_ok_def targets_of_def rollback_target_def is_active_def)
  qed (use assms(3) old in \<open>simp_all add: db_create_def db_put_def db_save_stage_def Let_def split: if_splits\<close>)
qed

lemma targets_ok_step: "ro_step db db' \<Longrightarrow> rows_ok db \<Longrightarrow> targets_ok db \<Longrightarrow> targets_ok db'"
  using new_targets_step target_ok_step unfolding targets_ok_def by blast

subsubsection \<open>Rows\<close>

lemma row_ok_put [simp]: "row_ok (db_put r db) x = row_ok db x"
  by (simp add: row_ok_def db_put_def)

lemma rows_ok_put:
  assumes "rows_ok db" and "is_active db r" and "identity r' = identity r" and "row_ok db r'"
  shows "rows_ok (db_put r' db)"
proof -
  have "ro_ID r' = ro_ID r" "ro_Environment r' = ro_Environment r" using identity_fields [OF assms(3)] by simp_all
  then show ?thesis using assms(1,2,4)
    by (auto simp: rows_ok_def is_active_def db_put_def row_ok_def)
qed

lemma rows_ok_active:
  assumes "rows_ok db" and "is_active db r"
  shows "row_ok db r" "nul_free (ro_ID r)" "valid_env (ro_Environment r)"
  using assms by (auto simp: rows_ok_def is_active_def)

lemma stages_ok_in_progress:
  assumes "stages_ok r ss" and "in_progress r"
  shows "ValidateStagePlan ss = None" "0 \<le> ro_CurrentStageIndex r" "ro_CurrentStageIndex r < int (length ss)"
    "ro_CurrentStageID r = stage_ID (ss ! nat (ro_CurrentStageIndex r))"
proof -
  have "ro_State r \<notin> {StateRollingBack, StateRolledBack}" using assms(2) by (auto simp: in_progress_def)
  then have "ValidateStagePlan ss = None \<and> 0 \<le> ro_CurrentStageIndex r \<and> ro_CurrentStageIndex r < int (length ss) \<and>
      ro_CurrentStageID r = stage_ID (ss ! nat (ro_CurrentStageIndex r))"
    using assms(1) unfolding stages_ok_def by blast
  then show "ValidateStagePlan ss = None" "0 \<le> ro_CurrentStageIndex r" "ro_CurrentStageIndex r < int (length ss)"
    "ro_CurrentStageID r = stage_ID (ss ! nat (ro_CurrentStageIndex r))" by blast+
qed

lemma row_ok_same_stage:
  assumes "row_ok db r" and "ro_ID r' = ro_ID r" and "ro_StableVersionID r' = ro_StableVersionID r"
    and "ro_CandidateVersionID r' = ro_CandidateVersionID r" and "ro_CurrentStageIndex r' = ro_CurrentStageIndex r"
    and "ro_CurrentStageID r' = ro_CurrentStageID r \<or>
         ro_CurrentStageID r' = rollbackVerificationStageID (ro_ID r) \<and> ro_State r' \<in> {StateRollingBack, StateRolledBack}"
    and "in_progress r \<and> ro_State r' \<in> {StateDeploying, StatePaused, StateRollingBack} \<or>
         ro_State r = StateRollingBack \<and> ro_State r' \<in> {StateRollingBack, StateRolledBack}"
    and "ro_State r' = StateRolledBack \<longleftrightarrow> ro_RollbackStatus r' \<noteq> RollbackStatusNone"
  shows "row_ok db r'"
proof -
  obtain ss where ss: "db_stages db (ro_ID r) = Some ss" "stages_ok r ss" using assms(1) by (auto simp: row_ok_def)
  then have "stages_ok r' ss" using assms(2,5-7) by (auto simp: stages_ok_def in_progress_def)
  then show ?thesis using assms ss by (auto simp: row_ok_def in_progress_def)
qed

lemma row_ok_cong: "db_stages db' (ro_ID r) = db_stages db (ro_ID r) \<Longrightarrow> row_ok db' r = row_ok db r"
  by (simp only: row_ok_def)

lemma row_ok_stages:
  assumes "row_ok db r" and "in_progress r" and "db_stages db (ro_ID r) = Some ss"
  shows "ValidateStagePlan ss = None \<and> 0 \<le> ro_CurrentStageIndex r \<and> ro_CurrentStageIndex r < int (length ss) \<and>
    ro_CurrentStageID r = stage_ID (ss ! nat (ro_CurrentStageIndex r)) \<and> ro_RollbackStatus r = RollbackStatusNone"
proof -
  have "stages_ok r ss" using assms(1,3) by (simp add: row_ok_def)
  moreover have "ro_RollbackStatus r = RollbackStatusNone" using assms(1,2) by (auto simp: row_ok_def in_progress_def)
  ultimately show ?thesis using stages_ok_in_progress [OF _ assms(2)] by simp
qed

lemma row_ok_promote:
  assumes "row_ok db r" and "in_progress r" and "db_stages db (ro_ID r) = Some ss"
    and "ro_CurrentStageIndex r + 1 < int (length ss)"
  shows "row_ok db (r\<lparr>ro_State := StateDeploying, ro_CurrentStageIndex := ro_CurrentStageIndex r + 1,
      ro_CurrentStageID := stage_ID (ss ! nat (ro_CurrentStageIndex r + 1)), ro_StageStartedAt := t, ro_UpdatedAt := t\<rparr>)"
    (is "row_ok db ?r")
proof -
  have "stages_ok ?r ss" unfolding stages_ok_def
    by (rule exI [of _ ss]) (use row_ok_stages [OF assms(1-3)] assms(4) in simp)
  then show ?thesis using assms(1,3) row_ok_stages [OF assms(1-3)] by (simp add: row_ok_def)
qed

lemma row_ok_complete:
  assumes "row_ok db r" and "in_progress r" and "db_stages db (ro_ID r) = Some ss"
    and "ro_CurrentStageIndex r + 1 = int (length ss)"
  shows "row_ok db (r\<lparr>ro_State := StateCompleted, ro_UpdatedAt := t\<rparr>)" (is "row_ok db ?r")
proof -
  have "stages_ok ?r ss" unfolding stages_ok_def
    by (rule exI [of _ ss]) (use row_ok_stages [OF assms(1-3)] assms(4) in simp)
  then show ?thesis using assms(1,3) row_ok_stages [OF assms(1-3)] by (simp add: row_ok_def)
qed

lemma row_ok_save_stage:
  assumes "row_ok db x" and "is_active db r" and "ro_State r = StateRollingBack"
    and "ro_ID x = ro_ID r \<Longrightarrow> x = r"
  shows "row_ok (db_save_stage (ro_ID r) (verification_stage (ro_ID r)) db) x"
proof (cases "ro_ID x = ro_ID r")
  case True
  then have "x = r" by (rule assms(4))
  obtain ss where ss: "db_stages db (ro_ID r) = Some ss" "stages_ok r ss"
    using assms(1) \<open>x = r\<close> by (auto simp: row_ok_def)
  show ?thesis
  proof (cases "\<exists>y \<in> set ss. stage_ID y = stage_ID (verification_stage (ro_ID r))")
    case True
    then show ?thesis using assms(1) ss by (simp add: db_save_stage_def)
  next
    case False
    then have "ss \<noteq> plan @ [verification_stage (ro_ID r)]" for plan by auto
    then have "stages_ok r (ss @ [verification_stage (ro_ID r)])" using ss(2) assms(3) by (auto simp: stages_ok_def)
    then show ?thesis using False assms(1) ss \<open>x = r\<close> by (auto simp: db_save_stage_def row_ok_def)
  qed
next
  case False
  then have "db_stages (db_save_stage (ro_ID r) (verification_stage (ro_ID r)) db) (ro_ID x) = db_stages db (ro_ID x)"
    by (simp add: db_save_stage_def Let_def)
  then show ?thesis using assms(1) row_ok_cong by blast
qed

lemma row_ok_fresh: "fresh_rollout r ss \<Longrightarrow> row_ok (db_create r ss db) r"
  by (auto simp: fresh_rollout_def row_ok_def stages_ok_def db_create_def ValidateStagePlan_None)

lemma rows_ok_side:
  assumes "rows_ok db" and "db_rollouts db' = db_rollouts db" and "db_stages db' = db_stages db"
  shows "rows_ok db'"
  using assms row_ok_cong [of db' _ db] by (simp add: rows_ok_def)

lemma rows_ok_step:
  assumes "ro_step db db'" and ok: "rows_ok db"
  shows "rows_ok db'"
  using assms(1)
proof cases
  case (Create r ss)
  have "row_ok db' x" if "row_ok db x" "ro_ID x \<noteq> ro_ID r" for x
    using that row_ok_cong [of db' x db] Create(1) by (simp add: db_create_def db_put_def)
  moreover have "row_ok db' r" using row_ok_fresh [OF Create(2)] Create(1) by simp
  ultimately show ?thesis using ok Create
    by (auto simp: rows_ok_def db_create_def db_put_def fresh_rollout_def new_ok_def)
next
  case (Promote r ss now t)
  show ?thesis unfolding Promote(1)
    by (rule rows_ok_put [OF ok Promote(2)])
      (use row_ok_promote [OF rows_ok_active(1) [OF ok Promote(2)] Promote(3-5)] in \<open>auto simp: identity_def\<close>)
next
  case (Complete r ss now t)
  show ?thesis unfolding Complete(1)
    by (rule rows_ok_put [OF ok Complete(2)])
      (use row_ok_complete [OF rows_ok_active(1) [OF ok Complete(2)] Complete(3-5)] in \<open>auto simp: identity_def\<close>)
next
  case (Save_Verification r)
  have "row_ok db' x" if "db_rollouts db i = Some x" for i x
    unfolding Save_Verification(1)
  proof (rule row_ok_save_stage [OF _ Save_Verification(2,3)])
    have x: "ro_ID x = i" "row_ok db x" using ok that by (auto simp: rows_ok_def)
    then show "row_ok db x" by simp
    show "x = r" if "ro_ID x = ro_ID r"
      using that x(1) \<open>db_rollouts db i = Some x\<close> Save_Verification(2) by (simp add: is_active_def)
  qed
  moreover have "db_rollouts db' = db_rollouts db"
    by (simp add: Save_Verification(1) db_save_stage_def Let_def)
  ultimately show ?thesis using ok by (simp add: rows_ok_def)
next
  case (Evaluated r f t)
  show ?thesis unfolding Evaluated(1)
    by (rule rows_ok_put [OF ok Evaluated(2)], simp add: identity_def, rule row_ok_same_stage [OF rows_ok_active(1) [OF ok Evaluated(2)]])
      (use Evaluated rows_ok_active(1) [OF ok Evaluated(2)] in \<open>auto simp: in_progress_def row_ok_def\<close>)
next
  case (Pause r t)
  show ?thesis unfolding Pause(1)
    by (rule rows_ok_put [OF ok Pause(2)], simp add: identity_def, rule row_ok_same_stage [OF rows_ok_active(1) [OF ok Pause(2)]])
      (use Pause rows_ok_active(1) [OF ok Pause(2)] in \<open>auto simp: in_progress_def row_ok_def\<close>)
next
  case (Roll_Back r t)
  show ?thesis unfolding Roll_Back(1)
    by (rule rows_ok_put [OF ok Roll_Back(2)], simp add: identity_def, rule row_ok_same_stage [OF rows_ok_active(1) [OF ok Roll_Back(2)]])
      (use Roll_Back rows_ok_active(1) [OF ok Roll_Back(2)] in \<open>auto simp: in_progress_def row_ok_def\<close>)
next
  case (Enter_Verification r t)
  show ?thesis unfolding Enter_Verification(1)
    by (rule rows_ok_put [OF ok Enter_Verification(2)], simp add: identity_def,
        rule row_ok_same_stage [OF rows_ok_active(1) [OF ok Enter_Verification(2)]])
      (use Enter_Verification rows_ok_active(1) [OF ok Enter_Verification(2)] in \<open>auto simp: row_ok_def\<close>)
next
  case (Verified r ss t)
  show ?thesis unfolding Verified(1)
    by (rule rows_ok_put [OF ok Verified(2)], simp add: identity_def,
        rule row_ok_same_stage [OF rows_ok_active(1) [OF ok Verified(2)]]) (use Verified in auto)
next
  case (Timed_Out r now t)
  show ?thesis unfolding Timed_Out(1)
    by (rule rows_ok_put [OF ok Timed_Out(2)], simp add: identity_def,
        rule row_ok_same_stage [OF rows_ok_active(1) [OF ok Timed_Out(2)]]) (use Timed_Out in auto)
qed (use ok in \<open>auto intro!: rows_ok_side [OF ok] simp: db_add_targets_def db_set_targets_def\<close>)

lemma rollouts_ok_step: "ro_step db db' \<Longrightarrow> rollouts_ok db \<Longrightarrow> rollouts_ok db'"
  unfolding rollouts_ok_def using rows_ok_step targets_ok_step one_active_step by blast

lemma rollouts_ok_steps: "ro_steps db db' \<Longrightarrow> rollouts_ok db \<Longrightarrow> rollouts_ok db'"
  by (induction rule: rtranclp_induct) (auto intro: rollouts_ok_step)

lemma steps_progress:
  assumes "ro_steps db db'" and "rollouts_ok db" and "db_rollouts db i = Some r"
  shows "\<exists>r'. db_rollouts db' i = Some r' \<and> progress r r'"
  using assms(1)
proof (induction rule: rtranclp_induct)
  case base
  then show ?case using assms(3) progress_refl by blast
next
  case (step y z)
  then obtain r' where r': "db_rollouts y i = Some r'" "progress r r'" by blast
  have "rows_ok y" using rollouts_ok_steps [OF step(1) assms(2)] by (simp add: rollouts_ok_def)
  then obtain r'' where "db_rollouts z i = Some r''" "progress r' r''" using step_progress [OF step(2) r'(1)] by blast
  then show ?case using progress_trans [OF r'(2)] by blast
qed

lemma rollouts_ok_empty: "rollouts_ok (ro_abs ro_NewMemoryStore)"
  by (simp add: rollouts_ok_def rows_ok_def targets_ok_def one_active_def is_active_def ro_abs_def ro_NewMemoryStore_def
      gomap_slice_def)

end
