(* ===== verification/Rollout_Refinement.thy ===== *)
theory Rollout_Refinement
  imports Rollout_Steps
begin

section \<open>The rollout service refines the step relation\<close>

text \<open>
  \<open>rollout_service\<close> is what the service relies on: a store that keeps its contract, and a
  registry, an agent source, a clock, an identifier generator and a metrics source that leave
  the rollouts alone. Under these laws every operation, whether it returns or fails, takes the
  abstract state along steps of \<open>ro_step\<close>: also a call that fails halfway leaves the rollouts in
  a state that the relation reaches. All that \<open>Rollout_Steps\<close> shows of the relation then holds
  of the service.
\<close>

text \<open>
  The rollouts and the registry together. A rollout is linked to the registry: its tenant and
  key name the definition it was created for, and its two versions are versions of that definition.
\<close>

definition linked :: "registry_db \<Rightarrow> Rollout \<Rightarrow> bool" where
  "linked reg r \<longleftrightarrow>
     (\<exists>x v. reg_defs reg (definitionKey (ro_TenantID r) (ro_ConfigKey r)) = Some x \<and> def_ID x = ro_ConfigDefinitionID r \<and>
        v \<in> set (reg_versions reg (def_ID x)) \<and> ver_ID v = ro_CandidateVersionID r \<and> ver_VersionNumber v = ro_CandidateVersion r \<and>
        ro_StableVersionID r \<in> ver_ID ` set (reg_versions reg (def_ID x)))"

definition all_linked :: "rollout_db \<Rightarrow> registry_db \<Rightarrow> bool" where
  "all_linked db reg \<longleftrightarrow> (\<forall>i r. db_rollouts db i = Some r \<longrightarrow> linked reg r)"

definition plane_ok :: "rollout_db \<Rightarrow> registry_db \<Rightarrow> bool" where
  "plane_ok db reg \<longleftrightarrow> rollouts_ok db \<and> pointers_ok reg \<and> all_linked db reg"

definition stable_is_candidate :: "registry_db \<Rightarrow> Rollout \<Rightarrow> bool" where
  "stable_is_candidate reg r \<longleftrightarrow>
     (\<exists>st. reg_states reg (ro_ConfigDefinitionID r) (ro_Environment r) = Some st \<and> env_StableVersionID st = ro_CandidateVersionID r)"

lemma linked_grows: "registry_grows V reg reg' \<Longrightarrow> linked reg r \<Longrightarrow> linked reg' r"
proof -
  assume g: "registry_grows V reg reg'" and "linked reg r"
  then obtain x v where x: "reg_defs reg (definitionKey (ro_TenantID r) (ro_ConfigKey r)) = Some x" "def_ID x = ro_ConfigDefinitionID r"
      "v \<in> set (reg_versions reg (def_ID x))" "ver_ID v = ro_CandidateVersionID r" "ver_VersionNumber v = ro_CandidateVersion r"
      "ro_StableVersionID r \<in> ver_ID ` set (reg_versions reg (def_ID x))"
    by (auto simp: linked_def)
  have "reg_defs reg' (definitionKey (ro_TenantID r) (ro_ConfigKey r)) = Some x"
    using g x(1) by (metis domI map_le_def registry_grows_def)
  moreover have "set (reg_versions reg (def_ID x)) \<subseteq> set (reg_versions reg' (def_ID x))"
    using g by (simp add: registry_grows_def set_mono_prefix)
  ultimately show ?thesis using x unfolding linked_def by blast
qed

text \<open>Within a definition a version number names one version, so setting the pointer by number sets it to the candidate.\<close>

lemma version_number_unique:
  assumes "registry_ok reg" and "v \<in> set (reg_versions reg c)" and "v' \<in> set (reg_versions reg c)"
    and "ver_VersionNumber v = ver_VersionNumber v'"
  shows "v = v'"
  using assms by (auto simp: registry_ok_def versions_ok_def version_at_def in_set_conv_nth)

lemma stable_set_is_candidate:
  assumes "registry_ok reg" and "linked reg r"
    and "\<exists>x v. reg_defs reg (definitionKey (ro_TenantID r) (ro_ConfigKey r)) = Some x \<and> v \<in> set (reg_versions reg (def_ID x)) \<and>
      ver_VersionNumber v = ro_CandidateVersion r \<and> env_StableVersionID st = ver_ID v \<and>
      reg_states reg' (def_ID x) (ro_Environment r) = Some st"
  shows "stable_is_candidate reg' r"
proof -
  obtain x v where x: "reg_defs reg (definitionKey (ro_TenantID r) (ro_ConfigKey r)) = Some x" "v \<in> set (reg_versions reg (def_ID x))"
      "ver_VersionNumber v = ro_CandidateVersion r" "env_StableVersionID st = ver_ID v"
      "reg_states reg' (def_ID x) (ro_Environment r) = Some st" using assms(3) by blast
  obtain u where u: "def_ID x = ro_ConfigDefinitionID r" "u \<in> set (reg_versions reg (def_ID x))"
      "ver_ID u = ro_CandidateVersionID r" "ver_VersionNumber u = ro_CandidateVersion r"
    using assms(2) x(1) by (auto simp: linked_def)
  have "v = u" using version_number_unique [OF assms(1) x(2) u(2)] x(3) u(4) by simp
  then show ?thesis using x u by (simp add: stable_is_candidate_def)
qed

lemma linked_identity: "identity r' = identity r \<Longrightarrow> linked reg r' = linked reg r"
  using identity_fields [of r' r] by (simp add: linked_def)

lemma all_linked_grows: "registry_grows V reg reg' \<Longrightarrow> all_linked db reg \<Longrightarrow> all_linked db reg'"
  using linked_grows by (auto simp: all_linked_def)

definition arrives ::
  "('w \<Rightarrow> bool) \<Rightarrow> ('w \<Rightarrow> rollout_db \<times> 'r) \<Rightarrow> ('r \<Rightarrow> registry_db) \<Rightarrow> SchemaValidator \<Rightarrow> string \<Rightarrow> rollout_db \<times> 'r \<Rightarrow> 'w \<Rightarrow> bool" where
  "arrives J ab reg V i d w \<longleftrightarrow> J w \<and> plane_ok (fst (ab w)) (reg (snd (ab w))) \<and> ro_steps (fst d) (fst (ab w)) \<and>
     (\<forall>j. j \<noteq> i \<longrightarrow> db_rollouts (fst (ab w)) j = db_rollouts (fst d) j) \<and> registry_grows V (reg (snd d)) (reg (snd (ab w)))"

lemma arrives_same: "arrives J ab reg V i d w \<Longrightarrow> J w' \<Longrightarrow> ab w' = ab w \<Longrightarrow> arrives J ab reg V i d w'"
  by (simp add: arrives_def)

lemma arrives_put:
  assumes "arrives J ab reg V i d w" and "J w'" and "ro_step (fst (ab w)) (db_put r (fst (ab w)))"
    and "ab w' = (db_put r (fst (ab w)), snd (ab w))" and "ro_ID r = i" and "db_rollouts (fst (ab w)) i = Some r0"
    and "identity r = identity r0"
  shows "arrives J ab reg V i d w'"
proof -
  have "rollouts_ok (fst (ab w'))" using assms(1,3,4) rollouts_ok_step by (simp add: arrives_def plane_ok_def)
  moreover have "all_linked (fst (ab w')) (reg (snd (ab w)))"
    using assms(1,4-6) linked_identity [OF assms(7)] by (auto simp: arrives_def plane_ok_def all_linked_def db_put_def)
  ultimately show ?thesis using assms by (auto simp: arrives_def plane_ok_def db_put_def)
qed

lemma arrives_step:
  "arrives J ab reg V i d w \<Longrightarrow> J w' \<Longrightarrow> ro_step (fst (ab w)) (fst (ab w')) \<Longrightarrow>
   db_rollouts (fst (ab w')) = db_rollouts (fst (ab w)) \<Longrightarrow> snd (ab w') = snd (ab w) \<Longrightarrow> arrives J ab reg V i d w'"
  unfolding arrives_def plane_ok_def all_linked_def using rollouts_ok_step [of "fst (ab w)"] by auto

lemma arrives_registry:
  "arrives J ab reg V i d w \<Longrightarrow> J w' \<Longrightarrow> fst (ab w') = fst (ab w) \<Longrightarrow> registry_ok (reg (snd (ab w))) \<Longrightarrow>
   registry_grows V (reg (snd (ab w))) (reg (snd (ab w'))) \<Longrightarrow> arrives J ab reg V i d w'"
  using all_linked_grows [of V "reg (snd (ab w))" "reg (snd (ab w'))"]
    registry_grows_trans [of V "reg (snd d)" "reg (snd (ab w))" "reg (snd (ab w'))"]
  by (auto simp: arrives_def plane_ok_def registry_grows_def)

lemma arrives_J: "arrives J ab reg V i d w \<Longrightarrow> J w"
  by (simp add: arrives_def)

lemma arrives_rows: "arrives J ab reg V i d w \<Longrightarrow> rows_ok (fst (ab w))"
  by (simp add: arrives_def plane_ok_def rollouts_ok_def)

text \<open>Where a rollout lands: it is what the store holds, and if it is completed the stable pointer is its candidate.\<close>

definition lands :: "('w \<Rightarrow> rollout_db \<times> 'r) \<Rightarrow> ('r \<Rightarrow> registry_db) \<Rightarrow> Rollout \<Rightarrow> Rollout \<Rightarrow> 'w \<Rightarrow> bool" where
  "lands ab reg r r' w \<longleftrightarrow> db_rollouts (fst (ab w)) (ro_ID r) = Some r' \<and>
     (ro_State r' = StateCompleted \<longrightarrow> stable_is_candidate (reg (snd (ab w))) r')"

lemma lands_self: "is_active (fst (ab w)) r \<Longrightarrow> lands ab reg r r w"
  by (auto simp: lands_def is_active_def)

lemma lands_id: "ro_ID r1 = ro_ID r \<Longrightarrow> lands ab reg r1 = lands ab reg r"
  by (simp add: lands_def fun_eq_iff)

text \<open>The same without the restriction to one rollout: what every operation of the service guarantees.\<close>

definition advances ::
  "('w \<Rightarrow> bool) \<Rightarrow> ('w \<Rightarrow> rollout_db \<times> 'r) \<Rightarrow> ('r \<Rightarrow> registry_db) \<Rightarrow> SchemaValidator \<Rightarrow> rollout_db \<times> 'r \<Rightarrow> 'w \<Rightarrow> bool" where
  "advances J ab reg V d w \<longleftrightarrow> J w \<and> plane_ok (fst (ab w)) (reg (snd (ab w))) \<and> ro_steps (fst d) (fst (ab w)) \<and>
     registry_grows V (reg (snd d)) (reg (snd (ab w)))"

lemma arrives_advances: "arrives J ab reg V i d w \<Longrightarrow> advances J ab reg V d w"
  by (simp add: arrives_def advances_def)

lemma is_active_put_self: "\<not> Terminal (ro_State r) \<Longrightarrow> is_active (db_put r db) r"
  by (simp add: is_active_def db_put_def)

lemma db_put_simps [simp]:
  "db_stages (db_put r db) = db_stages db" "db_targets (db_put r db) = db_targets db"
  "db_rollouts (db_put r db) (ro_ID r) = Some r"
  by (simp_all add: db_put_def)

lemma db_side_simps [simp]:
  "db_rollouts (db_save_stage i st db) = db_rollouts db" "db_rollouts (db_add_targets ts db) = db_rollouts db"
  "db_rollouts (db_set_targets i sid ts db) = db_rollouts db"
  by (simp_all add: db_save_stage_def Let_def db_add_targets_def db_set_targets_def)

lemma row_ok_current:
  assumes "row_ok db r" and "ro_CurrentStageID r \<noteq> rollbackVerificationStageID (ro_ID r)" and "db_stages db (ro_ID r) = Some ss"
  shows "ro_CurrentStageID r = stage_ID (ss ! nat (ro_CurrentStageIndex r))"
proof -
  have "stages_ok r ss" using assms(1,3) by (simp add: row_ok_def)
  then show ?thesis using assms(2) by (auto simp: stages_ok_def nth_append nat_less_iff)
qed

lemma row_ok_has_stages: "row_ok db r \<Longrightarrow> \<exists>ss. db_stages db (ro_ID r) = Some ss"
  by (auto simp: row_ok_def)

text \<open>What the evaluation of guardrails may change of a rollout: its failure counters.\<close>

definition evaluated_from :: "Rollout \<Rightarrow> Rollout \<Rightarrow> bool" where
  "evaluated_from r r' \<longleftrightarrow> r' = r \<or> (\<exists>f t. r' = r\<lparr>ro_GuardrailFailures := f, ro_UpdatedAt := t\<rparr>)"

lemma evaluated_from_fields:
  assumes "evaluated_from r r'"
  shows "ro_ID r' = ro_ID r" "ro_State r' = ro_State r" "ro_CurrentStageID r' = ro_CurrentStageID r"
    "ro_CurrentStageIndex r' = ro_CurrentStageIndex r" "ro_StageStartedAt r' = ro_StageStartedAt r"
    "ro_RequiredAckPercent r' = ro_RequiredAckPercent r" "in_progress r' = in_progress r" "identity r' = identity r"
  using assms by (auto simp: evaluated_from_def in_progress_def identity_def)

locale rollout_service = rollout_store "ros_store svc" J ab
  for svc :: "'w ro_Service" and J :: "'w \<Rightarrow> bool" and ab :: "'w \<Rightarrow> rollout_db \<times> 'r" +
  fixes reg :: "'r \<Rightarrow> registry_db" and V :: SchemaValidator
  assumes ListAgents: "contract J ab (\<lambda>_. True) (ros_agents svc) (\<lambda>d as d'. d' = d \<and> distinct (map agent_ID as))"
    and GetDefinition: "contract J ab (\<lambda>_. True) (rg_GetDefinition (ros_registry svc) i k)
      (\<lambda>d x d'. d' = d \<and> reg_defs (reg (snd d)) (definitionKey i k) = Some x)"
    and ListVersions: "contract J ab (\<lambda>_. True) (rg_ListVersions (ros_registry svc) i k)
      (\<lambda>d vs d'. d' = d \<and> (\<exists>x. reg_defs (reg (snd d)) (definitionKey i k) = Some x \<and> vs = reg_versions (reg (snd d)) (def_ID x)))"
    and GetEnvironmentState: "contract J ab (\<lambda>_. True) (rg_GetEnvironmentState (ros_registry svc) i k e)
      (\<lambda>d st d'. d' = d \<and> (\<exists>x. reg_defs (reg (snd d)) (definitionKey i k) = Some x \<and> reg_states (reg (snd d)) (def_ID x) e = Some st))"
    and SetStableVersion: "contract J ab (\<lambda>_. True) (rg_SetStableVersion (ros_registry svc) input)
      (\<lambda>d st d'. fst d' = fst d \<and> registry_grows V (reg (snd d)) (reg (snd d')) \<and>
         (\<exists>x v. reg_defs (reg (snd d)) (definitionKey (ssv_TenantID input) (ssv_Key input)) = Some x \<and>
            v \<in> set (reg_versions (reg (snd d)) (def_ID x)) \<and> ver_VersionNumber v = ssv_VersionNumber input \<and>
            env_StableVersionID st = ver_ID v \<and> reg_states (reg (snd d')) (def_ID x) (ssv_Environment input) = Some st))"
    and reg_ok: "J w \<Longrightarrow> registry_ok (reg (snd (ab w)))"
    and now_J: "J w \<Longrightarrow> J (snd (ros_now svc w))" and now_ab: "J w \<Longrightarrow> ab (snd (ros_now svc w)) = ab w"
    and id_J: "J w \<Longrightarrow> J (snd (ros_newID svc p w))" and id_ab: "J w \<Longrightarrow> ab (snd (ros_newID svc p w)) = ab w"
    and id_nul_free: "nul_free p \<Longrightarrow> nul_free (fst (ros_newID svc p w))"
    and query_J: "ros_queryer svc = Some q \<Longrightarrow> J w \<Longrightarrow> J (snd (q y t w))"
    and query_ab: "ros_queryer svc = Some q \<Longrightarrow> J w \<Longrightarrow> ab (snd (q y t w)) = ab w"
begin

lemmas env_simps = now_J now_ab id_J id_ab

lemma arrives_now [simp]:
  assumes "arrives J ab reg V i db w"
  shows "arrives J ab reg V i db (snd (ros_now svc w))"
  using assms now_J now_ab arrives_J [OF assms] by (intro arrives_same [OF assms]) simp_all

lemma update:
  assumes "arrives J ab reg V (ro_ID r0) db w" and "is_active (fst (ab w)) r0" and "identity r = identity r0"
    and "ro_step (fst (ab w)) (db_put r (fst (ab w)))"
    and "\<And>w'. arrives J ab reg V (ro_ID r0) db w' \<Longrightarrow> ab w' = (db_put r (fst (ab w)), snd (ab w)) \<Longrightarrow> Q () w'"
    and "\<And>e w'. arrives J ab reg V (ro_ID r0) db w' \<Longrightarrow> ab w' = ab w \<Longrightarrow> E e w'"
  shows "wp (st_UpdateRollout (ros_store svc) r) Q E w"
proof (rule wp_contract [OF UpdateRollout])
  show "J w" using assms(1) by (rule arrives_J)
  show "update_ok r (fst (ab w))"
    using assms(2) identity_fields [OF assms(3)] by (auto simp: update_ok_def is_active_def same_slot_def)
  fix a w' assume w': "J w'" "ab w' = (db_put r (fst (ab w)), snd (ab w))"
  then have "arrives J ab reg V (ro_ID r0) db w'" 
    using arrives_put [OF assms(1) w'(1) assms(4) w'(2) identity_fields(1) [OF assms(3)] _ assms(3)] assms(2)
    by (simp add: is_active_def)
  then show "Q a w'" using assms(5) w'(2) by simp
next
  fix e w' assume "J w'" "ab w' = ab w"
  then show "E e w'" using assms(6) arrives_same [OF assms(1)] by simp
qed

lemma transition_refines:
  assumes "arrives J ab reg V (ro_ID r) db w" and "is_active (fst (ab w)) r"
    and "\<And>t. ro_step (fst (ab w)) (db_put (r\<lparr>ro_State := s, ro_UpdatedAt := t\<rparr>) (fst (ab w)))"
    and "s \<noteq> StateCompleted"
  shows "wp (transition svc r s)
    (\<lambda>r' w'. arrives J ab reg V (ro_ID r) db w' \<and> lands ab reg r r' w' \<and> ro_State r' = s)
    (\<lambda>_ w'. arrives J ab reg V (ro_ID r) db w') w"
proof (cases "Transition (ro_State r) s")
  case (Some e)
  then show ?thesis using assms(1) by (simp add: transition_def wp_simps Let_def)
next
  case None
  have "wp (st_UpdateRollout (ros_store svc) (r\<lparr>ro_State := s, ro_UpdatedAt := t\<rparr>))
      (\<lambda>_ w'. arrives J ab reg V (ro_ID r) db w' \<and> db_rollouts (fst (ab w')) (ro_ID r) = Some (r\<lparr>ro_State := s, ro_UpdatedAt := t\<rparr>))
      (\<lambda>_ w'. arrives J ab reg V (ro_ID r) db w') (snd (ros_now svc w))" for t
    by (rule update [of r]) (use assms arrives_J [OF assms(1)] in \<open>auto simp: env_simps identity_def db_put_def\<close>)
  then show ?thesis using None assms(4) by (simp add: transition_def wp_simps Let_def lands_def del: Transition_None)
qed

lemma finish_refines:
  assumes "arrives J ab reg V (ro_ID r) db w" and "is_active (fst (ab w)) r"
    and "\<And>t. ro_step (fst (ab w)) (db_put (r\<lparr>ro_State := StateRolledBack, ro_RollbackStatus := st, ro_UpdatedAt := t\<rparr>) (fst (ab w)))"
  shows "wp (finish_rollback svc r st)
    (\<lambda>r' w'. arrives J ab reg V (ro_ID r) db w' \<and> lands ab reg r r' w' \<and> ro_State r' = StateRolledBack \<and> ro_RollbackStatus r' = st)
    (\<lambda>_ w'. arrives J ab reg V (ro_ID r) db w') w"
proof -
  have "wp (st_UpdateRollout (ros_store svc) (r\<lparr>ro_State := StateRolledBack, ro_RollbackStatus := st, ro_UpdatedAt := t\<rparr>))
      (\<lambda>_ w'. arrives J ab reg V (ro_ID r) db w' \<and>
         db_rollouts (fst (ab w')) (ro_ID r) = Some (r\<lparr>ro_State := StateRolledBack, ro_RollbackStatus := st, ro_UpdatedAt := t\<rparr>))
      (\<lambda>_ w'. arrives J ab reg V (ro_ID r) db w') (snd (ros_now svc w))" for t
    by (rule update [of r]) (use assms arrives_J [OF assms(1)] in \<open>auto simp: env_simps identity_def db_put_def\<close>)
  then show ?thesis by (simp add: finish_rollback_def wp_simps Let_def lands_def)
qed

lemma startRollback_refines:
  assumes "arrives J ab reg V (ro_ID r) db w" and "is_active (fst (ab w)) r" and "in_progress r"
  shows "wp (startRollback svc r)
    (\<lambda>r' w'. arrives J ab reg V (ro_ID r) db w' \<and> lands ab reg r r' w' \<and> ro_State r' = StateRollingBack)
    (\<lambda>_ w'. arrives J ab reg V (ro_ID r) db w') w"
  using transition_refines [OF assms(1,2) ro_step.Roll_Back [OF assms(2,3)]] assms(3)
  by (auto simp: startRollback_def in_progress_def)

text \<open>A rollout is written before its targets, so a failure in between leaves a stage without targets.\<close>

lemma activateStage_refines:
  assumes "arrives J ab reg V (ro_ID r) db w" and "is_active (fst (ab w)) r" and "ro_State r = StateDeploying"
    and "stage_ID stage = ro_CurrentStageID r"
  shows "wp (activateStage svc r stage services)
    (\<lambda>_ w'. arrives J ab reg V (ro_ID r) db w' \<and> db_rollouts (fst (ab w')) (ro_ID r) = Some r)
    (\<lambda>_ w'. arrives J ab reg V (ro_ID r) db w' \<and> db_rollouts (fst (ab w')) (ro_ID r) = Some r) w"
  unfolding activateStage_def wp_bind Let_def
proof (rule wp_contract [OF ListAgents _ TrueI], goal_cases)
  case (2 as w1)
  then have 1: "arrives J ab reg V (ro_ID r) db w1" "ab w1 = ab w" using arrives_same [OF assms(1) 2(1)] by simp_all
  show ?case
  proof (rule wp_contract [OF NextSnapshotRevision _ TrueI], goal_cases)
    case (2 n w2)
    have db2: "ab w2 = ((fst (ab w))\<lparr>db_next := wrap64 (db_next (fst (ab w)) + 1)\<rparr>, snd (ab w))" using 2 1 by simp
    have 2: "arrives J ab reg V (ro_ID r) db w2" "is_active (fst (ab w2)) r"
      by (rule arrives_step [OF 1(1) 2(1)], use assms(2) 1(2) db2 in \<open>auto simp: is_active_def intro: ro_step.Revision\<close>)
    let ?i = "\<lparr>bti_Rollout = r, bti_Stage = stage, bti_Agents = filterAgents as (ro_Environment r) services,
       bti_SnapshotRevision = n, bti_CreatedAt = fst (ros_now svc w2)\<rparr>"
    let ?w3 = "snd (ros_now svc w2)"
    have w3: "J ?w3" "ab ?w3 = ab w2" "arrives J ab reg V (ro_ID r) db ?w3" using 2(1) arrives_J [OF 2(1)] by (simp_all add: env_simps)
    show ?case
    proof (cases "BuildStageTargets ?i")
      case (Inl e)
      then show ?thesis using w3 2 by (simp add: wp_simps is_active_def)
    next
      case (Inr ts)
      have "nul_free (tgt_RolloutID t)" if "t \<in> set ts" for t
        using that set_BuildStageTargets [OF Inr] rows_ok_active(2) [OF arrives_rows [OF 2(1)] 2(2)] by auto
      moreover have "ro_step (fst (ab w2)) (db_add_targets ts (fst (ab w2)))"
        by (rule ro_step.Target [OF 2(2) assms(3) Inr]) (simp_all add: assms(4))
      ultimately have "wp (st_SaveStageTargets (ros_store svc) ts)
          (\<lambda>_ w'. arrives J ab reg V (ro_ID r) db w' \<and> db_rollouts (fst (ab w')) (ro_ID r) = Some r)
          (\<lambda>_ w'. arrives J ab reg V (ro_ID r) db w' \<and> db_rollouts (fst (ab w')) (ro_ID r) = Some r) ?w3"
        using w3 2(2) arrives_step [OF w3(3)] arrives_same [OF w3(3)]
        by (intro wp_contract [OF SaveStageTargets w3(1)]) (simp_all add: is_active_def db_add_targets_def)
      then show ?thesis using Inr by (simp add: wp_simps)
    qed
  qed (use 1 assms(2) arrives_J [OF 1(1)] arrives_same [OF 1(1)] in \<open>auto simp: is_active_def\<close>)
qed (use assms arrives_J [OF assms(1)] arrives_same [OF assms(1)] in \<open>auto simp: is_active_def\<close>)

lemma now_arrives:
  assumes "arrives J ab reg V i db w"
  shows "arrives J ab reg V i db (snd (ros_now svc w))" "ab (snd (ros_now svc w)) = ab w" "J (snd (ros_now svc w))"
  using arrives_now [OF assms] now_ab [OF arrives_J [OF assms]] now_J [OF arrives_J [OF assms]] by simp_all

lemma promote_refines:
  assumes "arrives J ab reg V (ro_ID r) db w" and "is_active (fst (ab w)) r" and "in_progress r"
    and "db_stages (fst (ab w)) (ro_ID r) = Some ss" and "stage_passed (fst (ab w)) r ss now"
  shows "wp (promote svc r ss)
    (\<lambda>r' w'. arrives J ab reg V (ro_ID r) db w' \<and> lands ab reg r r' w')
    (\<lambda>_ w'. arrives J ab reg V (ro_ID r) db w') w"
proof (cases "ro_CurrentStageIndex r = int (length ss) - 1")
  case True
  let ?inp = "\<lparr>ssv_TenantID = ro_TenantID r, ssv_Key = ro_ConfigKey r, ssv_Environment = ro_Environment r, ssv_VersionNumber = ro_CandidateVersion r\<rparr>"
  have lk: "linked (reg (snd (ab w))) r" using assms(1,2) by (auto simp: arrives_def plane_ok_def all_linked_def is_active_def)
  have saved: "wp (st_UpdateRollout (ros_store svc) (r\<lparr>ro_State := StateCompleted, ro_UpdatedAt := t\<rparr>))
      (\<lambda>_ w''. arrives J ab reg V (ro_ID r) db w'' \<and> lands ab reg r (r\<lparr>ro_State := StateCompleted, ro_UpdatedAt := t\<rparr>) w'')
      (\<lambda>_ w''. arrives J ab reg V (ro_ID r) db w'') (snd (ros_now svc w'))"
    if w': "arrives J ab reg V (ro_ID r) db w'" "fst (ab w') = fst (ab w)" "stable_is_candidate (reg (snd (ab w'))) r" for t w'
  proof (rule update [of r])
    note n = now_arrives [OF w'(1)]
    show "arrives J ab reg V (ro_ID r) db (snd (ros_now svc w'))" by (rule n(1))
    show "ro_step (fst (ab (snd (ros_now svc w')))) (db_put (r\<lparr>ro_State := StateCompleted, ro_UpdatedAt := t\<rparr>) (fst (ab (snd (ros_now svc w')))))"
      unfolding n(2) w'(2) by (rule ro_step.Complete [OF assms(2-4) _ assms(5)]) (use True in simp)
    fix w'' assume "arrives J ab reg V (ro_ID r) db w''"
      "ab w'' = (db_put (r\<lparr>ro_State := StateCompleted, ro_UpdatedAt := t\<rparr>) (fst (ab (snd (ros_now svc w')))), snd (ab (snd (ros_now svc w'))))"
    then show "arrives J ab reg V (ro_ID r) db w'' \<and> lands ab reg r (r\<lparr>ro_State := StateCompleted, ro_UpdatedAt := t\<rparr>) w''"
      using w'(3) n(2) by (simp add: lands_def db_put_def stable_is_candidate_def)
  qed (use assms(2) w' now_arrives(2) [OF w'(1)] in \<open>auto simp: identity_def\<close>)
  have "wp (rg_SetStableVersion (ros_registry svc) ?inp)
      (\<lambda>_. wp (effM (ros_now svc)) (\<lambda>t. wp (st_UpdateRollout (ros_store svc) (r\<lparr>ro_State := StateCompleted, ro_UpdatedAt := t\<rparr>))
         (\<lambda>_ w''. arrives J ab reg V (ro_ID r) db w'' \<and> lands ab reg r (r\<lparr>ro_State := StateCompleted, ro_UpdatedAt := t\<rparr>) w'')
         (\<lambda>_ w''. arrives J ab reg V (ro_ID r) db w'')) (\<lambda>_ w''. arrives J ab reg V (ro_ID r) db w''))
      (\<lambda>_ w''. arrives J ab reg V (ro_ID r) db w'') w"
  proof (rule wp_contract [OF SetStableVersion arrives_J [OF assms(1)] TrueI], goal_cases)
    case (1 st w')
    then have st: "fst (ab w') = fst (ab w)" "registry_grows V (reg (snd (ab w))) (reg (snd (ab w')))"
      and set: "\<exists>x v. reg_defs (reg (snd (ab w))) (definitionKey (ro_TenantID r) (ro_ConfigKey r)) = Some x \<and>
            v \<in> set (reg_versions (reg (snd (ab w))) (def_ID x)) \<and> ver_VersionNumber v = ro_CandidateVersion r \<and>
            env_StableVersionID st = ver_ID v \<and> reg_states (reg (snd (ab w'))) (def_ID x) (ro_Environment r) = Some st"
      by auto
    have w': "arrives J ab reg V (ro_ID r) db w'"
      by (rule arrives_registry [OF assms(1) 1(1) st(1) reg_ok [OF arrives_J [OF assms(1)]] st(2)])
    have "stable_is_candidate (reg (snd (ab w'))) r"
      by (rule stable_set_is_candidate [OF reg_ok [OF arrives_J [OF assms(1)]] lk set])
    then show ?case using saved [OF w' st(1)] by (simp add: wp_eff)
  qed (use arrives_same [OF assms(1)] in simp)
  moreover have "CanTransition (ro_State r) StateEvaluating" using assms(3) by (auto simp: in_progress_def CanTransition_def)
  ultimately show ?thesis using True by (simp add: promote_def wp_simps Let_def Transition_def)
next
  case False
  let ?i = "ro_CurrentStageIndex r + 1"
  let ?r = "\<lambda>t. r\<lparr>ro_State := StateDeploying, ro_CurrentStageIndex := ?i, ro_CurrentStageID := stage_ID (ss ! nat ?i),
       ro_StageStartedAt := t, ro_UpdatedAt := t\<rparr>"
  have lt: "?i < int (length ss)"
    using row_ok_stages [OF rows_ok_active(1) [OF arrives_rows [OF assms(1)] assms(2)] assms(3,4)] False by simp
  have "wp (st_UpdateRollout (ros_store svc) (?r t))
      (\<lambda>_. wp (activateStage svc (?r t) (ss ! nat ?i) (ro_TargetServices r))
        (\<lambda>_ w'. arrives J ab reg V (ro_ID r) db w' \<and> lands ab reg r (?r t) w') (\<lambda>_ w'. arrives J ab reg V (ro_ID r) db w'))
      (\<lambda>_ w'. arrives J ab reg V (ro_ID r) db w') (snd (ros_now svc w))" for t
  proof (rule update [of r])
    show "arrives J ab reg V (ro_ID r) db (snd (ros_now svc w))" using assms(1) by simp
    show "ro_step (fst (ab (snd (ros_now svc w)))) (db_put (?r t) (fst (ab (snd (ros_now svc w)))))"
      unfolding now_ab [OF arrives_J [OF assms(1)]] by (rule ro_step.Promote [OF assms(2-4) lt assms(5)])
    fix w' assume w': "arrives J ab reg V (ro_ID r) db w'" "ab w' = (db_put (?r t) (fst (ab (snd (ros_now svc w)))), snd (ab (snd (ros_now svc w))))"
    show "wp (activateStage svc (?r t) (ss ! nat ?i) (ro_TargetServices r))
        (\<lambda>_ w'. arrives J ab reg V (ro_ID r) db w' \<and> lands ab reg r (?r t) w') (\<lambda>_ w'. arrives J ab reg V (ro_ID r) db w') w'"
      using activateStage_refines [of "?r t" db w' "ss ! nat ?i" "ro_TargetServices r"] w'
      by (auto simp: is_active_def db_put_def lands_def elim!: wp_mono)
  qed (use assms(2) now_ab [OF arrives_J [OF assms(1)]] in \<open>auto simp: identity_def\<close>)
  then show ?thesis using False by (simp add: promote_def wp_simps Let_def)
qed

lemma save_verification:
  assumes "arrives J ab reg V (ro_ID r) db w" and "is_active (fst (ab w)) r" and "ro_State r = StateRollingBack"
  shows "wp (st_SaveStage (ros_store svc) (ro_ID r) (verification_stage (ro_ID r)))
    (\<lambda>_ w'. arrives J ab reg V (ro_ID r) db w' \<and> ab w' = (db_save_stage (ro_ID r) (verification_stage (ro_ID r)) (fst (ab w)), snd (ab w)))
    (\<lambda>_ w'. arrives J ab reg V (ro_ID r) db w') w"
  using ro_step.Save_Verification [OF assms(2,3)] arrives_step [OF assms(1)] arrives_same [OF assms(1)] arrives_J [OF assms(1)]
  by (intro wp_contract [OF SaveStage]) auto

lemma save_rollback_targets:
  assumes "arrives J ab reg V (ro_ID r) db w" and "is_active (fst (ab w)) r" and "ro_State r = StateRollingBack"
    and "ro_CurrentStageID r \<noteq> rollbackVerificationStageID (ro_ID r)"
    and "ts = db_targets (fst (ab w)) (ro_ID r) (ro_CurrentStageID r)"
  shows "wp (st_SaveStageTargets (ros_store svc) (map (rollback_target r n t) ts))
    (\<lambda>_ w'. arrives J ab reg V (ro_ID r) db w' \<and> ab w' = (db_add_targets (map (rollback_target r n t) ts) (fst (ab w)), snd (ab w)))
    (\<lambda>_ w'. arrives J ab reg V (ro_ID r) db w') w"
  using ro_step.Rollback_Targets [OF assms(2-4)] arrives_step [OF assms(1)] arrives_same [OF assms(1)] arrives_J [OF assms(1)]
    rows_ok_active(2) [OF arrives_rows [OF assms(1)] assms(2)]
  by (intro wp_contract [OF SaveStageTargets]) (auto simp: assms(5) rollback_target_def)

lemma verification_from_targets:
  assumes w: "arrives J ab reg V (ro_ID r) db w" and act: "is_active (fst (ab w)) r" and rb: "ro_State r = StateRollingBack"
    and cur: "ro_CurrentStageID r \<noteq> rollbackVerificationStageID (ro_ID r)"
    and ts: "ts = [] \<Longrightarrow> db_targets (fst (ab w)) (ro_ID r) (ro_CurrentStageID r) = []"
    and r1_def: "r1 = r\<lparr>ro_CurrentStageID := rollbackVerificationStageID (ro_ID r), ro_StageStartedAt := t, ro_UpdatedAt := t\<rparr>"
  shows "wp (bindM (st_UpdateRollout (ros_store svc) r1) (\<lambda>_.
      if length ts = 0 then finish_rollback svc r1 RollbackStatusVerified else retM r1))
    (\<lambda>r' w'. arrives J ab reg V (ro_ID r) db w' \<and> lands ab reg r r' w') (\<lambda>_ w'. arrives J ab reg V (ro_ID r) db w') w"
  unfolding wp_bind
proof (rule update [OF w act])
  show "identity r1 = identity r" by (simp add: r1_def identity_def)
  show "ro_step (fst (ab w)) (db_put r1 (fst (ab w)))" unfolding r1_def by (rule ro_step.Enter_Verification [OF act rb cur])
  fix w' assume w': "arrives J ab reg V (ro_ID r) db w'" "ab w' = (db_put r1 (fst (ab w)), snd (ab w))"
  have id: "ro_ID r1 = ro_ID r" by (simp add: r1_def)
  have w1': "arrives J ab reg V (ro_ID r1) db w'" using w'(1) id by simp
  have act1: "is_active (fst (ab w')) r1" using w'(2) rb by (simp add: is_active_def db_put_def r1_def)
  have row: "row_ok (fst (ab w)) r" using rows_ok_active(1) [OF arrives_rows [OF w] act] .
  then obtain ss where ss: "db_stages (fst (ab w)) (ro_ID r) = Some ss" using row_ok_has_stages by blast
  show "wp (if length ts = 0 then finish_rollback svc r1 RollbackStatusVerified else retM r1)
      (\<lambda>r' w'. arrives J ab reg V (ro_ID r) db w' \<and> lands ab reg r r' w') (\<lambda>_ w'. arrives J ab reg V (ro_ID r) db w') w'"
  proof (cases "ts = []")
    case True
    have "db_targets (fst (ab w')) (ro_ID r1) (stage_ID (ss ! nat (ro_CurrentStageIndex r1))) = []"
      using ts [OF True] row_ok_current [OF row cur ss] w'(2) by (simp add: r1_def)
    then have step: "ro_step (fst (ab w')) (db_put (r1\<lparr>ro_State := StateRolledBack, ro_RollbackStatus := RollbackStatusVerified, ro_UpdatedAt := u\<rparr>) (fst (ab w')))" for u
      using act1 rb ss w'(2) by (intro ro_step.Verified [of _ _ ss]) (simp_all add: r1_def)
    have "lands ab reg r1 a u \<Longrightarrow> lands ab reg r a u" for a u using lands_id [OF id, of ab reg] by simp
    then show ?thesis using True finish_refines [OF w1' act1 step] by (auto simp: id elim!: wp_mono)
  next
    case False
    then show ?thesis using w' lands_self [of ab w' r1 reg, unfolded lands_id [OF id]] act1 by (simp add: wp_simps)
  qed
qed simp

lemma activateRollbackVerification_refines:
  assumes w: "arrives J ab reg V (ro_ID r) db w" and act: "is_active (fst (ab w)) r" and rb: "ro_State r = StateRollingBack"
    and cur: "ro_CurrentStageID r \<noteq> rollbackVerificationStageID (ro_ID r)"
    and ts: "ts = db_targets (fst (ab w)) (ro_ID r) (ro_CurrentStageID r)"
  shows "wp (activateRollbackVerification svc r ts)
    (\<lambda>r' w'. arrives J ab reg V (ro_ID r) db w' \<and> lands ab reg r r' w') (\<lambda>_ w'. arrives J ab reg V (ro_ID r) db w') w"
  unfolding activateRollbackVerification_def wp_bind [of "st_NextSnapshotRevision _"]
proof (rule wp_contract [OF NextSnapshotRevision arrives_J [OF w] TrueI], goal_cases)
  case (1 n w1)
  let ?w1 = "snd (ros_now svc w1)" and ?t = "fst (ros_now svc w1)"
  have "arrives J ab reg V (ro_ID r) db w1" by (rule arrives_step [OF w 1(1)]) (use 1(2) in \<open>auto intro: ro_step.Revision\<close>)
  note w1 = now_arrives [OF this]
  have a1: "is_active (fst (ab ?w1)) r" "ts = db_targets (fst (ab ?w1)) (ro_ID r) (ro_CurrentStageID r)"
    using act ts 1(2) w1(2) by (simp_all add: is_active_def)
  show ?case unfolding wp_bind [of "effM _"] wp_eff Let_def verification_stage_def [symmetric] wp_bind [of "st_SaveStage _ _ _"]
  proof (rule wp_mono [OF save_verification [OF w1(1) a1(1) rb]], goal_cases)
    case (1 x w2)
    then have a2: "arrives J ab reg V (ro_ID r) db w2" "is_active (fst (ab w2)) r" "ts = db_targets (fst (ab w2)) (ro_ID r) (ro_CurrentStageID r)"
      using a1 by (simp_all add: is_active_def db_save_stage_def Let_def)
    show ?case unfolding wp_bind [of "st_SaveStageTargets _ _"]
    proof (rule wp_mono [OF save_rollback_targets [OF a2(1,2) rb cur a2(3)]], goal_cases)
      case (1 x w3)
      then have "arrives J ab reg V (ro_ID r) db w3" "is_active (fst (ab w3)) r"
        using a2 by (simp_all add: is_active_def db_add_targets_def)
      then show ?case using 1 a2(3) by (intro verification_from_targets [OF _ _ rb cur _ refl]) (simp_all add: db_add_targets_def targets_of_def)
    qed
  qed
qed (use arrives_same [OF w] in simp)

lemma reconcileRollback_refines:
  assumes w: "arrives J ab reg V (ro_ID r) db w" and act: "is_active (fst (ab w)) r" and rb: "ro_State r = StateRollingBack"
    and ts: "ts = db_targets (fst (ab w)) (ro_ID r) (ro_CurrentStageID r)"
  shows "wp (reconcileRollback svc r ts)
    (\<lambda>r' w'. arrives J ab reg V (ro_ID r) db w' \<and> lands ab reg r r' w') (\<lambda>_ w'. arrives J ab reg V (ro_ID r) db w') w"
proof (cases "ro_CurrentStageID r = rollbackVerificationStageID (ro_ID r)")
  case False
  then show ?thesis using activateRollbackVerification_refines [OF w act rb False ts] by (simp add: reconcileRollback_def)
next
  case True
  obtain ss where ss: "db_stages (fst (ab w)) (ro_ID r) = Some ss"
    using row_ok_has_stages rows_ok_active(1) [OF arrives_rows [OF w] act] by blast
  show ?thesis
  proof (cases "CoverageReached ts (ro_RequiredAckPercent r) \<or> ts = []")
    case c: True
    have "ro_step (fst (ab w)) (db_put (r\<lparr>ro_State := StateRolledBack, ro_RollbackStatus := RollbackStatusVerified, ro_UpdatedAt := t\<rparr>) (fst (ab w)))" for t
      by (rule ro_step.Verified [OF act rb True ss]) (use c ts in auto)
    from finish_refines [OF w act this] show ?thesis using True c by (auto simp: reconcileRollback_def elim!: wp_mono)
  next
    case c: False
    let ?w = "snd (ros_now svc w)"
    note w1 = now_arrives [OF w]
    have "ro_step (fst (ab ?w)) (db_put (r\<lparr>ro_State := StateRolledBack, ro_RollbackStatus := RollbackStatusPartial, ro_UpdatedAt := t\<rparr>) (fst (ab ?w)))"
      if "0 < ro_RollbackTimeout r" "ro_RollbackTimeout r \<le> time_Sub (fst (ros_now svc w)) (ro_StageStartedAt r)" for t
      unfolding w1(2) by (rule ro_step.Timed_Out [OF act rb True that])
    then have "wp (finish_rollback svc r RollbackStatusPartial)
        (\<lambda>r' w'. arrives J ab reg V (ro_ID r) db w' \<and> lands ab reg r r' w') (\<lambda>_ w'. arrives J ab reg V (ro_ID r) db w') ?w"
      if "0 < ro_RollbackTimeout r" "ro_RollbackTimeout r \<le> time_Sub (fst (ros_now svc w)) (ro_StageStartedAt r)"
      using that finish_refines [OF w1(1), of RollbackStatusPartial] act w1(2) by (auto elim!: wp_mono)
    then show ?thesis using True c w w1(1,2) act lands_self [of ab _ r]
      by (auto simp: reconcileRollback_def wp_simps)
  qed
qed

lemma evaluate_rule_keeps:
  assumes "J w"
  shows "wp (evaluate_rule svc rule n t) (\<lambda>_ w'. J w' \<and> ab w' = ab w) (\<lambda>_ w'. J w' \<and> ab w' = ab w) w"
  using assms query_J query_ab
  by (auto simp: evaluate_rule_def wp_simps split: option.splits sum.splits)

lemma guardrail_loop_keeps:
  assumes "J w"
  shows "wp (guardrail_loop svc t rules f es) (\<lambda>_ w'. J w' \<and> ab w' = ab w) (\<lambda>_ w'. J w' \<and> ab w' = ab w) w"
  using assms
proof (induction rules arbitrary: f es w)
  case (Cons rule rules)
  show ?case unfolding guardrail_loop.simps wp_bind
  proof (rule wp_mono [OF evaluate_rule_keeps [OF Cons.prems]], goal_cases)
    case (1 e w1)
    then show ?case using Cons.IH [of w1] by simp
  qed simp
qed (simp add: wp_simps)

lemma evaluateGuardrails_refines:
  assumes "arrives J ab reg V (ro_ID r) db w" and "is_active (fst (ab w)) r" and "in_progress r"
  shows "wp (evaluateGuardrails svc r t)
    (\<lambda>x w'. arrives J ab reg V (ro_ID r) db w' \<and> evaluated_from r (snd x) \<and> fst (ab w') = db_put (snd x) (fst (ab w)))
    (\<lambda>_ w'. arrives J ab reg V (ro_ID r) db w') w"
  unfolding evaluateGuardrails_def wp_bind [of "guardrail_loop _ _ _ _ _"]
proof (rule wp_mono [OF guardrail_loop_keeps [OF arrives_J [OF assms(1)]]], goal_cases)
  case (1 p w1)
  obtain f es where p: "p = (f, es)" by (cases p)
  have w1: "arrives J ab reg V (ro_ID r) db w1" using arrives_same [OF assms(1)] 1 by simp
  have "wp (st_UpdateRollout (ros_store svc) (r\<lparr>ro_GuardrailFailures := f, ro_UpdatedAt := t\<rparr>))
      (\<lambda>_ w'. arrives J ab reg V (ro_ID r) db w' \<and> fst (ab w') = db_put (r\<lparr>ro_GuardrailFailures := f, ro_UpdatedAt := t\<rparr>) (fst (ab w)))
      (\<lambda>_ w'. arrives J ab reg V (ro_ID r) db w') w1"
    by (rule update [OF w1]) (use assms 1 in \<open>auto simp: identity_def intro: ro_step.Evaluated\<close>)
  then show ?case unfolding p by (auto simp: wp_simps Let_def evaluated_from_def elim!: wp_mono)
next
  case (2 e w1)
  then show ?case using arrives_same [OF assms(1)] by simp
qed

lemma evaluateStageDecision_refines:
  assumes "arrives J ab reg V (ro_ID r) db w" and "is_active (fst (ab w)) r" and "in_progress r"
  shows "wp (evaluateStageDecision svc r ts st)
    (\<lambda>x w'. arrives J ab reg V (ro_ID r) db w' \<and> is_active (fst (ab w')) (snd x) \<and> evaluated_from r (snd x) \<and>
       db_stages (fst (ab w')) = db_stages (fst (ab w)) \<and> db_targets (fst (ab w')) = db_targets (fst (ab w)) \<and>
       (fst x = DecisionPromote \<longrightarrow> CoverageReached ts (ro_RequiredAckPercent r) \<and>
          stage_MinimumDuration st \<le> time_Sub (fst (ros_now svc w)) (ro_StageStartedAt r)))
    (\<lambda>_ w'. arrives J ab reg V (ro_ID r) db w') w"
proof -
  note w1 = now_arrives [OF assms(1)]
  have act: "is_active (fst (ab (snd (ros_now svc w)))) r" using assms(2) w1(2) by simp
  have self: "evaluated_from r r" by (simp add: evaluated_from_def)
  have "wp (evaluateGuardrails svc r t)
    (\<lambda>x w'. arrives J ab reg V (ro_ID r) db w' \<and> is_active (fst (ab w')) (snd x) \<and> evaluated_from r (snd x) \<and>
       db_stages (fst (ab w')) = db_stages (fst (ab w)) \<and> db_targets (fst (ab w')) = db_targets (fst (ab w)))
    (\<lambda>_ w'. arrives J ab reg V (ro_ID r) db w') (snd (ros_now svc w))" for t
    by (rule wp_mono [OF evaluateGuardrails_refines [OF w1(1) act assms(3)]])
      (use w1(2) assms(2) in \<open>auto simp: is_active_def dest: evaluated_from_fields(2)\<close>)
  note eg = wp_mono [OF this]
  show ?thesis using w1(1,2) act self
    by (auto simp: evaluateStageDecision_def wp_simps Let_def EvaluateStageProgress_def split: if_splits Status.splits prod.splits intro!: eg)
qed

lemma act_on_decision_refines:
  assumes w: "arrives J ab reg V (ro_ID r) db w" and act: "is_active (fst (ab w)) r" and ip: "in_progress r"
    and ss: "db_stages (fst (ab w)) (ro_ID r) = Some ss"
    and passed: "decision = DecisionPromote \<Longrightarrow> stage_passed (fst (ab w)) r ss now"
  shows "wp (act_on_decision svc decision r ss)
    (\<lambda>r' w'. arrives J ab reg V (ro_ID r) db w' \<and> lands ab reg r r' w') (\<lambda>_ w'. arrives J ab reg V (ro_ID r) db w') w"
proof (cases decision)
  case DecisionPromote
  then show ?thesis using promote_refines [OF w act ip ss passed] by (simp add: act_on_decision_def)
next
  case DecisionRollback
  then show ?thesis using startRollback_refines [OF w act ip] by (auto simp: act_on_decision_def elim!: wp_mono)
next
  case DecisionWait
  then show ?thesis using w act lands_self [of ab w r] by (simp add: act_on_decision_def wp_simps)
next
  case DecisionPause
  show ?thesis
  proof (cases "ro_State r = StatePaused")
    case True
    then show ?thesis using DecisionPause w act lands_self [of ab w r] by (simp add: act_on_decision_def wp_simps)
  next
    case False
    then have "ro_State r = StateDeploying" using ip by (simp add: in_progress_def)
    from transition_refines [OF w act ro_step.Pause [OF act this]] False DecisionPause
    show ?thesis by (auto simp: act_on_decision_def elim!: wp_mono)
  qed
qed

text \<open>The part that \<open>Acknowledge\<close> and \<open>reconcileRollout\<close> share: decide, then act.\<close>

lemma decide_and_act_refines:
  assumes w: "arrives J ab reg V (ro_ID r) db w" and act: "is_active (fst (ab w)) r" and ip: "in_progress r"
    and ss: "db_stages (fst (ab w)) (ro_ID r) = Some ss"
    and ts: "ts = db_targets (fst (ab w)) (ro_ID r) (ro_CurrentStageID r)"
  shows "wp (evaluateStageDecision svc r ts (ss ! nat (ro_CurrentStageIndex r)))
    (\<lambda>x. wp (act_on_decision svc (fst x) (snd x) ss)
       (\<lambda>r' w'. arrives J ab reg V (ro_ID r) db w' \<and> lands ab reg r r' w') (\<lambda>_ w'. arrives J ab reg V (ro_ID r) db w'))
    (\<lambda>_ w'. arrives J ab reg V (ro_ID r) db w') w"
proof (rule wp_mono [OF evaluateStageDecision_refines [OF w act ip]], goal_cases)
  case (1 x w1)
  then have ev: "evaluated_from r (snd x)" by simp
  note f = evaluated_from_fields [OF ev]
  have "stage_passed (fst (ab w1)) (snd x) ss (fst (ros_now svc w))" if "fst x = DecisionPromote"
    using 1 that ts f by (simp add: stage_passed_def)
  then have "wp (act_on_decision svc (fst x) (snd x) ss)
      (\<lambda>r' w'. arrives J ab reg V (ro_ID (snd x)) db w' \<and> lands ab reg (snd x) r' w')
      (\<lambda>_ w'. arrives J ab reg V (ro_ID (snd x)) db w') w1"
    using 1 ip ss f by (intro act_on_decision_refines) auto
  then show ?case using f lands_id [of "snd x" r ab reg] by simp
qed

lemma reconcileRollout_refines:
  assumes w: "arrives J ab reg V (ro_ID r) db w" and act: "is_active (fst (ab w)) r"
  shows "wp (reconcileRollout svc r)
    (\<lambda>r' w'. arrives J ab reg V (ro_ID r) db w' \<and> lands ab reg r r' w') (\<lambda>_ w'. arrives J ab reg V (ro_ID r) db w') w"
  unfolding reconcileRollout_def wp_bind [of "st_ListStageTargets _ _ _"]
proof (rule wp_contract [OF ListStageTargets arrives_J [OF w]], goal_cases)
  case 1
  then show ?case using rows_ok_active(2) [OF arrives_rows [OF w] act] .
next
  case (2 ts w1)
  have w1: "arrives J ab reg V (ro_ID r) db w1" "is_active (fst (ab w1)) r" "ts = db_targets (fst (ab w1)) (ro_ID r) (ro_CurrentStageID r)"
    using arrives_same [OF w 2(1)] 2 act by simp_all
  show ?case
  proof (cases "ro_State r = StateRollingBack")
    case True
    then show ?thesis using reconcileRollback_refines [OF w1(1,2) True w1(3)] by simp
  next
    case False
    have ip: "in_progress r"
      using rows_ok_active(1) [OF arrives_rows [OF w] act] False act by (auto simp: row_ok_def in_progress_def is_active_def)
    have "wp (st_ListStages (ros_store svc) (ro_ID r))
        (\<lambda>ss w2. arrives J ab reg V (ro_ID r) db w2 \<and> ab w2 = ab w1 \<and> db_stages (fst (ab w1)) (ro_ID r) = Some ss) (\<lambda>_ w2. arrives J ab reg V (ro_ID r) db w2) w1"
      using arrives_same [OF w1(1)] arrives_J [OF w1(1)] by (intro wp_contract [OF ListStages]) auto
    then show ?thesis using False
    proof (simp add: wp_bind [of "st_ListStages _ _"], elim wp_mono, goal_cases)
      case (1 ss w2)
      then have "wp (evaluateStageDecision svc r ts (ss ! nat (ro_CurrentStageIndex r)))
          (\<lambda>x. wp (act_on_decision svc (fst x) (snd x) ss)
             (\<lambda>r' w'. arrives J ab reg V (ro_ID r) db w' \<and> lands ab reg r r' w') (\<lambda>_ w'. arrives J ab reg V (ro_ID r) db w'))
          (\<lambda>_ w'. arrives J ab reg V (ro_ID r) db w') w2"
        using w1 ip by (intro decide_and_act_refines) auto
      then show ?case using 1 by (auto simp: wp_simps split: prod.splits elim!: wp_mono)
    qed
  qed
next
  case (3 e w1)
  then show ?case using arrives_same [OF w] by simp
qed

lemma Acknowledge_refines:
  assumes w: "arrives J ab reg V (aki_RolloutID input) db w"
  shows "wp (ro_Acknowledge svc input) (\<lambda>_ w'. arrives J ab reg V (aki_RolloutID input) db w') (\<lambda>_ w'. arrives J ab reg V (aki_RolloutID input) db w') w"
  unfolding ro_Acknowledge_def wp_bind [of "st_GetRollout _ _"]
proof (rule wp_contract [OF GetRollout arrives_J [OF w] TrueI], goal_cases)
  case (1 r w1)
  have w1: "arrives J ab reg V (aki_RolloutID input) db w1" using arrives_same [OF w 1(1)] 1(2) by simp
  show ?case
  proof (cases "Terminal (ro_State r)")
    case True
    then show ?thesis using w1 by (simp add: wp_simps)
  next
    case False
    have id: "ro_ID r = aki_RolloutID input" using db_ids [OF 1(1), of "aki_RolloutID input" r] 1(2) by simp
    then have act: "is_active (fst (ab w1)) r" using 1(2) False by (simp add: is_active_def)
    have nf: "nul_free (ro_ID r)" using rows_ok_active(2) [OF arrives_rows [OF w1] act] .
    let ?sid = "ro_CurrentStageID r"
    have list: "wp (st_ListStageTargets (ros_store svc) (ro_ID r) ?sid)
        (\<lambda>ts w2. arrives J ab reg V (aki_RolloutID input) db w2 \<and> ab w2 = ab w1 \<and> ts = db_targets (fst (ab w1)) (ro_ID r) ?sid) (\<lambda>_ w2. arrives J ab reg V (aki_RolloutID input) db w2) w1"
      using arrives_same [OF w1] arrives_J [OF w1] nf by (intro wp_contract [OF ListStageTargets]) auto
    show ?thesis unfolding if_not_P [OF False] wp_bind [of "st_ListStageTargets _ _ _"]
    proof (rule wp_mono [OF list], goal_cases)
      case (1 ts0 w2)
      let ?w2 = "snd (ros_now svc w2)"
      have w2: "arrives J ab reg V (aki_RolloutID input) db ?w2" "ab ?w2 = ab w1" using now_arrives [of "aki_RolloutID input" db w2] 1 by simp_all
      obtain counted ts where ack: "ApplyAck ts0 \<lparr>ack_RolloutID = aki_RolloutID input, ack_StageID = aki_StageID input,
          ack_AgentID = aki_AgentID input, ack_VersionID = aki_VersionID input,
          ack_SnapshotRevision = aki_SnapshotRevision input, ack_AckedAt = fst (ros_now svc w2)\<rparr> = (counted, ts)"
        by (cases "ApplyAck ts0 \<lparr>ack_RolloutID = aki_RolloutID input, ack_StageID = aki_StageID input,
          ack_AgentID = aki_AgentID input, ack_VersionID = aki_VersionID input,
          ack_SnapshotRevision = aki_SnapshotRevision input, ack_AckedAt = fst (ros_now svc w2)\<rparr>")
      have save: "wp (if counted then st_ReplaceStageTargets (ros_store svc) (ro_ID r) ?sid ts else retM ())
          (\<lambda>_ w3. arrives J ab reg V (aki_RolloutID input) db w3 \<and> is_active (fst (ab w3)) r \<and> ts = db_targets (fst (ab w3)) (ro_ID r) ?sid)
          (\<lambda>_ w3. arrives J ab reg V (aki_RolloutID input) db w3) ?w2"
      proof (cases counted)
        case True
        then have "ro_step (fst (ab ?w2)) (db_set_targets (ro_ID r) ?sid ts (fst (ab ?w2)))"
          using ack 1 act w2(2) by (intro ro_step.Ack) auto
        then show ?thesis using True act w2 nf arrives_step [OF w2(1)] arrives_same [OF w2(1)] arrives_J [OF w2(1)]
          by (auto simp: is_active_def db_set_targets_def intro!: wp_contract [OF ReplaceStageTargets])
      next
        case False
        then have "ts = ts0" using ack ApplyAck_not_counted [of ts0 _ ts] by simp
        then show ?thesis using False 1 act w2 by (simp add: wp_simps)
      qed
      have stages: "wp (st_ListStages (ros_store svc) (ro_ID r))
          (\<lambda>ss w4. arrives J ab reg V (aki_RolloutID input) db w4 \<and> ab w4 = ab w3 \<and> db_stages (fst (ab w3)) (ro_ID r) = Some ss) (\<lambda>_ w4. arrives J ab reg V (aki_RolloutID input) db w4) w3"
        if "arrives J ab reg V (aki_RolloutID input) db w3" for w3
        using arrives_same [OF that] arrives_J [OF that] by (intro wp_contract [OF ListStages]) auto
      show ?case unfolding wp_bind [of "effM _"] wp_eff ack prod.case wp_bind [of "if counted then _ else _"]
      proof (rule wp_mono [OF save], goal_cases)
        case (1 x w3)
        show ?case unfolding wp_bind [of "st_ListStages _ _"]
        proof (rule wp_mono [OF stages], goal_cases)
          case (2 ss w4)
          have w4: "arrives J ab reg V (ro_ID r) db w4" "is_active (fst (ab w4)) r" "ts = db_targets (fst (ab w4)) (ro_ID r) ?sid"
            "db_stages (fst (ab w4)) (ro_ID r) = Some ss" using 1 2 id by simp_all
          show ?case
          proof (cases "ro_State r = StateRollingBack")
            case True
            then show ?thesis using reconcileRollback_refines [OF w4(1,2) True w4(3)]
              by (auto simp: wp_simps id elim!: wp_mono)
          next
            case nrb: False
            have ip: "in_progress r" using rows_ok_active(1) [OF arrives_rows [OF w4(1)] w4(2)] nrb False
              by (auto simp: row_ok_def in_progress_def)
            show ?thesis using nrb decide_and_act_refines [OF w4(1,2) ip w4(4,3)] w4(1)
              by (auto simp: wp_simps id split: prod.splits elim!: wp_mono)
          qed
        qed (use 1 in simp_all)
      qed simp
    qed simp
  qed
qed (use arrives_same [OF w] in simp)

text \<open>Reading a component that the rollouts do not depend on.\<close>

lemma wp_read:
  assumes "contract J ab (\<lambda>_. True) f (\<lambda>d _ d'. d' = d)" and "J w"
    and "\<And>a w'. J w' \<Longrightarrow> ab w' = ab w \<Longrightarrow> Q a w'" and "\<And>e w'. J w' \<Longrightarrow> ab w' = ab w \<Longrightarrow> E e w'"
  shows "wp f Q E w"
  by (rule wp_contract [OF assms(1,2) TrueI]) (use assms(3,4) in auto)

lemma create_and_activate_refines:
  assumes ok: "plane_ok (fst (ab w)) (reg (snd (ab w)))" and J: "J w" and fresh: "fresh_rollout r ss"
    and lk: "linked (reg (snd (ab w))) r"
  shows "wp (bindM (st_CreateRollout (ros_store svc) r ss) (\<lambda>_. bindM (activateStage svc r (ss ! 0) services) (\<lambda>ts. retM (r, ts))))
    (\<lambda>x w'. arrives J ab reg V (ro_ID r) (ab w) w' \<and> db_rollouts (fst (ab w')) (ro_ID r) = Some r \<and> fst x = r)
    (\<lambda>_ w'. arrives J ab reg V (ro_ID r) (ab w) w') w"
  unfolding wp_bind
proof (rule wp_contract [OF CreateRollout J])
  show "new_ok r" using fresh by (simp add: fresh_rollout_def)
  fix a w' assume w': "J w'" and new: "db_rollouts (fst (ab w)) (ro_ID r) = None \<and> (\<forall>r'. is_active (fst (ab w)) r' \<longrightarrow> \<not> same_slot r r') \<and>
      ab w' = (db_create r ss (fst (ab w)), snd (ab w))"
  have step: "ro_step (fst (ab w)) (fst (ab w'))" using new ro_step.Create [OF fresh] by simp
  then have "arrives J ab reg V (ro_ID r) (ab w) w'"
  proof -
    have "rollouts_ok (fst (ab w'))" using rollouts_ok_step [OF step] ok by (simp add: plane_ok_def)
    moreover have "all_linked (fst (ab w')) (reg (snd (ab w')))"
      using new ok lk by (auto simp: plane_ok_def all_linked_def db_create_def db_put_def)
    ultimately show ?thesis using w' new ok step by (auto simp: arrives_def plane_ok_def db_create_def db_put_def)
  qed
  moreover have "is_active (fst (ab w')) r" using new fresh by (simp add: is_active_def db_create_def db_put_def fresh_rollout_def)
  ultimately have "wp (activateStage svc r (ss ! 0) services)
      (\<lambda>_ w''. arrives J ab reg V (ro_ID r) (ab w) w'' \<and> db_rollouts (fst (ab w'')) (ro_ID r) = Some r)
      (\<lambda>_ w''. arrives J ab reg V (ro_ID r) (ab w) w'' \<and> db_rollouts (fst (ab w'')) (ro_ID r) = Some r) w'"
    using fresh by (intro activateStage_refines) (auto simp: fresh_rollout_def)
  then show "wp (activateStage svc r (ss ! 0) services) (\<lambda>ts. wp (retM (r, ts))
      (\<lambda>x w'. arrives J ab reg V (ro_ID r) (ab w) w' \<and> db_rollouts (fst (ab w')) (ro_ID r) = Some r \<and> fst x = r)
      (\<lambda>_ w'. arrives J ab reg V (ro_ID r) (ab w) w')) (\<lambda>_ w'. arrives J ab reg V (ro_ID r) (ab w) w') w'"
    by (auto simp: wp_simps elim!: wp_mono)
qed (use ok in \<open>simp add: arrives_def\<close>)

lemma CreateRollout_refines:
  assumes ok: "plane_ok (fst (ab w)) (reg (snd (ab w)))" and J: "J w"
  shows "wp (ro_CreateRollout svc input)
    (\<lambda>x w'. advances J ab reg V (ab w) w' \<and> db_rollouts (fst (ab w')) (ro_ID (fst x)) = Some (fst x) \<and>
       ro_State (fst x) = StateDeploying)
    (\<lambda>_ w'. advances J ab reg V (ab w) w') w" (is "wp _ ?Q ?E w")
proof -
  let ?ss = "create_stages svc input" and ?i = "cri_TenantID input" and ?k = "cri_Key input"
  let ?reg = "reg (snd (ab w))"
  have err: "?E e w1" if "J w1" "ab w1 = ab w" for e w1 using that ok by (simp add: advances_def)
  have last: "wp (bindM (st_CreateRollout (ros_store svc) r ?ss) (\<lambda>_. bindM (activateStage svc r (?ss ! 0) (cri_TargetServices input)) (\<lambda>ts. retM (r, ts))))
      ?Q ?E w1" if "J w1" "ab w1 = ab w" "fresh_rollout r ?ss" "linked ?reg r" for r w1
    by (rule wp_mono [OF create_and_activate_refines [OF _ that(1,3)]])
      (use ok that in \<open>auto simp: fresh_rollout_def dest!: arrives_advances\<close>)
  have nf: "nul_free (fst (ros_newID svc ''rollout'' w1))" for w1 by (rule id_nul_free) (simp add: nul_free_def nul_def)
  show ?thesis
  proof (cases "?i = [] \<or> ?k = [] \<or> Environment_Validate (cri_Environment input) \<noteq> None \<or>
      cri_CandidateVersionNumber input < 1 \<or> ValidateStagePlan ?ss \<noteq> None \<or> guardrail_checks (cri_Guardrails input) \<noteq> None")
    case True
    then show ?thesis using J err by (auto simp: ro_CreateRollout_def wp_simps Let_def split: option.splits)
  next
    case False
    then have v: "valid_env (cri_Environment input)" "ValidateStagePlan ?ss = None" by (simp_all add: valid_env_def)
    have fresh: "fresh_rollout (new_rollout input ?ss x c st t (fst (ros_newID svc ''rollout'' w1))) ?ss"
      if "env_StableVersionID st \<noteq> []" "env_StableVersionID st \<noteq> ver_ID c" for x c st t w1
      using that v nf by (simp add: fresh_rollout_def new_ok_def new_rollout_def)
    have link: "linked ?reg (new_rollout input ?ss x c st t n)"
      if "reg_defs ?reg (definitionKey ?i ?k) = Some x" "c \<in> set (reg_versions ?reg (def_ID x))"
        "reg_states ?reg (def_ID x) (cri_Environment input) = Some st" for x c st t n
      using that ok by (auto simp: linked_def new_rollout_def plane_ok_def pointers_ok_def)
    have env: "wp (bindM (rg_GetEnvironmentState (ros_registry svc) ?i ?k (cri_Environment input)) (\<lambda>state.
          if env_StableVersionID state = [] then
            raiseM (Errorf ''%w: stable version is required'' [FW (Sentinel rollout_ErrInvalidInput)])
          else if env_StableVersionID state = ver_ID c then
            raiseM (Errorf ''%w: candidate is already stable'' [FW (Sentinel rollout_ErrConflict)])
          else
            bindM (effM (ros_now svc)) (\<lambda>now.
            bindM (effM (ros_newID svc ''rollout'')) (\<lambda>newID.
            let r = new_rollout input ?ss x c state now newID in
            bindM (st_CreateRollout (ros_store svc) r ?ss) (\<lambda>_.
            bindM (activateStage svc r (?ss ! 0) (cri_TargetServices input)) (\<lambda>targets.
            retM (r, targets))))))) ?Q ?E w2"
      if w2: "J w2" "ab w2 = ab w" and c: "reg_defs ?reg (definitionKey ?i ?k) = Some x" "c \<in> set (reg_versions ?reg (def_ID x))"
      for w2 x c
      unfolding wp_bind [of "rg_GetEnvironmentState _ _ _ _"]
    proof (rule wp_contract [OF GetEnvironmentState w2(1) TrueI], goal_cases)
      case (1 st w3)
      then have w3: "J w3" "ab w3 = ab w" "reg_states ?reg (def_ID x) (cri_Environment input) = Some st" using w2 c by auto
      then show ?case using err last [OF _ _ fresh link [OF c w3(3)]]
        by (simp add: wp_raise wp_bind [of "effM _"] wp_eff Let_def env_simps)
    qed (use w2 err in simp)
    have find: "c \<in> set vs" if "findVersionByNumber vs n = Some c" for vs n c
      using that by (induction vs n rule: findVersionByNumber.induct) (auto split: if_splits)
    have vers: "wp (rg_ListVersions (ros_registry svc) ?i ?k)
        (\<lambda>vs. wp (bindM (case findVersionByNumber vs (cri_CandidateVersionNumber input) of
                   None \<Rightarrow> raiseM (Errorf ''%w: candidate version'' [FW (Sentinel rollout_ErrNotFound)])
                 | Some v \<Rightarrow> retM v) (\<lambda>c. bindM (rg_GetEnvironmentState (ros_registry svc) ?i ?k (cri_Environment input)) (\<lambda>state.
          if env_StableVersionID state = [] then
            raiseM (Errorf ''%w: stable version is required'' [FW (Sentinel rollout_ErrInvalidInput)])
          else if env_StableVersionID state = ver_ID c then
            raiseM (Errorf ''%w: candidate is already stable'' [FW (Sentinel rollout_ErrConflict)])
          else
            bindM (effM (ros_now svc)) (\<lambda>now.
            bindM (effM (ros_newID svc ''rollout'')) (\<lambda>newID.
            let r = new_rollout input ?ss x c state now newID in
            bindM (st_CreateRollout (ros_store svc) r ?ss) (\<lambda>_.
            bindM (activateStage svc r (?ss ! 0) (cri_TargetServices input)) (\<lambda>targets.
            retM (r, targets)))))))) ?Q ?E) ?E w1"
      if w1: "J w1" "ab w1 = ab w" and x: "reg_defs ?reg (definitionKey ?i ?k) = Some x" for w1 x
    proof (rule wp_contract [OF ListVersions w1(1) TrueI], goal_cases)
      case (1 vs w2)
      then have w2: "J w2" "ab w2 = ab w" "vs = reg_versions ?reg (def_ID x)" using w1 x by auto
      show ?case
      proof (cases "findVersionByNumber vs (cri_CandidateVersionNumber input)")
        case None
        then show ?thesis using err w2 by (simp add: wp_raise)
      next
        case (Some c)
        then show ?thesis using env [OF w2(1,2) x, of c] find [OF Some] w2(3) by simp
      qed
    qed (use w1 err in simp)
    show ?thesis using False J err vers
      by (auto simp: ro_CreateRollout_def wp_check wp_bind [of "checkM _"] wp_bind [of "rg_GetDefinition _ _ _"]
          wp_bind [of "rg_ListVersions _ _ _"] Let_def [of "create_stages _ _"] intro!: wp_contract [OF GetDefinition])
  qed
qed

lemma arrives_start: "J w \<Longrightarrow> plane_ok (fst (ab w)) (reg (snd (ab w))) \<Longrightarrow> arrives J ab reg V i (ab w) w"
  by (simp add: arrives_def)

lemma advances_trans:
  "advances J ab reg V d w1 \<Longrightarrow> advances J ab reg V (ab w1) w2 \<Longrightarrow> advances J ab reg V d w2"
  using reg_ok [of w1] registry_grows_trans by (auto simp: advances_def)

lemma reconcile_loop_refines:
  assumes "J w" and "plane_ok (fst (ab w)) (reg (snd (ab w)))" and "\<forall>r \<in> set rs. is_active (fst (ab w)) r" and "distinct (map ro_ID rs)"
  shows "wp (reconcile_loop svc rs) (\<lambda>_ w'. advances J ab reg V (ab w) w') (\<lambda>_ w'. advances J ab reg V (ab w) w') w"
  using assms
proof (induction rs arbitrary: w)
  case Nil
  then show ?case by (simp add: wp_simps advances_def)
next
  case (Cons r rs)
  have act: "is_active (fst (ab w)) r" using Cons.prems by simp
  then have "\<not> Terminal (ro_State r)" by (simp add: is_active_def)
  moreover have "wp (reconcileRollout svc r)
      (\<lambda>_. wp (reconcile_loop svc rs) (\<lambda>_ w'. advances J ab reg V (ab w) w') (\<lambda>_ w'. advances J ab reg V (ab w) w'))
      (\<lambda>_ w'. advances J ab reg V (ab w) w') w"
  proof (rule wp_mono [OF reconcileRollout_refines [OF arrives_start act]], goal_cases)
    case (3 x w1)
    have "is_active (fst (ab w1)) q" if "q \<in> set rs" for q
    proof -
      have "is_active (fst (ab w)) q" "ro_ID q \<noteq> ro_ID r" using that Cons.prems(3,4) by (auto simp: rev_image_eqI)
      then show ?thesis using 3 by (simp add: arrives_def is_active_def)
    qed
    then have "wp (reconcile_loop svc rs) (\<lambda>_ w'. advances J ab reg V (ab w1) w') (\<lambda>_ w'. advances J ab reg V (ab w1) w') w1"
      using Cons.prems(4) 3 by (intro Cons.IH) (auto simp: arrives_def)
    moreover have "advances J ab reg V (ab w) w1" using arrives_advances [OF conjunct1 [OF 3]] .
    ultimately show ?case by (elim wp_mono) (blast intro: advances_trans)+
  qed (use Cons.prems in \<open>auto intro: arrives_advances [of _ _ _ _ _ "ab w"]\<close>)
  ultimately show ?case by (simp add: wp_bind)
qed

lemma ReconcileActive_refines:
  assumes "J w" and "plane_ok (fst (ab w)) (reg (snd (ab w)))"
  shows "wp (ro_ReconcileActive svc) (\<lambda>_ w'. advances J ab reg V (ab w) w') (\<lambda>_ w'. advances J ab reg V (ab w) w') w"
  unfolding ro_ReconcileActive_def wp_bind
proof (rule wp_contract [OF ListActiveRollouts assms(1) TrueI], goal_cases)
  case (1 rs w1)
  then show ?case using reconcile_loop_refines [of w1 rs] assms(2) by auto
qed (use assms in \<open>simp add: advances_def\<close>)

text \<open>The reading operations change nothing.\<close>

lemma GetRollout_spec:
  "contract J ab (\<lambda>_. True) (ro_GetRollout svc i)
     (\<lambda>d x d'. d' = d \<and> db_rollouts (fst d) i = Some (fst x) \<and>
        fst (snd x) = db_targets (fst d) i (ro_CurrentStageID (fst x)) \<and> snd (snd x) = AcknowledgementCoverage (fst (snd x)))"
proof (rule contractI)
  fix w assume J: "J w"
  have nf: "ro_ID r = i \<and> nul_free i" if "J w'" "db_rollouts (fst (ab w')) i = Some r" for w' r
    using db_ids [OF that] by simp
  show "wp (ro_GetRollout svc i) (\<lambda>x w'. J w' \<and> ab w' = ab w \<and> db_rollouts (fst (ab w)) i = Some (fst x) \<and>
        fst (snd x) = db_targets (fst (ab w)) i (ro_CurrentStageID (fst x)) \<and> snd (snd x) = AcknowledgementCoverage (fst (snd x)))
      (\<lambda>_ w'. J w' \<and> ab w' = ab w) w"
    unfolding ro_GetRollout_def wp_simps using nf [OF J]
    by (intro wp_contract [OF GetRollout J TrueI]) (auto intro!: wp_contract [OF ListStageTargets])
qed

lemma ActiveRollout_spec:
  "contract J ab (\<lambda>_. valid_env e) (ro_ActiveRollout svc c e)
     (\<lambda>d x d'. d' = d \<and> is_active (fst d) (fst x) \<and> ro_ConfigDefinitionID (fst x) = c \<and> ro_Environment (fst x) = e \<and>
        snd x = db_targets (fst d) (ro_ID (fst x)) (ro_CurrentStageID (fst x)))"
proof (rule contractI)
  fix w assume J: "J w" and e: "valid_env e"
  have nf: "nul_free (ro_ID r)" if "is_active (fst (ab w)) r" for r
    using db_ids [OF J, of "ro_ID r" r] that by (simp add: is_active_def)
  show "wp (ro_ActiveRollout svc c e) (\<lambda>x w'. J w' \<and> ab w' = ab w \<and> is_active (fst (ab w)) (fst x) \<and>
        ro_ConfigDefinitionID (fst x) = c \<and> ro_Environment (fst x) = e \<and>
        snd x = db_targets (fst (ab w)) (ro_ID (fst x)) (ro_CurrentStageID (fst x)))
      (\<lambda>_ w'. J w' \<and> ab w' = ab w) w"
    unfolding ro_ActiveRollout_def wp_simps using nf
    by (intro wp_contract [OF GetActiveRollout J e]) (auto intro!: wp_contract [OF ListStageTargets])
qed

end

end
