(* ===== verification/Agent_Registry.thy ===== *)
theory Agent_Registry
  imports Config_Registry
begin

section \<open>internal/agentregistry: agents, credentials, acknowledgements\<close>

text \<open>
  \<open>ag_Store\<close> is the interface \<open>agentregistry.Store\<close>, \<open>ag_Service\<close> and the functions \<open>ag_...\<close>
  are \<open>service.go\<close>, \<open>ag_MemoryStore\<close> and \<open>ag_mem_...\<close> are \<open>memory_store.go\<close>. The locale
  \<open>agent_store\<close> is the contract of a store over the abstract state \<open>agents_db\<close>; the lemmas of
  \<open>agent_registry\<close> are what the service guarantees over any such store.
\<close>

subsection \<open>service.go\<close>

record 'w ag_Store =
  as_SaveAgent :: "Agent \<Rightarrow> ('w, unit) M"
  as_GetAgent :: "string \<Rightarrow> ('w, Agent) M"
  as_ListAgents :: "('w, Agent list) M"
  as_SaveCredential :: "AgentCredential \<Rightarrow> ('w, unit) M"
  as_GetCredential :: "string \<Rightarrow> ('w, AgentCredential) M"
  as_TouchHeartbeat :: "string \<Rightarrow> go_time \<Rightarrow> ('w, Agent) M"
  as_SaveAcknowledgement :: "AgentAcknowledgement \<Rightarrow> ('w, unit) M"

record 'w ag_Service =
  ags_store :: "'w ag_Store"
  ags_bootstrapToken :: string
  ags_credentialTTL :: duration
  ags_now :: "'w \<Rightarrow> go_time \<times> 'w"
  ags_newID :: "string \<Rightarrow> 'w \<Rightarrow> string \<times> 'w"
  ags_newToken :: "'w \<Rightarrow> string \<times> 'w"

text \<open>The constructor: a zero lifetime becomes fifteen minutes, a token is an identifier with prefix \<open>cred\<close>.\<close>

definition ag_NewService ::
  "'w ag_Store \<Rightarrow> string \<Rightarrow> duration \<Rightarrow> ('w \<Rightarrow> go_time \<times> 'w) \<Rightarrow> (string \<Rightarrow> 'w \<Rightarrow> string \<times> 'w) \<Rightarrow> 'w ag_Service" where
  "ag_NewService store bootstrapToken credentialTTL now newID =
     \<lparr>ags_store = store, ags_bootstrapToken = bootstrapToken,
      ags_credentialTTL = (if credentialTTL = 0 then 15 * Minute else credentialTTL),
      ags_now = now, ags_newID = newID, ags_newToken = newID ''cred''\<rparr>"

record RegisterInput =
  rgi_BootstrapToken :: string
  rgi_ID :: string
  rgi_Service :: string
  rgi_Environment :: Environment
  rgi_Zone :: string
  rgi_Instance :: string
  rgi_Labels :: "(string, string) gomap"

record RegisterResult =
  rgr_Agent :: Agent
  rgr_Credential :: AgentCredential

definition cloneLabels :: "(string, string) gomap \<Rightarrow> (string, string) gomap" where
  "cloneLabels labels = (if length labels = 0 then [] else map (\<lambda>(key, value). (key, value)) labels)"

lemma cloneLabels_id [simp]: "cloneLabels ls = ls"
  by (simp add: cloneLabels_def)

definition ag_Register :: "'w ag_Service \<Rightarrow> RegisterInput \<Rightarrow> ('w, RegisterResult) M" where
  "ag_Register svc input =
     (if ags_bootstrapToken svc \<noteq> [] \<and> rgi_BootstrapToken input \<noteq> ags_bootstrapToken svc then
        raiseM (Sentinel agentregistry_ErrUnauthorized)
      else if TrimSpace (rgi_Service input) = [] then
        raiseM (Errorf ''%w: service is required'' [FW (Sentinel agentregistry_ErrInvalidInput)])
      else if TrimSpace (rgi_Instance input) = [] then
        raiseM (Errorf ''%w: instance is required'' [FW (Sentinel agentregistry_ErrInvalidInput)])
      else
        bindM (checkM (map_option (\<lambda>e. Errorf ''%w: %v'' [FW (Sentinel agentregistry_ErrInvalidInput), FV e])
                 (Environment_Validate (rgi_Environment input)))) (\<lambda>_.
        bindM (effM (ags_now svc)) (\<lambda>now.
        bindM (if rgi_ID input = [] then effM (ags_newID svc ''agent'') else retM (rgi_ID input)) (\<lambda>agentID.
        let agent = \<lparr>agent_ID = agentID, agent_Service = rgi_Service input,
                     agent_Environment = rgi_Environment input, agent_Zone = rgi_Zone input,
                     agent_Instance = rgi_Instance input, agent_Labels = cloneLabels (rgi_Labels input),
                     agent_RegisteredAt = now, agent_LastSeenAt = now\<rparr> in
        bindM (effM (ags_newToken svc)) (\<lambda>token.
        let credential = \<lparr>cred_Token = token, cred_AgentID = agent_ID agent,
                          cred_ExpiresAt = now + ags_credentialTTL svc, cred_CreatedAt = now\<rparr> in
        bindM (as_SaveAgent (ags_store svc) agent) (\<lambda>_.
        bindM (as_SaveCredential (ags_store svc) credential) (\<lambda>_.
        retM \<lparr>rgr_Agent = agent, rgr_Credential = credential\<rparr>)))))))"

definition ag_Verify :: "'w ag_Service \<Rightarrow> string \<Rightarrow> ('w, string) M" where
  "ag_Verify svc token =
     (if TrimSpace token = [] then raiseM (Sentinel agentregistry_ErrUnauthorized)
      else tryM (as_GetCredential (ags_store svc) token)
        (\<lambda>err. if errors_Is err agentregistry_ErrNotFound then raiseM (Sentinel agentregistry_ErrUnauthorized)
               else raiseM err)
        (\<lambda>credential.
           bindM (effM (ags_now svc)) (\<lambda>now.
           if \<not> now < cred_ExpiresAt credential then raiseM (Sentinel agentregistry_ErrExpiredCredential)
           else retM (cred_AgentID credential))))"

definition ag_ListAgents :: "'w ag_Service \<Rightarrow> ('w, Agent list) M" where
  "ag_ListAgents svc = as_ListAgents (ags_store svc)"

definition ag_GetAgent :: "'w ag_Service \<Rightarrow> string \<Rightarrow> ('w, Agent) M" where
  "ag_GetAgent svc agentID = as_GetAgent (ags_store svc) agentID"

definition ag_Heartbeat :: "'w ag_Service \<Rightarrow> string \<Rightarrow> string \<Rightarrow> ('w, Agent) M" where
  "ag_Heartbeat svc agentID token =
     bindM (ag_Verify svc token) (\<lambda>subject.
     if subject \<noteq> agentID then raiseM (Sentinel agentregistry_ErrForbidden)
     else bindM (effM (ags_now svc)) (\<lambda>now. as_TouchHeartbeat (ags_store svc) agentID now))"

record ag_AcknowledgeInput =
  gai_AgentID :: string
  gai_Token :: string
  gai_ConfigDefinitionID :: string
  gai_VersionID :: string
  gai_SnapshotRevision :: int

definition ag_Acknowledge :: "'w ag_Service \<Rightarrow> ag_AcknowledgeInput \<Rightarrow> ('w, AgentAcknowledgement) M" where
  "ag_Acknowledge svc input =
     bindM (ag_Verify svc (gai_Token input)) (\<lambda>subject.
     if subject \<noteq> gai_AgentID input then raiseM (Sentinel agentregistry_ErrForbidden)
     else if gai_ConfigDefinitionID input = [] \<or> gai_VersionID input = [] \<or> gai_SnapshotRevision input < 1 then
       raiseM (Errorf ''%w: acknowledgement is incomplete'' [FW (Sentinel agentregistry_ErrInvalidInput)])
     else
       bindM (effM (ags_newID svc ''ack'')) (\<lambda>newID.
       bindM (effM (ags_now svc)) (\<lambda>now.
       let ack = \<lparr>aack_ID = newID, aack_AgentID = gai_AgentID input,
                  aack_ConfigDefinitionID = gai_ConfigDefinitionID input, aack_VersionID = gai_VersionID input,
                  aack_SnapshotRevision = gai_SnapshotRevision input, aack_Counted = True, aack_CreatedAt = now\<rparr> in
       bindM (as_SaveAcknowledgement (ags_store svc) ack) (\<lambda>_. retM ack))))"

subsection \<open>memory_store.go\<close>

record ag_MemoryStore =
  ams_agents :: "(string, Agent) gomap"
  ams_credentials :: "(string, AgentCredential) gomap"
  ams_acknowledgements :: "(string, AgentAcknowledgement) gomap"

definition ag_NewMemoryStore :: ag_MemoryStore where
  "ag_NewMemoryStore = \<lparr>ams_agents = [], ams_credentials = [], ams_acknowledgements = []\<rparr>"

definition clone_agent :: "Agent \<Rightarrow> Agent" where
  "clone_agent a = a\<lparr>agent_Labels := cloneLabels (agent_Labels a)\<rparr>"

lemma clone_agent_id [simp]: "clone_agent = (\<lambda>a. a)"
  by (simp add: clone_agent_def fun_eq_iff)

definition ag_mem_SaveAgent :: "error option \<Rightarrow> Agent \<Rightarrow> (ag_MemoryStore, unit) M" where
  "ag_mem_SaveAgent ctxErr agent s =
     (case ctxErr of Some e \<Rightarrow> (Inl e, s) | None \<Rightarrow>
      (Inr (), s\<lparr>ams_agents := gomap_set (agent_ID agent) (clone_agent agent) (ams_agents s)\<rparr>))"

definition ag_mem_GetAgent :: "error option \<Rightarrow> string \<Rightarrow> (ag_MemoryStore, Agent) M" where
  "ag_mem_GetAgent ctxErr agentID s =
     (case ctxErr of Some e \<Rightarrow> (Inl e, s) | None \<Rightarrow>
      case gomap_get (ams_agents s) agentID of
        None \<Rightarrow> (Inl (Errorf ''%w: agent %q'' [FW (Sentinel agentregistry_ErrNotFound), FQ agentID]), s)
      | Some agent \<Rightarrow> (Inr (clone_agent agent), s))"

definition ag_mem_ListAgents :: "error option \<Rightarrow> (ag_MemoryStore, Agent list) M" where
  "ag_mem_ListAgents ctxErr s =
     (case ctxErr of Some e \<Rightarrow> (Inl e, s) | None \<Rightarrow>
      (Inr (sort_key agent_ID (map clone_agent (map snd (ams_agents s)))), s))"

definition ag_mem_SaveCredential :: "error option \<Rightarrow> AgentCredential \<Rightarrow> (ag_MemoryStore, unit) M" where
  "ag_mem_SaveCredential ctxErr credential s =
     (case ctxErr of Some e \<Rightarrow> (Inl e, s) | None \<Rightarrow>
      (Inr (), s\<lparr>ams_credentials := gomap_set (cred_Token credential) credential (ams_credentials s)\<rparr>))"

definition ag_mem_GetCredential :: "error option \<Rightarrow> string \<Rightarrow> (ag_MemoryStore, AgentCredential) M" where
  "ag_mem_GetCredential ctxErr token s =
     (case ctxErr of Some e \<Rightarrow> (Inl e, s) | None \<Rightarrow>
      case gomap_get (ams_credentials s) token of
        None \<Rightarrow> (Inl (Errorf ''%w: credential'' [FW (Sentinel agentregistry_ErrNotFound)]), s)
      | Some credential \<Rightarrow> (Inr credential, s))"

definition ag_mem_TouchHeartbeat :: "error option \<Rightarrow> string \<Rightarrow> go_time \<Rightarrow> (ag_MemoryStore, Agent) M" where
  "ag_mem_TouchHeartbeat ctxErr agentID seenAt s =
     (case ctxErr of Some e \<Rightarrow> (Inl e, s) | None \<Rightarrow>
      case gomap_get (ams_agents s) agentID of
        None \<Rightarrow> (Inl (Errorf ''%w: agent %q'' [FW (Sentinel agentregistry_ErrNotFound), FQ agentID]), s)
      | Some agent \<Rightarrow>
          let agent = agent\<lparr>agent_LastSeenAt := seenAt\<rparr> in
          (Inr (clone_agent agent), s\<lparr>ams_agents := gomap_set agentID agent (ams_agents s)\<rparr>))"

definition ag_mem_SaveAcknowledgement :: "error option \<Rightarrow> AgentAcknowledgement \<Rightarrow> (ag_MemoryStore, unit) M" where
  "ag_mem_SaveAcknowledgement ctxErr ack s =
     (case ctxErr of Some e \<Rightarrow> (Inl e, s) | None \<Rightarrow>
      (Inr (), s\<lparr>ams_acknowledgements := gomap_set (aack_ID ack) ack (ams_acknowledgements s)\<rparr>))"

subsection \<open>The contract of a store\<close>

record agents_db =
  adb_agents :: "string \<rightharpoonup> Agent"
  adb_credentials :: "string \<rightharpoonup> AgentCredential"
  adb_acks :: "string \<rightharpoonup> AgentAcknowledgement"

definition agents_ok :: "agents_db \<Rightarrow> bool" where
  "agents_ok db \<longleftrightarrow> (\<forall>i a. adb_agents db i = Some a \<longrightarrow> agent_ID a = i) \<and>
     (\<forall>t c. adb_credentials db t = Some c \<longrightarrow> cred_Token c = t)"

locale agent_store =
  fixes S :: "'w ag_Store" and J :: "'w \<Rightarrow> bool" and ab :: "'w \<Rightarrow> agents_db \<times> 'r"
  assumes SaveAgent: "contract J ab (\<lambda>_. True) (as_SaveAgent S a)
      (\<lambda>d _ d'. d' = ((fst d)\<lparr>adb_agents := (adb_agents (fst d))(agent_ID a \<mapsto> a)\<rparr>, snd d))"
    and GetAgent: "contract J ab (\<lambda>_. True) (as_GetAgent S i) (\<lambda>d a d'. d' = d \<and> adb_agents (fst d) i = Some a)"
    and ListAgents: "contract J ab (\<lambda>_. True) (as_ListAgents S)
      (\<lambda>d as d'. d' = d \<and> sorted (map agent_ID as) \<and> distinct (map agent_ID as) \<and> set as = ran (adb_agents (fst d)))"
    and SaveCredential: "contract J ab (\<lambda>_. True) (as_SaveCredential S c)
      (\<lambda>d _ d'. d' = ((fst d)\<lparr>adb_credentials := (adb_credentials (fst d))(cred_Token c \<mapsto> c)\<rparr>, snd d))"
    and GetCredential: "contract J ab (\<lambda>_. True) (as_GetCredential S t)
      (\<lambda>d x d'. d' = d \<and> adb_credentials (fst d) t = Some x)"
    and TouchHeartbeat: "contract J ab (\<lambda>_. True) (as_TouchHeartbeat S i seen)
      (\<lambda>d a d'. \<exists>a0. adb_agents (fst d) i = Some a0 \<and> a = a0\<lparr>agent_LastSeenAt := seen\<rparr> \<and>
         d' = ((fst d)\<lparr>adb_agents := (adb_agents (fst d))(i \<mapsto> a)\<rparr>, snd d))"
    and SaveAcknowledgement: "contract J ab (\<lambda>_. True) (as_SaveAcknowledgement S k)
      (\<lambda>d _ d'. d' = ((fst d)\<lparr>adb_acks := (adb_acks (fst d))(aack_ID k \<mapsto> k)\<rparr>, snd d))"
    and store_ok: "J w \<Longrightarrow> agents_ok (fst (ab w))"

subsection \<open>The in-memory store keeps the contract\<close>

definition ag_abs :: "ag_MemoryStore \<Rightarrow> agents_db" where
  "ag_abs s = \<lparr>adb_agents = gomap_get (ams_agents s), adb_credentials = gomap_get (ams_credentials s),
     adb_acks = gomap_get (ams_acknowledgements s)\<rparr>"

definition ag_mem_inv :: "ag_MemoryStore \<Rightarrow> bool" where
  "ag_mem_inv s \<longleftrightarrow> gomap_ok (ams_agents s) \<and> agents_ok (ag_abs s)"

lemma ag_mem_init: "ag_mem_inv ag_NewMemoryStore"
  by (simp add: ag_mem_inv_def agents_ok_def ag_abs_def ag_NewMemoryStore_def)

lemma contract_ag_mem:
  assumes "\<And>s a s'. ag_mem_inv s \<Longrightarrow> P (ag_abs s) \<Longrightarrow> f s = (Inr a, s') \<Longrightarrow> ag_mem_inv s' \<and> R (ag_abs s) a (ag_abs s')"
    and "\<And>s e s'. f s = (Inl e, s') \<Longrightarrow> s' = s"
  shows "contract ag_mem_inv ag_abs P f R"
  by (rule contractI, rule wpI) (use assms in blast)+

lemmas ag_state_defs = ag_mem_inv_def agents_ok_def ag_abs_def

lemma ag_mem_SaveAgent_contract:
  "contract ag_mem_inv ag_abs (\<lambda>_. True) (ag_mem_SaveAgent c a)
     (\<lambda>d _ d'. d' = d\<lparr>adb_agents := (adb_agents d)(agent_ID a \<mapsto> a)\<rparr>)"
  by (rule contract_ag_mem) (auto simp: ag_mem_SaveAgent_def ag_state_defs fun_eq_iff split: option.splits if_splits)

lemma ag_mem_GetAgent_contract:
  "contract ag_mem_inv ag_abs (\<lambda>_. True) (ag_mem_GetAgent c i) (\<lambda>d a d'. d' = d \<and> adb_agents d i = Some a)"
  by (rule contract_ag_mem) (auto simp: ag_mem_GetAgent_def ag_abs_def split: option.splits)

lemma ag_mem_ListAgents_contract:
  "contract ag_mem_inv ag_abs (\<lambda>_. True) (ag_mem_ListAgents c)
     (\<lambda>d as d'. d' = d \<and> sorted (map agent_ID as) \<and> distinct (map agent_ID as) \<and> set as = ran (adb_agents d))"
proof (rule contract_ag_mem)
  fix s as s' assume J: "ag_mem_inv s" and run: "ag_mem_ListAgents c s = (Inr as, s')"
  have as: "as = sort_key agent_ID (map snd (ams_agents s))" and s': "s' = s"
    using run by (auto simp: ag_mem_ListAgents_def split: option.splits)
  have ok: "gomap_ok (ams_agents s)" using J by (simp add: ag_mem_inv_def)
  have "map agent_ID (map snd (ams_agents s)) = map fst (ams_agents s)"
    using J ok by (auto simp: ag_state_defs gomap_get_iff)
  then have "distinct (map agent_ID (map snd (ams_agents s)))" using ok by (simp only: gomap_ok_def)
  then have "distinct (map agent_ID as)" unfolding as by (metis mset_eq_imp_distinct_iff mset_map mset_sort)
  then show "ag_mem_inv s' \<and> ag_abs s' = ag_abs s \<and> sorted (map agent_ID as) \<and> distinct (map agent_ID as) \<and>
      set as = ran (adb_agents (ag_abs s))"
    using J ok by (simp add: s' as ag_abs_def ran_gomap)
qed (auto simp: ag_mem_ListAgents_def split: option.splits)

lemma ag_mem_SaveCredential_contract:
  "contract ag_mem_inv ag_abs (\<lambda>_. True) (ag_mem_SaveCredential c x)
     (\<lambda>d _ d'. d' = d\<lparr>adb_credentials := (adb_credentials d)(cred_Token x \<mapsto> x)\<rparr>)"
  by (rule contract_ag_mem) (auto simp: ag_mem_SaveCredential_def ag_state_defs fun_eq_iff split: option.splits if_splits)

lemma ag_mem_GetCredential_contract:
  "contract ag_mem_inv ag_abs (\<lambda>_. True) (ag_mem_GetCredential c t) (\<lambda>d x d'. d' = d \<and> adb_credentials d t = Some x)"
  by (rule contract_ag_mem) (auto simp: ag_mem_GetCredential_def ag_abs_def split: option.splits)

lemma ag_mem_TouchHeartbeat_contract:
  "contract ag_mem_inv ag_abs (\<lambda>_. True) (ag_mem_TouchHeartbeat c i t)
     (\<lambda>d a d'. \<exists>a0. adb_agents d i = Some a0 \<and> a = a0\<lparr>agent_LastSeenAt := t\<rparr> \<and> d' = d\<lparr>adb_agents := (adb_agents d)(i \<mapsto> a)\<rparr>)"
  by (rule contract_ag_mem) (auto simp: ag_mem_TouchHeartbeat_def ag_state_defs fun_eq_iff Let_def split: option.splits if_splits)

lemma ag_mem_SaveAcknowledgement_contract:
  "contract ag_mem_inv ag_abs (\<lambda>_. True) (ag_mem_SaveAcknowledgement c k)
     (\<lambda>d _ d'. d' = d\<lparr>adb_acks := (adb_acks d)(aack_ID k \<mapsto> k)\<rparr>)"
  by (rule contract_ag_mem) (auto simp: ag_mem_SaveAcknowledgement_def ag_state_defs fun_eq_iff split: option.splits if_splits)

lemmas ag_mem_contracts =
  ag_mem_SaveAgent_contract ag_mem_GetAgent_contract ag_mem_ListAgents_contract ag_mem_SaveCredential_contract
  ag_mem_GetCredential_contract ag_mem_TouchHeartbeat_contract ag_mem_SaveAcknowledgement_contract

subsection \<open>What the service guarantees over any such store\<close>

locale agent_registry = agent_store "ags_store svc" J ab
  for svc :: "'w ag_Service" and J :: "'w \<Rightarrow> bool" and ab :: "'w \<Rightarrow> agents_db \<times> 'r" +
  assumes now_J: "J w \<Longrightarrow> J (snd (ags_now svc w))" and now_ab: "J w \<Longrightarrow> ab (snd (ags_now svc w)) = ab w"
    and id_J: "J w \<Longrightarrow> J (snd (ags_newID svc p w))" and id_ab: "J w \<Longrightarrow> ab (snd (ags_newID svc p w)) = ab w"
    and token_J: "J w \<Longrightarrow> J (snd (ags_newToken svc w))" and token_ab: "J w \<Longrightarrow> ab (snd (ags_newToken svc w)) = ab w"
begin

lemmas env_simps = now_J now_ab id_J id_ab token_J token_ab

text \<open>A token verifies only as the subject of a credential that is stored under it.\<close>

lemma Verify_spec:
  "contract J ab (\<lambda>_. True) (ag_Verify svc token)
     (\<lambda>d subject d'. d' = d \<and> (\<exists>c. adb_credentials (fst d) token = Some c \<and> subject = cred_AgentID c))"
  by (rule contractI)
    (auto simp: ag_Verify_def wp_simps env_simps intro!: wp_contract [OF GetCredential])

lemma Heartbeat_spec:
  "contract J ab (\<lambda>_. True) (ag_Heartbeat svc i token)
     (\<lambda>d a d'. \<exists>c a0. adb_credentials (fst d) token = Some c \<and> cred_AgentID c = i \<and> adb_agents (fst d) i = Some a0 \<and>
        a = a0\<lparr>agent_LastSeenAt := agent_LastSeenAt a\<rparr> \<and>
        d' = ((fst d)\<lparr>adb_agents := (adb_agents (fst d))(i \<mapsto> a)\<rparr>, snd d))"
  by (rule contractI)
    (auto simp: ag_Heartbeat_def wp_simps env_simps intro!: wp_contract [OF Verify_spec] wp_contract [OF TouchHeartbeat])

lemma Acknowledge_spec:
  "contract J ab (\<lambda>_. True) (ag_Acknowledge svc i)
     (\<lambda>d k d'. (\<exists>c. adb_credentials (fst d) (gai_Token i) = Some c \<and> cred_AgentID c = gai_AgentID i) \<and>
        aack_AgentID k = gai_AgentID i \<and> 1 \<le> aack_SnapshotRevision k \<and>
        d' = ((fst d)\<lparr>adb_acks := (adb_acks (fst d))(aack_ID k \<mapsto> k)\<rparr>, snd d))"
  by (rule contractI)
    (auto simp: ag_Acknowledge_def wp_simps env_simps Let_def intro!: wp_contract [OF Verify_spec] wp_contract [OF SaveAcknowledgement])

text \<open>
  Registration makes two writes. When it succeeds the agent and its credential are both stored; when
  it fails nothing is stored, or the agent without a credential. The rest of the world stays.
\<close>

lemma Register_spec:
  assumes "J w"
  shows "wp (ag_Register svc i)
    (\<lambda>x w'. J w' \<and> agent_ID (rgr_Agent x) = cred_AgentID (rgr_Credential x) \<and>
       (rgi_ID i \<noteq> [] \<longrightarrow> agent_ID (rgr_Agent x) = rgi_ID i) \<and>
       (ags_bootstrapToken svc = [] \<or> rgi_BootstrapToken i = ags_bootstrapToken svc) \<and>
       ab w' = ((fst (ab w))\<lparr>adb_agents := (adb_agents (fst (ab w)))(agent_ID (rgr_Agent x) \<mapsto> rgr_Agent x),
          adb_credentials := (adb_credentials (fst (ab w)))(cred_Token (rgr_Credential x) \<mapsto> rgr_Credential x)\<rparr>, snd (ab w)))
    (\<lambda>_ w'. J w' \<and> snd (ab w') = snd (ab w) \<and> adb_credentials (fst (ab w')) = adb_credentials (fst (ab w)) \<and>
       dom (adb_agents (fst (ab w))) \<subseteq> dom (adb_agents (fst (ab w')))) w"
  unfolding ag_Register_def Let_def
  by (auto simp: wp_simps env_simps assms split: option.splits
      intro!: wp_contract [OF SaveAgent] wp_contract [OF SaveCredential])

end

end
