(* ===== verification/Control_World.thy ===== *)
theory Control_World
  imports Rollout_Refinement Agent_Registry
begin

section \<open>The control plane as one world: stores, clock, entropy, request contexts\<close>

text \<open>
  The wiring of \<open>cmd/control-plane/main.go\<close> with the in-memory stores: one registry, one agent
  and one rollout store, and the three services over them. What the program takes from outside
  is an \<open>Oracle\<close>, fixed with the configuration, that is read at a tick: the clock, twelve random bytes, the error of the
  request context, the answer of the metrics source and the order in which Go ranges over a
  map. Every effect moves to the next tick, so that two reads may differ, a context may be
  cancelled between two calls of one request, and no property can rest on the outside being
  constant.

  The interpretations of this theory discharge the contracts of the stores and the laws of the
  services for this world.
\<close>

record Oracle =
  orc_now :: "nat \<Rightarrow> go_time"
  orc_entropy :: "nat \<Rightarrow> byte list"
  orc_ctx :: "nat \<Rightarrow> error option"
  orc_query :: "nat \<Rightarrow> string \<Rightarrow> go_time \<Rightarrow> error + float64"
  orc_order :: "nat \<Rightarrow> nat list"

record World =
  w_registry :: cr_MemoryStore
  w_agents :: ag_MemoryStore
  w_rollouts :: ro_MemoryStore
  w_tick :: nat

definition initial_world :: World where
  "initial_world = \<lparr>w_registry = cr_NewMemoryStore, w_agents = ag_NewMemoryStore, w_rollouts = ro_NewMemoryStore,
     w_tick = 0\<rparr>"

definition tick :: "World \<Rightarrow> World" where
  "tick w = w\<lparr>w_tick := Suc (w_tick w)\<rparr>"

definition w_ctx :: "Oracle \<Rightarrow> World \<Rightarrow> error option" where
  "w_ctx orc w = orc_ctx orc (w_tick w)"

definition w_now :: "Oracle \<Rightarrow> World \<Rightarrow> go_time \<times> World" where
  "w_now orc w = (orc_now orc (w_tick w), tick w)"

definition w_newID :: "Oracle \<Rightarrow> string \<Rightarrow> World \<Rightarrow> string \<times> World" where
  "w_newID orc p w = (randomID p (orc_entropy orc (w_tick w)), tick w)"

definition w_query :: "Oracle \<Rightarrow> World Queryer" where
  "w_query orc q t w = (orc_query orc (w_tick w) q t, tick w)"

definition on_registry :: "Oracle \<Rightarrow> (error option \<Rightarrow> (cr_MemoryStore, 'a) M) \<Rightarrow> (World, 'a) M" where
  "on_registry orc = on_cell w_registry (\<lambda>s w. tick (w\<lparr>w_registry := s\<rparr>)) (w_ctx orc)"

definition on_agents :: "Oracle \<Rightarrow> (error option \<Rightarrow> (ag_MemoryStore, 'a) M) \<Rightarrow> (World, 'a) M" where
  "on_agents orc = on_cell w_agents (\<lambda>s w. tick (w\<lparr>w_agents := s\<rparr>)) (w_ctx orc)"

definition on_rollouts :: "Oracle \<Rightarrow> (error option \<Rightarrow> (ro_MemoryStore, 'a) M) \<Rightarrow> (World, 'a) M" where
  "on_rollouts orc = on_cell w_rollouts (\<lambda>s w. tick (w\<lparr>w_rollouts := s\<rparr>)) (w_ctx orc)"

subsection \<open>The stores of the world\<close>

definition world_config_store :: "Oracle \<Rightarrow> World cr_Store" where
  "world_config_store orc = \<lparr>
     cs_CreateTenant = (\<lambda>t. on_registry orc (\<lambda>c. cr_mem_CreateTenant c t)),
     cs_ListTenants = on_registry orc cr_mem_ListTenants,
     cs_GetTenant = (\<lambda>i. on_registry orc (\<lambda>c. cr_mem_GetTenant c i)),
     cs_CreateDefinition = (\<lambda>d. on_registry orc (\<lambda>c. cr_mem_CreateDefinition c d)),
     cs_ListDefinitions = (\<lambda>i. on_registry orc (\<lambda>c. cr_mem_ListDefinitions c i)),
     cs_GetDefinitionByKey = (\<lambda>i k. on_registry orc (\<lambda>c. cr_mem_GetDefinitionByKey c i k)),
     cs_CreateVersion = (\<lambda>v. on_registry orc (\<lambda>c. cr_mem_CreateVersion c v)),
     cs_ListVersions = (\<lambda>i. on_registry orc (\<lambda>c. cr_mem_ListVersions c i)),
     cs_GetVersionByNumber = (\<lambda>i n. on_registry orc (\<lambda>c. cr_mem_GetVersionByNumber c i n)),
     cs_SaveEnvironmentState = (\<lambda>st. on_registry orc (\<lambda>c. cr_mem_SaveEnvironmentState c st)),
     cs_GetEnvironmentState = (\<lambda>i e. on_registry orc (\<lambda>c. cr_mem_GetEnvironmentState c i e))\<rparr>"

definition world_agent_store :: "Oracle \<Rightarrow> World ag_Store" where
  "world_agent_store orc = \<lparr>
     as_SaveAgent = (\<lambda>a. on_agents orc (\<lambda>c. ag_mem_SaveAgent c a)),
     as_GetAgent = (\<lambda>i. on_agents orc (\<lambda>c. ag_mem_GetAgent c i)),
     as_ListAgents = on_agents orc ag_mem_ListAgents,
     as_SaveCredential = (\<lambda>x. on_agents orc (\<lambda>c. ag_mem_SaveCredential c x)),
     as_GetCredential = (\<lambda>t. on_agents orc (\<lambda>c. ag_mem_GetCredential c t)),
     as_TouchHeartbeat = (\<lambda>i t. on_agents orc (\<lambda>c. ag_mem_TouchHeartbeat c i t)),
     as_SaveAcknowledgement = (\<lambda>k. on_agents orc (\<lambda>c. ag_mem_SaveAcknowledgement c k))\<rparr>"

definition world_rollout_store :: "Oracle \<Rightarrow> World ro_Store" where
  "world_rollout_store orc = \<lparr>
     st_CreateRollout = (\<lambda>r ss. on_rollouts orc (\<lambda>c. ro_mem_CreateRollout c r ss)),
     st_GetRollout = (\<lambda>i. on_rollouts orc (\<lambda>c. ro_mem_GetRollout c i)),
     st_GetActiveRollout = (\<lambda>i e. on_rollouts orc (\<lambda>c. ro_mem_GetActiveRollout c i e)),
     st_ListActiveRollouts = (\<lambda>w. on_rollouts orc (ro_mem_ListActiveRollouts (orc_order orc (w_tick w))) w),
     st_UpdateRollout = (\<lambda>r. on_rollouts orc (\<lambda>c. ro_mem_UpdateRollout c r)),
     st_ListStages = (\<lambda>i. on_rollouts orc (\<lambda>c. ro_mem_ListStages c i)),
     st_SaveStage = (\<lambda>i st. on_rollouts orc (\<lambda>c. ro_mem_SaveStage c i st)),
     st_SaveStageTargets = (\<lambda>ts. on_rollouts orc (\<lambda>c. ro_mem_SaveStageTargets c ts)),
     st_ReplaceStageTargets = (\<lambda>i sid ts. on_rollouts orc (\<lambda>c. ro_mem_ReplaceStageTargets c i sid ts)),
     st_ListStageTargets = (\<lambda>i sid. on_rollouts orc (\<lambda>c. ro_mem_ListStageTargets c i sid)),
     st_NextSnapshotRevision = on_rollouts orc ro_mem_NextSnapshotRevision\<rparr>"

subsection \<open>The services of main.go\<close>

text \<open>What the environment variables of \<open>main.go\<close> choose: the bootstrap token, the credential
  lifetime and whether a metrics source is configured; and the schema validator.\<close>

record Config =
  cfg_validator :: SchemaValidator
  cfg_bootstrapToken :: string
  cfg_credentialTTL :: duration
  cfg_prometheus :: bool
  cfg_oracle :: Oracle

definition registry_service :: "Config \<Rightarrow> World cr_Service" where
  "registry_service cfg = \<lparr>crs_store = world_config_store (cfg_oracle cfg), crs_validator = cfg_validator cfg, crs_now = w_now (cfg_oracle cfg), crs_newID = w_newID (cfg_oracle cfg)\<rparr>"

definition agent_service :: "Config \<Rightarrow> World ag_Service" where
  "agent_service cfg = ag_NewService (world_agent_store (cfg_oracle cfg)) (cfg_bootstrapToken cfg) (cfg_credentialTTL cfg) (w_now (cfg_oracle cfg)) (w_newID (cfg_oracle cfg))"

definition rollout_registry :: "Config \<Rightarrow> World ro_Registry" where
  "rollout_registry cfg = \<lparr>rg_GetDefinition = cr_GetDefinition (registry_service cfg),
     rg_ListVersions = cr_ListVersions (registry_service cfg),
     rg_GetEnvironmentState = cr_GetEnvironmentState (registry_service cfg),
     rg_SetStableVersion = cr_SetStableVersion (registry_service cfg)\<rparr>"

definition rollouts_service :: "Config \<Rightarrow> World ro_Service" where
  "rollouts_service cfg =
     (let svc = ro_NewService (world_rollout_store (cfg_oracle cfg)) (rollout_registry cfg) (ag_ListAgents (agent_service cfg)) (w_now (cfg_oracle cfg)) (w_newID (cfg_oracle cfg))
      in if cfg_prometheus cfg then SetGuardrailQueryer (w_query (cfg_oracle cfg)) svc else svc)"

subsection \<open>The contracts hold in this world\<close>

definition wJ :: "World \<Rightarrow> bool" where
  "wJ w \<longleftrightarrow> ro_mem_inv (w_rollouts w) \<and> cr_mem_inv (w_registry w) \<and> ag_mem_inv (w_agents w)"

definition ab_ro :: "World \<Rightarrow> rollout_db \<times> registry_db \<times> agents_db" where
  "ab_ro w = (ro_abs (w_rollouts w), cr_abs (w_registry w), ag_abs (w_agents w))"

definition ab_cr :: "World \<Rightarrow> registry_db \<times> rollout_db \<times> agents_db" where
  "ab_cr w = (cr_abs (w_registry w), ro_abs (w_rollouts w), ag_abs (w_agents w))"

definition ab_ag :: "World \<Rightarrow> agents_db \<times> rollout_db \<times> registry_db" where
  "ab_ag w = (ag_abs (w_agents w), ro_abs (w_rollouts w), cr_abs (w_registry w))"

lemma wJ_initial: "wJ initial_world"
  by (simp add: wJ_def initial_world_def ro_mem_init cr_mem_init ag_mem_init)

lemma tick_simps [simp]:
  "w_registry (tick w) = w_registry w" "w_agents (tick w) = w_agents w" "w_rollouts (tick w) = w_rollouts w"
  "w_tick (tick w) = Suc (w_tick w)"
  "wJ (tick w) = wJ w" "ab_ro (tick w) = ab_ro w" "ab_cr (tick w) = ab_cr w" "ab_ag (tick w) = ab_ag w"
  by (simp_all add: tick_def wJ_def ab_ro_def ab_cr_def ab_ag_def)

lemma on_rollouts_contract:
  assumes "\<And>c. contract ro_mem_inv ro_abs P (f c) R"
    and "\<And>d. P' d \<Longrightarrow> P (fst d)" and "\<And>d a d'. R (fst d) a (fst d') \<Longrightarrow> snd d' = snd d \<Longrightarrow> R' d a d'"
  shows "contract wJ ab_ro P' (on_rollouts orc f) R'"
proof -
  have "contract (\<lambda>w. ro_mem_inv (w_rollouts w) \<and> (cr_mem_inv (w_registry w) \<and> ag_mem_inv (w_agents w)))
      (\<lambda>w. (ro_abs (w_rollouts w), cr_abs (w_registry w), ag_abs (w_agents w))) (\<lambda>d. P (fst d))
      (on_rollouts orc f) (\<lambda>d a d'. R (fst d) a (fst d') \<and> snd d' = snd d)"
    unfolding on_rollouts_def by (rule contract_on_cell [OF assms(1)]) simp_all
  moreover have "wJ = (\<lambda>w. ro_mem_inv (w_rollouts w) \<and> (cr_mem_inv (w_registry w) \<and> ag_mem_inv (w_agents w)))"
    and "ab_ro = (\<lambda>w. (ro_abs (w_rollouts w), cr_abs (w_registry w), ag_abs (w_agents w)))"
    by (simp_all add: fun_eq_iff wJ_def ab_ro_def)
  ultimately have "contract wJ ab_ro (\<lambda>d. P (fst d)) (on_rollouts orc f) (\<lambda>d a d'. R (fst d) a (fst d') \<and> snd d' = snd d)"
    by simp
  then show ?thesis by (rule contract_conseq) (use assms(2,3) in auto)
qed

lemma on_registry_contract:
  assumes "\<And>c. contract cr_mem_inv cr_abs P (f c) R"
    and "\<And>d. P' d \<Longrightarrow> P (fst d)" and "\<And>d a d'. R (fst d) a (fst d') \<Longrightarrow> snd d' = snd d \<Longrightarrow> R' d a d'"
  shows "contract wJ ab_cr P' (on_registry orc f) R'"
proof -
  have "contract (\<lambda>w. cr_mem_inv (w_registry w) \<and> (ro_mem_inv (w_rollouts w) \<and> ag_mem_inv (w_agents w)))
      (\<lambda>w. (cr_abs (w_registry w), ro_abs (w_rollouts w), ag_abs (w_agents w))) (\<lambda>d. P (fst d))
      (on_registry orc f) (\<lambda>d a d'. R (fst d) a (fst d') \<and> snd d' = snd d)"
    unfolding on_registry_def by (rule contract_on_cell [OF assms(1)]) simp_all
  moreover have "wJ = (\<lambda>w. cr_mem_inv (w_registry w) \<and> (ro_mem_inv (w_rollouts w) \<and> ag_mem_inv (w_agents w)))"
    and "ab_cr = (\<lambda>w. (cr_abs (w_registry w), ro_abs (w_rollouts w), ag_abs (w_agents w)))"
    by (auto simp: fun_eq_iff wJ_def ab_cr_def)
  ultimately have "contract wJ ab_cr (\<lambda>d. P (fst d)) (on_registry orc f) (\<lambda>d a d'. R (fst d) a (fst d') \<and> snd d' = snd d)"
    by simp
  then show ?thesis by (rule contract_conseq) (use assms(2,3) in auto)
qed

lemma on_agents_contract:
  assumes "\<And>c. contract ag_mem_inv ag_abs P (f c) R"
    and "\<And>d. P' d \<Longrightarrow> P (fst d)" and "\<And>d a d'. R (fst d) a (fst d') \<Longrightarrow> snd d' = snd d \<Longrightarrow> R' d a d'"
  shows "contract wJ ab_ag P' (on_agents orc f) R'"
proof -
  have "contract (\<lambda>w. ag_mem_inv (w_agents w) \<and> (ro_mem_inv (w_rollouts w) \<and> cr_mem_inv (w_registry w)))
      (\<lambda>w. (ag_abs (w_agents w), ro_abs (w_rollouts w), cr_abs (w_registry w))) (\<lambda>d. P (fst d))
      (on_agents orc f) (\<lambda>d a d'. R (fst d) a (fst d') \<and> snd d' = snd d)"
    unfolding on_agents_def by (rule contract_on_cell [OF assms(1)]) simp_all
  moreover have "wJ = (\<lambda>w. ag_mem_inv (w_agents w) \<and> (ro_mem_inv (w_rollouts w) \<and> cr_mem_inv (w_registry w)))"
    and "ab_ag = (\<lambda>w. (ag_abs (w_agents w), ro_abs (w_rollouts w), cr_abs (w_registry w)))"
    by (auto simp: fun_eq_iff wJ_def ab_ag_def)
  ultimately have "contract wJ ab_ag (\<lambda>d. P (fst d)) (on_agents orc f) (\<lambda>d a d'. R (fst d) a (fst d') \<and> snd d' = snd d)"
    by simp
  then show ?thesis by (rule contract_conseq) (use assms(2,3) in auto)
qed

text \<open>A call whose argument is read from the world before it.\<close>

lemma contract_read:
  assumes "\<And>x. contract J ab P (g x) R"
  shows "contract J ab P (\<lambda>w. g (h w) w) R"
  using assms by (simp add: contract_def wp_def)

text \<open>Seeing the same contract through another arrangement of the abstract state.\<close>

lemma contract_view:
  assumes "contract J ab P f R" and "\<And>w. ab' w = g (ab w)"
    and "\<And>d. P' (g d) \<Longrightarrow> P d" and "\<And>d a d'. R d a d' \<Longrightarrow> R' (g d) a (g d')"
  shows "contract J ab' P' f R'"
  by (rule contractI, rule wp_contract [OF assms(1)]) (use assms(2-4) in auto)

lemma world_config_store_sel:
  "cs_CreateTenant (world_config_store orc) t = on_registry orc (\<lambda>c. cr_mem_CreateTenant c t)"
  "cs_ListTenants (world_config_store orc) = on_registry orc cr_mem_ListTenants"
  "cs_GetTenant (world_config_store orc) i = on_registry orc (\<lambda>c. cr_mem_GetTenant c i)"
  "cs_CreateDefinition (world_config_store orc) d = on_registry orc (\<lambda>c. cr_mem_CreateDefinition c d)"
  "cs_ListDefinitions (world_config_store orc) i = on_registry orc (\<lambda>c. cr_mem_ListDefinitions c i)"
  "cs_GetDefinitionByKey (world_config_store orc) i k = on_registry orc (\<lambda>c. cr_mem_GetDefinitionByKey c i k)"
  "cs_CreateVersion (world_config_store orc) v = on_registry orc (\<lambda>c. cr_mem_CreateVersion c v)"
  "cs_ListVersions (world_config_store orc) i = on_registry orc (\<lambda>c. cr_mem_ListVersions c i)"
  "cs_GetVersionByNumber (world_config_store orc) i n = on_registry orc (\<lambda>c. cr_mem_GetVersionByNumber c i n)"
  "cs_SaveEnvironmentState (world_config_store orc) st = on_registry orc (\<lambda>c. cr_mem_SaveEnvironmentState c st)"
  "cs_GetEnvironmentState (world_config_store orc) i e = on_registry orc (\<lambda>c. cr_mem_GetEnvironmentState c i e)"
  by (simp_all add: world_config_store_def)

lemma world_agent_store_sel:
  "as_SaveAgent (world_agent_store orc) a = on_agents orc (\<lambda>c. ag_mem_SaveAgent c a)"
  "as_GetAgent (world_agent_store orc) i = on_agents orc (\<lambda>c. ag_mem_GetAgent c i)"
  "as_ListAgents (world_agent_store orc) = on_agents orc ag_mem_ListAgents"
  "as_SaveCredential (world_agent_store orc) x = on_agents orc (\<lambda>c. ag_mem_SaveCredential c x)"
  "as_GetCredential (world_agent_store orc) t = on_agents orc (\<lambda>c. ag_mem_GetCredential c t)"
  "as_TouchHeartbeat (world_agent_store orc) i u = on_agents orc (\<lambda>c. ag_mem_TouchHeartbeat c i u)"
  "as_SaveAcknowledgement (world_agent_store orc) k = on_agents orc (\<lambda>c. ag_mem_SaveAcknowledgement c k)"
  by (simp_all add: world_agent_store_def)

lemma world_rollout_store_sel:
  "st_CreateRollout (world_rollout_store orc) r ss = on_rollouts orc (\<lambda>c. ro_mem_CreateRollout c r ss)"
  "st_GetRollout (world_rollout_store orc) i = on_rollouts orc (\<lambda>c. ro_mem_GetRollout c i)"
  "st_GetActiveRollout (world_rollout_store orc) i e = on_rollouts orc (\<lambda>c. ro_mem_GetActiveRollout c i e)"
  "st_ListActiveRollouts (world_rollout_store orc) = (\<lambda>w. on_rollouts orc (ro_mem_ListActiveRollouts (orc_order orc (w_tick w))) w)"
  "st_UpdateRollout (world_rollout_store orc) r = on_rollouts orc (\<lambda>c. ro_mem_UpdateRollout c r)"
  "st_ListStages (world_rollout_store orc) i = on_rollouts orc (\<lambda>c. ro_mem_ListStages c i)"
  "st_SaveStage (world_rollout_store orc) i st = on_rollouts orc (\<lambda>c. ro_mem_SaveStage c i st)"
  "st_SaveStageTargets (world_rollout_store orc) ts = on_rollouts orc (\<lambda>c. ro_mem_SaveStageTargets c ts)"
  "st_ReplaceStageTargets (world_rollout_store orc) i sid ts = on_rollouts orc (\<lambda>c. ro_mem_ReplaceStageTargets c i sid ts)"
  "st_ListStageTargets (world_rollout_store orc) i sid = on_rollouts orc (\<lambda>c. ro_mem_ListStageTargets c i sid)"
  "st_NextSnapshotRevision (world_rollout_store orc) = on_rollouts orc ro_mem_NextSnapshotRevision"
  by (simp_all add: world_rollout_store_def)

interpretation config_mem: config_store "world_config_store orc" wJ ab_cr for orc
proof (unfold_locales, goal_cases)
  case 1
  show ?case unfolding world_config_store_sel by (rule on_registry_contract [OF cr_mem_CreateTenant_contract]) (auto simp: prod_eq_iff)
next
  case 2
  show ?case unfolding world_config_store_sel by (rule on_registry_contract [OF cr_mem_ListTenants_contract]) (auto simp: prod_eq_iff)
next
  case 3
  show ?case unfolding world_config_store_sel by (rule on_registry_contract [OF cr_mem_GetTenant_contract]) (auto simp: prod_eq_iff)
next
  case 4
  show ?case unfolding world_config_store_sel by (rule on_registry_contract [OF cr_mem_CreateDefinition_contract]) (auto simp: prod_eq_iff)
next
  case 5
  show ?case unfolding world_config_store_sel by (rule on_registry_contract [OF cr_mem_ListDefinitions_contract]) (auto simp: prod_eq_iff)
next
  case 6
  show ?case unfolding world_config_store_sel by (rule on_registry_contract [OF cr_mem_GetDefinitionByKey_contract]) (auto simp: prod_eq_iff)
next
  case 7
  show ?case unfolding world_config_store_sel by (rule on_registry_contract [OF cr_mem_CreateVersion_contract]) (auto simp: prod_eq_iff)
next
  case 8
  show ?case unfolding world_config_store_sel by (rule on_registry_contract [OF cr_mem_ListVersions_contract]) (auto simp: prod_eq_iff)
next
  case 9
  show ?case unfolding world_config_store_sel by (rule on_registry_contract [OF cr_mem_GetVersionByNumber_contract]) (auto simp: prod_eq_iff)
next
  case 10
  show ?case unfolding world_config_store_sel by (rule on_registry_contract [OF cr_mem_SaveEnvironmentState_contract]) (auto simp: prod_eq_iff)
next
  case 11
  show ?case unfolding world_config_store_sel by (rule on_registry_contract [OF cr_mem_GetEnvironmentState_contract]) (auto simp: prod_eq_iff)
qed (simp add: wJ_def ab_cr_def cr_mem_inv_def)

interpretation agents_mem: agent_store "world_agent_store orc" wJ ab_ag for orc
proof (unfold_locales, goal_cases)
  case 1
  show ?case unfolding world_agent_store_sel by (rule on_agents_contract [OF ag_mem_SaveAgent_contract]) (auto simp: prod_eq_iff)
next
  case 2
  show ?case unfolding world_agent_store_sel by (rule on_agents_contract [OF ag_mem_GetAgent_contract]) (auto simp: prod_eq_iff)
next
  case 3
  show ?case unfolding world_agent_store_sel by (rule on_agents_contract [OF ag_mem_ListAgents_contract]) (auto simp: prod_eq_iff)
next
  case 4
  show ?case unfolding world_agent_store_sel by (rule on_agents_contract [OF ag_mem_SaveCredential_contract]) (auto simp: prod_eq_iff)
next
  case 5
  show ?case unfolding world_agent_store_sel by (rule on_agents_contract [OF ag_mem_GetCredential_contract]) (auto simp: prod_eq_iff)
next
  case 6
  show ?case unfolding world_agent_store_sel by (rule on_agents_contract [OF ag_mem_TouchHeartbeat_contract]) (auto simp: prod_eq_iff)
next
  case 7
  show ?case unfolding world_agent_store_sel by (rule on_agents_contract [OF ag_mem_SaveAcknowledgement_contract]) (auto simp: prod_eq_iff)
qed (simp add: wJ_def ab_ag_def ag_mem_inv_def)

interpretation rollouts_mem: rollout_store "world_rollout_store orc" wJ ab_ro for orc
proof (unfold_locales, goal_cases)
  case 1
  show ?case unfolding world_rollout_store_sel by (rule on_rollouts_contract [OF ro_mem_CreateRollout_contract]) (auto simp: prod_eq_iff)
next
  case 2
  show ?case unfolding world_rollout_store_sel by (rule on_rollouts_contract [OF ro_mem_GetRollout_contract]) (auto simp: prod_eq_iff)
next
  case 3
  show ?case unfolding world_rollout_store_sel by (rule on_rollouts_contract [OF ro_mem_GetActiveRollout_contract]) (auto simp: prod_eq_iff)
next
  case 4
  show ?case unfolding world_rollout_store_sel by (rule contract_read, rule on_rollouts_contract [OF ro_mem_ListActiveRollouts_contract]) (auto simp: prod_eq_iff)
next
  case 5
  show ?case unfolding world_rollout_store_sel by (rule on_rollouts_contract [OF ro_mem_UpdateRollout_contract]) (auto simp: prod_eq_iff)
next
  case 6
  show ?case unfolding world_rollout_store_sel by (rule on_rollouts_contract [OF ro_mem_ListStages_contract]) (auto simp: prod_eq_iff)
next
  case 7
  show ?case unfolding world_rollout_store_sel by (rule on_rollouts_contract [OF ro_mem_SaveStage_contract]) (auto simp: prod_eq_iff)
next
  case 8
  show ?case unfolding world_rollout_store_sel by (rule on_rollouts_contract [OF ro_mem_SaveStageTargets_contract]) (auto simp: prod_eq_iff)
next
  case 9
  show ?case unfolding world_rollout_store_sel by (rule on_rollouts_contract [OF ro_mem_ReplaceStageTargets_contract]) (auto simp: prod_eq_iff)
next
  case 10
  show ?case unfolding world_rollout_store_sel by (rule on_rollouts_contract [OF ro_mem_ListStageTargets_contract]) (auto simp: prod_eq_iff)
next
  case 11
  show ?case unfolding world_rollout_store_sel by (rule on_rollouts_contract [OF ro_mem_NextSnapshotRevision_contract]) (auto simp: prod_eq_iff)
qed (use ro_mem_inv_ids ro_mem_one_active in \<open>auto simp: wJ_def ab_ro_def\<close>)

end
