(* ===== verification/Control_Plane.thy ===== *)
theory Control_Plane
  imports Control_World
begin

section \<open>The control plane: its services over the in-memory stores, and its reachable states\<close>

text \<open>
  The services of \<open>Control_World\<close> satisfy the laws of the locales \<open>config_registry\<close>,
  \<open>agent_registry\<close> and \<open>rollout_service\<close>. A \<open>Call\<close> is one call of a service that changes state,
  \<open>serve\<close> runs it, and \<open>reachable\<close> are the worlds that calls lead to from empty stores, each call
  whether it succeeds or fails. The theorems at the end are what holds in every such world.
\<close>

subsection \<open>The services satisfy their interfaces\<close>

lemma w_env_simps [simp]:
  "snd (w_now orc w) = tick w" "snd (w_newID orc p w) = tick w" "snd (w_query orc q t w) = tick w"
  "fst (w_now orc w) = orc_now orc (w_tick w)" "fst (w_newID orc p w) = randomID p (orc_entropy orc (w_tick w))"
  by (simp_all add: w_now_def w_newID_def w_query_def)

lemma registry_service_sel [simp]:
  "crs_store (registry_service cfg) = world_config_store (cfg_oracle cfg)" "crs_validator (registry_service cfg) = cfg_validator cfg"
  "crs_now (registry_service cfg) = w_now (cfg_oracle cfg)" "crs_newID (registry_service cfg) = w_newID (cfg_oracle cfg)"
  by (simp_all add: registry_service_def)

lemma agent_service_sel [simp]:
  "ags_store (agent_service cfg) = world_agent_store (cfg_oracle cfg)" "ags_bootstrapToken (agent_service cfg) = cfg_bootstrapToken cfg"
  "ags_now (agent_service cfg) = w_now (cfg_oracle cfg)" "ags_newID (agent_service cfg) = w_newID (cfg_oracle cfg)"
  "ags_newToken (agent_service cfg) = w_newID (cfg_oracle cfg) ''cred''"
  by (simp_all add: agent_service_def ag_NewService_def)

lemma rollouts_service_sel [simp]:
  "ros_store (rollouts_service cfg) = world_rollout_store (cfg_oracle cfg)" "ros_registry (rollouts_service cfg) = rollout_registry cfg"
  "ros_agents (rollouts_service cfg) = ag_ListAgents (agent_service cfg)"
  "ros_now (rollouts_service cfg) = w_now (cfg_oracle cfg)" "ros_newID (rollouts_service cfg) = w_newID (cfg_oracle cfg)"
  "ros_queryer (rollouts_service cfg) = (if cfg_prometheus cfg then Some (w_query (cfg_oracle cfg)) else None)"
  by (simp_all add: rollouts_service_def ro_NewService_def SetGuardrailQueryer_def Let_def)

lemma rollout_registry_sel [simp]:
  "rg_GetDefinition (rollout_registry cfg) = cr_GetDefinition (registry_service cfg)"
  "rg_ListVersions (rollout_registry cfg) = cr_ListVersions (registry_service cfg)"
  "rg_GetEnvironmentState (rollout_registry cfg) = cr_GetEnvironmentState (registry_service cfg)"
  "rg_SetStableVersion (rollout_registry cfg) = cr_SetStableVersion (registry_service cfg)"
  by (simp_all add: rollout_registry_def)

interpretation registry: config_registry "registry_service cfg" wJ ab_cr for cfg
proof -
  have "config_store (crs_store (registry_service cfg)) wJ ab_cr"
    by (simp add: config_mem.config_store_axioms)
  then show "config_registry (registry_service cfg) wJ ab_cr"
    by (intro config_registry.intro config_registry_axioms.intro) (simp_all add: randomID_nul_free)
qed

interpretation agents: agent_registry "agent_service cfg" wJ ab_ag for cfg
proof -
  have "agent_store (ags_store (agent_service cfg)) wJ ab_ag"
    by (simp add: agents_mem.agent_store_axioms)
  then show "agent_registry (agent_service cfg) wJ ab_ag"
    by (intro agent_registry.intro agent_registry_axioms.intro) simp_all
qed

text \<open>The rollout service sees the registry and the agents behind its own store.\<close>

definition cr_to_ro :: "registry_db \<times> rollout_db \<times> agents_db \<Rightarrow> rollout_db \<times> registry_db \<times> agents_db" where
  "cr_to_ro d = (fst (snd d), fst d, snd (snd d))"

definition ag_to_ro :: "agents_db \<times> rollout_db \<times> registry_db \<Rightarrow> rollout_db \<times> registry_db \<times> agents_db" where
  "ag_to_ro d = (fst (snd d), snd (snd d), fst d)"

lemma view_simps [simp]:
  "ab_ro w = cr_to_ro (ab_cr w) \<longleftrightarrow> True" "ab_ro w = ag_to_ro (ab_ag w) \<longleftrightarrow> True"
  "fst (cr_to_ro c) = fst (snd c)" "fst (snd (cr_to_ro c)) = fst c" "snd (snd (cr_to_ro c)) = snd (snd c)"
  by (simp_all add: ab_ro_def ab_cr_def ab_ag_def cr_to_ro_def ag_to_ro_def)

lemma contract_from_registry:
  assumes "contract wJ ab_cr (\<lambda>_. True) f R" and "\<And>d a d'. R d a d' \<Longrightarrow> R' (cr_to_ro d) a (cr_to_ro d')"
  shows "contract wJ ab_ro (\<lambda>_. True) f R'"
  by (rule contract_view [OF assms(1), where g = cr_to_ro]) (use assms(2) in auto)

lemma contract_from_agents:
  assumes "contract wJ ab_ag (\<lambda>_. True) f R" and "\<And>d a d'. R d a d' \<Longrightarrow> R' (ag_to_ro d) a (ag_to_ro d')"
  shows "contract wJ ab_ro (\<lambda>_. True) f R'"
  by (rule contract_view [OF assms(1), where g = ag_to_ro]) (use assms(2) in auto)

lemma wJ_registry_ok: "wJ w \<Longrightarrow> registry_ok (fst (snd (ab_ro w)))"
  using config_mem.store_ok [of w] by (simp add: ab_ro_def ab_cr_def)

lemma reg_set_state_at:
  "env_ConfigDefinitionID st = c \<Longrightarrow> env_Environment st = e \<Longrightarrow> reg_states (reg_set_state st db) c e = Some st"
  by (auto simp: reg_set_state_def)

interpretation rollouts: rollout_service "rollouts_service cfg" wJ ab_ro fst "cfg_validator cfg" for cfg
proof -
  have "rollout_store (ros_store (rollouts_service cfg)) wJ ab_ro"
    by (simp add: rollouts_mem.rollout_store_axioms)
  moreover have "rollout_service_axioms (rollouts_service cfg) wJ ab_ro fst (cfg_validator cfg)"
  proof (unfold_locales, goal_cases)
    case 1
    show ?case by (simp add: ag_ListAgents_def) (rule contract_from_agents [OF agents_mem.ListAgents], auto)
  next
    case (2 i k)
    show ?case by (simp add: cr_GetDefinition_def) (rule contract_from_registry [OF config_mem.GetDefinitionByKey], auto)
  next
    case (3 i k)
    show ?case by simp (rule contract_from_registry [OF registry.ListVersions_spec], auto)
  next
    case (4 i k e)
    show ?case by simp (rule contract_from_registry [OF registry.GetEnvironmentState_spec], auto)
  next
    case (5 i)
    have "contract wJ ab_cr (\<lambda>_. True) (cr_SetStableVersion (registry_service cfg) i)
      (\<lambda>d st d'. \<exists>x v. registry_grows (cfg_validator cfg) (fst d) (fst d') \<and> reg_defs (fst d) (definitionKey (ssv_TenantID i) (ssv_Key i)) = Some x \<and>
        v \<in> set (reg_versions (fst d) (def_ID x)) \<and> ver_VersionNumber v = ssv_VersionNumber i \<and> env_StableVersionID st = ver_ID v \<and>
        reg_states (fst d') (def_ID x) (ssv_Environment i) = Some st \<and> snd d' = snd d)"
    proof (rule contract_conseq [OF registry.SetStableVersion_spec], goal_cases)
      case (2 d st d')
      then obtain x v where xv: "reg_defs (fst d) (definitionKey (ssv_TenantID i) (ssv_Key i)) = Some x"
          "v \<in> set (reg_versions (fst d) (def_ID x))" "ver_VersionNumber v = ssv_VersionNumber i" "valid_env (ssv_Environment i)"
          "env_ConfigDefinitionID st = def_ID x" "env_Environment st = ssv_Environment i" "env_StableVersionID st = ver_ID v"
          "pointers_ok (fst d) \<longrightarrow> env_ActiveRolloutID st = []" "d' = (reg_set_state st (fst d), snd d)" by blast
      have "registry_grows (cfg_validator cfg) (fst d) (reg_set_state st (fst d))" by (rule grows_set_state [of v]) (simp_all add: xv)
      with xv reg_set_state_at [OF xv(5,6)] show ?case by auto
    qed
    then show ?case by (simp, elim contract_from_registry) auto
  qed (auto simp: wJ_registry_ok randomID_nul_free split: if_splits)
  ultimately show "rollout_service (rollouts_service cfg) wJ ab_ro fst (cfg_validator cfg)"
    by (rule rollout_service.intro)
qed


subsection \<open>Calls, and the worlds they lead to\<close>

text \<open>
  One constructor per operation of a service. A call is served to its end before the next one, as the mutex \<open>s.mu\<close> of \<open>rollout.Service\<close>
  enforces for \<open>CreateRollout\<close>, \<open>Acknowledge\<close> and \<open>ReconcileActive\<close>; interleavings of the other calls between their store
  operations are not part of this model.
\<close>

datatype Read =
    ReadTenants
  | ReadTenant string
  | ReadDefinitions string
  | ReadDefinition string string
  | ReadVersions string string
  | ReadEnvironmentState string string Environment
  | ReadRollout string

datatype Call =
    CallCreateTenant CreateTenantInput
  | CallCreateDefinition CreateDefinitionInput
  | CallCreateVersion CreateVersionInput
  | CallSetStableVersion SetStableVersionInput
  | CallRegister RegisterInput
  | CallHeartbeat string string
  | CallAcknowledgeSnapshot ag_AcknowledgeInput
  | CallCreateRollout CreateRolloutInput
  | CallAcknowledge AcknowledgeInput
  | CallReconcileActive
  | CallRead Read

primrec serve_read :: "Config \<Rightarrow> Read \<Rightarrow> World \<Rightarrow> World" where
  "serve_read cfg ReadTenants w = snd (cr_ListTenants (registry_service cfg) w)"
| "serve_read cfg (ReadTenant i) w = snd (cr_GetTenant (registry_service cfg) i w)"
| "serve_read cfg (ReadDefinitions i) w = snd (cr_ListDefinitions (registry_service cfg) i w)"
| "serve_read cfg (ReadDefinition i k) w = snd (cr_GetDefinition (registry_service cfg) i k w)"
| "serve_read cfg (ReadVersions i k) w = snd (cr_ListVersions (registry_service cfg) i k w)"
| "serve_read cfg (ReadEnvironmentState i k e) w = snd (cr_GetEnvironmentState (registry_service cfg) i k e w)"
| "serve_read cfg (ReadRollout i) w = snd (ro_GetRollout (rollouts_service cfg) i w)"

primrec serve :: "Config \<Rightarrow> Call \<Rightarrow> World \<Rightarrow> World" where
  "serve cfg (CallCreateTenant i) w = snd (cr_CreateTenant (registry_service cfg) i w)"
| "serve cfg (CallCreateDefinition i) w = snd (cr_CreateDefinition (registry_service cfg) i w)"
| "serve cfg (CallCreateVersion i) w = snd (cr_CreateVersion (registry_service cfg) i w)"
| "serve cfg (CallSetStableVersion i) w = snd (cr_SetStableVersion (registry_service cfg) i w)"
| "serve cfg (CallRegister i) w = snd (ag_Register (agent_service cfg) i w)"
| "serve cfg (CallHeartbeat i token) w = snd (ag_Heartbeat (agent_service cfg) i token w)"
| "serve cfg (CallAcknowledgeSnapshot i) w = snd (ag_Acknowledge (agent_service cfg) i w)"
| "serve cfg (CallCreateRollout i) w = snd (ro_CreateRollout (rollouts_service cfg) i w)"
| "serve cfg (CallAcknowledge i) w = snd (ro_Acknowledge (rollouts_service cfg) i w)"
| "serve cfg CallReconcileActive w = snd (ro_ReconcileActive (rollouts_service cfg) w)"
| "serve cfg (CallRead r) w = serve_read cfg r w"

definition serve_all :: "Config \<Rightarrow> Call list \<Rightarrow> World \<Rightarrow> World" where
  "serve_all cfg cs w = fold (serve cfg) cs w"

inductive reachable :: "Config \<Rightarrow> World \<Rightarrow> bool" for cfg where
  start: "reachable cfg initial_world"
| served: "reachable cfg w \<Longrightarrow> reachable cfg (serve cfg c w)"

lemma reachable_serve_all: "reachable cfg w \<Longrightarrow> reachable cfg (serve_all cfg cs w)"
  unfolding serve_all_def by (induction cs arbitrary: w) (auto intro: reachable.served)

text \<open>The invariant of the control plane.\<close>

definition plane_inv :: "Config \<Rightarrow> World \<Rightarrow> bool" where
  "plane_inv cfg w \<longleftrightarrow> wJ w \<and> plane_ok (ro_abs (w_rollouts w)) (cr_abs (w_registry w)) \<and>
     values_ok (cfg_validator cfg) (cr_abs (w_registry w))"

abbreviation world_advances :: "Config \<Rightarrow> World \<Rightarrow> World \<Rightarrow> bool" where
  "world_advances cfg w w' \<equiv> advances wJ ab_ro fst (cfg_validator cfg) (ab_ro w) w'"

lemma world_advances_iff:
  "world_advances cfg w w' \<longleftrightarrow> wJ w' \<and> plane_ok (ro_abs (w_rollouts w')) (cr_abs (w_registry w')) \<and>
     ro_steps (ro_abs (w_rollouts w)) (ro_abs (w_rollouts w')) \<and>
     registry_grows (cfg_validator cfg) (cr_abs (w_registry w)) (cr_abs (w_registry w'))"
  by (simp add: advances_def ab_ro_def)

lemma initial_world_stores [simp]:
  "w_rollouts initial_world = ro_NewMemoryStore" "w_registry initial_world = cr_NewMemoryStore"
  "w_agents initial_world = ag_NewMemoryStore"
  by (simp_all add: initial_world_def)

lemma plane_inv_initial: "plane_inv cfg initial_world"
proof -
  have "all_linked (ro_abs ro_NewMemoryStore) reg" for reg
    by (simp add: all_linked_def ro_abs_def ro_NewMemoryStore_def)
  moreover have "pointers_ok (cr_abs cr_NewMemoryStore)" "values_ok V (cr_abs cr_NewMemoryStore)" for V
    by (simp_all add: pointers_ok_def values_ok_def cr_abs_def cr_NewMemoryStore_def gomap_slice_def)
  ultimately show ?thesis by (simp add: plane_inv_def wJ_initial plane_ok_def rollouts_ok_empty)
qed

text \<open>Calls of the registry and of the agents leave the rollouts alone and let the registry grow.\<close>

lemma plane_grows: "plane_ok db reg \<Longrightarrow> registry_grows V reg reg' \<Longrightarrow> plane_ok db reg'"
  using all_linked_grows [of V reg reg' db] by (auto simp: plane_ok_def registry_grows_def)

lemma registry_call_advances:
  assumes "contract wJ ab_cr (\<lambda>_. True) f (\<lambda>d _ d'. registry_grows (cfg_validator cfg) (fst d) (fst d') \<and> snd d' = snd d)"
    and "plane_inv cfg w"
  shows "world_advances cfg w (snd (f w))"
proof (rule wp_invariantD [of f "world_advances cfg w"], rule wp_contract [OF assms(1) _ TrueI])
  show "wJ w" using assms(2) by (simp add: plane_inv_def)
qed (use assms(2) plane_grows in \<open>auto simp: plane_inv_def advances_def ab_ro_def ab_cr_def\<close>)

lemma agents_call_advances:
  assumes "wp f (\<lambda>_ w'. wJ w' \<and> snd (ab_ag w') = snd (ab_ag w)) (\<lambda>_ w'. wJ w' \<and> snd (ab_ag w') = snd (ab_ag w)) w"
    and "plane_inv cfg w"
  shows "world_advances cfg w (snd (f w))"
  by (rule wp_invariantD [of f "world_advances cfg w"], rule wp_mono [OF assms(1)])
    (use assms(2) in \<open>auto simp: plane_inv_def advances_def ab_ro_def ab_ag_def\<close>)

lemma agents_contract_advances:
  assumes "contract wJ ab_ag (\<lambda>_. True) f R" and "\<And>d a d'. R d a d' \<Longrightarrow> snd d' = snd d" and "plane_inv cfg w"
  shows "world_advances cfg w (snd (f w))"
  by (rule agents_call_advances [OF wp_contract [OF assms(1)] assms(3)]) (use assms(2,3) in \<open>auto simp: plane_inv_def\<close>)

text \<open>Reading changes no store.\<close>

lemma registry_read_same:
  assumes "contract wJ ab_cr (\<lambda>_. True) f R" and "\<And>d a d'. R d a d' \<Longrightarrow> d' = d" and "wJ w"
  shows "wJ (snd (f w)) \<and> ab_ro (snd (f w)) = ab_ro w"
  by (rule wp_invariantD [of f "\<lambda>w'. wJ w' \<and> ab_ro w' = ab_ro w"], rule wp_contract [OF assms(1,3) TrueI])
    (use assms(2) in \<open>force simp: ab_ro_def ab_cr_def\<close>)+

lemma reads_change_nothing:
  assumes inv: "plane_inv cfg w"
  shows "wJ (serve_read cfg r w) \<and> ab_ro (serve_read cfg r w) = ab_ro w"
proof -
  have J: "wJ w" using inv by (simp add: plane_inv_def)
  show ?thesis
  proof (cases r)
    case ReadTenants
    show ?thesis unfolding ReadTenants serve_read.simps cr_ListTenants_def registry_service_sel
      by (rule registry_read_same [OF config_mem.ListTenants _ J]) simp
  next
    case (ReadTenant i)
    show ?thesis unfolding ReadTenant serve_read.simps cr_GetTenant_def registry_service_sel
      by (rule registry_read_same [OF config_mem.GetTenant _ J]) simp
  next
    case (ReadDefinitions i)
    show ?thesis unfolding ReadDefinitions serve_read.simps by (rule registry_read_same [OF registry.ListDefinitions_spec _ J]) simp
  next
    case (ReadDefinition i k)
    show ?thesis unfolding ReadDefinition serve_read.simps cr_GetDefinition_def registry_service_sel
      by (rule registry_read_same [OF config_mem.GetDefinitionByKey _ J]) simp
  next
    case (ReadVersions i k)
    show ?thesis unfolding ReadVersions serve_read.simps by (rule registry_read_same [OF registry.ListVersions_spec _ J]) simp
  next
    case (ReadEnvironmentState i k e)
    show ?thesis unfolding ReadEnvironmentState serve_read.simps by (rule registry_read_same [OF registry.GetEnvironmentState_spec _ J]) simp
  next
    case (ReadRollout i)
    have "wp (ro_GetRollout (rollouts_service cfg) i) (\<lambda>_ w'. wJ w' \<and> ab_ro w' = ab_ro w) (\<lambda>_ w'. wJ w' \<and> ab_ro w' = ab_ro w) w"
      unfolding ro_GetRollout_def wp_bind rollouts_service_sel
    proof (rule wp_contract [OF rollouts_mem.GetRollout J], goal_cases)
      case (2 x w1)
      have "rows_ok (fst (ab_ro w))" using inv by (simp add: plane_inv_def plane_ok_def rollouts_ok_def ab_ro_def)
      then have "nul_free (ro_ID x)" using 2(2) unfolding rows_ok_def by blast
      then show ?case by (intro wp_contract [OF rollouts_mem.ListStageTargets 2(1)]) (use 2 in \<open>auto simp: wp_simps\<close>)
    qed auto
    then show ?thesis unfolding ReadRollout serve_read.simps by (rule wp_invariantD)
  qed
qed

lemma serve_advances:
  assumes "plane_inv cfg w"
  shows "world_advances cfg w (serve cfg c w)"
proof (cases c)
  case (CallCreateTenant i)
  then show ?thesis using registry_call_advances [OF registry.CreateTenant_grows assms] by simp
next
  case (CallCreateDefinition i)
  then show ?thesis using registry_call_advances [OF registry.CreateDefinition_grows assms] by simp
next
  case (CallCreateVersion i)
  then show ?thesis using registry_call_advances [OF registry.CreateVersion_grows [of cfg i, simplified] assms] by simp
next
  case (CallSetStableVersion i)
  then show ?thesis using registry_call_advances [OF registry.SetStableVersion_grows assms] by simp
next
  case (CallRegister i)
  have "wp (ag_Register (agent_service cfg) i) (\<lambda>_ w'. wJ w' \<and> snd (ab_ag w') = snd (ab_ag w)) (\<lambda>_ w'. wJ w' \<and> snd (ab_ag w') = snd (ab_ag w)) w"
    by (rule wp_mono [OF agents.Register_spec]) (use assms in \<open>auto simp: plane_inv_def\<close>)
  then show ?thesis using agents_call_advances [OF _ assms] CallRegister by simp
next
  case (CallHeartbeat i token)
  then show ?thesis using agents_contract_advances [OF agents.Heartbeat_spec _ assms] by fastforce
next
  case (CallAcknowledgeSnapshot i)
  then show ?thesis using agents_contract_advances [OF agents.Acknowledge_spec _ assms] by fastforce
next
  case (CallCreateRollout i)
  have "wp (ro_CreateRollout (rollouts_service cfg) i) (\<lambda>_. world_advances cfg w) (\<lambda>_. world_advances cfg w) w"
    by (rule wp_mono [OF rollouts.CreateRollout_refines]) (use assms in \<open>auto simp: plane_inv_def ab_ro_def\<close>)
  then show ?thesis unfolding CallCreateRollout serve.simps by (rule wp_invariantD)
next
  case (CallAcknowledge i)
  have "arrives wJ ab_ro fst (cfg_validator cfg) (aki_RolloutID i) (ab_ro w) w"
    using assms rollouts.arrives_start [of w] by (simp add: plane_inv_def ab_ro_def)
  then have "arrives wJ ab_ro fst (cfg_validator cfg) (aki_RolloutID i) (ab_ro w) (snd (ro_Acknowledge (rollouts_service cfg) i w))"
    by (rule wp_invariantD [OF rollouts.Acknowledge_refines])
  then show ?thesis unfolding CallAcknowledge serve.simps by (rule arrives_advances)
next
  case CallReconcileActive
  have "wp (ro_ReconcileActive (rollouts_service cfg)) (\<lambda>_. world_advances cfg w) (\<lambda>_. world_advances cfg w) w"
    by (rule rollouts.ReconcileActive_refines) (use assms in \<open>auto simp: plane_inv_def ab_ro_def\<close>)
  then show ?thesis unfolding CallReconcileActive serve.simps by (rule wp_invariantD)
next
  case (CallRead r)
  have "wJ (serve_read cfg r w) \<and> ab_ro (serve_read cfg r w) = ab_ro w"
    by (rule reads_change_nothing [OF assms])
  then show ?thesis using assms unfolding CallRead serve.simps
    by (auto simp: advances_def plane_inv_def ab_ro_def)
qed

lemma plane_inv_advances:
  assumes "plane_inv cfg w" and "world_advances cfg w w'"
  shows "plane_inv cfg w'"
proof -
  have "registry_ok (cr_abs (w_registry w))" using assms(1) wJ_registry_ok [of w] by (simp add: plane_inv_def ab_ro_def)
  then show ?thesis using assms unfolding plane_inv_def world_advances_iff registry_grows_def by blast
qed

lemma reachable_inv: "reachable cfg w \<Longrightarrow> plane_inv cfg w"
  by (induction rule: reachable.induct) (blast intro: plane_inv_initial plane_inv_advances serve_advances)+

lemma serve_all_advances:
  "plane_inv cfg w \<Longrightarrow> world_advances cfg w (serve_all cfg cs w)"
proof (induction cs arbitrary: w)
  case Nil
  then show ?case by (simp add: serve_all_def plane_inv_def world_advances_iff)
next
  case (Cons c cs)
  have adv: "world_advances cfg w (serve cfg c w)" using Cons.prems by (rule serve_advances)
  then have "world_advances cfg (serve cfg c w) (serve_all cfg cs (serve cfg c w))"
    using Cons plane_inv_advances by blast
  with adv show ?case using rollouts.advances_trans [OF adv] by (simp add: serve_all_def)
qed

end
