(* ===== verification/Rollout_Decision.thy ===== *)
theory Rollout_Decision
  imports Rollout_Service
begin

section \<open>What a reconciliation decides: the conditions of a promotion\<close>

text \<open>
  These theorems hold for every store, registry, clock and metrics source: they follow a
  successful run of \<open>reconcileRollout\<close> back to the values that it read. A rollout moves to its next
  stage or completes only if the acknowledgements reached the required coverage, the stage
  lasted its minimum duration, the rollout is within its maximum duration and every
  guardrail was evaluated as healthy.
\<close>

subsection \<open>Which decisions change what\<close>

lemma transition_result: "transition svc r s w = (Inr r', w') \<Longrightarrow> ro_State r' = s \<and> ro_CurrentStageIndex r' = ro_CurrentStageIndex r"
  by (auto simp: transition_def run_Inr Let_def)

lemma finish_rollback_result:
  "finish_rollback svc r s w = (Inr r', w') \<Longrightarrow> ro_State r' = StateRolledBack \<and> ro_RollbackStatus r' = s \<and> ro_CurrentStageIndex r' = ro_CurrentStageIndex r"
  by (auto simp: finish_rollback_def run_Inr Let_def)

lemma act_on_decision_moves:
  assumes "act_on_decision svc d r ss w = (Inr r', w')" and "ro_State r \<noteq> StateCompleted"
    and "ro_CurrentStageIndex r' \<noteq> ro_CurrentStageIndex r \<or> ro_State r' = StateCompleted"
  shows "d = DecisionPromote"
  using assms by (cases d) (auto simp: act_on_decision_def startRollback_def run_Inr split: if_splits dest!: transition_result)

text \<open>The guardrail loop evaluates every rule, in order.\<close>

lemma guardrail_loop_evaluations:
  assumes "guardrail_loop svc t rules fs es w = (Inr (fs', es'), w')"
  shows "\<exists>new. es' = es @ new \<and> map eval_Name new = map rule_Name rules"
  using assms
proof (induction rules arbitrary: fs es w)
  case Nil
  then show ?case by (simp add: run_Inr)
next
  case (Cons rule rules)
  then obtain e w1 where e: "evaluate_rule svc rule (failures_of fs (rule_Name rule)) t w = (Inr e, w1)"
    and rest: "guardrail_loop svc t rules (gomap_set (rule_Name rule) (eval_ConsecutiveFailures e) fs) (es @ [e]) w1 = (Inr (fs', es'), w')"
    by (auto simp: run_Inr)
  have "eval_Name e = rule_Name rule"
  proof (cases "ros_queryer svc")
    case (Some q)
    then obtain a where "EvaluateAnswer rule a (failures_of fs (rule_Name rule)) t = Inr e"
      using e by (auto simp: evaluate_rule_def run_Inr EvaluateAnswer_def)
    then show ?thesis by (cases a) (auto simp: EvaluateAnswer_def dest!: EvaluateQueryResult_Inr)
  qed (use e in \<open>auto simp: evaluate_rule_def run_Inr dest!: Unknown_Inr\<close>)
  then show ?case using Cons.IH [OF rest] by fastforce
qed

definition guardrails_healthy :: "'w ro_Service \<Rightarrow> Rollout \<Rightarrow> go_time \<Rightarrow> 'w \<Rightarrow> bool" where
  "guardrails_healthy svc r now w \<longleftrightarrow>
     ro_Guardrails r = [] \<or>
     (\<exists>fs es w'. guardrail_loop svc now (ro_Guardrails r) (ro_GuardrailFailures r) [] w = (Inr (fs, es), w') \<and>
        map eval_Name es = map rule_Name (ro_Guardrails r) \<and> (\<forall>e \<in> set es. eval_Status e = StatusHealthy))"

lemma evaluateGuardrails_healthy:
  assumes "evaluateGuardrails svc r now w = (Inr (StatusHealthy, r'), w')"
  shows "guardrails_healthy svc r now w"
proof -
  obtain fs es w1 where "guardrail_loop svc now (ro_Guardrails r) (ro_GuardrailFailures r) [] w = (Inr (fs, es), w1)"
      "AggregateStatus es = StatusHealthy"
    using assms by (auto simp: evaluateGuardrails_def run_Inr Let_def)
  then show ?thesis using guardrail_loop_evaluations [of svc now "ro_Guardrails r" "ro_GuardrailFailures r" "[]" w]
    by (fastforce simp: guardrails_healthy_def AggregateStatus_Healthy)
qed

lemma evaluateGuardrails_fields:
  assumes "evaluateGuardrails svc r now w = (Inr (st, r'), w')"
  shows "ro_State r' = ro_State r \<and> ro_CurrentStageIndex r' = ro_CurrentStageIndex r"
  using assms by (auto simp: evaluateGuardrails_def run_Inr Let_def)

lemma evaluateStageDecision_fields:
  assumes "evaluateStageDecision svc r ts st w = (Inr (d, r'), w')"
  shows "ro_State r' = ro_State r \<and> ro_CurrentStageIndex r' = ro_CurrentStageIndex r"
  using assms by (auto simp: evaluateStageDecision_def run_Inr Let_def split: if_splits dest!: evaluateGuardrails_fields)

lemma evaluateStageDecision_promote:
  assumes "evaluateStageDecision svc r ts st w = (Inr (DecisionPromote, r'), w')" and "ros_now svc w = (now, w1)"
  shows "CoverageReached ts (ro_RequiredAckPercent r)"
    and "stage_MinimumDuration st \<le> time_Sub now (ro_StageStartedAt r)"
    and "ro_RolloutMaxDuration r \<le> 0 \<or> time_Sub now (ro_CreatedAt r) < ro_RolloutMaxDuration r"
    and "guardrails_healthy svc r now w1"
proof -
  let ?i = "\<lparr>spi_Targets = ts, spi_RequiredAckPercentage = ro_RequiredAckPercent r, spi_StageStartedAt = ro_StageStartedAt r,
    spi_Now = now, spi_MinimumDuration = stage_MinimumDuration st, spi_DeploymentTimeout = ro_DeploymentTimeout r\<rparr>"
  have ok: "\<not> (0 < ro_RolloutMaxDuration r \<and> ro_RolloutMaxDuration r \<le> time_Sub now (ro_CreatedAt r))"
    using assms by (auto simp: evaluateStageDecision_def run_Inr split: if_splits)
  then show "ro_RolloutMaxDuration r \<le> 0 \<or> time_Sub now (ro_CreatedAt r) < ro_RolloutMaxDuration r" by linarith
  have p: "EvaluateStageProgress ?i = DecisionPromote"
    using assms ok by (auto simp: evaluateStageDecision_def run_Inr Let_def split: if_splits)
  then show "CoverageReached ts (ro_RequiredAckPercent r)" "stage_MinimumDuration st \<le> time_Sub now (ro_StageStartedAt r)"
    by (auto simp: EvaluateStageProgress_def Let_def split: if_splits)
  show "guardrails_healthy svc r now w1"
  proof (cases "ro_Guardrails r = []")
    case False
    then obtain status ev w2 where "evaluateGuardrails svc r now w1 = (Inr (status, ev), w2)"
        "(case status of StatusHealthy \<Rightarrow> DecisionPromote | StatusUnhealthy \<Rightarrow> DecisionRollback | StatusUnknown \<Rightarrow> DecisionPause) = DecisionPromote"
      using assms ok p by (auto simp: evaluateStageDecision_def run_Inr Let_def split: if_splits)
    then show ?thesis by (cases status) (auto intro: evaluateGuardrails_healthy)
  qed (simp add: guardrails_healthy_def)
qed

subsection \<open>The theorems\<close>

text \<open>C2 (safety). A reconciliation moves a rollout to another stage, or completes it, only when the conditions of a
  promotion hold of what it read: the stored targets of the current stage reached the required acknowledgement
  coverage, the stage has lasted its minimum duration, the rollout is within its maximum duration, and every
  guardrail of the rollout was evaluated as healthy. This holds whatever the store, the clock and the metrics source do.\<close>
theorem promotion_needs_coverage_time_and_guardrails:
  assumes run: "reconcileRollout svc r w = (Inr r', w')" and st: "ro_State r \<in> {StateDeploying, StatePaused}"
    and moved: "ro_CurrentStageIndex r' \<noteq> ro_CurrentStageIndex r \<or> ro_State r' = StateCompleted"
  shows "\<exists>ts ss w1 w2 now w3.
    st_ListStageTargets (ros_store svc) (ro_ID r) (ro_CurrentStageID r) w = (Inr ts, w1) \<and>
    st_ListStages (ros_store svc) (ro_ID r) w1 = (Inr ss, w2) \<and> ros_now svc w2 = (now, w3) \<and>
    CoverageReached ts (ro_RequiredAckPercent r) \<and>
    stage_MinimumDuration (ss ! nat (ro_CurrentStageIndex r)) \<le> time_Sub now (ro_StageStartedAt r) \<and>
    (ro_RolloutMaxDuration r \<le> 0 \<or> time_Sub now (ro_CreatedAt r) < ro_RolloutMaxDuration r) \<and>
    guardrails_healthy svc r now w3"
proof -
  obtain ts ss w1 w2 d ev w4 where parts: "st_ListStageTargets (ros_store svc) (ro_ID r) (ro_CurrentStageID r) w = (Inr ts, w1)"
      "st_ListStages (ros_store svc) (ro_ID r) w1 = (Inr ss, w2)"
      "evaluateStageDecision svc r ts (ss ! nat (ro_CurrentStageIndex r)) w2 = (Inr (d, ev), w4)"
      "act_on_decision svc d ev ss w4 = (Inr r', w')"
    using run st by (auto simp: reconcileRollout_def run_Inr split: if_splits)
  have "ro_State ev = ro_State r \<and> ro_CurrentStageIndex ev = ro_CurrentStageIndex r"
    using evaluateStageDecision_fields [OF parts(3)] .
  then have "d = DecisionPromote" using act_on_decision_moves [OF parts(4)] st moved by auto
  then have promote: "evaluateStageDecision svc r ts (ss ! nat (ro_CurrentStageIndex r)) w2 = (Inr (DecisionPromote, ev), w4)"
    using parts(3) by simp
  obtain now w3 where now: "ros_now svc w2 = (now, w3)" by (cases "ros_now svc w2")
  note c = evaluateStageDecision_promote [OF promote now]
  show ?thesis by (intro exI conjI) (rule parts(1) parts(2) now c)+
qed

text \<open>The verification of a rollback ends exactly by one of two outcomes: it is verified when the
  targets of the verification stage reached the coverage or there are none, it is partial when a rollback timeout is
  set and has passed without that coverage; otherwise the rollout is returned unchanged.\<close>
theorem rollback_verification_outcome:
  assumes "reconcileRollback svc r ts w = (Inr r', w')" and "ro_CurrentStageID r = rollbackVerificationStageID (ro_ID r)"
  shows "if CoverageReached ts (ro_RequiredAckPercent r) \<or> ts = []
         then ro_State r' = StateRolledBack \<and> ro_RollbackStatus r' = RollbackStatusVerified
         else if 0 < ro_RollbackTimeout r \<and> ro_RollbackTimeout r \<le> time_Sub (fst (ros_now svc w)) (ro_StageStartedAt r)
         then ro_State r' = StateRolledBack \<and> ro_RollbackStatus r' = RollbackStatusPartial
         else r' = r"
  using assms by (auto simp: reconcileRollback_def run_Inr split: if_splits dest!: finish_rollback_result)

end
