(* ===== verification/Scenario.thy ===== *)
theory Scenario
  imports Control_Plane Rollout_Decision
begin

section \<open>A concrete history of the control plane\<close>

text \<open>
  A tenant, a definition, two versions, a stable pointer, two agents, a rollout and its
  acknowledgements, served from the empty stores. The witnesses of the theorems evaluate this history.
\<close>

text \<open>The clock advances by a second per reading and jumps ahead at readings 90 and 120; the metrics source answers from reading 45 on.\<close>

definition demo_oracle :: Oracle where
  "demo_oracle = \<lparr>orc_now = (\<lambda>n. (if n < 90 then int n else if n < 120 then int n + 2000 else int n + 4000) * Second), orc_entropy = (\<lambda>n. [of_nat n]),
     orc_ctx = (\<lambda>_. None), orc_query = (\<lambda>n _ _. if n < 45 then Inl (Errorf ''unavailable'' []) else Inr (Fin 1)), orc_order = (\<lambda>_. [])\<rparr>"

definition demo_validator :: SchemaValidator where
  "demo_validator = \<lparr>sv_ValidateSchema = (\<lambda>_. None),
     sv_ValidateValue = (\<lambda>_ v. if v = ''null'' then Some (Errorf ''null'' []) else None)\<rparr>"

definition demo_config :: Config where
  "demo_config = \<lparr>cfg_validator = demo_validator, cfg_bootstrapToken = ''boot'', cfg_credentialTTL = 0, cfg_prometheus = True,
     cfg_oracle = demo_oracle\<rparr>"

definition demo_setup :: "Call list" where
  "demo_setup =
    [CallCreateTenant \<lparr>cti_ID = ''t'', cti_Name = ''n'', cti_Description = [], cti_Owner = ''o''\<rparr>,
     CallCreateDefinition \<lparr>cdi_TenantID = ''t'', cdi_Key = ''k'', cdi_Description = [], cdi_Schema = ''{}'', cdi_DefaultValue = ''0''\<rparr>,
     CallCreateVersion \<lparr>cvi_TenantID = ''t'', cvi_Key = ''k'', cvi_Value = ''1'', cvi_SourceCommitSHA = [], cvi_CreatedBy = ''c''\<rparr>,
     CallCreateVersion \<lparr>cvi_TenantID = ''t'', cvi_Key = ''k'', cvi_Value = ''2'', cvi_SourceCommitSHA = [], cvi_CreatedBy = ''c''\<rparr>,
     CallSetStableVersion \<lparr>ssv_TenantID = ''t'', ssv_Key = ''k'', ssv_Environment = ''production'', ssv_VersionNumber = 1\<rparr>,
     CallRegister \<lparr>rgi_BootstrapToken = ''boot'', rgi_ID = ''a'', rgi_Service = ''s'', rgi_Environment = ''production'', rgi_Zone = ''z'', rgi_Instance = ''i'', rgi_Labels = []\<rparr>]"

definition demo_rule :: Rule where
  "demo_rule = \<lparr>rule_Name = ''errors'', rule_Query = ''q'', rule_Operator = ''<'', rule_Threshold = Fin 2, rule_ConsecutiveFailures = 2\<rparr>"

definition demo_create :: Call where
  "demo_create = CallCreateRollout \<lparr>cri_TenantID = ''t'', cri_Key = ''k'', cri_Environment = ''production'', cri_CandidateVersionNumber = 2,
     cri_TargetServices = [''s''], cri_Stages = [\<lparr>stage_ID = ''all'', stage_Percentage = 100, stage_MinimumDuration = 0\<rparr>], cri_Guardrails = [demo_rule],
     cri_RequiredAckPercentage = Fin 100, cri_DeploymentTimeout = 0, cri_RolloutMaxDuration = 0, cri_RollbackTimeout = 0\<rparr>"

text \<open>The world these calls lead to, written out.\<close>

definition demo_registry :: cr_MemoryStore where
  "demo_registry = \<lparr>cms_tenants = [(''t'', \<lparr>tenant_ID = ''t'', tenant_Name = ''n'', tenant_Description = [], tenant_Owner = ''o'', tenant_CreatedAt = 0,
    tenant_UpdatedAt = 0\<rparr>)], cms_definitions = [(''cfg_04'', \<lparr>def_ID = ''cfg_04'', def_TenantID = ''t'', def_Key = ''k'',
    def_Description = [], def_Schema = ''{}'', def_DefaultValue = ''0'', def_CreatedAt = 3000000000, def_UpdatedAt = 3000000000\<rparr>)],
    cms_definitionsByKey = [(''t'' @ [nul] @ ''k'', ''cfg_04'')], cms_versions = [(''cfg_04'', [\<lparr>ver_ID = ''ver_07'', ver_ConfigDefinitionID =
    ''cfg_04'', ver_VersionNumber = 1, ver_Value = ''1'', ver_SourceCommitSHA = [], ver_CreatedBy = ''c'', ver_CreatedAt = 8000000000\<rparr>,
    \<lparr>ver_ID = ''ver_0b'', ver_ConfigDefinitionID = ''cfg_04'', ver_VersionNumber = 2, ver_Value = ''2'', ver_SourceCommitSHA = [],
    ver_CreatedBy = ''c'', ver_CreatedAt = 12000000000\<rparr>])], cms_versionsByNumber = [(''cfg_04'' @ [nul] @ ''1'', \<lparr>ver_ID = ''ver_07'',
    ver_ConfigDefinitionID = ''cfg_04'', ver_VersionNumber = 1, ver_Value = ''1'', ver_SourceCommitSHA = [], ver_CreatedBy = ''c'', ver_CreatedAt =
    8000000000\<rparr>), (''cfg_04'' @ [nul] @ ''2'', \<lparr>ver_ID = ''ver_0b'', ver_ConfigDefinitionID = ''cfg_04'', ver_VersionNumber = 2,
    ver_Value = ''2'', ver_SourceCommitSHA = [], ver_CreatedBy = ''c'', ver_CreatedAt = 12000000000\<rparr>)], cms_states = [(''cfg_04'' @ [nul] @
    ''production'', \<lparr>env_ConfigDefinitionID = ''cfg_04'', env_Environment = ''production'', env_StableVersionID = ''ver_07'',
    env_ActiveRolloutID = [], env_UpdatedAt = 17000000000\<rparr>)]\<rparr>"

definition demo_agents :: ag_MemoryStore where
  "demo_agents = \<lparr>ams_agents = [(''a'', \<lparr>agent_ID = ''a'', agent_Service = ''s'', agent_Environment = ''production'', agent_Zone = ''z'', agent_Instance
    = ''i'', agent_Labels = [], agent_RegisteredAt = 19000000000, agent_LastSeenAt = 19000000000\<rparr>)], ams_credentials = [(''cred_14'',
    \<lparr>cred_Token = ''cred_14'', cred_AgentID = ''a'', cred_ExpiresAt = 919000000000, cred_CreatedAt = 19000000000\<rparr>)],
    ams_acknowledgements = []\<rparr>"

definition demo_rollouts :: ro_MemoryStore where
  "demo_rollouts = \<lparr>rms_rollouts = [(''rollout_1d'', \<lparr>ro_ID = ''rollout_1d'', ro_ConfigDefinitionID = ''cfg_04'', ro_TenantID = ''t'', ro_ConfigKey =
    ''k'', ro_Environment = ''production'', ro_TargetServices = [''s''], ro_StableVersionID = ''ver_07'', ro_CandidateVersionID = ''ver_0b'',
    ro_CandidateVersion = 2, ro_State = StateDeploying, ro_CurrentStageID = ''all'', ro_CurrentStageIndex = 0, ro_RequiredAckPercent = Fin 100,
    ro_Guardrails = [\<lparr>rule_Name = ''errors'', rule_Query = ''q'', rule_Operator = ''<'', rule_Threshold = Fin 2, rule_ConsecutiveFailures =
    2\<rparr>], ro_GuardrailFailures = [], ro_StageStartedAt = 28000000000, ro_DeploymentTimeout = 90000000000, ro_RolloutMaxDuration = 900000000000,
    ro_RollbackTimeout = 120000000000, ro_RollbackStatus = RollbackStatusNone, ro_CreatedAt = 28000000000, ro_UpdatedAt = 28000000000\<rparr>)],
    rms_activeRollout = [(''cfg_04'' @ [nul] @ ''production'', ''rollout_1d'')], rms_stages = [(''rollout_1d'', [\<lparr>stage_ID = ''all'',
    stage_Percentage = 100, stage_MinimumDuration = 0\<rparr>])], rms_targets = [(''rollout_1d'' @ [nul] @ ''all'', [\<lparr>tgt_RolloutID =
    ''rollout_1d'', tgt_StageID = ''all'', tgt_AgentID = ''a'', tgt_Bucket = 5893, tgt_ExpectedVersionID = ''ver_0b'', tgt_SnapshotRevision = 1,
    tgt_CreatedAt = 33000000000, tgt_AckedAt = 0, tgt_Status = TargetPending\<rparr>])], rms_nextRevision = 2\<rparr>"

definition demo_world :: World where
  "demo_world = \<lparr>w_registry = demo_registry, w_agents = demo_agents, w_rollouts = demo_rollouts, w_tick = 35\<rparr>"

lemma demo_world_served: "serve_all demo_config (demo_setup @ [demo_create]) initial_world = demo_world"
  by code_simp

lemma demo_world_reachable: "reachable demo_config demo_world"
  unfolding demo_world_served [symmetric] by (intro reachable_serve_all reachable.start)

text \<open>
  The agent acknowledges: the stage is covered, but the guardrail is unknown, so the rollout pauses. \<open>demo_late\<close> is
  the same rollout some rejected calls later, when the clock has jumped past its maximum duration.
\<close>

definition demo_ack :: Call where
  "demo_ack = CallAcknowledge \<lparr>aki_RolloutID = ''rollout_1d'', aki_StageID = ''all'', aki_AgentID = ''a'',
     aki_VersionID = ''ver_0b'', aki_SnapshotRevision = 1\<rparr>"

definition demo_paused :: World where
  "demo_paused = serve demo_config demo_ack demo_world"

definition demo_late :: World where
  "demo_late = serve_all demo_config (replicate 6 demo_create) demo_paused"

text \<open>Two reconciliations later the rollback is in its verification, whose timeout then passes.\<close>

definition demo_verifying :: World where
  "demo_verifying = serve_all demo_config [CallReconcileActive, CallReconcileActive, demo_create, demo_create] demo_late"

lemma demo_paused_reachable: "reachable demo_config demo_paused"
  unfolding demo_paused_def by (rule reachable.served [OF demo_world_reachable])

lemma demo_late_reachable: "reachable demo_config demo_late"
  unfolding demo_late_def by (rule reachable_serve_all [OF demo_paused_reachable])

lemma demo_verifying_reachable: "reachable demo_config demo_verifying"
  unfolding demo_verifying_def by (rule reachable_serve_all [OF demo_late_reachable])

end
