(* ===== verification/Plane_Theorems.thy ===== *)
theory Plane_Theorems
  imports Scenario
begin

section \<open>What holds in every reachable state of the control plane\<close>

text \<open>
  The theorems are about the concrete in-memory stores of a reachable world: after any
  sequence of calls, each of which may have failed at any of its store operations. They
  follow from the invariant \<open>plane_inv\<close> and from \<open>serve_all_advances\<close>.
\<close>

abbreviation stored_rollout :: "World \<Rightarrow> string \<Rightarrow> Rollout option" where
  "stored_rollout w i \<equiv> gomap_get (rms_rollouts (w_rollouts w)) i"

abbreviation stored_stages :: "World \<Rightarrow> string \<Rightarrow> Stage list option" where
  "stored_stages w i \<equiv> gomap_get (rms_stages (w_rollouts w)) i"

abbreviation stored_versions :: "World \<Rightarrow> string \<Rightarrow> ConfigVersion list" where
  "stored_versions w c \<equiv> gomap_slice (cms_versions (w_registry w)) c"

lemma ro_abs_sel:
  "db_rollouts (ro_abs s) = gomap_get (rms_rollouts s)" "db_stages (ro_abs s) = gomap_get (rms_stages s)"
  by (simp_all add: ro_abs_def)

lemma cr_abs_sel: "reg_versions (cr_abs s) = gomap_slice (cms_versions s)" "reg_tenants (cr_abs s) = gomap_get (cms_tenants s)"
  by (simp_all add: cr_abs_def)

lemma reachable_parts:
  assumes "reachable cfg w"
  shows "wJ w" "rows_ok (ro_abs (w_rollouts w))" "targets_ok (ro_abs (w_rollouts w))" "one_active (ro_abs (w_rollouts w))"
    "pointers_ok (cr_abs (w_registry w))" "all_linked (ro_abs (w_rollouts w)) (cr_abs (w_registry w))"
    "values_ok (cfg_validator cfg) (cr_abs (w_registry w))" "registry_ok (cr_abs (w_registry w))"
  using reachable_inv [OF assms] wJ_registry_ok [of w]
  by (auto simp: plane_inv_def plane_ok_def rollouts_ok_def ab_ro_def)

lemma demo_stored:
  "stored_rollout demo_world ''rollout_1d'' = Some (snd (hd (rms_rollouts demo_rollouts)))"
  "stored_versions demo_world ''cfg_04'' = snd (hd (cms_versions demo_registry))"
  by code_simp+

subsection \<open>Rollouts\<close>

text \<open>C1 (invariant). At most one rollout is active per configuration definition and environment: two stored
  rollouts that are not terminal and have the same definition and environment are the same rollout.\<close>
theorem at_most_one_active_rollout:
  assumes "reachable cfg w"
    and "stored_rollout w i = Some r" and "stored_rollout w j = Some q"
    and "\<not> Terminal (ro_State r)" and "\<not> Terminal (ro_State q)"
    and "ro_ConfigDefinitionID r = ro_ConfigDefinitionID q" and "ro_Environment r = ro_Environment q"
  shows "i = j"
proof -
  have "ro_ID r = i" "ro_ID q = j" using reachable_parts(2) [OF assms(1)] assms(2,3) by (auto simp: rows_ok_def ro_abs_sel)
  moreover have "r = q" using reachable_parts(4) [OF assms(1)] assms calculation
    by (auto simp: one_active_def is_active_def same_slot_def ro_abs_sel)
  ultimately show ?thesis by simp
qed

theorem at_most_one_active_rollout_witness:
  "\<not> (\<exists>j q. stored_rollout demo_world j = Some q \<and> \<not> Terminal (ro_State q) \<and>
     ro_ConfigDefinitionID q = ''cfg_04'' \<and> ro_Environment q = ''production'' \<and> ''rollout_1d'' \<noteq> j)"
proof
  assume "\<exists>j q. stored_rollout demo_world j = Some q \<and> \<not> Terminal (ro_State q) \<and>
     ro_ConfigDefinitionID q = ''cfg_04'' \<and> ro_Environment q = ''production'' \<and> ''rollout_1d'' \<noteq> j"
  then obtain j q where q: "stored_rollout demo_world j = Some q" "\<not> Terminal (ro_State q)" "ro_ConfigDefinitionID q = ''cfg_04''"
    "ro_Environment q = ''production''" "''rollout_1d'' \<noteq> j" by blast
  let ?r = "snd (hd (rms_rollouts demo_rollouts))"
  have r: "\<not> Terminal (ro_State ?r)" "ro_ConfigDefinitionID ?r = ''cfg_04''" "ro_Environment ?r = ''production''" by code_simp+
  have "''rollout_1d'' = j"
    by (rule at_most_one_active_rollout [OF demo_world_reachable demo_stored(1) q(1) r(1) q(2)]) (simp_all add: r q)
  then show False using q(5) by simp
qed

text \<open>C5 (type). Every stored rollout is well formed: it is stored under its identifier; its state is one of the five states
  that the service writes; its plan is a valid plan of stages, its stage index is a position of the plan and its stage identifier is
  that of this stage, except while or after a rollback is verified; it is completed only at the last stage; it has a rollback outcome
  exactly when it is rolled back; and its stable version is set and differs from its candidate.\<close>
theorem stored_rollout_well_formed:
  assumes "reachable cfg w" and "stored_rollout w i = Some r"
  shows "ro_ID r = i \<and> valid_env (ro_Environment r) \<and>
    ro_State r \<in> {StateDeploying, StatePaused, StateRollingBack, StateCompleted, StateRolledBack} \<and>
    (ro_State r = StateRolledBack \<longleftrightarrow> ro_RollbackStatus r \<noteq> RollbackStatusNone) \<and>
    ro_StableVersionID r \<noteq> [] \<and> ro_StableVersionID r \<noteq> ro_CandidateVersionID r \<and>
    (\<exists>ss. stored_stages w i = Some ss \<and> stages_ok r ss)"
  using reachable_parts(2) [OF assms(1)] assms(2) by (simp add: rows_ok_def row_ok_def ro_abs_sel) blast

theorem stored_rollout_well_formed_witness:
  "ro_ID (snd (hd (rms_rollouts demo_rollouts))) = ''rollout_1d'' \<and>
     (\<exists>ss. stored_stages demo_world ''rollout_1d'' = Some ss \<and> stages_ok (snd (hd (rms_rollouts demo_rollouts))) ss)"
  using stored_rollout_well_formed [OF demo_world_reachable demo_stored(1)] by blast

text \<open>C4 (safety). A rollout only moves forward: whatever calls follow, it is still stored, the fields that identify it
  (versions, environment, targets, limits) never change, its stage index never decreases, its state only changes to a later one
  (a rollback never returns to deployment), and a rollout in a terminal state never changes again.\<close>
theorem rollouts_only_move_forward:
  assumes "reachable cfg w" and "stored_rollout w i = Some r"
  shows "\<exists>r'. stored_rollout (serve_all cfg cs w) i = Some r' \<and> progress r r'"
proof -
  have "ro_steps (ro_abs (w_rollouts w)) (ro_abs (w_rollouts (serve_all cfg cs w)))"
    using serve_all_advances [OF reachable_inv [OF assms(1)]] by (simp add: world_advances_iff)
  moreover have "rollouts_ok (ro_abs (w_rollouts w))" using reachable_inv [OF assms(1)] by (simp add: plane_inv_def plane_ok_def)
  moreover have "db_rollouts (ro_abs (w_rollouts w)) i = Some r" using assms(2) by (simp add: ro_abs_sel)
  ultimately have "\<exists>r'. db_rollouts (ro_abs (w_rollouts (serve_all cfg cs w))) i = Some r' \<and> progress r r'"
    using steps_progress by blast
  then show ?thesis by (simp add: ro_abs_sel)
qed

theorem rollouts_only_move_forward_witness:
  "\<exists>r'. stored_rollout (serve_all demo_config [demo_create, CallReconcileActive] demo_world) ''rollout_1d'' = Some r' \<and>
     progress (snd (hd (rms_rollouts demo_rollouts))) r'"
  by (rule rollouts_only_move_forward [OF demo_world_reachable demo_stored(1)])

text \<open>Every stored target belongs to the rollout and stage it is stored under, and expects one of the two versions of
  this rollout: the candidate, or, in the stage that verifies a rollback only, the stable version.\<close>
theorem targets_expect_versions_of_their_rollout:
  assumes "reachable cfg w" and "nul_free i" and "t \<in> set (gomap_slice (rms_targets (w_rollouts w)) (targetKey i sid))"
  shows "tgt_RolloutID t = i \<and> tgt_StageID t = sid \<and>
    (\<exists>r. stored_rollout w i = Some r \<and>
       (tgt_ExpectedVersionID t = ro_CandidateVersionID r \<or>
        tgt_ExpectedVersionID t = ro_StableVersionID r \<and> sid = rollbackVerificationStageID i))"
proof -
  have "t \<in> set (db_targets (ro_abs (w_rollouts w)) i sid)" using assms(2,3) by (simp add: ro_abs_def)
  then show ?thesis using reachable_parts(3) [OF assms(1)] by (auto simp: targets_ok_def target_ok_def ro_abs_sel)
qed

theorem targets_expect_versions_of_their_rollout_witness:
  "let t = hd (gomap_slice (rms_targets demo_rollouts) (targetKey ''rollout_1d'' ''all''))
   in tgt_AgentID t = ''a'' \<and> tgt_RolloutID t = ''rollout_1d'' \<and> tgt_StageID t = ''all''"
proof -
  define t where "t = hd (gomap_slice (rms_targets demo_rollouts) (targetKey ''rollout_1d'' ''all''))"
  have nf: "nul_free ''rollout_1d''" by (simp add: nul_free_def nul_def)
  have mem: "t \<in> set (gomap_slice (rms_targets (w_rollouts demo_world)) (targetKey ''rollout_1d'' ''all''))"
    unfolding t_def by code_simp
  have "tgt_AgentID t = ''a''" unfolding t_def by code_simp
  with targets_expect_versions_of_their_rollout [OF demo_world_reachable nf mem] show ?thesis
    unfolding t_def [symmetric] Let_def by simp
qed

text \<open>The two versions of a stored rollout are versions that the registry stores for the rollout's definition, and the
  definition is the one stored under the rollout's tenant and key; this stays so while the registry grows.\<close>
theorem rollout_versions_are_registered:
  assumes "reachable cfg w" and "stored_rollout w i = Some r"
  shows "\<exists>x v. reg_defs (cr_abs (w_registry w)) (definitionKey (ro_TenantID r) (ro_ConfigKey r)) = Some x \<and>
    def_ID x = ro_ConfigDefinitionID r \<and> v \<in> set (stored_versions w (def_ID x)) \<and>
    ver_ID v = ro_CandidateVersionID r \<and> ver_VersionNumber v = ro_CandidateVersion r \<and>
    ro_StableVersionID r \<in> ver_ID ` set (stored_versions w (def_ID x))"
  using reachable_parts(6) [OF assms(1)] assms(2) by (auto simp: all_linked_def linked_def ro_abs_sel cr_abs_sel)

theorem rollout_versions_are_registered_witness:
  "''ver_07'' \<in> ver_ID ` set (stored_versions demo_world ''cfg_04'')"
proof -
  have "ro_StableVersionID (snd (hd (rms_rollouts demo_rollouts))) = ''ver_07''"
    "ro_ConfigDefinitionID (snd (hd (rms_rollouts demo_rollouts))) = ''cfg_04''" by code_simp+
  then show ?thesis using rollout_versions_are_registered [OF demo_world_reachable demo_stored(1)] by auto
qed

text \<open>C3 (safety). A rollout completes only with its candidate installed: when the reconciliation of an active rollout returns it as
  completed, the completed rollout is what the store holds, and the stable pointer of its definition and environment is its candidate version.\<close>
theorem completed_rollout_is_stable:
  assumes "reachable cfg w" and "stored_rollout w i = Some r" and "\<not> Terminal (ro_State r)"
    and "reconcileRollout (rollouts_service cfg) r w = (Inr r', w')" and "ro_State r' = StateCompleted"
  shows "stored_rollout w' i = Some r' \<and>
    (\<exists>st. reg_states (cr_abs (w_registry w')) (ro_ConfigDefinitionID r) (ro_Environment r) = Some st \<and>
       env_StableVersionID st = ro_CandidateVersionID r)"
proof -
  have id: "ro_ID r = i" using reachable_parts(2) [OF assms(1)] assms(2) by (auto simp: rows_ok_def)
  have "is_active (fst (ab_ro w)) r" using assms(2,3) id by (simp add: is_active_def ab_ro_def)
  moreover have start: "arrives wJ ab_ro fst (cfg_validator cfg) (ro_ID r) (ab_ro w) w"
    using reachable_inv [OF assms(1)] rollouts.arrives_start [of w] by (simp add: plane_inv_def ab_ro_def)
  ultimately have "wp (reconcileRollout (rollouts_service cfg) r)
      (\<lambda>r' w'. arrives wJ ab_ro fst (cfg_validator cfg) (ro_ID r) (ab_ro w) w' \<and> lands ab_ro fst r r' w')
      (\<lambda>_ w'. arrives wJ ab_ro fst (cfg_validator cfg) (ro_ID r) (ab_ro w) w') w"
    by (intro rollouts.reconcileRollout_refines)
  then have w': "ro_steps (ro_abs (w_rollouts w)) (ro_abs (w_rollouts w'))" "lands ab_ro fst r r' w'"
    using assms(4) by (simp_all add: wp_def arrives_def ab_ro_def)
  moreover have "rollouts_ok (ro_abs (w_rollouts w))" using reachable_inv [OF assms(1)] by (simp add: plane_inv_def plane_ok_def)
  ultimately obtain q where "gomap_get (rms_rollouts (w_rollouts w')) i = Some q" "progress r q"
    using steps_progress [of "ro_abs (w_rollouts w)" "ro_abs (w_rollouts w')" i r] assms(2) by auto
  moreover have "stored_rollout w' i = Some r'" using w'(2) id by (simp add: lands_def ab_ro_def)
  ultimately have "identity r' = identity r" by (simp add: progress_def)
  then show ?thesis using w'(2) assms(5) id identity_fields [of r' r]
    by (auto simp: lands_def stable_is_candidate_def ab_ro_def)
qed

lemma demo_paused_completes:
  "\<exists>r r' w'. stored_rollout demo_paused ''rollout_1d'' = Some r \<and> ro_State r = StatePaused \<and>
     reconcileRollout (rollouts_service demo_config) r demo_paused = (Inr r', w') \<and> ro_State r' = StateCompleted"
proof -
  have "case stored_rollout demo_paused ''rollout_1d'' of None \<Rightarrow> False | Some r \<Rightarrow> ro_State r = StatePaused \<and>
      (case fst (reconcileRollout (rollouts_service demo_config) r demo_paused) of Inl _ \<Rightarrow> False | Inr r' \<Rightarrow> ro_State r' = StateCompleted)"
    by code_simp
  then show ?thesis by (auto split: option.splits sum.splits) (metis prod.collapse)
qed

theorem completed_rollout_is_stable_witness:
  "\<exists>r r' w'. stored_rollout demo_paused ''rollout_1d'' = Some r \<and> reconcileRollout (rollouts_service demo_config) r demo_paused = (Inr r', w') \<and>
     stored_rollout w' ''rollout_1d'' = Some r' \<and> ro_State r' = StateCompleted"
proof -
  obtain r r' w' where run: "stored_rollout demo_paused ''rollout_1d'' = Some r" "ro_State r = StatePaused"
      "reconcileRollout (rollouts_service demo_config) r demo_paused = (Inr r', w')" "ro_State r' = StateCompleted"
    using demo_paused_completes by blast
  then have "\<not> Terminal (ro_State r)" by (simp add: Terminal_def)
  from completed_rollout_is_stable [OF demo_paused_reachable run(1) this run(3,4)] show ?thesis using run by blast
qed

text \<open>The witnesses of the theorems of \<open>Rollout_Decision\<close>.\<close>

lemma demo_paused_run:
  "\<exists>r r' w'. ro_State r = StatePaused \<and> reconcileRollout (rollouts_service demo_config) r demo_paused = (Inr r', w') \<and> ro_State r' = StateCompleted"
  using demo_paused_completes by blast

theorem promotion_needs_coverage_time_and_guardrails_witness:
  "\<exists>r r' w' ts. reconcileRollout (rollouts_service demo_config) r demo_paused = (Inr r', w') \<and> ro_State r' = StateCompleted \<and>
     CoverageReached ts (ro_RequiredAckPercent r)"
proof -
  obtain r r' w' where run: "reconcileRollout (rollouts_service demo_config) r demo_paused = (Inr r', w')" "ro_State r' = StateCompleted"
    and st: "ro_State r \<in> {StateDeploying, StatePaused}" using demo_paused_run by blast
  show ?thesis using promotion_needs_coverage_time_and_guardrails [OF run(1) st] run by blast
qed

subsection \<open>The registry\<close>

text \<open>C6 (safety). Versions are append-only: whatever calls follow, the versions stored of a definition stay a prefix of those stored
  later (so no version is changed, removed or reordered), and the stored versions are numbered one, two, three and so on.\<close>
theorem versions_are_append_only:
  assumes "reachable cfg w"
  shows "prefix (stored_versions w c) (stored_versions (serve_all cfg cs w) c) \<and>
    (\<forall>k < length (stored_versions w c). ver_VersionNumber (stored_versions w c ! k) = int k + 1)"
proof -
  have "prefix (stored_versions w c) (stored_versions (serve_all cfg cs w) c)"
    using serve_all_advances [OF reachable_inv [OF assms]] by (simp add: world_advances_iff registry_grows_def cr_abs_sel)
  moreover have "\<forall>k < length (stored_versions w c). ver_VersionNumber (stored_versions w c ! k) = int k + 1"
    using reachable_parts(8) [OF assms] by (auto simp: registry_ok_def versions_ok_def version_at_def cr_abs_sel)
  ultimately show ?thesis by simp
qed

theorem versions_are_append_only_witness:
  "prefix (stored_versions demo_world ''cfg_04'') (stored_versions (serve_all demo_config demo_setup demo_world) ''cfg_04'')"
  using versions_are_append_only [OF demo_world_reachable] by blast

text \<open>C8 (invariant). A stored environment state names a version that is stored for the same definition as its stable version, its
  environment is valid, and it never names an active rollout.\<close>
theorem stable_pointer_names_stored_version:
  assumes "reachable cfg w" and "nul_free c" and "gomap_get (cms_states (w_registry w)) (stateKey c e) = Some st"
  shows "env_StableVersionID st \<in> ver_ID ` set (stored_versions w c) \<and> env_ActiveRolloutID st = [] \<and> valid_env e"
proof -
  have "reg_states (cr_abs (w_registry w)) c e = Some st" using assms(2,3) by (simp add: cr_abs_def)
  then show ?thesis using reachable_parts(5) [OF assms(1)] by (auto simp: pointers_ok_def cr_abs_sel)
qed

theorem stable_pointer_names_stored_version_witness:
  "nul_free ''cfg_04'' \<and> ''ver_07'' \<in> ver_ID ` set (stored_versions demo_world ''cfg_04'')"
proof -
  let ?st = "snd (hd (cms_states demo_registry))"
  have "nul_free ''cfg_04''" by (simp add: nul_free_def nul_def)
  moreover have "gomap_get (cms_states (w_registry demo_world)) (stateKey ''cfg_04'' ''production'') = Some ?st" by code_simp
  moreover have "env_StableVersionID ?st = ''ver_07''" by code_simp
  ultimately show ?thesis using stable_pointer_names_stored_version [OF demo_world_reachable, of "''cfg_04''" "''production''" ?st] by auto
qed

text \<open>C7 (safety). Every stored version holds a value that the schema validator accepts for the schema of its definition.\<close>
theorem stored_values_fit_their_schema:
  assumes "reachable cfg w" and "reg_defs (cr_abs (w_registry w)) k = Some x" and "v \<in> set (stored_versions w (def_ID x))"
  shows "sv_ValidateValue (cfg_validator cfg) (def_Schema x) (ver_Value v) = None"
  using reachable_parts(7) [OF assms(1)] assms(2,3) by (auto simp: values_ok_def cr_abs_sel)

theorem stored_values_fit_their_schema_witness:
  "sv_ValidateValue demo_validator ''{}'' ''2'' = None"
proof -
  define x where "x = snd (hd (cms_definitions demo_registry))"
  define v where "v = snd (hd (cms_versions demo_registry)) ! 1"
  have "reg_defs (cr_abs (w_registry demo_world)) (definitionKey ''t'' ''k'') = Some x" unfolding cr_abs_def x_def by code_simp
  moreover have "v \<in> set (stored_versions demo_world (def_ID x))" unfolding x_def v_def by code_simp
  moreover have "def_Schema x = ''{}''" "ver_Value v = ''2''" unfolding x_def v_def by code_simp+
  moreover have "cfg_validator demo_config = demo_validator" by (simp add: demo_config_def)
  ultimately show ?thesis using stored_values_fit_their_schema [OF demo_world_reachable, of "definitionKey ''t'' ''k''" x v] by simp
qed

end
