(* ===== verification/Plane_Liveness.thy ===== *)
theory Plane_Liveness
  imports Plane_Theorems
begin

section \<open>Reconciliation gets rollouts to an end\<close>

text \<open>
  When no request context is cancelled, the in-memory stores answer every call of the
  reconciliation. Then a rollout that is past its maximum duration is taken into rollback, a rollback
  enters its verification, and a verification that is past its timeout ends. The clock readings are
  those of the oracle at the ticks of the calls.
\<close>

definition calm :: "Config \<Rightarrow> bool" where
  "calm cfg \<longleftrightarrow> (\<forall>n. orc_ctx (cfg_oracle cfg) n = None)"

lemma on_rollouts_calm:
  assumes "calm cfg"
  shows "on_rollouts (cfg_oracle cfg) f w = (fst (f None (w_rollouts w)), tick (w\<lparr>w_rollouts := snd (f None (w_rollouts w))\<rparr>))"
  using assms by (simp add: on_rollouts_def on_cell_def w_ctx_def calm_def split: prod.split)

lemma on_rollouts_read:
  assumes "calm cfg" and "f None (w_rollouts w) = (x, w_rollouts w)"
  shows "on_rollouts (cfg_oracle cfg) f w = (x, tick w)"
  by (simp add: on_rollouts_calm [OF assms(1)] assms(2))

lemma now_run: "effM (w_now orc) w = (Inr (orc_now orc (w_tick w)), tick w)"
  by (simp add: effM_def w_now_def)

lemma list_targets_run:
  assumes "calm cfg"
  shows "st_ListStageTargets (world_rollout_store (cfg_oracle cfg)) i sid w =
    (Inr (gomap_slice (rms_targets (w_rollouts w)) (targetKey i sid)), tick w)"
  unfolding world_rollout_store_sel by (rule on_rollouts_read [OF assms]) (simp add: ro_mem_ListStageTargets_def)

lemma list_stages_run:
  assumes "calm cfg" and "stored_stages w i = Some ss"
  shows "st_ListStages (world_rollout_store (cfg_oracle cfg)) i w = (Inr ss, tick w)"
  unfolding world_rollout_store_sel by (rule on_rollouts_read [OF assms(1)]) (simp add: ro_mem_ListStages_def assms(2))

lemma update_run:
  assumes "calm cfg" and "stored_rollout w (ro_ID r) \<noteq> None"
  shows "\<exists>w'. st_UpdateRollout (world_rollout_store (cfg_oracle cfg)) r w = (Inr (), w') \<and> stored_rollout w' (ro_ID r) = Some r \<and>
    w_tick w' = Suc (w_tick w)"
  using assms(2) by (auto simp: world_rollout_store_sel on_rollouts_calm [OF assms(1)] ro_mem_UpdateRollout_def Let_def cloneRollout_def tick_def)

lemma finish_run:
  assumes "calm cfg" and "stored_rollout w (ro_ID r) \<noteq> None"
  shows "\<exists>r' w'. finish_rollback (rollouts_service cfg) r s w = (Inr r', w') \<and> ro_State r' = StateRolledBack \<and>
    ro_RollbackStatus r' = s \<and> stored_rollout w' (ro_ID r) = Some r'"
proof -
  let ?r = "r\<lparr>ro_State := StateRolledBack, ro_RollbackStatus := s, ro_UpdatedAt := orc_now (cfg_oracle cfg) (w_tick w)\<rparr>"
  obtain w' where w': "st_UpdateRollout (world_rollout_store (cfg_oracle cfg)) ?r (tick w) = (Inr (), w')"
      "stored_rollout w' (ro_ID ?r) = Some ?r"
    using update_run [OF assms(1), of "tick w" ?r] assms(2) by auto
  then show ?thesis
    by (simp add: finish_rollback_def bindM_def now_run Let_def bindM_def w'(1) retM_def)
qed

text \<open>C9 (liveness). A rollout that is past its maximum duration does not stay in deployment: when no request context is
  cancelled, its reconciliation succeeds, returns it in rollback and stores it so, whatever its targets and guardrails say.\<close>
theorem expired_rollout_goes_into_rollback:
  assumes "reachable cfg w" and "calm cfg" and "stored_rollout w i = Some r" and "ro_State r \<in> {StateDeploying, StatePaused}"
    and "0 < ro_RolloutMaxDuration r"
    and "ro_RolloutMaxDuration r \<le> time_Sub (orc_now (cfg_oracle cfg) (w_tick w + 2)) (ro_CreatedAt r)"
  shows "\<exists>r' w'. reconcileRollout (rollouts_service cfg) r w = (Inr r', w') \<and> ro_State r' = StateRollingBack \<and> stored_rollout w' i = Some r'"
proof -
  have id: "ro_ID r = i" and row: "row_ok (ro_abs (w_rollouts w)) r"
    using reachable_parts(2) [OF assms(1)] assms(3) by (auto simp: rows_ok_def)
  obtain ss where ss: "stored_stages w i = Some ss" "stages_ok r ss" using row id by (auto simp: row_ok_def)
  have range: "\<not> (ro_CurrentStageIndex r < 0 \<or> int (length ss) \<le> ro_CurrentStageIndex r)"
    using ss(2) by (auto simp: stages_ok_def)
  let ?w2 = "tick (tick w)" and ?svc = "rollouts_service cfg"
  let ?r = "r\<lparr>ro_State := StateRollingBack, ro_UpdatedAt := orc_now (cfg_oracle cfg) (Suc (Suc (Suc (w_tick w))))\<rparr>"
  have dec: "evaluateStageDecision ?svc r ts st ?w2 = (Inr (DecisionRollback, r), tick ?w2)" for ts st
    using assms(5,6) by (simp add: evaluateStageDecision_def bindM_def now_run retM_def numeral_2_eq_2)
  obtain w' where w': "st_UpdateRollout (world_rollout_store (cfg_oracle cfg)) ?r (tick (tick ?w2)) = (Inr (), w')"
      "stored_rollout w' (ro_ID ?r) = Some ?r"
    using update_run [OF assms(2), of "tick (tick ?w2)" ?r] assms(3) id by auto
  have "CanTransition (ro_State r) StateRollingBack" using assms(4) by (auto simp: CanTransition_def)
  then have act: "act_on_decision ?svc DecisionRollback r ss (tick ?w2) = (Inr ?r, w')"
    using assms(4) by (auto simp: act_on_decision_def startRollback_def transition_def Transition_def checkM_def
        bindM_def now_run Let_def bindM_def w'(1) retM_def)
  have "reconcileRollout ?svc r w = (Inr ?r, w')"
    using assms(4) range by (auto simp: reconcileRollout_def bindM_def list_targets_run [OF assms(2)] id
        list_stages_run [OF assms(2), of "tick w" i ss] ss(1) bindM_def dec act)
  then show ?thesis using w'(2) id by auto
qed

text \<open>C10 (liveness). A rollback does not stay in verification: when no request context is cancelled and the verification has
  lasted its timeout, the reconciliation of the rollout succeeds and stores it as rolled back, verified or partial.\<close>
theorem timed_out_rollback_ends:
  assumes "reachable cfg w" and "calm cfg" and "stored_rollout w i = Some r" and "ro_State r = StateRollingBack"
    and "ro_CurrentStageID r = rollbackVerificationStageID i" and "0 < ro_RollbackTimeout r"
    and "ro_RollbackTimeout r \<le> time_Sub (orc_now (cfg_oracle cfg) (w_tick w + 1)) (ro_StageStartedAt r)"
  shows "\<exists>r' w'. reconcileRollout (rollouts_service cfg) r w = (Inr r', w') \<and> ro_State r' = StateRolledBack \<and>
    ro_RollbackStatus r' \<in> {RollbackStatusVerified, RollbackStatusPartial} \<and> stored_rollout w' i = Some r'"
proof -
  have id: "ro_ID r = i" using reachable_parts(2) [OF assms(1)] assms(3) by (auto simp: rows_ok_def)
  let ?ts = "gomap_slice (rms_targets (w_rollouts w)) (targetKey i (ro_CurrentStageID r))"
  have "\<exists>r' w'. reconcileRollback (rollouts_service cfg) r ?ts (tick w) = (Inr r', w') \<and> ro_State r' = StateRolledBack \<and>
    ro_RollbackStatus r' \<in> {RollbackStatusVerified, RollbackStatusPartial} \<and> stored_rollout w' i = Some r'"
  proof (cases "CoverageReached ?ts (ro_RequiredAckPercent r) \<or> length ?ts = 0")
    case True
    then show ?thesis using finish_run [OF assms(2), of "tick w" r RollbackStatusVerified] assms(3,5) id
      by (auto simp: reconcileRollback_def)
  next
    case False
    have "reconcileRollback (rollouts_service cfg) r ?ts (tick w) =
        finish_rollback (rollouts_service cfg) r RollbackStatusPartial (tick (tick w))"
      using False assms(5-7) id by (simp add: reconcileRollback_def bindM_def now_run retM_def)
    then show ?thesis using finish_run [OF assms(2), of "tick (tick w)" r RollbackStatusPartial] assms(3) id by auto
  qed
  then show ?thesis by (simp add: reconcileRollout_def bindM_def list_targets_run [OF assms(2)] assms(4) id)
qed

theorem expired_rollout_goes_into_rollback_witness:
  "\<exists>r r' w'. reconcileRollout (rollouts_service demo_config) r demo_late = (Inr r', w') \<and> ro_State r = StatePaused \<and> ro_State r' = StateRollingBack"
proof -
  define r where "r = snd (hd (rms_rollouts (w_rollouts demo_paused)))"
  have r: "stored_rollout demo_late ''rollout_1d'' = Some r" unfolding r_def by code_simp
  have s: "ro_State r = StatePaused" "0 < ro_RolloutMaxDuration r" "ro_CreatedAt r = 28 * Second" "ro_RolloutMaxDuration r = 15 * Minute"
    unfolding r_def by code_simp+
  have t: "90 \<le> w_tick demo_late" by code_simp
  have c: "calm demo_config" by (simp add: calm_def demo_config_def demo_oracle_def)
  have "ro_RolloutMaxDuration r \<le> time_Sub (orc_now (cfg_oracle demo_config) (w_tick demo_late + 2)) (ro_CreatedAt r)"
    using t by (simp add: s demo_config_def demo_oracle_def time_Sub_def Second_def Minute_def)
  then show ?thesis using expired_rollout_goes_into_rollback [OF demo_late_reachable c r _ s(2)] s(1) by blast
qed

text \<open>A rollback whose verification has timed out, for the witnesses.\<close>

definition demo_verifying_rollout :: Rollout where
  "demo_verifying_rollout = snd (hd (rms_rollouts (w_rollouts demo_verifying)))"

lemma demo_verifying_facts:
  "let w = demo_verifying; r = demo_verifying_rollout in
   stored_rollout w ''rollout_1d'' = Some r \<and> ro_State r = StateRollingBack \<and>
   ro_CurrentStageID r = rollbackVerificationStageID ''rollout_1d'' \<and> ro_ID r = ''rollout_1d'' \<and> 0 < ro_RollbackTimeout r \<and>
   ro_RollbackTimeout r \<le> time_Sub (orc_now demo_oracle (w_tick w + 1)) (ro_StageStartedAt r)"
  by code_simp

theorem timed_out_rollback_ends_witness:
  "\<exists>r' w'. reconcileRollout (rollouts_service demo_config) demo_verifying_rollout demo_verifying = (Inr r', w') \<and>
     ro_State r' = StateRolledBack \<and> stored_rollout w' ''rollout_1d'' = Some r'"
proof -
  have c: "calm demo_config" "cfg_oracle demo_config = demo_oracle" by (simp_all add: calm_def demo_config_def demo_oracle_def)
  note f = demo_verifying_facts [unfolded Let_def]
  show ?thesis
    using timed_out_rollback_ends [OF demo_verifying_reachable c(1), of "''rollout_1d''" demo_verifying_rollout] f c(2) by auto
qed

theorem rollback_verification_outcome_witness:
  "\<exists>r' w'. reconcileRollback (rollouts_service demo_config) demo_verifying_rollout [] demo_verifying = (Inr r', w') \<and>
     ro_State r' = StateRolledBack \<and> ro_RollbackStatus r' = RollbackStatusVerified"
proof -
  have c: "calm demo_config" by (simp add: calm_def demo_config_def demo_oracle_def)
  note f = demo_verifying_facts [unfolded Let_def]
  have cur: "ro_CurrentStageID demo_verifying_rollout = rollbackVerificationStageID (ro_ID demo_verifying_rollout)" using f by simp
  obtain r' w' where run: "reconcileRollback (rollouts_service demo_config) demo_verifying_rollout [] demo_verifying = (Inr r', w')"
    using finish_run [OF c, of demo_verifying demo_verifying_rollout RollbackStatusVerified] f cur by (auto simp: reconcileRollback_def)
  show ?thesis using rollback_verification_outcome [OF run cur] run by auto
qed

end
