(* ===== verification/Json_Encode.thy ===== *)
theory Json_Encode
  imports Json Sha256
begin

section \<open>encoding/json: writing values\<close>

text \<open>
  What \<open>json.Marshal\<close> and \<open>json.MarshalIndent\<close> write. A \<open>json.RawMessage\<close> is not copied as it
  is: \<open>json.Marshal\<close> compacts it (and escapes the characters of HTML), and \<open>json.MarshalIndent\<close> indents it
  together with everything around it. The components that checksum a raw value depend on this.
\<close>

subsection \<open>Strings\<close>

definition byte_of :: "char \<Rightarrow> int" where
  "byte_of c = of_char c"

definition utf8_cont :: "char \<Rightarrow> bool" where
  "utf8_cont c \<longleftrightarrow> 128 \<le> byte_of c \<and> byte_of c \<le> 191"

text \<open>\<open>utf8.DecodeRune\<close>: the length of the well-formed rune a string starts with, 0 when there is none.\<close>

fun rune_len :: "string \<Rightarrow> nat" where
  "rune_len [] = 0"
| "rune_len (a # s) =
     (let x = byte_of a in
      if x < 128 then 1
      else if 194 \<le> x \<and> x \<le> 223 then (case s of b # _ \<Rightarrow> if utf8_cont b then 2 else 0 | _ \<Rightarrow> 0)
      else if 224 \<le> x \<and> x \<le> 239 then
        (case s of b # c # _ \<Rightarrow>
           if utf8_cont b \<and> utf8_cont c \<and> (x = 224 \<longrightarrow> 160 \<le> byte_of b) \<and> (x = 237 \<longrightarrow> byte_of b \<le> 159) then 3 else 0
         | _ \<Rightarrow> 0)
      else if 240 \<le> x \<and> x \<le> 244 then
        (case s of b # c # d # _ \<Rightarrow>
           if utf8_cont b \<and> utf8_cont c \<and> utf8_cont d \<and> (x = 240 \<longrightarrow> 144 \<le> byte_of b) \<and> (x = 244 \<longrightarrow> byte_of b \<le> 143) then 4 else 0
         | _ \<Rightarrow> 0)
      else 0)"

definition escape_ascii :: "char \<Rightarrow> string" where
  "escape_ascii c =
     (if c = CHR 0x22 then [CHR 0x5C, CHR 0x22]
      else if c = CHR 0x5C then [CHR 0x5C, CHR 0x5C]
      else if c = CHR 0x08 then [CHR 0x5C, CHR ''b'']
      else if c = CHR 0x0C then [CHR 0x5C, CHR ''f'']
      else if c = CHR 0x0A then [CHR 0x5C, CHR ''n'']
      else if c = CHR 0x0D then [CHR 0x5C, CHR ''r'']
      else if c = CHR 0x09 then [CHR 0x5C, CHR ''t'']
      else if byte_of c < 32 \<or> c = CHR ''<'' \<or> c = CHR ''>'' \<or> c = CHR ''&'' then
        [CHR 0x5C] @ ''u00'' @ [hex_digit (nat (byte_of c div 16)), hex_digit (nat (byte_of c mod 16))]
      else [c])"

text \<open>The line separators U+2028 and U+2029 are escaped as well.\<close>

definition line_separator :: "string \<Rightarrow> string option" where
  "line_separator s =
     (if take 3 s = [CHR 0xE2, CHR 0x80, CHR 0xA8] then Some ([CHR 0x5C] @ ''u2028'')
      else if take 3 s = [CHR 0xE2, CHR 0x80, CHR 0xA9] then Some ([CHR 0x5C] @ ''u2029'')
      else None)"

function escape_string :: "string \<Rightarrow> string" where
  "escape_string s =
     (if s = [] then []
      else if rune_len s = 0 then [CHR 0x5C] @ ''ufffd'' @ escape_string (drop 1 s)
      else if rune_len s = 1 then escape_ascii (hd s) @ escape_string (drop 1 s)
      else (case line_separator s of Some e \<Rightarrow> e | None \<Rightarrow> take (rune_len s) s) @ escape_string (drop (rune_len s) s))"
  by pat_completeness auto
termination
  by (relation "measure length") auto

declare escape_string.simps [simp del]

definition json_string :: "string \<Rightarrow> string" where
  "json_string s = CHR 0x22 # escape_string s @ [CHR 0x22]"

definition json_field :: "string \<Rightarrow> string \<Rightarrow> string" where
  "json_field name value = json_string name @ '':'' @ value"

definition json_object :: "string list \<Rightarrow> string" where
  "json_object ms = CHR 0x7B # concat (case ms of [] \<Rightarrow> [] | f # fs \<Rightarrow> f # map (\<lambda>g. CHR '','' # g) fs) @ [CHR 0x7D]"

definition json_array :: "string list \<Rightarrow> string" where
  "json_array xs = CHR 0x5B # concat (case xs of [] \<Rightarrow> [] | x # ys \<Rightarrow> x # map (\<lambda>y. CHR '','' # y) ys) @ [CHR 0x5D]"

subsection \<open>Raw messages\<close>

definition in_string :: "jstate \<Rightarrow> bool" where
  "in_string q = (case q of InString \<Rightarrow> True | InStringEsc \<Rightarrow> True | InStringEscU _ \<Rightarrow> True | _ \<Rightarrow> False)"

text \<open>\<open>json.Compact\<close> with HTML escaping: white space outside strings is dropped.\<close>

function compact_loop :: "jstate \<times> jctx list \<Rightarrow> string \<Rightarrow> string" where
  "compact_loop q s =
     (if s = [] then []
      else case line_separator s of
        Some e \<Rightarrow> e @ compact_loop (foldl jstep q (take 3 s)) (drop 3 s)
      | None \<Rightarrow>
          (if \<not> in_string (fst q) \<and> json_space (hd s) then []
           else if hd s = CHR ''<'' \<or> hd s = CHR ''>'' \<or> hd s = CHR ''&'' then escape_ascii (hd s)
           else [hd s]) @ compact_loop (jstep q (hd s)) (drop 1 s))"
  by pat_completeness auto
termination
  by (relation "measure (\<lambda>(q, s). length s)") auto

declare compact_loop.simps [simp del]

definition json_compact :: "bytes \<Rightarrow> bytes" where
  "json_compact s = compact_loop (BeginValue, []) s"

text \<open>\<open>json.Indent\<close> with an empty prefix and two spaces per level. The state is the scanner's, whether an opening bracket
  still awaits its content, and the depth.\<close>

definition indent_newline :: "nat \<Rightarrow> string" where
  "indent_newline depth = CHR 0x0A # replicate (2 * depth) CHR 0x20"

fun indent_loop :: "jstate \<times> jctx list \<Rightarrow> bool \<Rightarrow> nat \<Rightarrow> string \<Rightarrow> string" where
  "indent_loop q need depth [] = []"
| "indent_loop q need depth (c # s) =
     (let q' = jstep q c; closing = (c = CHR 0x7D \<or> c = CHR 0x5D) in
      if in_string (fst q) then c # indent_loop q' need depth s
      else if json_space c then indent_loop q' need depth s
      else if closing then
        (if need then c # indent_loop q' False depth s
         else indent_newline (depth - 1) @ c # indent_loop q' False (depth - 1) s)
      else
        let before = (if need then indent_newline (Suc depth) else []);
            depth' = (if need then Suc depth else depth) in
        before @
        (if c = CHR 0x7B \<or> c = CHR 0x5B then c # indent_loop q' True depth' s
         else if c = CHR '','' then c # indent_newline depth' @ indent_loop q' False depth' s
         else if c = CHR '':'' then c # CHR 0x20 # indent_loop q' False depth' s
         else c # indent_loop q' False depth' s))"

text \<open>A value that stands at some depth of a larger document.\<close>

definition json_indent_at :: "nat \<Rightarrow> bytes \<Rightarrow> bytes" where
  "json_indent_at depth s = indent_loop (BeginValue, []) False depth s"

definition json_indent :: "bytes \<Rightarrow> bytes" where
  "json_indent s = json_indent_at 0 s"

subsection \<open>Times\<close>

text \<open>
  A time is written as \<open>time.RFC3339Nano\<close> in UTC. The calendar date of a day number (day 0 is the first of January of the
  year 1) is computed over years that begin in March.
\<close>

definition civil :: "int \<Rightarrow> int \<times> int \<times> int" where
  "civil days =
     (let z = days + 306; era = z div 146097; doe = z mod 146097;
          yoe = (doe - doe div 1460 + doe div 36524 - doe div 146096) div 365;
          doy = doe - (365 * yoe + yoe div 4 - yoe div 100);
          mp = (5 * doy + 2) div 153;
          m = (if mp < 10 then mp + 3 else mp - 9)
      in (yoe + era * 400 + (if m \<le> 2 then 1 else 0), m, doy - (153 * mp + 2) div 5 + 1))"

definition pad :: "nat \<Rightarrow> int \<Rightarrow> string" where
  "pad w n = (let s = show_uint n in replicate (w - length s) CHR ''0'' @ s)"

definition fraction :: "int \<Rightarrow> string" where
  "fraction ns = (if ns = 0 then [] else CHR ''.'' # rev (dropWhile (\<lambda>c. c = CHR ''0'') (rev (pad 9 ns))))"

definition rfc3339 :: "go_time \<Rightarrow> string" where
  "rfc3339 t =
     (let secs = t div 1000000000; day = secs div 86400; sod = secs mod 86400 in
      case civil day of (y, m, d) \<Rightarrow>
        pad 4 y @ ''-'' @ pad 2 m @ ''-'' @ pad 2 d @ ''T'' @ pad 2 (sod div 3600) @ '':'' @ pad 2 (sod div 60 mod 60) @ '':'' @
        pad 2 (sod mod 60) @ fraction (t mod 1000000000) @ ''Z'')"

text \<open>\<open>Time.MarshalJSON\<close> refuses years outside 0 to 9999.\<close>

definition json_time :: "go_time \<Rightarrow> error + string" where
  "json_time t =
     (let y = fst (civil (t div 1000000000 div 86400)) in
      if y < 0 \<or> 9999 < y then Inl (Foreign ''Time.MarshalJSON: year outside of range [0,9999]'')
      else Inr (CHR 0x22 # rfc3339 t @ [CHR 0x22]))"

lemma rfc3339_examples:
  "rfc3339 0 = ''0001-01-01T00:00:00Z''"
  "rfc3339 (63892281600 * 1000000000) = ''2025-09-01T00:00:00Z''"
  "rfc3339 (63892281600 * 1000000000 + 61 * 1000000000 + 500) = ''2025-09-01T00:01:01.0000005Z''"
  by code_simp+

lemma json_indent_examples:
  "json_indent (CHR 0x7B # CHR 0x22 # ''a'' @ CHR 0x22 # '':[1,2]'' @ [CHR 0x7D]) =
     CHR 0x7B # CHR 0x0A # ''  '' @ CHR 0x22 # ''a'' @ CHR 0x22 # '': ['' @ CHR 0x0A # ''    1,'' @ CHR 0x0A # ''    2'' @ CHR 0x0A # ''  ]'' @ [CHR 0x0A, CHR 0x7D]"
  "json_indent ''1500'' = ''1500''" "json_indent ''[]'' = ''[]''"
  "json_compact '' [1, 2] '' = ''[1,2]''"
  by code_simp+

end
