(* ===== verification/Data_Plane.thy ===== *)
theory Data_Plane
  imports Json_Encode Rollout_Refinement Agent_Registry
begin

section \<open>internal/dataplane: credentials, snapshots and the snapshot endpoint\<close>

text \<open>
  \<open>auth.go\<close>, \<open>snapshot.go\<close>, \<open>memory_store.go\<close>, \<open>dynamic_store.go\<close> and \<open>handler.go\<close>. A snapshot store is
  an operation from an agent to its snapshot: the in-memory one returns what was put, the
  dynamic one assembles the snapshot from the registry, the agents and the active rollouts. The
  locale \<open>snapshot_sources\<close> states what the dynamic store relies on and shows what it then serves.
  The routing of \<open>net/http\<close> is not modelled: a handler takes the path value and the headers it reads.
\<close>

subsection \<open>auth.go\<close>

type_synonym 'w CredentialVerifier = "string \<Rightarrow> ('w, string) M"

definition AgentCredentialVerifier_Verify :: "(string \<Rightarrow> ('w, string) M) \<Rightarrow> 'w CredentialVerifier" where
  "AgentCredentialVerifier_Verify agents_Verify token =
     tryM (agents_Verify token)
       (\<lambda>err. if errors_Is err agentregistry_ErrUnauthorized then raiseM (Sentinel dataplane_ErrInvalidCredential)
              else if errors_Is err agentregistry_ErrExpiredCredential then raiseM (Sentinel dataplane_ErrInvalidCredential)
              else raiseM err)
       retM"

definition StaticCredentialVerifier_Verify :: "(string, string) gomap \<Rightarrow> error option \<Rightarrow> string \<Rightarrow> error + string" where
  "StaticCredentialVerifier_Verify tokens ctxErr token =
     (case ctxErr of Some e \<Rightarrow> Inl e | None \<Rightarrow>
      if token = [] then Inl (Sentinel dataplane_ErrMissingCredential)
      else case gomap_get tokens token of
        None \<Rightarrow> Inl (Sentinel dataplane_ErrInvalidCredential)
      | Some agentID \<Rightarrow> Inr agentID)"

subsection \<open>snapshot.go\<close>

record Assignment =
  asg_RolloutID :: string
  asg_StageID :: string

record SnapshotItem =
  si_ConfigDefinitionID :: string
  si_Key :: string
  si_VersionID :: string
  si_Version :: int
  si_Value :: RawMessage
  si_Checksum :: string
  si_Assignment :: Assignment

record Snapshot =
  snap_Revision :: int
  snap_GeneratedAt :: go_time
  snap_Configs :: "SnapshotItem list"

text \<open>A raw message is written compacted; an empty one is \<open>null\<close>, an invalid one is an error.\<close>

definition json_raw :: "RawMessage \<Rightarrow> error + string" where
  "json_raw v = (if v = [] then Inr ''null'' else if json_Valid v then Inr (json_compact v)
     else Inl (Foreign ''json: error calling MarshalJSON for type json.RawMessage''))"

definition Assignment_json :: "Assignment \<Rightarrow> string" where
  "Assignment_json a = json_object
     ((if asg_RolloutID a = [] then [] else [json_field ''rolloutId'' (json_string (asg_RolloutID a))]) @
      (if asg_StageID a = [] then [] else [json_field ''stageId'' (json_string (asg_StageID a))]))"

definition SnapshotItem_json :: "SnapshotItem \<Rightarrow> error + string" where
  "SnapshotItem_json i =
     (case json_raw (si_Value i) of Inl e \<Rightarrow> Inl e | Inr value \<Rightarrow>
      Inr (json_object
        [json_field ''configDefinitionId'' (json_string (si_ConfigDefinitionID i)),
         json_field ''key'' (json_string (si_Key i)),
         json_field ''versionId'' (json_string (si_VersionID i)),
         json_field ''version'' (show_int (si_Version i)),
         json_field ''value'' value,
         json_field ''checksum'' (json_string (si_Checksum i)),
         json_field ''assignment'' (Assignment_json (si_Assignment i))]))"

fun items_json :: "SnapshotItem list \<Rightarrow> error + string list" where
  "items_json [] = Inr []"
| "items_json (i # is) =
     (case SnapshotItem_json i of Inl e \<Rightarrow> Inl e | Inr x \<Rightarrow>
      (case items_json is of Inl e \<Rightarrow> Inl e | Inr xs \<Rightarrow> Inr (x # xs)))"

definition Snapshot_Marshal :: "Snapshot \<Rightarrow> error + bytes" where
  "Snapshot_Marshal s =
     (case json_time (snap_GeneratedAt s) of Inl e \<Rightarrow> Inl e | Inr t \<Rightarrow>
      (case items_json (snap_Configs s) of Inl e \<Rightarrow> Inl e | Inr xs \<Rightarrow>
       Inr (json_object [json_field ''revision'' (show_int (snap_Revision s)), json_field ''generatedAt'' t,
                         json_field ''configs'' (json_array xs)])))"

definition Snapshot_ETag :: "Snapshot \<Rightarrow> error + string" where
  "Snapshot_ETag s =
     (case Snapshot_Marshal s of
        Inl e \<Rightarrow> Inl e
      | Inr payload \<Rightarrow> Inr (CHR 0x22 # ''snapshot-'' @ hex_EncodeToString (sum256 (bytes_of payload)) @ [CHR 0x22]))"

definition Checksum :: "RawMessage \<Rightarrow> string" where
  "Checksum value = hex_EncodeToString (sum256 (bytes_of value))"

definition clone_item :: "SnapshotItem \<Rightarrow> SnapshotItem" where
  "clone_item item = item\<lparr>si_Value := cloneRaw (si_Value item)\<rparr>"

definition CloneSnapshot :: "Snapshot \<Rightarrow> Snapshot" where
  "CloneSnapshot snapshot = snapshot\<lparr>snap_Configs := map clone_item (snap_Configs snapshot)\<rparr>"

lemma clone_item_id [simp]: "clone_item = (\<lambda>i. i)"
  by (simp add: clone_item_def fun_eq_iff)

lemma CloneSnapshot_id [simp]: "CloneSnapshot s = s"
  by (simp add: CloneSnapshot_def)

subsection \<open>memory_store.go\<close>

type_synonym MemorySnapshotStore = "(string, Snapshot) gomap"

definition NewMemorySnapshotStore :: MemorySnapshotStore where
  "NewMemorySnapshotStore = []"

definition PutSnapshot :: "string \<Rightarrow> Snapshot \<Rightarrow> MemorySnapshotStore \<Rightarrow> MemorySnapshotStore" where
  "PutSnapshot agentID snapshot s = gomap_set agentID (CloneSnapshot snapshot) s"

definition MemorySnapshotStore_GetSnapshot :: "error option \<Rightarrow> string \<Rightarrow> (MemorySnapshotStore, Snapshot) M" where
  "MemorySnapshotStore_GetSnapshot ctxErr agentID s =
     (case ctxErr of Some e \<Rightarrow> (Inl e, s) | None \<Rightarrow>
      case gomap_get s agentID of
        None \<Rightarrow> (Inl (Sentinel dataplane_ErrSnapshotNotFound), s)
      | Some snapshot \<Rightarrow> (Inr (CloneSnapshot snapshot), s))"

subsection \<open>dynamic_store.go\<close>

record 'w RegistrySnapshotSource =
  rss_ListTenants :: "('w, Tenant list) M"
  rss_ListDefinitions :: "string \<Rightarrow> ('w, ConfigDefinition list) M"
  rss_ListVersions :: "string \<Rightarrow> string \<Rightarrow> ('w, ConfigVersion list) M"
  rss_GetEnvironmentState :: "string \<Rightarrow> string \<Rightarrow> Environment \<Rightarrow> ('w, ConfigEnvironmentState) M"

type_synonym 'w AgentSnapshotSource = "string \<Rightarrow> ('w, Agent) M"

type_synonym 'w ActiveRolloutSource = "string \<Rightarrow> Environment \<Rightarrow> ('w, Rollout \<times> StageTarget list) M"

record 'w DynamicSnapshotStore =
  dss_registry :: "'w RegistrySnapshotSource"
  dss_agents :: "'w AgentSnapshotSource"
  dss_rollouts :: "'w ActiveRolloutSource"
  dss_tenants :: "string list"
  dss_now :: "'w \<Rightarrow> go_time \<times> 'w"

definition NewDynamicSnapshotStore ::
  "'w RegistrySnapshotSource \<Rightarrow> 'w AgentSnapshotSource \<Rightarrow> 'w ActiveRolloutSource \<Rightarrow> string list \<Rightarrow> ('w \<Rightarrow> go_time \<times> 'w) \<Rightarrow>
   'w DynamicSnapshotStore" where
  "NewDynamicSnapshotStore registry agents rollouts tenants now =
     \<lparr>dss_registry = registry, dss_agents = agents, dss_rollouts = rollouts, dss_tenants = [] @ tenants, dss_now = now\<rparr>"

fun findVersionByID :: "ConfigVersion list \<Rightarrow> string \<Rightarrow> ConfigVersion option" where
  "findVersionByID [] versionID = None"
| "findVersionByID (version # versions) versionID =
     (if ver_ID version = versionID then Some version else findVersionByID versions versionID)"

text \<open>The version, assignment and revision of an item: those of the active rollout if there is one, otherwise the stable version's.\<close>

definition effective_for ::
  "'w DynamicSnapshotStore \<Rightarrow> ConfigDefinition \<Rightarrow> Agent \<Rightarrow> string \<Rightarrow> ('w, string \<times> Assignment \<times> int) M" where
  "effective_for s definition1 agent stableVersionID =
     (let unassigned = \<lparr>asg_RolloutID = [], asg_StageID = []\<rparr> in
      tryM (dss_rollouts s (def_ID definition1) (agent_Environment agent))
        (\<lambda>err. if \<not> errors_Is err rollout_ErrNotFound then raiseM err else retM (stableVersionID, unassigned, 1))
        (\<lambda>(active, targets).
           let effective = EffectiveVersionForAgent active targets (agent_ID agent) in
           retM (if eff_AssignedRollout effective \<noteq> []
                 then (eff_VersionID effective,
                       \<lparr>asg_RolloutID = eff_AssignedRollout effective, asg_StageID = eff_AssignedStage effective\<rparr>,
                       eff_SnapshotRevision effective)
                 else (eff_VersionID effective, unassigned, 1))))"

definition make_item :: "ConfigDefinition \<Rightarrow> ConfigVersion \<Rightarrow> Assignment \<Rightarrow> SnapshotItem" where
  "make_item definition1 version assignment =
     \<lparr>si_ConfigDefinitionID = def_ID definition1, si_Key = def_Key definition1, si_VersionID = ver_ID version,
      si_Version = ver_VersionNumber version, si_Value = cloneRaw (ver_Value version), si_Checksum = Checksum (ver_Value version),
      si_Assignment = assignment\<rparr>"

definition snapshotItem ::
  "'w DynamicSnapshotStore \<Rightarrow> string \<Rightarrow> ConfigDefinition \<Rightarrow> Agent \<Rightarrow> ('w, (SnapshotItem \<times> int) option) M" where
  "snapshotItem s tenantID definition1 agent =
     tryM (rss_GetEnvironmentState (dss_registry s) tenantID (def_Key definition1) (agent_Environment agent))
       (\<lambda>err. if errors_Is err configregistry_ErrNotFound then retM None else raiseM err)
       (\<lambda>state.
          if env_StableVersionID state = [] then retM None
          else
            bindM (rss_ListVersions (dss_registry s) tenantID (def_Key definition1)) (\<lambda>versions.
            bindM (effective_for s definition1 agent (env_StableVersionID state)) (\<lambda>(versionID, assignment, revision).
            case findVersionByID versions versionID of
              None \<Rightarrow> retM None
            | Some version \<Rightarrow> retM (Some (make_item definition1 version assignment, revision)))))"

definition snapshotTenants :: "'w DynamicSnapshotStore \<Rightarrow> ('w, string list) M" where
  "snapshotTenants s =
     (if length (dss_tenants s) > 0 then retM ([] @ dss_tenants s)
      else bindM (rss_ListTenants (dss_registry s)) (\<lambda>tenants. retM (map tenant_ID tenants)))"

fun definitions_loop ::
  "'w DynamicSnapshotStore \<Rightarrow> string \<Rightarrow> Agent \<Rightarrow> ConfigDefinition list \<Rightarrow> int \<Rightarrow> SnapshotItem list \<Rightarrow> ('w, int \<times> SnapshotItem list) M" where
  "definitions_loop s tenantID agent [] revision items = retM (revision, items)"
| "definitions_loop s tenantID agent (definition1 # definitions) revision items =
     bindM (snapshotItem s tenantID definition1 agent) (\<lambda>found.
     case found of
       None \<Rightarrow> definitions_loop s tenantID agent definitions revision items
     | Some (item, itemRevision) \<Rightarrow>
         definitions_loop s tenantID agent definitions (if revision < itemRevision then itemRevision else revision) (items @ [item]))"

fun tenants_loop ::
  "'w DynamicSnapshotStore \<Rightarrow> Agent \<Rightarrow> string list \<Rightarrow> int \<Rightarrow> SnapshotItem list \<Rightarrow> ('w, int \<times> SnapshotItem list) M" where
  "tenants_loop s agent [] revision items = retM (revision, items)"
| "tenants_loop s agent (tenantID # tenants) revision items =
     tryM (rss_ListDefinitions (dss_registry s) tenantID)
       (\<lambda>err. if errors_Is err configregistry_ErrNotFound then tenants_loop s agent tenants revision items else raiseM err)
       (\<lambda>definitions.
          bindM (definitions_loop s tenantID agent definitions revision items) (\<lambda>(revision, items).
          tenants_loop s agent tenants revision items))"

definition DynamicSnapshotStore_GetSnapshot :: "'w DynamicSnapshotStore \<Rightarrow> string \<Rightarrow> ('w, Snapshot) M" where
  "DynamicSnapshotStore_GetSnapshot s agentID =
     tryM (dss_agents s agentID)
       (\<lambda>err. if errors_Is err agentregistry_ErrNotFound then raiseM (Sentinel dataplane_ErrSnapshotNotFound) else raiseM err)
       (\<lambda>agent.
          bindM (snapshotTenants s) (\<lambda>tenants.
          bindM (tenants_loop s agent tenants 1 []) (\<lambda>(revision, items).
          bindM (effM (dss_now s)) (\<lambda>now.
          retM \<lparr>snap_Revision = revision, snap_GeneratedAt = now, snap_Configs = items\<rparr>))))"

subsection \<open>handler.go\<close>

text \<open>A response: its status, the \<open>ETag\<close> header if it is set, and its payload.\<close>

datatype dp_body = NoBody | SnapshotBody Snapshot | ErrorBody string string

record dp_Response =
  rsp_Status :: int
  rsp_ETag :: "string option"
  rsp_Body :: dp_body

definition dp_error :: "int \<Rightarrow> string \<Rightarrow> string \<Rightarrow> dp_Response" where
  "dp_error status code message = \<lparr>rsp_Status = status, rsp_ETag = None, rsp_Body = ErrorBody code message\<rparr>"

definition dp_writeError :: "error \<Rightarrow> dp_Response" where
  "dp_writeError err =
     (if errors_Is err dataplane_ErrMissingCredential \<or> errors_Is err dataplane_ErrInvalidCredential then
        dp_error 401 ''unauthorized'' (error_text err)
      else if errors_Is err dataplane_ErrForbidden then dp_error 403 ''forbidden'' (error_text err)
      else if errors_Is err dataplane_ErrSnapshotNotFound then dp_error 404 ''not_found'' (error_text err)
      else dp_error 500 ''internal_error'' ''request failed'')"

definition bearerToken :: "string \<Rightarrow> string" where
  "bearerToken header =
     (if header = [] then []
      else case Cut CHR 0x20 header of
        None \<Rightarrow> []
      | Some (kind, token) \<Rightarrow> if \<not> EqualFold kind ''Bearer'' then [] else token)"

record 'w dp_Handler =
  dph_store :: "string \<Rightarrow> ('w, Snapshot) M"
  dph_verifier :: "'w CredentialVerifier"

definition dp_getSnapshot :: "'w dp_Handler \<Rightarrow> string \<Rightarrow> string \<Rightarrow> string \<Rightarrow> ('w, dp_Response) M" where
  "dp_getSnapshot h requestedAgentID authorization ifNoneMatch =
     tryM (dph_verifier h (bearerToken authorization)) (\<lambda>err. retM (dp_writeError err)) (\<lambda>subjectAgentID.
     if subjectAgentID \<noteq> requestedAgentID then retM (dp_writeError (Sentinel dataplane_ErrForbidden))
     else tryM (dph_store h requestedAgentID) (\<lambda>err. retM (dp_writeError err)) (\<lambda>snapshot.
     case Snapshot_ETag snapshot of
       Inl err \<Rightarrow> retM (dp_error 500 ''internal_error'' ''snapshot etag failed'')
     | Inr etag \<Rightarrow>
         if ifNoneMatch = etag then retM \<lparr>rsp_Status = 304, rsp_ETag = Some etag, rsp_Body = NoBody\<rparr>
         else retM \<lparr>rsp_Status = 200, rsp_ETag = Some etag, rsp_Body = SnapshotBody snapshot\<rparr>))"

section \<open>What the data plane serves\<close>

lemma findVersionByID_Some: "findVersionByID vs i = Some v \<Longrightarrow> v \<in> set vs \<and> ver_ID v = i"
  by (induction vs) (auto split: if_splits)

lemma findVersionByID_None: "findVersionByID vs i = None \<longleftrightarrow> i \<notin> ver_ID ` set vs"
  by (induction vs) auto

text \<open>
  What an item may say, given the registry and the rollouts: the definition is registered, the version is one of its stored versions
  and the item carries its value with the value's checksum; the version is the stable one with no assignment and revision 1, or it is what the
  active rollout of the definition and environment makes effective for the agent.
\<close>

definition item_source :: "rollout_db \<Rightarrow> registry_db \<Rightarrow> Agent \<Rightarrow> SnapshotItem \<Rightarrow> int \<Rightarrow> bool" where
  "item_source db reg agent item revision \<longleftrightarrow>
     (\<exists>k x v. reg_defs reg k = Some x \<and> v \<in> set (reg_versions reg (def_ID x)) \<and> item = make_item x v (si_Assignment item) \<and>
        ((\<exists>st. reg_states reg (def_ID x) (agent_Environment agent) = Some st \<and> ver_ID v = env_StableVersionID st \<and>
            si_Assignment item = \<lparr>asg_RolloutID = [], asg_StageID = []\<rparr> \<and> revision = 1) \<or>
         (\<exists>r. is_active db r \<and> ro_ConfigDefinitionID r = def_ID x \<and> ro_Environment r = agent_Environment agent \<and>
            (let e = EffectiveVersionForAgent r (db_targets db (ro_ID r) (ro_CurrentStageID r)) (agent_ID agent) in
             ver_ID v = eff_VersionID e \<and>
             (if eff_AssignedRollout e \<noteq> []
              then si_Assignment item = \<lparr>asg_RolloutID = eff_AssignedRollout e, asg_StageID = eff_AssignedStage e\<rparr> \<and> revision = eff_SnapshotRevision e
              else si_Assignment item = \<lparr>asg_RolloutID = [], asg_StageID = []\<rparr> \<and> revision = 1)))))"

text \<open>Every item collected has a source and a revision that is at most the snapshot's, which is one of them or 1.\<close>

definition items_ok :: "rollout_db \<Rightarrow> registry_db \<Rightarrow> Agent \<Rightarrow> int \<Rightarrow> SnapshotItem list \<Rightarrow> bool" where
  "items_ok db rg agent revision items \<longleftrightarrow>
     1 \<le> revision \<and> (\<forall>item \<in> set items. \<exists>n. item_source db rg agent item n \<and> n \<le> revision) \<and>
     (revision = 1 \<or> (\<exists>item \<in> set items. item_source db rg agent item revision))"

lemma items_ok_add:
  assumes "items_ok db rg agent revision items" and "item_source db rg agent item n"
  shows "items_ok db rg agent (if revision < n then n else revision) (items @ [item])"
proof -
  let ?m = "if revision < n then n else revision"
  have "\<exists>k. item_source db rg agent x k \<and> k \<le> ?m" if "x \<in> set items" for x
  proof -
    obtain k where "item_source db rg agent x k" "k \<le> revision" using assms(1) \<open>x \<in> set items\<close> unfolding items_ok_def by blast
    then show ?thesis by (intro exI [of _ k]) auto
  qed
  moreover have "\<exists>k. item_source db rg agent item k \<and> k \<le> ?m" using assms(2) by (intro exI [of _ n]) auto
  ultimately show ?thesis using assms unfolding items_ok_def by auto
qed

locale snapshot_sources =
  fixes S :: "'w DynamicSnapshotStore" and J :: "'w \<Rightarrow> bool" and ab :: "'w \<Rightarrow> rollout_db \<times> 'r" and reg :: "'r \<Rightarrow> registry_db"
    and ag :: "'r \<Rightarrow> agents_db"
  assumes ListTenants: "contract J ab (\<lambda>_. True) (rss_ListTenants (dss_registry S)) (\<lambda>d _ d'. d' = d)"
    and ListDefinitions: "contract J ab (\<lambda>_. True) (rss_ListDefinitions (dss_registry S) i)
      (\<lambda>d xs d'. d' = d \<and> (\<forall>x \<in> set xs. reg_defs (reg (snd d)) (definitionKey i (def_Key x)) = Some x))"
    and ListVersions: "contract J ab (\<lambda>_. True) (rss_ListVersions (dss_registry S) i k)
      (\<lambda>d vs d'. d' = d \<and> (\<exists>x. reg_defs (reg (snd d)) (definitionKey i k) = Some x \<and> vs = reg_versions (reg (snd d)) (def_ID x)))"
    and GetEnvironmentState: "contract J ab (\<lambda>_. True) (rss_GetEnvironmentState (dss_registry S) i k e)
      (\<lambda>d st d'. d' = d \<and> (\<exists>x. reg_defs (reg (snd d)) (definitionKey i k) = Some x \<and> reg_states (reg (snd d)) (def_ID x) e = Some st))"
    and GetAgent: "contract J ab (\<lambda>_. True) (dss_agents S i) (\<lambda>d a d'. d' = d \<and> adb_agents (ag (snd d)) i = Some a)"
    and ActiveRollout: "contract J ab (\<lambda>_. valid_env e) (dss_rollouts S c e)
      (\<lambda>d x d'. d' = d \<and> is_active (fst d) (fst x) \<and> ro_ConfigDefinitionID (fst x) = c \<and> ro_Environment (fst x) = e \<and>
         snd x = db_targets (fst d) (ro_ID (fst x)) (ro_CurrentStageID (fst x)))"
    and now_J: "J w \<Longrightarrow> J (snd (dss_now S w))" and now_ab: "J w \<Longrightarrow> ab (snd (dss_now S w)) = ab w"
begin

lemma snapshotItem_spec:
  assumes "reg_defs (reg (snd (ab w))) (definitionKey i (def_Key x)) = Some x" and "J w" and "pointers_ok (reg (snd (ab w)))"
  shows "wp (snapshotItem S i x agent)
    (\<lambda>found w'. J w' \<and> ab w' = ab w \<and>
       (case found of None \<Rightarrow> True | Some (item, revision) \<Rightarrow> item_source (fst (ab w)) (reg (snd (ab w))) agent item revision))
    (\<lambda>_ w'. J w' \<and> ab w' = ab w) w" (is "wp _ ?Q ?E w")
proof -
  let ?e = "agent_Environment agent" and ?reg = "reg (snd (ab w))"
  have eff: "wp (effective_for S x agent (env_StableVersionID st))
      (\<lambda>(vid, asg, rev) w'. J w' \<and> ab w' = ab w \<and> (\<forall>v \<in> set (reg_versions ?reg (def_ID x)). ver_ID v = vid \<longrightarrow>
         item_source (fst (ab w)) ?reg agent (make_item x v asg) rev)) ?E w2"
    if "J w2" "ab w2 = ab w" "reg_states ?reg (def_ID x) ?e = Some st" "valid_env ?e" for w2 st
    unfolding effective_for_def Let_def wp_try
  proof (rule wp_contract [OF ActiveRollout that(1)], goal_cases)
    case (2 y w3)
    obtain r ts where y: "y = (r, ts)" by (cases y)
    let ?f = "EffectiveVersionForAgent r ts (agent_ID agent)"
    have "item_source (fst (ab w)) ?reg agent (make_item x v asg) rev"
      if "v \<in> set (reg_versions ?reg (def_ID x))" "ver_ID v = eff_VersionID ?f"
        "(asg, rev) = (if eff_AssignedRollout ?f \<noteq> [] then (\<lparr>asg_RolloutID = eff_AssignedRollout ?f, asg_StageID = eff_AssignedStage ?f\<rparr>, eff_SnapshotRevision ?f)
           else (\<lparr>asg_RolloutID = [], asg_StageID = []\<rparr>, 1))" for v asg rev
      unfolding item_source_def
      by (rule exI [of _ "definitionKey i (def_Key x)"], rule exI [of _ x], rule exI [of _ v])
        (use that 2 assms(1) \<open>ab w2 = ab w\<close> y in \<open>auto simp: make_item_def Let_def split: if_splits intro!: exI [of _ r]\<close>)
    then show ?case using 2 \<open>ab w2 = ab w\<close> y by (auto simp: wp_simps)
  next
    case (3 e w3)
    have "item_source (fst (ab w)) ?reg agent (make_item x v \<lparr>asg_RolloutID = [], asg_StageID = []\<rparr>) 1"
      if "v \<in> set (reg_versions ?reg (def_ID x))" "ver_ID v = env_StableVersionID st" for v
      unfolding item_source_def
      by (rule exI [of _ "definitionKey i (def_Key x)"], rule exI [of _ x], rule exI [of _ v])
        (use that assms(1) \<open>reg_states ?reg (def_ID x) ?e = Some st\<close> in \<open>auto simp: make_item_def\<close>)
    then show ?case using 3 \<open>ab w2 = ab w\<close> by (auto simp: wp_simps)
  qed (use that in simp)
  have found: "wp (bindM (effective_for S x agent (env_StableVersionID st)) (\<lambda>(versionID, assignment, revision).
        case findVersionByID (reg_versions ?reg (def_ID x)) versionID of
          None \<Rightarrow> retM None | Some version \<Rightarrow> retM (Some (make_item x version assignment, revision)))) ?Q ?E w2"
    if "J w2" "ab w2 = ab w" "reg_states ?reg (def_ID x) ?e = Some st" "valid_env ?e" for w2 st
    unfolding wp_bind
    by (rule wp_mono [OF eff [OF that]])
      (auto simp: wp_simps split: option.splits dest!: findVersionByID_Some)
  show ?thesis unfolding snapshotItem_def wp_try
  proof (rule wp_contract [OF GetEnvironmentState assms(2) TrueI], goal_cases)
    case (1 st w1)
    then have st: "reg_states ?reg (def_ID x) ?e = Some st" "ab w1 = ab w" using assms(1) by auto
    have env: "valid_env ?e" using assms(3) st(1) by (auto simp: pointers_ok_def)
    show ?case
    proof (cases "env_StableVersionID st = []")
      case True
      then show ?thesis using 1(1) st(2) by (simp add: wp_simps)
    next
      case False
      have "wp (bindM (rss_ListVersions (dss_registry S) i (def_Key x)) (\<lambda>versions.
            bindM (effective_for S x agent (env_StableVersionID st)) (\<lambda>(versionID, assignment, revision).
            case findVersionByID versions versionID of
              None \<Rightarrow> retM None | Some version \<Rightarrow> retM (Some (make_item x version assignment, revision))))) ?Q ?E w1"
        unfolding wp_bind [of "rss_ListVersions _ _ _"]
      proof (rule wp_contract [OF ListVersions 1(1) TrueI], goal_cases)
        case (1 vs w2)
        then have "vs = reg_versions ?reg (def_ID x)" "ab w2 = ab w" using assms(1) st(2) by auto
        then show ?case using found [OF 1(1) _ st(1) env] by simp
      qed (use st(2) in simp)
      then show ?thesis using False by simp
    qed
  qed (auto simp: wp_simps)
qed

lemma definitions_loop_spec:
  assumes "\<forall>x \<in> set xs. reg_defs (reg (snd (ab w))) (definitionKey i (def_Key x)) = Some x" and "J w" and "pointers_ok (reg (snd (ab w)))"
    and "items_ok (fst (ab w)) (reg (snd (ab w))) agent revision items"
  shows "wp (definitions_loop S i agent xs revision items)
    (\<lambda>(rev', items') w'. J w' \<and> ab w' = ab w \<and> items_ok (fst (ab w)) (reg (snd (ab w))) agent rev' items')
    (\<lambda>_ w'. J w' \<and> ab w' = ab w) w"
  using assms
proof (induction xs arbitrary: w revision items)
  case Nil
  then show ?case by (simp add: wp_simps)
next
  case (Cons x xs)
  show ?case unfolding definitions_loop.simps wp_bind
  proof (rule wp_mono [OF snapshotItem_spec], goal_cases)
    case (4 found w1)
    then have same: "J w1" "ab w1 = ab w" by simp_all
    show ?case
    proof (cases found)
      case None
      then show ?thesis using Cons.IH [of w1 revision items] Cons.prems same by simp
    next
      case (Some y)
      obtain item n where y: "y = (item, n)" by (cases y)
      have "items_ok (fst (ab w)) (reg (snd (ab w))) agent (if revision < n then n else revision) (items @ [item])"
        by (rule items_ok_add [OF Cons.prems(4)]) (use 4 Some y in simp)
      then show ?thesis using Cons.IH [of w1 "if revision < n then n else revision" "items @ [item]"] Cons.prems same Some y by simp
    qed
  qed (use Cons.prems in auto)
qed

lemma tenants_loop_spec:
  assumes "J w" and "pointers_ok (reg (snd (ab w)))" and "items_ok (fst (ab w)) (reg (snd (ab w))) agent revision items"
  shows "wp (tenants_loop S agent is revision items)
    (\<lambda>(rev', items') w'. J w' \<and> ab w' = ab w \<and> items_ok (fst (ab w)) (reg (snd (ab w))) agent rev' items')
    (\<lambda>_ w'. J w' \<and> ab w' = ab w) w"
  using assms
proof (induction "is" arbitrary: w revision items)
  case Nil
  then show ?case by (simp add: wp_simps)
next
  case (Cons i "is")
  show ?case unfolding tenants_loop.simps wp_try
  proof (rule wp_contract [OF ListDefinitions Cons.prems(1) TrueI], goal_cases)
    case (1 xs w1)
    then have same: "ab w1 = ab w" by simp
    show ?case unfolding wp_bind
    proof (rule wp_mono [OF definitions_loop_spec], goal_cases)
      case (5 y w2)
      then show ?case using Cons.IH [of w2 "fst y" "snd y"] Cons.prems(2) same by (cases y) simp
    qed (use 1 same Cons.prems in auto)
  next
    case (2 e w1)
    then show ?case using Cons.IH [of w1 revision items] Cons.prems by (auto simp: wp_simps)
  qed
qed

lemma GetSnapshot_spec:
  assumes "J w" and "pointers_ok (reg (snd (ab w)))"
  shows "wp (DynamicSnapshotStore_GetSnapshot S i)
    (\<lambda>snap w'. J w' \<and> ab w' = ab w \<and>
       (\<exists>agent. adb_agents (ag (snd (ab w))) i = Some agent \<and>
          items_ok (fst (ab w)) (reg (snd (ab w))) agent (snap_Revision snap) (snap_Configs snap)))
    (\<lambda>_ w'. J w' \<and> ab w' = ab w) w" (is "wp _ ?Q ?E w")
proof -
  have start: "items_ok (fst (ab w)) (reg (snd (ab w))) agent 1 []" for agent by (simp add: items_ok_def)
  have body: "wp (bindM (tenants_loop S agent is 1 []) (\<lambda>(revision, items). bindM (effM (dss_now S)) (\<lambda>now.
      retM \<lparr>snap_Revision = revision, snap_GeneratedAt = now, snap_Configs = items\<rparr>))) ?Q ?E w1"
    if "J w1" "ab w1 = ab w" "adb_agents (ag (snd (ab w))) i = Some agent" for agent "is" w1
    unfolding wp_bind [of "tenants_loop _ _ _ _ _"]
    by (rule wp_mono [OF tenants_loop_spec [OF that(1)]])
      (use that start assms(2) in \<open>auto simp: wp_simps now_J now_ab\<close>)
  have tenants: "wp (bindM (snapshotTenants S) (\<lambda>tenants. bindM (tenants_loop S agent tenants 1 []) (\<lambda>(revision, items).
      bindM (effM (dss_now S)) (\<lambda>now. retM \<lparr>snap_Revision = revision, snap_GeneratedAt = now, snap_Configs = items\<rparr>)))) ?Q ?E w1"
    if "J w1" "ab w1 = ab w" "adb_agents (ag (snd (ab w))) i = Some agent" for agent w1
  proof (cases "dss_tenants S = []")
    case True
    then show ?thesis unfolding snapshotTenants_def wp_bind [of "if _ then _ else _"]
      using that body by (auto simp: wp_bind [of "rss_ListTenants _"] wp_ret intro!: wp_contract [OF ListTenants])
  next
    case False
    then show ?thesis unfolding snapshotTenants_def wp_bind [of "if _ then _ else _"]
      using that body by (simp add: wp_ret)
  qed
  show ?thesis unfolding DynamicSnapshotStore_GetSnapshot_def wp_try
    by (rule wp_contract [OF GetAgent assms(1) TrueI]) (use tenants in \<open>auto simp: wp_simps\<close>)
qed

end

subsection \<open>The snapshot endpoint\<close>

text \<open>The verifier of the data plane adds nothing: a token verifies as the subject that the agent registry verifies it as.\<close>

lemma dp_verify_subject:
  assumes "AgentCredentialVerifier_Verify verify token w = (Inr a, w')"
  shows "verify token w = (Inr a, w')"
  using assms by (auto simp: AgentCredentialVerifier_Verify_def tryM_def raiseM_def retM_def split: prod.splits sum.splits if_splits)

text \<open>The token of the header is what follows \<open>Bearer\<close>, in any case, and one space.\<close>

lemma Cut_Some: "Cut c s = Some (a, b) \<longleftrightarrow> s = a @ c # b \<and> c \<notin> set a"
proof (induction s arbitrary: a)
  case (Cons x s)
  show ?case
  proof (cases "x = c")
    case True
    then show ?thesis by (cases a) auto
  next
    case False
    have "Cut c (x # s) = Some (a, b) \<longleftrightarrow> (\<exists>a'. a = x # a' \<and> Cut c s = Some (a', b))" using False by (auto simp: map_option_case split: option.splits)
    then show ?thesis unfolding Cons.IH using False by (cases a) auto
  qed
qed simp

lemma ascii_lower_space: "ascii_lower c = CHR '' '' \<longleftrightarrow> c = CHR '' ''"
proof
  assume "ascii_lower c = CHR '' ''"
  then have n: "(of_char (ascii_lower c) :: nat) = 32" by simp
  have "(of_char c :: nat) = 32"
    using n of_char_of [where ?'a = nat, of "(of_char c :: nat) + 32"] by (auto simp: ascii_lower_def Let_def take_bit_nat_def split: if_splits)
  then have "(of_char c :: nat) = of_char (CHR '' '')" by simp
  then show "c = CHR '' ''" by (simp only: of_char_eq_iff)
qed (simp add: ascii_lower_def)

lemma lower_Bearer: "map ascii_lower ''Bearer'' = ''bearer''"
  by code_simp

lemma bearerToken_spec:
  "bearerToken header = (if map ascii_lower (take 7 header) = ''bearer '' then drop 7 header else [])"
proof (cases "map ascii_lower (take 7 header) = ''bearer ''")
  case True
  have "length (map ascii_lower (take 7 header)) = 7" unfolding True by simp
  then have "6 < length header" by simp
  then obtain k c where take: "take 7 header = k @ [c]" using take_Suc_conv_app_nth [of 6 header] by auto
  have lower: "map ascii_lower k = ''bearer''" "ascii_lower c = CHR '' ''" using True take by auto
  have c: "c = CHR '' ''" using lower(2) ascii_lower_space by blast
  have "CHR '' '' \<notin> set k"
  proof
    assume "CHR '' '' \<in> set k"
    then have "ascii_lower (CHR '' '') \<in> set (map ascii_lower k)" by simp
    then show False unfolding lower(1) by (simp add: ascii_lower_def)
  qed
  moreover have "header = k @ CHR '' '' # drop 7 header" using append_take_drop_id [of 7 header] take(1) c by simp
  ultimately have "Cut CHR '' '' header = Some (k, drop 7 header)" by (simp only: Cut_Some) simp
  moreover have "EqualFold k ''Bearer''" by (simp only: EqualFold_def lower(1) lower_Bearer)
  moreover have "header \<noteq> []" using \<open>6 < length header\<close> by auto
  ultimately show ?thesis unfolding bearerToken_def if_P [OF True] by simp
next
  case False
  have "bearerToken header = []"
  proof (rule ccontr)
    assume "bearerToken header \<noteq> []"
    then obtain k where cut: "header = k @ CHR '' '' # bearerToken header" "EqualFold k ''Bearer''"
      by (auto simp: bearerToken_def Cut_Some split: if_splits option.splits)
    then have "map ascii_lower k = ''bearer''" by (simp only: EqualFold_def lower_Bearer)
    moreover have "length (map ascii_lower k) = 6" unfolding calculation by simp
    then have "length k = 6" by simp
    ultimately have "map ascii_lower (take 7 header) = ''bearer ''" by (subst cut(1)) (simp add: ascii_lower_space)
    then show False using False by simp
  qed
  then show ?thesis using False by simp
qed

text \<open>C14 (error). The snapshot endpoint always answers, with exactly this status, tag and body. The token is what follows \<open>Bearer\<close> (in any case) in
  the authorization header, and empty for any other header. A missing or invalid credential is 401, a forbidden one or one of another agent 403,
  an agent without snapshot 404, every other error of the verifier or the store 500 without its text; a snapshot is sent with its tag
  and status 200, or, when the client already has this tag, only the tag with status 304. No store is touched beyond the two calls.\<close>
theorem snapshot_endpoint_answers:
  "let token = (if map ascii_lower (take 7 authorization) = ''bearer '' then drop 7 authorization else []);
       refusal = (\<lambda>err. case filter (\<lambda>(s, _). errors_Is err s)
           [(dataplane_ErrMissingCredential, 401, ''unauthorized''), (dataplane_ErrInvalidCredential, 401, ''unauthorized''),
            (dataplane_ErrForbidden, 403, ''forbidden''), (dataplane_ErrSnapshotNotFound, 404, ''not_found'')] of
           [] \<Rightarrow> \<lparr>rsp_Status = 500, rsp_ETag = None, rsp_Body = ErrorBody ''internal_error'' ''request failed''\<rparr>
         | (_, status, code) # _ \<Rightarrow> \<lparr>rsp_Status = status, rsp_ETag = None, rsp_Body = ErrorBody code (error_text err)\<rparr>)
   in case dp_getSnapshot h agentID authorization ifNoneMatch w of
      (Inl err, w') \<Rightarrow> False
    | (Inr resp, w') \<Rightarrow>
       (case dph_verifier h token w of
          (Inl err, w1) \<Rightarrow> w' = w1 \<and> resp = refusal err
        | (Inr subject, w1) \<Rightarrow>
            if subject \<noteq> agentID then
              w' = w1 \<and> resp = \<lparr>rsp_Status = 403, rsp_ETag = None, rsp_Body = ErrorBody ''forbidden'' ''credential subject does not match agent''\<rparr>
            else case dph_store h agentID w1 of
              (Inl err, w2) \<Rightarrow> w' = w2 \<and> resp = refusal err
            | (Inr snapshot, w2) \<Rightarrow> w' = w2 \<and>
                (case Snapshot_ETag snapshot of
                   Inl err \<Rightarrow> resp = \<lparr>rsp_Status = 500, rsp_ETag = None, rsp_Body = ErrorBody ''internal_error'' ''snapshot etag failed''\<rparr>
                 | Inr etag \<Rightarrow>
                     if ifNoneMatch = etag then resp = \<lparr>rsp_Status = 304, rsp_ETag = Some etag, rsp_Body = NoBody\<rparr>
                     else resp = \<lparr>rsp_Status = 200, rsp_ETag = Some etag, rsp_Body = SnapshotBody snapshot\<rparr>))"
proof -
  have forbidden: "sentinel_text dataplane_ErrForbidden = ''credential subject does not match agent''" by code_simp
  show ?thesis
    unfolding Let_def dp_getSnapshot_def bearerToken_spec
    by (simp add: tryM_def retM_def dp_writeError_def dp_error_def forbidden split: prod.split sum.split)
qed

lemma dp_writeError_status: "rsp_Status (dp_writeError err) \<in> {401, 403, 404, 500}"
  by (simp add: dp_writeError_def dp_error_def)

end
