(* ===== verification/Json_Decode.thy ===== *)
theory Json_Decode
  imports Json_Encode Float64
begin

section \<open>encoding/json: reading values\<close>

text \<open>
  What \<open>json.Unmarshal\<close> and \<open>json.Decoder\<close> read. A document is parsed into a tree that keeps, with every
  member and element, the bytes it was read from: these are what a \<open>json.RawMessage\<close> receives. The destinations
  of the program are described by decoders: functions that update the old value of a field.
\<close>

datatype json =
    JNull | JBool bool | JNumber string | JString string
  | JArray "(string \<times> json) list" | JObject "(string \<times> string \<times> json) list"

subsection \<open>Literals\<close>

definition skip_space :: "string \<Rightarrow> string" where
  "skip_space s = dropWhile json_space s"

text \<open>The content of a string up to its closing quote, escapes kept, and what follows.\<close>

fun scan_string :: "string \<Rightarrow> (string \<times> string) option" where
  "scan_string [] = None"
| "scan_string (c # s) =
     (if c = CHR 0x22 then Some ([], s)
      else if byte_of c < 32 then None
      else if c = CHR 0x5C then
        (case s of [] \<Rightarrow> None | d # s' \<Rightarrow> map_option (\<lambda>(a, r). (c # d # a, r)) (scan_string s'))
      else map_option (\<lambda>(a, r). (c # a, r)) (scan_string s))"

definition hex_value :: "char \<Rightarrow> int option" where
  "hex_value c =
     (let n = byte_of c in
      if 48 \<le> n \<and> n \<le> 57 then Some (n - 48)
      else if 97 \<le> n \<and> n \<le> 102 then Some (n - 87)
      else if 65 \<le> n \<and> n \<le> 70 then Some (n - 55) else None)"

fun hex4 :: "string \<Rightarrow> int option" where
  "hex4 (a # b # c # d # s) =
     (case (hex_value a, hex_value b, hex_value c, hex_value d) of
        (Some x, Some y, Some z, Some w) \<Rightarrow> Some (((x * 16 + y) * 16 + z) * 16 + w)
      | _ \<Rightarrow> None)"
| "hex4 _ = None"

definition utf8_encode :: "int \<Rightarrow> string" where
  "utf8_encode r =
     (if r < 128 then [char_of r]
      else if r < 2048 then [char_of (192 + r div 64), char_of (128 + r mod 64)]
      else if r < 65536 then [char_of (224 + r div 4096), char_of (128 + r div 64 mod 64), char_of (128 + r mod 64)]
      else [char_of (240 + r div 262144), char_of (128 + r div 4096 mod 64), char_of (128 + r div 64 mod 64), char_of (128 + r mod 64)])"

definition surrogate :: "int \<Rightarrow> bool" where
  "surrogate r \<longleftrightarrow> 55296 \<le> r \<and> r < 57344"

definition replacement_rune :: int where
  "replacement_rune = 65533"

text \<open>The rune of an escape \<open>\\uXXXX\<close> whose digits start \<open>s\<close>, and how many bytes of \<open>s\<close> it takes; a surrogate pair takes
  two escapes, a surrogate that does not start a pair is replaced.\<close>

definition unicode_escape :: "string \<Rightarrow> (int \<times> nat) option" where
  "unicode_escape s =
     (case hex4 s of None \<Rightarrow> None | Some r \<Rightarrow>
      if \<not> surrogate r then Some (r, 4)
      else if take 2 (drop 4 s) = CHR 0x5C # ''u'' then
        (case hex4 (drop 6 s) of
           None \<Rightarrow> None
         | Some r' \<Rightarrow> if r < 56320 \<and> 56320 \<le> r' \<and> r' < 57344 then Some ((r - 55296) * 1024 + (r' - 56320) + 65536, 10)
                     else Some (replacement_rune, 4))
      else Some (replacement_rune, 4))"

definition simple_escape :: "char \<Rightarrow> char option" where
  "simple_escape c =
     (if c = CHR 0x22 \<or> c = CHR 0x5C \<or> c = CHR ''/'' then Some c
      else if c = CHR ''b'' then Some (CHR 0x08) else if c = CHR ''f'' then Some (CHR 0x0C)
      else if c = CHR ''n'' then Some (CHR 0x0A) else if c = CHR ''r'' then Some (CHR 0x0D)
      else if c = CHR ''t'' then Some (CHR 0x09) else None)"

text \<open>\<open>unquote\<close>: escapes are resolved and bytes that are no UTF-8 are replaced.\<close>

function unescape :: "string \<Rightarrow> string option" where
  "unescape s =
     (if s = [] then Some []
      else if hd s = CHR 0x5C then
        (if tl s = [] then None
         else if hd (tl s) = CHR ''u'' then
           (case unicode_escape (drop 2 s) of
              None \<Rightarrow> None
            | Some (r, k) \<Rightarrow> map_option (\<lambda>t. utf8_encode r @ t) (unescape (drop (2 + k) s)))
         else case simple_escape (hd (tl s)) of
           None \<Rightarrow> None
         | Some c \<Rightarrow> map_option (\<lambda>t. c # t) (unescape (drop 2 s)))
      else if rune_len s = 0 then map_option (\<lambda>t. utf8_encode replacement_rune @ t) (unescape (drop 1 s))
      else map_option (\<lambda>t. take (rune_len s) s @ t) (unescape (drop (rune_len s) s)))"
  by pat_completeness auto
termination
  by (relation "measure length") auto

declare unescape.simps [simp del]

definition digits :: "string \<Rightarrow> string \<times> string" where
  "digits s = (takeWhile json_digit s, dropWhile json_digit s)"

text \<open>The longest number a string starts with: an integer part, a fraction, an exponent.\<close>

definition scan_integer :: "string \<Rightarrow> (string \<times> string) option" where
  "scan_integer s =
     (case s of
        [] \<Rightarrow> None
      | c # r \<Rightarrow> if c = CHR ''0'' then Some ([c], r) else if json_digit c then Some (digits s) else None)"

definition scan_fraction :: "string \<Rightarrow> (string \<times> string) option" where
  "scan_fraction s =
     (case s of
        [] \<Rightarrow> Some ([], [])
      | c # r \<Rightarrow>
          if c \<noteq> CHR ''.'' then Some ([], s)
          else case digits r of (ds, r') \<Rightarrow> if ds = [] then None else Some (c # ds, r'))"

definition scan_exponent :: "string \<Rightarrow> (string \<times> string) option" where
  "scan_exponent s =
     (case s of
        [] \<Rightarrow> Some ([], [])
      | c # r \<Rightarrow>
          if c \<noteq> CHR ''e'' \<and> c \<noteq> CHR ''E'' then Some ([], s)
          else let sign = takeWhile (\<lambda>x. x = CHR ''+'' \<or> x = CHR ''-'') (take 1 r) in
            (case digits (drop (length sign) r) of (ds, r') \<Rightarrow> if ds = [] then None else Some (c # sign @ ds, r')))"

definition scan_number :: "string \<Rightarrow> (string \<times> string) option" where
  "scan_number s =
     (let sign = takeWhile (\<lambda>x. x = CHR ''-'') (take 1 s) in
      case scan_integer (drop (length sign) s) of None \<Rightarrow> None | Some (i, r) \<Rightarrow>
      case scan_fraction r of None \<Rightarrow> None | Some (f, r) \<Rightarrow>
      case scan_exponent r of None \<Rightarrow> None | Some (e, r) \<Rightarrow> Some (sign @ i @ f @ e, r))"

subsection \<open>Values\<close>

definition scan_literal :: "string \<Rightarrow> json \<Rightarrow> string \<Rightarrow> (json \<times> string) option" where
  "scan_literal word v s = (if take (length word) s = word then Some (v, drop (length word) s) else None)"

definition scan_scalar :: "string \<Rightarrow> (json \<times> string) option" where
  "scan_scalar s =
     (case s of
        [] \<Rightarrow> None
      | c # r \<Rightarrow>
          if c = CHR 0x22 then
            (case scan_string r of None \<Rightarrow> None | Some (raw, r') \<Rightarrow> map_option (\<lambda>t. (JString t, r')) (unescape raw))
          else if c = CHR ''t'' then scan_literal ''true'' (JBool True) s
          else if c = CHR ''f'' then scan_literal ''false'' (JBool False) s
          else if c = CHR ''n'' then scan_literal ''null'' JNull s
          else map_option (\<lambda>(n, r'). (JNumber n, r')) (scan_number s))"

text \<open>The bytes between two ends of the input, the later one a suffix of the earlier one.\<close>

definition consumed :: "string \<Rightarrow> string \<Rightarrow> string" where
  "consumed s r = take (length s - length r) s"

text \<open>The recursion is bounded by a fuel; \<open>fuel_for\<close> is enough of it (\<open>parse_fuel\<close> below). The second argument is how deep objects and arrays may still
  be nested.\<close>

fun parse_value :: "nat \<Rightarrow> int \<Rightarrow> string \<Rightarrow> (json \<times> string) option"
  and parse_elements :: "nat \<Rightarrow> int \<Rightarrow> string \<Rightarrow> ((string \<times> json) list \<times> string) option"
  and parse_members :: "nat \<Rightarrow> int \<Rightarrow> string \<Rightarrow> ((string \<times> string \<times> json) list \<times> string) option" where
  "parse_value 0 d s = None"
| "parse_value (Suc n) d s =
     (case s of
        [] \<Rightarrow> None
      | c # r \<Rightarrow>
          if c = CHR 0x7B then
            (if d \<le> 0 then None
             else if take 1 (skip_space r) = [CHR 0x7D] then Some (JObject [], drop 1 (skip_space r))
             else map_option (\<lambda>(ms, r'). (JObject ms, r')) (parse_members n (d - 1) (skip_space r)))
          else if c = CHR 0x5B then
            (if d \<le> 0 then None
             else if take 1 (skip_space r) = [CHR 0x5D] then Some (JArray [], drop 1 (skip_space r))
             else map_option (\<lambda>(vs, r'). (JArray vs, r')) (parse_elements n (d - 1) (skip_space r)))
          else scan_scalar s)"
| "parse_elements 0 d s = None"
| "parse_elements (Suc n) d s =
     (case parse_value n d s of None \<Rightarrow> None | Some (v, r) \<Rightarrow>
      (let r1 = skip_space r in
       if take 1 r1 = '','' then
         (case parse_elements n d (skip_space (drop 1 r1)) of None \<Rightarrow> None
          | Some (vs, r2) \<Rightarrow> Some ((consumed s r, v) # vs, r2))
       else if take 1 r1 = [CHR 0x5D] then Some ([(consumed s r, v)], drop 1 r1)
       else None))"
| "parse_members 0 d s = None"
| "parse_members (Suc n) d s =
     (if take 1 s \<noteq> [CHR 0x22] then None
      else case scan_scalar s of
        Some (JString k, r) \<Rightarrow>
          (let r1 = skip_space r in
           if take 1 r1 \<noteq> '':'' then None
           else
             let s2 = skip_space (drop 1 r1) in
             case parse_value n d s2 of None \<Rightarrow> None | Some (v, r2) \<Rightarrow>
             (let r3 = skip_space r2 in
              if take 1 r3 = '','' then
                (case parse_members n d (skip_space (drop 1 r3)) of None \<Rightarrow> None
                 | Some (ms, r4) \<Rightarrow> Some ((k, consumed s2 r2, v) # ms, r4))
              else if take 1 r3 = [CHR 0x7D] then Some ([(k, consumed s2 r2, v)], drop 1 r3)
              else None))
      | _ \<Rightarrow> None)"

definition fuel_for :: "string \<Rightarrow> nat" where
  "fuel_for s = 2 * length s + 2"

text \<open>\<open>Decoder.Decode\<close> reads one value off the stream and leaves the rest.\<close>

definition json_first :: "bytes \<Rightarrow> error + (string \<times> json)" where
  "json_first s =
     (let s1 = skip_space s in
      if s1 = [] then Inl (Foreign ''EOF'')
      else case parse_value (fuel_for s1) maxNestingDepth s1 of
        None \<Rightarrow> Inl (Foreign ''invalid character'')
      | Some (v, r) \<Rightarrow> Inr (consumed s1 r, v))"

text \<open>\<open>json.Unmarshal\<close> first checks the whole input.\<close>

definition json_whole :: "bytes \<Rightarrow> error + (string \<times> json)" where
  "json_whole s = (if \<not> json_Valid s then Inl (Foreign ''invalid character'') else json_first s)"

subsection \<open>The fuel is enough\<close>

lemma skip_space_shrinks: "length (skip_space s) \<le> length s"
  by (simp add: skip_space_def length_dropWhile_le)

lemma scan_string_shrinks: "scan_string s = Some (a, r) \<Longrightarrow> length r < length s"
  by (induction s arbitrary: a r rule: scan_string.induct) (fastforce split: if_splits list.splits)+

lemma digits_shrinks: "length (snd (digits s)) \<le> length s"
  by (simp add: digits_def length_dropWhile_le)

lemma scan_integer_shrinks: "scan_integer s = Some (a, r) \<Longrightarrow> length r < length s"
  by (auto simp: scan_integer_def digits_def split: list.splits if_splits intro: le_imp_less_Suc length_dropWhile_le)

lemma scan_fraction_shrinks: "scan_fraction s = Some (a, r) \<Longrightarrow> length r \<le> length s"
  by (auto simp: scan_fraction_def digits_def split: list.splits if_splits intro: le_SucI length_dropWhile_le)

lemma scan_exponent_shrinks:
  assumes "scan_exponent s = Some (a, r)"
  shows "length r \<le> length s"
proof -
  have "length (dropWhile json_digit (drop k xs)) \<le> Suc (length xs)" for k xs
    using length_dropWhile_le [of json_digit "drop k xs"] by simp
  then show ?thesis using assms by (auto simp: scan_exponent_def digits_def Let_def split: list.splits if_splits)
qed

lemma scan_number_shrinks: "scan_number s = Some (a, r) \<Longrightarrow> length r < length s"
  by (auto simp: scan_number_def Let_def split: option.splits
      dest!: scan_integer_shrinks scan_fraction_shrinks scan_exponent_shrinks) arith

lemma scan_scalar_shrinks: "scan_scalar s = Some (v, r) \<Longrightarrow> length r < length s"
  by (auto simp: scan_scalar_def scan_literal_def split: list.splits if_splits option.splits
      dest!: scan_string_shrinks scan_number_shrinks)

lemma shrinks_trans:
  "length r < length (skip_space s) \<Longrightarrow> length r < length (c # s)"
  "length r < length (skip_space (drop 1 (skip_space s))) \<Longrightarrow> length s < n \<Longrightarrow> length r < n"
  "length s < n \<Longrightarrow> length (drop 1 (skip_space s)) < n"
  "length (drop 1 (skip_space s)) < length (c # s)"
  using skip_space_shrinks [of s] skip_space_shrinks [of "drop 1 (skip_space s)"] by simp_all

lemma parse_shrinks:
  "parse_value n d s = Some (v, r) \<Longrightarrow> length r < length s"
  "parse_elements n d s = Some (vs, r) \<Longrightarrow> length r < length s"
  "parse_members n d s = Some (ms, r) \<Longrightarrow> length r < length s"
proof (induction n d s and n d s and n d s arbitrary: v r and vs r and ms r rule: parse_value_parse_elements_parse_members.induct)
  case (2 n d s)
  show ?case
  proof (cases s)
    case (Cons c t)
    consider "c = CHR 0x7B" "take 1 (skip_space t) = [CHR 0x7D]" | "c = CHR 0x7B" "take 1 (skip_space t) \<noteq> [CHR 0x7D]"
      | "c = CHR 0x5B" "take 1 (skip_space t) = [CHR 0x5D]" | "c = CHR 0x5B" "take 1 (skip_space t) \<noteq> [CHR 0x5D]"
      | "c \<noteq> CHR 0x7B" "c \<noteq> CHR 0x5B" by blast
    then show ?thesis
    proof cases
      case 1
      then show ?thesis using 2(3) shrinks_trans(4) [of t c] by (auto simp: Cons split: if_splits)
    next
      case 2
      then obtain ms where d: "\<not> d \<le> 0" and "parse_members n (d - 1) (skip_space t) = Some (ms, r)"
        using \<open>parse_value (Suc n) d s = Some (v, r)\<close> by (auto simp: Cons split: if_splits)
      from "2.IH"(1) [OF Cons 2(1) d 2(2) this(2)] show ?thesis unfolding Cons by (rule shrinks_trans(1))
    next
      case 3
      then show ?thesis using 2(3) shrinks_trans(4) [of t c] by (auto simp: Cons split: if_splits)
    next
      case 4
      then obtain vs where d: "\<not> d \<le> 0" and vs: "parse_elements n (d - 1) (skip_space t) = Some (vs, r)"
        using 2(3) by (auto simp: Cons split: if_splits)
      have "c \<noteq> CHR 0x7B" using 4 by simp
      from "2.IH"(2) [OF Cons this 4(1) d 4(2) vs] show ?thesis unfolding Cons by (rule shrinks_trans(1))
    next
      case 5
      then show ?thesis using 2(3) by (auto simp: Cons dest: scan_scalar_shrinks)
    qed
  qed (use 2 in simp)
next
  case (4 n d s)
  from 4(3) obtain v r0 where v: "parse_value n d s = Some (v, r0)" by (auto split: option.splits)
  have r0: "length r0 < length s" by (rule 4(1) [OF v])
  show ?case
  proof (cases "take 1 (skip_space r0) = '',''")
    case True
    then obtain vs' r2 where "parse_elements n d (skip_space (drop 1 (skip_space r0))) = Some (vs', r2)" "r = r2"
      using 4(3) v by (auto simp: Let_def split: option.splits)
    with 4(2) [OF v _ refl True] have "length r < length (skip_space (drop 1 (skip_space r0)))" by auto
    then show ?thesis using r0 by (rule shrinks_trans(2))
  next
    case False
    then have "r = drop 1 (skip_space r0)" using 4(3) v by (auto simp: Let_def split: if_splits)
    then show ?thesis using shrinks_trans(3) [OF r0] by simp
  qed
next
  case (6 n d s)
  from 6(3) obtain k r0 where k: "scan_scalar s = Some (JString k, r0)" "take 1 s = [CHR 0x22]" "take 1 (skip_space r0) = '':''"
    by (auto simp: Let_def split: option.splits if_splits json.splits)
  define s2 where "s2 = skip_space (drop 1 (skip_space r0))"
  from 6(3) k obtain v r2 where v: "parse_value n d s2 = Some (v, r2)" by (auto simp: Let_def s2_def split: option.splits)
  have "length r2 < length s2" using 6(1) k v unfolding s2_def by fastforce
  then have r2: "length r2 < length s" unfolding s2_def by (rule shrinks_trans(2)) (rule scan_scalar_shrinks [OF k(1)])
  show ?case
  proof (cases "take 1 (skip_space r2) = '',''")
    case True
    then obtain ms' r4 where ms: "parse_members n d (skip_space (drop 1 (skip_space r2))) = Some (ms', r4)" "r = r4"
      using 6(3) v k by (auto simp: Let_def s2_def split: option.splits)
    have "length r < length (skip_space (drop 1 (skip_space r2)))" using 6(2) k v True ms unfolding s2_def by fastforce
    then show ?thesis using r2 by (rule shrinks_trans(2))
  next
    case False
    then have "r = drop 1 (skip_space r2)" using 6(3) v k by (auto simp: Let_def s2_def split: if_splits)
    then show ?thesis using shrinks_trans(3) [OF r2] by simp
  qed
qed simp_all

text \<open>Any two sufficient fuels give the same result.\<close>

lemma parse_fuel:
  "2 * length s < n \<Longrightarrow> 2 * length s < m \<Longrightarrow> parse_value n d s = parse_value m d s"
  "2 * length s + 1 < n \<Longrightarrow> 2 * length s + 1 < m \<Longrightarrow> parse_elements n d s = parse_elements m d s"
  "2 * length s + 1 < n \<Longrightarrow> 2 * length s + 1 < m \<Longrightarrow> parse_members n d s = parse_members m d s"
proof (induction n d s and n d s and n d s arbitrary: m and m and m rule: parse_value_parse_elements_parse_members.induct)
  case (2 n d s)
  obtain k where m: "m = Suc k" using 2(4) by (cases m) auto
  show ?case
  proof (cases s)
    case (Cons c t)
    have len: "2 * length (skip_space t) + 1 < n" "2 * length (skip_space t) + 1 < k"
      using 2(3,4) skip_space_shrinks [of t] by (simp_all add: Cons m)
    have ms: "parse_members n (d - 1) (skip_space t) = parse_members k (d - 1) (skip_space t)"
      if "c = CHR 0x7B" "\<not> d \<le> 0" "take 1 (skip_space t) \<noteq> [CHR 0x7D]" by (rule 2(1) [OF Cons that len])
    have vs: "parse_elements n (d - 1) (skip_space t) = parse_elements k (d - 1) (skip_space t)"
      if "c \<noteq> CHR 0x7B" "c = CHR 0x5B" "\<not> d \<le> 0" "take 1 (skip_space t) \<noteq> [CHR 0x5D]" by (rule 2(2) [OF Cons that len])
    show ?thesis unfolding m Cons parse_value.simps list.case using ms vs by (simp split del: if_split cong: if_cong)
  qed (simp add: m)
next
  case (4 n d s)
  obtain k where m: "m = Suc k" using 4(4) by (cases m) auto
  have v: "parse_value n d s = parse_value k d s" by (rule 4(1)) (use 4(3,4) in \<open>simp_all add: m\<close>)
  have "parse_elements n d (skip_space (drop 1 (skip_space r))) = parse_elements k d (skip_space (drop 1 (skip_space r)))"
    if p: "parse_value n d s = Some (x, r)" and c: "take 1 (skip_space r) = '',''" for x r
  proof (rule 4(2) [OF p refl refl c])
    have "length (skip_space (drop 1 (skip_space r))) < length s"
      using parse_shrinks(1) [OF p] skip_space_shrinks [of r] skip_space_shrinks [of "drop 1 (skip_space r)"] by simp
    then show "2 * length (skip_space (drop 1 (skip_space r))) + 1 < n" "2 * length (skip_space (drop 1 (skip_space r))) + 1 < k"
      using 4(3,4) by (simp_all add: m)
  qed
  then show ?case unfolding m by (auto simp: v Let_def split: option.splits)
next
  case (6 n d s)
  obtain k where m: "m = Suc k" using 6(4) by (cases m) auto
  define sub where "sub r = skip_space (drop 1 (skip_space r))" for r
  have sub: "length (sub r) \<le> length r" for r
    using skip_space_shrinks [of r] skip_space_shrinks [of "drop 1 (skip_space r)"] by (simp add: sub_def)
  have v: "parse_value n d (sub r) = parse_value k d (sub r)"
    if "scan_scalar s = Some (JString x, r)" "take 1 s = [CHR 0x22]" "take 1 (skip_space r) = '':''" for x r
  proof -
    have "2 * length (sub r) < n" "2 * length (sub r) < k"
      using scan_scalar_shrinks [OF that(1)] sub [of r] 6(3,4) by (simp_all add: m)
    then show ?thesis using 6(1) that unfolding sub_def by blast
  qed
  have "parse_members n d (sub r2) = parse_members k d (sub r2)"
    if "scan_scalar s = Some (JString x, r)" "take 1 s = [CHR 0x22]" "take 1 (skip_space r) = '':''"
      and p: "parse_value n d (sub r) = Some (y, r2)" and c: "take 1 (skip_space r2) = '',''" for x r y r2
  proof -
    have "length (sub r2) < length s"
      using parse_shrinks(1) [OF p] scan_scalar_shrinks [OF that(1)] sub [of r] sub [of r2] by simp
    then have "2 * length (sub r2) + 1 < n" "2 * length (sub r2) + 1 < k" using 6(3,4) by (simp_all add: m)
    then show ?thesis using 6(2) that unfolding sub_def by blast
  qed
  with v show ?case unfolding m by (auto simp: sub_def Let_def split: option.splits json.splits)
qed simp_all

subsection \<open>Destinations\<close>

text \<open>
  A decoder takes the old value of the destination, the bytes and the tree. \<open>null\<close> leaves a string, a number, a struct or
  a time as it is and makes a slice nil. A member goes to the field of the same name, otherwise to the first field whose name is equal under case
  folding (of the letters of ASCII here), and is ignored, or refused under \<open>DisallowUnknownFields\<close>, when there is none.
\<close>

type_synonym 'a decoder = "'a \<Rightarrow> string \<Rightarrow> json \<Rightarrow> error + 'a"

definition type_error :: "string \<Rightarrow> error" where
  "type_error t = Foreign (''json: cannot unmarshal value of type '' @ t)"

definition dec_string :: "string decoder" where
  "dec_string old raw v = (case v of JString s \<Rightarrow> Inr s | JNull \<Rightarrow> Inr old | _ \<Rightarrow> Inl (type_error ''string''))"

text \<open>Integers of 64 bits: an optional sign and digits, in range.\<close>

definition dec_int64 :: "int decoder" where
  "dec_int64 old raw v =
     (case v of
        JNull \<Rightarrow> Inr old
      | JNumber n \<Rightarrow>
          if list_all json_digit (if take 1 n = ''-'' then drop 1 n else n) \<and> - (2 ^ 63) \<le> read_int n \<and> read_int n < 2 ^ 63
          then Inr (read_int n) else Inl (type_error ''int'')
      | _ \<Rightarrow> Inl (type_error ''int''))"

definition dec_raw :: "string decoder" where
  "dec_raw old raw v = Inr raw"

text \<open>An element of a slice is decoded into what the slice held at its position.\<close>

fun dec_elements :: "'a \<Rightarrow> 'a decoder \<Rightarrow> 'a list \<Rightarrow> (string \<times> json) list \<Rightarrow> error + 'a list" where
  "dec_elements zero dec old [] = Inr []"
| "dec_elements zero dec old ((raw, v) # vs) =
     (case dec (case old of [] \<Rightarrow> zero | x # _ \<Rightarrow> x) raw v of Inl e \<Rightarrow> Inl e | Inr y \<Rightarrow>
      (case dec_elements zero dec (tl old) vs of Inl e \<Rightarrow> Inl e | Inr ys \<Rightarrow> Inr (y # ys)))"

definition dec_slice :: "'a \<Rightarrow> 'a decoder \<Rightarrow> 'a list decoder" where
  "dec_slice zero dec old raw v =
     (case v of JArray vs \<Rightarrow> dec_elements zero dec old vs | JNull \<Rightarrow> Inr [] | _ \<Rightarrow> Inl (type_error ''slice''))"

text \<open>A map of strings: members overwrite each other in order.\<close>

fun dec_entries :: "'a \<Rightarrow> 'a decoder \<Rightarrow> (string, 'a) gomap \<Rightarrow> (string \<times> string \<times> json) list \<Rightarrow> error + (string, 'a) gomap" where
  "dec_entries zero dec old [] = Inr old"
| "dec_entries zero dec old ((k, raw, v) # ms) =
     (case dec zero raw v of Inl e \<Rightarrow> Inl e | Inr y \<Rightarrow> dec_entries zero dec (gomap_set k y old) ms)"

definition dec_map :: "'a \<Rightarrow> 'a decoder \<Rightarrow> (string, 'a) gomap decoder" where
  "dec_map zero dec old raw v =
     (case v of JObject ms \<Rightarrow> dec_entries zero dec old ms | JNull \<Rightarrow> Inr [] | _ \<Rightarrow> Inl (type_error ''map''))"

definition find_field :: "(string \<times> 'a decoder) list \<Rightarrow> string \<Rightarrow> 'a decoder option" where
  "find_field fs k =
     (case find (\<lambda>f. fst f = k) fs of
        Some f \<Rightarrow> Some (snd f)
      | None \<Rightarrow> map_option snd (find (\<lambda>f. EqualFold (fst f) k) fs))"

fun dec_members :: "bool \<Rightarrow> (string \<times> 'a decoder) list \<Rightarrow> 'a \<Rightarrow> (string \<times> string \<times> json) list \<Rightarrow> error + 'a" where
  "dec_members strict fs old [] = Inr old"
| "dec_members strict fs old ((k, raw, v) # ms) =
     (case find_field fs k of
        None \<Rightarrow> if strict then Inl (Foreign (''json: unknown field '' @ k)) else dec_members strict fs old ms
      | Some dec \<Rightarrow> (case dec old raw v of Inl e \<Rightarrow> Inl e | Inr x \<Rightarrow> dec_members strict fs x ms))"

definition dec_struct :: "bool \<Rightarrow> (string \<times> 'a decoder) list \<Rightarrow> 'a decoder" where
  "dec_struct strict fs old raw v =
     (case v of JObject ms \<Rightarrow> dec_members strict fs old ms | JNull \<Rightarrow> Inr old | _ \<Rightarrow> Inl (type_error ''struct''))"

text \<open>A field of a record, given how to read and to update it.\<close>

definition dec_field :: "('r \<Rightarrow> 'a) \<Rightarrow> (('a \<Rightarrow> 'a) \<Rightarrow> 'r \<Rightarrow> 'r) \<Rightarrow> 'a decoder \<Rightarrow> 'r decoder" where
  "dec_field get upd dec r raw v = (case dec (get r) raw v of Inl e \<Rightarrow> Inl e | Inr x \<Rightarrow> Inr (upd (\<lambda>_. x) r))"

definition json_Unmarshal :: "'a decoder \<Rightarrow> 'a \<Rightarrow> bytes \<Rightarrow> error + 'a" where
  "json_Unmarshal dec zero data = (case json_whole data of Inl e \<Rightarrow> Inl e | Inr (raw, v) \<Rightarrow> dec zero raw v)"

definition json_Decode :: "'a decoder \<Rightarrow> 'a \<Rightarrow> bytes \<Rightarrow> error + 'a" where
  "json_Decode dec zero body = (case json_first body of Inl e \<Rightarrow> Inl e | Inr (raw, v) \<Rightarrow> dec zero raw v)"

subsection \<open>Times\<close>

definition leap_year :: "int \<Rightarrow> bool" where
  "leap_year y \<longleftrightarrow> y mod 4 = 0 \<and> (y mod 100 \<noteq> 0 \<or> y mod 400 = 0)"

definition days_in :: "int \<Rightarrow> int \<Rightarrow> int" where
  "days_in y m = (if m = 2 then (if leap_year y then 29 else 28) else if m \<in> {4, 6, 9, 11} then 30 else 31)"

text \<open>The day number of a date, counted like \<open>civil\<close>.\<close>

definition day_number :: "int \<Rightarrow> int \<Rightarrow> int \<Rightarrow> int" where
  "day_number y m d =
     (let y' = (if m \<le> 2 then y - 1 else y); era = y' div 400; yoe = y' mod 400;
          doy = (153 * (if 2 < m then m - 3 else m + 9) + 2) div 5 + d - 1
      in era * 146097 + yoe * 365 + yoe div 4 - yoe div 100 + doy - 306)"

definition read_digits :: "nat \<Rightarrow> string \<Rightarrow> (int \<times> string) option" where
  "read_digits k s = (if length s < k \<or> \<not> list_all json_digit (take k s) then None else Some (read_uint (take k s), drop k s))"

definition read_char :: "char \<Rightarrow> string \<Rightarrow> string option" where
  "read_char c s = (case s of x # r \<Rightarrow> if x = c then Some r else None | [] \<Rightarrow> None)"

text \<open>A fraction of a second in nanoseconds, cut after nine digits.\<close>

definition read_fraction :: "string \<Rightarrow> (int \<times> string) option" where
  "read_fraction s =
     (case read_char (CHR ''.'') s of
        None \<Rightarrow> Some (0, s)
      | Some r \<Rightarrow> (case digits r of (ds, r') \<Rightarrow>
          if ds = [] then None else Some (read_uint (take 9 ds) * 10 ^ (9 - length (take 9 ds)), r')))"

definition read_zone :: "string \<Rightarrow> int option" where
  "read_zone s =
     (case s of
        [] \<Rightarrow> None
      | c # r \<Rightarrow>
          if c = CHR ''Z'' then (if r = [] then Some 0 else None)
          else if c \<noteq> CHR ''+'' \<and> c \<noteq> CHR ''-'' then None
          else case read_digits 2 r of None \<Rightarrow> None | Some (h, r1) \<Rightarrow>
               case read_char (CHR '':'') r1 of None \<Rightarrow> None | Some r2 \<Rightarrow>
               case read_digits 2 r2 of None \<Rightarrow> None | Some (mi, r3) \<Rightarrow>
               if r3 \<noteq> [] \<or> 24 \<le> h \<or> 60 \<le> mi then None
               else Some ((if c = CHR ''-'' then - 1 else 1) * (h * 3600 + mi * 60)))"

definition read_date :: "string \<Rightarrow> (int \<times> string) option" where
  "read_date s =
     (case read_digits 4 s of None \<Rightarrow> None | Some (y, r) \<Rightarrow>
      case read_char (CHR ''-'') r of None \<Rightarrow> None | Some r \<Rightarrow>
      case read_digits 2 r of None \<Rightarrow> None | Some (m, r) \<Rightarrow>
      case read_char (CHR ''-'') r of None \<Rightarrow> None | Some r \<Rightarrow>
      case read_digits 2 r of None \<Rightarrow> None | Some (d, r) \<Rightarrow>
      if m < 1 \<or> 12 < m \<or> d < 1 \<or> days_in y m < d then None else Some (day_number y m d, r))"

definition read_clock :: "string \<Rightarrow> (int \<times> string) option" where
  "read_clock s =
     (case read_digits 2 s of None \<Rightarrow> None | Some (h, r) \<Rightarrow>
      case read_char (CHR '':'') r of None \<Rightarrow> None | Some r \<Rightarrow>
      case read_digits 2 r of None \<Rightarrow> None | Some (mi, r) \<Rightarrow>
      case read_char (CHR '':'') r of None \<Rightarrow> None | Some r \<Rightarrow>
      case read_digits 2 r of None \<Rightarrow> None | Some (sec, r) \<Rightarrow>
      if 24 \<le> h \<or> 60 \<le> mi \<or> 60 \<le> sec then None else Some (h * 3600 + mi * 60 + sec, r))"

definition parse_rfc3339 :: "string \<Rightarrow> go_time option" where
  "parse_rfc3339 s =
     (case read_date s of None \<Rightarrow> None | Some (day, r) \<Rightarrow>
      case read_char (CHR ''T'') r of None \<Rightarrow> None | Some r \<Rightarrow>
      case read_clock r of None \<Rightarrow> None | Some (sec, r) \<Rightarrow>
      case read_fraction r of None \<Rightarrow> None | Some (ns, r) \<Rightarrow>
      case read_zone r of None \<Rightarrow> None | Some offset \<Rightarrow>
      Some ((day * 86400 + sec - offset) * 1000000000 + ns))"

text \<open>\<open>Time.UnmarshalJSON\<close> reads the bytes between the quotes, escapes unresolved.\<close>

definition dec_time :: "go_time decoder" where
  "dec_time old raw v =
     (case v of
        JNull \<Rightarrow> Inr old
      | JString _ \<Rightarrow> (case parse_rfc3339 (butlast (drop 1 raw)) of Some t \<Rightarrow> Inr t | None \<Rightarrow> Inl (Foreign ''parsing time''))
      | _ \<Rightarrow> Inl (Foreign ''Time.UnmarshalJSON: input is not a JSON string''))"

lemma json_Decode_examples:
  "json_whole '' [1, -2.5e3 ,null] '' = Inr (''[1, -2.5e3 ,null]'', JArray [(''1'', JNumber ''1''), (''-2.5e3'', JNumber ''-2.5e3''), (''null'', JNull)])"
  "json_first ''12 x'' = Inr (''12'', JNumber ''12'')"
  "unescape [CHR 0x5C, CHR ''u'', CHR ''d'', CHR ''8'', CHR ''3'', CHR ''d'', CHR 0x5C, CHR ''u'', CHR ''d'', CHR ''e'', CHR ''0'', CHR ''0'']
     = Some [CHR 0xF0, CHR 0x9F, CHR 0x98, CHR 0x80]"
  "parse_rfc3339 ''2025-09-01T00:01:01.0000005Z'' = Some (63892281600 * 1000000000 + 61 * 1000000000 + 500)"
  "parse_rfc3339 ''2024-02-29T23:59:59+01:00'' = parse_rfc3339 ''2024-02-29T22:59:59Z''"
  "parse_rfc3339 ''2025-02-29T00:00:00Z'' = None"
  by code_simp+

end
