(* ===== verification/Http.thy ===== *)
theory Http
  imports Json_Decode
begin

section \<open>HTTP clients\<close>

text \<open>
  The network is the \<open>Do\<close> of an HTTP client: a function from requests to responses or errors that threads a state of its own. The check of
  \<open>net/url\<close> on the URL of a request is a parameter as well.
\<close>

record HttpRequest =
  hreq_Method :: string
  hreq_URL :: string
  hreq_Header :: "(string, string) gomap"
  hreq_Body :: bytes

text \<open>A body is the bytes that arrive and, if the connection breaks then, the error that ends it.\<close>

record HttpResponse =
  hresp_StatusCode :: int
  hresp_ETag :: string
  hresp_Body :: "bytes \<times> error option"

record 'n HttpClient =
  hc_NewRequest :: "string \<Rightarrow> error option"
  hc_Do :: "HttpRequest \<Rightarrow> ('n, HttpResponse) M"

text \<open>\<open>io.ReadAll(io.LimitReader(body, n))\<close>, and a decoder on the body.\<close>

definition read_limited :: "nat \<Rightarrow> bytes \<times> error option \<Rightarrow> error + bytes" where
  "read_limited n body =
     (case body of (data, err) \<Rightarrow>
        if n \<le> length data then Inr (take n data) else case err of None \<Rightarrow> Inr data | Some e \<Rightarrow> Inl e)"

definition decode_body :: "'a decoder \<Rightarrow> 'a \<Rightarrow> bytes \<times> error option \<Rightarrow> error + 'a" where
  "decode_body dec zero body =
     (case body of (data, err) \<Rightarrow>
        (case json_first data of
           Inl e \<Rightarrow> Inl (case err of None \<Rightarrow> e | Some e' \<Rightarrow> e')
         | Inr (raw, v) \<Rightarrow> dec zero raw v))"

definition TrimRight_slash :: "string \<Rightarrow> string" where
  "TrimRight_slash s = rev (dropWhile (\<lambda>c. c = CHR ''/'') (rev s))"

text \<open>\<open>url.QueryEscape\<close> and \<open>Values.Encode\<close>: the keys sorted, the values of a key in order.\<close>

definition unreserved :: "char \<Rightarrow> bool" where
  "unreserved c \<longleftrightarrow> (let n = byte_of c in
     48 \<le> n \<and> n \<le> 57 \<or> 65 \<le> n \<and> n \<le> 90 \<or> 97 \<le> n \<and> n \<le> 122 \<or> c \<in> set ''-_.~'')"

definition upper_hex :: "int \<Rightarrow> char" where
  "upper_hex n = ''0123456789ABCDEF'' ! nat n"

definition escape_char :: "char \<Rightarrow> string" where
  "escape_char c = (if unreserved c then [c] else [CHR ''%'', upper_hex (byte_of c div 16), upper_hex (byte_of c mod 16)])"

definition QueryEscape :: "string \<Rightarrow> string" where
  "QueryEscape s = concat (map (\<lambda>c. if c = CHR '' '' then ''+'' else escape_char c) s)"

definition PathEscape_segment :: "string \<Rightarrow> string" where
  "PathEscape_segment s = concat (map (\<lambda>c. if c \<in> set ''$&+=:@'' then [c] else escape_char c) s)"

definition join_with :: "string \<Rightarrow> string list \<Rightarrow> string" where
  "join_with sep xs = concat (case xs of [] \<Rightarrow> [] | y # ys \<Rightarrow> y # map (\<lambda>z. sep @ z) ys)"

definition Values_Encode :: "(string, string list) gomap \<Rightarrow> string" where
  "Values_Encode vs = join_with ''&'' (concat (map (\<lambda>(k, xs). map (\<lambda>v. QueryEscape k @ ''='' @ QueryEscape v) xs) (sort_key fst vs)))"

lemma url_examples:
  "QueryEscape ''a b&c/d'' = ''a+b%26c%2Fd''" "PathEscape_segment ''a b/c:d'' = ''a%20b%2Fc:d''"
  "Values_Encode [(''time'', [''1'']), (''query'', [''up''])] = ''query=up&time=1''"
  by code_simp+

end
