(* ===== verification/Prometheus.thy ===== *)
theory Prometheus
  imports Domain Guardrail Http
begin

section \<open>The Prometheus client of the guardrails\<close>

text \<open>
  \<open>internal/guardrail/prometheus.go\<close>: one HTTP query, whose answer must be a single sample. Numbers are read as
  \<open>strconv.ParseFloat\<close> reads them, in decimal and as infinities and NaN; its hexadecimal literals, which Prometheus never
  writes, are refused here.
\<close>

subsection \<open>Reading numbers\<close>

text \<open>The value of a decimal number: sign, integer part, fraction and exponent.\<close>

definition decimal :: "string \<Rightarrow> string \<Rightarrow> string \<Rightarrow> string \<Rightarrow> rat" where
  "decimal sign i f e =
     (if sign = ''-'' then - 1 else 1) * (of_int (read_uint (i @ f)) / 10 ^ length f) *
     (10 powi (case e of [] \<Rightarrow> 0 | c # r \<Rightarrow> if c = CHR ''-'' then - read_uint r else if c = CHR ''+'' then read_uint r else read_uint e))"

definition finite_or_range :: "rat \<Rightarrow> error + float64" where
  "finite_or_range x = (case to_float64 x of Fin y \<Rightarrow> Inr (Fin y) | _ \<Rightarrow> Inl (Foreign ''value out of range''))"

definition dec_float64 :: "float64 decoder" where
  "dec_float64 old raw v =
     (case v of
        JNull \<Rightarrow> Inr old
      | JNumber n \<Rightarrow>
          (let sign = takeWhile (\<lambda>x. x = CHR ''-'') (take 1 n); r = drop (length sign) n in
           case digits r of (i, r1) \<Rightarrow>
           case digits (if take 1 r1 = ''.'' then drop 1 r1 else []) of (f, _) \<Rightarrow>
           let r2 = (if take 1 r1 = ''.'' then drop (Suc (length f)) r1 else r1) in
           case finite_or_range (decimal sign i f (drop 1 r2)) of Inl _ \<Rightarrow> Inl (type_error ''float64'') | Inr x \<Rightarrow> Inr x)
      | _ \<Rightarrow> Inl (type_error ''float64''))"

definition syntax_error :: "string \<Rightarrow> error" where
  "syntax_error s = Foreign (''strconv.ParseFloat: invalid syntax: '' @ s)"

definition ParseFloat :: "string \<Rightarrow> error + float64" where
  "ParseFloat s =
     (let sign = takeWhile (\<lambda>x. x = CHR ''+'' \<or> x = CHR ''-'') (take 1 s); r = drop (length sign) s in
      if EqualFold r ''inf'' \<or> EqualFold r ''infinity'' then Inr (if sign = ''-'' then NInf else PInf)
      else if EqualFold s ''nan'' then Inr NaN
      else case digits r of (i, r1) \<Rightarrow>
        let dot = take 1 r1 = ''.'' in
        case digits (if dot then drop 1 r1 else []) of (f, _) \<Rightarrow>
        let r2 = (if dot then drop (Suc (length f)) r1 else r1) in
        if i = [] \<and> f = [] then Inl (syntax_error s)
        else if r2 = [] then finite_or_range (decimal sign i f [])
        else if hd r2 = CHR ''e'' \<or> hd r2 = CHR ''E'' then
          (let esign = takeWhile (\<lambda>x. x = CHR ''+'' \<or> x = CHR ''-'') (take 1 (tl r2)) in
           case digits (drop (length esign) (tl r2)) of (e, r3) \<Rightarrow>
             if e = [] \<or> r3 \<noteq> [] then Inl (syntax_error s) else finite_or_range (decimal sign i f (esign @ e)))
        else Inl (syntax_error s))"

text \<open>\<open>strconv.FormatFloat(x, 'f', 3, 64)\<close>.\<close>

definition fixed3 :: "float64 \<Rightarrow> string" where
  "fixed3 x =
     (case x of
        Fin q \<Rightarrow> (let n = round_even (\<bar>q\<bar> * 1000) in
          (if q < 0 then ''-'' else []) @ show_uint (n div 1000) @ ''.'' @ pad 3 (n mod 1000))
      | PInf \<Rightarrow> ''+Inf'' | NInf \<Rightarrow> ''-Inf'' | NaN \<Rightarrow> ''NaN'')"

subsection \<open>prometheus.go\<close>

record url =
  url_Scheme :: string
  url_Host :: string
  url_Path :: string
  url_Query :: "(string, string list) gomap"
  url_RawQuery :: string

text \<open>The client; \<open>pc_Do\<close> sends a GET request for a URL, its timeout included.\<close>

record 'w PrometheusClient =
  pc_baseURL :: url
  pc_timeout :: duration
  pc_Do :: "url \<Rightarrow> ('w, HttpResponse) M"

definition NewPrometheusClient ::
  "(string \<Rightarrow> error + url) \<Rightarrow> (duration \<Rightarrow> url \<Rightarrow> ('w, HttpResponse) M) \<Rightarrow> string \<Rightarrow> duration \<Rightarrow> error + 'w PrometheusClient" where
  "NewPrometheusClient url_Parse Do1 baseURL timeout =
     (if TrimSpace baseURL = [] then Inl (Errorf ''%w: prometheus base url is required'' [FW (Sentinel guardrail_ErrInvalidInput)])
      else case url_Parse baseURL of
        Inl err \<Rightarrow> Inl (Errorf ''%w: prometheus base url: %v'' [FW (Sentinel guardrail_ErrInvalidInput), FV err])
      | Inr parsed \<Rightarrow>
          if url_Scheme parsed = [] \<or> url_Host parsed = [] then
            Inl (Errorf ''%w: prometheus base url must include scheme and host'' [FW (Sentinel guardrail_ErrInvalidInput)])
          else let timeout = (if timeout \<le> 0 then 2 * Second else timeout) in
            Inr \<lparr>pc_baseURL = parsed, pc_timeout = timeout, pc_Do = Do1 timeout\<rparr>)"

record prometheusResponse =
  pr_Status :: string
  pr_Error :: string
  pr_ResultType :: string
  pr_Result :: RawMessage

definition prometheusResponse_decoder :: "prometheusResponse decoder" where
  "prometheusResponse_decoder = dec_struct False
     [(''status'', dec_field pr_Status pr_Status_update dec_string),
      (''error'', dec_field pr_Error pr_Error_update dec_string),
      (''data'', dec_struct False
         [(''resultType'', dec_field pr_ResultType pr_ResultType_update dec_string),
          (''result'', dec_field pr_Result pr_Result_update dec_raw)])]"

definition zero_response :: prometheusResponse where
  "zero_response = \<lparr>pr_Status = [], pr_Error = [], pr_ResultType = [], pr_Result = []\<rparr>"

text \<open>A series of a vector, its sample a list of raw messages.\<close>

type_synonym prometheusVectorResult = "RawMessage list"

definition prometheusVectorResult_decoder :: "prometheusVectorResult decoder" where
  "prometheusVectorResult_decoder = dec_struct False [(''value'', dec_slice [] dec_raw)]"

definition parsePrometheusSample :: "RawMessage list \<Rightarrow> error + float64" where
  "parsePrometheusSample value =
     (case value of
        [_, x] \<Rightarrow> (case json_Unmarshal dec_string [] x of Inl e \<Rightarrow> Inl e | Inr raw \<Rightarrow> ParseFloat raw)
      | _ \<Rightarrow> Inl (New ''invalid prometheus sample''))"

definition parsePrometheusValue :: "string \<Rightarrow> RawMessage \<Rightarrow> error + float64" where
  "parsePrometheusValue resultType raw =
     (if resultType = ''scalar'' then
        (case json_Unmarshal (dec_slice [] dec_raw) [] raw of Inl e \<Rightarrow> Inl e | Inr value \<Rightarrow> parsePrometheusSample value)
      else if resultType = ''vector'' then
        (case json_Unmarshal (dec_slice [] prometheusVectorResult_decoder) [] raw of
           Inl e \<Rightarrow> Inl e
         | Inr values \<Rightarrow>
             if values = [] then Inl (Sentinel guardrail_ErrNoData)
             else if length values > 1 then Inl (Sentinel guardrail_ErrMultipleSeries)
             else parsePrometheusSample (hd values))
      else Inl (Errorf ''unsupported prometheus result type %q'' [FQ resultType]))"

text \<open>Seconds since the epoch, in the doubles of the source.\<close>

definition unix_epoch :: go_time where
  "unix_epoch = 62135596800 * 1000000000"

definition query_endpoint :: "url \<Rightarrow> string \<Rightarrow> go_time \<Rightarrow> url" where
  "query_endpoint base query at_time =
     (let values = gomap_set ''query'' [query] (url_Query base);
          values = (if at_time = 0 then values
            else gomap_set ''time'' [fixed3 (f64_div (f64_of_int (wrap64 (at_time - unix_epoch))) (f64_of_int Second))] values)
      in base\<lparr>url_Path := TrimRight_slash (url_Path base) @ ''/api/v1/query'', url_RawQuery := Values_Encode values\<rparr>)"

text \<open>What a response with status 200 says.\<close>

definition read_answer :: "bytes \<Rightarrow> error + float64" where
  "read_answer body =
     (case json_Unmarshal prometheusResponse_decoder zero_response body of
        Inl e \<Rightarrow> Inl e
      | Inr payload \<Rightarrow>
          if pr_Status payload \<noteq> ''success'' then
            Inl (if pr_Error payload \<noteq> [] then Errorf ''prometheus query failed: %s'' [FS (pr_Error payload)] else New ''prometheus query failed'')
          else parsePrometheusValue (pr_ResultType payload) (pr_Result payload))"

definition prometheus_Query :: "'w PrometheusClient option \<Rightarrow> string \<Rightarrow> go_time \<Rightarrow> ('w, float64) M" where
  "prometheus_Query client query at_time =
     (case client of
        None \<Rightarrow> raiseM (Errorf ''%w: prometheus client is nil'' [FW (Sentinel guardrail_ErrInvalidInput)])
      | Some c \<Rightarrow>
          if TrimSpace query = [] then raiseM (Errorf ''%w: prometheus query is required'' [FW (Sentinel guardrail_ErrInvalidInput)])
          else
            bindM (pc_Do c (query_endpoint (pc_baseURL c) query at_time)) (\<lambda>resp.
            bindM (liftE (read_limited (2 ^ 20) (hresp_Body resp))) (\<lambda>body.
            if hresp_StatusCode resp \<noteq> 200 then raiseM (Errorf ''prometheus query failed with status %d'' [FD (hresp_StatusCode resp)])
            else liftE (read_answer body))))"

subsection \<open>What a healthy guardrail rests on\<close>

text \<open>The body of an answer holds one sample: a scalar, or a vector of one series, with a time stamp and a number.\<close>

definition one_sample :: "bytes \<Rightarrow> float64 \<Rightarrow> bool" where
  "one_sample body v \<longleftrightarrow>
     (\<exists>payload ts x text. json_Unmarshal prometheusResponse_decoder zero_response body = Inr payload \<and> pr_Status payload = ''success'' \<and>
        (pr_ResultType payload = ''scalar'' \<and> json_Unmarshal (dec_slice [] dec_raw) [] (pr_Result payload) = Inr [ts, x] \<or>
         pr_ResultType payload = ''vector'' \<and> json_Unmarshal (dec_slice [] prometheusVectorResult_decoder) [] (pr_Result payload) = Inr [[ts, x]]) \<and>
        json_Unmarshal dec_string [] x = Inr text \<and> ParseFloat text = Inr v)"

lemma parsePrometheusSample_Inr:
  "parsePrometheusSample value = Inr v \<longleftrightarrow>
     (\<exists>ts x text. value = [ts, x] \<and> json_Unmarshal dec_string [] x = Inr text \<and> ParseFloat text = Inr v)"
  by (auto simp: parsePrometheusSample_def split: list.splits sum.splits)

lemma one_element: "length xs \<le> Suc 0 \<Longrightarrow> xs \<noteq> [] \<Longrightarrow> \<exists>x. xs = [x]"
  by (cases xs) auto

lemma read_answer_Inr: "read_answer body = Inr v \<Longrightarrow> one_sample body v"
  unfolding read_answer_def one_sample_def parsePrometheusValue_def
  by (auto simp: parsePrometheusSample_Inr not_less split: sum.splits if_splits dest!: one_element)

lemma prometheus_Query_Inr:
  assumes "prometheus_Query (Some c) query t w = (Inr v, w')"
  shows "\<exists>resp body. pc_Do c (query_endpoint (pc_baseURL c) query t) w = (Inr resp, w') \<and> hresp_StatusCode resp = 200 \<and>
    read_limited (2 ^ 20) (hresp_Body resp) = Inr body \<and> one_sample body v"
  using assms by (auto simp: prometheus_Query_def run_Inr raiseM_Inr split: if_splits dest!: read_answer_Inr)

text \<open>C20 (safety). A guardrail is healthy only on evidence: when a rule evaluated on the answer of the Prometheus client is healthy, the server has answered with
  status 200 and exactly one sample, a finite number, and this sample meets the threshold, or violates it for fewer evaluations in a row than the rule requires.
  A failed query, no series, several series or an answer that cannot be read is never healthy.\<close>
theorem healthy_guardrail_rests_on_one_sample:
  assumes "prometheus_Query (Some c) (rule_Query rule) t w = (a, w')"
    and "EvaluateAnswer rule a previousFailures observedAt = Inr evaluation" and "eval_Status evaluation = StatusHealthy"
  shows "\<exists>resp body v. pc_Do c (query_endpoint (pc_baseURL c) (rule_Query rule) t) w = (Inr resp, w') \<and> hresp_StatusCode resp = 200 \<and>
    read_limited (2 ^ 20) (hresp_Body resp) = Inr body \<and> one_sample body v \<and> is_finite64 v \<and>
    (Compare v (rule_Operator rule) (rule_Threshold rule) \<or> wrap64 (previousFailures + 1) < requiredFailures rule)"
proof (cases a)
  case (Inl e)
  then show ?thesis using assms(2,3)
    by (auto simp: EvaluateAnswer_def EvaluateQueryResult_def Unknown_def split: option.splits if_splits)
next
  case (Inr v)
  have "is_finite64 v \<and> (Compare v (rule_Operator rule) (rule_Threshold rule) \<or> wrap64 (previousFailures + 1) < requiredFailures rule)"
    using assms(2,3) unfolding Inr
    by (auto simp: EvaluateAnswer_def EvaluateQueryResult_def Evaluate_def Unknown_def Let_def split: option.splits if_splits)
  with prometheus_Query_Inr [OF assms(1) [unfolded Inr]] show ?thesis by blast
qed

definition demo_answer :: bytes where
  "demo_answer = concat
     [[CHR 0x7B], json_field ''status'' (json_string ''success''), '','', json_string ''data'', '':'', [CHR 0x7B],
      json_field ''resultType'' (json_string ''vector''), '','', json_string ''result'', '':['', [CHR 0x7B],
      json_string ''value'', '':[1.5,'', json_string ''2'', '']'', [CHR 0x7D], '']'', [CHR 0x7D], [CHR 0x7D]]"

definition demo_client :: "nat PrometheusClient" where
  "demo_client = \<lparr>pc_baseURL = \<lparr>url_Scheme = ''http'', url_Host = ''p'', url_Path = [], url_Query = [], url_RawQuery = []\<rparr>, pc_timeout = 1,
     pc_Do = (\<lambda>u n. (Inr \<lparr>hresp_StatusCode = 200, hresp_ETag = [], hresp_Body = (demo_answer, None)\<rparr>, n + 1))\<rparr>"

definition demo_rule1 :: Rule where
  "demo_rule1 = \<lparr>rule_Name = ''errors'', rule_Query = ''q'', rule_Operator = ''<'', rule_Threshold = Fin 3, rule_ConsecutiveFailures = 0\<rparr>"

lemma demo_query: "prometheus_Query (Some demo_client) (rule_Query demo_rule1) 0 7 = (Inr (Fin 2), 8)"
proof -
  have "length demo_answer < 100" by code_simp
  moreover have "TrimSpace (rule_Query demo_rule1) \<noteq> []" by code_simp
  moreover have "read_answer demo_answer = Inr (Fin 2)" by code_simp
  ultimately show ?thesis by (simp add: prometheus_Query_def demo_client_def bindM_def liftE_def read_limited_def)
qed

theorem healthy_guardrail_rests_on_one_sample_witness:
  "\<exists>resp body v. pc_Do demo_client (query_endpoint (pc_baseURL demo_client) (rule_Query demo_rule1) 0) 7 = (Inr resp, 8) \<and> hresp_StatusCode resp = 200 \<and>
    read_limited (2 ^ 20) (hresp_Body resp) = Inr body \<and> one_sample body v"
proof -
  have "EvaluateAnswer demo_rule1 (Inr (Fin 2)) 0 0 = Evaluate demo_rule1 (Fin 2) 0 0"
    by (simp add: EvaluateAnswer_def EvaluateQueryResult_def)
  moreover have "\<exists>ev. Evaluate demo_rule1 (Fin 2) 0 0 = Inr ev \<and> eval_Status ev = StatusHealthy"
    by (simp add: Evaluate_def demo_rule1_def Rule_Validate_def validOperator_def Compare_def OperatorLessThan_def is_finite64_def)
  ultimately obtain ev where "EvaluateAnswer demo_rule1 (Inr (Fin 2)) 0 0 = Inr ev" "eval_Status ev = StatusHealthy" by auto
  from healthy_guardrail_rests_on_one_sample [OF demo_query this] show ?thesis by blast
qed

end
