(* ===== verification/Control_Handler.thy ===== *)
theory Control_Handler
  imports Control_Plane Data_Plane Prometheus
begin

section \<open>The HTTP interface of the control plane\<close>

text \<open>
  \<open>internal/controlplane/handler.go\<close>: every endpoint decodes its request (unknown members are refused), calls one service, or two for an
  acknowledgement, and answers with a status and a payload. The payloads are the response structs of the source; their JSON is what the
  encoder makes of them. The multiplexer is \<open>cp_serve\<close>: one constructor of \<open>Endpoint\<close> per route, with its path values.
\<close>

subsection \<open>Requests\<close>

record createTenantRequest =
  ctq_ID :: string
  ctq_Name :: string
  ctq_Description :: string
  ctq_Owner :: string

definition zero_createTenantRequest :: createTenantRequest where
  "zero_createTenantRequest = \<lparr>ctq_ID = [], ctq_Name = [], ctq_Description = [], ctq_Owner = []\<rparr>"

definition createTenantRequest_decoder :: "createTenantRequest decoder" where
  "createTenantRequest_decoder = dec_struct True
     [(''id'', dec_field ctq_ID ctq_ID_update dec_string),
      (''name'', dec_field ctq_Name ctq_Name_update dec_string),
      (''description'', dec_field ctq_Description ctq_Description_update dec_string),
      (''owner'', dec_field ctq_Owner ctq_Owner_update dec_string)]"

record createDefinitionRequest =
  cdq_Key :: string
  cdq_Description :: string
  cdq_Schema :: RawMessage
  cdq_Default :: RawMessage

definition zero_createDefinitionRequest :: createDefinitionRequest where
  "zero_createDefinitionRequest = \<lparr>cdq_Key = [], cdq_Description = [], cdq_Schema = [], cdq_Default = []\<rparr>"

definition createDefinitionRequest_decoder :: "createDefinitionRequest decoder" where
  "createDefinitionRequest_decoder = dec_struct True
     [(''key'', dec_field cdq_Key cdq_Key_update dec_string),
      (''description'', dec_field cdq_Description cdq_Description_update dec_string),
      (''schema'', dec_field cdq_Schema cdq_Schema_update dec_raw),
      (''default'', dec_field cdq_Default cdq_Default_update dec_raw)]"

record createVersionRequest =
  cvq_Value :: RawMessage
  cvq_SourceCommitSHA :: string
  cvq_CreatedBy :: string

definition zero_createVersionRequest :: createVersionRequest where
  "zero_createVersionRequest = \<lparr>cvq_Value = [], cvq_SourceCommitSHA = [], cvq_CreatedBy = []\<rparr>"

definition createVersionRequest_decoder :: "createVersionRequest decoder" where
  "createVersionRequest_decoder = dec_struct True
     [(''value'', dec_field cvq_Value cvq_Value_update dec_raw),
      (''source_commit_sha'', dec_field cvq_SourceCommitSHA cvq_SourceCommitSHA_update dec_string),
      (''created_by'', dec_field cvq_CreatedBy cvq_CreatedBy_update dec_string)]"

record setStableVersionRequest =
  ssq_VersionNumber :: int

definition zero_setStableVersionRequest :: setStableVersionRequest where
  "zero_setStableVersionRequest = \<lparr>ssq_VersionNumber = 0\<rparr>"

definition setStableVersionRequest_decoder :: "setStableVersionRequest decoder" where
  "setStableVersionRequest_decoder = dec_struct True
     [(''version_number'', dec_field ssq_VersionNumber ssq_VersionNumber_update dec_int64)]"

record registerAgentRequest =
  raq_BootstrapToken :: string
  raq_ID :: string
  raq_Service :: string
  raq_Environment :: string
  raq_Zone :: string
  raq_Instance :: string
  raq_Labels :: "(string, string) gomap"

definition zero_registerAgentRequest :: registerAgentRequest where
  "zero_registerAgentRequest = \<lparr>raq_BootstrapToken = [], raq_ID = [], raq_Service = [], raq_Environment = [], raq_Zone = [], raq_Instance = [], raq_Labels = []\<rparr>"

definition registerAgentRequest_decoder :: "registerAgentRequest decoder" where
  "registerAgentRequest_decoder = dec_struct True
     [(''bootstrap_token'', dec_field raq_BootstrapToken raq_BootstrapToken_update dec_string),
      (''id'', dec_field raq_ID raq_ID_update dec_string),
      (''service'', dec_field raq_Service raq_Service_update dec_string),
      (''environment'', dec_field raq_Environment raq_Environment_update dec_string),
      (''zone'', dec_field raq_Zone raq_Zone_update dec_string),
      (''instance'', dec_field raq_Instance raq_Instance_update dec_string),
      (''labels'', dec_field raq_Labels raq_Labels_update (dec_map [] dec_string))]"

record acknowledgementRequest =
  akq_ConfigDefinitionID :: string
  akq_VersionID :: string
  akq_SnapshotRevision :: int
  akq_RolloutID :: string
  akq_StageID :: string

definition zero_acknowledgementRequest :: acknowledgementRequest where
  "zero_acknowledgementRequest = \<lparr>akq_ConfigDefinitionID = [], akq_VersionID = [], akq_SnapshotRevision = 0, akq_RolloutID = [], akq_StageID = []\<rparr>"

definition acknowledgementRequest_decoder :: "acknowledgementRequest decoder" where
  "acknowledgementRequest_decoder = dec_struct True
     [(''config_definition_id'', dec_field akq_ConfigDefinitionID akq_ConfigDefinitionID_update dec_string),
      (''version_id'', dec_field akq_VersionID akq_VersionID_update dec_string),
      (''snapshot_revision'', dec_field akq_SnapshotRevision akq_SnapshotRevision_update dec_int64),
      (''rollout_id'', dec_field akq_RolloutID akq_RolloutID_update dec_string),
      (''stage_id'', dec_field akq_StageID akq_StageID_update dec_string)]"

record createRolloutStage =
  csq_ID :: string
  csq_Percentage :: int
  csq_MinimumDurationSeconds :: int

definition zero_createRolloutStage :: createRolloutStage where
  "zero_createRolloutStage = \<lparr>csq_ID = [], csq_Percentage = 0, csq_MinimumDurationSeconds = 0\<rparr>"

definition createRolloutStage_decoder :: "createRolloutStage decoder" where
  "createRolloutStage_decoder = dec_struct True
     [(''id'', dec_field csq_ID csq_ID_update dec_string),
      (''percentage'', dec_field csq_Percentage csq_Percentage_update dec_int64),
      (''minimum_duration_seconds'', dec_field csq_MinimumDurationSeconds csq_MinimumDurationSeconds_update dec_int64)]"

record createGuardrail =
  cgq_Name :: string
  cgq_Query :: string
  cgq_Operator :: string
  cgq_Threshold :: float64
  cgq_ConsecutiveFailures :: int

definition zero_createGuardrail :: createGuardrail where
  "zero_createGuardrail = \<lparr>cgq_Name = [], cgq_Query = [], cgq_Operator = [], cgq_Threshold = Fin 0, cgq_ConsecutiveFailures = 0\<rparr>"

definition createGuardrail_decoder :: "createGuardrail decoder" where
  "createGuardrail_decoder = dec_struct True
     [(''name'', dec_field cgq_Name cgq_Name_update dec_string),
      (''query'', dec_field cgq_Query cgq_Query_update dec_string),
      (''operator'', dec_field cgq_Operator cgq_Operator_update dec_string),
      (''threshold'', dec_field cgq_Threshold cgq_Threshold_update dec_float64),
      (''consecutive_failures'', dec_field cgq_ConsecutiveFailures cgq_ConsecutiveFailures_update dec_int64)]"

record createRolloutRequest =
  crq_TenantID :: string
  crq_Key :: string
  crq_Environment :: string
  crq_CandidateVersion :: int
  crq_TargetServices :: "string list"
  crq_Stages :: "createRolloutStage list"
  crq_Guardrails :: "createGuardrail list"
  crq_RequiredAckPercentage :: float64
  crq_DeploymentTimeoutSeconds :: int
  crq_RolloutMaxDurationSeconds :: int
  crq_RollbackTimeoutSeconds :: int

definition zero_createRolloutRequest :: createRolloutRequest where
  "zero_createRolloutRequest = \<lparr>crq_TenantID = [], crq_Key = [], crq_Environment = [], crq_CandidateVersion = 0, crq_TargetServices = [], crq_Stages = [], crq_Guardrails = [], crq_RequiredAckPercentage = Fin 0, crq_DeploymentTimeoutSeconds = 0, crq_RolloutMaxDurationSeconds = 0, crq_RollbackTimeoutSeconds = 0\<rparr>"

definition createRolloutRequest_decoder :: "createRolloutRequest decoder" where
  "createRolloutRequest_decoder = dec_struct True
     [(''tenant_id'', dec_field crq_TenantID crq_TenantID_update dec_string),
      (''key'', dec_field crq_Key crq_Key_update dec_string),
      (''environment'', dec_field crq_Environment crq_Environment_update dec_string),
      (''candidate_version'', dec_field crq_CandidateVersion crq_CandidateVersion_update dec_int64),
      (''target_services'', dec_field crq_TargetServices crq_TargetServices_update (dec_slice [] dec_string)),
      (''stages'', dec_field crq_Stages crq_Stages_update (dec_slice zero_createRolloutStage createRolloutStage_decoder)),
      (''guardrails'', dec_field crq_Guardrails crq_Guardrails_update (dec_slice zero_createGuardrail createGuardrail_decoder)),
      (''required_ack_percentage'', dec_field crq_RequiredAckPercentage crq_RequiredAckPercentage_update dec_float64),
      (''deployment_timeout_seconds'', dec_field crq_DeploymentTimeoutSeconds crq_DeploymentTimeoutSeconds_update dec_int64),
      (''rollout_max_duration_seconds'', dec_field crq_RolloutMaxDurationSeconds crq_RolloutMaxDurationSeconds_update dec_int64),
      (''rollback_timeout_seconds'', dec_field crq_RollbackTimeoutSeconds crq_RollbackTimeoutSeconds_update dec_int64)]"
subsection \<open>Responses\<close>

record tenantResponse =
  tres_ID :: string
  tres_Name :: string
  tres_Description :: string
  tres_Owner :: string
  tres_CreatedAt :: string
  tres_UpdatedAt :: string

record definitionResponse =
  dres_ID :: string
  dres_TenantID :: string
  dres_Key :: string
  dres_Description :: string
  dres_Schema :: RawMessage
  dres_DefaultValue :: RawMessage
  dres_CreatedAt :: string
  dres_UpdatedAt :: string

record versionResponse =
  vres_ID :: string
  vres_ConfigDefinitionID :: string
  vres_VersionNumber :: int
  vres_Value :: RawMessage
  vres_SourceCommitSHA :: string
  vres_CreatedBy :: string
  vres_CreatedAt :: string

record environmentStateResponse =
  sres_ConfigDefinitionID :: string
  sres_Environment :: string
  sres_StableVersionID :: string
  sres_ActiveRolloutID :: string
  sres_UpdatedAt :: string

record agentResponse =
  ares_ID :: string
  ares_Service :: string
  ares_Environment :: string
  ares_Zone :: string
  ares_Instance :: string
  ares_Labels :: "(string, string) gomap"
  ares_RegisteredAt :: string
  ares_LastSeenAt :: string

record registerAgentResponse =
  rares_Agent :: agentResponse
  rares_InstanceCredential :: string
  rares_ExpiresAt :: string

record coverageResponse =
  cres_Total :: int
  cres_Acked :: int
  cres_Percentage :: float64

record rolloutAckResponse =
  rakres_Counted :: bool
  rakres_Decision :: string
  rakres_Coverage :: coverageResponse

record acknowledgementResponse =
  akres_ID :: string
  akres_AgentID :: string
  akres_ConfigDefinitionID :: string
  akres_VersionID :: string
  akres_SnapshotRevision :: int
  akres_Counted :: bool
  akres_CreatedAt :: string
  akres_Rollout :: "rolloutAckResponse option"

record rolloutResponse =
  rores_ID :: string
  rores_ConfigDefinitionID :: string
  rores_TenantID :: string
  rores_Key :: string
  rores_Environment :: string
  rores_StableVersionID :: string
  rores_CandidateVersionID :: string
  rores_CandidateVersion :: int
  rores_State :: string
  rores_CurrentStageID :: string
  rores_RollbackStatus :: string
  rores_Coverage :: coverageResponse
  rores_Targets :: int
text \<open>\<open>timeFormat\<close>, without a fraction of a second.\<close>

definition format_time :: "go_time \<Rightarrow> string" where
  "format_time t = rfc3339 (t div 1000000000 * 1000000000)"

definition tenantResponseFromDomain :: "Tenant \<Rightarrow> tenantResponse" where
  "tenantResponseFromDomain tenant =
     \<lparr>tres_ID = tenant_ID tenant, tres_Name = tenant_Name tenant, tres_Description = tenant_Description tenant, tres_Owner = tenant_Owner tenant,
      tres_CreatedAt = format_time (tenant_CreatedAt tenant), tres_UpdatedAt = format_time (tenant_UpdatedAt tenant)\<rparr>"

definition definitionResponseFromDomain :: "ConfigDefinition \<Rightarrow> definitionResponse" where
  "definitionResponseFromDomain definition1 =
     \<lparr>dres_ID = def_ID definition1, dres_TenantID = def_TenantID definition1, dres_Key = def_Key definition1,
      dres_Description = def_Description definition1, dres_Schema = def_Schema definition1, dres_DefaultValue = def_DefaultValue definition1,
      dres_CreatedAt = format_time (def_CreatedAt definition1), dres_UpdatedAt = format_time (def_UpdatedAt definition1)\<rparr>"

definition versionResponseFromDomain :: "ConfigVersion \<Rightarrow> versionResponse" where
  "versionResponseFromDomain version =
     \<lparr>vres_ID = ver_ID version, vres_ConfigDefinitionID = ver_ConfigDefinitionID version, vres_VersionNumber = ver_VersionNumber version,
      vres_Value = ver_Value version, vres_SourceCommitSHA = ver_SourceCommitSHA version, vres_CreatedBy = ver_CreatedBy version,
      vres_CreatedAt = format_time (ver_CreatedAt version)\<rparr>"

definition environmentStateResponseFromDomain :: "ConfigEnvironmentState \<Rightarrow> environmentStateResponse" where
  "environmentStateResponseFromDomain state =
     \<lparr>sres_ConfigDefinitionID = env_ConfigDefinitionID state, sres_Environment = env_Environment state,
      sres_StableVersionID = env_StableVersionID state, sres_ActiveRolloutID = env_ActiveRolloutID state,
      sres_UpdatedAt = format_time (env_UpdatedAt state)\<rparr>"

definition agentResponseFromDomain :: "Agent \<Rightarrow> agentResponse" where
  "agentResponseFromDomain agent =
     \<lparr>ares_ID = agent_ID agent, ares_Service = agent_Service agent, ares_Environment = agent_Environment agent, ares_Zone = agent_Zone agent,
      ares_Instance = agent_Instance agent, ares_Labels = agent_Labels agent, ares_RegisteredAt = format_time (agent_RegisteredAt agent),
      ares_LastSeenAt = format_time (agent_LastSeenAt agent)\<rparr>"

definition registerAgentResponseFromDomain :: "RegisterResult \<Rightarrow> registerAgentResponse" where
  "registerAgentResponseFromDomain result =
     \<lparr>rares_Agent = agentResponseFromDomain (rgr_Agent result), rares_InstanceCredential = cred_Token (rgr_Credential result),
      rares_ExpiresAt = format_time (cred_ExpiresAt (rgr_Credential result))\<rparr>"

definition acknowledgementResponseFromDomain :: "AgentAcknowledgement \<Rightarrow> acknowledgementResponse" where
  "acknowledgementResponseFromDomain ack =
     \<lparr>akres_ID = aack_ID ack, akres_AgentID = aack_AgentID ack, akres_ConfigDefinitionID = aack_ConfigDefinitionID ack,
      akres_VersionID = aack_VersionID ack, akres_SnapshotRevision = aack_SnapshotRevision ack, akres_Counted = aack_Counted ack,
      akres_CreatedAt = format_time (aack_CreatedAt ack), akres_Rollout = None\<rparr>"

definition coverageResponseFromDomain :: "Coverage \<Rightarrow> coverageResponse" where
  "coverageResponseFromDomain coverage =
     \<lparr>cres_Total = cov_Total coverage, cres_Acked = cov_Acked coverage, cres_Percentage = cov_Percentage coverage\<rparr>"

fun rollback_status_text :: "RollbackStatus \<Rightarrow> string" where
  "rollback_status_text RollbackStatusNone = []"
| "rollback_status_text RollbackStatusVerified = ''VERIFIED''"
| "rollback_status_text RollbackStatusPartial = ''PARTIAL''"

fun decision_text :: "StageDecision \<Rightarrow> string" where
  "decision_text DecisionWait = ''WAIT''"
| "decision_text DecisionPromote = ''PROMOTE''"
| "decision_text DecisionPause = ''PAUSE''"
| "decision_text DecisionRollback = ''ROLLBACK''"

definition rolloutResponseFromDomain :: "Rollout \<Rightarrow> StageTarget list \<Rightarrow> Coverage \<Rightarrow> rolloutResponse" where
  "rolloutResponseFromDomain rollout targets coverage =
     \<lparr>rores_ID = ro_ID rollout, rores_ConfigDefinitionID = ro_ConfigDefinitionID rollout, rores_TenantID = ro_TenantID rollout,
      rores_Key = ro_ConfigKey rollout, rores_Environment = ro_Environment rollout, rores_StableVersionID = ro_StableVersionID rollout,
      rores_CandidateVersionID = ro_CandidateVersionID rollout, rores_CandidateVersion = ro_CandidateVersion rollout,
      rores_State = state_text (ro_State rollout), rores_CurrentStageID = ro_CurrentStageID rollout,
      rores_RollbackStatus = rollback_status_text (ro_RollbackStatus rollout), rores_Coverage = coverageResponseFromDomain coverage,
      rores_Targets = int (length targets)\<rparr>"

datatype cp_body =
    TenantBody tenantResponse | TenantsBody "tenantResponse list"
  | DefinitionBody definitionResponse | DefinitionsBody "definitionResponse list"
  | VersionBody versionResponse | VersionsBody "versionResponse list"
  | EnvironmentStateBody environmentStateResponse
  | RegisterBody registerAgentResponse | AgentBody agentResponse | AcknowledgementBody acknowledgementResponse
  | RolloutBody rolloutResponse
  | FailureBody string string

type_synonym cp_Response = "int \<times> cp_body"

subsection \<open>Errors\<close>

definition invalid_input :: "int \<Rightarrow> string \<Rightarrow> error \<Rightarrow> cp_Response" where
  "invalid_input status code err = (status, FailureBody code (error_text err))"

definition cp_writeError :: "error \<Rightarrow> cp_Response" where
  "cp_writeError err =
     (if errors_Is err configregistry_ErrInvalidInput then invalid_input 400 ''invalid_input'' err
      else if errors_Is err configregistry_ErrNotFound then invalid_input 404 ''not_found'' err
      else if errors_Is err configregistry_ErrAlreadyExists then invalid_input 409 ''already_exists'' err
      else if errors_Is err configregistry_ErrConflict then invalid_input 409 ''conflict'' err
      else (500, FailureBody ''internal_error'' ''request failed''))"

definition cp_writeAgentError :: "error \<Rightarrow> cp_Response" where
  "cp_writeAgentError err =
     (if errors_Is err agentregistry_ErrInvalidInput then invalid_input 400 ''invalid_input'' err
      else if errors_Is err agentregistry_ErrUnauthorized \<or> errors_Is err agentregistry_ErrExpiredCredential then
        invalid_input 401 ''unauthorized'' err
      else if errors_Is err agentregistry_ErrForbidden then invalid_input 403 ''forbidden'' err
      else if errors_Is err agentregistry_ErrNotFound then invalid_input 404 ''not_found'' err
      else (500, FailureBody ''internal_error'' ''request failed''))"

definition cp_writeRolloutError :: "error \<Rightarrow> cp_Response" where
  "cp_writeRolloutError err =
     (if errors_Is err rollout_ErrInvalidInput then invalid_input 400 ''invalid_input'' err
      else if errors_Is err rollout_ErrNotFound then invalid_input 404 ''not_found'' err
      else if errors_Is err rollout_ErrAlreadyExists \<or> errors_Is err rollout_ErrConflict then invalid_input 409 ''conflict'' err
      else (500, FailureBody ''internal_error'' ''request failed''))"

definition cp_bearerToken :: "string \<Rightarrow> string" where
  "cp_bearerToken header =
     (if header = [] then []
      else case Cut CHR 0x20 header of
        None \<Rightarrow> []
      | Some (kind, token) \<Rightarrow> if \<not> EqualFold kind ''Bearer'' then [] else token)"

text \<open>An endpoint with a request body, and what it does with an error of its service.\<close>

type_synonym request_body = "bytes \<times> error option"

definition decodeRequest :: "'r decoder \<Rightarrow> 'r \<Rightarrow> request_body \<Rightarrow> ('r \<Rightarrow> ('w, cp_Response) M) \<Rightarrow> ('w, cp_Response) M" where
  "decodeRequest dec zero body k =
     (case decode_body dec zero body of
        Inl err \<Rightarrow> retM (400, FailureBody ''invalid_json'' (error_text err))
      | Inr req \<Rightarrow> k req)"

definition respond :: "(error \<Rightarrow> cp_Response) \<Rightarrow> ('w, 'a) M \<Rightarrow> ('a \<Rightarrow> cp_Response) \<Rightarrow> ('w, cp_Response) M" where
  "respond onError f onResult = tryM f (\<lambda>err. retM (onError err)) (\<lambda>a. retM (onResult a))"

subsection \<open>Handlers\<close>

record 'w cp_Handler =
  cph_registry :: "'w cr_Service"
  cph_agents :: "'w ag_Service option"
  cph_rollouts :: "'w ro_Service option"

definition agents_unavailable :: cp_Response where
  "agents_unavailable = (503, FailureBody ''unavailable'' ''agent registry is unavailable'')"

definition rollouts_unavailable :: cp_Response where
  "rollouts_unavailable = (503, FailureBody ''unavailable'' ''rollout service is unavailable'')"

definition h_createTenant :: "'w cp_Handler \<Rightarrow> request_body \<Rightarrow> ('w, cp_Response) M" where
  "h_createTenant h body =
     decodeRequest createTenantRequest_decoder zero_createTenantRequest body (\<lambda>req.
     respond cp_writeError
       (cr_CreateTenant (cph_registry h)
          \<lparr>cti_ID = ctq_ID req, cti_Name = ctq_Name req, cti_Description = ctq_Description req, cti_Owner = ctq_Owner req\<rparr>)
       (\<lambda>tenant. (201, TenantBody (tenantResponseFromDomain tenant))))"

definition h_listTenants :: "'w cp_Handler \<Rightarrow> ('w, cp_Response) M" where
  "h_listTenants h =
     respond cp_writeError (cr_ListTenants (cph_registry h)) (\<lambda>tenants. (200, TenantsBody (map tenantResponseFromDomain tenants)))"

definition h_getTenant :: "'w cp_Handler \<Rightarrow> string \<Rightarrow> ('w, cp_Response) M" where
  "h_getTenant h tenantID =
     respond cp_writeError (cr_GetTenant (cph_registry h) tenantID) (\<lambda>tenant. (200, TenantBody (tenantResponseFromDomain tenant)))"

definition h_createDefinition :: "'w cp_Handler \<Rightarrow> string \<Rightarrow> request_body \<Rightarrow> ('w, cp_Response) M" where
  "h_createDefinition h tenantID body =
     decodeRequest createDefinitionRequest_decoder zero_createDefinitionRequest body (\<lambda>req.
     respond cp_writeError
       (cr_CreateDefinition (cph_registry h)
          \<lparr>cdi_TenantID = tenantID, cdi_Key = cdq_Key req, cdi_Description = cdq_Description req, cdi_Schema = cdq_Schema req,
           cdi_DefaultValue = cdq_Default req\<rparr>)
       (\<lambda>definition1. (201, DefinitionBody (definitionResponseFromDomain definition1))))"

definition h_listDefinitions :: "'w cp_Handler \<Rightarrow> string \<Rightarrow> ('w, cp_Response) M" where
  "h_listDefinitions h tenantID =
     respond cp_writeError (cr_ListDefinitions (cph_registry h) tenantID)
       (\<lambda>definitions. (200, DefinitionsBody (map definitionResponseFromDomain definitions)))"

definition h_getDefinition :: "'w cp_Handler \<Rightarrow> string \<Rightarrow> string \<Rightarrow> ('w, cp_Response) M" where
  "h_getDefinition h tenantID key =
     respond cp_writeError (cr_GetDefinition (cph_registry h) tenantID key)
       (\<lambda>definition1. (200, DefinitionBody (definitionResponseFromDomain definition1)))"

definition h_createVersion :: "'w cp_Handler \<Rightarrow> string \<Rightarrow> string \<Rightarrow> request_body \<Rightarrow> ('w, cp_Response) M" where
  "h_createVersion h tenantID key body =
     decodeRequest createVersionRequest_decoder zero_createVersionRequest body (\<lambda>req.
     respond cp_writeError
       (cr_CreateVersion (cph_registry h)
          \<lparr>cvi_TenantID = tenantID, cvi_Key = key, cvi_Value = cvq_Value req, cvi_SourceCommitSHA = cvq_SourceCommitSHA req,
           cvi_CreatedBy = cvq_CreatedBy req\<rparr>)
       (\<lambda>version. (201, VersionBody (versionResponseFromDomain version))))"

definition h_listVersions :: "'w cp_Handler \<Rightarrow> string \<Rightarrow> string \<Rightarrow> ('w, cp_Response) M" where
  "h_listVersions h tenantID key =
     respond cp_writeError (cr_ListVersions (cph_registry h) tenantID key)
       (\<lambda>versions. (200, VersionsBody (map versionResponseFromDomain versions)))"

definition h_setStableVersion :: "'w cp_Handler \<Rightarrow> string \<Rightarrow> string \<Rightarrow> string \<Rightarrow> request_body \<Rightarrow> ('w, cp_Response) M" where
  "h_setStableVersion h tenantID key environment body =
     decodeRequest setStableVersionRequest_decoder zero_setStableVersionRequest body (\<lambda>req.
     respond cp_writeError
       (cr_SetStableVersion (cph_registry h)
          \<lparr>ssv_TenantID = tenantID, ssv_Key = key, ssv_Environment = environment, ssv_VersionNumber = ssq_VersionNumber req\<rparr>)
       (\<lambda>state. (200, EnvironmentStateBody (environmentStateResponseFromDomain state))))"

definition h_getStableVersion :: "'w cp_Handler \<Rightarrow> string \<Rightarrow> string \<Rightarrow> string \<Rightarrow> ('w, cp_Response) M" where
  "h_getStableVersion h tenantID key environment =
     respond cp_writeError (cr_GetEnvironmentState (cph_registry h) tenantID key environment)
       (\<lambda>state. (200, EnvironmentStateBody (environmentStateResponseFromDomain state)))"

definition h_registerAgent :: "'w cp_Handler \<Rightarrow> request_body \<Rightarrow> ('w, cp_Response) M" where
  "h_registerAgent h body =
     (case cph_agents h of
        None \<Rightarrow> retM agents_unavailable
      | Some agents \<Rightarrow>
          decodeRequest registerAgentRequest_decoder zero_registerAgentRequest body (\<lambda>req.
          respond cp_writeAgentError
            (ag_Register agents
               \<lparr>rgi_BootstrapToken = raq_BootstrapToken req, rgi_ID = raq_ID req, rgi_Service = raq_Service req,
                rgi_Environment = raq_Environment req, rgi_Zone = raq_Zone req, rgi_Instance = raq_Instance req, rgi_Labels = raq_Labels req\<rparr>)
            (\<lambda>result. (201, RegisterBody (registerAgentResponseFromDomain result)))))"

definition h_agentHeartbeat :: "'w cp_Handler \<Rightarrow> string \<Rightarrow> string \<Rightarrow> ('w, cp_Response) M" where
  "h_agentHeartbeat h agentID authorization =
     (case cph_agents h of
        None \<Rightarrow> retM agents_unavailable
      | Some agents \<Rightarrow>
          respond cp_writeAgentError (ag_Heartbeat agents agentID (cp_bearerToken authorization))
            (\<lambda>agent. (200, AgentBody (agentResponseFromDomain agent))))"

definition ack_input :: "string \<Rightarrow> string \<Rightarrow> acknowledgementRequest \<Rightarrow> ag_AcknowledgeInput" where
  "ack_input agentID authorization req =
     \<lparr>gai_AgentID = agentID, gai_Token = cp_bearerToken authorization, gai_ConfigDefinitionID = akq_ConfigDefinitionID req,
      gai_VersionID = akq_VersionID req, gai_SnapshotRevision = akq_SnapshotRevision req\<rparr>"

definition rollout_ack_input :: "string \<Rightarrow> acknowledgementRequest \<Rightarrow> AcknowledgeInput" where
  "rollout_ack_input agentID req =
     \<lparr>aki_RolloutID = akq_RolloutID req, aki_StageID = akq_StageID req, aki_AgentID = agentID, aki_VersionID = akq_VersionID req,
      aki_SnapshotRevision = akq_SnapshotRevision req\<rparr>"

definition h_agentAcknowledgement :: "'w cp_Handler \<Rightarrow> string \<Rightarrow> string \<Rightarrow> request_body \<Rightarrow> ('w, cp_Response) M" where
  "h_agentAcknowledgement h agentID authorization body =
     (case cph_agents h of
        None \<Rightarrow> retM agents_unavailable
      | Some agents \<Rightarrow>
          decodeRequest acknowledgementRequest_decoder zero_acknowledgementRequest body (\<lambda>req.
          tryM (ag_Acknowledge agents (ack_input agentID authorization req)) (\<lambda>err. retM (cp_writeAgentError err)) (\<lambda>ack.
          case cph_rollouts h of
            Some rollouts \<Rightarrow>
              if akq_RolloutID req \<noteq> [] \<and> akq_StageID req \<noteq> [] then
                respond cp_writeRolloutError (ro_Acknowledge rollouts (rollout_ack_input agentID req))
                  (\<lambda>result. (201, AcknowledgementBody ((acknowledgementResponseFromDomain ack)\<lparr>akres_Rollout :=
                     Some \<lparr>rakres_Counted = akr_Counted result, rakres_Decision = decision_text (akr_Decision result),
                           rakres_Coverage = coverageResponseFromDomain (akr_Coverage result)\<rparr>\<rparr>)))
              else retM (201, AcknowledgementBody (acknowledgementResponseFromDomain ack))
          | None \<Rightarrow> retM (201, AcknowledgementBody (acknowledgementResponseFromDomain ack)))))"

definition durationSeconds :: "int \<Rightarrow> duration" where
  "durationSeconds seconds = (if seconds \<le> 0 then 0 else wrap64 (seconds * Second))"

definition stagesFromRequest :: "createRolloutStage list \<Rightarrow> Stage list" where
  "stagesFromRequest stages =
     map (\<lambda>stage. \<lparr>stage_ID = csq_ID stage, stage_Percentage = csq_Percentage stage,
       stage_MinimumDuration = durationSeconds (csq_MinimumDurationSeconds stage)\<rparr>) stages"

definition guardrailsFromRequest :: "createGuardrail list \<Rightarrow> Rule list" where
  "guardrailsFromRequest guardrails =
     map (\<lambda>rule. \<lparr>rule_Name = cgq_Name rule, rule_Query = cgq_Query rule, rule_Operator = cgq_Operator rule,
       rule_Threshold = cgq_Threshold rule, rule_ConsecutiveFailures = cgq_ConsecutiveFailures rule\<rparr>) guardrails"

definition rollout_input :: "createRolloutRequest \<Rightarrow> CreateRolloutInput" where
  "rollout_input req =
     \<lparr>cri_TenantID = crq_TenantID req, cri_Key = crq_Key req, cri_Environment = crq_Environment req,
      cri_CandidateVersionNumber = crq_CandidateVersion req, cri_TargetServices = crq_TargetServices req,
      cri_Stages = stagesFromRequest (crq_Stages req), cri_Guardrails = guardrailsFromRequest (crq_Guardrails req),
      cri_RequiredAckPercentage = crq_RequiredAckPercentage req,
      cri_DeploymentTimeout = durationSeconds (crq_DeploymentTimeoutSeconds req),
      cri_RolloutMaxDuration = durationSeconds (crq_RolloutMaxDurationSeconds req),
      cri_RollbackTimeout = durationSeconds (crq_RollbackTimeoutSeconds req)\<rparr>"

definition h_createRollout :: "'w cp_Handler \<Rightarrow> request_body \<Rightarrow> ('w, cp_Response) M" where
  "h_createRollout h body =
     (case cph_rollouts h of
        None \<Rightarrow> retM rollouts_unavailable
      | Some rollouts \<Rightarrow>
          decodeRequest createRolloutRequest_decoder zero_createRolloutRequest body (\<lambda>req.
          respond cp_writeRolloutError (ro_CreateRollout rollouts (rollout_input req))
            (\<lambda>(created, targets). (201, RolloutBody (rolloutResponseFromDomain created targets (AcknowledgementCoverage targets))))))"

definition h_getRollout :: "'w cp_Handler \<Rightarrow> string \<Rightarrow> ('w, cp_Response) M" where
  "h_getRollout h rolloutID =
     (case cph_rollouts h of
        None \<Rightarrow> retM rollouts_unavailable
      | Some rollouts \<Rightarrow>
          respond cp_writeRolloutError (ro_GetRollout rollouts rolloutID)
            (\<lambda>(got, targets, coverage). (200, RolloutBody (rolloutResponseFromDomain got targets coverage))))"

subsection \<open>Routes\<close>

datatype Endpoint =
    PostTenants request_body | GetTenants | GetTenant string
  | PostConfigs string request_body | GetConfigs string | GetConfig string string
  | PostVersions string string request_body | GetVersions string string
  | PostStable string string string request_body | GetStable string string string
  | PostRegister request_body | PostHeartbeat string string | PostAcknowledgements string string request_body
  | PostRollouts request_body | GetRollout string

fun cp_serve :: "'w cp_Handler \<Rightarrow> Endpoint \<Rightarrow> ('w, cp_Response) M" where
  "cp_serve h (PostTenants body) = h_createTenant h body"
| "cp_serve h GetTenants = h_listTenants h"
| "cp_serve h (GetTenant tenant) = h_getTenant h tenant"
| "cp_serve h (PostConfigs tenant body) = h_createDefinition h tenant body"
| "cp_serve h (GetConfigs tenant) = h_listDefinitions h tenant"
| "cp_serve h (GetConfig tenant key) = h_getDefinition h tenant key"
| "cp_serve h (PostVersions tenant key body) = h_createVersion h tenant key body"
| "cp_serve h (GetVersions tenant key) = h_listVersions h tenant key"
| "cp_serve h (PostStable tenant key environment body) = h_setStableVersion h tenant key environment body"
| "cp_serve h (GetStable tenant key environment) = h_getStableVersion h tenant key environment"
| "cp_serve h (PostRegister body) = h_registerAgent h body"
| "cp_serve h (PostHeartbeat agentID authorization) = h_agentHeartbeat h agentID authorization"
| "cp_serve h (PostAcknowledgements agentID authorization body) = h_agentAcknowledgement h agentID authorization body"
| "cp_serve h (PostRollouts body) = h_createRollout h body"
| "cp_serve h (GetRollout rolloutID) = h_getRollout h rolloutID"

text \<open>The handler of \<open>cmd/control-plane/main.go\<close>.\<close>

definition control_handler :: "Config \<Rightarrow> World cp_Handler" where
  "control_handler cfg =
     \<lparr>cph_registry = registry_service cfg, cph_agents = Some (agent_service cfg), cph_rollouts = Some (rollouts_service cfg)\<rparr>"

end
