(* ===== verification/Plane_Snapshots.thy ===== *)
theory Plane_Snapshots
  imports Data_Plane Plane_Theorems
begin

section \<open>The data plane over the stores of the control plane\<close>

text \<open>
  \<open>cmd/data-plane/main.go\<close> opens the registry, the agents and the rollouts over the store that the control
  plane writes, and serves snapshots assembled from them. Here they share the world of
  \<open>Control_World\<close>; the interpretation of \<open>snapshot_sources\<close> is discharged by the services of \<open>Control_Plane\<close>.
\<close>

definition snapshot_store :: "Config \<Rightarrow> string list \<Rightarrow> World DynamicSnapshotStore" where
  "snapshot_store cfg tenants = NewDynamicSnapshotStore
     \<lparr>rss_ListTenants = cr_ListTenants (registry_service cfg), rss_ListDefinitions = cr_ListDefinitions (registry_service cfg),
      rss_ListVersions = cr_ListVersions (registry_service cfg), rss_GetEnvironmentState = cr_GetEnvironmentState (registry_service cfg)\<rparr>
     (ag_GetAgent (agent_service cfg)) (ro_ActiveRollout (rollouts_service cfg)) tenants (w_now (cfg_oracle cfg))"

definition snapshot_handler :: "Config \<Rightarrow> string list \<Rightarrow> World dp_Handler" where
  "snapshot_handler cfg tenants =
     \<lparr>dph_store = DynamicSnapshotStore_GetSnapshot (snapshot_store cfg tenants),
      dph_verifier = AgentCredentialVerifier_Verify (ag_Verify (agent_service cfg))\<rparr>"

lemma snapshot_store_sel [simp]:
  "rss_ListTenants (dss_registry (snapshot_store cfg ts)) = cr_ListTenants (registry_service cfg)"
  "rss_ListDefinitions (dss_registry (snapshot_store cfg ts)) = cr_ListDefinitions (registry_service cfg)"
  "rss_ListVersions (dss_registry (snapshot_store cfg ts)) = cr_ListVersions (registry_service cfg)"
  "rss_GetEnvironmentState (dss_registry (snapshot_store cfg ts)) = cr_GetEnvironmentState (registry_service cfg)"
  "dss_agents (snapshot_store cfg ts) = ag_GetAgent (agent_service cfg)"
  "dss_rollouts (snapshot_store cfg ts) = ro_ActiveRollout (rollouts_service cfg)"
  "dss_now (snapshot_store cfg ts) = w_now (cfg_oracle cfg)"
  by (simp_all add: snapshot_store_def NewDynamicSnapshotStore_def)

lemma ag_to_ro_simps [simp]: "snd (snd (ag_to_ro d)) = fst d"
  by (simp add: ag_to_ro_def)

interpretation snapshots: snapshot_sources "snapshot_store cfg ts" wJ ab_ro fst snd for cfg ts
proof (unfold_locales, goal_cases)
  case 1
  show ?case by (simp add: cr_ListTenants_def) (rule contract_from_registry [OF config_mem.ListTenants], auto)
next
  case (2 i)
  show ?case by simp (rule contract_from_registry [OF registry.ListDefinitions_spec], auto)
next
  case (3 i k)
  show ?case by simp (rule contract_from_registry [OF registry.ListVersions_spec], auto)
next
  case (4 i k e)
  show ?case by simp (rule contract_from_registry [OF registry.GetEnvironmentState_spec], auto)
next
  case (5 i)
  show ?case by (simp add: ag_GetAgent_def) (rule contract_from_agents [OF agents_mem.GetAgent], auto)
next
  case (6 c e)
  show ?case by simp (rule rollouts.ActiveRollout_spec)
qed simp_all

lemma snapshot_run:
  assumes "reachable cfg w" and "DynamicSnapshotStore_GetSnapshot (snapshot_store cfg ts) i w = (Inr snap, w')"
  shows "ab_ro w' = ab_ro w" and "\<exists>agent. gomap_get (ams_agents (w_agents w)) i = Some agent \<and> agent_ID agent = i \<and>
    items_ok (ro_abs (w_rollouts w)) (cr_abs (w_registry w)) agent (snap_Revision snap) (snap_Configs snap)"
proof -
  have J: "wJ w" and p: "pointers_ok (cr_abs (w_registry w))" using reachable_parts [OF assms(1)] by simp_all
  have run: "ab_ro w' = ab_ro w \<and> (\<exists>agent. adb_agents (ag_abs (w_agents w)) i = Some agent \<and>
      items_ok (ro_abs (w_rollouts w)) (cr_abs (w_registry w)) agent (snap_Revision snap) (snap_Configs snap))"
    using snapshots.GetSnapshot_spec [of w cfg ts i] J p assms(2) by (simp add: wp_def ab_ro_def)
  then show "ab_ro w' = ab_ro w" by simp
  have "agents_ok (ag_abs (w_agents w))" using J by (simp add: wJ_def ag_mem_inv_def)
  with run show "\<exists>agent. gomap_get (ams_agents (w_agents w)) i = Some agent \<and> agent_ID agent = i \<and>
      items_ok (ro_abs (w_rollouts w)) (cr_abs (w_registry w)) agent (snap_Revision snap) (snap_Configs snap)"
    by (auto simp: ag_abs_def agents_ok_def)
qed

text \<open>C15 (safety). Whatever the data plane serves to an agent is stored configuration: in every reachable state, each item of a snapshot
  carries identifier, number and value of a version that the registry stores for the item's definition, with the checksum of this value;
  assembling the snapshot changes no store.\<close>
theorem served_items_are_stored_versions:
  assumes "reachable cfg w" and "DynamicSnapshotStore_GetSnapshot (snapshot_store cfg ts) i w = (Inr snap, w')"
    and "item \<in> set (snap_Configs snap)"
  shows "(\<exists>v \<in> set (stored_versions w (si_ConfigDefinitionID item)). si_VersionID item = ver_ID v \<and> si_Version item = ver_VersionNumber v \<and>
      si_Value item = ver_Value v \<and> si_Checksum item = Checksum (si_Value item)) \<and>
    (ro_abs (w_rollouts w'), cr_abs (w_registry w'), ag_abs (w_agents w')) = (ro_abs (w_rollouts w), cr_abs (w_registry w), ag_abs (w_agents w))"
proof -
  obtain agent n where "item_source (ro_abs (w_rollouts w)) (cr_abs (w_registry w)) agent item n"
    using snapshot_run(2) [OF assms(1,2)] assms(3) unfolding items_ok_def by blast
  then obtain x v where "v \<in> set (stored_versions w (def_ID x))" "item = make_item x v (si_Assignment item)"
    unfolding item_source_def cr_abs_sel by blast
  moreover have "ab_ro w' = ab_ro w" by (rule snapshot_run(1) [OF assms(1,2)])
  ultimately show ?thesis by (auto simp: make_item_def ab_ro_def dest!: arg_cong [where f = "\<lambda>i. (si_ConfigDefinitionID i, si_VersionID i, si_Version i, si_Value i, si_Checksum i)"])
qed

lemma effective_cases:
  fixes r ts a
  defines "e \<equiv> EffectiveVersionForAgent r ts a"
  shows "eff_VersionID e = ro_StableVersionID r \<or>
    (\<exists>t \<in> set ts. tgt_AgentID t = a \<and> eff_VersionID e = tgt_ExpectedVersionID t \<and> eff_AssignedRollout e = ro_ID r \<and>
       eff_AssignedStage e = ro_CurrentStageID r \<and> ro_State r \<in> {StateDeploying, StateEvaluating, StatePromoting, StatePaused})"
proof (cases "ro_State r = StateRollingBack \<or> \<not> servesCandidate (ro_State r)")
  case True
  then show ?thesis by (auto simp: e_def EffectiveVersionForAgent_def rollback_version_stable stable_effective_def)
next
  case False
  then have "e = candidate_loop r ts a" by (simp add: e_def EffectiveVersionForAgent_def)
  then show ?thesis using candidate_loop_cases [of r ts a] False by (auto simp: stable_effective_def servesCandidate_def)
qed

text \<open>C16 (safety). A candidate reaches targeted agents only: in every reachable state, the version of an item served to an agent is the stable
  version of the definition in the agent's environment, or there is an active rollout of this definition and environment and the version is the
  rollout's stable version, or it is the rollout's candidate, in which case the agent is a target of the rollout's current stage and the item names
  this rollout and stage.\<close>
theorem candidates_are_served_to_targets_only:
  assumes "reachable cfg w" and "DynamicSnapshotStore_GetSnapshot (snapshot_store cfg ts) i w = (Inr snap, w')"
    and "item \<in> set (snap_Configs snap)"
  shows "\<exists>agent. gomap_get (ams_agents (w_agents w)) i = Some agent \<and>
    ((\<exists>st. reg_states (cr_abs (w_registry w)) (si_ConfigDefinitionID item) (agent_Environment agent) = Some st \<and>
        si_VersionID item = env_StableVersionID st) \<or>
     (\<exists>r. stored_rollout w (ro_ID r) = Some r \<and> \<not> Terminal (ro_State r) \<and> ro_ConfigDefinitionID r = si_ConfigDefinitionID item \<and>
        ro_Environment r = agent_Environment agent \<and>
        (si_VersionID item = ro_StableVersionID r \<or>
         si_VersionID item = ro_CandidateVersionID r \<and> asg_RolloutID (si_Assignment item) = ro_ID r \<and>
         (ro_ID r \<noteq> [] \<longrightarrow> asg_StageID (si_Assignment item) = ro_CurrentStageID r) \<and>
         (\<exists>t \<in> set (gomap_slice (rms_targets (w_rollouts w)) (targetKey (ro_ID r) (ro_CurrentStageID r))). tgt_AgentID t = i))))"
proof -
  let ?db = "ro_abs (w_rollouts w)" and ?reg = "cr_abs (w_registry w)"
  obtain agent n where agent: "gomap_get (ams_agents (w_agents w)) i = Some agent" "agent_ID agent = i"
    and src: "item_source ?db ?reg agent item n"
    using snapshot_run(2) [OF assms(1,2)] assms(3) unfolding items_ok_def by blast
  obtain x v where item: "item = make_item x v (si_Assignment item)"
    and alt: "(\<exists>st. reg_states ?reg (def_ID x) (agent_Environment agent) = Some st \<and> ver_ID v = env_StableVersionID st) \<or>
      (\<exists>r. is_active ?db r \<and> ro_ConfigDefinitionID r = def_ID x \<and> ro_Environment r = agent_Environment agent \<and>
        (let e = EffectiveVersionForAgent r (db_targets ?db (ro_ID r) (ro_CurrentStageID r)) (agent_ID agent) in
         ver_ID v = eff_VersionID e \<and> (if eff_AssignedRollout e \<noteq> []
          then si_Assignment item = \<lparr>asg_RolloutID = eff_AssignedRollout e, asg_StageID = eff_AssignedStage e\<rparr> \<and> n = eff_SnapshotRevision e
          else si_Assignment item = \<lparr>asg_RolloutID = [], asg_StageID = []\<rparr> \<and> n = 1)))"
    using src unfolding item_source_def by blast
  have ids: "si_ConfigDefinitionID item = def_ID x" "si_VersionID item = ver_ID v"
    using arg_cong [OF item, of si_ConfigDefinitionID] arg_cong [OF item, of si_VersionID] by (simp_all add: make_item_def)
  have "\<exists>r. stored_rollout w (ro_ID r) = Some r \<and> \<not> Terminal (ro_State r) \<and> ro_ConfigDefinitionID r = si_ConfigDefinitionID item \<and>
        ro_Environment r = agent_Environment agent \<and>
        (si_VersionID item = ro_StableVersionID r \<or>
         si_VersionID item = ro_CandidateVersionID r \<and> asg_RolloutID (si_Assignment item) = ro_ID r \<and>
         (ro_ID r \<noteq> [] \<longrightarrow> asg_StageID (si_Assignment item) = ro_CurrentStageID r) \<and>
         (\<exists>t \<in> set (gomap_slice (rms_targets (w_rollouts w)) (targetKey (ro_ID r) (ro_CurrentStageID r))). tgt_AgentID t = i))"
    if "is_active ?db r" and slot: "ro_ConfigDefinitionID r = def_ID x" "ro_Environment r = agent_Environment agent"
      and eff: "let e = EffectiveVersionForAgent r (db_targets ?db (ro_ID r) (ro_CurrentStageID r)) (agent_ID agent) in
         ver_ID v = eff_VersionID e \<and> (if eff_AssignedRollout e \<noteq> []
          then si_Assignment item = \<lparr>asg_RolloutID = eff_AssignedRollout e, asg_StageID = eff_AssignedStage e\<rparr> \<and> n = eff_SnapshotRevision e
          else si_Assignment item = \<lparr>asg_RolloutID = [], asg_StageID = []\<rparr> \<and> n = 1)" for r
  proof -
    let ?ts = "db_targets ?db (ro_ID r) (ro_CurrentStageID r)"
    have stored: "stored_rollout w (ro_ID r) = Some r" "\<not> Terminal (ro_State r)" using that(1) by (auto simp: is_active_def)
    have nf: "nul_free (ro_ID r)" using reachable_parts(2) [OF assms(1)] stored(1) unfolding rows_ok_def ro_abs_sel by blast
    have ts: "?ts = gomap_slice (rms_targets (w_rollouts w)) (targetKey (ro_ID r) (ro_CurrentStageID r))" using nf by (simp add: ro_abs_def)
    have expected: "tgt_ExpectedVersionID t = ro_StableVersionID r \<or> tgt_ExpectedVersionID t = ro_CandidateVersionID r" if "t \<in> set ?ts" for t
    proof -
      have "target_ok ?db (ro_ID r) (ro_CurrentStageID r) t"
        using reachable_parts(3) [OF assms(1)] that unfolding targets_ok_def by blast
      then show ?thesis using stored(1) unfolding target_ok_def ro_abs_sel by (metis option.inject)
    qed
    define e where "e = EffectiveVersionForAgent r ?ts i"
    have "eff_VersionID e = ro_StableVersionID r \<or> eff_VersionID e = ro_CandidateVersionID r \<and>
        eff_AssignedRollout e = ro_ID r \<and> eff_AssignedStage e = ro_CurrentStageID r \<and> (\<exists>t \<in> set ?ts. tgt_AgentID t = i)"
      using effective_cases [of r ?ts i] expected unfolding e_def by metis
    moreover have "si_VersionID item = eff_VersionID e" "asg_RolloutID (si_Assignment item) = eff_AssignedRollout e"
      "eff_AssignedRollout e \<noteq> [] \<Longrightarrow> asg_StageID (si_Assignment item) = eff_AssignedStage e"
      using eff ids agent(2) by (auto simp: Let_def e_def split: if_splits)
    ultimately show ?thesis using stored slot ids unfolding ts by (intro exI [of _ r]) auto
  qed
  then have "(\<exists>st. reg_states ?reg (si_ConfigDefinitionID item) (agent_Environment agent) = Some st \<and> si_VersionID item = env_StableVersionID st) \<or>
     (\<exists>r. stored_rollout w (ro_ID r) = Some r \<and> \<not> Terminal (ro_State r) \<and> ro_ConfigDefinitionID r = si_ConfigDefinitionID item \<and>
        ro_Environment r = agent_Environment agent \<and>
        (si_VersionID item = ro_StableVersionID r \<or>
         si_VersionID item = ro_CandidateVersionID r \<and> asg_RolloutID (si_Assignment item) = ro_ID r \<and>
         (ro_ID r \<noteq> [] \<longrightarrow> asg_StageID (si_Assignment item) = ro_CurrentStageID r) \<and>
         (\<exists>t \<in> set (gomap_slice (rms_targets (w_rollouts w)) (targetKey (ro_ID r) (ro_CurrentStageID r))). tgt_AgentID t = i)))"
    using alt unfolding ids by blast
  then show ?thesis using agent(1) by blast
qed

text \<open>The evaluation leaves the checksum of the item symbolic.\<close>

declare Checksum_def [code del]

lemma demo_snapshot:
  "let x = DynamicSnapshotStore_GetSnapshot (snapshot_store demo_config []) ''a'' demo_world in
   case fst x of Inl _ \<Rightarrow> False | Inr snap \<Rightarrow> map si_VersionID (snap_Configs snap) = [''ver_0b''] \<and> snap_Revision snap = 1"
  by code_simp

declare Checksum_def [code]

lemma demo_snapshot_run:
  obtains snap w' item where "DynamicSnapshotStore_GetSnapshot (snapshot_store demo_config []) ''a'' demo_world = (Inr snap, w')"
    "item \<in> set (snap_Configs snap)" "si_VersionID item = ''ver_0b''"
proof -
  define x where "x = DynamicSnapshotStore_GetSnapshot (snapshot_store demo_config []) ''a'' demo_world"
  obtain snap where snap: "fst x = Inr snap" "map si_VersionID (snap_Configs snap) = [''ver_0b'']"
    using demo_snapshot unfolding Let_def x_def [symmetric] by (cases "fst x") auto
  obtain item where "snap_Configs snap = [item]" "si_VersionID item = ''ver_0b''" using snap(2) by blast
  moreover have "x = (Inr snap, snd x)" using snap(1) by (cases x) simp
  ultimately show thesis using that [of snap "snd x" item] unfolding x_def by simp
qed

theorem served_items_are_stored_versions_witness:
  "\<exists>snap w' item. DynamicSnapshotStore_GetSnapshot (snapshot_store demo_config []) ''a'' demo_world = (Inr snap, w') \<and>
     item \<in> set (snap_Configs snap) \<and> si_VersionID item = ''ver_0b'' \<and> si_Checksum item = Checksum (si_Value item)"
proof (rule demo_snapshot_run)
  fix snap w' item
  assume run: "DynamicSnapshotStore_GetSnapshot (snapshot_store demo_config []) ''a'' demo_world = (Inr snap, w')"
    and item: "item \<in> set (snap_Configs snap)" "si_VersionID item = ''ver_0b''"
  have "si_Checksum item = Checksum (si_Value item)"
    using conjunct1 [OF served_items_are_stored_versions [OF demo_world_reachable run item(1)]] by blast
  then show ?thesis using run item by (intro exI conjI)
qed

theorem candidates_are_served_to_targets_only_witness:
  "\<exists>snap w' agent. DynamicSnapshotStore_GetSnapshot (snapshot_store demo_config []) ''a'' demo_world = (Inr snap, w') \<and>
     gomap_get (ams_agents (w_agents demo_world)) ''a'' = Some agent"
proof (rule demo_snapshot_run)
  fix snap w' item
  assume run: "DynamicSnapshotStore_GetSnapshot (snapshot_store demo_config []) ''a'' demo_world = (Inr snap, w')"
    and item: "item \<in> set (snap_Configs snap)" "si_VersionID item = ''ver_0b''"
  show ?thesis using candidates_are_served_to_targets_only [OF demo_world_reachable run item(1)] run by blast
qed

end
