(* ===== verification/Plane_Http.thy ===== *)
theory Plane_Http
  imports Control_Handler Plane_Snapshots
begin

section \<open>The control plane through its HTTP interface\<close>

lemma snd_respond [simp]: "snd (respond onError f onResult w) = snd (f w)"
  by (simp add: respond_def tryM_def retM_def split: prod.splits sum.splits)

lemma snd_decodeRequest: "snd (decodeRequest dec zero body k w) = (case decode_body dec zero body of Inl _ \<Rightarrow> w | Inr req \<Rightarrow> snd (k req w))"
  by (simp add: decodeRequest_def retM_def split: sum.splits)

lemma control_handler_sel [simp]:
  "cph_registry (control_handler cfg) = registry_service cfg" "cph_agents (control_handler cfg) = Some (agent_service cfg)"
  "cph_rollouts (control_handler cfg) = Some (rollouts_service cfg)"
  by (simp_all add: control_handler_def)

lemmas handler_defs =
  h_createTenant_def h_listTenants_def h_getTenant_def h_createDefinition_def h_listDefinitions_def h_getDefinition_def
  h_createVersion_def h_listVersions_def h_setStableVersion_def h_getStableVersion_def h_registerAgent_def h_agentHeartbeat_def
  h_createRollout_def h_getRollout_def

text \<open>
  The calls a request stands for, read off the request alone: one call of the service of its endpoint with the decoded input, none when the body is
  malformed. Only an acknowledgement asks the world: it goes on to the rollout service when the agent registry has accepted it
  and it names a rollout and a stage.
\<close>

definition token_of :: "string \<Rightarrow> string" where
  "token_of authorization = (if map ascii_lower (take 7 authorization) = ''bearer '' then drop 7 authorization else [])"

definition seconds_of :: "int \<Rightarrow> duration" where
  "seconds_of n = (if n \<le> 0 then 0 else wrap64 (n * 1000000000))"

definition calls_of :: "'r decoder \<Rightarrow> 'r \<Rightarrow> request_body \<Rightarrow> ('r \<Rightarrow> Call list) \<Rightarrow> Call list" where
  "calls_of dec zero body f = (case decode_body dec zero body of Inl _ \<Rightarrow> [] | Inr req \<Rightarrow> f req)"

fun request_calls :: "Config \<Rightarrow> World \<Rightarrow> Endpoint \<Rightarrow> Call list" where
  "request_calls cfg w (PostTenants body) = calls_of createTenantRequest_decoder zero_createTenantRequest body (\<lambda>req.
     [CallCreateTenant \<lparr>cti_ID = ctq_ID req, cti_Name = ctq_Name req, cti_Description = ctq_Description req, cti_Owner = ctq_Owner req\<rparr>])"
| "request_calls cfg w GetTenants = [CallRead ReadTenants]"
| "request_calls cfg w (GetTenant tenant) = [CallRead (ReadTenant tenant)]"
| "request_calls cfg w (PostConfigs tenant body) = calls_of createDefinitionRequest_decoder zero_createDefinitionRequest body (\<lambda>req.
     [CallCreateDefinition \<lparr>cdi_TenantID = tenant, cdi_Key = cdq_Key req, cdi_Description = cdq_Description req,
        cdi_Schema = cdq_Schema req, cdi_DefaultValue = cdq_Default req\<rparr>])"
| "request_calls cfg w (GetConfigs tenant) = [CallRead (ReadDefinitions tenant)]"
| "request_calls cfg w (GetConfig tenant key) = [CallRead (ReadDefinition tenant key)]"
| "request_calls cfg w (PostVersions tenant key body) = calls_of createVersionRequest_decoder zero_createVersionRequest body (\<lambda>req.
     [CallCreateVersion \<lparr>cvi_TenantID = tenant, cvi_Key = key, cvi_Value = cvq_Value req, cvi_SourceCommitSHA = cvq_SourceCommitSHA req,
        cvi_CreatedBy = cvq_CreatedBy req\<rparr>])"
| "request_calls cfg w (GetVersions tenant key) = [CallRead (ReadVersions tenant key)]"
| "request_calls cfg w (PostStable tenant key environment body) = calls_of setStableVersionRequest_decoder zero_setStableVersionRequest body (\<lambda>req.
     [CallSetStableVersion \<lparr>ssv_TenantID = tenant, ssv_Key = key, ssv_Environment = environment, ssv_VersionNumber = ssq_VersionNumber req\<rparr>])"
| "request_calls cfg w (GetStable tenant key environment) = [CallRead (ReadEnvironmentState tenant key environment)]"
| "request_calls cfg w (PostRegister body) = calls_of registerAgentRequest_decoder zero_registerAgentRequest body (\<lambda>req.
     [CallRegister \<lparr>rgi_BootstrapToken = raq_BootstrapToken req, rgi_ID = raq_ID req, rgi_Service = raq_Service req,
        rgi_Environment = raq_Environment req, rgi_Zone = raq_Zone req, rgi_Instance = raq_Instance req, rgi_Labels = raq_Labels req\<rparr>])"
| "request_calls cfg w (PostHeartbeat agent authorization) = [CallHeartbeat agent (token_of authorization)]"
| "request_calls cfg w (PostAcknowledgements agent authorization body) = calls_of acknowledgementRequest_decoder zero_acknowledgementRequest body (\<lambda>req.
     let received = \<lparr>gai_AgentID = agent, gai_Token = token_of authorization, gai_ConfigDefinitionID = akq_ConfigDefinitionID req,
           gai_VersionID = akq_VersionID req, gai_SnapshotRevision = akq_SnapshotRevision req\<rparr>
     in CallAcknowledgeSnapshot received #
       (if \<not> isl (fst (ag_Acknowledge (agent_service cfg) received w)) \<and> akq_RolloutID req \<noteq> [] \<and> akq_StageID req \<noteq> []
        then [CallAcknowledge \<lparr>aki_RolloutID = akq_RolloutID req, aki_StageID = akq_StageID req, aki_AgentID = agent,
                aki_VersionID = akq_VersionID req, aki_SnapshotRevision = akq_SnapshotRevision req\<rparr>]
        else []))"
| "request_calls cfg w (PostRollouts body) = calls_of createRolloutRequest_decoder zero_createRolloutRequest body (\<lambda>req.
     [CallCreateRollout
        \<lparr>cri_TenantID = crq_TenantID req, cri_Key = crq_Key req, cri_Environment = crq_Environment req,
         cri_CandidateVersionNumber = crq_CandidateVersion req, cri_TargetServices = crq_TargetServices req,
         cri_Stages = map (\<lambda>stage. \<lparr>stage_ID = csq_ID stage, stage_Percentage = csq_Percentage stage,
           stage_MinimumDuration = seconds_of (csq_MinimumDurationSeconds stage)\<rparr>) (crq_Stages req),
         cri_Guardrails = map (\<lambda>rule. \<lparr>rule_Name = cgq_Name rule, rule_Query = cgq_Query rule, rule_Operator = cgq_Operator rule,
           rule_Threshold = cgq_Threshold rule, rule_ConsecutiveFailures = cgq_ConsecutiveFailures rule\<rparr>) (crq_Guardrails req),
         cri_RequiredAckPercentage = crq_RequiredAckPercentage req,
         cri_DeploymentTimeout = seconds_of (crq_DeploymentTimeoutSeconds req),
         cri_RolloutMaxDuration = seconds_of (crq_RolloutMaxDurationSeconds req),
         cri_RollbackTimeout = seconds_of (crq_RollbackTimeoutSeconds req)\<rparr>])"
| "request_calls cfg w (GetRollout rollout) = [CallRead (ReadRollout rollout)]"

lemma token_of_spec: "cp_bearerToken authorization = token_of authorization"
  using bearerToken_spec [of authorization] by (simp add: cp_bearerToken_def bearerToken_def token_of_def)

lemma seconds_of_spec: "durationSeconds n = seconds_of n"
  by (simp add: durationSeconds_def seconds_of_def Second_def)

lemma serve_all_simps [simp]: "serve_all cfg [] w = w" "serve_all cfg (c # cs) w = serve_all cfg cs (serve cfg c w)"
  by (simp_all add: serve_all_def)

lemma serve_all_append: "serve_all cfg (cs @ ds) w = serve_all cfg ds (serve_all cfg cs w)"
  by (simp add: serve_all_def)

lemma acknowledgement_calls:
  "snd (cp_serve (control_handler cfg) (PostAcknowledgements i auth body) w) = serve_all cfg (request_calls cfg w (PostAcknowledgements i auth body)) w"
  by (auto simp: calls_of_def h_agentAcknowledgement_def snd_decodeRequest tryM_def retM_def ack_input_def rollout_ack_input_def token_of_spec Let_def
      split: sum.splits prod.splits)

text \<open>What a request does to the world is what the calls it stands for do.\<close>

lemma cp_serve_calls: "snd (cp_serve (control_handler cfg) ep w) = serve_all cfg (request_calls cfg w ep) w"
proof (cases ep)
  case (PostAcknowledgements i auth body)
  then show ?thesis using acknowledgement_calls by simp
next
  case (PostRollouts body)
  have "rollout_input req =
      \<lparr>cri_TenantID = crq_TenantID req, cri_Key = crq_Key req, cri_Environment = crq_Environment req,
       cri_CandidateVersionNumber = crq_CandidateVersion req, cri_TargetServices = crq_TargetServices req,
       cri_Stages = map (\<lambda>stage. \<lparr>stage_ID = csq_ID stage, stage_Percentage = csq_Percentage stage,
         stage_MinimumDuration = seconds_of (csq_MinimumDurationSeconds stage)\<rparr>) (crq_Stages req),
       cri_Guardrails = map (\<lambda>rule. \<lparr>rule_Name = cgq_Name rule, rule_Query = cgq_Query rule, rule_Operator = cgq_Operator rule,
         rule_Threshold = cgq_Threshold rule, rule_ConsecutiveFailures = cgq_ConsecutiveFailures rule\<rparr>) (crq_Guardrails req),
       cri_RequiredAckPercentage = crq_RequiredAckPercentage req,
       cri_DeploymentTimeout = seconds_of (crq_DeploymentTimeoutSeconds req),
       cri_RolloutMaxDuration = seconds_of (crq_RolloutMaxDurationSeconds req),
       cri_RollbackTimeout = seconds_of (crq_RollbackTimeoutSeconds req)\<rparr>" for req
    by (simp add: rollout_input_def stagesFromRequest_def guardrailsFromRequest_def seconds_of_spec)
  then show ?thesis using PostRollouts by (simp add: h_createRollout_def snd_decodeRequest calls_of_def split: sum.split)
qed (simp_all add: handler_defs snd_decodeRequest calls_of_def token_of_spec split: sum.split)

text \<open>What a process does: it answers requests and reconciles the rollouts, in any order.\<close>

datatype Event = Request Endpoint | ReconcilerTick

primrec plane_event :: "Config \<Rightarrow> Event \<Rightarrow> World \<Rightarrow> World" where
  "plane_event cfg (Request ep) w = snd (cp_serve (control_handler cfg) ep w)"
| "plane_event cfg ReconcilerTick w = snd (ro_ReconcileActive (rollouts_service cfg) w)"

primrec event_calls :: "Config \<Rightarrow> World \<Rightarrow> Event \<Rightarrow> Call list" where
  "event_calls cfg w (Request ep) = request_calls cfg w ep"
| "event_calls cfg w ReconcilerTick = [CallReconcileActive]"

primrec history_calls :: "Config \<Rightarrow> World \<Rightarrow> Event list \<Rightarrow> Call list" where
  "history_calls cfg w [] = []"
| "history_calls cfg w (ev # es) = event_calls cfg w ev @ history_calls cfg (serve_all cfg (event_calls cfg w ev) w) es"

lemma plane_event_calls: "plane_event cfg ev w = serve_all cfg (event_calls cfg w ev) w"
  by (cases ev) (simp_all add: cp_serve_calls)

lemma history_calls_spec: "fold (plane_event cfg) es w = serve_all cfg (history_calls cfg w es) w"
  by (induction es arbitrary: w) (simp_all add: plane_event_calls serve_all_append)

lemma events_reachable: "reachable cfg w \<Longrightarrow> reachable cfg (fold (plane_event cfg) es w)"
  unfolding history_calls_spec by (rule reachable_serve_all)

text \<open>C21 (refinement). The HTTP interface does to the stores exactly what the requests say: any history of requests, well formed or not, and of reconciler ticks leads to the
  world that the calls of the requests (\<open>request_calls\<close>, each with its decoded input) lead to, in their order; a malformed body calls nothing, and an
  acknowledgement reaches the rollout service only after the agent registry has accepted it. So every invariant of the reachable worlds holds of the running process.\<close>
theorem http_history_refines_calls:
  "fold (plane_event cfg) es initial_world = serve_all cfg (history_calls cfg initial_world es) initial_world \<and>
   reachable cfg (fold (plane_event cfg) es initial_world)"
  using history_calls_spec events_reachable [OF reachable.start] by blast

definition failure :: "cp_body \<Rightarrow> bool" where
  "failure body \<longleftrightarrow> (case body of FailureBody _ _ \<Rightarrow> True | _ \<Rightarrow> False)"

text \<open>The answer of an endpoint: a failure with the status of a failure, or a payload with 200 or 201.\<close>

definition well_answered :: "(error + cp_Response) \<Rightarrow> bool" where
  "well_answered r \<longleftrightarrow> (case r of Inl _ \<Rightarrow> False
     | Inr (status, body) \<Rightarrow> (if failure body then status \<in> {400, 401, 403, 404, 409, 500, 503} else status \<in> {200, 201}))"

lemma error_answers:
  "well_answered (Inr (cp_writeError err))" "well_answered (Inr (cp_writeAgentError err))" "well_answered (Inr (cp_writeRolloutError err))"
  by (auto simp: well_answered_def failure_def cp_writeError_def cp_writeAgentError_def cp_writeRolloutError_def invalid_input_def)

lemma respond_answers:
  assumes "\<And>err. well_answered (Inr (onError err))" and "\<And>a. well_answered (Inr (onResult a))"
  shows "well_answered (fst (respond onError f onResult w))"
  using assms by (simp add: respond_def tryM_def retM_def split: prod.splits sum.splits)

lemma decodeRequest_answers:
  assumes "\<And>req. well_answered (fst (k req w))"
  shows "well_answered (fst (decodeRequest dec zero body k w))"
proof (cases "decode_body dec zero body")
  case (Inl err)
  then show ?thesis by (simp add: decodeRequest_def retM_def well_answered_def failure_def)
next
  case (Inr req)
  then show ?thesis using assms by (simp add: decodeRequest_def)
qed

text \<open>Every request gets an answer, whatever its body and whatever the services and the store behind them do: a payload with status 200 or 201, or a failure
  with status 400, 401, 403, 404, 409, 500 or 503; no error of a service escapes the handler.\<close>
theorem requests_are_answered:
  "\<exists>status body w'. cp_serve h ep w = (Inr (status, body), w') \<and>
     status \<in> (if failure body then {400, 401, 403, 404, 409, 500, 503} else {200, 201})"
proof -
  have ok: "well_answered (Inr (n, b))" if "n \<in> {200, 201}" "\<not> failure b" for n b using that by (auto simp: well_answered_def)
  have un: "well_answered (Inr agents_unavailable)" "well_answered (Inr rollouts_unavailable)"
    by (simp_all add: well_answered_def failure_def agents_unavailable_def rollouts_unavailable_def)
  have "well_answered (fst (cp_serve h ep w))"
    by (cases ep) (auto simp: handler_defs h_agentAcknowledgement_def un retM_def tryM_def error_answers failure_def
        intro!: decodeRequest_answers respond_answers ok split: option.splits prod.splits sum.splits)
  then show ?thesis by (cases "cp_serve h ep w") (auto simp: well_answered_def split: sum.splits if_splits)
qed

text \<open>A body that is not a request of its endpoint: no JSON, a member that the endpoint does not know or a value of another type.\<close>

fun malformed :: "Endpoint \<Rightarrow> bool" where
  "malformed (PostTenants b) = isl (decode_body createTenantRequest_decoder zero_createTenantRequest b)"
| "malformed (PostConfigs _ b) = isl (decode_body createDefinitionRequest_decoder zero_createDefinitionRequest b)"
| "malformed (PostVersions _ _ b) = isl (decode_body createVersionRequest_decoder zero_createVersionRequest b)"
| "malformed (PostStable _ _ _ b) = isl (decode_body setStableVersionRequest_decoder zero_setStableVersionRequest b)"
| "malformed (PostRegister b) = isl (decode_body registerAgentRequest_decoder zero_registerAgentRequest b)"
| "malformed (PostAcknowledgements _ _ b) = isl (decode_body acknowledgementRequest_decoder zero_acknowledgementRequest b)"
| "malformed (PostRollouts b) = isl (decode_body createRolloutRequest_decoder zero_createRolloutRequest b)"
| "malformed _ = False"

text \<open>C22 (error). A request whose body cannot be decoded is answered with 400 and touches nothing: no store is read or written, no clock is asked.\<close>
theorem malformed_requests_change_nothing:
  assumes "malformed ep"
  shows "\<exists>message. cp_serve (control_handler cfg) ep w = (Inr (400, FailureBody ''invalid_json'' message), w)"
  using assms
  by (cases ep) (auto simp: handler_defs h_agentAcknowledgement_def decodeRequest_def retM_def isl_def)

text \<open>A body with an unknown member.\<close>

definition demo_unknown :: bytes where
  "demo_unknown = json_object [json_field ''id'' (json_string ''t''), json_field ''color'' (json_string ''red'')]"

theorem malformed_requests_change_nothing_witness:
  "malformed (PostTenants (demo_unknown, None)) \<and>
   (\<exists>message. cp_serve (control_handler demo_config) (PostTenants (demo_unknown, None)) demo_world = (Inr (400, FailureBody ''invalid_json'' message), demo_world))"
proof -
  have m: "malformed (PostTenants (demo_unknown, None))" by code_simp
  then show ?thesis using malformed_requests_change_nothing [OF m] by blast
qed

subsection \<open>Who may speak for an agent\<close>

text \<open>The credential behind a token that is accepted: stored, of this agent, not expired at the reading of the clock.\<close>

definition live_credential :: "Config \<Rightarrow> World \<Rightarrow> string \<Rightarrow> string \<Rightarrow> bool" where
  "live_credential cfg w token i \<longleftrightarrow> TrimSpace token \<noteq> [] \<and>
     (\<exists>c. gomap_get (ams_credentials (w_agents w)) token = Some c \<and> cred_AgentID c = i \<and>
        orc_now (cfg_oracle cfg) (Suc (w_tick w)) < cred_ExpiresAt c)"

lemma Verify_live: "ag_Verify (agent_service cfg) token w = (Inr i, w') \<Longrightarrow> live_credential cfg w token i"
  by (auto simp: ag_Verify_def live_credential_def world_agent_store_def on_agents_def on_cell_def ag_mem_GetCredential_def tryM_def bindM_def
      effM_def raiseM_def retM_def tick_def w_now_def split: if_splits option.splits)

text \<open>C23 (safety). Nobody speaks for an agent without its credential: a heartbeat or an acknowledgement of an agent succeeds, and its snapshot is served or reported as unchanged,
  only with a bearer token under which a credential of this very agent is stored that has not expired at the moment of the check.\<close>
theorem agents_speak_with_live_credentials:
  assumes "(\<exists>body w'. cp_serve (control_handler cfg) (PostHeartbeat i auth) w = (Inr (200, body), w')) \<or>
    (\<exists>request body w'. cp_serve (control_handler cfg) (PostAcknowledgements i auth request) w = (Inr (201, body), w')) \<or>
    (\<exists>tag resp w'. dp_getSnapshot (snapshot_handler cfg tenants) i auth tag w = (Inr resp, w') \<and> rsp_Status resp \<in> {200, 304})"
  shows "live_credential cfg w (bearerToken auth) i"
proof -
  have same: "cp_bearerToken auth = bearerToken auth" by (simp add: cp_bearerToken_def bearerToken_def)
  have refused: "cp_writeAgentError e \<noteq> (200, body)" "cp_writeAgentError e \<noteq> (201, body)" "cp_writeRolloutError e \<noteq> (201, body)" for e body
    by (auto simp: cp_writeAgentError_def cp_writeRolloutError_def invalid_input_def)
  from assms show ?thesis
  proof (elim disjE exE)
    fix body w' assume "cp_serve (control_handler cfg) (PostHeartbeat i auth) w = (Inr (200, body), w')"
    then have "\<exists>a w'. ag_Heartbeat (agent_service cfg) i (bearerToken auth) w = (Inr a, w')"
      by (auto simp: h_agentHeartbeat_def respond_def tryM_def retM_def refused same split: prod.splits sum.splits)
    then have "\<exists>w'. ag_Verify (agent_service cfg) (bearerToken auth) w = (Inr i, w')"
      by (auto simp: ag_Heartbeat_def run_Inr raiseM_Inr split: if_splits)
    then show ?thesis using Verify_live by blast
  next
    fix request body w' assume "cp_serve (control_handler cfg) (PostAcknowledgements i auth request) w = (Inr (201, body), w')"
    then have "\<exists>req a w'. ag_Acknowledge (agent_service cfg) (ack_input i auth req) w = (Inr a, w')"
      by (auto simp: h_agentAcknowledgement_def decodeRequest_def tryM_def retM_def refused split: prod.splits sum.splits)
    then have "\<exists>w'. ag_Verify (agent_service cfg) (bearerToken auth) w = (Inr i, w')"
      by (auto simp: ag_Acknowledge_def ack_input_def same run_Inr raiseM_Inr split: if_splits)
    then show ?thesis using Verify_live by blast
  next
    fix tag resp w' assume run: "dp_getSnapshot (snapshot_handler cfg tenants) i auth tag w = (Inr resp, w') \<and> rsp_Status resp \<in> {200, 304}"
    have "rsp_Status (dp_writeError err) \<noteq> 200" "rsp_Status (dp_writeError err) \<noteq> 304" for err
      using dp_writeError_status [of err] by auto
    with run have "\<exists>w'. AgentCredentialVerifier_Verify (ag_Verify (agent_service cfg)) (bearerToken auth) w = (Inr i, w')"
      by (auto simp: dp_getSnapshot_def snapshot_handler_def tryM_def retM_def split: prod.splits sum.splits if_splits)
    then have "\<exists>w'. ag_Verify (agent_service cfg) (bearerToken auth) w = (Inr i, w')"
      by (auto simp: AgentCredentialVerifier_Verify_def tryM_def retM_def raiseM_def split: prod.splits sum.splits if_splits)
    then show ?thesis using Verify_live by blast
  qed
qed

lemma demo_heartbeat:
  "case fst (cp_serve (control_handler demo_config) (PostHeartbeat ''a'' ''bearer cred_14'') demo_world) of Inl _ \<Rightarrow> False | Inr x \<Rightarrow> fst x = 200"
proof -
  have "case fst (ag_Heartbeat (agent_service demo_config) ''a'' ''cred_14'' demo_world) of Inl _ \<Rightarrow> False | Inr _ \<Rightarrow> True" by code_simp
  moreover have "cp_bearerToken ''bearer cred_14'' = ''cred_14''" by code_simp
  ultimately show ?thesis by (auto simp: control_handler_def h_agentHeartbeat_def respond_def tryM_def retM_def split: prod.split sum.splits)
qed

theorem agents_speak_with_live_credentials_witness:
  "(\<exists>body w'. cp_serve (control_handler demo_config) (PostHeartbeat ''a'' ''bearer cred_14'') demo_world = (Inr (200, body), w')) \<and>
   live_credential demo_config demo_world ''cred_14'' ''a''"
proof -
  have served: "\<exists>body w'. cp_serve (control_handler demo_config) (PostHeartbeat ''a'' ''bearer cred_14'') demo_world = (Inr (200, body), w')"
    using demo_heartbeat by (cases "cp_serve (control_handler demo_config) (PostHeartbeat ''a'' ''bearer cred_14'') demo_world") (auto split: sum.splits)
  have "bearerToken ''bearer cred_14'' = ''cred_14''" by code_simp
  then show ?thesis using agents_speak_with_live_credentials [OF disjI1 [OF served]] served by simp
qed

text \<open>A registration succeeds only with the bootstrap token when one is set, and then issues one new credential for the registered agent and no other: every
  other agent and credential is untouched, and a failed registration issues none.\<close>
theorem registration_issues_one_credential:
  assumes "reachable cfg w" and "cp_serve (control_handler cfg) (PostRegister request) w = (Inr (status, body), w')"
  shows "if status = 201 then
      (\<exists>req c. decode_body registerAgentRequest_decoder zero_registerAgentRequest request = Inr req \<and>
         cfg_bootstrapToken cfg \<in> {[], raq_BootstrapToken req} \<and> (raq_ID req = [] \<or> cred_AgentID c = raq_ID req) \<and>
         gomap_get (ams_credentials (w_agents w')) = (gomap_get (ams_credentials (w_agents w)))(cred_Token c \<mapsto> c) \<and>
         (\<exists>a. agent_ID a = cred_AgentID c \<and> gomap_get (ams_agents (w_agents w')) = (gomap_get (ams_agents (w_agents w)))(agent_ID a \<mapsto> a)))
    else gomap_get (ams_credentials (w_agents w')) = gomap_get (ams_credentials (w_agents w))"
proof -
  have refused: "(201, b) \<noteq> cp_writeAgentError e" for e b by (simp add: cp_writeAgentError_def invalid_input_def)
  show ?thesis
  proof (cases "decode_body registerAgentRequest_decoder zero_registerAgentRequest request")
    case (Inl e)
    then show ?thesis using assms(2) by (simp add: h_registerAgent_def decodeRequest_def retM_def)
  next
    case (Inr req)
    define inp where "inp = \<lparr>rgi_BootstrapToken = raq_BootstrapToken req, rgi_ID = raq_ID req, rgi_Service = raq_Service req,
      rgi_Environment = raq_Environment req, rgi_Zone = raq_Zone req, rgi_Instance = raq_Instance req, rgi_Labels = raq_Labels req\<rparr>"
    have spec: "wp (ag_Register (agent_service cfg) inp)
      (\<lambda>x w'. agent_ID (rgr_Agent x) = cred_AgentID (rgr_Credential x) \<and> (raq_ID req \<noteq> [] \<longrightarrow> agent_ID (rgr_Agent x) = raq_ID req) \<and>
         cfg_bootstrapToken cfg \<in> {[], raq_BootstrapToken req} \<and>
         gomap_get (ams_agents (w_agents w')) = (gomap_get (ams_agents (w_agents w)))(agent_ID (rgr_Agent x) \<mapsto> rgr_Agent x) \<and>
         gomap_get (ams_credentials (w_agents w')) = (gomap_get (ams_credentials (w_agents w)))(cred_Token (rgr_Credential x) \<mapsto> rgr_Credential x))
      (\<lambda>_ w'. gomap_get (ams_credentials (w_agents w')) = gomap_get (ams_credentials (w_agents w))) w"
      by (rule wp_mono [OF agents.Register_spec [OF reachable_parts(1) [OF assms(1)]]]) (auto simp: inp_def ab_ag_def ag_abs_def)
    obtain r w1 where reg: "ag_Register (agent_service cfg) inp w = (r, w1)" by fastforce
    have serve: "cp_serve (control_handler cfg) (PostRegister request) w =
        (Inr (case r of Inl err \<Rightarrow> cp_writeAgentError err | Inr x \<Rightarrow> (201, RegisterBody (registerAgentResponseFromDomain x))), w1)"
      using Inr reg unfolding inp_def by (simp add: h_registerAgent_def decodeRequest_def respond_def tryM_def retM_def split: sum.splits)
    show ?thesis
    proof (cases r)
      case (Inl e)
      then have "status \<noteq> 201" "w' = w1" using assms(2) serve refused by auto
      then show ?thesis using spec Inl reg by (simp add: wp_def)
    next
      case res: (Inr x)
      then have w': "status = 201" "w' = w1" using assms(2) serve by auto
      have "agent_ID (rgr_Agent x) = cred_AgentID (rgr_Credential x)" "raq_ID req = [] \<or> agent_ID (rgr_Agent x) = raq_ID req"
        "cfg_bootstrapToken cfg \<in> {[], raq_BootstrapToken req}"
        "gomap_get (ams_agents (w_agents w')) = (gomap_get (ams_agents (w_agents w)))(agent_ID (rgr_Agent x) \<mapsto> rgr_Agent x)"
        "gomap_get (ams_credentials (w_agents w')) = (gomap_get (ams_credentials (w_agents w)))(cred_Token (rgr_Credential x) \<mapsto> rgr_Credential x)"
        using spec res reg w' by (auto simp: wp_def)
      then show ?thesis using w' Inr by (auto intro!: exI [of _ "rgr_Credential x"] exI [of _ "rgr_Agent x"])
    qed
  qed
qed

end
