(* ===== verification/Path.thy ===== *)
theory Path
  imports Prelude
begin

section \<open>path/filepath\<close>

text \<open>\<open>filepath.Ext\<close> and \<open>filepath.Dir\<close> on Unix (\<open>Dir\<close> without the lexical cleaning of the directory, which names the same directory).\<close>

definition path_Ext :: "string \<Rightarrow> string" where
  "path_Ext p =
     (let last_elem = takeWhile (\<lambda>c. c \<noteq> CHR ''/'') (rev p); ext = takeWhile (\<lambda>c. c \<noteq> CHR ''.'') last_elem in
      if ext = last_elem then [] else CHR ''.'' # rev ext)"

definition path_Dir :: "string \<Rightarrow> string" where
  "path_Dir p =
     (let dir = rev (dropWhile (\<lambda>c. c \<noteq> CHR ''/'') (rev p)) in if dir = [] then ''.'' else dir)"

definition TrimSuffix :: "string \<Rightarrow> string \<Rightarrow> string" where
  "TrimSuffix s suf = (if drop (length s - length suf) s = suf then take (length s - length suf) s else s)"

lemma path_Ext_suffix: "\<exists>stem. p = stem @ path_Ext p"
proof -
  define last_elem where "last_elem = takeWhile (\<lambda>c. c \<noteq> CHR ''/'') (rev p)"
  define ext where "ext = takeWhile (\<lambda>c. c \<noteq> CHR ''.'') last_elem"
  show ?thesis
  proof (cases "ext = last_elem")
    case True
    then show ?thesis by (simp add: path_Ext_def Let_def last_elem_def ext_def)
  next
    case False
    then obtain c r where r: "dropWhile (\<lambda>c. c \<noteq> CHR ''.'') last_elem = c # r"
      using takeWhile_dropWhile_id [of "\<lambda>c. c \<noteq> CHR ''.''" last_elem] unfolding ext_def by (cases "dropWhile (\<lambda>c. c \<noteq> CHR ''.'') last_elem") auto
    then have "c = CHR ''.''" using hd_dropWhile [of "\<lambda>c. c \<noteq> CHR ''.''" last_elem] by simp
    with r have "last_elem = ext @ CHR ''.'' # r" using takeWhile_dropWhile_id [of "\<lambda>c. c \<noteq> CHR ''.''" last_elem] unfolding ext_def by simp
    moreover have "rev p = last_elem @ dropWhile (\<lambda>c. c \<noteq> CHR ''/'') (rev p)" by (simp add: last_elem_def)
    ultimately have "p = (rev (dropWhile (\<lambda>c. c \<noteq> CHR ''/'') (rev p)) @ rev r) @ CHR ''.'' # rev ext"
      by (metis append.assoc append_Cons rev.simps(2) rev_append rev_rev_ident append_Nil)
    moreover have "path_Ext p = CHR ''.'' # rev ext" using False unfolding path_Ext_def Let_def last_elem_def [symmetric] ext_def [symmetric] by simp
    ultimately show ?thesis by metis
  qed
qed

lemma TrimSuffix_append [simp]: "TrimSuffix (stem @ e) e = stem"
  by (simp add: TrimSuffix_def)

end
