(* ===== verification/Agent_Cache.thy ===== *)
theory Agent_Cache
  imports Data_Plane Json_Decode Path
begin

section \<open>The snapshot cache of an agent\<close>

text \<open>
  \<open>internal/agent/cache.go\<close>. The agent keeps the last snapshot in memory and on disk. The disk is a map from
  paths to contents (directories are not modelled), and every operation on it may fail: \<open>os_fault\<close> gives the error of the
  n-th operation, \<open>os_written\<close> how many bytes a failing write has written. A crash at operation k is a disk
  on which every operation from k on fails, since a failing operation other than a write changes nothing.

  \<open>nd_files\<close> is what the running system reads. What was written reaches the disk only with \<open>Sync\<close>: \<open>nd_unsynced\<close> are the
  paths of files with data that has not been synced. The mark goes with the file when it is renamed. After a loss of power such a file
  holds anything, or is gone (\<open>after_power_loss\<close>). Renames and removals are assumed to reach the disk in the order in which they were made, as on a
  journaling file system; how many of them have reached it is left open, since a crash is considered at every operation.
\<close>

record Os =
  os_fault :: "nat \<Rightarrow> error option"
  os_written :: "nat \<Rightarrow> nat"

record SnapshotCache =
  sc_path :: string
  sc_snapshot :: "Snapshot option"

record Node =
  nd_files :: "(string, bytes) gomap"
  nd_unsynced :: "string list"
  nd_ops :: nat
  nd_cache :: SnapshotCache

subsection \<open>Files\<close>

definition os_call :: "Os \<Rightarrow> (Node \<Rightarrow> (error + 'a) \<times> Node) \<Rightarrow> (Node, 'a) M" where
  "os_call os f w =
     (let w' = w\<lparr>nd_ops := nd_ops w + 1\<rparr> in
      case os_fault os (nd_ops w) of Some e \<Rightarrow> (Inl e, w') | None \<Rightarrow> f w')"

definition os_ErrNotExist :: error where
  "os_ErrNotExist = Foreign ''no such file or directory''"

definition os_ReadFile :: "Os \<Rightarrow> string \<Rightarrow> (Node, bytes) M" where
  "os_ReadFile os p = os_call os (\<lambda>w.
     case gomap_get (nd_files w) p of None \<Rightarrow> (Inl os_ErrNotExist, w) | Some d \<Rightarrow> (Inr d, w))"

definition os_MkdirAll :: "Os \<Rightarrow> string \<Rightarrow> (Node, unit) M" where
  "os_MkdirAll os p = os_call os (\<lambda>w. (Inr (), w))"

text \<open>\<open>OpenFile\<close> with \<open>O_CREATE|O_TRUNC|O_WRONLY\<close> leaves an empty file; the handle is its path.\<close>

definition os_CreateTrunc :: "Os \<Rightarrow> string \<Rightarrow> (Node, string) M" where
  "os_CreateTrunc os p = os_call os (\<lambda>w. (Inr p, w\<lparr>nd_files := gomap_set p [] (nd_files w), nd_unsynced := List.insert p (nd_unsynced w)\<rparr>))"

definition file_Write :: "Os \<Rightarrow> string \<Rightarrow> bytes \<Rightarrow> (Node, unit) M" where
  "file_Write os p data w =
     (let w' = w\<lparr>nd_ops := nd_ops w + 1, nd_unsynced := List.insert p (nd_unsynced w)\<rparr> in
      case os_fault os (nd_ops w) of
        Some e \<Rightarrow> (Inl e, w'\<lparr>nd_files := gomap_set p (take (os_written os (nd_ops w)) data) (nd_files w)\<rparr>)
      | None \<Rightarrow> (Inr (), w'\<lparr>nd_files := gomap_set p data (nd_files w)\<rparr>))"

definition file_Sync :: "Os \<Rightarrow> string \<Rightarrow> (Node, unit) M" where
  "file_Sync os p = os_call os (\<lambda>w. (Inr (), w\<lparr>nd_unsynced := removeAll p (nd_unsynced w)\<rparr>))"

definition file_Close :: "Os \<Rightarrow> string \<Rightarrow> (Node, unit) M" where
  "file_Close os p = os_call os (\<lambda>w. (Inr (), w))"

definition os_Remove :: "Os \<Rightarrow> string \<Rightarrow> (Node, unit) M" where
  "os_Remove os p = os_call os (\<lambda>w.
     case gomap_get (nd_files w) p of
       None \<Rightarrow> (Inl os_ErrNotExist, w)
     | Some d \<Rightarrow> (Inr (), w\<lparr>nd_files := gomap_delete p (nd_files w), nd_unsynced := removeAll p (nd_unsynced w)\<rparr>))"

definition os_Stat :: "Os \<Rightarrow> string \<Rightarrow> (Node, unit) M" where
  "os_Stat os p = os_call os (\<lambda>w.
     case gomap_get (nd_files w) p of None \<Rightarrow> (Inl os_ErrNotExist, w) | Some d \<Rightarrow> (Inr (), w))"

text \<open>The marks after the file at \<open>p\<close> has become the file at \<open>q\<close>.\<close>

definition rename_mark :: "string \<Rightarrow> string \<Rightarrow> string list \<Rightarrow> string list" where
  "rename_mark p q ps = (if p \<in> set ps then List.insert q (removeAll p ps) else removeAll q ps)"

definition os_Rename :: "Os \<Rightarrow> string \<Rightarrow> string \<Rightarrow> (Node, unit) M" where
  "os_Rename os p q = os_call os (\<lambda>w.
     case gomap_get (nd_files w) p of
       None \<Rightarrow> (Inl os_ErrNotExist, w)
     | Some d \<Rightarrow> (Inr (), w\<lparr>nd_files := gomap_set q d (gomap_delete p (nd_files w)), nd_unsynced := rename_mark p q (nd_unsynced w)\<rparr>))"

text \<open>\<open>_ = f()\<close>: the error is dropped.\<close>

definition ignoreM :: "('w, 'a) M \<Rightarrow> ('w, unit) M" where
  "ignoreM f = tryM f (\<lambda>_. retM ()) (\<lambda>_. retM ())"

subsection \<open>The paths of the cache\<close>

definition previousPath :: "string \<Rightarrow> string" where
  "previousPath path =
     (let extension = path_Ext path in
      if extension = [] then path @ ''.previous'' else TrimSuffix path extension @ ''.previous'' @ extension)"

lemma length_previousPath: "length (previousPath p) = length p + 9"
proof -
  obtain stem where stem: "p = stem @ path_Ext p" using path_Ext_suffix by blast
  have "TrimSuffix p (path_Ext p) = stem" by (subst stem) (rule TrimSuffix_append)
  moreover have "length p = length stem + length (path_Ext p)" using arg_cong [OF stem, of length] by simp
  ultimately show ?thesis by (simp add: previousPath_def Let_def)
qed

text \<open>The path, the temporary file and the previous file are three different files.\<close>

lemma cache_paths_distinct [simp]:
  "previousPath p \<noteq> p" "p \<noteq> previousPath p" "previousPath p \<noteq> p @ ''.tmp''" "p @ ''.tmp'' \<noteq> previousPath p" "p @ ''.tmp'' \<noteq> p" "p \<noteq> p @ ''.tmp''"
  using length_previousPath [of p] by (auto dest: arg_cong [where f = length])

subsection \<open>cache.go\<close>

definition NewSnapshotCache :: "string \<Rightarrow> SnapshotCache" where
  "NewSnapshotCache path = \<lparr>sc_path = path, sc_snapshot = None\<rparr>"

text \<open>The snapshot as \<open>json.Unmarshal\<close> fills it.\<close>

definition Assignment_decoder :: "Assignment decoder" where
  "Assignment_decoder = dec_struct False
     [(''rolloutId'', dec_field asg_RolloutID asg_RolloutID_update dec_string),
      (''stageId'', dec_field asg_StageID asg_StageID_update dec_string)]"

definition zero_item :: SnapshotItem where
  "zero_item = \<lparr>si_ConfigDefinitionID = [], si_Key = [], si_VersionID = [], si_Version = 0, si_Value = [], si_Checksum = [],
     si_Assignment = \<lparr>asg_RolloutID = [], asg_StageID = []\<rparr>\<rparr>"

definition zero_snapshot :: Snapshot where
  "zero_snapshot = \<lparr>snap_Revision = 0, snap_GeneratedAt = 0, snap_Configs = []\<rparr>"

definition SnapshotItem_decoder :: "SnapshotItem decoder" where
  "SnapshotItem_decoder = dec_struct False
     [(''configDefinitionId'', dec_field si_ConfigDefinitionID si_ConfigDefinitionID_update dec_string),
      (''key'', dec_field si_Key si_Key_update dec_string),
      (''versionId'', dec_field si_VersionID si_VersionID_update dec_string),
      (''version'', dec_field si_Version si_Version_update dec_int64),
      (''value'', dec_field si_Value si_Value_update dec_raw),
      (''checksum'', dec_field si_Checksum si_Checksum_update dec_string),
      (''assignment'', dec_field si_Assignment si_Assignment_update Assignment_decoder)]"

definition Snapshot_decoder :: "Snapshot decoder" where
  "Snapshot_decoder = dec_struct False
     [(''revision'', dec_field snap_Revision snap_Revision_update dec_int64),
      (''generatedAt'', dec_field snap_GeneratedAt snap_GeneratedAt_update dec_time),
      (''configs'', dec_field snap_Configs snap_Configs_update (dec_slice zero_item SnapshotItem_decoder))]"

definition Snapshot_MarshalIndent :: "Snapshot \<Rightarrow> error + bytes" where
  "Snapshot_MarshalIndent s = (case Snapshot_Marshal s of Inl e \<Rightarrow> Inl e | Inr b \<Rightarrow> Inr (json_indent b))"

fun checksum_loop :: "SnapshotItem list \<Rightarrow> error option" where
  "checksum_loop [] = None"
| "checksum_loop (item # items) =
     (if si_Checksum item \<noteq> Checksum (si_Value item) then Some (Errorf ''%w: %s'' [FW (Sentinel agent_ErrBadChecksum), FS (si_Key item)])
      else checksum_loop items)"

definition ValidateSnapshot :: "Snapshot \<Rightarrow> error option" where
  "ValidateSnapshot snapshot =
     (if snap_Revision snapshot < 1 then Some (Errorf ''%w: revision must be positive'' [FW (Sentinel agent_ErrNoSnapshot)])
      else checksum_loop (snap_Configs snapshot))"

definition set_snapshot :: "Snapshot \<Rightarrow> Node \<Rightarrow> unit \<times> Node" where
  "set_snapshot snapshot w = ((), w\<lparr>nd_cache := (nd_cache w)\<lparr>sc_snapshot := Some (CloneSnapshot snapshot)\<rparr>\<rparr>)"

definition cache_path :: "(Node, string) M" where
  "cache_path = effM (\<lambda>w. (sc_path (nd_cache w), w))"

definition Load :: "Os \<Rightarrow> error option \<Rightarrow> (Node, unit) M" where
  "Load os ctx =
     bindM (checkM ctx) (\<lambda>_.
     bindM cache_path (\<lambda>path.
     bindM (os_ReadFile os path) (\<lambda>data.
     bindM (liftE (json_Unmarshal Snapshot_decoder zero_snapshot data)) (\<lambda>snapshot.
     bindM (checkM (ValidateSnapshot snapshot)) (\<lambda>_.
     effM (set_snapshot snapshot))))))"

text \<open>The three file operations of \<open>Save\<close>: fill the temporary file, move the old file away, move the new one in place.\<close>

definition write_tmp :: "Os \<Rightarrow> string \<Rightarrow> bytes \<Rightarrow> (Node, unit) M" where
  "write_tmp os tmp data =
     bindM (os_CreateTrunc os tmp) (\<lambda>file.
     bindM (tryM (file_Write os file data) (\<lambda>err. bindM (ignoreM (file_Close os file)) (\<lambda>_. raiseM err)) retM) (\<lambda>_.
     bindM (tryM (file_Sync os file) (\<lambda>err. bindM (ignoreM (file_Close os file)) (\<lambda>_. raiseM err)) retM) (\<lambda>_.
     file_Close os file)))"

definition keep_previous :: "Os \<Rightarrow> string \<Rightarrow> string \<Rightarrow> (Node, unit) M" where
  "keep_previous os path previous =
     bindM (ignoreM (os_Remove os previous)) (\<lambda>_.
     tryM (os_Stat os path) (\<lambda>_. retM ()) (\<lambda>_. os_Rename os path previous))"

definition put_in_place :: "Os \<Rightarrow> string \<Rightarrow> string \<Rightarrow> string \<Rightarrow> (Node, unit) M" where
  "put_in_place os tmp path previous =
     tryM (os_Rename os tmp path) (\<lambda>err. bindM (ignoreM (os_Rename os previous path)) (\<lambda>_. raiseM err)) retM"

definition Save :: "Os \<Rightarrow> error option \<Rightarrow> Snapshot \<Rightarrow> (Node, unit) M" where
  "Save os ctx snapshot =
     bindM (checkM ctx) (\<lambda>_.
     bindM (checkM (ValidateSnapshot snapshot)) (\<lambda>_.
     bindM (liftE (Snapshot_MarshalIndent snapshot)) (\<lambda>data.
     bindM cache_path (\<lambda>path.
     bindM (os_MkdirAll os (path_Dir path)) (\<lambda>_.
     let tmp = path @ ''.tmp''; previous = previousPath path in
     bindM (write_tmp os tmp data) (\<lambda>_.
     bindM (keep_previous os path previous) (\<lambda>_.
     bindM (put_in_place os tmp path previous) (\<lambda>_.
     effM (set_snapshot snapshot)))))))))"

definition cache_Snapshot :: "(Node, Snapshot) M" where
  "cache_Snapshot w =
     (case sc_snapshot (nd_cache w) of
        None \<Rightarrow> (Inl (Sentinel agent_ErrNoSnapshot), w)
      | Some snapshot \<Rightarrow> (Inr (CloneSnapshot snapshot), w))"

fun find_item :: "string \<Rightarrow> SnapshotItem list \<Rightarrow> SnapshotItem option" where
  "find_item key [] = None"
| "find_item key (item # items) = (if si_Key item = key then Some item else find_item key items)"

definition cache_Config :: "string \<Rightarrow> (Node, SnapshotItem) M" where
  "cache_Config key =
     bindM cache_Snapshot (\<lambda>snapshot.
     case find_item key (snap_Configs snapshot) of
       Some item \<Rightarrow> retM item
     | None \<Rightarrow> raiseM (Errorf ''%w: %s'' [FW (Sentinel agent_ErrConfigNotFound), FS key]))"

definition cache_Check :: "(Node, unit) M" where
  "cache_Check = bindM cache_Snapshot (\<lambda>_. retM ())"

section \<open>What a save leaves behind\<close>

lemma wp_os_call [wp_simps]:
  "wp (os_call os f) Q E w =
     (case os_fault os (nd_ops w) of
        Some e \<Rightarrow> E e (w\<lparr>nd_ops := nd_ops w + 1\<rparr>) | None \<Rightarrow> wp f Q E (w\<lparr>nd_ops := nd_ops w + 1\<rparr>))"
  by (simp add: wp_def os_call_def Let_def split: option.splits)

lemma wp_run: "wp (\<lambda>w. (case c w of None \<Rightarrow> (Inl e, f w) | Some d \<Rightarrow> (Inr (a d), g d w))) Q E w =
    (case c w of None \<Rightarrow> E e (f w) | Some d \<Rightarrow> Q (a d) (g d w))"
  "wp (\<lambda>w. (Inr (b w), h w)) Q E w = Q (b w) (h w)"
  by (simp_all add: wp_def split: option.splits)

lemma wp_ignore [wp_simps]: "wp (ignoreM f) Q E w = wp f (\<lambda>_. Q ()) (\<lambda>_. Q ()) w"
  by (simp add: ignoreM_def wp_simps)

lemma wp_file_Write [wp_simps]:
  "wp (file_Write os p data) Q E w =
     (case os_fault os (nd_ops w) of
        Some e \<Rightarrow> E e (w\<lparr>nd_ops := nd_ops w + 1, nd_unsynced := List.insert p (nd_unsynced w),
          nd_files := gomap_set p (take (os_written os (nd_ops w)) data) (nd_files w)\<rparr>)
      | None \<Rightarrow> Q () (w\<lparr>nd_ops := nd_ops w + 1, nd_unsynced := List.insert p (nd_unsynced w), nd_files := gomap_set p data (nd_files w)\<rparr>))"
  by (simp add: wp_def file_Write_def Let_def split: option.splits)

text \<open>\<open>file_at w p\<close> is what a reader finds at \<open>p\<close>, \<open>content w p\<close> this and whether some of it has not been synced;
  only the files of \<open>ps\<close> may differ, and the memory does not.\<close>

definition file_at :: "Node \<Rightarrow> string \<Rightarrow> bytes option" where
  "file_at w p = gomap_get (nd_files w) p"

definition content :: "Node \<Rightarrow> string \<Rightarrow> bytes option \<times> bool" where
  "content w p = (file_at w p, p \<in> set (nd_unsynced w))"

definition only_files :: "string set \<Rightarrow> Node \<Rightarrow> Node \<Rightarrow> bool" where
  "only_files ps w w' \<longleftrightarrow> (\<forall>q. q \<notin> ps \<longrightarrow> content w' q = content w q) \<and> nd_cache w' = nd_cache w \<and> nd_ops w \<le> nd_ops w'"

text \<open>What a machine finds on its disk after its power was lost: of a file that was not synced, \<open>lost\<close>.\<close>

definition after_power_loss :: "(string \<Rightarrow> bytes option) \<Rightarrow> Node \<Rightarrow> string \<Rightarrow> bytes option" where
  "after_power_loss lost w p = (if p \<in> set (nd_unsynced w) then lost p else file_at w p)"

lemma write_tmp_spec:
  "wp (write_tmp os tmp data) (\<lambda>_ w'. only_files {tmp} w w' \<and> content w' tmp = (Some data, False)) (\<lambda>_ w'. only_files {tmp} w w') w"
  unfolding write_tmp_def os_CreateTrunc_def file_Sync_def file_Close_def
  by (auto simp: wp_simps wp_run only_files_def content_def file_at_def split: option.splits)

lemma keep_previous_spec:
  assumes "path \<noteq> previous"
  shows "wp (keep_previous os path previous)
    (\<lambda>_ w'. only_files {path, previous} w w' \<and>
       (content w' path = content w path \<and> file_at w' previous \<in> {None, file_at w previous} \<or>
        content w' path = (None, False) \<and> content w' previous = content w path))
    (\<lambda>_ w'. only_files {path, previous} w w' \<and> content w' path = content w path) w"
  unfolding keep_previous_def os_Remove_def os_Stat_def os_Rename_def
  using assms by (auto simp: wp_simps wp_run only_files_def content_def file_at_def rename_mark_def split: option.splits)

lemma put_in_place_spec:
  assumes "content w tmp = (Some data, False)" and "tmp \<noteq> path" and "path \<noteq> previous" and "tmp \<noteq> previous"
  shows "wp (put_in_place os tmp path previous)
    (\<lambda>_ w'. only_files {tmp, path, previous} w w' \<and> content w' path = (Some data, False))
    (\<lambda>_ w'. only_files {tmp, path, previous} w w' \<and> os_fault os (nd_ops w) \<noteq> None \<and>
       (content w' path = content w path \<and> content w' previous = content w previous \<or>
        file_at w' path = file_at w previous \<and> file_at w previous \<noteq> None \<and> os_fault os (nd_ops w + 1) = None)) w"
  unfolding put_in_place_def os_Rename_def
  using assms by (auto simp: wp_simps wp_run only_files_def content_def file_at_def rename_mark_def split: option.splits)

text \<open>
  The outcome of a save that fails after it has begun to touch files: the file at the path is as before, or it has been moved away, or it has been
  replaced by the previous file. The last case needs an operation that succeeds after one that failed.
\<close>

definition save_failed :: "Os \<Rightarrow> string \<Rightarrow> Node \<Rightarrow> Node \<Rightarrow> bool" where
  "save_failed os path w w' \<longleftrightarrow> nd_cache w' = nd_cache w \<and>
     (content w' path = content w path \<or>
      content w' path = (None, False) \<and> content w' (previousPath path) = content w path \<or>
      file_at w' path \<in> {file_at w path, file_at w (previousPath path)} \<and> file_at w' path \<noteq> None \<and>
        (\<exists>m. os_fault os m \<noteq> None \<and> os_fault os (Suc m) = None))"

lemma same_content: "content w' p = content w q \<Longrightarrow> file_at w' p = file_at w q"
  by (simp add: content_def)

lemma save_files_spec:
  fixes path defines "tmp \<equiv> path @ ''.tmp''" and "previous \<equiv> previousPath path"
  shows "wp (bindM (write_tmp os tmp data) (\<lambda>_. bindM (keep_previous os path previous) (\<lambda>_. put_in_place os tmp path previous)))
    (\<lambda>_ w'. nd_cache w' = nd_cache w \<and> content w' path = (Some data, False)) (\<lambda>_ w'. save_failed os path w w') w"
  unfolding wp_bind
proof (rule wp_mono [OF write_tmp_spec], goal_cases)
  case (1 x w1)
  then have w1: "content w1 path = content w path" "content w1 previous = content w previous" "content w1 tmp = (Some data, False)" "nd_cache w1 = nd_cache w"
    by (auto simp: only_files_def tmp_def previous_def)
  show ?case
  proof (rule wp_mono [OF keep_previous_spec], goal_cases)
    case (2 y w2)
    then have w2: "content w2 tmp = (Some data, False)" "nd_cache w2 = nd_cache w" using w1 by (auto simp: only_files_def tmp_def previous_def)
    have before: "file_at w1 path = file_at w path" "file_at w1 previous = file_at w previous" using w1(1,2) by (simp_all add: content_def)
    have moved: "content w2 path = content w path \<or> content w2 path = (None, False) \<and> content w2 previous = content w path"
      using 2 w1 by auto
    have kept: "file_at w2 previous \<in> {None, file_at w path, file_at w previous}"
      using 2 before same_content [of w2 previous w1 path] by auto
    show ?case
    proof (rule wp_mono [OF put_in_place_spec [OF w2(1)]], goal_cases)
      case (4 z w3)
      then show ?case using w2(2) by (simp add: only_files_def)
    next
      case (5 e w3)
      then have "nd_cache w3 = nd_cache w" using w2(2) by (simp add: only_files_def)
      moreover from 5 consider "content w3 path = content w2 path" "content w3 previous = content w2 previous"
        | "file_at w3 path = file_at w2 previous" "file_at w2 previous \<noteq> None" "\<exists>m. os_fault os m \<noteq> None \<and> os_fault os (Suc m) = None" by auto
      then have "content w3 path = content w path \<or> content w3 path = (None, False) \<and> content w3 previous = content w path \<or>
          file_at w3 path \<in> {file_at w path, file_at w previous} \<and> file_at w3 path \<noteq> None \<and> (\<exists>m. os_fault os m \<noteq> None \<and> os_fault os (Suc m) = None)"
        by cases (use moved kept in auto)
      ultimately show ?case by (simp add: save_failed_def previous_def)
    qed (simp_all add: tmp_def previous_def)
  next
    case (3 e w2)
    then show ?case using w1 by (auto simp: save_failed_def only_files_def)
  qed (simp add: previous_def)
next
  case (2 e w1)
  then show ?case by (auto simp: save_failed_def only_files_def tmp_def)
qed

lemma Save_spec:
  "wp (Save os ctx snapshot)
    (\<lambda>_ w'. ctx = None \<and> ValidateSnapshot snapshot = None \<and> nd_cache w' = (nd_cache w)\<lparr>sc_snapshot := Some snapshot\<rparr> \<and>
       (\<exists>data. Snapshot_MarshalIndent snapshot = Inr data \<and> content w' (sc_path (nd_cache w)) = (Some data, False)))
    (\<lambda>_ w'. save_failed os (sc_path (nd_cache w)) w w') w"
proof -
  let ?path = "sc_path (nd_cache w)"
  define files where "files data = bindM (write_tmp os (?path @ ''.tmp'') data) (\<lambda>_. bindM (keep_previous os ?path (previousPath ?path)) (\<lambda>_.
      bindM (put_in_place os (?path @ ''.tmp'') ?path (previousPath ?path)) (\<lambda>_. effM (set_snapshot snapshot))))" for data
  have move: "wp (files data)
    (\<lambda>_ w'. nd_cache w' = (nd_cache w)\<lparr>sc_snapshot := Some snapshot\<rparr> \<and> content w' ?path = (Some data, False))
    (\<lambda>_ w'. save_failed os ?path w w') (w\<lparr>nd_ops := n\<rparr>)" for data n
  proof -
    have "save_failed os ?path (w\<lparr>nd_ops := n\<rparr>) w' = save_failed os ?path w w'" for w' by (simp add: save_failed_def content_def file_at_def)
    then show ?thesis using save_files_spec [of os ?path data "w\<lparr>nd_ops := n\<rparr>"] unfolding files_def
      by (auto simp: wp_simps set_snapshot_def content_def file_at_def elim!: wp_mono)
  qed
  have here: "save_failed os ?path w (w\<lparr>nd_ops := n\<rparr>)" "save_failed os ?path w w" for n by (simp_all add: save_failed_def content_def file_at_def)
  show ?thesis
    unfolding Save_def cache_path_def os_MkdirAll_def Let_def
    using move [of _ "Suc (nd_ops w)"]
    by (auto simp: wp_simps wp_run here files_def split: option.splits sum.splits elim!: wp_mono)
qed

text \<open>C17 (safety). Power may fail at any file operation of \<open>Save\<close>, and with it everything that was written and not synced: if the cache file was synced
  and held \<open>old\<close> before, then whatever the unsynced files turn into, the disk holds \<open>old\<close> or the complete new snapshot at the path, never a part of it; or
  nothing, between the two renames, and \<open>old\<close> in the previous file. The file at the path is synced again, so the next \<open>Save\<close> is as safe.\<close>
theorem save_survives_a_crash:
  assumes "\<forall>n. (os_fault os n = None) = (n < k)" and "file_at w (sc_path (nd_cache w)) = Some old"
    and "sc_path (nd_cache w) \<notin> set (nd_unsynced w)"
  shows "let w' = snd (Save os ctx snapshot w); path = sc_path (nd_cache w); disk = after_power_loss lost w' in
    path \<notin> set (nd_unsynced w') \<and>
    (disk path = Some old \<or>
     (\<exists>data. Snapshot_MarshalIndent snapshot = Inr data \<and> disk path = Some data) \<or>
     disk path = None \<and> disk (previousPath path) = Some old)"
proof -
  let ?path = "sc_path (nd_cache w)"
  have old: "content w ?path = (Some old, False)" using assms(2,3) by (simp add: content_def)
  have no_recovery: "\<not> (\<exists>m. os_fault os m \<noteq> None \<and> os_fault os (Suc m) = None)"
  proof
    assume "\<exists>m. os_fault os m \<noteq> None \<and> os_fault os (Suc m) = None"
    then obtain m where "os_fault os m \<noteq> None" "os_fault os (Suc m) = None" by blast
    then show False using assms(1) by (metis Suc_lessD)
  qed
  have "wp (Save os ctx snapshot) (\<lambda>_ w'. \<exists>data. Snapshot_MarshalIndent snapshot = Inr data \<and> content w' ?path = (Some data, False))
      (\<lambda>_ w'. content w' ?path = (Some old, False) \<or> content w' ?path = (None, False) \<and> content w' (previousPath ?path) = (Some old, False)) w"
    by (rule wp_mono [OF Save_spec [of os ctx snapshot w]], blast) (use old no_recovery in \<open>unfold save_failed_def, metis\<close>)
  then show ?thesis by (auto simp: wp_def Let_def content_def after_power_loss_def split: prod.splits sum.splits)
qed

definition demo_node :: Node where
  "demo_node = \<lparr>nd_files = [(''c.json'', ''old'')], nd_unsynced = [], nd_ops = 0, nd_cache = NewSnapshotCache ''c.json''\<rparr>"

definition demo_empty_snapshot :: Snapshot where
  "demo_empty_snapshot = \<lparr>snap_Revision = 1, snap_GeneratedAt = 0, snap_Configs = []\<rparr>"

definition crash_at :: "nat \<Rightarrow> Os" where
  "crash_at k = \<lparr>os_fault = (\<lambda>n. if n < k then None else Some (Foreign ''crash'')), os_written = (\<lambda>_. 3)\<rparr>"

definition lost_all :: "string \<Rightarrow> bytes option" where
  "lost_all p = None"

lemma demo_crash: "after_power_loss lost (snd (Save (crash_at 8) None demo_empty_snapshot demo_node)) ''c.json'' = None"
proof -
  have "content (snd (Save (crash_at 8) None demo_empty_snapshot demo_node)) ''c.json'' = (None, False)" by code_simp
  then show ?thesis by (simp add: after_power_loss_def content_def)
qed

text \<open>The power fails between the two renames.\<close>

theorem save_survives_a_crash_witness:
  "after_power_loss lost_all (snd (Save (crash_at 8) None demo_empty_snapshot demo_node)) ''c.json'' = None \<and>
   after_power_loss lost_all (snd (Save (crash_at 8) None demo_empty_snapshot demo_node)) (previousPath ''c.json'') = Some ''old''"
proof -
  have "sc_path (nd_cache demo_node) = ''c.json''" "file_at demo_node ''c.json'' = Some ''old''" "nd_unsynced demo_node = []" by code_simp+
  then show ?thesis
    using save_survives_a_crash [of "crash_at 8" 8 demo_node "''old''" None demo_empty_snapshot lost_all] demo_crash [of lost_all]
    by (simp add: crash_at_def Let_def)
qed

text \<open>A save that fails, for whatever reason and wherever the disk fails, leaves the snapshot in memory as it was, and the file at the path
  untouched, missing or restored from the previous file; a save that succeeds has put the validated snapshot in memory and its encoding on disk.\<close>
theorem save_outcome:
  "case Save os ctx snapshot w of (r, w') \<Rightarrow>
     (case r of
        Inl _ \<Rightarrow> nd_cache w' = nd_cache w \<and>
          file_at w' (sc_path (nd_cache w)) \<in> {None, file_at w (sc_path (nd_cache w)), file_at w (previousPath (sc_path (nd_cache w)))}
      | Inr _ \<Rightarrow> nd_cache w' = (nd_cache w)\<lparr>sc_snapshot := Some snapshot\<rparr> \<and> ValidateSnapshot snapshot = None \<and>
          (\<exists>data. Snapshot_MarshalIndent snapshot = Inr data \<and> file_at w' (sc_path (nd_cache w)) = Some data))"
proof -
  have "wp (Save os ctx snapshot)
    (\<lambda>_ w'. nd_cache w' = (nd_cache w)\<lparr>sc_snapshot := Some snapshot\<rparr> \<and> ValidateSnapshot snapshot = None \<and>
       (\<exists>data. Snapshot_MarshalIndent snapshot = Inr data \<and> file_at w' (sc_path (nd_cache w)) = Some data))
    (\<lambda>_ w'. nd_cache w' = nd_cache w \<and>
       file_at w' (sc_path (nd_cache w)) \<in> {None, file_at w (sc_path (nd_cache w)), file_at w (previousPath (sc_path (nd_cache w)))}) w"
    by (rule wp_mono [OF Save_spec [of os ctx snapshot w]]) (auto simp: save_failed_def content_def)
  then show ?thesis by (auto simp: wp_def split: prod.splits sum.splits)
qed

lemma Load_spec:
  "wp (Load os ctx)
    (\<lambda>_ w'. \<exists>snapshot. nd_cache w' = (nd_cache w)\<lparr>sc_snapshot := Some snapshot\<rparr> \<and> ValidateSnapshot snapshot = None \<and> nd_files w' = nd_files w)
    (\<lambda>_ w'. nd_cache w' = nd_cache w \<and> nd_files w' = nd_files w) w"
  unfolding Load_def cache_path_def os_ReadFile_def
  by (auto simp: wp_simps wp_run set_snapshot_def split: option.splits sum.splits)

text \<open>What is in memory has passed the validation.\<close>

definition cache_valid :: "Node \<Rightarrow> bool" where
  "cache_valid w \<longleftrightarrow> (case sc_snapshot (nd_cache w) of None \<Rightarrow> True | Some s \<Rightarrow> ValidateSnapshot s = None)"

lemma Save_cache_valid: "cache_valid w \<Longrightarrow> cache_valid (snd (Save os ctx snapshot w))"
  by (rule wp_invariantD, rule wp_mono [OF Save_spec]) (auto simp: cache_valid_def save_failed_def)

lemma Load_cache_valid: "cache_valid w \<Longrightarrow> cache_valid (snd (Load os ctx w))"
  by (rule wp_invariantD, rule wp_mono [OF Load_spec]) (auto simp: cache_valid_def)

lemma checksum_loop_None: "checksum_loop items = None \<longleftrightarrow> (\<forall>item \<in> set items. si_Checksum item = Checksum (si_Value item))"
  by (induction items) auto

lemma ValidateSnapshot_None:
  "ValidateSnapshot s = None \<longleftrightarrow> 1 \<le> snap_Revision s \<and> (\<forall>item \<in> set (snap_Configs s). si_Checksum item = Checksum (si_Value item))"
  by (auto simp: ValidateSnapshot_def checksum_loop_None)

lemma find_item_Some: "find_item key items = Some item \<Longrightarrow> item \<in> set items \<and> si_Key item = key"
  by (induction items) (auto split: if_splits)

end
