(* ===== verification/Agent_Sync.thy ===== *)
theory Agent_Sync
  imports Agent_Cache Http
begin

section \<open>The clients and the synchronisation loop of an agent\<close>

text \<open>
  \<open>internal/agent/client.go\<close>, \<open>syncer.go\<close> and \<open>handler.go\<close>, over the network of \<open>Http\<close>.
\<close>

text \<open>The error for an unexpected status carries the status and the start of the body.\<close>

definition status_error :: "string \<Rightarrow> HttpResponse \<Rightarrow> error" where
  "status_error format resp =
     (case read_limited 512 (hresp_Body resp) of
        Inl e \<Rightarrow> e
      | Inr body \<Rightarrow> Errorf format [FD (hresp_StatusCode resp), FS body])"

subsection \<open>client.go\<close>

record SnapshotClient =
  scl_BaseURL :: string
  scl_AgentID :: string
  scl_Token :: string

record FetchResult =
  fr_Snapshot :: Snapshot
  fr_ETag :: string
  fr_Changed :: bool

definition fetch_request :: "SnapshotClient \<Rightarrow> string \<Rightarrow> HttpRequest" where
  "fetch_request c etag =
     (let url = TrimRight_slash (scl_BaseURL c) @ ''/v1/agents/'' @ scl_AgentID c @ ''/snapshot'';
          header = gomap_set ''Authorization'' (''Bearer '' @ scl_Token c) []
      in \<lparr>hreq_Method = ''GET'', hreq_URL = url,
          hreq_Header = (if etag \<noteq> [] then gomap_set ''If-None-Match'' etag header else header), hreq_Body = []\<rparr>)"

definition Fetch :: "'n HttpClient \<Rightarrow> SnapshotClient \<Rightarrow> string \<Rightarrow> ('n, FetchResult) M" where
  "Fetch client c etag =
     (let req = fetch_request c etag in
      bindM (checkM (hc_NewRequest client (hreq_URL req))) (\<lambda>_.
      bindM (hc_Do client req) (\<lambda>resp.
      if hresp_StatusCode resp = 304 then
        retM \<lparr>fr_Snapshot = zero_snapshot, fr_ETag = etag, fr_Changed = False\<rparr>
      else if hresp_StatusCode resp \<noteq> 200 then
        raiseM (status_error ''snapshot request failed: status=%d body=%s'' resp)
      else
        bindM (liftE (decode_body Snapshot_decoder zero_snapshot (hresp_Body resp))) (\<lambda>snapshot.
        retM \<lparr>fr_Snapshot = snapshot, fr_ETag = hresp_ETag resp, fr_Changed = True\<rparr>))))"

record agent_RegisterInput =
  ari_BootstrapToken :: string
  ari_ID :: string
  ari_Service :: string
  ari_Environment :: string
  ari_Zone :: string
  ari_Instance :: string
  ari_Labels :: "(string, string) gomap"

record agent_RegisterResult =
  arr_AgentID :: string
  arr_InstanceCredential :: string

text \<open>A map of strings is written with its keys sorted.\<close>

definition json_string_map :: "(string, string) gomap \<Rightarrow> string" where
  "json_string_map m = json_object (map (\<lambda>(k, v). json_field k (json_string v)) (sort_key fst m))"

definition omitempty :: "string \<Rightarrow> string \<Rightarrow> string list" where
  "omitempty name v = (if v = [] then [] else [json_field name (json_string v)])"

definition RegisterInput_Marshal :: "agent_RegisterInput \<Rightarrow> bytes" where
  "RegisterInput_Marshal input = json_object
     ([json_field ''bootstrap_token'' (json_string (ari_BootstrapToken input))] @ omitempty ''id'' (ari_ID input) @
      [json_field ''service'' (json_string (ari_Service input)), json_field ''environment'' (json_string (ari_Environment input))] @
      omitempty ''zone'' (ari_Zone input) @ [json_field ''instance'' (json_string (ari_Instance input))] @
      (if ari_Labels input = [] then [] else [json_field ''labels'' (json_string_map (ari_Labels input))]))"

text \<open>The response: the identifier of the nested agent and the credential; other members are ignored.\<close>

definition registerResponse_decoder :: "agent_RegisterResult decoder" where
  "registerResponse_decoder = dec_struct False
     [(''agent'', dec_struct False [(''id'', dec_field arr_AgentID arr_AgentID_update dec_string)]),
      (''instance_credential'', dec_field arr_InstanceCredential arr_InstanceCredential_update dec_string)]"

definition client_Register :: "'n HttpClient \<Rightarrow> string \<Rightarrow> agent_RegisterInput \<Rightarrow> ('n, agent_RegisterResult) M" where
  "client_Register client baseURL input =
     (let req = \<lparr>hreq_Method = ''POST'', hreq_URL = TrimRight_slash baseURL @ ''/v1/agents/register'',
                 hreq_Header = [(''Content-Type'', ''application/json'')], hreq_Body = RegisterInput_Marshal input\<rparr> in
      bindM (checkM (hc_NewRequest client (hreq_URL req))) (\<lambda>_.
      bindM (hc_Do client req) (\<lambda>resp.
      if hresp_StatusCode resp \<noteq> 201 then raiseM (status_error ''agent registration failed: status=%d body=%s'' resp)
      else liftE (decode_body registerResponse_decoder \<lparr>arr_AgentID = [], arr_InstanceCredential = []\<rparr> (hresp_Body resp)))))"

type_synonym 'n Acknowledger = "string \<Rightarrow> string \<Rightarrow> SnapshotItem \<Rightarrow> int \<Rightarrow> ('n, unit) M"

text \<open>The payload is a map, so its members are sorted by name.\<close>

definition ack_payload :: "SnapshotItem \<Rightarrow> int \<Rightarrow> bytes" where
  "ack_payload item revision =
     (let asg = si_Assignment item; assigned = asg_RolloutID asg \<noteq> [] \<and> asg_StageID asg \<noteq> [] in
      json_object
       ([json_field ''config_definition_id'' (json_string (si_ConfigDefinitionID item))] @
        (if assigned then [json_field ''rollout_id'' (json_string (asg_RolloutID asg))] else []) @
        [json_field ''snapshot_revision'' (show_int revision)] @
        (if assigned then [json_field ''stage_id'' (json_string (asg_StageID asg))] else []) @
        [json_field ''version_id'' (json_string (si_VersionID item))]))"

definition ControlPlaneAcknowledger_Acknowledge :: "'n HttpClient \<Rightarrow> string \<Rightarrow> 'n Acknowledger" where
  "ControlPlaneAcknowledger_Acknowledge client baseURL agentID token item revision =
     (let req = \<lparr>hreq_Method = ''POST'', hreq_URL = TrimRight_slash baseURL @ ''/v1/agents/'' @ agentID @ ''/acknowledgements'',
                 hreq_Header = [(''Authorization'', ''Bearer '' @ token), (''Content-Type'', ''application/json'')],
                 hreq_Body = ack_payload item revision\<rparr> in
      bindM (checkM (hc_NewRequest client (hreq_URL req))) (\<lambda>_.
      bindM (hc_Do client req) (\<lambda>resp.
      if hresp_StatusCode resp \<noteq> 201 then raiseM (status_error ''acknowledgement failed: status=%d body=%s'' resp)
      else retM ())))"

subsection \<open>syncer.go\<close>

record 'n Syncer =
  sy_Client :: SnapshotClient
  sy_Http :: "'n HttpClient"
  sy_Acknowledger :: "'n Acknowledger option"
  sy_PollInterval :: int

text \<open>The state of a running agent: its node, the last entity tag and the network.\<close>

record 'n SyncState =
  ss_node :: Node
  ss_etag :: string
  ss_net :: 'n

definition on_node :: "(Node, 'a) M \<Rightarrow> ('n SyncState, 'a) M" where
  "on_node f w = (case f (ss_node w) of (r, n) \<Rightarrow> (r, w\<lparr>ss_node := n\<rparr>))"

definition on_net :: "('n, 'a) M \<Rightarrow> ('n SyncState, 'a) M" where
  "on_net f w = (case f (ss_net w) of (r, n) \<Rightarrow> (r, w\<lparr>ss_net := n\<rparr>))"

definition get_etag :: "('n SyncState, string) M" where
  "get_etag = effM (\<lambda>w. (ss_etag w, w))"

definition set_etag :: "string \<Rightarrow> ('n SyncState, unit) M" where
  "set_etag etag = effM (\<lambda>w. ((), w\<lparr>ss_etag := etag\<rparr>))"

fun acknowledge_loop :: "(SnapshotItem \<Rightarrow> ('n, unit) M) \<Rightarrow> SnapshotItem list \<Rightarrow> ('n, unit) M" where
  "acknowledge_loop ack [] = retM ()"
| "acknowledge_loop ack (item # items) = bindM (ack item) (\<lambda>_. acknowledge_loop ack items)"

definition acknowledge_items :: "'n Syncer \<Rightarrow> Snapshot \<Rightarrow> ('n, unit) M" where
  "acknowledge_items s snapshot =
     (case sy_Acknowledger s of
        None \<Rightarrow> retM ()
      | Some acknowledge \<Rightarrow>
          acknowledge_loop (\<lambda>item. acknowledge (scl_AgentID (sy_Client s)) (scl_Token (sy_Client s)) item (snap_Revision snapshot))
            (snap_Configs snapshot))"

definition SyncOnce :: "'n Syncer \<Rightarrow> Os \<Rightarrow> error option \<Rightarrow> ('n SyncState, unit) M" where
  "SyncOnce s os ctx =
     bindM get_etag (\<lambda>etag.
     bindM (on_net (Fetch (sy_Http s) (sy_Client s) etag)) (\<lambda>result.
     if \<not> fr_Changed result then retM ()
     else
       bindM (on_node (Save os ctx (fr_Snapshot result))) (\<lambda>_.
       bindM (set_etag (fr_ETag result)) (\<lambda>_.
       on_net (acknowledge_items s (fr_Snapshot result))))))"

text \<open>
  The pause between two rounds. \<open>rand.Int64N(n)\<close> returns a number below n and panics when n is not positive; the draw is an argument, \<open>None\<close>
  the panic.
\<close>

definition jitter :: "(int \<Rightarrow> int) \<Rightarrow> int \<Rightarrow> int option" where
  "jitter Int64N interval =
     (let delta = (if 0 \<le> interval then interval div 5 else - (- interval div 5)) in
      if delta = 0 then Some interval
      else if delta * 2 + 1 \<le> 0 then None
      else Some (wrap64 (interval + (Int64N (delta * 2 + 1) - delta))))"

text \<open>
  The loop, round by round: the disk and context of the round, the random source, and whether the context is done before the timer fires.
  \<open>Running\<close> is the state after the given rounds, \<open>Stopped\<close> the return with the error of the context, \<open>Panicked\<close> a panic in \<open>jitter\<close>. The list of pauses is kept.
\<close>

record Round =
  rnd_os :: Os
  rnd_ctx :: "error option"
  rnd_Int64N :: "int \<Rightarrow> int"
  rnd_done :: "error option"

datatype RunStatus = Running | Stopped error | Panicked

fun syncer_rounds :: "'n Syncer \<Rightarrow> int \<Rightarrow> Round list \<Rightarrow> 'n SyncState \<Rightarrow> RunStatus \<times> int list \<times> 'n SyncState" where
  "syncer_rounds s interval [] w = (Running, [], w)"
| "syncer_rounds s interval (r # rs) w =
     (let w' = snd (SyncOnce s (rnd_os r) (rnd_ctx r) w) in
      case jitter (rnd_Int64N r) interval of
        None \<Rightarrow> (Panicked, [], w')
      | Some pause \<Rightarrow>
          (case rnd_done r of
             Some err \<Rightarrow> (Stopped err, [pause], w')
           | None \<Rightarrow> (case syncer_rounds s interval rs w' of (status, pauses, w'') \<Rightarrow> (status, pause # pauses, w''))))"

definition syncer_Run :: "'n Syncer \<Rightarrow> Round list \<Rightarrow> 'n SyncState \<Rightarrow> RunStatus \<times> int list \<times> 'n SyncState" where
  "syncer_Run s rounds w =
     (let interval = (if sy_PollInterval s = 0 then 2 * Second else sy_PollInterval s) in syncer_rounds s interval rounds w)"

subsection \<open>handler.go\<close>

datatype agent_body = AgentSnapshot Snapshot | AgentConfig string int RawMessage | AgentFailure string string

definition writeAgentError_response :: "error \<Rightarrow> int \<times> agent_body" where
  "writeAgentError_response err =
     (if errors_Is err agent_ErrNoSnapshot then (503, AgentFailure ''not_ready'' (error_text err))
      else if errors_Is err agent_ErrConfigNotFound then (404, AgentFailure ''not_found'' (error_text err))
      else (500, AgentFailure ''internal_error'' ''request failed''))"

definition agent_getSnapshot :: "(Node, int \<times> agent_body) M" where
  "agent_getSnapshot = tryM cache_Snapshot (\<lambda>err. retM (writeAgentError_response err)) (\<lambda>snapshot. retM (200, AgentSnapshot snapshot))"

definition agent_getConfig :: "string \<Rightarrow> (Node, int \<times> agent_body) M" where
  "agent_getConfig key =
     tryM (cache_Config key) (\<lambda>err. retM (writeAgentError_response err))
       (\<lambda>item. retM (200, AgentConfig (si_Key item) (si_Version item) (si_Value item)))"

section \<open>What a running agent does\<close>

text \<open>The acknowledgements are sent one after the other, each with the network that the one before has left, up to the first that fails.\<close>

lemma acknowledge_loop_spec:
  "case acknowledge_loop ack items net of (r, net') \<Rightarrow>
     \<exists>nets. nets ! 0 = net \<and> length nets \<le> Suc (length items) \<and>
       list_all (\<lambda>i. ack (items ! i) (nets ! i) = (Inr (), nets ! Suc i)) [0..<length nets - 1] \<and>
       (if length nets = Suc (length items) then r = Inr () \<and> net' = last nets
        else nets \<noteq> [] \<and> isl r \<and> ack (items ! (length nets - 1)) (last nets) = (r, net'))"
proof (induction items arbitrary: net)
  case Nil
  show ?case by (simp add: retM_def) (rule exI [of _ "[net]"], simp)
next
  case (Cons item items)
  show ?case
  proof (cases "ack item net")
    case (Pair r1 net1)
    show ?thesis
    proof (cases r1)
      case (Inl e)
      then show ?thesis using Pair by (simp add: bindM_def) (rule exI [of _ "[net]"], simp)
    next
      case (Inr u)
      obtain r net' where loop: "acknowledge_loop ack items net1 = (r, net')" by fastforce
      obtain nets where nets: "nets ! 0 = net1" "length nets \<le> Suc (length items)"
          "list_all (\<lambda>i. ack (items ! i) (nets ! i) = (Inr (), nets ! Suc i)) [0..<length nets - 1]"
          "if length nets = Suc (length items) then r = Inr () \<and> net' = last nets
           else nets \<noteq> [] \<and> isl r \<and> ack (items ! (length nets - 1)) (last nets) = (r, net')"
        using Cons.IH [of net1] unfolding loop by auto
      have ne: "nets \<noteq> []" using nets(4) by (auto split: if_splits)
      have step: "ack ((item # items) ! i) ((net # nets) ! i) = (Inr (), (net # nets) ! Suc i)" if "i < length nets" for i
        using that nets(1,3) Pair Inr by (cases i) (auto simp: list_all_iff)
      have "list_all (\<lambda>i. ack ((item # items) ! i) ((net # nets) ! i) = (Inr (), (net # nets) ! Suc i)) [0..<length (net # nets) - 1]"
        using step by (simp add: list_all_iff)
      moreover have "acknowledge_loop ack (item # items) net = (r, net')" using Pair Inr loop by (simp add: bindM_def)
      moreover have "(item # items) ! length nets = items ! (length nets - 1)" using ne by (simp add: nth_Cons')
      ultimately show ?thesis using nets(2,4) ne by (intro case_prodI2 exI [of _ "net # nets"]) (auto split: if_splits)
    qed
  qed
qed

text \<open>C18 (functional). One round of the synchronisation, case by case. When the fetch fails or the snapshot has not changed, only the network has changed. When the
  new snapshot cannot be saved, the round fails with the error of \<open>Save\<close>, nothing is acknowledged, and the old snapshot and the old entity tag stay, so that it is
  fetched again. When it is saved, it has passed the validation and is in memory and, synced, on disk, the entity tag is the new one, and only then its items are
  acknowledged in order, up to the first acknowledgement that fails; the round ends with the error of that one and still keeps the new snapshot and the new entity tag.\<close>
theorem sync_round_outcome:
  "case Fetch (sy_Http s) (sy_Client s) (ss_etag w) (ss_net w) of
     (Inl err, net) \<Rightarrow> SyncOnce s os ctx w = (Inl err, w\<lparr>ss_net := net\<rparr>)
   | (Inr result, net) \<Rightarrow>
       if \<not> fr_Changed result then SyncOnce s os ctx w = (Inr (), w\<lparr>ss_net := net\<rparr>)
       else let snapshot = fr_Snapshot result; items = snap_Configs snapshot in
         case Save os ctx snapshot (ss_node w) of
           (Inl err, node) \<Rightarrow> SyncOnce s os ctx w = (Inl err, w\<lparr>ss_net := net, ss_node := node\<rparr>) \<and> nd_cache node = nd_cache (ss_node w)
         | (Inr _, node) \<Rightarrow>
             ValidateSnapshot snapshot = None \<and> sc_snapshot (nd_cache node) = Some snapshot \<and>
             (\<exists>data. Snapshot_MarshalIndent snapshot = Inr data \<and> content node (sc_path (nd_cache (ss_node w))) = (Some data, False)) \<and>
             (\<exists>r net'. SyncOnce s os ctx w = (r, \<lparr>ss_node = node, ss_etag = fr_ETag result, ss_net = net'\<rparr>) \<and>
                (case sy_Acknowledger s of
                   None \<Rightarrow> r = Inr () \<and> net' = net
                 | Some acknowledge \<Rightarrow>
                     let ack = (\<lambda>item. acknowledge (scl_AgentID (sy_Client s)) (scl_Token (sy_Client s)) item (snap_Revision snapshot)) in
                     \<exists>nets. nets ! 0 = net \<and> length nets \<le> Suc (length items) \<and>
                       list_all (\<lambda>i. ack (items ! i) (nets ! i) = (Inr (), nets ! Suc i)) [0..<length nets - 1] \<and>
                       (if length nets = Suc (length items) then r = Inr () \<and> net' = last nets
                        else nets \<noteq> [] \<and> isl r \<and> ack (items ! (length nets - 1)) (last nets) = (r, net'))))"
proof -
  obtain fr net where fetch: "Fetch (sy_Http s) (sy_Client s) (ss_etag w) (ss_net w) = (fr, net)" by fastforce
  show ?thesis
  proof (cases "\<exists>result. fr = Inr result \<and> fr_Changed result")
    case False
    then show ?thesis using fetch by (auto simp: SyncOnce_def get_etag_def bindM_def effM_def on_net_def retM_def split: sum.split)
  next
    case True
    then obtain result where fr: "fr = Inr result" "fr_Changed result" by blast
    let ?snapshot = "fr_Snapshot result"
    obtain sr node where save: "Save os ctx ?snapshot (ss_node w) = (sr, node)" by fastforce
    obtain r net' where acks: "acknowledge_items s ?snapshot net = (r, net')" by fastforce
    have sync: "SyncOnce s os ctx w =
        (case sr of Inl e \<Rightarrow> (Inl e, w\<lparr>ss_net := net, ss_node := node\<rparr>) | Inr _ \<Rightarrow> (r, \<lparr>ss_node = node, ss_etag = fr_ETag result, ss_net = net'\<rparr>))"
      using fetch fr save acks by (simp add: SyncOnce_def get_etag_def set_etag_def bindM_def effM_def on_net_def on_node_def split: sum.splits)
    note spec = Save_spec [of os ctx ?snapshot "ss_node w", unfolded wp_def save, simplified]
    show ?thesis
    proof (cases sr)
      case (Inl e)
      then show ?thesis using fetch fr save sync spec by (simp add: Let_def save_failed_def)
    next
      case (Inr u)
      have "case sy_Acknowledger s of
          None \<Rightarrow> r = Inr () \<and> net' = net
        | Some acknowledge \<Rightarrow>
            let ack = (\<lambda>item. acknowledge (scl_AgentID (sy_Client s)) (scl_Token (sy_Client s)) item (snap_Revision ?snapshot)) in
            \<exists>nets. nets ! 0 = net \<and> length nets \<le> Suc (length (snap_Configs ?snapshot)) \<and>
              list_all (\<lambda>i. ack (snap_Configs ?snapshot ! i) (nets ! i) = (Inr (), nets ! Suc i)) [0..<length nets - 1] \<and>
              (if length nets = Suc (length (snap_Configs ?snapshot)) then r = Inr () \<and> net' = last nets
               else nets \<noteq> [] \<and> isl r \<and> ack (snap_Configs ?snapshot ! (length nets - 1)) (last nets) = (r, net'))"
      proof (cases "sy_Acknowledger s")
        case None
        then show ?thesis using acks by (simp add: acknowledge_items_def retM_def)
      next
        case (Some acknowledge)
        then have "acknowledge_loop (\<lambda>item. acknowledge (scl_AgentID (sy_Client s)) (scl_Token (sy_Client s)) item (snap_Revision ?snapshot))
            (snap_Configs ?snapshot) net = (r, net')" using acks by (simp add: acknowledge_items_def)
        from acknowledge_loop_spec [where items = "snap_Configs ?snapshot" and net = net
            and ack = "\<lambda>item. acknowledge (scl_AgentID (sy_Client s)) (scl_Token (sy_Client s)) item (snap_Revision ?snapshot)", unfolded this] show ?thesis unfolding Some Let_def by simp
      qed
      then show ?thesis using fetch fr save sync spec Inr by (simp add: Let_def)
    qed
  qed
qed

text \<open>A node that has been started: the cache file is read once, its failure ignored.\<close>

definition started :: "string \<Rightarrow> (string, bytes) gomap \<Rightarrow> Os \<Rightarrow> error option \<Rightarrow> 'n \<Rightarrow> 'n SyncState" where
  "started path files os ctx net =
     \<lparr>ss_node = snd (Load os ctx \<lparr>nd_files = files, nd_unsynced = [], nd_ops = 0, nd_cache = NewSnapshotCache path\<rparr>), ss_etag = [], ss_net = net\<rparr>"

lemma SyncOnce_cache_valid:
  assumes "cache_valid (ss_node w)"
  shows "cache_valid (ss_node (snd (SyncOnce s os ctx w)))"
proof -
  show ?thesis
  proof (cases "Fetch (sy_Http s) (sy_Client s) (ss_etag w) (ss_net w)")
    case (Pair r n)
    have "cache_valid (snd (Save os ctx x (ss_node w)))" for x by (rule Save_cache_valid [OF assms])
    then show ?thesis using Pair assms
      by (auto simp: SyncOnce_def get_etag_def set_etag_def bindM_def effM_def retM_def on_net_def on_node_def split: sum.splits prod.splits)
        (metis snd_conv)+
  qed
qed

lemma syncer_rounds_cache_valid:
  "cache_valid (ss_node w) \<Longrightarrow> syncer_rounds s interval rs w = (st, ps, w') \<Longrightarrow> cache_valid (ss_node w')"
proof (induction s interval rs w arbitrary: st ps w' rule: syncer_rounds.induct)
  case (2 s interval r rs w)
  then show ?case using SyncOnce_cache_valid [OF 2(2), of s "rnd_os r" "rnd_ctx r"]
    by (auto simp: Let_def split: option.splits prod.splits)
qed simp

lemma find_item_find: "find_item key items = find (\<lambda>item. si_Key item = key) items"
  by (induction items) auto

lemma error_Is_agent: "errors_Is (Errorf f [FW (Sentinel t), FS k]) u \<longleftrightarrow> t = u"
  by simp

text \<open>C19 (invariant). An agent serves only configuration whose checksum it has verified: whatever is on its disk when it starts, however the disk fails and whatever the
  network answers in any number of rounds, the local endpoint answers 503 without a snapshot, 404 without an item for the key, and otherwise the first item of the key,
  whose checksum is that of its value.\<close>
theorem served_configuration_is_verified:
  "let node = ss_node (snd (snd (syncer_Run s rounds (started path files os ctx net)))) in
   case agent_getConfig key node of
     (Inl _, _) \<Rightarrow> False
   | (Inr (status, body), node') \<Rightarrow> node' = node \<and>
       (case sc_snapshot (nd_cache node) of
          None \<Rightarrow> status = 503
        | Some snapshot \<Rightarrow> 1 \<le> snap_Revision snapshot \<and>
            (case find (\<lambda>item. si_Key item = key) (snap_Configs snapshot) of
               None \<Rightarrow> status = 404
             | Some item \<Rightarrow> status = 200 \<and> body = AgentConfig key (si_Version item) (si_Value item) \<and>
                 si_Checksum item = Checksum (si_Value item)))"
proof -
  define node where "node = ss_node (snd (snd (syncer_Run s rounds (started path files os ctx net))))"
  have "cache_valid (ss_node (started path files os ctx net))"
    unfolding started_def SyncState.simps by (rule Load_cache_valid) (simp add: cache_valid_def NewSnapshotCache_def)
  from syncer_rounds_cache_valid [OF this] have "cache_valid node"
    unfolding node_def syncer_Run_def Let_def by (metis prod.collapse)
  then have valid: "ValidateSnapshot snapshot = None" if "sc_snapshot (nd_cache node) = Some snapshot" for snapshot
    using that by (simp add: cache_valid_def)
  show ?thesis unfolding node_def [symmetric] Let_def
    using valid
    by (auto simp: agent_getConfig_def cache_Config_def cache_Snapshot_def tryM_def bindM_def retM_def raiseM_def writeAgentError_response_def
        find_item_find [symmetric] ValidateSnapshot_None error_Is_agent split: option.splits dest!: find_item_Some)
qed

text \<open>The agent polls forever without panicking until its context ends, and every pause lies within a fifth of the poll interval (of two seconds when none is
  set), for every interval that is not negative.\<close>
theorem poll_pauses_within_a_fifth:
  assumes "0 \<le> sy_PollInterval s" and "sy_PollInterval s \<le> 2 ^ 62"
    and "\<forall>r \<in> set rounds. \<forall>n > 0. 0 \<le> rnd_Int64N r n \<and> rnd_Int64N r n < n"
  shows "case syncer_Run s rounds w of (status, pauses, _) \<Rightarrow>
    let interval = (if sy_PollInterval s = 0 then 2000000000 else sy_PollInterval s) in
    status \<noteq> Panicked \<and> length pauses \<le> length rounds \<and>
    list_all (\<lambda>p. 0 < p \<and> interval - interval div 5 \<le> p \<and> p \<le> interval + interval div 5) pauses"
proof -
  define interval where "interval = (if sy_PollInterval s = 0 then 2000000000 else sy_PollInterval s)"
  have I: "0 < interval" "interval \<le> 2 ^ 62" using assms(1,2) by (auto simp: interval_def)
  have pause: "\<exists>p. jitter (rnd_Int64N r) interval = Some p \<and> 0 < p \<and> interval - interval div 5 \<le> p \<and> p \<le> interval + interval div 5"
    if "r \<in> set rounds" for r
  proof -
    define d where "d = interval div 5"
    have d: "0 \<le> d" "5 * d \<le> interval" using I by (simp_all add: d_def)
    define x where "x = rnd_Int64N r (d * 2 + 1)"
    have "0 < d * 2 + 1" using d(1) by simp
    then have x: "0 \<le> x" "x < d * 2 + 1" using assms(3) that unfolding x_def by blast+
    have "in_int64 (interval + (x - d))" using d x I by (simp add: in_int64_def)
    then have "jitter (rnd_Int64N r) interval = Some (if d = 0 then interval else interval + (x - d))"
      using I d by (simp add: jitter_def d_def [symmetric] x_def [symmetric] Let_def)
    then show ?thesis using d x I unfolding d_def [symmetric] by auto
  qed
  have "case syncer_rounds s interval rs w of (status, pauses, _) \<Rightarrow> status \<noteq> Panicked \<and> length pauses \<le> length rs \<and>
      list_all (\<lambda>p. 0 < p \<and> interval - interval div 5 \<le> p \<and> p \<le> interval + interval div 5) pauses"
    if "set rs \<subseteq> set rounds" for rs
    using that
  proof (induction rs arbitrary: w)
    case (Cons r rs)
    obtain p where "jitter (rnd_Int64N r) interval = Some p" "0 < p" "interval - interval div 5 \<le> p" "p \<le> interval + interval div 5"
      using pause [of r] Cons.prems by auto
    then show ?case using Cons.IH [of "snd (SyncOnce s (rnd_os r) (rnd_ctx r) w)"] Cons.prems
      by (auto simp: Let_def split: option.splits prod.splits)
  qed simp
  moreover have "(if sy_PollInterval s = 0 then 2 * Second else sy_PollInterval s) = interval" by (simp add: interval_def Second_def)
  ultimately show ?thesis
    unfolding syncer_Run_def Let_def interval_def [symmetric] by (simp split: prod.splits)
qed

definition demo_syncer :: "nat Syncer" where
  "demo_syncer = \<lparr>sy_Client = \<lparr>scl_BaseURL = ''http://d/'', scl_AgentID = ''a'', scl_Token = ''t''\<rparr>,
     sy_Http = \<lparr>hc_NewRequest = (\<lambda>_. None), hc_Do = (\<lambda>_ n. (Inr \<lparr>hresp_StatusCode = 304, hresp_ETag = [], hresp_Body = ([], None)\<rparr>, n + 1))\<rparr>,
     sy_Acknowledger = None, sy_PollInterval = 10\<rparr>"

definition demo_round :: "int \<Rightarrow> error option \<Rightarrow> Round" where
  "demo_round draw done1 = \<lparr>rnd_os = crash_at 0, rnd_ctx = None, rnd_Int64N = (\<lambda>n. min draw (n - 1)), rnd_done = done1\<rparr>"

lemma demo_run:
  "(case syncer_Run demo_syncer [demo_round 4 None, demo_round 0 None, demo_round 1 (Some (Sentinel context_Canceled))]
      \<lparr>ss_node = demo_node, ss_etag = [], ss_net = 0\<rparr> of (status, pauses, w) \<Rightarrow> (status, pauses, ss_net w)) =
   (Stopped (Sentinel context_Canceled), [12, 8, 9], 3)"
  by code_simp

theorem poll_pauses_within_a_fifth_witness:
  "\<exists>w'. syncer_Run demo_syncer [demo_round 4 None, demo_round 0 None, demo_round 1 (Some (Sentinel context_Canceled))]
      \<lparr>ss_node = demo_node, ss_etag = [], ss_net = 0\<rparr> = (Stopped (Sentinel context_Canceled), [12, 8, 9], w') \<and>
    list_all (\<lambda>p. 8 \<le> p \<and> p \<le> 12) [12, 8, 9 :: int]"
proof -
  define w :: "nat SyncState" where "w = \<lparr>ss_node = demo_node, ss_etag = [], ss_net = 0\<rparr>"
  let ?rs = "[demo_round 4 None, demo_round 0 None, demo_round 1 (Some (Sentinel context_Canceled))]"
  have interval: "sy_PollInterval demo_syncer = 10" by (simp add: demo_syncer_def)
  obtain w' where run: "syncer_Run demo_syncer ?rs w = (Stopped (Sentinel context_Canceled), [12, 8, 9], w')"
    using demo_run unfolding w_def [symmetric] by (auto split: prod.splits)
  have "case syncer_Run demo_syncer ?rs w of (status, pauses, _) \<Rightarrow>
    let interval = (if sy_PollInterval demo_syncer = 0 then 2000000000 else sy_PollInterval demo_syncer) in
    status \<noteq> Panicked \<and> length pauses \<le> length ?rs \<and>
    list_all (\<lambda>p. 0 < p \<and> interval - interval div 5 \<le> p \<and> p \<le> interval + interval div 5) pauses"
    by (rule poll_pauses_within_a_fifth) (auto simp: interval demo_round_def)
  then show ?thesis using run unfolding w_def [symmetric] by (auto simp: interval Let_def)
qed

end
