(* ===== verification/Manifest.thy ===== *)
theory Manifest
  imports Rollout_Core Prometheus
begin

section \<open>Configuration as code: manifests\<close>

text \<open>
  \<open>internal/configcode/manifest.go\<close>. The YAML library is a parameter: \<open>yn_header\<close> and the decoders of the specs are its
  \<open>Node.Decode\<close> at the types of the source, where a field of type \<open>RawJSON\<close> is filled by the callback it is given, \<open>yn_content\<close>
  the pairs of a mapping node with the text of their keys, and \<open>yn_any\<close> the decoding into an \<open>any\<close>.
\<close>

definition manifest_APIVersion :: string where
  "manifest_APIVersion = ''safeconfig.dev/v1alpha1''"

type_synonym Kind = string

definition KindTenant :: Kind where "KindTenant = ''Tenant''"
definition KindConfigDefinition :: Kind where "KindConfigDefinition = ''ConfigDefinition''"
definition KindConfigVersion :: Kind where "KindConfigVersion = ''ConfigVersion''"
definition KindStableVersion :: Kind where "KindStableVersion = ''StableVersion''"
definition KindRollout :: Kind where "KindRollout = ''Rollout''"

lemmas kind_defs = KindTenant_def KindConfigDefinition_def KindConfigVersion_def KindStableVersion_def KindRollout_def

type_synonym RawJSON = bytes

record TenantSpec =
  tsp_Name :: string
  tsp_Description :: string
  tsp_Owner :: string

record ConfigDefinitionSpec =
  dsp_Tenant :: string
  dsp_Key :: string
  dsp_Description :: string
  dsp_Schema :: RawJSON
  dsp_Default :: RawJSON

record ConfigVersionSpec =
  vsp_Tenant :: string
  vsp_Key :: string
  vsp_Value :: RawJSON
  vsp_SourceCommitSHA :: string
  vsp_CreatedBy :: string

record StableVersionSpec =
  ssp_Tenant :: string
  ssp_Key :: string
  ssp_Environment :: string
  ssp_VersionRef :: string

record RolloutStage =
  rst_ID :: string
  rst_Percentage :: int
  rst_MinimumDurationSeconds :: int

record GuardrailRule =
  gru_Name :: string
  gru_Query :: string
  gru_Operator :: string
  gru_Threshold :: float64
  gru_ConsecutiveFailures :: int

record RolloutSpec =
  rsp_Tenant :: string
  rsp_Key :: string
  rsp_Environment :: string
  rsp_CandidateVersionRef :: string
  rsp_TargetServices :: "string list"
  rsp_Stages :: "RolloutStage list"
  rsp_Guardrails :: "GuardrailRule list"
  rsp_RequiredAckPercentage :: float64
  rsp_DeploymentTimeoutSeconds :: int
  rsp_RolloutMaxDurationSeconds :: int
  rsp_RollbackTimeoutSeconds :: int

record Manifest =
  mf_APIVersion :: string
  mf_Kind :: Kind
  mf_Name :: string
  mf_Spec :: bytes
  mf_Tenant :: TenantSpec
  mf_ConfigDefinition :: ConfigDefinitionSpec
  mf_ConfigVersion :: ConfigVersionSpec
  mf_StableVersion :: StableVersionSpec
  mf_Rollout :: RolloutSpec

definition zero_manifest :: Manifest where
  "zero_manifest = \<lparr>mf_APIVersion = [], mf_Kind = [], mf_Name = [], mf_Spec = [],
     mf_Tenant = \<lparr>tsp_Name = [], tsp_Description = [], tsp_Owner = []\<rparr>,
     mf_ConfigDefinition = \<lparr>dsp_Tenant = [], dsp_Key = [], dsp_Description = [], dsp_Schema = [], dsp_Default = []\<rparr>,
     mf_ConfigVersion = \<lparr>vsp_Tenant = [], vsp_Key = [], vsp_Value = [], vsp_SourceCommitSHA = [], vsp_CreatedBy = []\<rparr>,
     mf_StableVersion = \<lparr>ssp_Tenant = [], ssp_Key = [], ssp_Environment = [], ssp_VersionRef = []\<rparr>,
     mf_Rollout = \<lparr>rsp_Tenant = [], rsp_Key = [], rsp_Environment = [], rsp_CandidateVersionRef = [], rsp_TargetServices = [], rsp_Stages = [],
       rsp_Guardrails = [], rsp_RequiredAckPercentage = Fin 0, rsp_DeploymentTimeoutSeconds = 0, rsp_RolloutMaxDurationSeconds = 0,
       rsp_RollbackTimeoutSeconds = 0\<rparr>\<rparr>"

subsection \<open>YAML values as JSON\<close>

text \<open>
  A value of type \<open>any\<close> as the library decodes it: a scalar, a sequence, a mapping with string keys or one with other scalar keys (the library
  refuses collections as keys). A scalar that is not a string comes with the text that \<open>fmt.Sprint\<close> makes of it and with what \<open>json.Marshal\<close>
  makes of it, which may be an error (a NaN). The keys of a Go map have no order; the list is the order in which the source ranges over them.
\<close>

datatype yaml_scalar = SString string | SOther string "error + bytes"

datatype yaml_any =
    YScalar yaml_scalar
  | YSeq "yaml_any list"
  | YMap "(string \<times> yaml_any) list"
  | YMapAny "(yaml_scalar \<times> yaml_any) list"

fun Sprint :: "yaml_scalar \<Rightarrow> string" where
  "Sprint (SString s) = s"
| "Sprint (SOther s _) = s"

fun normalizeYAML :: "yaml_any \<Rightarrow> yaml_any"
  and normalize_seq :: "yaml_any list \<Rightarrow> yaml_any list"
  and normalize_map :: "(string \<times> yaml_any) list \<Rightarrow> (string \<times> yaml_any) list \<Rightarrow> (string \<times> yaml_any) list"
  and normalize_any :: "(yaml_scalar \<times> yaml_any) list \<Rightarrow> (string \<times> yaml_any) list \<Rightarrow> (string \<times> yaml_any) list" where
  "normalizeYAML (YMapAny kvs) = YMap (normalize_any kvs [])"
| "normalizeYAML (YMap kvs) = YMap (normalize_map kvs [])"
| "normalizeYAML (YSeq vs) = YSeq (normalize_seq vs)"
| "normalizeYAML (YScalar s) = YScalar s"
| "normalize_seq [] = []"
| "normalize_seq (v # vs) = normalizeYAML v # normalize_seq vs"
| "normalize_map [] result = result"
| "normalize_map ((k, v) # kvs) result = normalize_map kvs (gomap_set k (normalizeYAML v) result)"
| "normalize_any [] result = result"
| "normalize_any ((k, v) # kvs) result = normalize_any kvs (gomap_set (Sprint k) (normalizeYAML v) result)"

text \<open>\<open>json.Marshal\<close>: the members of a map sorted by key, the first error reported; a map with other keys than strings is refused.\<close>

fun collect :: "(error + 'a) list \<Rightarrow> error + 'a list" where
  "collect [] = Inr []"
| "collect (r # rs) = (case r of Inl e \<Rightarrow> Inl e | Inr x \<Rightarrow> (case collect rs of Inl e \<Rightarrow> Inl e | Inr xs \<Rightarrow> Inr (x # xs)))"

fun marshal_any :: "yaml_any \<Rightarrow> error + bytes"
  and marshal_seq :: "yaml_any list \<Rightarrow> (error + bytes) list"
  and marshal_map :: "(string \<times> yaml_any) list \<Rightarrow> (string \<times> (error + bytes)) list" where
  "marshal_any (YScalar (SString s)) = Inr (json_string s)"
| "marshal_any (YScalar (SOther _ json)) = json"
| "marshal_any (YSeq vs) = (case collect (marshal_seq vs) of Inl e \<Rightarrow> Inl e | Inr xs \<Rightarrow> Inr (json_array xs))"
| "marshal_any (YMap kvs) =
     (case collect (map (\<lambda>(k, r). map_sum id (json_field k) r) (sort_key fst (marshal_map kvs))) of
        Inl e \<Rightarrow> Inl e | Inr ms \<Rightarrow> Inr (json_object ms))"
| "marshal_any (YMapAny kvs) = Inl (Foreign ''json: unsupported type: map[interface {}]interface {}'')"
| "marshal_seq [] = []"
| "marshal_seq (v # vs) = marshal_any v # marshal_seq vs"
| "marshal_map [] = []"
| "marshal_map ((k, v) # kvs) = (k, marshal_any v) # marshal_map kvs"

text \<open>Normalised values have string keys only, so marshalling them fails on scalars only.\<close>

fun string_keyed :: "yaml_any \<Rightarrow> bool"
  and string_keyed_seq :: "yaml_any list \<Rightarrow> bool"
  and string_keyed_map :: "(string \<times> yaml_any) list \<Rightarrow> bool" where
  "string_keyed (YScalar s) = True"
| "string_keyed (YSeq vs) = string_keyed_seq vs"
| "string_keyed (YMap kvs) = string_keyed_map kvs"
| "string_keyed (YMapAny kvs) = False"
| "string_keyed_seq [] = True"
| "string_keyed_seq (v # vs) = (string_keyed v \<and> string_keyed_seq vs)"
| "string_keyed_map [] = True"
| "string_keyed_map ((k, v) # kvs) = (string_keyed v \<and> string_keyed_map kvs)"

lemma string_keyed_map_iff: "string_keyed_map kvs \<longleftrightarrow> (\<forall>x \<in> set kvs. string_keyed (snd x))"
  by (induction kvs) auto

lemma string_keyed_map_set: "string_keyed_map m \<Longrightarrow> string_keyed v \<Longrightarrow> string_keyed_map (gomap_set k v m)"
  by (induction m) (auto simp: gomap_set_def)

lemma normalizeYAML_string_keyed:
  "string_keyed (normalizeYAML y)" "string_keyed_seq (normalize_seq ys)"
  "string_keyed_map r \<Longrightarrow> string_keyed_map (normalize_map kvs r)"
  "string_keyed_map r \<Longrightarrow> string_keyed_map (normalize_any aks r)"
  by (induction y and ys and kvs r and aks r rule: normalizeYAML_normalize_seq_normalize_map_normalize_any.induct)
    (auto simp: string_keyed_map_set)

subsection \<open>RawJSON\<close>

text \<open>\<open>json.Unmarshal\<close> into an \<open>any\<close>: the last member of a name stays, and a number out of the range of a double is an error.\<close>

datatype any = ANil | ABool bool | ANumber float64 | AString string | AList "any list" | AMap "(string, any) gomap"

fun any_of :: "json \<Rightarrow> error + any"
  and any_elements :: "(string \<times> json) list \<Rightarrow> error + any list"
  and any_members :: "(string \<times> string \<times> json) list \<Rightarrow> (string, any) gomap \<Rightarrow> error + (string, any) gomap" where
  "any_of JNull = Inr ANil"
| "any_of (JBool b) = Inr (ABool b)"
| "any_of (JNumber n) = map_sum id ANumber (dec_float64 (Fin 0) n (JNumber n))"
| "any_of (JString s) = Inr (AString s)"
| "any_of (JArray vs) = map_sum id AList (any_elements vs)"
| "any_of (JObject ms) = map_sum id AMap (any_members ms [])"
| "any_elements [] = Inr []"
| "any_elements ((raw, v) # vs) =
     (case any_of v of Inl e \<Rightarrow> Inl e | Inr x \<Rightarrow> (case any_elements vs of Inl e \<Rightarrow> Inl e | Inr xs \<Rightarrow> Inr (x # xs)))"
| "any_members [] m = Inr m"
| "any_members ((k, raw, v) # ms) m =
     (case any_of v of Inl e \<Rightarrow> Inl e | Inr x \<Rightarrow> any_members ms (gomap_set k x m))"

definition dec_any :: "any decoder" where
  "dec_any old raw v = any_of v"

text \<open>\<open>reflect.DeepEqual\<close> of two such values.\<close>

fun DeepEqual :: "any \<Rightarrow> any \<Rightarrow> bool"
  and deep_equal_list :: "any list \<Rightarrow> any list \<Rightarrow> bool"
  and deep_equal_map :: "(string, any) gomap \<Rightarrow> (string, any) gomap \<Rightarrow> bool" where
  "DeepEqual ANil w = (w = ANil)"
| "DeepEqual (ABool a) w = (w = ABool a)"
| "DeepEqual (ANumber x) w = (case w of ANumber y \<Rightarrow> f64_eq x y | _ \<Rightarrow> False)"
| "DeepEqual (AString s) w = (w = AString s)"
| "DeepEqual (AList vs) w = (case w of AList ws \<Rightarrow> deep_equal_list vs ws | _ \<Rightarrow> False)"
| "DeepEqual (AMap m) w = (case w of AMap n \<Rightarrow> length m = length n \<and> deep_equal_map m n | _ \<Rightarrow> False)"
| "deep_equal_list [] ws = (ws = [])"
| "deep_equal_list (v # vs) ws = (case ws of [] \<Rightarrow> False | w # ws' \<Rightarrow> DeepEqual v w \<and> deep_equal_list vs ws')"
| "deep_equal_map [] n = True"
| "deep_equal_map ((k, v) # m) n = ((case gomap_get n k of None \<Rightarrow> False | Some w \<Rightarrow> DeepEqual v w) \<and> deep_equal_map m n)"

definition RawJSON_MarshalJSON :: "RawJSON \<Rightarrow> error + bytes" where
  "RawJSON_MarshalJSON r = (if length r = 0 then Inr ''null'' else Inr r)"

text \<open>What the encoder makes of a \<open>Marshaler\<close>: its result must be valid JSON and is compacted.\<close>

definition json_RawJSON :: "RawJSON \<Rightarrow> error + bytes" where
  "json_RawJSON r =
     (case RawJSON_MarshalJSON r of
        Inl e \<Rightarrow> Inl e
      | Inr b \<Rightarrow> if json_Valid b then Inr (json_compact b) else Inl (Foreign ''json: error calling MarshalJSON for type configcode.RawJSON''))"

definition RawJSON_UnmarshalJSON :: "bytes \<Rightarrow> error + RawJSON" where
  "RawJSON_UnmarshalJSON data = (if \<not> json_Valid data then Inl (New ''invalid json'') else Inr data)"

definition dec_RawJSON :: "RawJSON decoder" where
  "dec_RawJSON old raw v = RawJSON_UnmarshalJSON raw"

definition RawJSON_Valid :: "RawJSON \<Rightarrow> bool" where
  "RawJSON_Valid r = (if length r = 0 then False else json_Valid r)"

definition EqualJSON :: "RawJSON \<Rightarrow> RawJSON \<Rightarrow> bool" where
  "EqualJSON r other =
     (case json_Unmarshal dec_any ANil r of
        Inl _ \<Rightarrow> TrimSpace r = TrimSpace other
      | Inr left \<Rightarrow>
          (case json_Unmarshal dec_any ANil other of
             Inl _ \<Rightarrow> TrimSpace r = TrimSpace other
           | Inr right \<Rightarrow> DeepEqual left right))"

subsection \<open>Decoding manifests\<close>

text \<open>A node of the YAML library, and the documents its decoder reads off a stream: nodes, documents that are null, or an error.\<close>

record 'n yaml_node =
  yn_header :: "'n \<Rightarrow> error + string \<times> Kind \<times> string"
  yn_content :: "'n \<Rightarrow> (string \<times> 'n) list"
  yn_any :: "'n \<Rightarrow> error + yaml_any"
  yn_TenantSpec :: "'n \<Rightarrow> error + TenantSpec"
  yn_ConfigDefinitionSpec :: "('n \<Rightarrow> error + RawJSON) \<Rightarrow> 'n \<Rightarrow> error + ConfigDefinitionSpec"
  yn_ConfigVersionSpec :: "('n \<Rightarrow> error + RawJSON) \<Rightarrow> 'n \<Rightarrow> error + ConfigVersionSpec"
  yn_StableVersionSpec :: "'n \<Rightarrow> error + StableVersionSpec"
  yn_RolloutSpec :: "'n \<Rightarrow> error + RolloutSpec"

datatype 'n yaml_document = YamlNode 'n | YamlNull | YamlError error

definition RawJSON_UnmarshalYAML :: "'n yaml_node \<Rightarrow> 'n \<Rightarrow> error + RawJSON" where
  "RawJSON_UnmarshalYAML Y value =
     (case yn_any Y value of Inl e \<Rightarrow> Inl e | Inr decoded \<Rightarrow> marshal_any (normalizeYAML decoded))"

definition yamlNodeToJSON :: "'n yaml_node \<Rightarrow> 'n \<Rightarrow> error + bytes" where
  "yamlNodeToJSON Y node =
     (case yn_any Y node of Inl e \<Rightarrow> Inl e | Inr decoded \<Rightarrow> marshal_any (normalizeYAML decoded))"

definition decode_spec :: "'n yaml_node \<Rightarrow> 'n \<Rightarrow> Manifest \<Rightarrow> error + Manifest" where
  "decode_spec Y spec m =
     (let raw = RawJSON_UnmarshalYAML Y in
      if mf_Kind m = KindTenant then map_sum id (\<lambda>s. m\<lparr>mf_Tenant := s\<rparr>) (yn_TenantSpec Y spec)
      else if mf_Kind m = KindConfigDefinition then map_sum id (\<lambda>s. m\<lparr>mf_ConfigDefinition := s\<rparr>) (yn_ConfigDefinitionSpec Y raw spec)
      else if mf_Kind m = KindConfigVersion then map_sum id (\<lambda>s. m\<lparr>mf_ConfigVersion := s\<rparr>) (yn_ConfigVersionSpec Y raw spec)
      else if mf_Kind m = KindStableVersion then map_sum id (\<lambda>s. m\<lparr>mf_StableVersion := s\<rparr>) (yn_StableVersionSpec Y spec)
      else if mf_Kind m = KindRollout then map_sum id (\<lambda>s. m\<lparr>mf_Rollout := s\<rparr>) (yn_RolloutSpec Y spec)
      else map_sum id (\<lambda>_. m) (yn_any Y spec))"

definition Manifest_UnmarshalYAML :: "'n yaml_node \<Rightarrow> 'n \<Rightarrow> Manifest \<Rightarrow> error + Manifest" where
  "Manifest_UnmarshalYAML Y value m =
     (case yn_header Y value of
        Inl e \<Rightarrow> Inl e
      | Inr (version, kind, name) \<Rightarrow>
          (case find (\<lambda>c. fst c = ''spec'') (yn_content Y value) of
             None \<Rightarrow> Inl (New ''spec is required'')
           | Some (_, specNode) \<Rightarrow>
               (case decode_spec Y specNode (m\<lparr>mf_APIVersion := version, mf_Kind := kind, mf_Name := name\<rparr>) of
                  Inl e \<Rightarrow> Inl e
                | Inr m' \<Rightarrow>
                    (case yamlNodeToJSON Y specNode of
                       Inl e \<Rightarrow> Inl e
                     | Inr rawSpec \<Rightarrow> Inr (m'\<lparr>mf_Spec := rawSpec\<rparr>)))))"

fun DecodeManifests :: "'n yaml_node \<Rightarrow> 'n yaml_document list \<Rightarrow> error + Manifest list" where
  "DecodeManifests Y [] = Inr []"
| "DecodeManifests Y (d # ds) =
     (case (case d of
              YamlError e \<Rightarrow> Inl e
            | YamlNull \<Rightarrow> Inr zero_manifest
            | YamlNode node \<Rightarrow> Manifest_UnmarshalYAML Y node zero_manifest) of
        Inl e \<Rightarrow> Inl e
      | Inr manifest \<Rightarrow>
          (case DecodeManifests Y ds of
             Inl e \<Rightarrow> Inl e
           | Inr manifests \<Rightarrow>
               if mf_APIVersion manifest = [] \<and> mf_Kind manifest = [] \<and> mf_Name manifest = [] \<and> length (mf_Spec manifest) = 0
               then Inr manifests else Inr (manifest # manifests)))"

lemma EqualJSON_examples:
  "EqualJSON ''[true, null]'' '' [true,null] ''"
  "\<not> EqualJSON ''[true]'' ''[false]''"
  "EqualJSON ''nope'' '' nope ''"
  by code_simp+

end
