(* ===== verification/Validator.thy ===== *)
theory Validator
  imports Manifest Config_Registry Path
begin

section \<open>Configuration as code: validation of manifests\<close>

text \<open>
  \<open>internal/configcode/validator.go\<close>. The file system is a parameter: \<open>os.Stat\<close>, \<open>os.ReadFile\<close> and the visits of \<open>filepath.WalkDir\<close> to
  a visitor that never stops it. The message of a diagnostic is kept as the format of the source with its arguments; \<open>error_text\<close> renders it.
\<close>

record Diagnostic =
  dg_Path :: string
  dg_Document :: int
  dg_Message :: error

definition Diagnostic_String :: "Diagnostic \<Rightarrow> string" where
  "Diagnostic_String d =
     (if 0 < dg_Document d
      then error_text (Errorf ''%s document %d: %s'' [FS (dg_Path d), FD (dg_Document d), FS (error_text (dg_Message d))])
      else error_text (Errorf ''%s: %s'' [FS (dg_Path d), FS (error_text (dg_Message d))]))"

record Report =
  rp_Files :: int
  rp_Manifests :: int
  rp_Errors :: "Diagnostic list"

definition Report_OK :: "Report \<Rightarrow> bool" where
  "Report_OK r \<longleftrightarrow> length (rp_Errors r) = 0"

record Validator =
  va_SchemaValidator :: "SchemaValidator option"

record ManifestDocument =
  md_Path :: string
  md_Document :: int
  md_Manifest :: Manifest

subsection \<open>The state of a validation\<close>

record validationState =
  vs_definitions :: "(string, ConfigDefinitionSpec) gomap"
  vs_versionRefs :: "(string, ConfigVersionSpec) gomap"
  vs_versionNameCounts :: "(string, int) gomap"

definition configKey :: "string \<Rightarrow> string \<Rightarrow> string" where
  "configKey tenant key = tenant @ ''/'' @ key"

definition count_of :: "(string, int) gomap \<Rightarrow> string \<Rightarrow> int" where
  "count_of m k = (case gomap_get m k of None \<Rightarrow> 0 | Some n \<Rightarrow> n)"

definition note_document :: "ManifestDocument \<Rightarrow> validationState \<Rightarrow> validationState" where
  "note_document document state =
     (let m = md_Manifest document in
      if mf_Kind m = KindConfigDefinition then
        (let spec = mf_ConfigDefinition m in
         if TrimSpace (dsp_Tenant spec) \<noteq> [] \<and> TrimSpace (dsp_Key spec) \<noteq> [] \<and> 0 < length (dsp_Schema spec)
         then state\<lparr>vs_definitions := gomap_set (configKey (dsp_Tenant spec) (dsp_Key spec)) spec (vs_definitions state)\<rparr>
         else state)
      else if mf_Kind m = KindConfigVersion then
        (let spec = mf_ConfigVersion m;
             counts = vs_versionNameCounts state;
             state = state\<lparr>vs_versionNameCounts := gomap_set (mf_Name m) (count_of counts (mf_Name m) + 1) counts\<rparr> in
         if TrimSpace (vsp_Tenant spec) \<noteq> [] \<and> TrimSpace (vsp_Key spec) \<noteq> []
         then state\<lparr>vs_versionRefs := gomap_set (mf_Name m) spec (vs_versionRefs state)\<rparr>
         else state)
      else state)"

definition buildValidationState :: "ManifestDocument list \<Rightarrow> validationState" where
  "buildValidationState documents = fold note_document documents \<lparr>vs_definitions = [], vs_versionRefs = [], vs_versionNameCounts = []\<rparr>"

subsection \<open>One manifest\<close>

definition require :: "bool \<Rightarrow> error \<Rightarrow> error list" where
  "require ok e = (if ok then [] else [e])"

definition failed :: "error option \<Rightarrow> (error \<Rightarrow> error) \<Rightarrow> error list" where
  "failed r f = (case r of None \<Rightarrow> [] | Some e \<Rightarrow> [f e])"

definition validateTenantKeyEnvironment :: "string \<Rightarrow> string \<Rightarrow> string \<Rightarrow> error list" where
  "validateTenantKeyEnvironment tenant key environment =
     require (TrimSpace tenant \<noteq> []) (New ''spec.tenant is required'') @
     require (TrimSpace key \<noteq> []) (New ''spec.key is required'') @
     failed (Environment_Validate environment) (\<lambda>e. Errorf ''spec.environment is invalid: %v'' [FV e])"

definition tenant_messages :: "Manifest \<Rightarrow> error list" where
  "tenant_messages manifest =
     (if TrimSpace (mf_Name manifest) = [] then []
      else require (TrimSpace (tsp_Name (mf_Tenant manifest)) \<noteq> []) (New ''spec.name is required''))"

definition definition_messages :: "SchemaValidator \<Rightarrow> ConfigDefinitionSpec \<Rightarrow> error list" where
  "definition_messages validator spec =
     require (TrimSpace (dsp_Tenant spec) \<noteq> []) (New ''spec.tenant is required'') @
     require (TrimSpace (dsp_Key spec) \<noteq> []) (New ''spec.key is required'') @
     (if length (dsp_Schema spec) = 0 then [New ''spec.schema is required'']
      else
        failed (sv_ValidateSchema validator (dsp_Schema spec)) (\<lambda>e. Errorf ''spec.schema is invalid: %v'' [FV e]) @
        (if 0 < length (dsp_Default spec) then
           (if \<not> RawJSON_Valid (dsp_Default spec) then [New ''spec.default must be valid JSON-compatible YAML'']
            else failed (sv_ValidateValue validator (dsp_Schema spec) (dsp_Default spec))
                   (\<lambda>e. Errorf ''spec.default does not match spec.schema: %v'' [FV e]))
         else []))"

definition version_messages :: "SchemaValidator \<Rightarrow> validationState \<Rightarrow> string \<Rightarrow> ConfigVersionSpec \<Rightarrow> error list" where
  "version_messages validator state name spec =
     (let key = configKey (vsp_Tenant spec) (vsp_Key spec); found = gomap_get (vs_definitions state) key in
      require (\<not> 1 < count_of (vs_versionNameCounts state) name) (Errorf ''ConfigVersion metadata.name %q must be unique'' [FQ name]) @
      require (TrimSpace (vsp_Tenant spec) \<noteq> []) (New ''spec.tenant is required'') @
      require (TrimSpace (vsp_Key spec) \<noteq> []) (New ''spec.key is required'') @
      require (found \<noteq> None) (Errorf ''matching ConfigDefinition for %s/%s is required'' [FS (vsp_Tenant spec), FS (vsp_Key spec)]) @
      (if length (vsp_Value spec) = 0 then [New ''spec.value is required'']
       else
         require (RawJSON_Valid (vsp_Value spec)) (New ''spec.value must be valid JSON-compatible YAML'') @
         (case found of
            Some d \<Rightarrow>
              if RawJSON_Valid (vsp_Value spec)
              then failed (sv_ValidateValue validator (dsp_Schema d) (vsp_Value spec))
                     (\<lambda>e. Errorf ''spec.value does not match matching ConfigDefinition schema: %v'' [FV e])
              else []
          | None \<Rightarrow> [])))"

text \<open>A reference to a version by its name, in the field \<open>field\<close> of a stable version or a rollout.\<close>

definition reference_messages :: "validationState \<Rightarrow> string \<Rightarrow> string \<Rightarrow> string \<Rightarrow> string \<Rightarrow> error list" where
  "reference_messages state field ref tenant key =
     (if TrimSpace ref = [] then [New (''spec.'' @ field @ '' is required'')]
      else case gomap_get (vs_versionRefs state) ref of
        None \<Rightarrow> [Errorf (''spec.'' @ field @ '' %q does not match a ConfigVersion metadata.name'') [FQ ref]]
      | Some version \<Rightarrow>
          require (\<not> (vsp_Tenant version \<noteq> tenant \<or> vsp_Key version \<noteq> key))
            (Errorf (''spec.'' @ field @ '' %q points to %s/%s, not %s/%s'')
               [FQ ref, FS (vsp_Tenant version), FS (vsp_Key version), FS tenant, FS key]))"

definition stable_messages :: "validationState \<Rightarrow> StableVersionSpec \<Rightarrow> error list" where
  "stable_messages state spec =
     validateTenantKeyEnvironment (ssp_Tenant spec) (ssp_Key spec) (ssp_Environment spec) @
     reference_messages state ''versionRef'' (ssp_VersionRef spec) (ssp_Tenant spec) (ssp_Key spec)"

definition plan_of :: "RolloutStage list \<Rightarrow> Stage list" where
  "plan_of = map (\<lambda>stage. \<lparr>stage_ID = rst_ID stage, stage_Percentage = rst_Percentage stage, stage_MinimumDuration = 0\<rparr>)"

definition stages_messages :: "RolloutStage list \<Rightarrow> error list" where
  "stages_messages stages =
     (if 0 < length stages then
        concat (map (\<lambda>stage. require (\<not> rst_MinimumDurationSeconds stage < 0)
                       (Errorf ''stage %q minimumDurationSeconds cannot be negative'' [FQ (rst_ID stage)])) stages) @
        failed (ValidateStagePlan (plan_of stages)) (\<lambda>e. Errorf ''spec.stages is invalid: %v'' [FV e])
      else [])"

definition rule_of :: "GuardrailRule \<Rightarrow> Rule" where
  "rule_of rule = \<lparr>rule_Name = gru_Name rule, rule_Query = gru_Query rule, rule_Operator = gru_Operator rule, rule_Threshold = gru_Threshold rule,
     rule_ConsecutiveFailures = gru_ConsecutiveFailures rule\<rparr>"

definition guardrail_messages :: "GuardrailRule \<Rightarrow> error list" where
  "guardrail_messages rule =
     require (TrimSpace (gru_Query rule) \<noteq> []) (Errorf ''guardrail %q query is required'' [FQ (gru_Name rule)]) @
     failed (Rule_Validate (rule_of rule)) (\<lambda>e. Errorf ''guardrail %q is invalid: %v'' [FQ (gru_Name rule), FV e])"

definition rollout_messages :: "validationState \<Rightarrow> RolloutSpec \<Rightarrow> error list" where
  "rollout_messages state spec =
     validateTenantKeyEnvironment (rsp_Tenant spec) (rsp_Key spec) (rsp_Environment spec) @
     reference_messages state ''candidateVersionRef'' (rsp_CandidateVersionRef spec) (rsp_Tenant spec) (rsp_Key spec) @
     stages_messages (rsp_Stages spec) @
     concat (map guardrail_messages (rsp_Guardrails spec)) @
     require (\<not> (f64_lt (rsp_RequiredAckPercentage spec) (Fin 0) \<or> f64_lt (Fin 100) (rsp_RequiredAckPercentage spec)))
       (New ''spec.requiredAckPercentage must be between 0 and 100'') @
     require (\<not> rsp_DeploymentTimeoutSeconds spec < 0) (New ''spec.deploymentTimeoutSeconds cannot be negative'') @
     require (\<not> rsp_RolloutMaxDurationSeconds spec < 0) (New ''spec.rolloutMaxDurationSeconds cannot be negative'') @
     require (\<not> rsp_RollbackTimeoutSeconds spec < 0) (New ''spec.rollbackTimeoutSeconds cannot be negative'')"

definition schemaValidator :: "('doc, 'compiler, 'schema) jsonschema \<Rightarrow> Validator \<Rightarrow> SchemaValidator" where
  "schemaValidator js v = (case va_SchemaValidator v of Some s \<Rightarrow> s | None \<Rightarrow> JSONSchemaValidator js)"

definition manifest_messages :: "SchemaValidator \<Rightarrow> Manifest \<Rightarrow> validationState \<Rightarrow> error list" where
  "manifest_messages validator manifest state =
     require (mf_APIVersion manifest = manifest_APIVersion) (Errorf ''apiVersion must be %q'' [FQ manifest_APIVersion]) @
     require (TrimSpace (mf_Name manifest) \<noteq> []) (New ''metadata.name is required'') @
     (if mf_Kind manifest = KindTenant then tenant_messages manifest
      else if mf_Kind manifest = KindConfigDefinition then definition_messages validator (mf_ConfigDefinition manifest)
      else if mf_Kind manifest = KindConfigVersion then version_messages validator state (mf_Name manifest) (mf_ConfigVersion manifest)
      else if mf_Kind manifest = KindStableVersion then stable_messages state (mf_StableVersion manifest)
      else if mf_Kind manifest = KindRollout then rollout_messages state (mf_Rollout manifest)
      else [New ''kind must be one of Tenant, ConfigDefinition, ConfigVersion, StableVersion, Rollout''])"

definition validateManifest ::
  "('doc, 'compiler, 'schema) jsonschema \<Rightarrow> Validator \<Rightarrow> string \<Rightarrow> int \<Rightarrow> Manifest \<Rightarrow> validationState \<Rightarrow> Diagnostic list" where
  "validateManifest js v path document manifest state =
     map (\<lambda>message. \<lparr>dg_Path = path, dg_Document = document, dg_Message = message\<rparr>)
       (manifest_messages (schemaValidator js v) manifest state)"

subsection \<open>Files\<close>

record file_tree =
  fs_Stat :: "string \<Rightarrow> error + bool"
  fs_WalkDir :: "string \<Rightarrow> (string \<times> (error + bool)) list \<times> error option"
  fs_ReadFile :: "string \<Rightarrow> error + bytes"

definition isYAML :: "string \<Rightarrow> bool" where
  "isYAML path \<longleftrightarrow> (let ext = map ascii_lower (path_Ext path) in ext = ''.yaml'' \<or> ext = ''.yml'')"

definition file_diagnostic :: "string \<Rightarrow> error \<Rightarrow> Diagnostic" where
  "file_diagnostic path e = \<lparr>dg_Path = path, dg_Document = 0, dg_Message = e\<rparr>"

fun walk_visits :: "(string \<times> (error + bool)) list \<Rightarrow> string list \<times> Diagnostic list \<Rightarrow> string list \<times> Diagnostic list" where
  "walk_visits [] acc = acc"
| "walk_visits ((file, entry) # visits) (files, diagnostics) =
     walk_visits visits
       (case entry of
          Inl e \<Rightarrow> (files, diagnostics @ [file_diagnostic file e])
        | Inr isDir \<Rightarrow> if isDir then (files, diagnostics) else if isYAML file then (files @ [file], diagnostics) else (files, diagnostics))"

fun collect_paths :: "file_tree \<Rightarrow> string list \<Rightarrow> string list \<times> Diagnostic list \<Rightarrow> string list \<times> Diagnostic list" where
  "collect_paths fs [] acc = acc"
| "collect_paths fs (path # paths) (files, diagnostics) =
     collect_paths fs paths
       (case fs_Stat fs path of
          Inl e \<Rightarrow> (files, diagnostics @ [file_diagnostic path e])
        | Inr isDir \<Rightarrow>
            if \<not> isDir then (if isYAML path then files @ [path] else files, diagnostics)
            else (case fs_WalkDir fs path of (visits, err) \<Rightarrow>
                  case walk_visits visits (files, diagnostics) of (files, diagnostics) \<Rightarrow>
                    (files, diagnostics @ (case err of None \<Rightarrow> [] | Some e \<Rightarrow> [file_diagnostic path e]))))"

definition collectManifestFiles :: "file_tree \<Rightarrow> string list \<Rightarrow> string list \<times> Diagnostic list" where
  "collectManifestFiles fs paths =
     (let paths = (if length paths = 0 then [''config''] else paths) in
      case collect_paths fs paths ([], []) of (files, diagnostics) \<Rightarrow>
        let files = sort files in
        (files, if length files = 0 \<and> length diagnostics = 0
                then [file_diagnostic (join_with '','' paths) (New ''no YAML manifest files found'')] else diagnostics))"

text \<open>\<open>documents\<close> is the stream of documents that the YAML library reads from the bytes of a file.\<close>

definition readManifestFile ::
  "file_tree \<Rightarrow> 'n yaml_node \<Rightarrow> (bytes \<Rightarrow> 'n yaml_document list) \<Rightarrow> string \<Rightarrow> error + Manifest list" where
  "readManifestFile fs Y documents path =
     (case fs_ReadFile fs path of
        Inl e \<Rightarrow> Inl e
      | Inr data \<Rightarrow> if length (TrimSpace data) = 0 then Inr [] else DecodeManifests Y (documents data))"

fun read_files ::
  "file_tree \<Rightarrow> 'n yaml_node \<Rightarrow> (bytes \<Rightarrow> 'n yaml_document list) \<Rightarrow> string list \<Rightarrow> ManifestDocument list \<times> Diagnostic list" where
  "read_files fs Y yaml [] = ([], [])"
| "read_files fs Y yaml (file # files) =
     (case read_files fs Y yaml files of (documents, diagnostics) \<Rightarrow>
        (case readManifestFile fs Y yaml file of
           Inl e \<Rightarrow> (documents, file_diagnostic file e # diagnostics)
         | Inr manifests \<Rightarrow>
             (map (\<lambda>(i, manifest). \<lparr>md_Path = file, md_Document = i + 1, md_Manifest = manifest\<rparr>)
                (zip (map int [0..<length manifests]) manifests) @ documents, diagnostics)))"

definition LoadManifestDocuments ::
  "file_tree \<Rightarrow> 'n yaml_node \<Rightarrow> (bytes \<Rightarrow> 'n yaml_document list) \<Rightarrow> string list \<Rightarrow> ManifestDocument list \<times> string list \<times> Diagnostic list" where
  "LoadManifestDocuments fs Y yaml paths =
     (case collectManifestFiles fs paths of (files, diagnostics) \<Rightarrow>
        if 0 < length diagnostics then ([], files, diagnostics)
        else case read_files fs Y yaml files of (documents, diagnostics) \<Rightarrow> (documents, files, diagnostics))"

definition ValidatePaths ::
  "('doc, 'compiler, 'schema) jsonschema \<Rightarrow> file_tree \<Rightarrow> 'n yaml_node \<Rightarrow> (bytes \<Rightarrow> 'n yaml_document list) \<Rightarrow> Validator \<Rightarrow>
   string list \<Rightarrow> Report" where
  "ValidatePaths js fs Y yaml v paths =
     (case LoadManifestDocuments fs Y yaml paths of (documents, files, diagnostics) \<Rightarrow>
        if 0 < length diagnostics then \<lparr>rp_Files = int (length files), rp_Manifests = 0, rp_Errors = diagnostics\<rparr>
        else
          (let state = buildValidationState documents in
           \<lparr>rp_Files = int (length files), rp_Manifests = int (length documents),
            rp_Errors = diagnostics @
              concat (map (\<lambda>d. validateManifest js v (md_Path d) (md_Document d) (md_Manifest d) state) documents)\<rparr>))"

end
