(* ===== verification/Json_Float.thy ===== *)
theory Json_Float
  imports Json_Encode Float64
begin

section \<open>encoding/json: floating point numbers\<close>

text \<open>
  A double is written with the fewest decimal digits that read back as the same double, in positional notation when its exponent is at least
  \<open>-6\<close> and below \<open>21\<close> and with an exponent otherwise; infinities and NaN have no JSON. The zero has no sign in this model of doubles.
\<close>

definition num_digits :: "int \<Rightarrow> int" where
  "num_digits n = int (length (show_uint n))"

text \<open>The exponent of the leading decimal digit.\<close>

definition ilog10 :: "rat \<Rightarrow> int" where
  "ilog10 x = (let (n, d) = quotient_of x; e = num_digits n - num_digits d in if x < 10 powi e then e - 1 else e)"

text \<open>The multiples of \<open>10 ^ k\<close> around \<open>x\<close> that read back as \<open>x\<close>, the nearer one if both do.\<close>

definition reads_back :: "rat \<Rightarrow> int \<Rightarrow> int \<Rightarrow> bool" where
  "reads_back x k m \<longleftrightarrow> to_float64 (of_int m * 10 powi k) = Fin x"

definition short_at :: "rat \<Rightarrow> int \<Rightarrow> int option" where
  "short_at x k =
     (let q = x / 10 powi k; down = reads_back x k \<lfloor>q\<rfloor>; up = reads_back x k \<lceil>q\<rceil> in
      if down \<and> up then Some (round_even q) else if down then Some \<lfloor>q\<rfloor> else if up then Some \<lceil>q\<rceil> else None)"

fun shortest_loop :: "nat \<Rightarrow> rat \<Rightarrow> int \<Rightarrow> int \<times> int" where
  "shortest_loop 0 x k = (round_even (x / 10 powi k), k)"
| "shortest_loop (Suc n) x k = (case short_at x k of Some m \<Rightarrow> (m, k) | None \<Rightarrow> shortest_loop n x (k - 1))"

text \<open>Seventeen digits determine a double, so the loop stops before its bound.\<close>

definition shortest :: "rat \<Rightarrow> int \<times> int" where
  "shortest x = shortest_loop 17 x (ilog10 x)"

text \<open>The digits of \<open>x\<close> and the exponent of the first: trailing zeros do not count.\<close>

definition strip_zeros :: "string \<Rightarrow> string" where
  "strip_zeros s = rev (dropWhile (\<lambda>c. c = CHR ''0'') (rev s))"

definition float_digits :: "rat \<Rightarrow> string \<times> int" where
  "float_digits x = (case shortest x of (m, k) \<Rightarrow> let s = show_uint m in (strip_zeros s, k + int (length s) - 1))"

definition positional :: "string \<Rightarrow> int \<Rightarrow> string" where
  "positional ds e =
     (if e < 0 then ''0.'' @ replicate (nat (- e - 1)) CHR ''0'' @ ds
      else let whole = take (nat (e + 1)) ds; frac = drop (nat (e + 1)) ds in
        whole @ replicate (nat (e + 1) - length whole) CHR ''0'' @ (if frac = [] then [] else CHR ''.'' # frac))"

text \<open>The encoder writes an exponent of one digit without its leading zero when it is negative; a positive one has two digits already.\<close>

definition scientific :: "string \<Rightarrow> int \<Rightarrow> string" where
  "scientific ds e =
     take 1 ds @ (if drop 1 ds = [] then [] else CHR ''.'' # drop 1 ds) @ (if e < 0 then ''e-'' else ''e+'') @ show_uint \<bar>e\<bar>"

definition json_float64 :: "float64 \<Rightarrow> error + string" where
  "json_float64 x =
     (case x of
        Fin q \<Rightarrow>
          if q = 0 then Inr ''0''
          else case float_digits \<bar>q\<bar> of (ds, e) \<Rightarrow>
            Inr ((if q < 0 then ''-'' else []) @ (if e < - 6 \<or> 21 \<le> e then scientific ds e else positional ds e))
      | _ \<Rightarrow> Inl (Foreign ''json: unsupported value''))"

lemma json_float64_examples:
  "json_float64 (Fin 95) = Inr ''95''" "json_float64 PInf = Inl (Foreign ''json: unsupported value'')"
  by code_simp+

end
