(* ===== verification/Apply.thy ===== *)
theory Apply
  imports Validator Json_Float Http
begin

section \<open>Configuration as code: applying manifests\<close>

text \<open>
  \<open>internal/configcode/apply.go\<close>: manifests are brought to the control plane in the order of their kinds, each by looking first at what is there.
  The network is the one of \<open>Http\<close>; a step that was begun is reported also when it fails, so the operations return a step, the error if
  there is one, and the versions known by name.
\<close>

record ApplyOptions =
  ao_BaseURL :: string
  ao_Token :: string
  ao_DryRun :: bool
  ao_IncludeRollouts :: bool

record ApplyStep =
  as_Kind :: Kind
  as_Name :: string
  as_Action :: string
  as_Status :: string
  as_Message :: string

type_synonym ApplyReport = "ApplyStep list"

subsection \<open>Requests and responses\<close>

definition omit_empty :: "string \<Rightarrow> string \<Rightarrow> (error + string) list" where
  "omit_empty name v = (if v = [] then [] else [Inr (json_field name (json_string v))])"

definition omit_zero :: "string \<Rightarrow> int \<Rightarrow> (error + string) list" where
  "omit_zero name v = (if v = 0 then [] else [Inr (json_field name (show_int v))])"

definition field_of :: "string \<Rightarrow> error + string \<Rightarrow> error + string" where
  "field_of name r = map_sum id (json_field name) r"

definition object_of :: "(error + string) list \<Rightarrow> error + bytes" where
  "object_of ms = map_sum id json_object (collect ms)"

definition array_of :: "(error + string) list \<Rightarrow> error + bytes" where
  "array_of vs = map_sum id json_array (collect vs)"

definition createTenant_payload :: "string \<Rightarrow> TenantSpec \<Rightarrow> error + bytes" where
  "createTenant_payload name spec = object_of
     ([Inr (json_field ''id'' (json_string name)), Inr (json_field ''name'' (json_string (tsp_Name spec)))] @
      omit_empty ''description'' (tsp_Description spec) @ omit_empty ''owner'' (tsp_Owner spec))"

definition createDefinition_payload :: "ConfigDefinitionSpec \<Rightarrow> error + bytes" where
  "createDefinition_payload spec = object_of
     ([Inr (json_field ''key'' (json_string (dsp_Key spec)))] @ omit_empty ''description'' (dsp_Description spec) @
      [field_of ''schema'' (json_RawJSON (dsp_Schema spec))] @
      (if dsp_Default spec = [] then [] else [field_of ''default'' (json_RawJSON (dsp_Default spec))]))"

definition createVersion_payload :: "ConfigVersionSpec \<Rightarrow> error + bytes" where
  "createVersion_payload spec = object_of
     ([field_of ''value'' (json_RawJSON (vsp_Value spec))] @ omit_empty ''source_commit_sha'' (vsp_SourceCommitSHA spec) @
      omit_empty ''created_by'' (vsp_CreatedBy spec))"

definition setStableVersion_payload :: "int \<Rightarrow> error + bytes" where
  "setStableVersion_payload number = object_of [Inr (json_field ''version_number'' (show_int number))]"

text \<open>Stages and guardrails carry no JSON names, so their members have the names of the Go fields.\<close>

definition stage_payload :: "RolloutStage \<Rightarrow> error + bytes" where
  "stage_payload stage = object_of
     [Inr (json_field ''ID'' (json_string (rst_ID stage))), Inr (json_field ''Percentage'' (show_int (rst_Percentage stage))),
      Inr (json_field ''MinimumDurationSeconds'' (show_int (rst_MinimumDurationSeconds stage)))]"

definition guardrail_payload :: "GuardrailRule \<Rightarrow> error + bytes" where
  "guardrail_payload rule = object_of
     [Inr (json_field ''Name'' (json_string (gru_Name rule))), Inr (json_field ''Query'' (json_string (gru_Query rule))),
      Inr (json_field ''Operator'' (json_string (gru_Operator rule))), field_of ''Threshold'' (json_float64 (gru_Threshold rule)),
      Inr (json_field ''ConsecutiveFailures'' (show_int (gru_ConsecutiveFailures rule)))]"

definition createRollout_payload :: "RolloutSpec \<Rightarrow> int \<Rightarrow> error + bytes" where
  "createRollout_payload spec candidate = object_of
     ([Inr (json_field ''tenant_id'' (json_string (rsp_Tenant spec))), Inr (json_field ''key'' (json_string (rsp_Key spec))),
       Inr (json_field ''environment'' (json_string (rsp_Environment spec))), Inr (json_field ''candidate_version'' (show_int candidate))] @
      (if rsp_TargetServices spec = [] then []
       else [Inr (json_field ''target_services'' (json_array (map json_string (rsp_TargetServices spec))))]) @
      (if rsp_Stages spec = [] then [] else [field_of ''stages'' (array_of (map stage_payload (rsp_Stages spec)))]) @
      (if rsp_Guardrails spec = [] then [] else [field_of ''guardrails'' (array_of (map guardrail_payload (rsp_Guardrails spec)))]) @
      (if f64_eq (rsp_RequiredAckPercentage spec) (Fin 0) then []
       else [field_of ''required_ack_percentage'' (json_float64 (rsp_RequiredAckPercentage spec))]) @
      omit_zero ''deployment_timeout_seconds'' (rsp_DeploymentTimeoutSeconds spec) @
      omit_zero ''rollout_max_duration_seconds'' (rsp_RolloutMaxDurationSeconds spec) @
      omit_zero ''rollback_timeout_seconds'' (rsp_RollbackTimeoutSeconds spec))"

record apply_definitionResponse =
  adr_Schema :: RawJSON
  adr_DefaultValue :: RawJSON

record apply_versionResponse =
  avr_ID :: string
  avr_VersionNumber :: int
  avr_Value :: RawJSON

definition tenantResponse_reader :: "string decoder" where
  "tenantResponse_reader = dec_struct False [(''id'', dec_string)]"

definition definitionResponse_reader :: "apply_definitionResponse decoder" where
  "definitionResponse_reader = dec_struct False
     [(''schema'', dec_field adr_Schema adr_Schema_update dec_RawJSON),
      (''default'', dec_field adr_DefaultValue adr_DefaultValue_update dec_RawJSON)]"

definition zero_versionResponse :: apply_versionResponse where
  "zero_versionResponse = \<lparr>avr_ID = [], avr_VersionNumber = 0, avr_Value = []\<rparr>"

definition versionResponse_reader :: "apply_versionResponse decoder" where
  "versionResponse_reader = dec_struct False
     [(''id'', dec_field avr_ID avr_ID_update dec_string),
      (''version_number'', dec_field avr_VersionNumber avr_VersionNumber_update dec_int64),
      (''value'', dec_field avr_Value avr_Value_update dec_RawJSON)]"

definition environmentStateResponse_reader :: "string decoder" where
  "environmentStateResponse_reader = dec_struct False [(''stable_version_id'', dec_string)]"

subsection \<open>Talking to the control plane\<close>

definition apply_url :: "ApplyOptions \<Rightarrow> string \<Rightarrow> string" where
  "apply_url o' path = TrimRight_slash (ao_BaseURL o') @ path"

definition authorize :: "ApplyOptions \<Rightarrow> (string, string) gomap \<Rightarrow> (string, string) gomap" where
  "authorize o' header =
     (if TrimSpace (ao_Token o') \<noteq> [] then gomap_set ''Authorization'' (''Bearer '' @ ao_Token o') header else header)"

text \<open>The status, and what was decoded if it is 200; of another answer at most 1024 bytes are read.\<close>

definition apply_get :: "'n HttpClient \<Rightarrow> ApplyOptions \<Rightarrow> string \<Rightarrow> 'a decoder \<Rightarrow> 'a \<Rightarrow> ('n, int \<times> 'a) M" where
  "apply_get client o' path dec zero =
     (let req = \<lparr>hreq_Method = ''GET'', hreq_URL = apply_url o' path, hreq_Header = authorize o' [], hreq_Body = []\<rparr> in
      bindM (checkM (hc_NewRequest client (hreq_URL req))) (\<lambda>_.
      bindM (hc_Do client req) (\<lambda>resp.
      if hresp_StatusCode resp = 200 then
        bindM (liftE (decode_body dec zero (hresp_Body resp))) (\<lambda>dst. retM (hresp_StatusCode resp, dst))
      else
        bindM (liftE (read_limited 1024 (hresp_Body resp))) (\<lambda>_. retM (hresp_StatusCode resp, zero)))))"

text \<open>The answer is given to \<open>dst\<close> when its status is the expected one: \<open>discard_body\<close> for a nil destination, \<open>decode_body\<close> for another.\<close>

definition discard_body :: "bytes \<times> error option \<Rightarrow> error + unit" where
  "discard_body body = (case snd body of None \<Rightarrow> Inr () | Some e \<Rightarrow> Inl e)"

definition apply_post ::
  "'n HttpClient \<Rightarrow> ApplyOptions \<Rightarrow> string \<Rightarrow> error + bytes \<Rightarrow> int \<Rightarrow> (bytes \<times> error option \<Rightarrow> error + 'a) \<Rightarrow> ('n, 'a) M" where
  "apply_post client o' path payload expectedStatus dst =
     bindM (liftE payload) (\<lambda>body.
     let req = \<lparr>hreq_Method = ''POST'', hreq_URL = apply_url o' path,
                hreq_Header = authorize o' [(''Content-Type'', ''application/json'')], hreq_Body = body\<rparr> in
     bindM (checkM (hc_NewRequest client (hreq_URL req))) (\<lambda>_.
     bindM (hc_Do client req) (\<lambda>resp.
     if hresp_StatusCode resp \<noteq> expectedStatus then
       bindM (liftE (read_limited 2048 (hresp_Body resp))) (\<lambda>body.
       raiseM (Errorf ''POST %s returned status %d: %s'' [FS path, FD (hresp_StatusCode resp), FS (TrimSpace body)]))
     else liftE (dst (hresp_Body resp)))))"

definition config_path :: "string \<Rightarrow> string \<Rightarrow> string" where
  "config_path tenant key = ''/v1/tenants/'' @ PathEscape_segment tenant @ ''/configs/'' @ PathEscape_segment key"

definition stablePath :: "string \<Rightarrow> string \<Rightarrow> string \<Rightarrow> string" where
  "stablePath tenant key environment = config_path tenant key @ ''/environments/'' @ PathEscape_segment environment @ ''/stable''"

definition apply_listVersions :: "'n HttpClient \<Rightarrow> ApplyOptions \<Rightarrow> string \<Rightarrow> string \<Rightarrow> ('n, apply_versionResponse list) M" where
  "apply_listVersions client o' tenant key =
     bindM (apply_get client o' (config_path tenant key @ ''/versions'') (dec_slice zero_versionResponse versionResponse_reader) [])
       (\<lambda>(status, versions).
        if status \<noteq> 200 then raiseM (Errorf ''list config versions %s/%s returned status %d'' [FS tenant, FS key, FD status])
        else retM versions)"

subsection \<open>One manifest\<close>

type_synonym known_versions = "(string, apply_versionResponse) gomap"

definition begun :: "Manifest \<Rightarrow> string \<Rightarrow> ApplyStep" where
  "begun m action = \<lparr>as_Kind = mf_Kind m, as_Name = mf_Name m, as_Action = action, as_Status = [], as_Message = []\<rparr>"

definition ended :: "Manifest \<Rightarrow> string \<Rightarrow> string \<Rightarrow> string \<Rightarrow> ApplyStep" where
  "ended m action status message = (begun m action)\<lparr>as_Status := status, as_Message := message\<rparr>"

definition applyTenant :: "'n HttpClient \<Rightarrow> ApplyOptions \<Rightarrow> Manifest \<Rightarrow> ('n, ApplyStep) M" where
  "applyTenant client o' m =
     (let name = mf_Name m in
      bindM (apply_get client o' (''/v1/tenants/'' @ PathEscape_segment name) tenantResponse_reader []) (\<lambda>(status, _).
      if status = 200 then retM (ended m ''create'' ''skipped'' ''tenant already exists'')
      else if status \<noteq> 404 then raiseM (Errorf ''get tenant %q returned status %d'' [FQ name, FD status])
      else
        bindM (apply_post client o' ''/v1/tenants'' (createTenant_payload name (mf_Tenant m)) 201 discard_body) (\<lambda>_.
        retM (ended m ''create'' ''applied'' ''tenant created''))))"

definition applyDefinition :: "'n HttpClient \<Rightarrow> ApplyOptions \<Rightarrow> Manifest \<Rightarrow> ('n, ApplyStep) M" where
  "applyDefinition client o' m =
     (let spec = mf_ConfigDefinition m; tenant = dsp_Tenant spec; key = dsp_Key spec in
      bindM (apply_get client o' (config_path tenant key) definitionResponse_reader \<lparr>adr_Schema = [], adr_DefaultValue = []\<rparr>)
        (\<lambda>(status, existing).
      if status = 200 then
        (if \<not> EqualJSON (adr_Schema existing) (dsp_Schema spec) then
           raiseM (Errorf ''config definition %s/%s already exists with different schema'' [FS tenant, FS key])
         else if 0 < length (dsp_Default spec) \<and> \<not> EqualJSON (adr_DefaultValue existing) (dsp_Default spec) then
           raiseM (Errorf ''config definition %s/%s already exists with different default'' [FS tenant, FS key])
         else retM (ended m ''create'' ''skipped'' ''config definition already exists''))
      else if status \<noteq> 404 then
        raiseM (Errorf ''get config definition %s/%s returned status %d'' [FS tenant, FS key, FD status])
      else
        bindM (apply_post client o' (''/v1/tenants/'' @ PathEscape_segment tenant @ ''/configs'') (createDefinition_payload spec) 201 discard_body)
          (\<lambda>_. retM (ended m ''create'' ''applied'' ''config definition created''))))"

definition applyVersion ::
  "'n HttpClient \<Rightarrow> ApplyOptions \<Rightarrow> Manifest \<Rightarrow> known_versions \<Rightarrow> ('n, ApplyStep \<times> known_versions) M" where
  "applyVersion client o' m known =
     (let spec = mf_ConfigVersion m; tenant = vsp_Tenant spec; key = vsp_Key spec in
      bindM (apply_listVersions client o' tenant key) (\<lambda>versions.
      case find (\<lambda>version. EqualJSON (avr_Value version) (vsp_Value spec)) versions of
        Some version \<Rightarrow>
          retM (ended m ''create'' ''skipped''
                  (error_text (Errorf ''matching config version already exists as version %d'' [FD (avr_VersionNumber version)])),
                gomap_set (mf_Name m) version known)
      | None \<Rightarrow>
          bindM (apply_post client o' (config_path tenant key @ ''/versions'') (createVersion_payload spec) 201
                   (decode_body versionResponse_reader zero_versionResponse)) (\<lambda>created.
          retM (ended m ''create'' ''applied'' (error_text (Errorf ''config version %d created'' [FD (avr_VersionNumber created)])),
                gomap_set (mf_Name m) created known))))"

definition applyStableVersion :: "'n HttpClient \<Rightarrow> ApplyOptions \<Rightarrow> Manifest \<Rightarrow> known_versions \<Rightarrow> ('n, ApplyStep) M" where
  "applyStableVersion client o' m known =
     (let spec = mf_StableVersion m; tenant = ssp_Tenant spec; key = ssp_Key spec; environment = ssp_Environment spec in
      case gomap_get known (ssp_VersionRef spec) of
        None \<Rightarrow> raiseM (Errorf ''versionRef %q was not applied'' [FQ (ssp_VersionRef spec)])
      | Some desiredVersion \<Rightarrow>
          bindM (apply_get client o' (stablePath tenant key environment) environmentStateResponse_reader []) (\<lambda>(status, stableVersionID).
          if status = 200 \<and> stableVersionID = avr_ID desiredVersion then retM (ended m ''set'' ''skipped'' ''stable version already set'')
          else if status \<noteq> 200 \<and> status \<noteq> 404 then
            raiseM (Errorf ''get stable version %s/%s/%s returned status %d'' [FS tenant, FS key, FS environment, FD status])
          else
            bindM (apply_post client o' (stablePath tenant key environment) (setStableVersion_payload (avr_VersionNumber desiredVersion)) 200
                     discard_body) (\<lambda>_.
            retM (ended m ''set'' ''applied'' ''stable version set''))))"

definition applyRollout :: "'n HttpClient \<Rightarrow> ApplyOptions \<Rightarrow> Manifest \<Rightarrow> known_versions \<Rightarrow> ('n, ApplyStep) M" where
  "applyRollout client o' m known =
     (let spec = mf_Rollout m in
      case gomap_get known (rsp_CandidateVersionRef spec) of
        None \<Rightarrow> raiseM (Errorf ''candidateVersionRef %q was not applied'' [FQ (rsp_CandidateVersionRef spec)])
      | Some candidateVersion \<Rightarrow>
          bindM (apply_post client o' ''/v1/rollouts'' (createRollout_payload spec (avr_VersionNumber candidateVersion)) 201 discard_body) (\<lambda>_.
          retM (ended m ''start'' ''applied'' ''rollout started'')))"

definition plannedAction :: "Kind \<Rightarrow> string" where
  "plannedAction kind = (if kind = KindStableVersion then ''set'' else if kind = KindRollout then ''start'' else ''create'')"

subsection \<open>A run\<close>

text \<open>The report has the step that failed: what had been begun, or the empty step for an unknown kind.\<close>

definition failed_step :: "Manifest \<Rightarrow> ApplyStep" where
  "failed_step m =
     (if mf_Kind m \<in> {KindTenant, KindConfigDefinition, KindConfigVersion, KindStableVersion, KindRollout}
      then begun m (plannedAction (mf_Kind m))
      else \<lparr>as_Kind = [], as_Name = [], as_Action = [], as_Status = [], as_Message = []\<rparr>)"

definition keeping :: "known_versions \<Rightarrow> ('n, ApplyStep) M \<Rightarrow> ('n, ApplyStep \<times> known_versions) M" where
  "keeping known f = bindM f (\<lambda>step. retM (step, known))"

definition applyDocument ::
  "'n HttpClient \<Rightarrow> ApplyOptions \<Rightarrow> Manifest \<Rightarrow> known_versions \<Rightarrow> ('n, ApplyStep \<times> known_versions) M" where
  "applyDocument client o' m known =
     (if ao_DryRun o' then retM (ended m (plannedAction (mf_Kind m)) ''planned'' ''dry run'', known)
      else if mf_Kind m = KindTenant then keeping known (applyTenant client o' m)
      else if mf_Kind m = KindConfigDefinition then keeping known (applyDefinition client o' m)
      else if mf_Kind m = KindConfigVersion then applyVersion client o' m known
      else if mf_Kind m = KindStableVersion then keeping known (applyStableVersion client o' m known)
      else if mf_Kind m = KindRollout then
        (if \<not> ao_IncludeRollouts o' then retM (ended m ''start'' ''skipped'' ''rollout requires --include-rollouts'', known)
         else keeping known (applyRollout client o' m known))
      else raiseM (Errorf ''unsupported manifest kind %q'' [FQ (mf_Kind m)]))"

definition orderDocuments :: "ManifestDocument list \<Rightarrow> ManifestDocument list" where
  "orderDocuments documents =
     concat (map (\<lambda>kind. filter (\<lambda>document. mf_Kind (md_Manifest document) = kind) documents)
       [KindTenant, KindConfigDefinition, KindConfigVersion, KindStableVersion, KindRollout])"

fun apply_steps ::
  "'n HttpClient \<Rightarrow> ApplyOptions \<Rightarrow> ManifestDocument list \<Rightarrow> known_versions \<Rightarrow> 'n \<Rightarrow> (ApplyReport \<times> error option) \<times> 'n" where
  "apply_steps client o' [] known w = (([], None), w)"
| "apply_steps client o' (document # documents) known w =
     (case applyDocument client o' (md_Manifest document) known w of
        (Inl e, w') \<Rightarrow> (([failed_step (md_Manifest document)], Some e), w')
      | (Inr (step, known'), w') \<Rightarrow>
          (case apply_steps client o' documents known' w' of ((steps, err), w'') \<Rightarrow> ((step # steps, err), w'')))"

definition ApplyDocuments ::
  "'n HttpClient \<Rightarrow> ApplyOptions \<Rightarrow> ManifestDocument list \<Rightarrow> 'n \<Rightarrow> (ApplyReport \<times> error option) \<times> 'n" where
  "ApplyDocuments client o' documents w =
     (if TrimSpace (ao_BaseURL o') = [] \<and> \<not> ao_DryRun o' then (([], Some (New ''control-plane URL is required'')), w)
      else apply_steps client o' (orderDocuments documents) [] w)"

definition diagnosticsError :: "Diagnostic list \<Rightarrow> error" where
  "diagnosticsError ds = New (join_with [CHR 0x0A] (map Diagnostic_String ds))"

definition ApplyPaths ::
  "file_tree \<Rightarrow> 'y yaml_node \<Rightarrow> (bytes \<Rightarrow> 'y yaml_document list) \<Rightarrow> 'n HttpClient \<Rightarrow> ApplyOptions \<Rightarrow> string list \<Rightarrow> 'n \<Rightarrow>
   (ApplyReport \<times> error option) \<times> 'n" where
  "ApplyPaths fs Y yaml client o' paths w =
     (case LoadManifestDocuments fs Y yaml paths of (documents, _, diagnostics) \<Rightarrow>
        if 0 < length diagnostics then (([], Some (diagnosticsError diagnostics)), w)
        else ApplyDocuments client o' documents w)"

end
