(* ===== verification/Json_Roundtrip.thy ===== *)
theory Json_Roundtrip
  imports Json_Decode
begin

section \<open>encoding/json: what is written is read back\<close>

text \<open>
  A text that the encoder writes for a value is read by the parser as a tree of this value, whatever follows it. Strings come back with
  the bytes that are no UTF-8 replaced; strings in UTF-8 come back as they are.
\<close>

subsection \<open>Strings\<close>

function sanitize :: "string \<Rightarrow> string" where
  "sanitize s =
     (if s = [] then []
      else if rune_len s = 0 then utf8_encode replacement_rune @ sanitize (drop 1 s)
      else take (rune_len s) s @ sanitize (drop (rune_len s) s))"
  by pat_completeness auto
termination
  by (relation "measure length") auto

declare sanitize.simps [simp del]

function valid_utf8 :: "string \<Rightarrow> bool" where
  "valid_utf8 s = (if s = [] then True else if rune_len s = 0 then False else valid_utf8 (drop (rune_len s) s))"
  by pat_completeness auto
termination
  by (relation "measure length") auto

declare valid_utf8.simps [simp del]

lemma sanitize_valid: "valid_utf8 s \<Longrightarrow> sanitize s = s"
proof (induction s rule: valid_utf8.induct)
  case (1 s)
  show ?case
  proof (cases "s = []")
    case False
    then have n: "rune_len s \<noteq> 0" "valid_utf8 (drop (rune_len s) s)"
      using "1.prems" valid_utf8.simps [of s] by (auto split: if_splits)
    with 1 False have "sanitize (drop (rune_len s) s) = drop (rune_len s) s" by blast
    then show ?thesis using n False sanitize.simps [of s] by simp
  qed (simp add: sanitize.simps)
qed

lemma byte_of_range: "0 \<le> byte_of c" "byte_of c < 256"
  using nat_of_char_less_256 [of c] of_nat_of_char [of c, where 'a = int] unfolding byte_of_def by linarith+

lemma byte_of_inj: "byte_of c = byte_of d \<longleftrightarrow> c = d"
  by (simp add: byte_of_def)

lemma rune_split:
  assumes "0 < rune_len s"
  obtains p t where "s = p @ t" "length p = rune_len s" "\<And>u. rune_len (p @ u) = rune_len s"
    "1 < rune_len s \<Longrightarrow> \<forall>c \<in> set p. 128 \<le> byte_of c"
proof -
  obtain a s1 where s: "s = a # s1" using assms by (cases s) auto
  define x where "x = byte_of a"
  note d = s x_def [symmetric] Let_def
  consider "x < 128" | "194 \<le> x" "x \<le> 223" | "224 \<le> x" "x \<le> 239" | "240 \<le> x" "x \<le> 244"
    using assms unfolding s by (fastforce simp: x_def Let_def split: if_splits)
  then show thesis
  proof cases
    case 1
    then show thesis using that [of "[a]" s1] by (simp add: d)
  next
    case 2
    then obtain b s2 where "s1 = b # s2" "utf8_cont b"
      using assms by (auto simp: d split: list.splits if_splits)
    then show thesis using 2 that [of "[a, b]" s2] by (simp add: d utf8_cont_def)
  next
    case 3
    then obtain b c s2 where "s1 = b # c # s2"
      and ok: "utf8_cont b \<and> utf8_cont c \<and> (x = 224 \<longrightarrow> 160 \<le> byte_of b) \<and> (x = 237 \<longrightarrow> byte_of b \<le> 159)"
      using assms by (auto simp: d split: list.splits if_splits)
    moreover have "rune_len (a # b # c # u) = 3" for u using 3 ok by (simp add: d)
    ultimately show thesis using 3 ok that [of "[a, b, c]" s2] by (simp add: s x_def utf8_cont_def del: rune_len.simps)
  next
    case 4
    then obtain b c e s2 where "s1 = b # c # e # s2"
      and ok: "utf8_cont b \<and> utf8_cont c \<and> utf8_cont e \<and> (x = 240 \<longrightarrow> 144 \<le> byte_of b) \<and> (x = 244 \<longrightarrow> byte_of b \<le> 143)"
      using assms by (auto simp: d split: list.splits if_splits)
    moreover have "rune_len (a # b # c # e # u) = 4" for u using 4 ok by (simp add: d)
    ultimately show thesis using 4 ok that [of "[a, b, c, e]" s2] by (simp add: s x_def utf8_cont_def del: rune_len.simps)
  qed
qed

text \<open>The pieces the encoder writes: the scanner passes over each, and unescaping restores it.\<close>

definition passes :: "string \<Rightarrow> bool" where
  "passes p \<longleftrightarrow> (\<forall>t. scan_string (p @ t) = map_option (\<lambda>x. (p @ fst x, snd x)) (scan_string t))"

definition restores :: "string \<Rightarrow> string \<Rightarrow> bool" where
  "restores p x \<longleftrightarrow> (\<forall>t. unescape (p @ t) = map_option (\<lambda>u. x @ u) (unescape t))"

lemma passes_append: "passes p \<Longrightarrow> passes q \<Longrightarrow> passes (p @ q)"
  by (simp add: passes_def option.map_comp comp_def)

lemma passes_Nil [simp]: "passes []"
  by (simp add: passes_def option.map_ident)

definition plain_char :: "char \<Rightarrow> bool" where
  "plain_char c \<longleftrightarrow> c \<noteq> CHR 0x22 \<and> c \<noteq> CHR 0x5C \<and> 32 \<le> byte_of c"

lemma passes_plain: "list_all plain_char p \<Longrightarrow> passes p"
proof (induction p)
  case (Cons c p)
  then have "passes p" "c \<noteq> CHR 0x22 \<and> c \<noteq> CHR 0x5C \<and> 32 \<le> byte_of c" by (auto simp: plain_char_def)
  then show ?case by (simp add: passes_def option.map_comp comp_def case_prod_beta)
qed simp

lemma passes_escape: "passes q \<Longrightarrow> passes (CHR 0x5C # c # q)"
  by (simp add: passes_def option.map_comp comp_def case_prod_beta byte_of_def)

lemma restores_append: "restores p x \<Longrightarrow> restores q y \<Longrightarrow> restores (p @ q) (x @ y)"
  by (simp add: restores_def option.map_comp comp_def)

lemma restores_Nil [simp]: "restores [] []"
  by (simp add: restores_def option.map_ident)

lemma restores_simple: "simple_escape c = Some d \<Longrightarrow> c \<noteq> CHR ''u'' \<Longrightarrow> restores [CHR 0x5C, c] [d]"
  by (simp add: restores_def unescape.simps [of "CHR 0x5C # c # t" for t])

lemma restores_unicode:
  assumes "hex4 h = Some r" "length h = 4" "\<not> surrogate r"
  shows "restores (CHR 0x5C # CHR ''u'' # h) (utf8_encode r)"
proof -
  have "unicode_escape (h @ t) = Some (r, 4)" for t
  proof -
    obtain a b c d where "h = [a, b, c, d]" using assms(2) by (auto simp: length_Suc_conv numeral_eq_Suc)
    with assms show ?thesis by (simp add: unicode_escape_def)
  qed
  then show ?thesis using assms(2) by (simp add: restores_def unescape.simps [of "CHR 0x5C # CHR ''u'' # h @ t" for t])
qed

lemma restores_rune:
  assumes "0 < length p" "\<And>u. rune_len (p @ u) = length p" "hd p \<noteq> CHR 0x5C"
  shows "restores p p"
proof -
  have "p \<noteq> []" using assms(1) by auto
  then have "unescape (p @ t) = map_option (\<lambda>u. p @ u) (unescape t)" for t
    using assms(2) [of t] assms(3) unescape.simps [of "p @ t"] by (simp del: rune_len.simps)
  then show ?thesis by (simp add: restores_def)
qed

lemma hex_digits_facts:
  "\<forall>n < 16. hex_value (hex_digit n) = Some (int n) \<and> plain_char (hex_digit n)"
  by code_simp

lemma hex_value_digit: "n < 16 \<Longrightarrow> hex_value (hex_digit n) = Some (int n)"
  using hex_digits_facts by blast

lemma char_of_byte [simp]: "char_of (byte_of c) = c"
  by (simp add: byte_of_def)

lemma escape_ascii_pieces:
  assumes "byte_of c < 128"
  shows "passes (escape_ascii c)" "restores (escape_ascii c) [c]"
proof -
  have r: "0 \<le> byte_of c" by (rule byte_of_range)
  define d where "d = hd (tl (escape_ascii c))"
  define N where "N = [CHR 0x22, CHR 0x5C, CHR 0x08, CHR 0x0C, CHR 0x0A, CHR 0x0D, CHR 0x09]"
  have "escape_ascii c = [CHR 0x5C, d] \<and> simple_escape d = Some c \<and> d \<noteq> CHR ''u''" if "c \<in> set N"
    using that unfolding d_def N_def by (auto simp: escape_ascii_def simple_escape_def)
  moreover have "escape_ascii c = (if byte_of c < 32 \<or> c = CHR ''<'' \<or> c = CHR ''>'' \<or> c = CHR ''&''
      then CHR 0x5C # CHR ''u'' # [CHR ''0'', CHR ''0'', hex_digit (nat (byte_of c div 16)), hex_digit (nat (byte_of c mod 16))]
      else [c])" if "c \<notin> set N"
    using that unfolding N_def by (simp add: escape_ascii_def)
  ultimately consider (named) "escape_ascii c = [CHR 0x5C, d]" "simple_escape d = Some c" "d \<noteq> CHR ''u''"
    | (hex) "escape_ascii c = CHR 0x5C # CHR ''u'' # [CHR ''0'', CHR ''0'', hex_digit (nat (byte_of c div 16)), hex_digit (nat (byte_of c mod 16))]"
    | (plain) "escape_ascii c = [c]" "plain_char c"
    unfolding N_def plain_char_def by (cases "c \<in> set N") (fastforce simp: N_def split: if_splits)+
  then have "passes (escape_ascii c) \<and> restores (escape_ascii c) [c]"
  proof cases
    case named
    then show ?thesis by (simp add: passes_escape restores_simple)
  next
    case hex
    define h where "h = [CHR ''0'', CHR ''0'', hex_digit (nat (byte_of c div 16)), hex_digit (nat (byte_of c mod 16))]"
    have n: "0 \<le> byte_of c div 16" "byte_of c div 16 < 16" using assms r by (simp_all add: pos_imp_zdiv_nonneg_iff)
    have z: "hex_value (CHR ''0'') = Some 0" by code_simp
    have "hex4 h = Some (byte_of c)"
      unfolding h_def using n by (simp add: hex_value_digit nat_less_iff z)
    then have "restores (escape_ascii c) (utf8_encode (byte_of c))"
      using restores_unicode [of h "byte_of c"] assms r hex unfolding h_def [symmetric] by (simp add: surrogate_def h_def)
    moreover have "utf8_encode (byte_of c) = [c]" using assms by (simp add: utf8_encode_def)
    moreover have "passes h"
      unfolding h_def using n hex_digits_facts by (intro passes_plain) (simp add: nat_less_iff plain_char_def [of "CHR ''0''"] byte_of_def [of "CHR ''0''"])
    ultimately show ?thesis using hex h_def by (simp add: passes_escape)
  next
    case plain
    have "restores [c] [c]" using assms plain by (intro restores_rune) (auto simp: Let_def plain_char_def)
    then show ?thesis using plain by (simp add: passes_plain)
  qed
  then show "passes (escape_ascii c)" "restores (escape_ascii c) [c]" by blast+
qed

lemma replacement_pieces:
  "passes ([CHR 0x5C] @ ''ufffd'')" "restores ([CHR 0x5C] @ ''ufffd'') (utf8_encode replacement_rune)"
  using passes_escape [OF passes_plain [of "''fffd''"], of "CHR ''u''"] restores_unicode [of "''fffd''" replacement_rune]
  by (simp_all add: byte_of_def hex_value_def Let_def replacement_rune_def surrogate_def plain_char_def)

lemma line_separator_pieces:
  assumes "line_separator s = Some e" "rune_len s = 3"
  shows "passes e" "restores e (take 3 s)"
proof -
  have enc: "utf8_encode 8232 = [CHR 0xE2, CHR 0x80, CHR 0xA8]" "utf8_encode 8233 = [CHR 0xE2, CHR 0x80, CHR 0xA9]" by code_simp+
  have "passes ([CHR 0x5C] @ ''u2028'')" "passes ([CHR 0x5C] @ ''u2029'')"
    using passes_escape [OF passes_plain [of "''2028''"], of "CHR ''u''"] passes_escape [OF passes_plain [of "''2029''"], of "CHR ''u''"]
    by (simp_all add: byte_of_def plain_char_def)
  moreover have "restores ([CHR 0x5C] @ ''u2028'') [CHR 0xE2, CHR 0x80, CHR 0xA8]" "restores ([CHR 0x5C] @ ''u2029'') [CHR 0xE2, CHR 0x80, CHR 0xA9]"
    using restores_unicode [of "''2028''" 8232] restores_unicode [of "''2029''" 8233] enc
    by (simp_all add: byte_of_def hex_value_def Let_def surrogate_def)
  ultimately show "passes e" "restores e (take 3 s)" using assms(1) by (auto simp: line_separator_def split: if_splits)
qed

lemma escape_string_pieces: "passes (escape_string s) \<and> restores (escape_string s) (sanitize s)"
proof (induction s rule: escape_string.induct)
  case (1 s)
  consider "s = []" | "s \<noteq> []" "rune_len s = 0" | "s \<noteq> []" "rune_len s = 1" | "s \<noteq> []" "1 < rune_len s" by linarith
  then show ?case
  proof cases
    case 1
    then show ?thesis by (simp add: escape_string.simps sanitize.simps)
  next
    case 2
    note e = escape_string.simps [of s] sanitize.simps [of s]
    have IH: "passes (escape_string (drop 1 s))" "restores (escape_string (drop 1 s)) (sanitize (drop 1 s))" using "1.IH"(1) 2 by auto
    show ?thesis
      using passes_append [OF replacement_pieces(1) IH(1)] restores_append [OF replacement_pieces(2) IH(2)] 2 e by simp
  next
    case 3
    then obtain a s1 where s: "s = a # s1" by (cases s) auto
    have "byte_of a < 128" using 3 unfolding s by (auto simp: Let_def split: list.splits if_splits)
    then have p: "passes (escape_ascii a)" "restores (escape_ascii a) [a]" by (rule escape_ascii_pieces)+
    have IH: "passes (escape_string s1)" "restores (escape_string s1) (sanitize s1)" using "1.IH"(2) 3 s by auto
    show ?thesis
      using passes_append [OF p(1) IH(1)] restores_append [OF p(2) IH(2)] 3 escape_string.simps [of s] sanitize.simps [of s] s by simp
  next
    case 4
    define n where "n = rune_len s"
    from 4 obtain p t where split: "s = p @ t" "length p = n" "\<And>u. rune_len (p @ u) = n" "\<forall>c \<in> set p. 128 \<le> byte_of c"
      unfolding n_def by (metis rune_split zero_less_one order.strict_trans)
    have n: "1 < n" "rune_len s = n" "take n s = p" "drop n s = t" using 4(2) split(1,2) n_def by (simp, simp, simp_all)
    have IH: "passes (escape_string t)" "restores (escape_string t) (sanitize t)" using "1.IH"(3) 4 n by auto
    define e where "e = (case line_separator s of Some e \<Rightarrow> e | None \<Rightarrow> p)"
    have "passes p"
      using split(4) by (intro passes_plain) (auto simp: list_all_iff plain_char_def byte_of_def)
    moreover have "restores p p"
    proof (rule restores_rune)
      show "hd p \<noteq> CHR 0x5C" using split(2,4) n by (cases p) (auto simp: byte_of_def)
    qed (use split(2,3) n in simp_all)
    moreover have "passes e'" "restores e' p" if "line_separator s = Some e'" for e'
    proof -
      have "n = 3" using that n(2) by (cases s) (auto simp: line_separator_def Let_def utf8_cont_def byte_of_def take_Suc_conv_app_nth split: if_splits list.splits)
      with that line_separator_pieces [OF that] n show "passes e'" "restores e' p" by auto
    qed
    ultimately have "passes e" "restores e p" unfolding e_def by (auto split: option.splits)
    then show ?thesis
      using passes_append [OF _ IH(1)] restores_append [OF _ IH(2)] 4 n escape_string.simps [of s] sanitize.simps [of s] unfolding e_def by auto
  qed
qed

lemma scan_json_string: "scan_scalar (json_string s @ r) = Some (JString (sanitize s), r)"
proof -
  have "scan_string (escape_string s @ CHR 0x22 # r) = Some (escape_string s, r)"
    using escape_string_pieces [of s] by (simp add: passes_def)
  moreover have "unescape (escape_string s @ []) = Some (sanitize s @ [])"
    using escape_string_pieces [of s] unfolding restores_def by (metis unescape.simps [of "[]"] option.map(2))
  ultimately show ?thesis by (simp add: scan_scalar_def json_string_def)
qed

subsection \<open>Values\<close>

text \<open>\<open>writes d t v\<close>: the text \<open>t\<close> is read as \<open>v\<close>, \<open>d\<close> levels of nesting being left, whatever delimiter follows.\<close>

definition delimited :: "string \<Rightarrow> bool" where
  "delimited r \<longleftrightarrow> r = [] \<or> hd r \<in> {CHR '','', CHR 0x5D, CHR 0x7D}"

definition starts_value :: "string \<Rightarrow> bool" where
  "starts_value t \<longleftrightarrow> t \<noteq> [] \<and> \<not> json_space (hd t) \<and> hd t \<notin> {CHR '','', CHR 0x5D, CHR 0x7D}"

definition writes :: "int \<Rightarrow> string \<Rightarrow> json \<Rightarrow> bool" where
  "writes d t v \<longleftrightarrow> starts_value t \<and> (\<forall>n r. length t < n \<longrightarrow> delimited r \<longrightarrow> parse_value n d (t @ r) = Some (v, r))"

lemma skip_space_starts: "starts_value t \<Longrightarrow> skip_space (t @ r) = t @ r"
  by (cases t) (auto simp: starts_value_def skip_space_def)

lemma skip_space_Cons: "\<not> json_space c \<Longrightarrow> skip_space (c # r) = c # r"
  by (simp add: skip_space_def)

lemma delimiters_no_space [simp]:
  "\<not> json_space CHR '',''" "\<not> json_space CHR 0x5D" "\<not> json_space CHR 0x7D" "\<not> json_space CHR '':''" "\<not> json_space CHR 0x22"
  "\<not> json_space CHR 0x5B" "\<not> json_space CHR 0x7B"
  by (simp_all add: json_space_def)

lemma consumed_append [simp]: "consumed (t @ r) r = t"
  by (simp add: consumed_def)

lemma writes_starts: "writes d t v \<Longrightarrow> starts_value t"
  by (simp add: writes_def)

lemma writes_parse: "writes d t v \<Longrightarrow> length t < n \<Longrightarrow> delimited r \<Longrightarrow> parse_value n d (t @ r) = Some (v, r)"
  by (simp add: writes_def)

lemma writes_scalar:
  assumes "starts_value t" "hd t \<noteq> CHR 0x7B" "hd t \<noteq> CHR 0x5B" "\<And>r. delimited r \<Longrightarrow> scan_scalar (t @ r) = Some (v, r)"
  shows "writes d t v"
proof -
  obtain c t' where "t = c # t'" using assms(1) by (cases t) (auto simp: starts_value_def)
  then have "parse_value n d (t @ r) = Some (v, r)" if "length t < n" "delimited r" for n r
    using assms that by (cases n) auto
  with assms(1) show ?thesis by (simp add: writes_def)
qed

lemma writes_string: "writes d (json_string s) (JString (sanitize s))"
proof (rule writes_scalar)
  show "scan_scalar (json_string s @ r) = Some (JString (sanitize s), r)" for r by (rule scan_json_string)
qed (simp_all add: starts_value_def json_string_def)

lemma length_json_string: "2 \<le> length (json_string s)"
  by (simp add: json_string_def)

text \<open>Numbers.\<close>

lemma show_uint_json: "0 \<le> n \<Longrightarrow> list_all json_digit (show_uint n)"
  using show_uint_digits [of n] by (auto simp: list_all_iff json_digit_def)

lemma show_uint_nonempty: "show_uint n \<noteq> []"
  by (subst show_uint.simps) simp

lemma dec_digit_0: "dec_digit 0 = CHR ''0''"
  by code_simp

lemma dec_digit_nonzero: "0 < n \<Longrightarrow> n < 10 \<Longrightarrow> dec_digit n \<noteq> CHR ''0''"
  using of_char_dec_digit [of n] by (auto dest: arg_cong [where f = "of_char :: char \<Rightarrow> int"])

lemma show_uint_lead: "0 < n \<Longrightarrow> show_uint n \<noteq> [] \<and> hd (show_uint n) \<noteq> CHR ''0''"
proof (induction n rule: show_uint.induct)
  case (1 n)
  show ?case
  proof (cases "n < 10")
    case True
    then show ?thesis using 1(2) dec_digit_nonzero by (simp add: show_uint.simps [of n])
  next
    case False
    then have "show_uint (n div 10) \<noteq> [] \<and> hd (show_uint (n div 10)) \<noteq> CHR ''0''" using 1 by auto
    then show ?thesis using False show_uint.simps [of n] by auto
  qed
qed

lemma digits_delimited: "list_all json_digit ds \<Longrightarrow> r = [] \<or> \<not> json_digit (hd r) \<Longrightarrow> digits (ds @ r) = (ds, r)"
  by (cases r) (auto simp: digits_def list_all_iff takeWhile_append dropWhile_append)

lemma delimited_no_digit: "delimited r \<Longrightarrow> r = [] \<or> \<not> json_digit (hd r)"
  by (auto simp: delimited_def json_digit_def)

lemma scan_integer_shown: "0 \<le> n \<Longrightarrow> delimited r \<Longrightarrow> scan_integer (show_uint n @ r) = Some (show_uint n, r)"
proof (cases "n = 0")
  case True
  then show ?thesis by (simp add: show_uint.simps [of 0] scan_integer_def dec_digit_0)
next
  case False
  assume "0 \<le> n" "delimited r"
  with False have l: "show_uint n \<noteq> []" "hd (show_uint n) \<noteq> CHR ''0''" "list_all json_digit (show_uint n)"
    using show_uint_lead [of n] show_uint_json [of n] by auto
  then obtain c ds where c: "show_uint n = c # ds" "c \<noteq> CHR ''0''" "json_digit c" by (cases "show_uint n") auto
  have "digits (show_uint n @ r) = (show_uint n, r)" by (rule digits_delimited [OF l(3) delimited_no_digit [OF \<open>delimited r\<close>]])
  with c show ?thesis by (simp add: scan_integer_def)
qed

lemma no_more_number: "delimited r \<Longrightarrow> scan_fraction r = Some ([], r) \<and> scan_exponent r = Some ([], r)"
  by (cases r) (auto simp: scan_fraction_def scan_exponent_def delimited_def)

lemma scan_number_shown: "delimited r \<Longrightarrow> scan_number (show_int i @ r) = Some (show_int i, r)"
proof (cases "i < 0")
  case True
  assume "delimited r"
  with True show ?thesis
    using scan_integer_shown [of "- i" r] no_more_number [of r] by (simp add: scan_number_def show_int_def)
next
  case False
  assume r: "delimited r"
  obtain c ds where c: "show_uint i = c # ds" using show_uint_nonempty [of i] by (cases "show_uint i") auto
  then have "c \<noteq> CHR ''-''" using show_uint_json [of i] False by (auto simp: json_digit_def)
  with c r False show ?thesis
    using scan_integer_shown [of i r] no_more_number [of r] by (simp add: scan_number_def show_int_def)
qed

lemma writes_int: "writes d (show_int i) (JNumber (show_int i))"
proof (rule writes_scalar)
  have ne: "show_int i \<noteq> []" "hd (show_int i) = CHR ''-'' \<or> json_digit (hd (show_int i))"
    using show_uint_json [of i] show_uint_nonempty [of i] by (cases "show_uint i"; simp add: show_int_def)+
  then have h: "hd (show_int i) \<notin> {CHR '','', CHR 0x5D, CHR 0x7D, CHR 0x7B, CHR 0x5B, CHR 0x22, CHR ''t'', CHR ''f'', CHR ''n''} \<and> \<not> json_space (hd (show_int i))"
    by (auto simp: json_digit_def json_space_def)
  with ne show "starts_value (show_int i)" "hd (show_int i) \<noteq> CHR 0x7B" "hd (show_int i) \<noteq> CHR 0x5B" by (auto simp: starts_value_def)
  fix r
  assume "delimited r"
  then show "scan_scalar (show_int i @ r) = Some (JNumber (show_int i), r)"
    using h ne scan_number_shown [of r i] by (cases "show_int i") (auto simp: scan_scalar_def)
qed

text \<open>Objects and arrays.\<close>

definition fields_text :: "(string \<times> string \<times> json) list \<Rightarrow> string list" where
  "fields_text ms = map (\<lambda>(k, t, v). json_field k t) ms"

definition members_of :: "(string \<times> string \<times> json) list \<Rightarrow> (string \<times> string \<times> json) list" where
  "members_of ms = map (\<lambda>(k, t, v). (sanitize k, t, v)) ms"

lemma parse_member:
  assumes "writes d t v" "length t < n" "delimited r"
  shows "parse_members (Suc n) d (json_field k t @ r) =
    (let r3 = skip_space r in
     if take 1 r3 = '','' then
       (case parse_members n d (skip_space (drop 1 r3)) of None \<Rightarrow> None
        | Some (ms, r4) \<Rightarrow> Some ((sanitize k, t, v) # ms, r4))
     else if take 1 r3 = [CHR 0x7D] then Some ([(sanitize k, t, v)], drop 1 r3)
     else None)"
proof -
  have "scan_scalar (json_field k t @ r) = Some (JString (sanitize k), '':'' @ t @ r)"
    using scan_json_string [of k "'':'' @ t @ r"] by (simp add: json_field_def)
  moreover have "take 1 (json_field k t @ r) = [CHR 0x22]" by (simp add: json_field_def json_string_def)
  ultimately show ?thesis
    using assms writes_parse [OF assms] skip_space_starts [OF writes_starts [OF assms(1)]] by (simp add: skip_space_Cons Let_def split: option.split)
qed

lemma parse_members_text:
  "list_all (\<lambda>(k, t, v). writes d t v) (m # ms) \<Longrightarrow>
   length (concat (fields_text (m # ms))) + length ms < n \<Longrightarrow>
   parse_members n d (hd (fields_text (m # ms)) @ concat (map (\<lambda>g. CHR '','' # g) (fields_text ms)) @ CHR 0x7D # r) =
     Some (members_of (m # ms), r)"
proof (induction ms arbitrary: m n)
  case Nil
  obtain k t v where m: "m = (k, t, v)" by (cases m) auto
  from Nil obtain n' where n: "n = Suc n'" by (cases n) auto
  have "length t < n'" using Nil(2) length_json_string [of k] unfolding m n by (simp add: fields_text_def json_field_def)
  with parse_member [of d t v n' "CHR 0x7D # r" k] Nil(1) show ?case
    unfolding m n by (simp add: fields_text_def members_of_def delimited_def skip_space_Cons)
next
  case (Cons m' ms)
  obtain k t v where m: "m = (k, t, v)" by (cases m) auto
  from Cons obtain n' where n: "n = Suc n'" by (cases n) auto
  define rest where "rest = concat (map (\<lambda>g. CHR '','' # g) (fields_text ms)) @ CHR 0x7D # r"
  have l: "length t < n'" "length (concat (fields_text (m' # ms))) + length ms < n'"
    using Cons.prems(2) length_json_string [of k] unfolding m n by (simp_all add: fields_text_def json_field_def)
  have IH: "parse_members n' d (hd (fields_text (m' # ms)) @ rest) = Some (members_of (m' # ms), r)"
    using Cons.IH [of m' n'] Cons.prems(1) l(2) unfolding rest_def by simp
  obtain k' t' v' where m': "m' = (k', t', v')" by (cases m') auto
  have "starts_value (hd (fields_text (m' # ms)))" unfolding m' by (simp add: fields_text_def json_field_def json_string_def starts_value_def)
  then have sk: "skip_space (hd (fields_text (m' # ms)) @ rest) = hd (fields_text (m' # ms)) @ rest" by (rule skip_space_starts)
  have "parse_members n d (json_field k t @ CHR '','' # hd (fields_text (m' # ms)) @ rest) = Some ((sanitize k, t, v) # members_of (m' # ms), r)"
    unfolding n using Cons.prems(1) l(1) IH sk unfolding m
    by (subst parse_member [where v = v]) (simp_all add: delimited_def skip_space_Cons)
  then show ?case unfolding rest_def m by (simp add: fields_text_def members_of_def)
qed

text \<open>An object ends with its brace, whatever follows.\<close>

lemma parse_object_text:
  assumes "list_all (\<lambda>(k, t, v). writes (d - 1) t v) ms" "0 < d" "length (json_object (fields_text ms)) < n"
  shows "parse_value n d (json_object (fields_text ms) @ r) = Some (JObject (members_of ms), r)"
proof (cases ms)
  case Nil
  then show ?thesis using assms(2,3) by (cases n) (simp_all add: json_object_def fields_text_def members_of_def skip_space_Cons)
next
  case (Cons m ms')
  obtain k t v where m: "m = (k, t, v)" by (cases m) auto
  define body where "body = hd (fields_text ms) @ concat (map (\<lambda>g. CHR '','' # g) (fields_text ms'))"
  have shape: "json_object (fields_text ms) = CHR 0x7B # body @ [CHR 0x7D]"
    unfolding body_def Cons by (simp add: json_object_def fields_text_def)
  have len: "length (concat (fields_text ms)) + length ms' = length body"
    unfolding body_def Cons by (simp add: fields_text_def length_concat comp_def sum_list_Suc) 
  have "starts_value body" "hd body \<noteq> CHR 0x7D"
    unfolding body_def Cons m by (simp_all add: fields_text_def json_field_def json_string_def starts_value_def)
  then have sk: "skip_space (body @ q) = body @ q" "take 1 (body @ q) \<noteq> [CHR 0x7D]" for q
    by (simp_all add: skip_space_starts) (cases body; simp add: starts_value_def)
  from assms(3) obtain n' where n: "n = Suc n'" by (cases n) auto
  have "parse_members n' (d - 1) (body @ CHR 0x7D # r) = Some (members_of ms, r)"
    using parse_members_text [of "d - 1" m ms' n' r] assms(1,3) len unfolding n shape unfolding Cons body_def by simp
  then show ?thesis unfolding n shape using assms(2) sk [of "CHR 0x7D # r"] by simp
qed

lemma writes_object:
  assumes "list_all (\<lambda>(k, t, v). writes (d - 1) t v) ms" "0 < d"
  shows "writes d (json_object (fields_text ms)) (JObject (members_of ms))"
  using parse_object_text [OF assms] by (simp add: writes_def starts_value_def json_object_def)

lemma parse_elements_text:
  "list_all (\<lambda>(t, v). writes d t v) (x # xs) \<Longrightarrow>
   length (concat (map fst (x # xs))) + length xs + 1 < n \<Longrightarrow>
   parse_elements n d (fst x @ concat (map (\<lambda>y. CHR '','' # fst y) xs) @ CHR 0x5D # r) = Some (x # xs, r)"
proof (induction xs arbitrary: x n)
  case Nil
  obtain t v where x: "x = (t, v)" by (cases x) auto
  from Nil obtain n' where n: "n = Suc n'" by (cases n) auto
  have "parse_value n' d (t @ CHR 0x5D # r) = Some (v, CHR 0x5D # r)"
    using Nil unfolding x n by (intro writes_parse) (auto simp: delimited_def)
  then show ?case unfolding x n by (simp add: skip_space_Cons)
next
  case (Cons x' xs)
  obtain t v where x: "x = (t, v)" by (cases x) auto
  from Cons obtain n' where n: "n = Suc n'" by (cases n) auto
  define rest where "rest = fst x' @ concat (map (\<lambda>y. CHR '','' # fst y) xs) @ CHR 0x5D # r"
  have v: "parse_value n' d (t @ CHR '','' # rest) = Some (v, CHR '','' # rest)"
    using Cons.prems unfolding x n by (intro writes_parse) (auto simp: delimited_def)
  have IH: "parse_elements n' d rest = Some (x' # xs, r)"
    unfolding rest_def using Cons.prems unfolding n by (intro Cons.IH) (auto simp: x)
  have "skip_space rest = rest"
    unfolding rest_def using Cons.prems by (intro skip_space_starts) (auto intro: writes_starts)
  then have "parse_elements n d (t @ CHR '','' # rest) = Some ((t, v) # x' # xs, r)"
    unfolding n using v IH by (simp add: skip_space_Cons)
  then show ?case unfolding x rest_def by simp
qed

lemma writes_array:
  assumes "list_all (\<lambda>(t, v). writes (d - 1) t v) xs" "0 < d"
  shows "writes d (json_array (map fst xs)) (JArray xs)"
proof (cases xs)
  case Nil
  have "parse_value n d (json_array [] @ r) = Some (JArray [], r)" if "length (json_array []) < n" for n r
    using that assms(2) by (cases n) (simp_all add: json_array_def skip_space_Cons)
  then show ?thesis using Nil by (simp add: writes_def starts_value_def json_array_def)
next
  case (Cons x xs')
  define body where "body = fst x @ concat (map (\<lambda>y. CHR '','' # fst y) xs')"
  have shape: "json_array (map fst xs) = CHR 0x5B # body @ [CHR 0x5D]"
    unfolding body_def Cons by (simp add: json_array_def comp_def)
  have len: "length (concat (map fst xs)) + length xs' = length body"
    unfolding body_def Cons by (simp add: length_concat comp_def sum_list_Suc)
  have "starts_value (fst x)" using assms(1) unfolding Cons by (auto intro: writes_starts)
  then have "starts_value body" "hd body \<noteq> CHR 0x5D" unfolding body_def by (auto simp: starts_value_def)
  then have sk: "skip_space (body @ q) = body @ q" "take 1 (body @ q) \<noteq> [CHR 0x5D]" for q
    by (simp_all add: skip_space_starts) (cases body; simp add: starts_value_def)
  have "parse_value n d (json_array (map fst xs) @ r) = Some (JArray xs, r)" if "length (json_array (map fst xs)) < n" for n r
  proof -
    from that obtain n' where n: "n = Suc n'" by (cases n) auto
    have "parse_elements n' (d - 1) (body @ CHR 0x5D # r) = Some (xs, r)"
      using parse_elements_text [of "d - 1" x xs' n' r] assms(1) that len unfolding n shape unfolding Cons body_def by simp
    then show ?thesis unfolding n shape using assms(2) sk [of "CHR 0x5D # r"] by simp
  qed
  then show ?thesis by (simp add: writes_def shape starts_value_def)
qed

text \<open>A whole document.\<close>

lemma json_first_writes: "writes maxNestingDepth t v \<Longrightarrow> json_first t = Inr (t, v)"
proof -
  assume w: "writes maxNestingDepth t v"
  have "skip_space t = t" "t \<noteq> []"
    using skip_space_starts [OF writes_starts [OF w], of "[]"] writes_starts [OF w] by (auto simp: starts_value_def)
  moreover have "parse_value (fuel_for t) maxNestingDepth (t @ []) = Some (v, [])"
    by (rule writes_parse [OF w]) (simp_all add: fuel_for_def delimited_def)
  ultimately show ?thesis using consumed_append [of t "[]"] by (simp add: json_first_def)
qed

lemma json_first_object:
  assumes "list_all (\<lambda>(k, t, v). writes (maxNestingDepth - 1) t v) ms"
  shows "json_first (json_object (fields_text ms) @ r) = Inr (json_object (fields_text ms), JObject (members_of ms))"
proof -
  have "skip_space (json_object (fields_text ms) @ r) = json_object (fields_text ms) @ r"
    by (rule skip_space_starts) (simp add: starts_value_def json_object_def)
  moreover have "parse_value (fuel_for (json_object (fields_text ms) @ r)) maxNestingDepth (json_object (fields_text ms) @ r) =
      Some (JObject (members_of ms), r)"
    by (rule parse_object_text) (use assms in \<open>simp_all add: fuel_for_def maxNestingDepth_def\<close>)
  moreover have "json_object (fields_text ms) @ r \<noteq> []" by (simp add: json_object_def)
  ultimately show ?thesis using consumed_append [of "json_object (fields_text ms)" r] by (simp add: json_first_def Let_def)
qed

lemma json_Decode_writes: "writes maxNestingDepth t v \<Longrightarrow> json_Decode dec zero t = dec zero t v"
  by (simp add: json_Decode_def json_first_writes)

end
