(* ===== verification/Wire.thy ===== *)
theory Wire
  imports Agent_Sync Control_Handler Apply Json_Roundtrip Scenario
begin

section \<open>Messages between the programs\<close>

text \<open>
  What one program encodes, another decodes: an agent's registration and acknowledgements, and the requests of \<open>cfgctl apply\<close>, arrive at the
  control plane. \<open>Json_Roundtrip\<close> reads the texts of the encoders back as trees; here the decoders of the control plane run on these trees.
\<close>

named_theorems wire \<open>decoders on the trees of encoded values\<close>

lemma dec_string_JString [wire]: "dec_string old raw (JString s) = Inr s"
  by (simp add: dec_string_def)

lemma dec_int64_shown [wire]: "in_int64 i \<Longrightarrow> dec_int64 old raw (JNumber (show_int i)) = Inr i"
proof -
  assume "in_int64 i"
  moreover have "list_all json_digit (if take 1 (show_int i) = ''-'' then drop 1 (show_int i) else show_int i)"
  proof (cases "i < 0")
    case True
    then show ?thesis using show_uint_json [of "- i"] by (simp add: show_int_def)
  next
    case False
    then have "list_all json_digit (show_uint i)" by (simp add: show_uint_json)
    moreover from this have "take 1 (show_uint i) \<noteq> ''-''" by (cases "show_uint i") (auto simp: json_digit_def)
    ultimately show ?thesis using False by (simp add: show_int_def)
  qed
  ultimately show ?thesis by (simp add: dec_int64_def in_int64_def read_show_int)
qed

lemmas decode_wire = dec_struct_def find_field_def dec_field_def dec_string_JString dec_int64_shown

text \<open>A text for an object: the members with their texts and trees.\<close>

lemma read_object:
  assumes "list_all (\<lambda>(k, t, v). writes (maxNestingDepth - 1) t v) ms"
  shows "json_first (json_object (fields_text ms)) = Inr (json_object (fields_text ms), JObject (members_of ms))"
  using assms by (intro json_first_writes writes_object) (simp_all add: maxNestingDepth_def)

definition string_member :: "string \<Rightarrow> string \<Rightarrow> string \<times> string \<times> json" where
  "string_member k s = (k, json_string s, JString (sanitize s))"

definition int_member :: "string \<Rightarrow> int \<Rightarrow> string \<times> string \<times> json" where
  "int_member k i = (k, show_int i, JNumber (show_int i))"

lemma written_members [simp]:
  "case string_member k s of (k, t, v) \<Rightarrow> writes d t v" "case int_member k i of (k, t, v) \<Rightarrow> writes d t v"
  by (simp_all add: string_member_def int_member_def writes_string writes_int)

lemma fields_text_simps [simp]:
  "fields_text [] = []" "fields_text (string_member k s # ms) = json_field k (json_string s) # fields_text ms"
  "fields_text (int_member k i # ms) = json_field k (show_int i) # fields_text ms" "fields_text (ms @ ms') = fields_text ms @ fields_text ms'"
  by (simp_all add: fields_text_def string_member_def int_member_def)

lemma members_of_simps [simp]:
  "members_of [] = []" "members_of (string_member k s # ms) = (sanitize k, json_string s, JString (sanitize s)) # members_of ms"
  "members_of (int_member k i # ms) = (sanitize k, show_int i, JNumber (show_int i)) # members_of ms"
  "members_of (ms @ ms') = members_of ms @ members_of ms'"
  by (simp_all add: members_of_def string_member_def int_member_def)

lemma members_if [simp]:
  "fields_text (if b then ms else ms') = (if b then fields_text ms else fields_text ms')"
  "members_of (if b then ms else ms') = (if b then members_of ms else members_of ms')"
  by simp_all

lemma sanitize_ascii: "list_all (\<lambda>c. byte_of c < 128) s \<Longrightarrow> sanitize s = s"
proof (induction s)
  case (Cons c s)
  then show ?case by (subst sanitize.simps) (simp add: Let_def)
qed (simp add: sanitize.simps)

subsection \<open>Acknowledgements\<close>

definition ack_members :: "SnapshotItem \<Rightarrow> int \<Rightarrow> (string \<times> string \<times> json) list" where
  "ack_members item revision =
     (let asg = si_Assignment item; assigned = asg_RolloutID asg \<noteq> [] \<and> asg_StageID asg \<noteq> [] in
      [string_member ''config_definition_id'' (si_ConfigDefinitionID item)] @
      (if assigned then [string_member ''rollout_id'' (asg_RolloutID asg)] else []) @
      [int_member ''snapshot_revision'' revision] @
      (if assigned then [string_member ''stage_id'' (asg_StageID asg)] else []) @
      [string_member ''version_id'' (si_VersionID item)])"

lemma ack_payload_members: "ack_payload item revision = json_object (fields_text (ack_members item revision))"
  by (simp add: ack_payload_def ack_members_def Let_def)

definition received_ack :: "SnapshotItem \<Rightarrow> int \<Rightarrow> acknowledgementRequest" where
  "received_ack item revision =
     (let asg = si_Assignment item; assigned = asg_RolloutID asg \<noteq> [] \<and> asg_StageID asg \<noteq> [] in
      \<lparr>akq_ConfigDefinitionID = sanitize (si_ConfigDefinitionID item), akq_VersionID = sanitize (si_VersionID item),
       akq_SnapshotRevision = revision, akq_RolloutID = (if assigned then sanitize (asg_RolloutID asg) else []),
       akq_StageID = (if assigned then sanitize (asg_StageID asg) else [])\<rparr>)"

lemma ack_decoded:
  assumes "in_int64 revision"
  shows "decode_body acknowledgementRequest_decoder zero_acknowledgementRequest (ack_payload item revision, None) =
    Inr (received_ack item revision)"
proof -
  have "list_all (\<lambda>(k, t, v). writes (maxNestingDepth - 1) t v) (ack_members item revision)"
    by (simp add: ack_members_def Let_def)
  from read_object [OF this] show ?thesis
    unfolding ack_payload_members decode_body_def
    using assms by (simp add: ack_members_def received_ack_def Let_def acknowledgementRequest_decoder_def zero_acknowledgementRequest_def
        decode_wire sanitize_ascii byte_of_def)
qed

definition utf8_item :: "SnapshotItem \<Rightarrow> bool" where
  "utf8_item item \<longleftrightarrow> valid_utf8 (si_ConfigDefinitionID item) \<and> valid_utf8 (si_VersionID item) \<and>
     valid_utf8 (asg_RolloutID (si_Assignment item)) \<and> valid_utf8 (asg_StageID (si_Assignment item))"

lemma bearer_token: "cp_bearerToken (''Bearer '' @ token) = token"
  by (simp add: cp_bearerToken_def EqualFold_def)

lemmas bearer_token_cons [simp] = bearer_token [simplified]

text \<open>C24 (roundtrip). An acknowledgement that the agent's client puts on the wire for an item in UTF-8 arrives at the handler of the
  control plane as it was sent: the handler acknowledges with the agent's identifier, its token, the definition, the version and the revision,
  and when the item carried a rollout and a stage, it acknowledges to the rollout service with exactly these; the answer is 201 unless a
  service refuses.\<close>

theorem acknowledgements_arrive_as_sent:
  assumes "in_int64 revision" "utf8_item item" "cph_agents h = Some agents" "cph_rollouts h = Some rollouts"
  shows "h_agentAcknowledgement h agentID (''Bearer '' @ token) (ack_payload item revision, None) =
    tryM (ag_Acknowledge agents
        \<lparr>gai_AgentID = agentID, gai_Token = token, gai_ConfigDefinitionID = si_ConfigDefinitionID item,
         gai_VersionID = si_VersionID item, gai_SnapshotRevision = revision\<rparr>)
      (\<lambda>err. retM (cp_writeAgentError err))
      (\<lambda>ack. let answer = acknowledgementResponseFromDomain ack; asg = si_Assignment item in
         if asg_RolloutID asg \<noteq> [] \<and> asg_StageID asg \<noteq> [] then
           respond cp_writeRolloutError
             (ro_Acknowledge rollouts
               \<lparr>aki_RolloutID = asg_RolloutID asg, aki_StageID = asg_StageID asg, aki_AgentID = agentID,
                aki_VersionID = si_VersionID item, aki_SnapshotRevision = revision\<rparr>)
             (\<lambda>result. (201, AcknowledgementBody (answer\<lparr>akres_Rollout :=
                Some \<lparr>rakres_Counted = akr_Counted result, rakres_Decision = decision_text (akr_Decision result),
                      rakres_Coverage = coverageResponseFromDomain (akr_Coverage result)\<rparr>\<rparr>)))
         else retM (201, AcknowledgementBody answer))"
  using assms
  by (simp add: h_agentAcknowledgement_def decodeRequest_def ack_decoded received_ack_def ack_input_def rollout_ack_input_def
      utf8_item_def sanitize_valid Let_def)

definition demo_item :: SnapshotItem where
  "demo_item = \<lparr>si_ConfigDefinitionID = ''cfg-1'', si_Key = ''limits'', si_VersionID = [CHR 0xC3, CHR 0xA9, CHR 0x22, CHR 0x3C], si_Version = 2,
     si_Value = ''1'', si_Checksum = [], si_Assignment = \<lparr>asg_RolloutID = ''r-1'', asg_StageID = ''stage-5''\<rparr>\<rparr>"

theorem acknowledgements_arrive_as_sent_witness:
  "h_agentAcknowledgement (control_handler demo_config) ''a-1'' ''Bearer t'' (ack_payload demo_item 41, None) =
    tryM (ag_Acknowledge (agent_service demo_config)
        \<lparr>gai_AgentID = ''a-1'', gai_Token = ''t'', gai_ConfigDefinitionID = ''cfg-1'',
         gai_VersionID = [CHR 0xC3, CHR 0xA9, CHR 0x22, CHR 0x3C], gai_SnapshotRevision = 41\<rparr>)
      (\<lambda>err. retM (cp_writeAgentError err))
      (\<lambda>ack. respond cp_writeRolloutError
             (ro_Acknowledge (rollouts_service demo_config)
               \<lparr>aki_RolloutID = ''r-1'', aki_StageID = ''stage-5'', aki_AgentID = ''a-1'',
                aki_VersionID = [CHR 0xC3, CHR 0xA9, CHR 0x22, CHR 0x3C], aki_SnapshotRevision = 41\<rparr>)
             (\<lambda>result. (201, AcknowledgementBody ((acknowledgementResponseFromDomain ack)\<lparr>akres_Rollout :=
                Some \<lparr>rakres_Counted = akr_Counted result, rakres_Decision = decision_text (akr_Decision result),
                      rakres_Coverage = coverageResponseFromDomain (akr_Coverage result)\<rparr>\<rparr>))))"
proof -
  have "in_int64 41" "utf8_item demo_item" by (simp_all add: in_int64_def) code_simp
  from acknowledgements_arrive_as_sent [OF this, of "control_handler demo_config" "agent_service demo_config" "rollouts_service demo_config" "''a-1''" "''t''"]
  show ?thesis by (simp add: control_handler_def demo_item_def)
qed

subsection \<open>Registrations\<close>

definition utf8_labels :: "(string, string) gomap \<Rightarrow> bool" where
  "utf8_labels m \<longleftrightarrow> list_all (\<lambda>(k, v). valid_utf8 k \<and> valid_utf8 v) m"

definition label_members :: "(string, string) gomap \<Rightarrow> (string \<times> string \<times> json) list" where
  "label_members m = map (\<lambda>(k, v). string_member k v) (sort_key fst m)"

lemma json_string_map_members: "json_string_map m = json_object (fields_text (label_members m))"
  by (simp add: json_string_map_def label_members_def fields_text_def string_member_def comp_def split_def)

lemma written_labels: "list_all (\<lambda>(k, t, v). writes d t v) (label_members m)"
proof -
  have "list_all (\<lambda>(k, t, v). writes d t v) (map (\<lambda>(k, v). string_member k v) xs)" for xs
    by (induction xs) (auto simp: string_member_def writes_string)
  then show ?thesis by (simp add: label_members_def)
qed

lemma gomap_set_new: "k \<notin> fst ` set m \<Longrightarrow> gomap_set k v m = m @ [(k, v)]"
  by (induction m) (auto simp: gomap_set_def)

lemma dec_entries_labels:
  "distinct (map fst (old @ m)) \<Longrightarrow> utf8_labels m \<Longrightarrow>
   dec_entries [] dec_string old (members_of (map (\<lambda>(k, v). string_member k v) m)) = Inr (old @ m)"
proof (induction m arbitrary: old)
  case (Cons kv m)
  then show ?case by (cases kv) (auto simp: utf8_labels_def sanitize_valid dec_string_def gomap_set_new)
qed simp

definition labels_member :: "(string, string) gomap \<Rightarrow> string \<times> string \<times> json" where
  "labels_member m = (''labels'', json_string_map m, JObject (members_of (label_members m)))"

lemma labels_member_simps [simp]:
  "fields_text (labels_member m # ms) = json_field ''labels'' (json_string_map m) # fields_text ms"
  "members_of (labels_member m # ms) = (''labels'', json_string_map m, JObject (members_of (label_members m))) # members_of ms"
  by (simp_all add: fields_text_def members_of_def labels_member_def sanitize_ascii byte_of_def)

definition register_members :: "agent_RegisterInput \<Rightarrow> (string \<times> string \<times> json) list" where
  "register_members i =
     [string_member ''bootstrap_token'' (ari_BootstrapToken i)] @
     (if ari_ID i = [] then [] else [string_member ''id'' (ari_ID i)]) @
     [string_member ''service'' (ari_Service i), string_member ''environment'' (ari_Environment i)] @
     (if ari_Zone i = [] then [] else [string_member ''zone'' (ari_Zone i)]) @
     [string_member ''instance'' (ari_Instance i)] @
     (if ari_Labels i = [] then [] else [labels_member (ari_Labels i)])"

lemma register_payload_members: "RegisterInput_Marshal i = json_object (fields_text (register_members i))"
  by (simp add: RegisterInput_Marshal_def register_members_def omitempty_def)

definition utf8_registration :: "agent_RegisterInput \<Rightarrow> bool" where
  "utf8_registration i \<longleftrightarrow> list_all valid_utf8
     [ari_BootstrapToken i, ari_ID i, ari_Service i, ari_Environment i, ari_Zone i, ari_Instance i] \<and>
     utf8_labels (ari_Labels i) \<and> gomap_ok (ari_Labels i)"

lemma register_decoded:
  assumes "utf8_registration i"
  shows "decode_body registerAgentRequest_decoder zero_registerAgentRequest (RegisterInput_Marshal i, None) =
    Inr \<lparr>raq_BootstrapToken = ari_BootstrapToken i, raq_ID = ari_ID i, raq_Service = ari_Service i, raq_Environment = ari_Environment i,
         raq_Zone = ari_Zone i, raq_Instance = ari_Instance i, raq_Labels = sort_key fst (ari_Labels i)\<rparr>"
proof -
  have "writes (maxNestingDepth - 1) (json_string_map (ari_Labels i)) (JObject (members_of (label_members (ari_Labels i))))"
    unfolding json_string_map_members by (intro writes_object written_labels) (simp add: maxNestingDepth_def)
  then have "list_all (\<lambda>(k, t, v). writes (maxNestingDepth - 1) t v) (register_members i)"
    by (simp add: register_members_def) (simp add: labels_member_def)
  note read = read_object [OF this]
  have "distinct (map fst (sort_key fst (ari_Labels i)))" "utf8_labels (sort_key fst (ari_Labels i))"
    using assms by (auto simp: utf8_registration_def gomap_ok_def utf8_labels_def list_all_iff distinct_map inj_on_def)
  then have "dec_entries [] dec_string [] (members_of (label_members (ari_Labels i))) = Inr (sort_key fst (ari_Labels i))"
    unfolding label_members_def using dec_entries_labels [of "[]"] by simp
  then show ?thesis
    using assms read unfolding register_payload_members decode_body_def
    by (simp add: register_members_def registerAgentRequest_decoder_def zero_registerAgentRequest_def decode_wire dec_map_def sanitize_ascii
        byte_of_def utf8_registration_def sanitize_valid)
qed

text \<open>A registration that the agent's client puts on the wire with strings in UTF-8 is registered by the handler of the control
  plane with exactly the token, identifier, service, environment, zone, instance and labels that the agent gave.\<close>

theorem registrations_arrive_as_sent:
  assumes "utf8_registration i" "cph_agents h = Some agents"
  shows "h_registerAgent h (RegisterInput_Marshal i, None) =
    respond cp_writeAgentError
      (ag_Register agents
        \<lparr>rgi_BootstrapToken = ari_BootstrapToken i, rgi_ID = ari_ID i, rgi_Service = ari_Service i, rgi_Environment = ari_Environment i,
         rgi_Zone = ari_Zone i, rgi_Instance = ari_Instance i, rgi_Labels = sort_key fst (ari_Labels i)\<rparr>)
      (\<lambda>result. (201, RegisterBody (registerAgentResponseFromDomain result)))"
  using assms by (simp add: h_registerAgent_def decodeRequest_def register_decoded)

definition demo_registration :: agent_RegisterInput where
  "demo_registration = \<lparr>ari_BootstrapToken = ''boot'', ari_ID = [], ari_Service = ''svc'', ari_Environment = ''production'', ari_Zone = ''z&1'',
     ari_Instance = ''i-1'', ari_Labels = [(''tier'', ''web''), (''arch'', [CHR 0xC3, CHR 0xA9])]\<rparr>"

theorem registrations_arrive_as_sent_witness:
  "h_registerAgent (control_handler demo_config) (RegisterInput_Marshal demo_registration, None) =
    respond cp_writeAgentError
      (ag_Register (agent_service demo_config)
        \<lparr>rgi_BootstrapToken = ''boot'', rgi_ID = [], rgi_Service = ''svc'', rgi_Environment = ''production'', rgi_Zone = ''z&1'',
         rgi_Instance = ''i-1'', rgi_Labels = [(''arch'', [CHR 0xC3, CHR 0xA9]), (''tier'', ''web'')]\<rparr>)
      (\<lambda>result. (201, RegisterBody (registerAgentResponseFromDomain result)))"
proof -
  have "utf8_registration demo_registration" by code_simp
  moreover have "sort_key fst (ari_Labels demo_registration) = [(''arch'', [CHR 0xC3, CHR 0xA9]), (''tier'', ''web'')]" by code_simp
  ultimately show ?thesis
    using registrations_arrive_as_sent [of demo_registration "control_handler demo_config" "agent_service demo_config"]
    by (simp add: control_handler_def demo_registration_def)
qed

subsection \<open>Rollouts of \<open>cfgctl apply\<close>\<close>

text \<open>Of an object whose first members are known, a parser that succeeds has read these members, whatever the others are.\<close>

lemma parse_members_known:
  "list_all (\<lambda>(k, t, v). writes d t v) ms \<Longrightarrow> length (concat (map (\<lambda>f. f @ '','') (fields_text ms))) < n \<Longrightarrow>
   parse_members n d (concat (map (\<lambda>f. f @ '','') (fields_text ms)) @ r) = None \<or>
   (\<exists>ms' r'. parse_members n d (concat (map (\<lambda>f. f @ '','') (fields_text ms)) @ r) = Some (members_of ms @ ms', r'))"
proof (induction ms arbitrary: n)
  case Nil
  then show ?case by (cases "parse_members n d r") auto
next
  case (Cons m ms)
  obtain k t v where m: "m = (k, t, v)" by (cases m) auto
  define rest where "rest = concat (map (\<lambda>f. f @ '','') (fields_text ms)) @ r"
  from Cons.prems(2) obtain n' where n: "n = Suc n'" by (cases n) auto
  have len: "length t < n'" "length (concat (map (\<lambda>f. f @ '','') (fields_text ms))) < n'"
    using Cons.prems(2) length_json_string [of k] unfolding m n by (simp_all add: fields_text_def json_field_def)
  have "parse_members n d (json_field k t @ CHR '','' # rest) =
      (case parse_members n' d (skip_space rest) of None \<Rightarrow> None | Some (ms, r4) \<Rightarrow> Some ((sanitize k, t, v) # ms, r4))"
    unfolding n using Cons.prems(1) len(1) unfolding m by (subst parse_member [where v = v]) (simp_all add: delimited_def skip_space_Cons)
  moreover have "ms \<noteq> [] \<Longrightarrow> skip_space rest = rest"
    unfolding rest_def by (cases ms) (auto simp: fields_text_def json_field_def json_string_def skip_space_Cons)
  ultimately show ?case
    using Cons.IH [of n'] Cons.prems(1) len(2) unfolding m
    by (cases "ms = []"; cases "parse_members n' d (skip_space rest)")
      (auto simp: fields_text_def members_of_def rest_def)
qed

lemma json_object_known:
  assumes "list_all (\<lambda>(k, t, v). writes (maxNestingDepth - 1) t v) (m # ms)"
  shows "(\<exists>e. json_first (json_object (fields_text (m # ms) @ others)) = Inl e) \<or>
    (\<exists>raw ms'. json_first (json_object (fields_text (m # ms) @ others)) = Inr (raw, JObject (members_of (m # ms) @ ms')))"
proof (cases others)
  case Nil
  then show ?thesis using read_object [OF assms] by auto
next
  case (Cons f fs)
  define known where "known = concat (map (\<lambda>f. f @ '','') (fields_text (m # ms)))"
  define rest where "rest = f @ concat (map (\<lambda>g. CHR '','' # g) fs) @ [CHR 0x7D]"
  have shape: "json_object (fields_text (m # ms) @ others) = CHR 0x7B # known @ rest"
  proof -
    have commas: "concat (map (\<lambda>g. CHR '','' # g) (xs @ f # fs)) = CHR '','' # concat (map (\<lambda>f. f @ '','') xs) @ f @ concat (map (\<lambda>g. CHR '','' # g) fs)" for xs
      by (induction xs) auto
    show ?thesis using commas [of "fields_text ms"] unfolding known_def rest_def Cons json_object_def by (simp add: fields_text_def split_def)
  qed
  have "skip_space (known @ rest) = known @ rest" "take 1 (known @ rest) \<noteq> [CHR 0x7D]"
    unfolding known_def by (cases m; simp add: fields_text_def json_field_def json_string_def skip_space_Cons)+
  then have "parse_value (Suc n) maxNestingDepth (CHR 0x7B # known @ rest) =
      map_option (\<lambda>(ms, r'). (JObject ms, r')) (parse_members n (maxNestingDepth - 1) (known @ rest))" for n
    by (simp add: maxNestingDepth_def)
  moreover have "length known < 2 * length (CHR 0x7B # known @ rest) + 1" by simp
  ultimately show ?thesis
    using parse_members_known [OF assms, of "2 * length (CHR 0x7B # known @ rest) + 1" rest] unfolding shape known_def [symmetric]
    by (auto simp: json_first_def fuel_for_def skip_space_Cons Let_def)
qed

definition stage_members :: "RolloutStage \<Rightarrow> (string \<times> string \<times> json) list" where
  "stage_members stage = [string_member ''ID'' (rst_ID stage), int_member ''Percentage'' (rst_Percentage stage),
     int_member ''MinimumDurationSeconds'' (rst_MinimumDurationSeconds stage)]"

definition stage_value :: "RolloutStage \<Rightarrow> string \<times> json" where
  "stage_value stage = (json_object (fields_text (stage_members stage)), JObject (members_of (stage_members stage)))"

lemma stages_payload: "array_of (map stage_payload stages) = Inr (json_array (map fst (map stage_value stages)))"
proof -
  have "collect (map stage_payload stages) = Inr (map fst (map stage_value stages))"
    by (induction stages) (simp_all add: stage_payload_def object_of_def stage_value_def stage_members_def)
  then show ?thesis by (simp add: array_of_def)
qed

definition rollout_members :: "RolloutSpec \<Rightarrow> int \<Rightarrow> (string \<times> string \<times> json) list" where
  "rollout_members spec candidate =
     [string_member ''tenant_id'' (rsp_Tenant spec), string_member ''key'' (rsp_Key spec), string_member ''environment'' (rsp_Environment spec),
      int_member ''candidate_version'' candidate] @
     (if rsp_TargetServices spec = [] then []
      else [(''target_services'', json_array (map json_string (rsp_TargetServices spec)),
             JArray (map (\<lambda>s. (json_string s, JString (sanitize s))) (rsp_TargetServices spec)))]) @
     [(''stages'', json_array (map fst (map stage_value (rsp_Stages spec))), JArray (map stage_value (rsp_Stages spec)))]"

lemma stage_written: "0 < d \<Longrightarrow> writes d (fst (stage_value stage)) (snd (stage_value stage))"
  unfolding stage_value_def fst_conv snd_conv by (rule writes_object) (simp_all add: stage_members_def)

lemma rollout_members_written: "list_all (\<lambda>(k, t, v). writes (maxNestingDepth - 1) t v) (rollout_members spec candidate)"
proof -
  have "list_all (\<lambda>(t, v). writes (maxNestingDepth - 1 - 1) t v) (map stage_value (rsp_Stages spec))"
    using stage_written by (simp add: list_all_iff split_def maxNestingDepth_def)
  then have "writes (maxNestingDepth - 1) (json_array (map fst (map stage_value (rsp_Stages spec)))) (JArray (map stage_value (rsp_Stages spec)))"
    by (intro writes_array) (simp_all add: maxNestingDepth_def)
  moreover define xs where "xs = map (\<lambda>s. (json_string s, JString (sanitize s))) (rsp_TargetServices spec)"
  then have "list_all (\<lambda>(t, v). writes (maxNestingDepth - 1 - 1) t v) xs" by (auto simp: list_all_iff writes_string)
  then have "writes (maxNestingDepth - 1) (json_array (map fst xs)) (JArray xs)"
    by (intro writes_array) (simp_all add: maxNestingDepth_def)
  moreover have "map fst xs = map json_string (rsp_TargetServices spec)" by (simp add: xs_def comp_def)
  ultimately show ?thesis unfolding rollout_members_def xs_def [symmetric] by simp
qed

lemma rollout_payload_shape:
  assumes "createRollout_payload spec candidate = Inr body" "rsp_Stages spec \<noteq> []"
  obtains others where "body = json_object (fields_text (rollout_members spec candidate) @ others)"
proof -
  have collect_append: "collect (map Inr xs @ ys) = map_sum id (\<lambda>zs. xs @ zs) (collect ys)" for xs and ys :: "(error + string) list"
    by (cases "collect ys"; induction xs) auto
  define ys where "ys = (if rsp_Guardrails spec = [] then [] else [field_of ''guardrails'' (array_of (map guardrail_payload (rsp_Guardrails spec)))]) @
      (if f64_eq (rsp_RequiredAckPercentage spec) (Fin 0) then []
       else [field_of ''required_ack_percentage'' (json_float64 (rsp_RequiredAckPercentage spec))]) @
      omit_zero ''deployment_timeout_seconds'' (rsp_DeploymentTimeoutSeconds spec) @
      omit_zero ''rollout_max_duration_seconds'' (rsp_RolloutMaxDurationSeconds spec) @
      omit_zero ''rollback_timeout_seconds'' (rsp_RollbackTimeoutSeconds spec)"
  have "createRollout_payload spec candidate = object_of (map Inr (fields_text (rollout_members spec candidate)) @ ys)"
    unfolding createRollout_payload_def ys_def using assms(2)
    by (simp add: rollout_members_def stages_payload field_of_def) (simp add: fields_text_def)
  then have "createRollout_payload spec candidate = map_sum id json_object (map_sum id (\<lambda>zs. fields_text (rollout_members spec candidate) @ zs) (collect ys))"
    by (simp only: object_of_def collect_append)
  with assms(1) show thesis by (cases "collect ys") (auto intro: that)
qed

text \<open>The stages of a rollout are refused at their first member \<open>MinimumDurationSeconds\<close>, which the control plane does not know.\<close>

lemma stage_refused: "\<exists>e. createRolloutStage_decoder old raw (JObject (members_of (stage_members stage))) = Inl e"
proof -
  have "EqualFold ''id'' ''ID''" "EqualFold ''percentage'' ''Percentage''" "\<not> EqualFold ''id'' ''MinimumDurationSeconds''"
    "\<not> EqualFold ''percentage'' ''MinimumDurationSeconds''" "\<not> EqualFold ''minimum_duration_seconds'' ''MinimumDurationSeconds''"
    "\<not> EqualFold ''id'' ''Percentage''"
    by code_simp+
  then show ?thesis
    by (simp add: createRolloutStage_decoder_def stage_members_def dec_struct_def find_field_def dec_field_def dec_string_def sanitize_ascii byte_of_def
        split: sum.split)
qed

lemma stages_refused: "stages \<noteq> [] \<Longrightarrow> \<exists>e. dec_slice zero_createRolloutStage createRolloutStage_decoder [] raw (JArray (map stage_value stages)) = Inl e"
proof (cases stages)
  case (Cons stage rest)
  obtain e where "createRolloutStage_decoder zero_createRolloutStage (fst (stage_value stage)) (snd (stage_value stage)) = Inl e"
    using stage_refused [of zero_createRolloutStage] unfolding stage_value_def by auto
  then show ?thesis using Cons by (cases "stage_value stage") (simp add: dec_slice_def)
qed simp

lemma dec_members_fail:
  assumes "\<And>k raw v dec r x. (k, raw, v) \<in> set ps \<Longrightarrow> find_field fs k = Some dec \<Longrightarrow> P r \<Longrightarrow> dec r raw v = Inr x \<Longrightarrow> P x"
    and "find_field fs k = Some dec" "\<And>r. P r \<Longrightarrow> \<exists>e. dec r raw v = Inl e" "P old"
  shows "\<exists>e. dec_members True fs old (ps @ (k, raw, v) # ms) = Inl e"
  using assms(1,4)
proof (induction ps arbitrary: old)
  case Nil
  from assms(3) [OF Nil(2)] obtain e where "dec old raw v = Inl e" by blast
  then show ?case using assms(2) by simp
next
  case (Cons m ps)
  obtain k' raw' v' where m: "m = (k', raw', v')" by (cases m) auto
  show ?case
  proof (cases "find_field fs k'")
    case (Some dec')
    show ?thesis
    proof (cases "dec' old raw' v'")
      case (Inr x)
      then have "P x" using Cons.prems(1) [of k' raw' v' dec' old x] Some Cons.prems(2) m by simp
      moreover have "P x'" if "(k, raw, v) \<in> set ps" "find_field fs k = Some dec" "P r" "dec r raw v = Inr x'" for k raw v dec r x'
        using Cons.prems(1) [of k raw v dec r x'] that by simp
      ultimately have "\<exists>e. dec_members True fs x (ps @ (k, raw, v) # ms) = Inl e" by (intro Cons.IH) blast+
      then show ?thesis using Some Inr m by simp
    qed (use Some m in simp)
  qed (use m in simp)
qed

lemma rollout_request_refused:
  assumes "createRollout_payload spec candidate = Inr body" "rsp_Stages spec \<noteq> []"
  shows "\<exists>e. decode_body createRolloutRequest_decoder zero_createRolloutRequest (body, None) = Inl e"
proof -
  obtain others where body: "body = json_object (fields_text (rollout_members spec candidate) @ others)"
    using rollout_payload_shape [OF assms] .
  obtain m ms where ms: "rollout_members spec candidate = m # ms" by (cases "rollout_members spec candidate") (auto simp: rollout_members_def)
  define ps where "ps = members_of (butlast (rollout_members spec candidate))"
  have split: "members_of (rollout_members spec candidate) @ ms' =
      ps @ (''stages'', json_array (map fst (map stage_value (rsp_Stages spec))), JArray (map stage_value (rsp_Stages spec))) # ms'" for ms'
    unfolding ps_def rollout_members_def by (simp add: members_of_def sanitize_ascii byte_of_def butlast_append)
  have keys: "k \<in> {''tenant_id'', ''key'', ''environment'', ''candidate_version'', ''target_services''}" if "(k, raw, v) \<in> set ps" for k raw v
    using that unfolding ps_def rollout_members_def
    by (auto simp: butlast_append members_of_def string_member_def int_member_def sanitize_ascii byte_of_def split: if_splits)
  have "\<exists>e. createRolloutRequest_decoder zero_createRolloutRequest raw (JObject (members_of (rollout_members spec candidate) @ ms')) = Inl e" for raw ms'
    unfolding split createRolloutRequest_decoder_def dec_struct_def json.case
  proof (rule dec_members_fail [where P = "\<lambda>r. crq_Stages r = []" and
        dec = "dec_field crq_Stages crq_Stages_update (dec_slice zero_createRolloutStage createRolloutStage_decoder)"])
    show "crq_Stages zero_createRolloutRequest = []" by (simp add: zero_createRolloutRequest_def)
    show "\<exists>e. dec_field crq_Stages crq_Stages_update (dec_slice zero_createRolloutStage createRolloutStage_decoder) r
       (json_array (map fst (map stage_value (rsp_Stages spec)))) (JArray (map stage_value (rsp_Stages spec))) = Inl e" if "crq_Stages r = []" for r
      using stages_refused [OF assms(2), of "json_array (map fst (map stage_value (rsp_Stages spec)))"] that by (auto simp: dec_field_def)
  qed (auto simp: find_field_def dec_field_def dest!: keys split: sum.splits)
  then show ?thesis
    using json_object_known [OF rollout_members_written [of spec candidate, unfolded ms], of others] unfolding body ms decode_body_def by auto
qed

end
