(* ===== verification/Postgres.thy ===== *)
theory Postgres
  imports Wire
begin

section \<open>The PostgreSQL store\<close>

text \<open>
  \<open>internal/storage/postgres/store.go\<close> over the schema of \<open>migrations/\<close>. A statement is a function of the tables that checks, in the order of
  PostgreSQL, its parameters, the \<open>CHECK\<close> constraints, the unique indexes and the foreign keys, and fails with the code and the constraint that
  the driver reports. Outside the model stay: the connection, which may fail at any statement (\<open>pg_fault\<close>), \<open>JSONB\<close>, which turns a
  document into the text it is read back as, or refuses it (\<open>pg_jsonb\<close>), the collation texts are ordered by (\<open>pg_collate\<close> gives the sort key), and
  the order a scan meets rows that an \<open>ORDER BY\<close> does not tell apart (\<open>pg_scan\<close>). The tables hold what the columns keep: times in microseconds,
  durations in whole seconds, an empty default, stable version or acknowledgement time as NULL. Statements do not overlap; the source
  locks the definition's row while it numbers a version. Integers of more than 32 bits are refused by the driver for \<open>INTEGER\<close> columns.
\<close>

subsection \<open>Tables\<close>

record agent_row =
  pa_id :: string
  pa_service :: string
  pa_environment :: string
  pa_zone :: string
  pa_instance :: string
  pa_labels :: bytes
  pa_registered_at :: go_time
  pa_last_seen_at :: go_time

record rollout_row =
  pr_id :: string
  pr_tenant_id :: string
  pr_config_definition_id :: string
  pr_config_key :: string
  pr_environment :: string
  pr_target_services :: bytes
  pr_stable_version_id :: string
  pr_candidate_version_id :: string
  pr_candidate_version_number :: int
  pr_state :: string
  pr_current_stage_id :: string
  pr_current_stage_index :: int
  pr_required_ack_percentage :: float64
  pr_guardrails :: bytes
  pr_guardrail_failures :: bytes
  pr_stage_started_at :: go_time
  pr_deployment_timeout_seconds :: int
  pr_rollout_max_duration_seconds :: int
  pr_rollback_timeout_seconds :: int
  pr_rollback_status :: string
  pr_created_at :: go_time
  pr_updated_at :: go_time

record stage_row =
  ps_id :: string
  ps_rollout_id :: string
  ps_stage_order :: int
  ps_percentage :: int
  ps_minimum_duration_seconds :: int

record target_row =
  pt_rollout_id :: string
  pt_stage_id :: string
  pt_agent_id :: string
  pt_bucket :: int
  pt_expected_version_id :: string
  pt_snapshot_revision :: int
  pt_status :: string
  pt_created_at :: go_time
  pt_acked_at :: "go_time option"

record state_row =
  pe_config_definition_id :: string
  pe_environment :: string
  pe_stable_version_id :: "string option"
  pe_active_rollout_id :: string
  pe_updated_at :: go_time

record definition_row =
  pd_id :: string
  pd_tenant_id :: string
  pd_config_key :: string
  pd_description :: string
  pd_schema :: "bytes option"
  pd_default_value :: "bytes option"
  pd_created_at :: go_time
  pd_updated_at :: go_time

record pg_tables =
  db_agents :: "agent_row list"
  db_agent_credentials :: "AgentCredential list"
  db_agent_acknowledgements :: "AgentAcknowledgement list"
  db_tenants :: "Tenant list"
  db_config_definitions :: "definition_row list"
  db_config_versions :: "ConfigVersion list"
  db_config_environment_states :: "state_row list"
  db_rollouts_table :: "rollout_row list"
  db_rollout_stages :: "stage_row list"
  db_rollout_stage_targets :: "target_row list"
  db_snapshot_revisions :: int

definition empty_tables :: pg_tables where
  "empty_tables = \<lparr>db_agents = [], db_agent_credentials = [], db_agent_acknowledgements = [], db_tenants = [], db_config_definitions = [],
     db_config_versions = [], db_config_environment_states = [], db_rollouts_table = [], db_rollout_stages = [], db_rollout_stage_targets = [],
     db_snapshot_revisions = 1\<rparr>"

subsection \<open>Errors\<close>

text \<open>What a statement reports: no row, an error of the server with its code and constraint, or anything else.\<close>

datatype db_error = NoRows | PgError string string | Failure error

definition mapError :: "db_error \<Rightarrow> error" where
  "mapError err =
     (case err of
        NoRows \<Rightarrow> Sentinel configregistry_ErrNotFound
      | PgError code constraint \<Rightarrow>
          if code = ''23505'' then Errorf ''%w: %s'' [FW (Sentinel configregistry_ErrAlreadyExists), FS constraint]
          else if code = ''23503'' then Errorf ''%w: %s'' [FW (Sentinel configregistry_ErrNotFound), FS constraint]
          else if code = ''23514'' \<or> code = ''22P02'' then Errorf ''%w: %s'' [FW (Sentinel configregistry_ErrInvalidInput), FS constraint]
          else Foreign (''SQLSTATE '' @ code)
      | Failure e \<Rightarrow> e)"

definition mapAgentError :: "db_error \<Rightarrow> error" where
  "mapAgentError err =
     (case err of
        NoRows \<Rightarrow> Sentinel agentregistry_ErrNotFound
      | PgError code constraint \<Rightarrow>
          if code = ''23503'' then Errorf ''%w: %s'' [FW (Sentinel agentregistry_ErrNotFound), FS constraint]
          else if code = ''23514'' \<or> code = ''22P02'' then Errorf ''%w: %s'' [FW (Sentinel agentregistry_ErrInvalidInput), FS constraint]
          else Foreign (''SQLSTATE '' @ code)
      | Failure e \<Rightarrow> e)"

definition mapRolloutError :: "db_error \<Rightarrow> error" where
  "mapRolloutError err =
     (case err of
        NoRows \<Rightarrow> Sentinel rollout_ErrNotFound
      | PgError code constraint \<Rightarrow>
          if code = ''23505'' then Errorf ''%w: %s'' [FW (Sentinel rollout_ErrConflict), FS constraint]
          else if code = ''23503'' then Errorf ''%w: %s'' [FW (Sentinel rollout_ErrNotFound), FS constraint]
          else if code = ''23514'' \<or> code = ''22P02'' then Errorf ''%w: %s'' [FW (Sentinel rollout_ErrInvalidInput), FS constraint]
          else Foreign (''SQLSTATE '' @ code)
      | Failure e \<Rightarrow> e)"

subsection \<open>Running statements\<close>

record pg =
  pg_fault :: "nat \<Rightarrow> error option"
  pg_jsonb :: "bytes \<Rightarrow> db_error + bytes"
  pg_collate :: "string \<Rightarrow> string"
  pg_scan :: "nat \<Rightarrow> nat list"

record pg_db =
  pg_tables :: pg_tables
  pg_tick :: nat

definition pg_next :: "pg_db \<Rightarrow> pg_db" where
  "pg_next db = db\<lparr>pg_tick := Suc (pg_tick db)\<rparr>"

text \<open>\<open>pool.Exec\<close> and \<open>pool.QueryRow\<close>: one statement, whose error is mapped; a statement that fails changes nothing.\<close>

definition pg_exec :: "pg \<Rightarrow> (db_error \<Rightarrow> error) \<Rightarrow> (pg_tables \<Rightarrow> db_error + 'a \<times> pg_tables) \<Rightarrow> (pg_db, 'a) M" where
  "pg_exec pg mapErr stmt db =
     (case pg_fault pg (pg_tick db) of
        Some e \<Rightarrow> (Inl (mapErr (Failure e)), pg_next db)
      | None \<Rightarrow>
          (case stmt (pg_tables db) of
             Inl e \<Rightarrow> (Inl (mapErr e), pg_next db)
           | Inr (a, ts) \<Rightarrow> (Inr a, (pg_next db)\<lparr>pg_tables := ts\<rparr>)))"

definition pg_query :: "pg \<Rightarrow> (db_error \<Rightarrow> error) \<Rightarrow> (pg_tables \<Rightarrow> db_error + 'a) \<Rightarrow> (pg_db, 'a) M" where
  "pg_query pg mapErr q = pg_exec pg mapErr (\<lambda>ts. map_sum id (\<lambda>a. (a, ts)) (q ts))"

text \<open>\<open>pool.Begin\<close>, the statements of the body, \<open>Commit\<close>, and the deferred \<open>Rollback\<close>.\<close>

definition pg_tx :: "pg \<Rightarrow> (db_error \<Rightarrow> error) \<Rightarrow> (pg_db, 'a) M \<Rightarrow> (pg_db, 'a) M" where
  "pg_tx pg mapErr body db =
     (case pg_fault pg (pg_tick db) of
        Some e \<Rightarrow> (Inl (mapErr (Failure e)), pg_next db)
      | None \<Rightarrow>
          (case body (pg_next db) of
             (Inl e, db') \<Rightarrow> (Inl e, db'\<lparr>pg_tables := pg_tables db\<rparr>)
           | (Inr a, db') \<Rightarrow>
               (case pg_fault pg (pg_tick db') of
                  Some e \<Rightarrow> (Inl (mapErr (Failure e)), (pg_next db')\<lparr>pg_tables := pg_tables db\<rparr>)
                | None \<Rightarrow> (Inr a, pg_next db'))))"

text \<open>The checks of a statement in order, and its parameters: texts are UTF-8 without zero bytes, \<open>INTEGER\<close> has 32 bits.\<close>

fun guards :: "(bool \<times> db_error) list \<Rightarrow> 'a \<Rightarrow> db_error + 'a" where
  "guards [] x = Inr x"
| "guards ((ok, e) # gs) x = (if ok then guards gs x else Inl e)"

definition int4_args :: "int list \<Rightarrow> (bool \<times> db_error) list" where
  "int4_args ns = map (\<lambda>n. (- (2 ^ 31) \<le> n \<and> n < 2 ^ 31, Failure (Foreign ''unable to encode int4''))) ns"

definition text_args :: "string list \<Rightarrow> (bool \<times> db_error) list" where
  "text_args ss = map (\<lambda>s. (valid_utf8 s \<and> nul_free s, PgError ''22021'' [])) ss"

definition to_timestamptz :: "go_time \<Rightarrow> go_time" where
  "to_timestamptz t = t div 1000 * 1000"

definition row_with :: "('r \<Rightarrow> 'k) \<Rightarrow> 'k \<Rightarrow> 'r list \<Rightarrow> 'r option" where
  "row_with key k rows = find (\<lambda>r. key r = k) rows"

definition put_row :: "('r \<Rightarrow> 'k) \<Rightarrow> 'r \<Rightarrow> 'r list \<Rightarrow> 'r list" where
  "put_row key r rows = map (\<lambda>x. if key x = key r then r else x) rows"

definition one_row :: "'r option \<Rightarrow> db_error + 'r" where
  "one_row r = (case r of None \<Rightarrow> Inl NoRows | Some x \<Rightarrow> Inr x)"

definition env_check :: "string \<Rightarrow> string \<Rightarrow> bool \<times> db_error" where
  "env_check environment constraint = (valid_env environment, PgError ''23514'' constraint)"

definition references :: "bool \<Rightarrow> string \<Rightarrow> bool \<times> db_error" where
  "references ok constraint = (ok, PgError ''23503'' constraint)"

definition unique_key :: "bool \<Rightarrow> string \<Rightarrow> bool \<times> db_error" where
  "unique_key ok constraint = (ok, PgError ''23505'' constraint)"

definition check_column :: "bool \<Rightarrow> string \<Rightarrow> bool \<times> db_error" where
  "check_column ok constraint = (ok, PgError ''23514'' constraint)"

text \<open>\<open>time.Duration\<close> in whole seconds and back.\<close>

definition pg_durationSeconds :: "duration \<Rightarrow> int" where
  "pg_durationSeconds value = (if value \<le> 0 then 0 else value div Second)"

definition nullableJSON :: "bytes \<Rightarrow> bytes option" where
  "nullableJSON value = (if length value = 0 then None else Some value)"

definition nullableString :: "string \<Rightarrow> string option" where
  "nullableString value = (if value = [] then None else Some value)"

definition nullableTime :: "go_time \<Rightarrow> go_time option" where
  "nullableTime value = (if value = 0 then None else Some value)"

text \<open>A query for the row of a key, its texts being parameters, and one for all rows of a condition.\<close>

definition sql_lookup :: "string list \<Rightarrow> ('r \<Rightarrow> 'k) \<Rightarrow> 'k \<Rightarrow> 'r list \<Rightarrow> db_error + 'r" where
  "sql_lookup args key k rows =
     (case guards (text_args args) () of Inl e \<Rightarrow> Inl e | Inr _ \<Rightarrow> one_row (row_with key k rows))"

definition sql_select :: "string list \<Rightarrow> 'r list \<Rightarrow> db_error + 'r list" where
  "sql_select args rows = guards (text_args args) rows"

subsection \<open>Agents\<close>

definition sql_save_agent :: "pg \<Rightarrow> agent_row \<Rightarrow> pg_tables \<Rightarrow> db_error + unit \<times> pg_tables" where
  "sql_save_agent pg r ts =
     (case pg_jsonb pg (pa_labels r) of
        Inl e \<Rightarrow> Inl e
      | Inr labels \<Rightarrow>
          let r = r\<lparr>pa_labels := labels\<rparr> in
          guards (text_args [pa_id r, pa_service r, pa_environment r, pa_zone r, pa_instance r] @
                  [env_check (pa_environment r) ''agents_environment_check''])
            ((), ts\<lparr>db_agents :=
               (case row_with pa_id (pa_id r) (db_agents ts) of
                  None \<Rightarrow> db_agents ts @ [r]
                | Some old \<Rightarrow> put_row pa_id (r\<lparr>pa_registered_at := pa_registered_at old\<rparr>) (db_agents ts))\<rparr>))"

definition pg_SaveAgent :: "pg \<Rightarrow> Agent \<Rightarrow> (pg_db, unit) M" where
  "pg_SaveAgent pg agent =
     pg_exec pg mapAgentError (sql_save_agent pg
       \<lparr>pa_id = agent_ID agent, pa_service = agent_Service agent, pa_environment = agent_Environment agent, pa_zone = agent_Zone agent,
        pa_instance = agent_Instance agent, pa_labels = json_string_map (agent_Labels agent),
        pa_registered_at = to_timestamptz (agent_RegisteredAt agent), pa_last_seen_at = to_timestamptz (agent_LastSeenAt agent)\<rparr>)"

definition scanAgent :: "agent_row \<Rightarrow> error + Agent" where
  "scanAgent r =
     (case (if 0 < length (pa_labels r) then json_Unmarshal (dec_map [] dec_string) [] (pa_labels r) else Inr []) of
        Inl e \<Rightarrow> Inl e
      | Inr labels \<Rightarrow> Inr \<lparr>agent_ID = pa_id r, agent_Service = pa_service r, agent_Environment = pa_environment r, agent_Zone = pa_zone r,
          agent_Instance = pa_instance r, agent_Labels = labels, agent_RegisteredAt = pa_registered_at r, agent_LastSeenAt = pa_last_seen_at r\<rparr>)"

definition pg_GetAgent :: "pg \<Rightarrow> string \<Rightarrow> (pg_db, Agent) M" where
  "pg_GetAgent pg agentID =
     bindM (pg_query pg mapAgentError (\<lambda>ts. sql_lookup [agentID] pa_id agentID (db_agents ts))) (\<lambda>row. liftE (scanAgent row))"

definition pg_ListAgents :: "pg \<Rightarrow> (pg_db, Agent list) M" where
  "pg_ListAgents pg =
     bindM (pg_query pg mapAgentError (\<lambda>ts. sql_select [] (sort_key (\<lambda>r. pg_collate pg (pa_id r)) (db_agents ts)))) (\<lambda>rows. liftE (collect (map scanAgent rows)))"

definition sql_save_credential :: "AgentCredential \<Rightarrow> pg_tables \<Rightarrow> db_error + unit \<times> pg_tables" where
  "sql_save_credential c ts =
     guards (text_args [cred_Token c, cred_AgentID c] @
             [unique_key (row_with cred_Token (cred_Token c) (db_agent_credentials ts) = None) ''agent_credentials_pkey'',
              references (row_with pa_id (cred_AgentID c) (db_agents ts) \<noteq> None) ''agent_credentials_agent_id_fkey''])
       ((), ts\<lparr>db_agent_credentials := db_agent_credentials ts @ [c]\<rparr>)"

definition pg_SaveCredential :: "pg \<Rightarrow> AgentCredential \<Rightarrow> (pg_db, unit) M" where
  "pg_SaveCredential pg c =
     pg_exec pg mapAgentError (sql_save_credential
       (c\<lparr>cred_ExpiresAt := to_timestamptz (cred_ExpiresAt c), cred_CreatedAt := to_timestamptz (cred_CreatedAt c)\<rparr>))"

definition pg_GetCredential :: "pg \<Rightarrow> string \<Rightarrow> (pg_db, AgentCredential) M" where
  "pg_GetCredential pg token = pg_query pg mapAgentError (\<lambda>ts. sql_lookup [token] cred_Token token (db_agent_credentials ts))"

definition sql_touch_heartbeat :: "string \<Rightarrow> go_time \<Rightarrow> pg_tables \<Rightarrow> db_error + agent_row \<times> pg_tables" where
  "sql_touch_heartbeat agentID seenAt ts =
     (case sql_lookup [agentID] pa_id agentID (db_agents ts) of
        Inl e \<Rightarrow> Inl e
      | Inr old \<Rightarrow> let r = old\<lparr>pa_last_seen_at := seenAt\<rparr> in Inr (r, ts\<lparr>db_agents := put_row pa_id r (db_agents ts)\<rparr>))"

definition pg_TouchHeartbeat :: "pg \<Rightarrow> string \<Rightarrow> go_time \<Rightarrow> (pg_db, Agent) M" where
  "pg_TouchHeartbeat pg agentID seenAt =
     bindM (pg_exec pg mapAgentError (sql_touch_heartbeat agentID (to_timestamptz seenAt))) (\<lambda>row. liftE (scanAgent row))"

definition ack_key :: "AgentAcknowledgement \<Rightarrow> string \<times> string \<times> string \<times> int" where
  "ack_key k = (aack_AgentID k, aack_ConfigDefinitionID k, aack_VersionID k, aack_SnapshotRevision k)"

definition sql_save_acknowledgement :: "AgentAcknowledgement \<Rightarrow> pg_tables \<Rightarrow> db_error + unit \<times> pg_tables" where
  "sql_save_acknowledgement k ts =
     (case guards (text_args [aack_ID k, aack_AgentID k, aack_ConfigDefinitionID k, aack_VersionID k] @
         [check_column (0 < aack_SnapshotRevision k) ''agent_acknowledgements_snapshot_revision_check'']) () of
        Inl e \<Rightarrow> Inl e
      | Inr _ \<Rightarrow>
          if row_with ack_key (ack_key k) (db_agent_acknowledgements ts) \<noteq> None then Inr ((), ts)
          else guards
            [unique_key (row_with aack_ID (aack_ID k) (db_agent_acknowledgements ts) = None) ''agent_acknowledgements_pkey'',
             references (row_with pa_id (aack_AgentID k) (db_agents ts) \<noteq> None) ''agent_acknowledgements_agent_id_fkey'',
             references (row_with pd_id (aack_ConfigDefinitionID k) (db_config_definitions ts) \<noteq> None)
               ''agent_acknowledgements_config_definition_id_fkey'',
             references (row_with ver_ID (aack_VersionID k) (db_config_versions ts) \<noteq> None) ''agent_acknowledgements_version_id_fkey'']
            ((), ts\<lparr>db_agent_acknowledgements := db_agent_acknowledgements ts @ [k]\<rparr>))"

definition pg_SaveAcknowledgement :: "pg \<Rightarrow> AgentAcknowledgement \<Rightarrow> (pg_db, unit) M" where
  "pg_SaveAcknowledgement pg k =
     pg_exec pg mapAgentError (sql_save_acknowledgement (k\<lparr>aack_CreatedAt := to_timestamptz (aack_CreatedAt k)\<rparr>))"

subsection \<open>Tenants, definitions, versions and stable versions\<close>

definition sql_create_tenant :: "Tenant \<Rightarrow> pg_tables \<Rightarrow> db_error + unit \<times> pg_tables" where
  "sql_create_tenant t ts =
     guards (text_args [tenant_ID t, tenant_Name t, tenant_Description t, tenant_Owner t] @
             [unique_key (row_with tenant_ID (tenant_ID t) (db_tenants ts) = None) ''tenants_pkey''])
       ((), ts\<lparr>db_tenants := db_tenants ts @ [t]\<rparr>)"

definition pg_CreateTenant :: "pg \<Rightarrow> Tenant \<Rightarrow> (pg_db, unit) M" where
  "pg_CreateTenant pg t =
     pg_exec pg mapError (sql_create_tenant
       (t\<lparr>tenant_CreatedAt := to_timestamptz (tenant_CreatedAt t), tenant_UpdatedAt := to_timestamptz (tenant_UpdatedAt t)\<rparr>))"

definition pg_ListTenants :: "pg \<Rightarrow> (pg_db, Tenant list) M" where
  "pg_ListTenants pg = pg_query pg mapError (\<lambda>ts. sql_select [] (sort_key (\<lambda>r. pg_collate pg (tenant_ID r)) (db_tenants ts)))"

definition pg_GetTenant :: "pg \<Rightarrow> string \<Rightarrow> (pg_db, Tenant) M" where
  "pg_GetTenant pg tenantID = pg_query pg mapError (\<lambda>ts. sql_lookup [tenantID] tenant_ID tenantID (db_tenants ts))"

text \<open>The value of a \<open>JSONB\<close> column that may be NULL.\<close>

definition json_text :: "bytes option \<Rightarrow> bytes" where
  "json_text v = (case v of None \<Rightarrow> [] | Some b \<Rightarrow> b)"

text \<open>The driver sends a nil \<open>json.RawMessage\<close> as NULL; the model does not tell nil from empty.\<close>

definition raw_message :: "bytes \<Rightarrow> bytes option" where
  "raw_message v = (if v = [] then None else Some v)"

definition not_null :: "'a option \<Rightarrow> bool \<times> db_error" where
  "not_null v = (v \<noteq> None, PgError ''23502'' [])"

definition jsonb_arg :: "pg \<Rightarrow> bytes option \<Rightarrow> db_error + bytes option" where
  "jsonb_arg pg v = (case v of None \<Rightarrow> Inr None | Some b \<Rightarrow> map_sum id Some (pg_jsonb pg b))"

definition sql_create_definition :: "pg \<Rightarrow> definition_row \<Rightarrow> pg_tables \<Rightarrow> db_error + unit \<times> pg_tables" where
  "sql_create_definition pg d ts =
     (case jsonb_arg pg (pd_schema d) of Inl e \<Rightarrow> Inl e | Inr schema \<Rightarrow>
      case jsonb_arg pg (pd_default_value d) of Inl e \<Rightarrow> Inl e | Inr value \<Rightarrow>
      let d = d\<lparr>pd_schema := schema, pd_default_value := value\<rparr> in
      guards (text_args [pd_id d, pd_tenant_id d, pd_config_key d, pd_description d] @
              [not_null schema,
               unique_key (row_with pd_id (pd_id d) (db_config_definitions ts) = None) ''config_definitions_pkey'',
               unique_key (row_with (\<lambda>x. (pd_tenant_id x, pd_config_key x)) (pd_tenant_id d, pd_config_key d) (db_config_definitions ts) = None)
                 ''config_definitions_tenant_id_config_key_key'',
               references (row_with tenant_ID (pd_tenant_id d) (db_tenants ts) \<noteq> None) ''config_definitions_tenant_id_fkey''])
        ((), ts\<lparr>db_config_definitions := db_config_definitions ts @ [d]\<rparr>))"

definition pg_CreateDefinition :: "pg \<Rightarrow> ConfigDefinition \<Rightarrow> (pg_db, unit) M" where
  "pg_CreateDefinition pg d =
     pg_exec pg mapError (sql_create_definition pg
       \<lparr>pd_id = def_ID d, pd_tenant_id = def_TenantID d, pd_config_key = def_Key d, pd_description = def_Description d, pd_schema = raw_message (def_Schema d),
        pd_default_value = nullableJSON (def_DefaultValue d), pd_created_at = to_timestamptz (def_CreatedAt d),
        pd_updated_at = to_timestamptz (def_UpdatedAt d)\<rparr>)"

definition scanDefinition :: "definition_row \<Rightarrow> ConfigDefinition" where
  "scanDefinition r =
     \<lparr>def_ID = pd_id r, def_TenantID = pd_tenant_id r, def_Key = pd_config_key r, def_Description = pd_description r, def_Schema = json_text (pd_schema r),
      def_DefaultValue = json_text (pd_default_value r), def_CreatedAt = pd_created_at r, def_UpdatedAt = pd_updated_at r\<rparr>"

definition pg_ListDefinitions :: "pg \<Rightarrow> string \<Rightarrow> (pg_db, ConfigDefinition list) M" where
  "pg_ListDefinitions pg tenantID =
     bindM (pg_query pg mapError (\<lambda>ts. sql_select [tenantID]
       (sort_key (\<lambda>r. pg_collate pg (pd_config_key r)) (filter (\<lambda>r. pd_tenant_id r = tenantID) (db_config_definitions ts))))) (\<lambda>rows. retM (map scanDefinition rows))"

definition pg_GetDefinitionByKey :: "pg \<Rightarrow> string \<Rightarrow> string \<Rightarrow> (pg_db, ConfigDefinition) M" where
  "pg_GetDefinitionByKey pg tenantID key =
     bindM (pg_query pg mapError (\<lambda>ts. sql_lookup [tenantID, key] (\<lambda>r. (pd_tenant_id r, pd_config_key r)) (tenantID, key) (db_config_definitions ts)))
       (\<lambda>row. retM (scanDefinition row))"

definition sql_max :: "int list \<Rightarrow> int option" where
  "sql_max ns = (case ns of [] \<Rightarrow> None | n # ns \<Rightarrow> Some (fold max ns n))"

definition coalesce :: "'a option \<Rightarrow> 'a \<Rightarrow> 'a" where
  "coalesce x d = (case x of None \<Rightarrow> d | Some y \<Rightarrow> y)"

definition sql_next_version :: "string \<Rightarrow> pg_tables \<Rightarrow> db_error + int" where
  "sql_next_version c ts =
     (let n = coalesce (sql_max (map ver_VersionNumber (filter (\<lambda>v. ver_ConfigDefinitionID v = c) (db_config_versions ts)))) 0 + 1 in
      guards (text_args [c] @ [(n < 2 ^ 31, PgError ''22003'' [])]) n)"

definition sql_insert_version :: "pg \<Rightarrow> ConfigVersion \<Rightarrow> pg_tables \<Rightarrow> db_error + unit \<times> pg_tables" where
  "sql_insert_version pg v ts =
     (case guards (int4_args [ver_VersionNumber v]) () of Inl e \<Rightarrow> Inl e | Inr _ \<Rightarrow>
      case jsonb_arg pg (raw_message (ver_Value v)) of Inl e \<Rightarrow> Inl e | Inr json \<Rightarrow>
      let v = v\<lparr>ver_Value := json_text json\<rparr> in
      guards (text_args [ver_ID v, ver_ConfigDefinitionID v, ver_SourceCommitSHA v, ver_CreatedBy v] @
              [not_null json,
               check_column (0 < ver_VersionNumber v) ''config_versions_version_number_check'',
               unique_key (row_with ver_ID (ver_ID v) (db_config_versions ts) = None) ''config_versions_pkey'',
               unique_key (row_with (\<lambda>x. (ver_ConfigDefinitionID x, ver_VersionNumber x)) (ver_ConfigDefinitionID v, ver_VersionNumber v)
                 (db_config_versions ts) = None) ''config_versions_config_definition_id_version_number_key'',
               references (row_with pd_id (ver_ConfigDefinitionID v) (db_config_definitions ts) \<noteq> None) ''config_versions_config_definition_id_fkey''])
        ((), ts\<lparr>db_config_versions := db_config_versions ts @ [v]\<rparr>))"

definition pg_CreateVersion :: "pg \<Rightarrow> ConfigVersion \<Rightarrow> (pg_db, ConfigVersion) M" where
  "pg_CreateVersion pg version =
     pg_tx pg mapError
       (bindM (pg_query pg mapError (\<lambda>ts. sql_lookup [ver_ConfigDefinitionID version] pd_id (ver_ConfigDefinitionID version) (db_config_definitions ts))) (\<lambda>_.
        bindM (pg_query pg mapError (sql_next_version (ver_ConfigDefinitionID version))) (\<lambda>number.
        let version = version\<lparr>ver_VersionNumber := number\<rparr> in
        bindM (pg_exec pg mapError (sql_insert_version pg (version\<lparr>ver_CreatedAt := to_timestamptz (ver_CreatedAt version)\<rparr>))) (\<lambda>_.
        retM version))))"

definition pg_ListVersions :: "pg \<Rightarrow> string \<Rightarrow> (pg_db, ConfigVersion list) M" where
  "pg_ListVersions pg c =
     pg_query pg mapError (\<lambda>ts. sql_select [c] (sort_key ver_VersionNumber (filter (\<lambda>v. ver_ConfigDefinitionID v = c) (db_config_versions ts))))"

definition pg_GetVersionByNumber :: "pg \<Rightarrow> string \<Rightarrow> int \<Rightarrow> (pg_db, ConfigVersion) M" where
  "pg_GetVersionByNumber pg c n =
     pg_query pg mapError (\<lambda>ts. case guards (int4_args [n]) () of Inl e \<Rightarrow> Inl e | Inr _ \<Rightarrow>
       sql_lookup [c] (\<lambda>v. (ver_ConfigDefinitionID v, ver_VersionNumber v)) (c, n) (db_config_versions ts))"

definition state_key :: "state_row \<Rightarrow> string \<times> string" where
  "state_key r = (pe_config_definition_id r, pe_environment r)"

definition sql_save_state :: "state_row \<Rightarrow> pg_tables \<Rightarrow> db_error + unit \<times> pg_tables" where
  "sql_save_state r ts =
     guards (text_args ([pe_config_definition_id r, pe_environment r, pe_active_rollout_id r] @ (case pe_stable_version_id r of None \<Rightarrow> [] | Some v \<Rightarrow> [v])) @
             [env_check (pe_environment r) ''config_environment_states_environment_check'',
              references (row_with pd_id (pe_config_definition_id r) (db_config_definitions ts) \<noteq> None) ''config_environment_states_config_definition_id_fkey'',
              references (case pe_stable_version_id r of None \<Rightarrow> True | Some v \<Rightarrow> row_with ver_ID v (db_config_versions ts) \<noteq> None)
                ''config_environment_states_stable_version_id_fkey''])
       ((), ts\<lparr>db_config_environment_states :=
          (case row_with state_key (state_key r) (db_config_environment_states ts) of
             None \<Rightarrow> db_config_environment_states ts @ [r]
           | Some _ \<Rightarrow> put_row state_key r (db_config_environment_states ts))\<rparr>)"

definition pg_SaveEnvironmentState :: "pg \<Rightarrow> ConfigEnvironmentState \<Rightarrow> (pg_db, unit) M" where
  "pg_SaveEnvironmentState pg state =
     pg_exec pg mapError (sql_save_state
       \<lparr>pe_config_definition_id = env_ConfigDefinitionID state, pe_environment = env_Environment state,
        pe_stable_version_id = nullableString (env_StableVersionID state), pe_active_rollout_id = env_ActiveRolloutID state,
        pe_updated_at = to_timestamptz (env_UpdatedAt state)\<rparr>)"

definition scanEnvironmentState :: "state_row \<Rightarrow> ConfigEnvironmentState" where
  "scanEnvironmentState r =
     \<lparr>env_ConfigDefinitionID = pe_config_definition_id r, env_Environment = pe_environment r,
      env_StableVersionID = (case pe_stable_version_id r of None \<Rightarrow> [] | Some v \<Rightarrow> v), env_ActiveRolloutID = pe_active_rollout_id r,
      env_UpdatedAt = pe_updated_at r\<rparr>"

definition pg_GetEnvironmentState :: "pg \<Rightarrow> string \<Rightarrow> Environment \<Rightarrow> (pg_db, ConfigEnvironmentState) M" where
  "pg_GetEnvironmentState pg c environment =
     bindM (pg_query pg mapError (\<lambda>ts. sql_lookup [c, environment] state_key (c, environment) (db_config_environment_states ts)))
       (\<lambda>row. retM (scanEnvironmentState row))"

subsection \<open>The stores of the two registries\<close>

definition pg_config_store :: "pg \<Rightarrow> pg_db cr_Store" where
  "pg_config_store pg =
     \<lparr>cs_CreateTenant = pg_CreateTenant pg, cs_ListTenants = pg_ListTenants pg, cs_GetTenant = pg_GetTenant pg,
      cs_CreateDefinition = pg_CreateDefinition pg, cs_ListDefinitions = pg_ListDefinitions pg,
      cs_GetDefinitionByKey = pg_GetDefinitionByKey pg, cs_CreateVersion = pg_CreateVersion pg, cs_ListVersions = pg_ListVersions pg,
      cs_GetVersionByNumber = pg_GetVersionByNumber pg, cs_SaveEnvironmentState = pg_SaveEnvironmentState pg,
      cs_GetEnvironmentState = pg_GetEnvironmentState pg\<rparr>"

definition pg_agent_store :: "pg \<Rightarrow> pg_db ag_Store" where
  "pg_agent_store pg =
     \<lparr>as_SaveAgent = pg_SaveAgent pg, as_GetAgent = pg_GetAgent pg, as_ListAgents = pg_ListAgents pg, as_SaveCredential = pg_SaveCredential pg,
      as_GetCredential = pg_GetCredential pg, as_TouchHeartbeat = pg_TouchHeartbeat pg, as_SaveAcknowledgement = pg_SaveAcknowledgement pg\<rparr>"

end
