(* ===== verification/Postgres_Rollouts.thy ===== *)
theory Postgres_Rollouts
  imports Postgres Rollout_Store Json_Float Prometheus
begin

section \<open>The PostgreSQL store: rollouts\<close>

text \<open>
  The rest of \<open>internal/storage/postgres/store.go\<close>: rollouts, their stages and targets, and the sequence of snapshot revisions, over the tables of
  \<open>000004_rollouts.sql\<close> and \<open>000005_guardrails.sql\<close>. Target services, guardrail rules and failure counts are JSON documents: an empty slice of the
  model is Go's nil slice, whose document is \<open>null\<close>. The last section puts the operations together as \<open>rollout.Store\<close>.
\<close>

subsection \<open>Documents and columns\<close>

definition json_strings :: "string list \<Rightarrow> string" where
  "json_strings xs = (if xs = [] then ''null'' else json_array (map json_string xs))"

text \<open>\<open>guardrail.Rule\<close> has no JSON names, so the members carry the names of its fields.\<close>

definition json_rule :: "Rule \<Rightarrow> error + string" where
  "json_rule r =
     map_sum id (\<lambda>threshold. json_object
       [json_field ''Name'' (json_string (rule_Name r)), json_field ''Query'' (json_string (rule_Query r)),
        json_field ''Operator'' (json_string (rule_Operator r)), json_field ''Threshold'' threshold,
        json_field ''ConsecutiveFailures'' (show_int (rule_ConsecutiveFailures r))]) (json_float64 (rule_Threshold r))"

definition json_rules :: "Rule list \<Rightarrow> error + string" where
  "json_rules rules = (if rules = [] then Inr ''null'' else map_sum id json_array (collect (map json_rule rules)))"

definition json_counts :: "(string, int) gomap \<Rightarrow> error + string" where
  "json_counts m = Inr (if m = [] then ''null'' else json_object (map (\<lambda>(k, n). json_field k (show_int n)) (sort_key fst m)))"

definition jsonValue :: "error + string \<Rightarrow> string \<Rightarrow> string" where
  "jsonValue encoded fallback =
     (case encoded of Inl e \<Rightarrow> fallback | Inr text \<Rightarrow> if text = ''null'' then fallback else text)"

definition rule_decoder :: "Rule decoder" where
  "rule_decoder = dec_struct False
     [(''Name'', dec_field rule_Name rule_Name_update dec_string), (''Query'', dec_field rule_Query rule_Query_update dec_string),
      (''Operator'', dec_field rule_Operator rule_Operator_update dec_string),
      (''Threshold'', dec_field rule_Threshold rule_Threshold_update dec_float64),
      (''ConsecutiveFailures'', dec_field rule_ConsecutiveFailures rule_ConsecutiveFailures_update dec_int64)]"

definition zero_Rule :: Rule where
  "zero_Rule = \<lparr>rule_Name = [], rule_Query = [], rule_Operator = [], rule_Threshold = Fin 0, rule_ConsecutiveFailures = 0\<rparr>"

text \<open>The columns that hold constants of Go as text.\<close>

definition all_states :: "State list" where
  "all_states = [StatePending, StateValidating, StateReady, StateDeploying, StateEvaluating, StatePromoting, StatePaused, StateCompleted,
     StateRollingBack, StateRolledBack, StateFailed]"

definition active_states :: "State list" where
  "active_states = [StatePending, StateValidating, StateReady, StateDeploying, StateEvaluating, StatePromoting, StatePaused, StateRollingBack]"

definition State_of :: "string \<Rightarrow> State" where
  "State_of text = (case find (\<lambda>s. state_text s = text) all_states of None \<Rightarrow> StateUnset | Some s \<Rightarrow> s)"

fun rollback_text :: "RollbackStatus \<Rightarrow> string" where
  "rollback_text RollbackStatusNone = []"
| "rollback_text RollbackStatusVerified = ''VERIFIED''"
| "rollback_text RollbackStatusPartial = ''PARTIAL''"

definition RollbackStatus_of :: "string \<Rightarrow> RollbackStatus" where
  "RollbackStatus_of text =
     (if text = ''VERIFIED'' then RollbackStatusVerified else if text = ''PARTIAL'' then RollbackStatusPartial else RollbackStatusNone)"

fun target_text :: "TargetStatus \<Rightarrow> string" where
  "target_text TargetPending = ''PENDING''"
| "target_text TargetAcked = ''ACKED''"

definition TargetStatus_of :: "string \<Rightarrow> TargetStatus" where
  "TargetStatus_of text = (if text = ''ACKED'' then TargetAcked else TargetPending)"

lemma State_of_text [simp]: "State_of (state_text s) = s"
  by (cases s) (simp_all add: State_of_def all_states_def)

lemma RollbackStatus_of_text [simp]: "RollbackStatus_of (rollback_text s) = s"
  by (cases s) (simp_all add: RollbackStatus_of_def)

lemma TargetStatus_of_text [simp]: "TargetStatus_of (target_text s) = s"
  by (cases s) (simp_all add: TargetStatus_of_def)

subsection \<open>Rollouts\<close>

definition rollout_columns :: "Rollout \<Rightarrow> rollout_row" where
  "rollout_columns r =
     \<lparr>pr_id = ro_ID r, pr_tenant_id = ro_TenantID r, pr_config_definition_id = ro_ConfigDefinitionID r, pr_config_key = ro_ConfigKey r,
      pr_environment = ro_Environment r, pr_target_services = json_strings (ro_TargetServices r),
      pr_stable_version_id = ro_StableVersionID r, pr_candidate_version_id = ro_CandidateVersionID r,
      pr_candidate_version_number = ro_CandidateVersion r, pr_state = state_text (ro_State r), pr_current_stage_id = ro_CurrentStageID r,
      pr_current_stage_index = ro_CurrentStageIndex r, pr_required_ack_percentage = ro_RequiredAckPercent r,
      pr_guardrails = jsonValue (json_rules (ro_Guardrails r)) ''[]'',
      pr_guardrail_failures = jsonValue (json_counts (ro_GuardrailFailures r)) ''{}'',
      pr_stage_started_at = to_timestamptz (ro_StageStartedAt r),
      pr_deployment_timeout_seconds = pg_durationSeconds (ro_DeploymentTimeout r),
      pr_rollout_max_duration_seconds = pg_durationSeconds (ro_RolloutMaxDuration r),
      pr_rollback_timeout_seconds = pg_durationSeconds (ro_RollbackTimeout r),
      pr_rollback_status = rollback_text (ro_RollbackStatus r),
      pr_created_at = to_timestamptz (ro_CreatedAt r), pr_updated_at = to_timestamptz (ro_UpdatedAt r)\<rparr>"

definition row_active :: "rollout_row \<Rightarrow> bool" where
  "row_active r \<longleftrightarrow> pr_state r \<in> set (map state_text active_states)"

definition row_slot :: "rollout_row \<Rightarrow> string \<times> string" where
  "row_slot r = (pr_config_definition_id r, pr_environment r)"

text \<open>The parameters of a rollout's statement: integers, then documents; the texts and the constraints of its row.\<close>

definition rollout_documents :: "pg \<Rightarrow> rollout_row \<Rightarrow> db_error + rollout_row" where
  "rollout_documents pg r =
     (case guards (int4_args [pr_candidate_version_number r, pr_current_stage_index r, pr_deployment_timeout_seconds r,
                              pr_rollout_max_duration_seconds r, pr_rollback_timeout_seconds r]) () of Inl e \<Rightarrow> Inl e | Inr _ \<Rightarrow>
      case pg_jsonb pg (pr_target_services r) of Inl e \<Rightarrow> Inl e | Inr services \<Rightarrow>
      case pg_jsonb pg (pr_guardrails r) of Inl e \<Rightarrow> Inl e | Inr guardrails \<Rightarrow>
      case pg_jsonb pg (pr_guardrail_failures r) of Inl e \<Rightarrow> Inl e | Inr failures \<Rightarrow>
        Inr (r\<lparr>pr_target_services := services, pr_guardrails := guardrails, pr_guardrail_failures := failures\<rparr>))"

definition rollout_texts :: "rollout_row \<Rightarrow> (bool \<times> db_error) list" where
  "rollout_texts r =
     text_args [pr_id r, pr_tenant_id r, pr_config_definition_id r, pr_config_key r, pr_environment r, pr_stable_version_id r,
                pr_candidate_version_id r, pr_state r, pr_current_stage_id r, pr_rollback_status r]"

definition rollout_checks :: "rollout_row \<Rightarrow> (bool \<times> db_error) list" where
  "rollout_checks r =
     [check_column (0 < pr_candidate_version_number r) ''rollouts_candidate_version_number_check'',
      check_column (0 \<le> pr_current_stage_index r) ''rollouts_current_stage_index_check'',
      check_column (0 \<le> pr_deployment_timeout_seconds r) ''rollouts_deployment_timeout_seconds_check'',
      env_check (pr_environment r) ''rollouts_environment_check'',
      check_column (pr_rollback_status r \<in> set [[], ''VERIFIED'', ''PARTIAL'']) ''rollouts_rollback_status_check'',
      check_column (0 \<le> pr_rollback_timeout_seconds r) ''rollouts_rollback_timeout_seconds_check'',
      check_column (0 \<le> pr_rollout_max_duration_seconds r) ''rollouts_rollout_max_duration_seconds_check'',
      check_column (pr_state r \<in> set (map state_text all_states)) ''rollouts_state_check'']"

text \<open>The index \<open>one_active_rollout_per_config_environment\<close>: a row among the other rows.\<close>

definition slot_free :: "rollout_row \<Rightarrow> rollout_row list \<Rightarrow> bool" where
  "slot_free r rows \<longleftrightarrow> (row_active r \<longrightarrow> list_all (\<lambda>x. row_active x \<longrightarrow> pr_id x = pr_id r \<or> row_slot x \<noteq> row_slot r) rows)"

definition rollout_references :: "rollout_row \<Rightarrow> pg_tables \<Rightarrow> (bool \<times> db_error) list" where
  "rollout_references r ts =
     [references (row_with tenant_ID (pr_tenant_id r) (db_tenants ts) \<noteq> None) ''rollouts_tenant_id_fkey'',
      references (row_with pd_id (pr_config_definition_id r) (db_config_definitions ts) \<noteq> None) ''rollouts_config_definition_id_fkey'',
      references (row_with ver_ID (pr_stable_version_id r) (db_config_versions ts) \<noteq> None) ''rollouts_stable_version_id_fkey'',
      references (row_with ver_ID (pr_candidate_version_id r) (db_config_versions ts) \<noteq> None) ''rollouts_candidate_version_id_fkey'']"

definition sql_insert_rollout :: "pg \<Rightarrow> rollout_row \<Rightarrow> pg_tables \<Rightarrow> db_error + unit \<times> pg_tables" where
  "sql_insert_rollout pg r ts =
     (case rollout_documents pg r of Inl e \<Rightarrow> Inl e | Inr r \<Rightarrow>
      guards (rollout_texts r @ rollout_checks r @
              [unique_key (row_with pr_id (pr_id r) (db_rollouts_table ts) = None) ''rollouts_pkey'',
               unique_key (slot_free r (db_rollouts_table ts)) ''one_active_rollout_per_config_environment''] @
              rollout_references r ts)
        ((), ts\<lparr>db_rollouts_table := db_rollouts_table ts @ [r]\<rparr>))"

text \<open>The update answers whether it touched a row; the time of creation is not among its columns.\<close>

definition sql_update_rollout :: "pg \<Rightarrow> rollout_row \<Rightarrow> pg_tables \<Rightarrow> db_error + bool \<times> pg_tables" where
  "sql_update_rollout pg r ts =
     (case rollout_documents pg r of Inl e \<Rightarrow> Inl e | Inr r \<Rightarrow>
      case row_with pr_id (pr_id r) (db_rollouts_table ts) of
        None \<Rightarrow> guards (rollout_texts r) (False, ts)
      | Some old \<Rightarrow>
          guards (rollout_texts r @ rollout_checks r @
                  [unique_key (slot_free r (db_rollouts_table ts)) ''one_active_rollout_per_config_environment''] @
                  rollout_references r ts)
            (True, ts\<lparr>db_rollouts_table := put_row pr_id (r\<lparr>pr_created_at := pr_created_at old\<rparr>) (db_rollouts_table ts)\<rparr>))"

definition sql_insert_stage :: "stage_row \<Rightarrow> pg_tables \<Rightarrow> db_error + unit \<times> pg_tables" where
  "sql_insert_stage r ts =
     guards (int4_args [ps_stage_order r, ps_percentage r, ps_minimum_duration_seconds r] @ text_args [ps_id r, ps_rollout_id r] @
             [check_column (0 \<le> ps_minimum_duration_seconds r) ''rollout_stages_minimum_duration_seconds_check'',
              check_column (0 < ps_percentage r \<and> ps_percentage r \<le> 100) ''rollout_stages_percentage_check'',
              check_column (0 < ps_stage_order r) ''rollout_stages_stage_order_check'',
              unique_key (row_with ps_id (ps_id r) (db_rollout_stages ts) = None) ''rollout_stages_pkey'',
              unique_key (row_with (\<lambda>x. (ps_rollout_id x, ps_stage_order x)) (ps_rollout_id r, ps_stage_order r) (db_rollout_stages ts) = None)
                ''rollout_stages_rollout_id_stage_order_key'',
              references (row_with pr_id (ps_rollout_id r) (db_rollouts_table ts) \<noteq> None) ''rollout_stages_rollout_id_fkey''])
       ((), ts\<lparr>db_rollout_stages := db_rollout_stages ts @ [r]\<rparr>)"

definition stage_columns :: "string \<Rightarrow> int \<Rightarrow> Stage \<Rightarrow> stage_row" where
  "stage_columns rolloutID order stage =
     \<lparr>ps_id = stage_ID stage, ps_rollout_id = rolloutID, ps_stage_order = order, ps_percentage = stage_Percentage stage,
      ps_minimum_duration_seconds = pg_durationSeconds (stage_MinimumDuration stage)\<rparr>"

fun insert_stages :: "pg \<Rightarrow> string \<Rightarrow> int \<Rightarrow> Stage list \<Rightarrow> (pg_db, unit) M" where
  "insert_stages pg rolloutID i [] = retM ()"
| "insert_stages pg rolloutID i (stage # stages) =
     bindM (pg_exec pg mapRolloutError (sql_insert_stage (stage_columns rolloutID (i + 1) stage))) (\<lambda>_.
     insert_stages pg rolloutID (i + 1) stages)"

definition pg_CreateRollout :: "pg \<Rightarrow> Rollout \<Rightarrow> Stage list \<Rightarrow> (pg_db, unit) M" where
  "pg_CreateRollout pg rollout stages =
     pg_tx pg mapRolloutError
       (bindM (pg_exec pg mapRolloutError (sql_insert_rollout pg (rollout_columns rollout))) (\<lambda>_.
        insert_stages pg (ro_ID rollout) 0 stages))"

definition decode_column :: "'a decoder \<Rightarrow> 'a \<Rightarrow> bytes \<Rightarrow> error + 'a" where
  "decode_column dec zero text = (if 0 < length text then json_Unmarshal dec zero text else Inr zero)"

definition scanRollout :: "rollout_row \<Rightarrow> error + Rollout" where
  "scanRollout r =
     (case decode_column (dec_slice [] dec_string) [] (pr_target_services r) of Inl e \<Rightarrow> Inl e | Inr services \<Rightarrow>
      case decode_column (dec_slice zero_Rule rule_decoder) [] (pr_guardrails r) of Inl e \<Rightarrow> Inl e | Inr guardrails \<Rightarrow>
      case decode_column (dec_map 0 dec_int64) [] (pr_guardrail_failures r) of Inl e \<Rightarrow> Inl e | Inr failures \<Rightarrow>
      Inr \<lparr>ro_ID = pr_id r, ro_ConfigDefinitionID = pr_config_definition_id r, ro_TenantID = pr_tenant_id r, ro_ConfigKey = pr_config_key r,
           ro_Environment = pr_environment r, ro_TargetServices = services, ro_StableVersionID = pr_stable_version_id r,
           ro_CandidateVersionID = pr_candidate_version_id r, ro_CandidateVersion = pr_candidate_version_number r, ro_State = State_of (pr_state r),
           ro_CurrentStageID = pr_current_stage_id r, ro_CurrentStageIndex = pr_current_stage_index r,
           ro_RequiredAckPercent = pr_required_ack_percentage r, ro_Guardrails = guardrails, ro_GuardrailFailures = failures,
           ro_StageStartedAt = pr_stage_started_at r, ro_DeploymentTimeout = pr_deployment_timeout_seconds r * Second,
           ro_RolloutMaxDuration = pr_rollout_max_duration_seconds r * Second, ro_RollbackTimeout = pr_rollback_timeout_seconds r * Second,
           ro_RollbackStatus = RollbackStatus_of (pr_rollback_status r), ro_CreatedAt = pr_created_at r, ro_UpdatedAt = pr_updated_at r\<rparr>)"

definition pg_GetRollout :: "pg \<Rightarrow> string \<Rightarrow> (pg_db, Rollout) M" where
  "pg_GetRollout pg rolloutID =
     bindM (pg_query pg mapRolloutError (\<lambda>ts. sql_lookup [rolloutID] pr_id rolloutID (db_rollouts_table ts))) (\<lambda>row. liftE (scanRollout row))"

text \<open>\<open>ORDER BY created_at DESC LIMIT 1\<close>, of the rows in the order the scan meets them.\<close>

definition latest_active :: "string \<Rightarrow> string \<Rightarrow> rollout_row list \<Rightarrow> rollout_row option" where
  "latest_active c e rows =
     (case sort_key (\<lambda>r. - pr_created_at r) (filter (\<lambda>r. row_slot r = (c, e) \<and> row_active r) rows) of [] \<Rightarrow> None | r # _ \<Rightarrow> Some r)"

definition pg_scanned :: "pg \<Rightarrow> (pg_tables \<Rightarrow> 'r list) \<Rightarrow> (db_error \<Rightarrow> error) \<Rightarrow> ('r list \<Rightarrow> db_error + 'a) \<Rightarrow> (pg_db, 'a) M" where
  "pg_scanned pg rows mapErr q db = pg_query pg mapErr (\<lambda>ts. q (range_order (pg_scan pg (pg_tick db)) (rows ts))) db"

definition pg_GetActiveRollout :: "pg \<Rightarrow> string \<Rightarrow> string \<Rightarrow> (pg_db, Rollout) M" where
  "pg_GetActiveRollout pg c e =
     bindM (pg_scanned pg db_rollouts_table mapRolloutError (\<lambda>rows.
       case guards (text_args [c, e]) () of Inl err \<Rightarrow> Inl err | Inr _ \<Rightarrow> one_row (latest_active c e rows)))
     (\<lambda>row. liftE (scanRollout row))"

definition pg_ListActiveRollouts :: "pg \<Rightarrow> (pg_db, Rollout list) M" where
  "pg_ListActiveRollouts pg =
     bindM (pg_scanned pg db_rollouts_table mapRolloutError (\<lambda>rows. sql_select [] (sort_key pr_created_at (filter row_active rows))))
     (\<lambda>rows. liftE (collect (map scanRollout rows)))"

definition pg_UpdateRollout :: "pg \<Rightarrow> Rollout \<Rightarrow> (pg_db, unit) M" where
  "pg_UpdateRollout pg rollout =
     bindM (pg_exec pg mapRolloutError (sql_update_rollout pg (rollout_columns rollout))) (\<lambda>affected.
     if affected then retM () else raiseM (Sentinel rollout_ErrNotFound))"

subsection \<open>Stages\<close>

definition scanStage :: "stage_row \<Rightarrow> Stage" where
  "scanStage r =
     \<lparr>stage_ID = ps_id r, stage_Percentage = ps_percentage r, stage_MinimumDuration = ps_minimum_duration_seconds r * Second\<rparr>"

definition stages_of :: "string \<Rightarrow> pg_tables \<Rightarrow> stage_row list" where
  "stages_of rolloutID ts = filter (\<lambda>r. ps_rollout_id r = rolloutID) (db_rollout_stages ts)"

definition pg_ListStages :: "pg \<Rightarrow> string \<Rightarrow> (pg_db, Stage list) M" where
  "pg_ListStages pg rolloutID =
     bindM (pg_query pg mapRolloutError (\<lambda>ts. sql_select [rolloutID] (sort_key ps_stage_order (stages_of rolloutID ts))))
     (\<lambda>rows. retM (map scanStage rows))"

text \<open>The order of a new stage is one more than the greatest of its rollout; a stage ID that is taken, by any rollout, leaves the table as it is.\<close>

definition sql_next_order :: "string \<Rightarrow> pg_tables \<Rightarrow> int" where
  "sql_next_order rolloutID ts = coalesce (map_option (\<lambda>n. n + 1) (sql_max (map ps_stage_order (stages_of rolloutID ts)))) 1"

definition sql_save_stage :: "string \<Rightarrow> Stage \<Rightarrow> pg_tables \<Rightarrow> db_error + unit \<times> pg_tables" where
  "sql_save_stage rolloutID stage ts =
     (let r = stage_columns rolloutID (sql_next_order rolloutID ts) stage in
      case guards (int4_args [ps_percentage r, ps_minimum_duration_seconds r] @ text_args [ps_id r, ps_rollout_id r] @
                   [(ps_stage_order r < 2 ^ 31, PgError ''22003'' []),
                    check_column (0 \<le> ps_minimum_duration_seconds r) ''rollout_stages_minimum_duration_seconds_check'',
                    check_column (0 < ps_percentage r \<and> ps_percentage r \<le> 100) ''rollout_stages_percentage_check'',
                    check_column (0 < ps_stage_order r) ''rollout_stages_stage_order_check'']) () of
        Inl e \<Rightarrow> Inl e
      | Inr _ \<Rightarrow> if row_with ps_id (ps_id r) (db_rollout_stages ts) \<noteq> None then Inr ((), ts) else sql_insert_stage r ts)"

definition pg_SaveStage :: "pg \<Rightarrow> string \<Rightarrow> Stage \<Rightarrow> (pg_db, unit) M" where
  "pg_SaveStage pg rolloutID stage = pg_exec pg mapRolloutError (sql_save_stage rolloutID stage)"

subsection \<open>Targets\<close>

definition target_columns :: "StageTarget \<Rightarrow> target_row" where
  "target_columns t =
     \<lparr>pt_rollout_id = tgt_RolloutID t, pt_stage_id = tgt_StageID t, pt_agent_id = tgt_AgentID t, pt_bucket = tgt_Bucket t,
      pt_expected_version_id = tgt_ExpectedVersionID t, pt_snapshot_revision = tgt_SnapshotRevision t, pt_status = target_text (tgt_Status t),
      pt_created_at = to_timestamptz (tgt_CreatedAt t), pt_acked_at = map_option to_timestamptz (nullableTime (tgt_AckedAt t))\<rparr>"

definition target_key :: "target_row \<Rightarrow> string \<times> string \<times> string" where
  "target_key r = (pt_rollout_id r, pt_stage_id r, pt_agent_id r)"

definition sql_insert_target :: "target_row \<Rightarrow> pg_tables \<Rightarrow> db_error + unit \<times> pg_tables" where
  "sql_insert_target r ts =
     guards (int4_args [pt_bucket r] @
             text_args [pt_rollout_id r, pt_stage_id r, pt_agent_id r, pt_expected_version_id r, pt_status r] @
             [check_column (0 \<le> pt_bucket r \<and> pt_bucket r < 10000) ''rollout_stage_targets_bucket_check'',
              check_column (0 < pt_snapshot_revision r) ''rollout_stage_targets_snapshot_revision_check'',
              check_column (pt_status r \<in> set [''PENDING'', ''ACKED'']) ''rollout_stage_targets_status_check'',
              references (row_with pr_id (pt_rollout_id r) (db_rollouts_table ts) \<noteq> None) ''rollout_stage_targets_rollout_id_fkey'',
              references (row_with ps_id (pt_stage_id r) (db_rollout_stages ts) \<noteq> None) ''rollout_stage_targets_stage_id_fkey'',
              references (row_with pa_id (pt_agent_id r) (db_agents ts) \<noteq> None) ''rollout_stage_targets_agent_id_fkey'',
              references (row_with ver_ID (pt_expected_version_id r) (db_config_versions ts) \<noteq> None)
                ''rollout_stage_targets_expected_version_id_fkey''])
       ((), ts\<lparr>db_rollout_stage_targets :=
          (case row_with target_key (target_key r) (db_rollout_stage_targets ts) of
             None \<Rightarrow> db_rollout_stage_targets ts @ [r]
           | Some _ \<Rightarrow> put_row target_key r (db_rollout_stage_targets ts))\<rparr>)"

definition pg_insertStageTarget :: "pg \<Rightarrow> StageTarget \<Rightarrow> (pg_db, unit) M" where
  "pg_insertStageTarget pg target = pg_exec pg mapRolloutError (sql_insert_target (target_columns target))"

fun insert_targets :: "pg \<Rightarrow> StageTarget list \<Rightarrow> (pg_db, unit) M" where
  "insert_targets pg [] = retM ()"
| "insert_targets pg (t # ts) = bindM (pg_insertStageTarget pg t) (\<lambda>_. insert_targets pg ts)"

definition pg_SaveStageTargets :: "pg \<Rightarrow> StageTarget list \<Rightarrow> (pg_db, unit) M" where
  "pg_SaveStageTargets pg targets = insert_targets pg targets"

definition in_stage :: "string \<Rightarrow> string \<Rightarrow> target_row \<Rightarrow> bool" where
  "in_stage rolloutID stageID r \<longleftrightarrow> pt_rollout_id r = rolloutID \<and> pt_stage_id r = stageID"

definition sql_delete_targets :: "string \<Rightarrow> string \<Rightarrow> pg_tables \<Rightarrow> db_error + unit \<times> pg_tables" where
  "sql_delete_targets rolloutID stageID ts =
     guards (text_args [rolloutID, stageID])
       ((), ts\<lparr>db_rollout_stage_targets := filter (\<lambda>r. \<not> in_stage rolloutID stageID r) (db_rollout_stage_targets ts)\<rparr>)"

definition pg_ReplaceStageTargets :: "pg \<Rightarrow> string \<Rightarrow> string \<Rightarrow> StageTarget list \<Rightarrow> (pg_db, unit) M" where
  "pg_ReplaceStageTargets pg rolloutID stageID targets =
     pg_tx pg mapRolloutError
       (bindM (pg_exec pg mapRolloutError (sql_delete_targets rolloutID stageID)) (\<lambda>_. insert_targets pg targets))"

definition scanStageTarget :: "target_row \<Rightarrow> StageTarget" where
  "scanStageTarget r =
     \<lparr>tgt_RolloutID = pt_rollout_id r, tgt_StageID = pt_stage_id r, tgt_AgentID = pt_agent_id r, tgt_Bucket = pt_bucket r,
      tgt_ExpectedVersionID = pt_expected_version_id r, tgt_SnapshotRevision = pt_snapshot_revision r, tgt_CreatedAt = pt_created_at r,
      tgt_AckedAt = (case pt_acked_at r of None \<Rightarrow> 0 | Some t \<Rightarrow> t), tgt_Status = TargetStatus_of (pt_status r)\<rparr>"

definition pg_ListStageTargets :: "pg \<Rightarrow> string \<Rightarrow> string \<Rightarrow> (pg_db, StageTarget list) M" where
  "pg_ListStageTargets pg rolloutID stageID =
     bindM (pg_query pg mapRolloutError (\<lambda>ts. sql_select [rolloutID, stageID]
       (sort_key (\<lambda>r. (pt_bucket r, pg_collate pg (pt_agent_id r))) (filter (in_stage rolloutID stageID) (db_rollout_stage_targets ts)))))
     (\<lambda>rows. retM (map scanStageTarget rows))"

definition sql_nextval :: "pg_tables \<Rightarrow> db_error + int \<times> pg_tables" where
  "sql_nextval ts =
     guards [(db_snapshot_revisions ts < 2 ^ 63, PgError ''2200H'' [])]
       (db_snapshot_revisions ts, ts\<lparr>db_snapshot_revisions := db_snapshot_revisions ts + 1\<rparr>)"

definition pg_NextSnapshotRevision :: "pg \<Rightarrow> (pg_db, int) M" where
  "pg_NextSnapshotRevision pg = pg_exec pg mapRolloutError sql_nextval"

subsection \<open>The store of the rollouts\<close>

definition pg_rollout_store :: "pg \<Rightarrow> pg_db ro_Store" where
  "pg_rollout_store pg =
     \<lparr>st_CreateRollout = pg_CreateRollout pg, st_GetRollout = pg_GetRollout pg, st_GetActiveRollout = pg_GetActiveRollout pg,
      st_ListActiveRollouts = pg_ListActiveRollouts pg, st_UpdateRollout = pg_UpdateRollout pg, st_ListStages = pg_ListStages pg,
      st_SaveStage = pg_SaveStage pg, st_SaveStageTargets = pg_SaveStageTargets pg, st_ReplaceStageTargets = pg_ReplaceStageTargets pg,
      st_ListStageTargets = pg_ListStageTargets pg, st_NextSnapshotRevision = pg_NextSnapshotRevision pg\<rparr>"

end
