(* ===== verification/Postgres_Integrity.thy ===== *)
theory Postgres_Integrity
  imports Postgres_Rollouts
begin

section \<open>The PostgreSQL store: integrity\<close>

text \<open>
  What the tables satisfy after any sequence of calls of the three stores, whatever they answer and whenever the connection fails: keys are
  unique, references have a row, the versions of a definition are numbered from one without gaps, and at most one rollout that is not over
  exists for a definition and an environment. \<open>keeps\<close> is preservation of a property of the tables by an operation, with one rule for each way
  of composing statements.
\<close>

subsection \<open>Statements, transactions and what they keep\<close>

definition keeps :: "(pg_tables \<Rightarrow> bool) \<Rightarrow> (pg_db, 'a) M \<Rightarrow> bool" where
  "keeps I f \<longleftrightarrow> (\<forall>db. I (pg_tables db) \<longrightarrow> I (pg_tables (snd (f db))))"

named_theorems keeps_rules \<open>what operations keep\<close>

lemma pg_next_tables [simp]: "pg_tables (pg_next db) = pg_tables db"
  by (simp add: pg_next_def)

definition statement_keeps :: "(pg_tables \<Rightarrow> bool) \<Rightarrow> (pg_tables \<Rightarrow> db_error + 'a \<times> pg_tables) \<Rightarrow> bool" where
  "statement_keeps I stmt \<longleftrightarrow> (\<forall>ts a ts'. I ts \<longrightarrow> stmt ts = Inr (a, ts') \<longrightarrow> I ts')"

lemma statement_keepsI: "(\<And>ts a ts'. I ts \<Longrightarrow> stmt ts = Inr (a, ts') \<Longrightarrow> I ts') \<Longrightarrow> statement_keeps I stmt"
  by (simp add: statement_keeps_def)

lemma keeps_exec [keeps_rules]: "statement_keeps I stmt \<Longrightarrow> keeps I (pg_exec pg m stmt)"
  by (auto simp: keeps_def statement_keeps_def pg_exec_def split: option.splits sum.splits)

lemma keeps_query [keeps_rules]: "keeps I (pg_query pg m q)"
  unfolding pg_query_def by (rule keeps_exec) (auto simp: statement_keeps_def map_sum_def split: sum.splits)

lemma keeps_scanned [keeps_rules]: "keeps I (pg_scanned pg rows m q)"
  using keeps_query [of I pg m] by (auto simp: keeps_def pg_scanned_def)

lemma keeps_ret [keeps_rules]: "keeps I (retM a)"
  by (simp add: keeps_def retM_def)

lemma keeps_raise [keeps_rules]: "keeps I (raiseM e)"
  by (simp add: keeps_def raiseM_def)

lemma keeps_liftE [keeps_rules]: "keeps I (liftE r)"
  by (simp add: keeps_def liftE_def split: sum.splits)

lemma keeps_bind [keeps_rules]: "keeps I f \<Longrightarrow> (\<And>a. keeps I (g a)) \<Longrightarrow> keeps I (bindM f g)"
  by (fastforce simp: keeps_def bindM_def split: prod.splits sum.splits)

lemma keeps_if [keeps_rules]: "keeps I f \<Longrightarrow> keeps I g \<Longrightarrow> keeps I (if b then f else g)"
  by simp

lemma keeps_tx [keeps_rules]: "keeps I f \<Longrightarrow> keeps I (pg_tx pg m f)"
proof -
  assume f: "keeps I f"
  show "keeps I (pg_tx pg m f)"
    unfolding keeps_def
  proof (intro allI impI)
    fix db :: pg_db
    assume db: "I (pg_tables db)"
    then have "I (pg_tables (snd (f (pg_next db))))" using f by (simp add: keeps_def)
    then show "I (pg_tables (snd (pg_tx pg m f db)))"
      using db by (auto simp: pg_tx_def split: option.splits prod.splits sum.splits)
  qed
qed

lemma guards_Inr: "guards gs x = Inr y \<longleftrightarrow> y = x \<and> list_all fst gs"
  by (induction gs x rule: guards.induct) auto

lemma row_with_None: "row_with key k rows = None \<longleftrightarrow> k \<notin> key ` set rows"
  by (auto simp: row_with_def find_None_iff)

lemma row_with_Some: "row_with key k rows = Some r \<Longrightarrow> r \<in> set rows \<and> key r = k"
  by (auto simp: row_with_def find_Some_iff)

lemma put_row_keys [simp]: "map key (put_row key r rows) = map key rows"
  by (simp add: put_row_def)

lemma put_row_key_image [simp]: "key ` set (put_row key r rows) = key ` set rows"
  by (metis put_row_keys set_map)

lemma put_row_mem: "x \<in> set (put_row key r rows) \<Longrightarrow> x = r \<or> x \<in> set rows \<and> key x \<noteq> key r"
  by (auto simp: put_row_def split: if_splits)

lemmas statement_simps =
  guards_Inr row_with_None references_def unique_key_def check_column_def env_check_def not_null_def list_all_append

subsection \<open>Keys, references and checks of a table\<close>

definition keyed :: "('r \<Rightarrow> 'k) \<Rightarrow> 'r list \<Rightarrow> bool" where
  "keyed key rows \<longleftrightarrow> distinct (map key rows)"

definition refer :: "('r \<Rightarrow> 'k) \<Rightarrow> 'r list \<Rightarrow> ('s \<Rightarrow> 'k) \<Rightarrow> 's list \<Rightarrow> bool" where
  "refer f rows key rows' \<longleftrightarrow> f ` set rows \<subseteq> key ` set rows'"

definition checked :: "('r \<Rightarrow> bool) \<Rightarrow> 'r list \<Rightarrow> bool" where
  "checked P rows \<longleftrightarrow> (\<forall>r \<in> set rows. P r)"

lemma keyed_append [simp]: "keyed key (rows @ [r]) \<longleftrightarrow> keyed key rows \<and> key r \<notin> key ` set rows"
  by (auto simp: keyed_def)

lemma keyed_put [simp]: "keyed key (put_row key r rows) \<longleftrightarrow> keyed key rows"
  by (simp add: keyed_def)

lemma keyed_filter [simp]: "keyed key rows \<Longrightarrow> keyed key (filter P rows)"
  by (simp add: keyed_def distinct_map_filter)

lemma refer_append [simp]: "refer f (rows @ [r]) key rows' \<longleftrightarrow> refer f rows key rows' \<and> f r \<in> key ` set rows'"
  by (auto simp: refer_def)

lemma refer_grow [simp]: "refer f rows key rows' \<Longrightarrow> refer f rows key (rows' @ [r])"
  by (auto simp: refer_def)

lemma refer_put_target [simp]: "refer f rows key (put_row key r rows') \<longleftrightarrow> refer f rows key rows'"
  by (simp add: refer_def)

lemma refer_put [simp]: "refer f rows key rows' \<Longrightarrow> f r \<in> key ` set rows' \<Longrightarrow> refer f (put_row k r rows) key rows'"
  by (fastforce simp: refer_def dest: put_row_mem)

lemma refer_filter [simp]: "refer f rows key rows' \<Longrightarrow> refer f (filter P rows) key rows'"
  by (auto simp: refer_def)

lemma checked_append [simp]: "checked P (rows @ [r]) \<longleftrightarrow> checked P rows \<and> P r"
  by (auto simp: checked_def)

lemma checked_put [simp]: "checked P rows \<Longrightarrow> P r \<Longrightarrow> checked P (put_row k r rows)"
  by (auto simp: checked_def dest: put_row_mem)

lemma checked_filter [simp]: "checked P rows \<Longrightarrow> checked P (filter Q rows)"
  by (auto simp: checked_def)

lemma empty_rows [simp]: "keyed key []" "refer f [] key rows" "checked P []"
  by (simp_all add: keyed_def refer_def checked_def)

lemma refer_row: "refer f rows key rows' \<Longrightarrow> row_with k i rows = Some r \<Longrightarrow> f r \<in> key ` set rows'"
  by (auto simp: refer_def dest!: row_with_Some)

lemma checked_row: "checked P rows \<Longrightarrow> row_with k i rows = Some r \<Longrightarrow> P r"
  by (auto simp: checked_def dest!: row_with_Some)

subsection \<open>The invariant\<close>

text \<open>The versions of a definition are numbered from one, and at most one rollout that is not over is in a slot.\<close>

definition numbered :: "ConfigVersion list \<Rightarrow> bool" where
  "numbered vs \<longleftrightarrow> (\<forall>c. map ver_VersionNumber (filter (\<lambda>v. ver_ConfigDefinitionID v = c) vs) =
     map int [1..<Suc (length (filter (\<lambda>v. ver_ConfigDefinitionID v = c) vs))])"

definition one_active_row :: "rollout_row list \<Rightarrow> bool" where
  "one_active_row rows \<longleftrightarrow>
     (\<forall>r \<in> set rows. \<forall>r' \<in> set rows. row_active r \<and> row_active r' \<and> row_slot r = row_slot r' \<longrightarrow> pr_id r = pr_id r')"

text \<open>The stable version of an environment, when it has one.\<close>

definition stable_states :: "state_row list \<Rightarrow> state_row list" where
  "stable_states rows = filter (\<lambda>r. pe_stable_version_id r \<noteq> None) rows"

definition state_stable :: "state_row \<Rightarrow> string" where
  "state_stable r = the (pe_stable_version_id r)"

definition config_ok :: "pg_tables \<Rightarrow> bool" where
  "config_ok ts \<longleftrightarrow>
     keyed tenant_ID (db_tenants ts) \<and>
     keyed pd_id (db_config_definitions ts) \<and>
     keyed (\<lambda>d. (pd_tenant_id d, pd_config_key d)) (db_config_definitions ts) \<and>
     refer pd_tenant_id (db_config_definitions ts) tenant_ID (db_tenants ts) \<and>
     keyed ver_ID (db_config_versions ts) \<and>
     refer ver_ConfigDefinitionID (db_config_versions ts) pd_id (db_config_definitions ts) \<and>
     numbered (db_config_versions ts) \<and>
     keyed state_key (db_config_environment_states ts) \<and>
     refer pe_config_definition_id (db_config_environment_states ts) pd_id (db_config_definitions ts) \<and>
     refer state_stable (stable_states (db_config_environment_states ts)) ver_ID (db_config_versions ts) \<and>
     checked (\<lambda>s. valid_env (pe_environment s)) (db_config_environment_states ts)"

definition agents_ok :: "pg_tables \<Rightarrow> bool" where
  "agents_ok ts \<longleftrightarrow>
     keyed pa_id (db_agents ts) \<and>
     checked (\<lambda>a. valid_env (pa_environment a)) (db_agents ts) \<and>
     keyed cred_Token (db_agent_credentials ts) \<and>
     refer cred_AgentID (db_agent_credentials ts) pa_id (db_agents ts) \<and>
     keyed aack_ID (db_agent_acknowledgements ts) \<and>
     keyed ack_key (db_agent_acknowledgements ts) \<and>
     refer aack_AgentID (db_agent_acknowledgements ts) pa_id (db_agents ts) \<and>
     refer aack_ConfigDefinitionID (db_agent_acknowledgements ts) pd_id (db_config_definitions ts) \<and>
     refer aack_VersionID (db_agent_acknowledgements ts) ver_ID (db_config_versions ts)"

definition rollouts_ok :: "pg_tables \<Rightarrow> bool" where
  "rollouts_ok ts \<longleftrightarrow>
     keyed pr_id (db_rollouts_table ts) \<and>
     one_active_row (db_rollouts_table ts) \<and>
     refer pr_tenant_id (db_rollouts_table ts) tenant_ID (db_tenants ts) \<and>
     refer pr_config_definition_id (db_rollouts_table ts) pd_id (db_config_definitions ts) \<and>
     refer pr_stable_version_id (db_rollouts_table ts) ver_ID (db_config_versions ts) \<and>
     refer pr_candidate_version_id (db_rollouts_table ts) ver_ID (db_config_versions ts) \<and>
     checked (\<lambda>r. valid_env (pr_environment r)) (db_rollouts_table ts) \<and>
     checked (\<lambda>r. pr_state r \<in> state_text ` set all_states) (db_rollouts_table ts)"

definition stages_ok :: "pg_tables \<Rightarrow> bool" where
  "stages_ok ts \<longleftrightarrow>
     keyed ps_id (db_rollout_stages ts) \<and>
     keyed (\<lambda>s. (ps_rollout_id s, ps_stage_order s)) (db_rollout_stages ts) \<and>
     refer ps_rollout_id (db_rollout_stages ts) pr_id (db_rollouts_table ts) \<and>
     checked (\<lambda>s. 0 < ps_percentage s \<and> ps_percentage s \<le> 100) (db_rollout_stages ts) \<and>
     keyed target_key (db_rollout_stage_targets ts) \<and>
     refer pt_rollout_id (db_rollout_stage_targets ts) pr_id (db_rollouts_table ts) \<and>
     refer pt_stage_id (db_rollout_stage_targets ts) ps_id (db_rollout_stages ts) \<and>
     refer pt_agent_id (db_rollout_stage_targets ts) pa_id (db_agents ts) \<and>
     refer pt_expected_version_id (db_rollout_stage_targets ts) ver_ID (db_config_versions ts) \<and>
     checked (\<lambda>t. 0 \<le> pt_bucket t \<and> pt_bucket t < 10000 \<and> 0 < pt_snapshot_revision t) (db_rollout_stage_targets ts)"

definition pg_ok :: "pg_tables \<Rightarrow> bool" where
  "pg_ok ts \<longleftrightarrow> config_ok ts \<and> agents_ok ts \<and> rollouts_ok ts \<and> stages_ok ts"

lemmas pg_ok_defs = pg_ok_def config_ok_def agents_ok_def rollouts_ok_def stages_ok_def

lemma pg_ok_empty: "pg_ok empty_tables"
  by (simp add: pg_ok_defs empty_tables_def numbered_def one_active_row_def stable_states_def)

subsection \<open>Statements\<close>

lemma guards_case_Inr:
  "(case guards gs () of Inl e \<Rightarrow> Inl e | Inr _ \<Rightarrow> f) = Inr y \<longleftrightarrow> list_all fst gs \<and> f = Inr y"
  using guards_Inr [of gs "()" "()"] by (cases "guards gs ()") auto

lemma ok_save_agent: "pg_ok ts \<Longrightarrow> sql_save_agent pg r ts = Inr (a, ts') \<Longrightarrow> pg_ok ts'"
  by (auto simp: sql_save_agent_def Let_def statement_simps pg_ok_defs split: sum.splits option.splits)

lemma ok_save_credential: "pg_ok ts \<Longrightarrow> sql_save_credential c ts = Inr (a, ts') \<Longrightarrow> pg_ok ts'"
  by (auto simp: sql_save_credential_def statement_simps pg_ok_defs)

lemma ok_touch_heartbeat: "pg_ok ts \<Longrightarrow> sql_touch_heartbeat i t ts = Inr (a, ts') \<Longrightarrow> pg_ok ts'"
  using checked_row [of "\<lambda>a. valid_env (pa_environment a)" "db_agents ts" pa_id i]
  by (auto simp: sql_touch_heartbeat_def sql_lookup_def one_row_def Let_def statement_simps pg_ok_defs split: sum.splits option.splits)

lemma ok_save_acknowledgement: "pg_ok ts \<Longrightarrow> sql_save_acknowledgement k ts = Inr (a, ts') \<Longrightarrow> pg_ok ts'"
  by (auto simp: sql_save_acknowledgement_def guards_case_Inr statement_simps pg_ok_defs split: if_splits)

lemma ok_create_tenant: "pg_ok ts \<Longrightarrow> sql_create_tenant t ts = Inr (a, ts') \<Longrightarrow> pg_ok ts'"
  by (auto simp: sql_create_tenant_def statement_simps pg_ok_defs)

lemma ok_create_definition: "pg_ok ts \<Longrightarrow> sql_create_definition pg d ts = Inr (a, ts') \<Longrightarrow> pg_ok ts'"
  by (auto simp: sql_create_definition_def Let_def statement_simps pg_ok_defs split: sum.splits)

lemma stable_states_append: "stable_states (rows @ [r]) = stable_states rows @ (if pe_stable_version_id r \<noteq> None then [r] else [])"
  by (simp add: stable_states_def)

lemma stable_states_put:
  "refer state_stable (stable_states rows) ver_ID vs \<Longrightarrow> pe_stable_version_id r \<noteq> None \<Longrightarrow> state_stable r \<in> ver_ID ` set vs \<Longrightarrow>
    refer state_stable (stable_states (put_row k r rows)) ver_ID vs"
  "refer state_stable (stable_states rows) ver_ID vs \<Longrightarrow> pe_stable_version_id r = None \<Longrightarrow>
    refer state_stable (stable_states (put_row k r rows)) ver_ID vs"
  by (auto simp: refer_def stable_states_def image_subset_iff dest!: put_row_mem)

lemma ok_save_state: "pg_ok ts \<Longrightarrow> sql_save_state r ts = Inr (a, ts') \<Longrightarrow> pg_ok ts'"
  by (auto simp: sql_save_state_def statement_simps pg_ok_defs stable_states_append state_stable_def stable_states_put
      split: sum.splits option.splits)

lemma numbered_append:
  assumes "numbered vs" "ver_VersionNumber v = int (length (filter (\<lambda>x. ver_ConfigDefinitionID x = ver_ConfigDefinitionID v) vs)) + 1"
  shows "numbered (vs @ [v])"
  using assms by (auto simp: numbered_def)

lemma fold_max_upt: "fold max (map int [1..<Suc n]) x = max x (int n)" if "0 \<le> x" for x
  using that by (induction n arbitrary: x) auto

lemma sql_max_upt: "coalesce (sql_max (map int [1..<Suc n])) 0 = int n"
proof (cases n)
  case (Suc m)
  then have split: "map int [1..<Suc n] = 1 # map int [2..<Suc n]"
    by (simp add: upt_conv_Cons numeral_2_eq_2)
  have "fold max (map int [1..<Suc n]) 0 = int n" by (subst fold_max_upt) simp_all
  then show ?thesis unfolding split by (simp add: sql_max_def coalesce_def)
qed (simp add: sql_max_def coalesce_def)

lemma next_version:
  assumes "numbered (db_config_versions ts)" "sql_next_version c ts = Inr n"
  shows "n = int (length (filter (\<lambda>x. ver_ConfigDefinitionID x = c) (db_config_versions ts))) + 1"
  using assms sql_max_upt by (simp add: sql_next_version_def Let_def guards_Inr numbered_def del: upt_Suc)

lemma ok_insert_version:
  assumes "pg_ok ts" "sql_next_version (ver_ConfigDefinitionID v) ts = Inr (ver_VersionNumber v)" "sql_insert_version pg v ts = Inr (a, ts')"
  shows "pg_ok ts'"
proof -
  have "numbered (db_config_versions ts)" using assms(1) by (simp add: pg_ok_defs)
  from next_version [OF this assms(2)] numbered_append [OF this, of "v\<lparr>ver_Value := x\<rparr>" for x]
  show ?thesis using assms(1,3)
    by (auto simp: sql_insert_version_def guards_case_Inr Let_def statement_simps pg_ok_defs split: sum.splits)
qed

lemma slot_freeD:
  "slot_free r rows \<Longrightarrow> row_active r \<Longrightarrow> x \<in> set rows \<Longrightarrow> row_active x \<Longrightarrow> row_slot x = row_slot r \<Longrightarrow> pr_id x = pr_id r"
  by (auto simp: slot_free_def list_all_iff)

lemma one_activeD:
  "one_active_row rows \<Longrightarrow> x \<in> set rows \<Longrightarrow> y \<in> set rows \<Longrightarrow> row_active x \<Longrightarrow> row_active y \<Longrightarrow> row_slot x = row_slot y \<Longrightarrow>
    pr_id x = pr_id y"
  unfolding one_active_row_def by blast

lemma one_active_extend:
  assumes "one_active_row rows" "slot_free r rows" "set rows' \<subseteq> insert r (set rows)"
  shows "one_active_row rows'"
  unfolding one_active_row_def
proof (intro ballI impI, elim conjE)
  fix x y
  assume xy: "x \<in> set rows'" "y \<in> set rows'" "row_active x" "row_active y" "row_slot x = row_slot y"
  then have "x = r \<or> x \<in> set rows" "y = r \<or> y \<in> set rows" using assms(3) by auto
  then show "pr_id x = pr_id y"
    using xy slot_freeD [OF assms(2), of x] slot_freeD [OF assms(2), of y] one_activeD [OF assms(1), of x y] by (elim disjE) simp_all
qed

lemma one_active_append: "one_active_row rows \<Longrightarrow> slot_free r rows \<Longrightarrow> one_active_row (rows @ [r])"
  by (erule (1) one_active_extend) simp

lemma one_active_put: "one_active_row rows \<Longrightarrow> slot_free r rows \<Longrightarrow> one_active_row (put_row k r rows)"
  by (erule (1) one_active_extend) (auto dest: put_row_mem)

lemma slot_free_created [simp]: "slot_free (r\<lparr>pr_created_at := t\<rparr>) rows = slot_free r rows"
  by (simp add: slot_free_def row_active_def row_slot_def)

lemma rollout_documents_Inr:
  "rollout_documents pg r = Inr r' \<Longrightarrow>
    \<exists>services guardrails failures. r' = r\<lparr>pr_target_services := services, pr_guardrails := guardrails, pr_guardrail_failures := failures\<rparr>"
  by (auto simp: rollout_documents_def guards_case_Inr split: sum.splits)

lemma ok_insert_rollout: "pg_ok ts \<Longrightarrow> sql_insert_rollout pg r ts = Inr (a, ts') \<Longrightarrow> pg_ok ts'"
  by (auto simp: sql_insert_rollout_def rollout_checks_def rollout_references_def statement_simps pg_ok_defs one_active_append
      split: sum.splits)

lemma ok_update_rollout: "pg_ok ts \<Longrightarrow> sql_update_rollout pg r ts = Inr (a, ts') \<Longrightarrow> pg_ok ts'"
  by (auto simp: sql_update_rollout_def rollout_checks_def rollout_references_def statement_simps pg_ok_defs one_active_put
      split: sum.splits option.splits)

lemma ok_insert_stage: "pg_ok ts \<Longrightarrow> sql_insert_stage r ts = Inr (a, ts') \<Longrightarrow> pg_ok ts'"
  by (auto simp: sql_insert_stage_def statement_simps pg_ok_defs)

lemma ok_save_stage: "pg_ok ts \<Longrightarrow> sql_save_stage i s ts = Inr (a, ts') \<Longrightarrow> pg_ok ts'"
  by (auto simp: sql_save_stage_def Let_def guards_case_Inr split: if_splits intro: ok_insert_stage)

lemma ok_insert_target: "pg_ok ts \<Longrightarrow> sql_insert_target r ts = Inr (a, ts') \<Longrightarrow> pg_ok ts'"
  by (auto simp: sql_insert_target_def statement_simps pg_ok_defs split: option.splits)

lemma ok_delete_targets: "pg_ok ts \<Longrightarrow> sql_delete_targets i s ts = Inr (a, ts') \<Longrightarrow> pg_ok ts'"
  by (auto simp: sql_delete_targets_def statement_simps pg_ok_defs)

lemma ok_nextval: "pg_ok ts \<Longrightarrow> sql_nextval ts = Inr (a, ts') \<Longrightarrow> pg_ok ts'"
  by (auto simp: sql_nextval_def pg_ok_defs split: if_splits)

lemma statements_keep [keeps_rules]:
  "statement_keeps pg_ok (sql_save_agent pg r1)" "statement_keeps pg_ok (sql_save_credential r2)"
  "statement_keeps pg_ok (sql_touch_heartbeat i t)" "statement_keeps pg_ok (sql_save_acknowledgement r3)"
  "statement_keeps pg_ok (sql_create_tenant r4)" "statement_keeps pg_ok (sql_create_definition pg r5)"
  "statement_keeps pg_ok (sql_save_state r6)" "statement_keeps pg_ok (sql_insert_rollout pg r7)"
  "statement_keeps pg_ok (sql_update_rollout pg r7)" "statement_keeps pg_ok (sql_insert_stage r8)"
  "statement_keeps pg_ok (sql_save_stage i r9)" "statement_keeps pg_ok (sql_insert_target r10)"
  "statement_keeps pg_ok (sql_delete_targets i j)" "statement_keeps pg_ok sql_nextval"
  by (rule statement_keepsI, erule (1) ok_save_agent ok_save_credential ok_touch_heartbeat ok_save_acknowledgement ok_create_tenant
      ok_create_definition ok_save_state ok_insert_rollout ok_update_rollout ok_insert_stage ok_save_stage ok_insert_target
      ok_delete_targets ok_nextval)+

subsection \<open>Calls of the stores\<close>

text \<open>The calls of the three interfaces, and what a call does to the database.\<close>

datatype store_call =
    SaveAgentCall Agent | GetAgentCall string | ListAgentsCall | SaveCredentialCall AgentCredential | GetCredentialCall string
  | TouchHeartbeatCall string go_time | SaveAcknowledgementCall AgentAcknowledgement
  | CreateTenantCall Tenant | ListTenantsCall | GetTenantCall string | CreateDefinitionCall ConfigDefinition | ListDefinitionsCall string
  | GetDefinitionByKeyCall string string | CreateVersionCall ConfigVersion | ListVersionsCall string | GetVersionByNumberCall string int
  | SaveEnvironmentStateCall ConfigEnvironmentState | GetEnvironmentStateCall string Environment
  | CreateRolloutCall Rollout "Stage list" | GetRolloutCall string | GetActiveRolloutCall string string | ListActiveRolloutsCall
  | UpdateRolloutCall Rollout | ListStagesCall string | SaveStageCall string Stage | SaveStageTargetsCall "StageTarget list"
  | ReplaceStageTargetsCall string string "StageTarget list" | ListStageTargetsCall string string | NextSnapshotRevisionCall

fun pg_call :: "pg \<Rightarrow> store_call \<Rightarrow> pg_db \<Rightarrow> pg_db" where
  "pg_call pg (SaveAgentCall a) = snd \<circ> as_SaveAgent (pg_agent_store pg) a"
| "pg_call pg (GetAgentCall i) = snd \<circ> as_GetAgent (pg_agent_store pg) i"
| "pg_call pg ListAgentsCall = snd \<circ> as_ListAgents (pg_agent_store pg)"
| "pg_call pg (SaveCredentialCall c) = snd \<circ> as_SaveCredential (pg_agent_store pg) c"
| "pg_call pg (GetCredentialCall t) = snd \<circ> as_GetCredential (pg_agent_store pg) t"
| "pg_call pg (TouchHeartbeatCall i t) = snd \<circ> as_TouchHeartbeat (pg_agent_store pg) i t"
| "pg_call pg (SaveAcknowledgementCall k) = snd \<circ> as_SaveAcknowledgement (pg_agent_store pg) k"
| "pg_call pg (CreateTenantCall t) = snd \<circ> cs_CreateTenant (pg_config_store pg) t"
| "pg_call pg ListTenantsCall = snd \<circ> cs_ListTenants (pg_config_store pg)"
| "pg_call pg (GetTenantCall i) = snd \<circ> cs_GetTenant (pg_config_store pg) i"
| "pg_call pg (CreateDefinitionCall d) = snd \<circ> cs_CreateDefinition (pg_config_store pg) d"
| "pg_call pg (ListDefinitionsCall i) = snd \<circ> cs_ListDefinitions (pg_config_store pg) i"
| "pg_call pg (GetDefinitionByKeyCall i k) = snd \<circ> cs_GetDefinitionByKey (pg_config_store pg) i k"
| "pg_call pg (CreateVersionCall v) = snd \<circ> cs_CreateVersion (pg_config_store pg) v"
| "pg_call pg (ListVersionsCall c) = snd \<circ> cs_ListVersions (pg_config_store pg) c"
| "pg_call pg (GetVersionByNumberCall c n) = snd \<circ> cs_GetVersionByNumber (pg_config_store pg) c n"
| "pg_call pg (SaveEnvironmentStateCall s) = snd \<circ> cs_SaveEnvironmentState (pg_config_store pg) s"
| "pg_call pg (GetEnvironmentStateCall c e) = snd \<circ> cs_GetEnvironmentState (pg_config_store pg) c e"
| "pg_call pg (CreateRolloutCall r ss) = snd \<circ> st_CreateRollout (pg_rollout_store pg) r ss"
| "pg_call pg (GetRolloutCall i) = snd \<circ> st_GetRollout (pg_rollout_store pg) i"
| "pg_call pg (GetActiveRolloutCall c e) = snd \<circ> st_GetActiveRollout (pg_rollout_store pg) c e"
| "pg_call pg ListActiveRolloutsCall = snd \<circ> st_ListActiveRollouts (pg_rollout_store pg)"
| "pg_call pg (UpdateRolloutCall r) = snd \<circ> st_UpdateRollout (pg_rollout_store pg) r"
| "pg_call pg (ListStagesCall i) = snd \<circ> st_ListStages (pg_rollout_store pg) i"
| "pg_call pg (SaveStageCall i s) = snd \<circ> st_SaveStage (pg_rollout_store pg) i s"
| "pg_call pg (SaveStageTargetsCall ts) = snd \<circ> st_SaveStageTargets (pg_rollout_store pg) ts"
| "pg_call pg (ReplaceStageTargetsCall i s ts) = snd \<circ> st_ReplaceStageTargets (pg_rollout_store pg) i s ts"
| "pg_call pg (ListStageTargetsCall i s) = snd \<circ> st_ListStageTargets (pg_rollout_store pg) i s"
| "pg_call pg NextSnapshotRevisionCall = snd \<circ> st_NextSnapshotRevision (pg_rollout_store pg)"

definition pg_calls :: "pg \<Rightarrow> store_call list \<Rightarrow> pg_db \<Rightarrow> pg_db" where
  "pg_calls pg calls = fold (pg_call pg) calls"

lemma keeps_insert_stages: "keeps pg_ok (insert_stages pg i n ss)"
  by (induction ss arbitrary: n) (simp_all add: keeps_rules)

lemma keeps_insert_targets: "keeps pg_ok (insert_targets pg ts)"
  by (induction ts) (simp_all add: pg_insertStageTarget_def keeps_rules)

text \<open>A version's number is the one its transaction has just read.\<close>

lemma pg_exec_Inr: "pg_exec pg m stmt db = (Inr a, db') \<Longrightarrow> stmt (pg_tables db) = Inr (a, pg_tables db')"
  by (auto simp: pg_exec_def split: option.splits sum.splits)

lemma pg_exec_tables:
  "pg_tables (snd (pg_exec pg m stmt db)) = pg_tables db \<or> (\<exists>a. stmt (pg_tables db) = Inr (a, pg_tables (snd (pg_exec pg m stmt db))))"
  by (auto simp: pg_exec_def split: option.splits sum.splits)

lemma pg_query_Inr: "pg_query pg m q db = (Inr a, db') \<Longrightarrow> q (pg_tables db) = Inr a \<and> pg_tables db' = pg_tables db"
  by (auto simp: pg_query_def map_sum_def dest!: pg_exec_Inr split: sum.splits)

lemma pg_query_tables: "pg_tables (snd (pg_query pg m q db)) = pg_tables db"
  by (auto simp: pg_query_def pg_exec_def map_sum_def split: option.splits sum.splits)

lemma keeps_numbered_insert:
  "keeps pg_ok (bindM (pg_query pg m (sql_next_version (ver_ConfigDefinitionID v))) (\<lambda>n.
     bindM (pg_exec pg m (sql_insert_version pg (v\<lparr>ver_VersionNumber := n, ver_CreatedAt := t\<rparr>))) (\<lambda>_. retM (g n))))"
  unfolding keeps_def
proof (intro allI impI)
  fix db :: pg_db
  assume ok: "pg_ok (pg_tables db)"
  obtain r db1 where read: "pg_query pg m (sql_next_version (ver_ConfigDefinitionID v)) db = (r, db1)" by fastforce
  have same: "pg_tables db1 = pg_tables db" using pg_query_tables read by (metis snd_conv)
  show "pg_ok (pg_tables (snd (bindM (pg_query pg m (sql_next_version (ver_ConfigDefinitionID v))) (\<lambda>n.
     bindM (pg_exec pg m (sql_insert_version pg (v\<lparr>ver_VersionNumber := n, ver_CreatedAt := t\<rparr>))) (\<lambda>_. retM (g n))) db)))"
  proof (cases r)
    case (Inl e)
    then show ?thesis using read same ok by (simp add: bindM_def)
  next
    case (Inr n)
    define w where "w = v\<lparr>ver_VersionNumber := n, ver_CreatedAt := t\<rparr>"
    have number: "sql_next_version (ver_ConfigDefinitionID w) (pg_tables db1) = Inr (ver_VersionNumber w)"
      using pg_query_Inr read Inr same by (fastforce simp: w_def)
    have "pg_ok (pg_tables (snd (pg_exec pg m (sql_insert_version pg w) db1)))"
      using pg_exec_tables [of pg m "sql_insert_version pg w" db1] ok_insert_version [OF _ number] ok same by (metis ok_insert_version number)
    then show ?thesis
      using read Inr unfolding w_def by (auto simp: bindM_def retM_def split: prod.splits sum.splits)
  qed
qed

lemma keeps_create_version: "keeps pg_ok (pg_CreateVersion pg v)"
  unfolding pg_CreateVersion_def Let_def
  by (rule keeps_tx, rule keeps_bind [OF keeps_query]) (simp add: keeps_numbered_insert [where m = mapError])

lemmas operation_defs =
  pg_SaveAgent_def pg_GetAgent_def pg_ListAgents_def pg_SaveCredential_def pg_GetCredential_def pg_TouchHeartbeat_def
  pg_SaveAcknowledgement_def pg_CreateTenant_def pg_ListTenants_def pg_GetTenant_def pg_CreateDefinition_def pg_ListDefinitions_def
  pg_GetDefinitionByKey_def pg_ListVersions_def pg_GetVersionByNumber_def pg_SaveEnvironmentState_def pg_GetEnvironmentState_def
  pg_CreateRollout_def pg_GetRollout_def pg_GetActiveRollout_def pg_ListActiveRollouts_def pg_UpdateRollout_def pg_ListStages_def
  pg_SaveStage_def pg_SaveStageTargets_def pg_ReplaceStageTargets_def pg_ListStageTargets_def pg_NextSnapshotRevision_def

lemma operations_keep:
  "keeps pg_ok (pg_CreateRollout pg r ss)" "keeps pg_ok (pg_UpdateRollout pg r)" "keeps pg_ok (pg_SaveStageTargets pg ts)"
  "keeps pg_ok (pg_ReplaceStageTargets pg i s ts)"
  unfolding operation_defs by (intro keeps_rules keeps_insert_stages keeps_insert_targets)+

lemma call_keeps: "pg_ok (pg_tables db) \<Longrightarrow> pg_ok (pg_tables (pg_call pg c db))"
proof -
  have step: "keeps pg_ok f \<Longrightarrow> pg_ok (pg_tables db) \<Longrightarrow> pg_ok (pg_tables (snd (f db)))" for f :: "(pg_db, 'x) M"
    by (simp add: keeps_def)
  assume "pg_ok (pg_tables db)"
  then show ?thesis
    by (cases c)
      (simp_all add: pg_agent_store_def pg_config_store_def pg_rollout_store_def step keeps_create_version operations_keep,
       simp_all add: operation_defs keeps_rules step)
qed

end
