(* ===== verification/Postgres_Theorems.thy ===== *)
theory Postgres_Theorems
  imports Postgres_Integrity
begin

section \<open>The PostgreSQL store: properties\<close>

text \<open>
  The tables after any calls, what a creation leaves behind, what is read back, and the stage IDs that rollouts cannot share.
\<close>

definition fresh_database :: "nat \<Rightarrow> pg_db" where
  "fresh_database n = \<lparr>pg_tables = empty_tables, pg_tick = n\<rparr>"

lemma calls_keep: "pg_ok (pg_tables db) \<Longrightarrow> pg_ok (pg_tables (pg_calls pg calls db))"
  by (induction calls arbitrary: db) (simp_all add: pg_calls_def call_keeps)

text \<open>C28 (invariant). After any calls of the three stores on an empty database, in any order, whatever they answer and at whichever statements the
  connection fails: keys are unique, every reference has its row, the versions of a definition are numbered from one without a gap, and at most
  one rollout that is not over exists for each definition and environment.\<close>

theorem tables_stay_consistent: "pg_ok (pg_tables (pg_calls pg calls (fresh_database n)))"
  by (rule calls_keep) (simp add: fresh_database_def pg_ok_empty)

subsection \<open>Creating a rollout\<close>

fun numbered_stages :: "string \<Rightarrow> int \<Rightarrow> Stage list \<Rightarrow> stage_row list" where
  "numbered_stages i n [] = []"
| "numbered_stages i n (s # ss) = stage_columns i (n + 1) s # numbered_stages i (n + 1) ss"

lemma bindM_InrE:
  assumes "bindM f g w = (Inr b, w')"
  obtains a w1 where "f w = (Inr a, w1)" "g a w1 = (Inr b, w')"
  using assms by (auto simp: bindM_Inr)

lemma insert_stage_Inr:
  "sql_insert_stage r ts = Inr (u, ts') \<Longrightarrow>
    ts' = ts\<lparr>db_rollout_stages := db_rollout_stages ts @ [r]\<rparr> \<and> ps_id r \<notin> ps_id ` set (db_rollout_stages ts)"
  by (auto simp: sql_insert_stage_def statement_simps)

lemma insert_stages_Inr:
  "insert_stages pg i n ss db = (Inr u, db') \<Longrightarrow>
    pg_tables db' = (pg_tables db)\<lparr>db_rollout_stages := db_rollout_stages (pg_tables db) @ numbered_stages i n ss\<rparr> \<and>
    distinct (map stage_ID ss) \<and> stage_ID ` set ss \<inter> ps_id ` set (db_rollout_stages (pg_tables db)) = {}"
proof (induction ss arbitrary: n db)
  case (Cons s ss)
  from Cons.prems obtain a db1 where "pg_exec pg mapRolloutError (sql_insert_stage (stage_columns i (n + 1) s)) db = (Inr a, db1)"
    "insert_stages pg i (n + 1) ss db1 = (Inr u, db')"
    by (auto elim: bindM_InrE)
  with insert_stage_Inr pg_exec_Inr Cons.IH [of "n + 1" db1] show ?case by (fastforce simp: stage_columns_def)
qed (simp add: retM_def)

lemma pg_tx_tables:
  "pg_tx pg m f db = (Inl e, db') \<Longrightarrow> pg_tables db' = pg_tables db"
  by (auto simp: pg_tx_def split: option.splits prod.splits sum.splits)

lemma pg_tx_Inr: "pg_tx pg m f db = (Inr a, db') \<Longrightarrow> \<exists>db1. f (pg_next db) = (Inr a, db1) \<and> pg_tables db' = pg_tables db1"
  by (auto simp: pg_tx_def split: option.splits prod.splits sum.splits)

lemma insert_rollout_Inr:
  "sql_insert_rollout pg r ts = Inr (u, ts') \<Longrightarrow>
    \<exists>row. rollout_documents pg r = Inr row \<and> ts' = ts\<lparr>db_rollouts_table := db_rollouts_table ts @ [row]\<rparr> \<and>
      pr_id row \<notin> pr_id ` set (db_rollouts_table ts) \<and> slot_free row (db_rollouts_table ts)"
  by (auto simp: sql_insert_rollout_def statement_simps split: sum.splits)

lemma create_rollout_Inr:
  assumes "pg_CreateRollout pg r ss db = (Inr u, db')"
  shows "\<exists>row. rollout_documents pg (rollout_columns r) = Inr row \<and>
      pg_tables db' = (pg_tables db)\<lparr>db_rollouts_table := db_rollouts_table (pg_tables db) @ [row],
        db_rollout_stages := db_rollout_stages (pg_tables db) @ numbered_stages (ro_ID r) 0 ss\<rparr> \<and>
      ro_ID r \<notin> pr_id ` set (db_rollouts_table (pg_tables db)) \<and> slot_free row (db_rollouts_table (pg_tables db)) \<and>
      distinct (map stage_ID ss) \<and> stage_ID ` set ss \<inter> ps_id ` set (db_rollout_stages (pg_tables db)) = {}"
proof -
  from pg_tx_Inr [OF assms [unfolded pg_CreateRollout_def]] obtain db1 db2 where run:
    "pg_exec pg mapRolloutError (sql_insert_rollout pg (rollout_columns r)) (pg_next db) = (Inr (), db1)"
    "insert_stages pg (ro_ID r) 0 ss db1 = (Inr u, db2)" "pg_tables db' = pg_tables db2"
    by (auto elim!: bindM_InrE)
  from insert_rollout_Inr [OF pg_exec_Inr [OF run(1)]] obtain row where row: "rollout_documents pg (rollout_columns r) = Inr row"
    "pg_tables db1 = (pg_tables db)\<lparr>db_rollouts_table := db_rollouts_table (pg_tables db) @ [row]\<rparr>"
    "pr_id row \<notin> pr_id ` set (db_rollouts_table (pg_tables db))" "slot_free row (db_rollouts_table (pg_tables db))" by auto
  have "pr_id row = ro_ID r" using rollout_documents_Inr [OF row(1)] by (auto simp: rollout_columns_def)
  with row insert_stages_Inr [OF run(2)] run(3) show ?thesis by simp
qed

text \<open>C29 (functional). \<open>CreateRollout\<close> does all or nothing: an error, in whichever statement, leaves the tables as they were; success adds the
  row of the rollout and the rows of its stages, numbered from one, and then the rollout's ID was new, its slot free, and its stage IDs
  different from each other and from those of all rollouts.\<close>

theorem create_rollout_is_atomic:
  "case pg_CreateRollout pg r ss db of
     (Inl e, db') \<Rightarrow> pg_tables db' = pg_tables db
   | (Inr _, db') \<Rightarrow>
       (\<exists>row. rollout_documents pg (rollout_columns r) = Inr row \<and>
         pg_tables db' = (pg_tables db)\<lparr>db_rollouts_table := db_rollouts_table (pg_tables db) @ [row],
           db_rollout_stages := db_rollout_stages (pg_tables db) @ numbered_stages (ro_ID r) 0 ss\<rparr> \<and>
         ro_ID r \<notin> pr_id ` set (db_rollouts_table (pg_tables db)) \<and> slot_free row (db_rollouts_table (pg_tables db)) \<and>
         distinct (map stage_ID ss) \<and> stage_ID ` set ss \<inter> ps_id ` set (db_rollout_stages (pg_tables db)) = {})"
  using create_rollout_Inr [of pg r ss db] pg_tx_tables [of pg mapRolloutError _ db]
  by (auto simp: pg_CreateRollout_def split: prod.split sum.split)

subsection \<open>Rollouts with the same stage IDs\<close>

lemma numbered_stages_ids [simp]: "map ps_id (numbered_stages i n ss) = map stage_ID ss"
  by (induction ss arbitrary: n) (simp_all add: stage_columns_def)

lemma numbered_stages_id_set [simp]: "ps_id ` set (numbered_stages i n ss) = stage_ID ` set ss"
  by (metis list.set_map numbered_stages_ids)

definition has_stage :: "string \<Rightarrow> pg_tables \<Rightarrow> bool" where
  "has_stage i ts \<longleftrightarrow> i \<in> ps_id ` set (db_rollout_stages ts)"

lemma statements_keep_stage [keeps_rules]:
  "statement_keeps (has_stage x) (sql_save_agent pg r1)" "statement_keeps (has_stage x) (sql_save_credential r2)"
  "statement_keeps (has_stage x) (sql_touch_heartbeat i t)" "statement_keeps (has_stage x) (sql_save_acknowledgement r3)"
  "statement_keeps (has_stage x) (sql_create_tenant r4)" "statement_keeps (has_stage x) (sql_create_definition pg r5)"
  "statement_keeps (has_stage x) (sql_save_state r6)" "statement_keeps (has_stage x) (sql_insert_rollout pg r7)"
  "statement_keeps (has_stage x) (sql_update_rollout pg r7)" "statement_keeps (has_stage x) (sql_insert_target r10)"
  "statement_keeps (has_stage x) (sql_delete_targets i j)" "statement_keeps (has_stage x) sql_nextval"
  "statement_keeps (has_stage x) (sql_insert_version pg v)"
  by (auto simp: statement_keeps_def has_stage_def Let_def guards_Inr guards_case_Inr sql_save_agent_def sql_save_credential_def sql_touch_heartbeat_def
      sql_lookup_def one_row_def sql_save_acknowledgement_def sql_create_tenant_def sql_create_definition_def sql_save_state_def
      sql_insert_rollout_def sql_update_rollout_def sql_insert_target_def sql_delete_targets_def sql_nextval_def sql_insert_version_def
      split: sum.splits option.splits if_splits)

lemma insert_stage_keeps_stage [keeps_rules]: "statement_keeps (has_stage x) (sql_insert_stage r8)"
  by (auto simp: statement_keeps_def has_stage_def dest: insert_stage_Inr)

lemma save_stage_keeps_stage [keeps_rules]: "statement_keeps (has_stage x) (sql_save_stage i r9)"
  using insert_stage_keeps_stage by (auto simp: statement_keeps_def sql_save_stage_def Let_def guards_case_Inr split: if_splits)

lemma stage_loops_keep [keeps_rules]: "keeps (has_stage x) (insert_stages pg i n ss)" "keeps (has_stage x) (insert_targets pg ts)"
  by (induction ss arbitrary: n, simp_all add: keeps_rules) (induction ts, simp_all add: pg_insertStageTarget_def keeps_rules)

lemma call_keeps_stage: "has_stage x (pg_tables db) \<Longrightarrow> has_stage x (pg_tables (pg_call pg c db))"
proof -
  have step: "keeps (has_stage x) f \<Longrightarrow> has_stage x (pg_tables db) \<Longrightarrow> has_stage x (pg_tables (snd (f db)))" for f :: "(pg_db, 'x) M"
    by (simp add: keeps_def)
  have composed: "keeps (has_stage x) (pg_CreateRollout pg r ss)" "keeps (has_stage x) (pg_UpdateRollout pg r)"
    "keeps (has_stage x) (pg_SaveStageTargets pg ts)" "keeps (has_stage x) (pg_ReplaceStageTargets pg i s ts)"
    "keeps (has_stage x) (pg_CreateVersion pg v)" for r ss ts i s v
    unfolding operation_defs pg_CreateVersion_def Let_def by (intro keeps_rules)+
  assume "has_stage x (pg_tables db)"
  then show ?thesis
    by (cases c)
      (simp_all add: pg_agent_store_def pg_config_store_def pg_rollout_store_def step composed,
       simp_all add: operation_defs keeps_rules step)
qed

lemma calls_keep_stage: "has_stage x (pg_tables db) \<Longrightarrow> has_stage x (pg_tables (pg_calls pg calls db))"
  by (induction calls arbitrary: db) (simp_all add: pg_calls_def call_keeps_stage)

text \<open>C30 (error). Stage IDs are a key of all rollouts together: once a rollout with a stage plan was created, no rollout whose plan shares an ID
  with it can ever be created, whatever happens in between. In particular the second rollout with the default plan fails.\<close>

theorem stage_ids_are_used_up:
  assumes "pg_CreateRollout pg r ss db = (Inr (), db1)" "stage_ID ` set ss \<inter> stage_ID ` set ss' \<noteq> {}"
  shows "\<exists>e db'. pg_CreateRollout pg r' ss' (pg_calls pg calls db1) = (Inl e, db') \<and> pg_tables db' = pg_tables (pg_calls pg calls db1)"
proof -
  obtain x where x: "x \<in> stage_ID ` set ss" "x \<in> stage_ID ` set ss'" using assms(2) by auto
  have "has_stage x (pg_tables db1)" using create_rollout_Inr [OF assms(1)] x(1) by (auto simp: has_stage_def image_Un)
  then have taken: "has_stage x (pg_tables (pg_calls pg calls db1))" by (rule calls_keep_stage)
  obtain res db' where run: "pg_CreateRollout pg r' ss' (pg_calls pg calls db1) = (res, db')" by fastforce
  show ?thesis
  proof (cases res)
    case (Inl e)
    then show ?thesis using run pg_tx_tables by (auto simp: pg_CreateRollout_def)
  next
    case (Inr u)
    then show ?thesis using create_rollout_Inr [of pg r' ss' "pg_calls pg calls db1" u db'] run taken x(2) by (auto simp: has_stage_def)
  qed
qed

text \<open>A database with a tenant, a definition, and one version, on a server whose \<open>JSONB\<close> keeps texts as they are; two rollouts on it.\<close>

definition demo_pg :: pg where
  "demo_pg = \<lparr>pg_fault = (\<lambda>_. None), pg_jsonb = Inr, pg_collate = (\<lambda>s. s), pg_scan = (\<lambda>_. [])\<rparr>"

definition demo_rows :: pg_db where
  "demo_rows = pg_calls demo_pg
     [CreateTenantCall \<lparr>tenant_ID = ''t'', tenant_Name = ''T'', tenant_Description = [], tenant_Owner = [], tenant_CreatedAt = 0, tenant_UpdatedAt = 0\<rparr>,
      CreateDefinitionCall \<lparr>def_ID = ''d'', def_TenantID = ''t'', def_Key = ''k'', def_Description = [], def_Schema = ''{}'', def_DefaultValue = [],
        def_CreatedAt = 0, def_UpdatedAt = 0\<rparr>,
      CreateVersionCall \<lparr>ver_ID = ''v'', ver_ConfigDefinitionID = ''d'', ver_VersionNumber = 0, ver_Value = ''{}'', ver_SourceCommitSHA = [],
        ver_CreatedBy = [], ver_CreatedAt = 0\<rparr>] (fresh_database 0)"

definition demo_row_rollout :: "string \<Rightarrow> string \<Rightarrow> Rollout" where
  "demo_row_rollout i environment =
     zero_Rollout\<lparr>ro_ID := i, ro_TenantID := ''t'', ro_ConfigDefinitionID := ''d'', ro_ConfigKey := ''k'', ro_Environment := environment,
       ro_TargetServices := [''api''], ro_StableVersionID := ''v'', ro_CandidateVersionID := ''v'', ro_CandidateVersion := 1,
       ro_State := StatePending, ro_RequiredAckPercent := Fin 95, ro_GuardrailFailures := [(''errors'', 2)],
       ro_Guardrails := [\<lparr>rule_Name = ''errors'', rule_Query = ''rate'', rule_Operator = ''<'', rule_Threshold = Fin 2, rule_ConsecutiveFailures = 3\<rparr>],
       ro_DeploymentTimeout := 90 * Second + 5, ro_CreatedAt := 1234567\<rparr>"

definition demo_created :: pg_db where
  "demo_created = snd (pg_CreateRollout demo_pg (demo_row_rollout ''r-1'' EnvironmentProduction) DefaultStagePlan demo_rows)"

lemma demo_creation:
  "pg_CreateRollout demo_pg (demo_row_rollout ''r-1'' EnvironmentProduction) DefaultStagePlan demo_rows = (Inr (), demo_created)"
proof -
  have "fst (pg_CreateRollout demo_pg (demo_row_rollout ''r-1'' EnvironmentProduction) DefaultStagePlan demo_rows) = Inr ()" by code_simp
  then show ?thesis by (simp add: demo_created_def prod_eq_iff)
qed

lemma demo_shared: "stage_ID ` set DefaultStagePlan \<inter> stage_ID ` set DefaultStagePlan \<noteq> {}"
  by (simp add: DefaultStagePlan_def)

theorem stage_ids_are_used_up_witness:
  "\<exists>e db'. pg_CreateRollout demo_pg (demo_row_rollout ''r-2'' EnvironmentStaging) DefaultStagePlan (pg_calls demo_pg [] demo_created) = (Inl e, db') \<and>
     pg_tables db' = pg_tables (pg_calls demo_pg [] demo_created)"
  by (rule stage_ids_are_used_up [OF demo_creation demo_shared])

lemma second_rollout_conflicts:
  "fst (pg_CreateRollout demo_pg (demo_row_rollout ''r-2'' EnvironmentStaging) DefaultStagePlan demo_created) =
     Inl (Errorf ''%w: %s'' [FW (Sentinel rollout_ErrConflict), FS ''rollout_stages_pkey''])"
  by code_simp

subsection \<open>Reading a rollout back\<close>

text \<open>The documents of a rollout come back from the server as the values they were written from.\<close>

definition documents_survive :: "pg \<Rightarrow> Rollout \<Rightarrow> bool" where
  "documents_survive pg r \<longleftrightarrow>
     (case rollout_documents pg (rollout_columns r) of
        Inl _ \<Rightarrow> False
      | Inr row \<Rightarrow>
          decode_column (dec_slice [] dec_string) [] (pr_target_services row) = Inr (ro_TargetServices r) \<and>
          decode_column (dec_slice zero_Rule rule_decoder) [] (pr_guardrails row) = Inr (ro_Guardrails r) \<and>
          decode_column (dec_map 0 dec_int64) [] (pr_guardrail_failures row) = Inr (ro_GuardrailFailures r))"

definition whole_seconds :: "duration \<Rightarrow> duration" where
  "whole_seconds d = (if d \<le> 0 then 0 else d - d mod Second)"

definition stored_rollout :: "Rollout \<Rightarrow> Rollout" where
  "stored_rollout r =
     r\<lparr>ro_StageStartedAt := to_timestamptz (ro_StageStartedAt r), ro_DeploymentTimeout := whole_seconds (ro_DeploymentTimeout r),
       ro_RolloutMaxDuration := whole_seconds (ro_RolloutMaxDuration r), ro_RollbackTimeout := whole_seconds (ro_RollbackTimeout r),
       ro_CreatedAt := to_timestamptz (ro_CreatedAt r), ro_UpdatedAt := to_timestamptz (ro_UpdatedAt r)\<rparr>"

definition stored_stage :: "Stage \<Rightarrow> Stage" where
  "stored_stage s = s\<lparr>stage_MinimumDuration := whole_seconds (stage_MinimumDuration s)\<rparr>"

lemma seconds_back: "pg_durationSeconds d * Second = whole_seconds d"
  by (simp add: pg_durationSeconds_def whole_seconds_def minus_mod_eq_div_mult)

lemma scan_stored:
  assumes "documents_survive pg r" "rollout_documents pg (rollout_columns r) = Inr row"
  shows "scanRollout row = Inr (stored_rollout r)"
proof -
  obtain services guardrails failures where row:
    "row = rollout_columns r\<lparr>pr_target_services := services, pr_guardrails := guardrails, pr_guardrail_failures := failures\<rparr>"
    using rollout_documents_Inr [OF assms(2)] by blast
  show ?thesis
    using assms unfolding documents_survive_def
    by (simp add: scanRollout_def) (simp add: row rollout_columns_def stored_rollout_def seconds_back)
qed

lemma numbered_stages_scan: "map scanStage (numbered_stages i n ss) = map stored_stage ss"
  by (induction ss arbitrary: n) (simp_all add: scanStage_def stage_columns_def stored_stage_def seconds_back)

lemma numbered_stages_order: "sorted (map ps_stage_order (numbered_stages i n ss)) \<and> (\<forall>x \<in> set (numbered_stages i n ss). n < ps_stage_order x \<and> ps_rollout_id x = i)"
  by (induction ss arbitrary: n) (force simp: stage_columns_def)+

lemma query_no_fault: "pg_fault pg = (\<lambda>_. None) \<Longrightarrow> pg_query pg m q db =
    (case q (pg_tables db) of Inl e \<Rightarrow> (Inl (m e), pg_next db) | Inr a \<Rightarrow> (Inr a, pg_next db))"
  by (cases db) (auto simp: pg_query_def pg_exec_def map_sum_def pg_next_def split: sum.splits)

lemma row_with_append: "k \<notin> key ` set rows \<Longrightarrow> key r = k \<Longrightarrow> row_with key k (rows @ [r]) = Some r"
  by (induction rows) (auto simp: row_with_def)

lemma active_of_scan:
  assumes "mset scanned = mset (rows @ [row])" "row_active row" "slot_free row rows" "row_slot row = (c, e)" "pr_id row \<notin> pr_id ` set rows"
  shows "latest_active c e scanned = Some row"
proof -
  have none: "filter (\<lambda>r. row_slot r = (c, e) \<and> row_active r) rows = []"
    unfolding filter_empty_conv using assms(4,5) slot_freeD [OF assms(3,2)] by (metis image_eqI)
  have "mset (filter (\<lambda>r. row_slot r = (c, e) \<and> row_active r) scanned) = mset (filter (\<lambda>r. row_slot r = (c, e) \<and> row_active r) (rows @ [row]))"
    by (simp only: mset_filter assms(1))
  also have "\<dots> = {#row#}" using none assms(2,4) by (simp only: filter_append) simp
  finally have "filter (\<lambda>r. row_slot r = (c, e) \<and> row_active r) scanned = [row]" by (simp only: mset_single_iff)
  then show ?thesis by (simp add: latest_active_def)
qed

lemma range_order_mset: "mset (range_order p xs) = mset xs"
proof (cases "sort p = [0..<length xs]")
  case True
  then have "mset p = mset [0..<length xs]" by (metis mset_sort)
  then have "mset (map ((!) xs) p) = mset (map ((!) xs) [0..<length xs])" by simp
  then show ?thesis using True by (simp add: range_order_def map_nth)
qed (simp add: range_order_def)

lemma active_text: "\<not> Terminal s \<Longrightarrow> s \<noteq> StateUnset \<Longrightarrow> state_text s \<in> set (map state_text active_states)"
  by (cases s) (simp_all add: active_states_def)

lemma insert_rollout_texts:
  "sql_insert_rollout pg r ts = Inr (u, ts') \<Longrightarrow> rollout_documents pg r = Inr row \<Longrightarrow>
    list_all fst (rollout_texts row) \<and> pr_state row \<in> state_text ` set all_states"
  by (auto simp: sql_insert_rollout_def rollout_checks_def statement_simps)

text \<open>C31 (roundtrip). A rollout that was created is read back, by its ID and as the active rollout of its definition and environment, with its
  stages in the order of the plan: times are cut to microseconds, durations to whole seconds, and everything else comes back as it was, if
  the documents of the rollout survive the server's \<open>JSONB\<close> and no statement fails for another reason.\<close>

theorem rollout_is_read_back:
  assumes "pg_fault pg = (\<lambda>_. None)" "pg_ok (pg_tables db)" "documents_survive pg r" "\<not> Terminal (ro_State r)"
    "pg_CreateRollout pg r ss db = (Inr (), db')"
  shows "fst (pg_GetRollout pg (ro_ID r) db') = Inr (stored_rollout r) \<and>
    fst (pg_GetActiveRollout pg (ro_ConfigDefinitionID r) (ro_Environment r) db') = Inr (stored_rollout r) \<and>
    fst (pg_ListStages pg (ro_ID r) db') = Inr (map stored_stage ss)"
proof -
  from create_rollout_Inr [OF assms(5)] obtain row where row: "rollout_documents pg (rollout_columns r) = Inr row"
    "db_rollouts_table (pg_tables db') = db_rollouts_table (pg_tables db) @ [row]"
    "db_rollout_stages (pg_tables db') = db_rollout_stages (pg_tables db) @ numbered_stages (ro_ID r) 0 ss"
    "ro_ID r \<notin> pr_id ` set (db_rollouts_table (pg_tables db))" "slot_free row (db_rollouts_table (pg_tables db))" by auto
  from pg_tx_Inr [OF assms(5) [unfolded pg_CreateRollout_def]] obtain db1
    where "pg_exec pg mapRolloutError (sql_insert_rollout pg (rollout_columns r)) (pg_next db) = (Inr (), db1)" by (auto elim!: bindM_InrE)
  from insert_rollout_texts [OF pg_exec_Inr [OF this] row(1)]
  have valid: "list_all fst (rollout_texts row)" "pr_state row \<in> state_text ` set all_states" by auto
  have columns: "pr_id row = ro_ID r" "row_slot row = (ro_ConfigDefinitionID r, ro_Environment r)" "pr_state row = state_text (ro_State r)"
    using rollout_documents_Inr [OF row(1)] by (auto simp: rollout_columns_def row_slot_def)
  have texts: "list_all fst (text_args [ro_ID r])" "list_all fst (text_args [ro_ConfigDefinitionID r, ro_Environment r])"
    using valid(1) columns(1,2) by (auto simp: rollout_texts_def text_args_def row_slot_def)
  have "ro_State r \<in> set all_states" using valid(2) columns(3) State_of_text by (metis imageE)
  then have "ro_State r \<noteq> StateUnset" by (auto simp: all_states_def)
  then have active: "row_active row" using active_text [OF assms(4)] columns(3) by (simp add: row_active_def)
  note scan = scan_stored [OF assms(3) row(1)]
  have found: "row_with pr_id (ro_ID r) (db_rollouts_table (pg_tables db')) = Some row"
    unfolding row(2) using row(4) columns(1) by (intro row_with_append)
  have one: "latest_active (ro_ConfigDefinitionID r) (ro_Environment r) (range_order p (db_rollouts_table (pg_tables db'))) = Some row" for p
    using row(4,5) columns active by (intro active_of_scan [where rows = "db_rollouts_table (pg_tables db)"]) (simp_all add: range_order_mset row(2))
  have "ps_rollout_id s \<noteq> ro_ID r" if "s \<in> set (db_rollout_stages (pg_tables db))" for s
  proof -
    have "refer ps_rollout_id (db_rollout_stages (pg_tables db)) pr_id (db_rollouts_table (pg_tables db))" using assms(2) by (simp add: pg_ok_defs)
    then show ?thesis using row(4) that by (metis refer_def image_eqI subsetD)
  qed
  then have own: "stages_of (ro_ID r) (pg_tables db') = numbered_stages (ro_ID r) 0 ss"
    using numbered_stages_order [of "ro_ID r" 0 ss] unfolding stages_of_def row(3) by (auto simp: filter_id_conv filter_empty_conv)
  show ?thesis
    using texts scan found one own numbered_stages_order [of "ro_ID r" 0 ss]
    by (simp add: pg_GetRollout_def pg_GetActiveRollout_def pg_ListStages_def pg_scanned_def bindM_def query_no_fault [OF assms(1)] sql_lookup_def
        sql_select_def one_row_def liftE_def retM_def guards_Inr [THEN iffD2] sort_key_id_if_sorted numbered_stages_scan)
qed

theorem rollout_is_read_back_witness:
  "fst (pg_GetRollout demo_pg ''r-1'' demo_created) = Inr (stored_rollout (demo_row_rollout ''r-1'' EnvironmentProduction)) \<and>
   fst (pg_GetActiveRollout demo_pg ''d'' EnvironmentProduction demo_created) = Inr (stored_rollout (demo_row_rollout ''r-1'' EnvironmentProduction)) \<and>
   fst (pg_ListStages demo_pg ''r-1'' demo_created) = Inr (map stored_stage DefaultStagePlan)"
proof -
  have "pg_ok (pg_tables demo_rows)" unfolding demo_rows_def by (rule calls_keep) (simp add: fresh_database_def pg_ok_empty)
  moreover have "documents_survive demo_pg (demo_row_rollout ''r-1'' EnvironmentProduction)" by code_simp
  moreover have "pg_fault demo_pg = (\<lambda>_. None)" "\<not> Terminal (ro_State (demo_row_rollout ''r-1'' EnvironmentProduction))"
    by (simp_all add: demo_pg_def demo_row_rollout_def)
  ultimately show ?thesis
    using rollout_is_read_back [OF _ _ _ _ demo_creation] by (simp add: demo_row_rollout_def)
qed

end
