(* ===== verification/Runtime.thy ===== *)
theory Runtime
  imports Json_Encode Json_Decode Float64
begin

section \<open>Environment variables, servers and health checks\<close>

text \<open>
  \<open>internal/runtime\<close> (\<open>env.go\<close>, \<open>server.go\<close>), \<open>internal/health/handler.go\<close> and \<open>internal/logging\<close>. The environment of a process is a function from
  names to values, empty when a variable is not set. \<open>ParseDuration\<close> is the one of the standard library, with its arithmetic on \<open>uint64\<close> and its
  use of floating point for fractions.
\<close>

type_synonym environ = "string \<Rightarrow> string"

subsection \<open>time.ParseDuration\<close>

definition digit_value :: "char \<Rightarrow> int" where
  "digit_value c = of_char c - 48"

text \<open>\<open>leadingInt\<close>: digits up to an overflow of \<open>2 ^ 63\<close>.\<close>

fun leadingInt :: "int \<Rightarrow> string \<Rightarrow> (int \<times> string) option" where
  "leadingInt x [] = Some (x, [])"
| "leadingInt x (c # s) =
     (if \<not> json_digit c then Some (x, c # s)
      else if x > 2 ^ 63 div 10 then None
      else let y = x * 10 + digit_value c in if y > 2 ^ 63 then None else leadingInt y s)"

text \<open>\<open>leadingFraction\<close>: the digits, of which those that would overflow do not count, and the power of ten they are to be divided by.\<close>

fun leadingFraction :: "int \<Rightarrow> int \<Rightarrow> bool \<Rightarrow> string \<Rightarrow> int \<times> int \<times> string" where
  "leadingFraction x scale overflow [] = (x, scale, [])"
| "leadingFraction x scale overflow (c # s) =
     (if \<not> json_digit c then (x, scale, c # s)
      else if overflow then leadingFraction x scale overflow s
      else if x > (2 ^ 63 - 1) div 10 then leadingFraction x scale True s
      else let y = x * 10 + digit_value c in
        if y > 2 ^ 63 then leadingFraction x scale True s else leadingFraction y (scale * 10) False s)"

definition unit_of :: "string \<Rightarrow> int option" where
  "unit_of u = map_of
     [(''ns'', 1), (''us'', 1000), ([CHR 0xC2, CHR 0xB5, CHR ''s''], 1000), ([CHR 0xCE, CHR 0xBC, CHR ''s''], 1000), (''ms'', 1000000),
      (''s'', 1000000000), (''m'', 60000000000), (''h'', 3600000000000)] u"

definition truncate64 :: "float64 \<Rightarrow> int" where
  "truncate64 x = (case x of Fin q \<Rightarrow> \<lfloor>q\<rfloor> | _ \<Rightarrow> 0)"

definition unit_char :: "char \<Rightarrow> bool" where
  "unit_char c \<longleftrightarrow> c \<noteq> CHR ''.'' \<and> \<not> json_digit c"

text \<open>A number with its unit: the value in nanoseconds and the rest.\<close>

definition parse_quantity :: "string \<Rightarrow> (int \<times> string) option" where
  "parse_quantity s =
     (case leadingInt 0 s of None \<Rightarrow> None | Some (v, r) \<Rightarrow>
      let pre = length r \<noteq> length s in
      case (if take 1 r = ''.'' then leadingFraction 0 1 False (drop 1 r) else (0, 1, r)) of (f, scale, r') \<Rightarrow>
      let post = take 1 r = ''.'' \<and> length r' \<noteq> length (drop 1 r); u = takeWhile unit_char r'; r2 = dropWhile unit_char r' in
      if \<not> pre \<and> \<not> post then None
      else if u = [] then None
      else case unit_of u of None \<Rightarrow> None | Some unit \<Rightarrow>
      if v > 2 ^ 63 div unit then None
      else
        let v = v * unit;
            v = (if 0 < f then v + truncate64 (f64_mul (f64_of_int f) (f64_div (f64_of_int unit) (f64_of_int scale))) else v) in
        if v > 2 ^ 63 then None else Some (v, r2))"

lemma leadingInt_shrinks: "leadingInt x s = Some (v, r) \<Longrightarrow> length r \<le> length s"
  by (induction x s rule: leadingInt.induct) (auto simp: Let_def split: if_splits)

lemma leadingFraction_shrinks: "leadingFraction x scale b s = (f, n, r) \<Longrightarrow> length r \<le> length s"
  by (induction x scale b s rule: leadingFraction.induct) (auto simp: Let_def split: if_splits)

lemma parse_quantity_shrinks: "parse_quantity s = Some (v, r) \<Longrightarrow> length r < length s"
proof -
  assume q: "parse_quantity s = Some (v, r)"
  obtain v1 r1 where i: "leadingInt 0 s = Some (v1, r1)" using q by (auto simp: parse_quantity_def split: option.splits)
  obtain f scale r' where frac: "(if take 1 r1 = ''.'' then leadingFraction 0 1 False (drop 1 r1) else (0, 1, r1)) = (f, scale, r')"
    by (metis prod_cases3)
  have "length r' \<le> length s"
    using leadingInt_shrinks [OF i] leadingFraction_shrinks [of 0 1 False "drop 1 r1" f scale r'] frac by (auto split: if_splits)
  moreover have "takeWhile unit_char r' \<noteq> [] \<and> r = dropWhile unit_char r'"
    using q frac by (auto simp: parse_quantity_def i Let_def split: if_splits option.splits)
  moreover from this have "length r < length r'" by (cases r') (auto simp: le_imp_less_Suc length_dropWhile_le split: if_splits)
  ultimately show ?thesis by simp
qed

function parse_quantities :: "int \<Rightarrow> string \<Rightarrow> int option" where
  "parse_quantities d s =
     (if s = [] then Some d
      else if \<not> (hd s = CHR ''.'' \<or> json_digit (hd s)) then None
      else case parse_quantity s of
        None \<Rightarrow> None
      | Some (v, r) \<Rightarrow> if d + v > 2 ^ 63 then None else parse_quantities (d + v) r)"
  by pat_completeness auto
termination by (relation "measure (\<lambda>(d, s). length s)") (auto dest: parse_quantity_shrinks)

declare parse_quantities.simps [simp del]

definition ParseDuration :: "string \<Rightarrow> duration option" where
  "ParseDuration s =
     (let neg = take 1 s = ''-''; s' = (if take 1 s = ''-'' \<or> take 1 s = ''+'' then drop 1 s else s) in
      if s' = ''0'' then Some 0
      else if s' = [] then None
      else case parse_quantities 0 s' of
        None \<Rightarrow> None
      | Some d \<Rightarrow> if neg then Some (- d) else if d > 2 ^ 63 - 1 then None else Some d)"

lemma ParseDuration_examples:
  "ParseDuration ''250ms'' = Some 250000000" "ParseDuration ''1h15m30.918s'' = Some 4530918000000" "ParseDuration ''-2s'' = Some (- 2000000000)"
  "ParseDuration ''not-a-duration'' = None" "ParseDuration ''3'' = None" "ParseDuration ''0'' = Some 0"
  by code_simp+

subsection \<open>env.go\<close>

definition EnvString :: "environ \<Rightarrow> string \<Rightarrow> string \<Rightarrow> string" where
  "EnvString getenv key fallback = (let value = getenv key in if value = [] then fallback else value)"

definition EnvDuration :: "environ \<Rightarrow> string \<Rightarrow> duration \<Rightarrow> duration" where
  "EnvDuration getenv key fallback =
     (let value = getenv key in
      if value = [] then fallback
      else case ParseDuration value of None \<Rightarrow> fallback | Some duration \<Rightarrow> duration)"

subsection \<open>server.go\<close>

text \<open>
  The server is what the code sees of it: the error that ends \<open>ListenAndServe\<close>, which is \<open>http.ErrServerClosed\<close> once \<open>Shutdown\<close> was called, and the
  answer of \<open>Shutdown\<close> within a timeout. \<open>select\<close> takes one of the two cases that are ready.
\<close>

record HTTPServerConfig =
  hsc_ServiceName :: string
  hsc_Addr :: string
  hsc_ReadTimeout :: duration
  hsc_WriteTimeout :: duration
  hsc_IdleTimeout :: duration
  hsc_ShutdownTimeout :: duration

record http_Server =
  srv_ListenAndServe :: "HTTPServerConfig \<Rightarrow> error"
  srv_Shutdown :: "duration \<Rightarrow> error option"

definition http_ErrServerClosed :: error where
  "http_ErrServerClosed = Foreign ''http: Server closed''"

datatype server_case = ContextDone | ServerEnded

definition serve_result :: "error \<Rightarrow> error option" where
  "serve_result err = (if err = http_ErrServerClosed then None else Some err)"

definition RunHTTPServer :: "http_Server \<Rightarrow> server_case \<Rightarrow> HTTPServerConfig \<Rightarrow> error option" where
  "RunHTTPServer server first cfg =
     (let cfg = (if hsc_ShutdownTimeout cfg = 0 then cfg\<lparr>hsc_ShutdownTimeout := 10 * Second\<rparr> else cfg);
          errc = serve_result (srv_ListenAndServe server cfg) in
      case first of
        ContextDone \<Rightarrow> (case srv_Shutdown server (hsc_ShutdownTimeout cfg) of Some err \<Rightarrow> Some err | None \<Rightarrow> errc)
      | ServerEnded \<Rightarrow> errc)"

subsection \<open>logging.go\<close>

datatype log_level = LevelInfo | LevelDebug

definition logging_level :: "environ \<Rightarrow> log_level" where
  "logging_level getenv = (if EqualFold (getenv ''LOG_LEVEL'') ''debug'' then LevelDebug else LevelInfo)"

subsection \<open>health/handler.go\<close>

type_synonym 'w Checker = "('w, unit) M"

definition StaticChecker :: "'w Checker" where
  "StaticChecker = retM ()"

record 'w health_Handler =
  hh_service :: string
  hh_ready :: "'w Checker"
  hh_now :: "'w \<Rightarrow> go_time \<times> 'w"

record health_response =
  hr_Service :: string
  hr_Status :: string
  hr_Time :: go_time
  hr_Error :: string

definition health_NewHandler :: "string \<Rightarrow> 'w Checker option \<Rightarrow> ('w \<Rightarrow> go_time \<times> 'w) \<Rightarrow> 'w health_Handler" where
  "health_NewHandler service ready now =
     \<lparr>hh_service = service, hh_ready = (case ready of None \<Rightarrow> StaticChecker | Some c \<Rightarrow> c), hh_now = now\<rparr>"

definition health_json :: "health_response \<Rightarrow> error + string" where
  "health_json r =
     map_sum id (\<lambda>time. json_object ([json_field ''service'' (json_string (hr_Service r)), json_field ''status'' (json_string (hr_Status r)),
       json_field ''time'' time] @ (if hr_Error r = [] then [] else [json_field ''error'' (json_string (hr_Error r))]))) (json_time (hr_Time r))"

text \<open>The status is written first; an encoding that fails leaves the body empty. The encoder ends a value with a newline.\<close>

definition health_writeJSON :: "int \<Rightarrow> health_response \<Rightarrow> int \<times> bytes" where
  "health_writeJSON status payload = (status, case health_json payload of Inl _ \<Rightarrow> [] | Inr text \<Rightarrow> text @ [CHR 0x0A])"

definition handleHealth :: "'w health_Handler \<Rightarrow> ('w, int \<times> bytes) M" where
  "handleHealth h =
     bindM (effM (hh_now h)) (\<lambda>now.
     retM (health_writeJSON 200 \<lparr>hr_Service = hh_service h, hr_Status = ''ok'', hr_Time = now, hr_Error = []\<rparr>))"

definition handleReady :: "'w health_Handler \<Rightarrow> ('w, int \<times> bytes) M" where
  "handleReady h =
     tryM (hh_ready h)
       (\<lambda>err. bindM (effM (hh_now h)) (\<lambda>now.
          retM (health_writeJSON 503 \<lparr>hr_Service = hh_service h, hr_Status = ''not_ready'', hr_Time = now, hr_Error = error_text err\<rparr>)))
       (\<lambda>_. bindM (effM (hh_now h)) (\<lambda>now.
          retM (health_writeJSON 200 \<lparr>hr_Service = hh_service h, hr_Status = ''ready'', hr_Time = now, hr_Error = []\<rparr>)))"

definition health_route :: "'w health_Handler \<Rightarrow> string \<Rightarrow> ('w, int \<times> bytes) M option" where
  "health_route h path =
     (if path = ''/healthz'' \<or> path = ''/livez'' then Some (handleHealth h) else if path = ''/readyz'' then Some (handleReady h) else None)"

text \<open>Readiness is what the check says; liveness does not depend on it.\<close>

lemma health_answers:
  "\<exists>body w'. handleHealth h w = (Inr (200, body), w')"
  "hh_ready h w = (Inr (), w1) \<Longrightarrow> \<exists>body w'. handleReady h w = (Inr (200, body), w')"
  "hh_ready h w = (Inl e, w1) \<Longrightarrow> \<exists>body w'. handleReady h w = (Inr (503, body), w')"
  by (auto simp: handleHealth_def handleReady_def health_writeJSON_def bindM_def tryM_def effM_def retM_def split: prod.split)

text \<open>A server that is asked to stop and does so ends without an error.\<close>

lemma clean_shutdown:
  "srv_ListenAndServe server (cfg\<lparr>hsc_ShutdownTimeout := (if hsc_ShutdownTimeout cfg = 0 then 10 * Second else hsc_ShutdownTimeout cfg)\<rparr>) = http_ErrServerClosed \<Longrightarrow>
    srv_Shutdown server (if hsc_ShutdownTimeout cfg = 0 then 10 * Second else hsc_ShutdownTimeout cfg) = None \<Longrightarrow>
    RunHTTPServer server ContextDone cfg = None"
  by (auto simp: RunHTTPServer_def serve_result_def Let_def split: if_splits)

end
