(* ===== verification/Config_Code.thy ===== *)
theory Config_Code
  imports Wire
begin

section \<open>Configuration as code: properties\<close>

text \<open>
  What the validation of a set of manifests guarantees, what a dry run does, and how the control plane answers the requests of an application.
\<close>

subsection \<open>The state of a validation\<close>

definition is_version :: "ManifestDocument \<Rightarrow> string \<Rightarrow> bool" where
  "is_version d name \<longleftrightarrow> mf_Kind (md_Manifest d) = KindConfigVersion \<and> mf_Name (md_Manifest d) = name"

lemma kinds_distinct [simp]:
  "KindConfigVersion \<noteq> KindConfigDefinition" "KindConfigDefinition \<noteq> KindConfigVersion" "KindTenant \<noteq> KindConfigDefinition"
  "KindTenant \<noteq> KindConfigVersion" "KindTenant \<noteq> KindStableVersion" "KindTenant \<noteq> KindRollout" "KindStableVersion \<noteq> KindTenant"
  "KindStableVersion \<noteq> KindConfigDefinition" "KindStableVersion \<noteq> KindConfigVersion" "KindStableVersion \<noteq> KindRollout"
  "KindRollout \<noteq> KindTenant" "KindRollout \<noteq> KindConfigDefinition" "KindRollout \<noteq> KindConfigVersion" "KindRollout \<noteq> KindStableVersion"
  "KindConfigVersion \<noteq> KindTenant" "KindConfigVersion \<noteq> KindStableVersion" "KindConfigVersion \<noteq> KindRollout"
  "KindConfigDefinition \<noteq> KindTenant" "KindConfigDefinition \<noteq> KindStableVersion" "KindConfigDefinition \<noteq> KindRollout"
  by (simp_all add: kind_defs)

lemma validation_state_facts:
  fixes docs :: "ManifestDocument list"
  defines "state \<equiv> buildValidationState docs"
  shows "gomap_get (vs_definitions state) k = Some s \<Longrightarrow>
      \<exists>d \<in> set docs. mf_Kind (md_Manifest d) = KindConfigDefinition \<and> mf_ConfigDefinition (md_Manifest d) = s \<and>
        configKey (dsp_Tenant s) (dsp_Key s) = k"
    and "gomap_get (vs_versionRefs state) n = Some v \<Longrightarrow>
      \<exists>d \<in> set docs. is_version d n \<and> mf_ConfigVersion (md_Manifest d) = v"
    and "count_of (vs_versionNameCounts state) n = int (length (filter (\<lambda>d. is_version d n) docs))"
proof -
  have "(gomap_get (vs_definitions state) k = Some s \<longrightarrow>
      (\<exists>d \<in> set docs. mf_Kind (md_Manifest d) = KindConfigDefinition \<and> mf_ConfigDefinition (md_Manifest d) = s \<and>
        configKey (dsp_Tenant s) (dsp_Key s) = k)) \<and>
    (gomap_get (vs_versionRefs state) n = Some v \<longrightarrow> (\<exists>d \<in> set docs. is_version d n \<and> mf_ConfigVersion (md_Manifest d) = v)) \<and>
    count_of (vs_versionNameCounts state) n = int (length (filter (\<lambda>d. is_version d n) docs))"
    unfolding state_def
  proof (induction docs rule: rev_induct)
    case Nil
    show ?case by (simp add: buildValidationState_def count_of_def)
  next
    case (snoc d docs)
    have step: "buildValidationState (docs @ [d]) = note_document d (buildValidationState docs)"
      by (simp add: buildValidationState_def)
    show ?case
      using snoc unfolding step note_document_def
      by (auto simp: Let_def is_version_def go_map count_of_def split: if_splits)
  qed
  then show "gomap_get (vs_definitions state) k = Some s \<Longrightarrow>
      \<exists>d \<in> set docs. mf_Kind (md_Manifest d) = KindConfigDefinition \<and> mf_ConfigDefinition (md_Manifest d) = s \<and>
        configKey (dsp_Tenant s) (dsp_Key s) = k"
    "gomap_get (vs_versionRefs state) n = Some v \<Longrightarrow> \<exists>d \<in> set docs. is_version d n \<and> mf_ConfigVersion (md_Manifest d) = v"
    "count_of (vs_versionNameCounts state) n = int (length (filter (\<lambda>d. is_version d n) docs))" by blast+
qed

lemma require_Nil [simp]: "require b e = [] \<longleftrightarrow> b"
  by (simp add: require_def)

lemma failed_Nil [simp]: "failed r f = [] \<longleftrightarrow> r = None"
  by (simp add: failed_def split: option.splits)

text \<open>A report without errors: every document passed its checks.\<close>

lemma report_ok_messages:
  assumes "Report_OK (ValidatePaths js fs Y yaml v paths)" "LoadManifestDocuments fs Y yaml paths = (docs, files, ds)" "d \<in> set docs"
  shows "manifest_messages (schemaValidator js v) (md_Manifest d) (buildValidationState docs) = []"
  using assms by (fastforce simp: Report_OK_def ValidatePaths_def validateManifest_def Let_def split: if_splits)

text \<open>
  The definition documents of a tenant and key. The validator knows them by the tenant and the key joined with a slash, so a tenant with a slash in its name
  can share this name with another tenant; the last document of a name counts.
\<close>

definition is_definition :: "string \<Rightarrow> string \<Rightarrow> ManifestDocument \<Rightarrow> bool" where
  "is_definition tenant key d \<longleftrightarrow> mf_Kind (md_Manifest d) = KindConfigDefinition \<and>
     dsp_Tenant (mf_ConfigDefinition (md_Manifest d)) @ ''/'' @ dsp_Key (mf_ConfigDefinition (md_Manifest d)) = tenant @ ''/'' @ key"

lemma slash_free_split:
  "CHR ''/'' \<notin> set t \<Longrightarrow> CHR ''/'' \<notin> set t' \<Longrightarrow> t @ ''/'' @ k = t' @ ''/'' @ k' \<longleftrightarrow> t = t' \<and> k = k'"
proof (induction t arbitrary: t')
  case Nil
  then show ?case by (cases t') auto
next
  case (Cons c t)
  then show ?case by (cases t') auto
qed

definition usable_definition :: "ConfigDefinitionSpec \<Rightarrow> bool" where
  "usable_definition spec \<longleftrightarrow> TrimSpace (dsp_Tenant spec) \<noteq> [] \<and> TrimSpace (dsp_Key spec) \<noteq> [] \<and> 0 < length (dsp_Schema spec)"

lemma last_definition_known:
  "gomap_get (vs_definitions (buildValidationState docs)) (configKey tenant key) =
     (let cs = filter (\<lambda>d. is_definition tenant key d \<and> usable_definition (mf_ConfigDefinition (md_Manifest d))) docs in
      if cs = [] then None else Some (mf_ConfigDefinition (md_Manifest (last cs))))"
proof (induction docs rule: rev_induct)
  case Nil
  show ?case by (simp add: buildValidationState_def)
next
  case (snoc d docs)
  have step: "buildValidationState (docs @ [d]) = note_document d (buildValidationState docs)" by (simp add: buildValidationState_def)
  show ?case
    using snoc unfolding step note_document_def
    by (auto simp: Let_def is_definition_def usable_definition_def configKey_def go_map split: if_splits)
qed

text \<open>
  A version document that others may refer to: the only one of its name, of this tenant and key, with a value that the schema of the last definition document of
  the tenant and key accepts; when neither tenant has a slash in its name, this is a definition of the very same tenant and key.
\<close>

definition resolves :: "SchemaValidator \<Rightarrow> ManifestDocument list \<Rightarrow> string \<Rightarrow> string \<Rightarrow> string \<Rightarrow> bool" where
  "resolves validator docs ref tenant key \<longleftrightarrow>
     (\<exists>d \<in> set docs. filter (\<lambda>x. is_version x ref) docs = [d] \<and>
        vsp_Tenant (mf_ConfigVersion (md_Manifest d)) = tenant \<and> vsp_Key (mf_ConfigVersion (md_Manifest d)) = key \<and>
        (let cs = filter (is_definition tenant key) docs; spec = mf_ConfigDefinition (md_Manifest (last cs)) in
           cs \<noteq> [] \<and> sv_ValidateSchema validator (dsp_Schema spec) = None \<and>
           sv_ValidateValue validator (dsp_Schema spec) (vsp_Value (mf_ConfigVersion (md_Manifest d))) = None \<and>
           (CHR ''/'' \<notin> set tenant \<and> CHR ''/'' \<notin> set (dsp_Tenant spec) \<longrightarrow> dsp_Tenant spec = tenant \<and> dsp_Key spec = key)))"

lemma reference_resolves:
  assumes all: "\<And>d. d \<in> set docs \<Longrightarrow> manifest_messages validator (md_Manifest d) (buildValidationState docs) = []"
    and ref: "reference_messages (buildValidationState docs) field ref tenant key = []"
  shows "resolves validator docs ref tenant key"
proof -
  define state where "state = buildValidationState docs"
  from ref obtain version where "gomap_get (vs_versionRefs state) ref = Some version" and same: "vsp_Tenant version = tenant" "vsp_Key version = key"
    unfolding state_def [symmetric] by (auto simp: reference_messages_def split: if_splits option.splits)
  then obtain d where d: "d \<in> set docs" "is_version d ref" "mf_ConfigVersion (md_Manifest d) = version"
    using validation_state_facts(2) unfolding state_def by blast
  have msgs: "version_messages validator state ref version = []"
    using all [OF d(1)] d unfolding state_def [symmetric] by (simp add: manifest_messages_def is_version_def)
  then obtain c where found: "gomap_get (vs_definitions state) (configKey tenant key) = Some c"
    and value_ok: "sv_ValidateValue validator (dsp_Schema c) (vsp_Value version) = None"
    and count: "\<not> 1 < count_of (vs_versionNameCounts state) ref"
    using same by (auto simp: version_messages_def Let_def split: if_splits option.splits)
  have "length (filter (\<lambda>x. is_version x ref) docs) \<le> 1" "d \<in> set (filter (\<lambda>x. is_version x ref) docs)"
    using count d validation_state_facts(3) [of docs ref] unfolding state_def by auto
  then have "filter (\<lambda>x. is_version x ref) docs = [d]"
    by (cases "filter (\<lambda>x. is_version x ref) docs") auto
  moreover have definition_ok: "usable_definition (mf_ConfigDefinition (md_Manifest e)) \<and> sv_ValidateSchema validator (dsp_Schema (mf_ConfigDefinition (md_Manifest e))) = None"
    if "e \<in> set docs" "is_definition tenant key e" for e
    using all [OF that(1)] that(2) by (auto simp: manifest_messages_def definition_messages_def is_definition_def usable_definition_def split: if_splits)
  define cs where "cs = filter (is_definition tenant key) docs"
  have "cs = filter (\<lambda>d. is_definition tenant key d \<and> usable_definition (mf_ConfigDefinition (md_Manifest d))) docs"
    unfolding cs_def by (rule filter_cong) (use definition_ok in auto)
  then have cs: "cs \<noteq> []" "mf_ConfigDefinition (md_Manifest (last cs)) = c"
    using found last_definition_known [of docs tenant key] unfolding state_def by (auto simp: Let_def split: if_splits)
  then have "last cs \<in> set docs" "is_definition tenant key (last cs)" using last_in_set [OF cs(1)] unfolding cs_def by auto
  then have "sv_ValidateSchema validator (dsp_Schema c) = None"
    and "CHR ''/'' \<notin> set tenant \<and> CHR ''/'' \<notin> set (dsp_Tenant c) \<longrightarrow> dsp_Tenant c = tenant \<and> dsp_Key c = key"
    using definition_ok cs(2) slash_free_split [of "dsp_Tenant c" tenant "dsp_Key c" key] by (auto simp: is_definition_def)
  ultimately show ?thesis using d same value_ok cs unfolding resolves_def cs_def [symmetric] Let_def by blast
qed

text \<open>C25 (safety). When \<open>ValidatePaths\<close> reports no error, every reference of the documents it read resolves: the version that a stable version or a
  rollout names is that of exactly one version document, of the same tenant and key, and the schema of the last definition document of this tenant and
  key accepts its value. Tenant and key are compared joined by a slash; they are the very same when neither tenant has a slash in its name. And every rollout has a valid environment, an acceptable plan if it gives stages, valid guardrail rules, a required percentage
  between 0 and 100 and no negative durations.\<close>

theorem validated_references_resolve:
  assumes "Report_OK (ValidatePaths js fs Y yaml v paths)" "LoadManifestDocuments fs Y yaml paths = (docs, files, ds)" "d \<in> set docs"
  shows "(mf_Kind (md_Manifest d) = KindStableVersion \<longrightarrow>
      (let spec = mf_StableVersion (md_Manifest d) in
       Environment_Validate (ssp_Environment spec) = None \<and>
       resolves (schemaValidator js v) docs (ssp_VersionRef spec) (ssp_Tenant spec) (ssp_Key spec))) \<and>
    (mf_Kind (md_Manifest d) = KindRollout \<longrightarrow>
      (let spec = mf_Rollout (md_Manifest d) in
       Environment_Validate (rsp_Environment spec) = None \<and>
       resolves (schemaValidator js v) docs (rsp_CandidateVersionRef spec) (rsp_Tenant spec) (rsp_Key spec) \<and>
       (rsp_Stages spec \<noteq> [] \<longrightarrow> ValidateStagePlan (plan_of (rsp_Stages spec)) = None) \<and>
       (\<forall>rule \<in> set (rsp_Guardrails spec). Rule_Validate (rule_of rule) = None) \<and>
       \<not> f64_lt (rsp_RequiredAckPercentage spec) (Fin 0) \<and> \<not> f64_lt (Fin 100) (rsp_RequiredAckPercentage spec) \<and>
       (\<forall>stage \<in> set (rsp_Stages spec). 0 \<le> rst_MinimumDurationSeconds stage) \<and>
       0 \<le> rsp_DeploymentTimeoutSeconds spec \<and> 0 \<le> rsp_RolloutMaxDurationSeconds spec \<and> 0 \<le> rsp_RollbackTimeoutSeconds spec))"
proof -
  note all = report_ok_messages [OF assms(1,2)]
  note own = all [OF assms(3)]
  show ?thesis
    using own reference_resolves [OF all]
    by (auto simp: manifest_messages_def stable_messages_def rollout_messages_def validateTenantKeyEnvironment_def stages_messages_def
        guardrail_messages_def Let_def not_less split: if_splits)
qed

text \<open>A file with a definition, a version and a rollout; the YAML library is one whose nodes are the manifests themselves.\<close>

definition demo_yaml :: "Manifest yaml_node" where
  "demo_yaml = \<lparr>yn_header = (\<lambda>m. Inr (mf_APIVersion m, mf_Kind m, mf_Name m)), yn_content = (\<lambda>m. [(''kind'', m), (''spec'', m)]),
     yn_any = (\<lambda>m. Inr (YMap [(''name'', YScalar (SString (mf_Name m)))])), yn_TenantSpec = (\<lambda>m. Inr (mf_Tenant m)),
     yn_ConfigDefinitionSpec = (\<lambda>_ m. Inr (mf_ConfigDefinition m)), yn_ConfigVersionSpec = (\<lambda>_ m. Inr (mf_ConfigVersion m)),
     yn_StableVersionSpec = (\<lambda>m. Inr (mf_StableVersion m)), yn_RolloutSpec = (\<lambda>m. Inr (mf_Rollout m))\<rparr>"

definition demo_definition_manifest :: Manifest where
  "demo_definition_manifest = zero_manifest\<lparr>mf_APIVersion := manifest_APIVersion, mf_Kind := KindConfigDefinition, mf_Name := ''limits'',
     mf_ConfigDefinition := \<lparr>dsp_Tenant = ''t'', dsp_Key = ''k'', dsp_Description = [], dsp_Schema = ''true'', dsp_Default = []\<rparr>\<rparr>"

definition demo_version_manifest :: Manifest where
  "demo_version_manifest = zero_manifest\<lparr>mf_APIVersion := manifest_APIVersion, mf_Kind := KindConfigVersion, mf_Name := ''v1'',
     mf_ConfigVersion := \<lparr>vsp_Tenant = ''t'', vsp_Key = ''k'', vsp_Value = ''1'', vsp_SourceCommitSHA = [], vsp_CreatedBy = []\<rparr>\<rparr>"

definition demo_rollout_manifest :: Manifest where
  "demo_rollout_manifest = zero_manifest\<lparr>mf_APIVersion := manifest_APIVersion, mf_Kind := KindRollout, mf_Name := ''r'',
     mf_Rollout := (mf_Rollout zero_manifest)\<lparr>rsp_Tenant := ''t'', rsp_Key := ''k'', rsp_Environment := ''production'',
       rsp_CandidateVersionRef := ''v1'',
       rsp_Stages := [\<lparr>rst_ID = ''canary'', rst_Percentage = 5, rst_MinimumDurationSeconds = 60\<rparr>,
                      \<lparr>rst_ID = ''all'', rst_Percentage = 100, rst_MinimumDurationSeconds = 0\<rparr>]\<rparr>\<rparr>"

definition demo_tree :: file_tree where
  "demo_tree = \<lparr>fs_Stat = (\<lambda>_. Inr False), fs_WalkDir = (\<lambda>_. ([], None)), fs_ReadFile = (\<lambda>_. Inr ''spec'')\<rparr>"

definition demo_documents :: "bytes \<Rightarrow> Manifest yaml_document list" where
  "demo_documents data = map YamlNode [demo_rollout_manifest, demo_version_manifest, demo_definition_manifest]"

definition demo_jsonschema :: "(bytes, unit, bytes) jsonschema" where
  "demo_jsonschema = \<lparr>js_UnmarshalJSON = Inr, js_NewCompiler = (), js_AddResource = (\<lambda>c _ _. Inr c), js_Compile = (\<lambda>_ _. Inr ''true''),
     js_Validate = (\<lambda>_ _. None)\<rparr>"

theorem validated_references_resolve_witness:
  "resolves (JSONSchemaValidator demo_jsonschema) (fst (LoadManifestDocuments demo_tree demo_yaml demo_documents [''c.yaml'']))
     ''v1'' ''t'' ''k''"
proof -
  define docs where "docs = fst (LoadManifestDocuments demo_tree demo_yaml demo_documents [''c.yaml''])"
  have ok: "Report_OK (ValidatePaths demo_jsonschema demo_tree demo_yaml demo_documents \<lparr>va_SchemaValidator = None\<rparr> [''c.yaml''])" by code_simp
  have "map (\<lambda>d. mf_Name (md_Manifest d)) (fst (LoadManifestDocuments demo_tree demo_yaml demo_documents [''c.yaml''])) = [''r'', ''v1'', ''limits'']"
    and first: "mf_Rollout (md_Manifest (hd (fst (LoadManifestDocuments demo_tree demo_yaml demo_documents [''c.yaml''])))) = mf_Rollout demo_rollout_manifest"
      "mf_Kind (md_Manifest (hd (fst (LoadManifestDocuments demo_tree demo_yaml demo_documents [''c.yaml''])))) = KindRollout"
    by code_simp+
  then have "hd docs \<in> set docs" unfolding docs_def by (intro hd_in_set) auto
  moreover obtain files ds where "LoadManifestDocuments demo_tree demo_yaml demo_documents [''c.yaml''] = (docs, files, ds)"
    unfolding docs_def by (metis prod.collapse)
  ultimately show ?thesis
    using validated_references_resolve [OF ok, of docs files ds "hd docs"] first unfolding docs_def [symmetric]
    by (simp add: schemaValidator_def Let_def) (simp add: demo_rollout_manifest_def)
qed

subsection \<open>The order of an application\<close>

definition kind_rank :: "Kind \<Rightarrow> nat" where
  "kind_rank k = (if k = KindTenant then 0 else if k = KindConfigDefinition then 1 else if k = KindConfigVersion then 2
     else if k = KindStableVersion then 3 else if k = KindRollout then 4 else 5)"

definition known_kind :: "Kind \<Rightarrow> bool" where
  "known_kind k \<longleftrightarrow> kind_rank k < 5"

definition doc_kind :: "ManifestDocument \<Rightarrow> Kind" where
  "doc_kind d = mf_Kind (md_Manifest d)"

definition in_order :: "ManifestDocument list \<Rightarrow> ManifestDocument list" where
  "in_order documents = sort_key (\<lambda>d. kind_rank (doc_kind d)) (filter (\<lambda>d. known_kind (doc_kind d)) documents)"

text \<open>Collecting the elements of each rank in turn is a stable sort.\<close>

lemma ranks_sort: "concat (map (\<lambda>n. filter (\<lambda>x. f x = n) xs) [0..<m]) = sort_key f (filter (\<lambda>x. f x < m) xs)"
proof (rule sym, rule properties_for_sort_key)
  let ?c = "\<lambda>m. concat (map (\<lambda>n. filter (\<lambda>x. f x = n) xs) [0..<m])"
  have "mset (?c m) = mset (filter (\<lambda>x. f x < m) xs)"
  proof (induction m)
    case (Suc m)
    have "filter_mset (\<lambda>x. f x < Suc m) (mset xs) = filter_mset (\<lambda>x. f x < m) (mset xs) + filter_mset (\<lambda>x. f x = m) (mset xs)"
      by (induction xs) auto
    with Suc show ?case by simp
  qed simp
  then show "mset (?c m) = mset (filter (\<lambda>x. f x < m) xs)" .
  have "filter (\<lambda>x. k = f x) (?c m) = (if k < m then filter (\<lambda>x. k = f x) xs else [])" for k
    by (induction m) (auto simp: less_Suc_eq filter_empty_conv intro!: filter_cong)
  then show "filter (\<lambda>x. f k = f x) (?c m) = filter (\<lambda>x. f k = f x) (filter (\<lambda>x. f x < m) xs)" if "k \<in> set (?c m)" for k
    using that by (auto intro!: filter_cong)
  have "map f (filter (\<lambda>x. f x = n) xs) = replicate (length (filter (\<lambda>x. f x = n) xs)) n" for n
    by (induction xs) auto
  then show "sorted (map f (?c m))"
    by (induction m) (auto simp: sorted_append)
qed

lemma orderDocuments_in_order: "orderDocuments documents = in_order documents"
proof -
  have "kind_rank k = n \<longleftrightarrow> k = [KindTenant, KindConfigDefinition, KindConfigVersion, KindStableVersion, KindRollout] ! n" if "n < 5" for k n
    using that by (auto simp: kind_rank_def less_Suc_eq numeral_eq_Suc split: if_splits)
  then have "kind_rank k = 0 \<longleftrightarrow> k = KindTenant" "kind_rank k = 1 \<longleftrightarrow> k = KindConfigDefinition" "kind_rank k = 2 \<longleftrightarrow> k = KindConfigVersion"
    "kind_rank k = 3 \<longleftrightarrow> k = KindStableVersion" "kind_rank k = 4 \<longleftrightarrow> k = KindRollout" for k
    by (simp_all add: eval_nat_numeral)
  then have "orderDocuments documents = concat (map (\<lambda>n. filter (\<lambda>d. kind_rank (doc_kind d) = n) documents) [0, 1, 2, 3, 4])"
    by (simp add: orderDocuments_def doc_kind_def)
  also have "[0, 1, 2, 3, 4 :: nat] = [0..<5]" by code_simp
  finally show ?thesis by (simp add: ranks_sort in_order_def known_kind_def)
qed

subsection \<open>What an application reports\<close>

lemma begun_sel [simp]: "as_Kind (begun m a) = mf_Kind m" "as_Name (begun m a) = mf_Name m"
  by (simp_all add: begun_def)

lemma ended_sel [simp]: "as_Kind (ended m a s t) = mf_Kind m" "as_Name (ended m a s t) = mf_Name m"
  by (simp_all add: ended_def)

definition step_for :: "Manifest \<Rightarrow> ApplyStep \<Rightarrow> bool" where
  "step_for m s \<longleftrightarrow> as_Kind s = mf_Kind m \<and> as_Name s = mf_Name m"

lemma applyDocument_step:
  assumes "applyDocument client o' m known w = (Inr (step, known'), w')"
  shows "step_for m step"
  using assms unfolding step_for_def applyDocument_def keeping_def
  by (auto simp: applyTenant_def applyDefinition_def applyVersion_def applyStableVersion_def applyRollout_def Let_def
      bindM_Inr retM_Inr raiseM_Inr split: if_splits option.splits)

lemma failed_step_for: "known_kind (mf_Kind m) \<Longrightarrow> step_for m (failed_step m)"
  by (auto simp: step_for_def failed_step_def known_kind_def kind_rank_def split: if_splits)

lemma apply_steps_prefix:
  assumes "apply_steps client o' docs known w = ((steps, err), w')" "\<And>d. d \<in> set docs \<Longrightarrow> known_kind (doc_kind d)"
  shows "list_all2 (\<lambda>d. step_for (md_Manifest d)) (take (length steps) docs) steps \<and> length steps \<le> length docs \<and>
    (err = None \<longrightarrow> length steps = length docs)"
  using assms
proof (induction docs arbitrary: known w steps)
  case (Cons d docs)
  show ?case
  proof (cases "applyDocument client o' (md_Manifest d) known w")
    case (Pair r w1)
    show ?thesis
    proof (cases r)
      case (Inl e)
      then show ?thesis using Cons.prems Pair by (auto simp: failed_step_for doc_kind_def)
    next
      case (Inr sk)
      obtain step known1 where sk: "sk = (step, known1)" by (cases sk) auto
      obtain steps1 where rest: "apply_steps client o' docs known1 w1 = ((steps1, err), w')" "steps = step # steps1"
        using Cons.prems(1) Pair Inr sk by (auto split: prod.splits)
      from Cons.IH [OF rest(1)] Cons.prems(2) have "list_all2 (\<lambda>d. step_for (md_Manifest d)) (take (length steps1) docs) steps1 \<and>
        length steps1 \<le> length docs \<and> (err = None \<longrightarrow> length steps1 = length docs)" by auto
      then show ?thesis using rest(2) applyDocument_step [of client o' "md_Manifest d" known w step known1 w1] Pair Inr sk by auto
    qed
  qed
qed auto

lemma dry_run_steps:
  "apply_steps client (o'\<lparr>ao_DryRun := True\<rparr>) docs known w =
    ((map (\<lambda>d. ended (md_Manifest d) (plannedAction (doc_kind d)) ''planned'' ''dry run'') docs, None), w)"
  by (induction docs) (simp_all add: applyDocument_def retM_def doc_kind_def)

text \<open>C26 (equivalence). An application goes through the documents of known kinds in the order of a stable sort by kind (tenants, definitions,
  versions, stable versions, rollouts): a dry run plans exactly this list and sends nothing; a real run, whatever the network answers, reports
  one step for each document of an initial part of this list, and for all of it when it reports no error.\<close>

theorem application_follows_the_kinds:
  "ApplyDocuments client (o'\<lparr>ao_DryRun := True\<rparr>) documents w =
     ((map (\<lambda>d. ended (md_Manifest d) (plannedAction (doc_kind d)) ''planned'' ''dry run'') (in_order documents), None), w) \<and>
   (\<exists>steps err w'. ApplyDocuments client o' documents w = ((steps, err), w') \<and>
     list_all2 (\<lambda>d. step_for (md_Manifest d)) (take (length steps) (in_order documents)) steps \<and>
     (case err of None \<Rightarrow> length steps = length (in_order documents) | Some _ \<Rightarrow> length steps \<le> length (in_order documents)))"
proof (intro conjI)
  show "ApplyDocuments client (o'\<lparr>ao_DryRun := True\<rparr>) documents w =
     ((map (\<lambda>d. ended (md_Manifest d) (plannedAction (doc_kind d)) ''planned'' ''dry run'') (in_order documents), None), w)"
    by (simp add: ApplyDocuments_def dry_run_steps orderDocuments_in_order)
  obtain steps err w' where run: "ApplyDocuments client o' documents w = ((steps, err), w')" by (metis prod.collapse)
  have known: "\<And>d. d \<in> set (in_order documents) \<Longrightarrow> known_kind (doc_kind d)" by (simp add: in_order_def)
  have "list_all2 (\<lambda>d. step_for (md_Manifest d)) (take (length steps) (in_order documents)) steps \<and>
     (err \<noteq> None \<or> length steps = length (in_order documents))"
  proof (cases "TrimSpace (ao_BaseURL o') = [] \<and> \<not> ao_DryRun o'")
    case True
    then show ?thesis using run by (auto simp: ApplyDocuments_def)
  next
    case False
    then have "apply_steps client o' (in_order documents) [] w = ((steps, err), w')"
      using run unfolding ApplyDocuments_def orderDocuments_in_order by (simp only: if_False)
    from apply_steps_prefix [OF this known] show ?thesis by blast
  qed
  moreover from this have "length steps \<le> length (in_order documents)" by (auto dest: list_all2_lengthD)
  ultimately show "\<exists>steps err w'. ApplyDocuments client o' documents w = ((steps, err), w') \<and>
     list_all2 (\<lambda>d. step_for (md_Manifest d)) (take (length steps) (in_order documents)) steps \<and>
     (case err of None \<Rightarrow> length steps = length (in_order documents) | Some _ \<Rightarrow> length steps \<le> length (in_order documents))"
    using run by (auto split: option.splits)
qed

subsection \<open>Rollouts with stages\<close>

text \<open>C27 (error). The request that an application sends for a rollout with stages is refused by the control plane: its stages carry the names of
  Go fields, the decoder of the control plane knows other names and accepts no unknown one, so the answer is 400 and no store is touched,
  whatever the rest of the manifest is.\<close>

theorem rollouts_with_stages_are_refused:
  assumes "createRollout_payload spec candidate = Inr body" "rsp_Stages spec \<noteq> []" "cph_rollouts h = Some rollouts"
  shows "\<exists>message. h_createRollout h (body, None) w = (Inr (400, FailureBody ''invalid_json'' message), w)"
  using rollout_request_refused [OF assms(1,2)] assms(3) by (auto simp: h_createRollout_def decodeRequest_def retM_def)

theorem rollouts_with_stages_are_refused_witness:
  "\<exists>body message. createRollout_payload (mf_Rollout demo_rollout_manifest) 1 = Inr body \<and>
     h_createRollout (control_handler demo_config) (body, None) demo_world = (Inr (400, FailureBody ''invalid_json'' message), demo_world)"
proof -
  have "case createRollout_payload (mf_Rollout demo_rollout_manifest) 1 of Inl _ \<Rightarrow> False | Inr _ \<Rightarrow> True" by code_simp
  then obtain body where body: "createRollout_payload (mf_Rollout demo_rollout_manifest) 1 = Inr body" by (auto split: sum.splits)
  have "rsp_Stages (mf_Rollout demo_rollout_manifest) \<noteq> []" by (simp add: demo_rollout_manifest_def)
  from rollouts_with_stages_are_refused [OF body this, of "control_handler demo_config" "rollouts_service demo_config" demo_world] body
  show ?thesis by (simp add: control_handler_def)
qed

end
