(* ===== verification/Cfgctl.thy ===== *)
theory Cfgctl
  imports Runtime Config_Code
begin

section \<open>cmd/cfgctl\<close>

text \<open>
  The command line tool of \<open>cmd/cfgctl/main.go\<close> over \<open>internal/configcode\<close>: its commands, flags and output. A run threads what it has written so far
  and the network; every write may fail. \<open>flag.FlagSet.Parse\<close> is modelled for boolean, string and integer flags, without the usage text that it writes.
\<close>

subsection \<open>flag.FlagSet\<close>

datatype flag_kind = BoolFlag | StringFlag | IntFlag

definition ParseBool :: "string \<Rightarrow> bool option" where
  "ParseBool s =
     (if s \<in> set [''1'', ''t'', ''T'', ''true'', ''TRUE'', ''True''] then Some True
      else if s \<in> set [''0'', ''f'', ''F'', ''false'', ''FALSE'', ''False''] then Some False
      else None)"

text \<open>\<open>strconv.ParseInt(s, 0, 64)\<close>: a sign, a base from the prefix, digits, and underscores between digits or after the prefix.\<close>

definition lower :: "char \<Rightarrow> char" where
  "lower c = (if 65 \<le> byte_of c \<and> byte_of c \<le> 90 then char_of (byte_of c + 32) else c)"

definition digit_of :: "char \<Rightarrow> int option" where
  "digit_of c = (if json_digit c then Some (byte_of c - 48) else let l = byte_of (lower c) in if 97 \<le> l \<and> l \<le> 122 then Some (l - 87) else None)"

fun ParseUint_loop :: "int \<Rightarrow> int \<Rightarrow> string \<Rightarrow> int option" where
  "ParseUint_loop base n [] = Some n"
| "ParseUint_loop base n (c # s) =
     (if c = CHR ''_'' then ParseUint_loop base n s
      else case digit_of c of
        None \<Rightarrow> None
      | Some d \<Rightarrow> if d \<ge> base \<or> n * base + d \<ge> 2 ^ 64 then None else ParseUint_loop base (n * base + d) s)"

definition based :: "string \<Rightarrow> bool" where
  "based s \<longleftrightarrow> 2 \<le> length s \<and> s ! 0 = CHR ''0'' \<and> lower (s ! 1) \<in> set ''box''"

text \<open>The state is the last character seen: \<open>0\<close> for a digit or a prefix, an underscore, or another one.\<close>

fun underscores :: "bool \<Rightarrow> char \<Rightarrow> string \<Rightarrow> bool" where
  "underscores hex i [] \<longleftrightarrow> i \<noteq> CHR ''_''"
| "underscores hex i (c # s) \<longleftrightarrow>
     (if json_digit c \<or> hex \<and> 97 \<le> byte_of (lower c) \<and> byte_of (lower c) \<le> 102 then underscores hex CHR ''0'' s
      else if c = CHR ''_'' then i = CHR ''0'' \<and> underscores hex c s
      else i \<noteq> CHR ''_'' \<and> underscores hex CHR ''!'' s)"

definition underscoreOK :: "string \<Rightarrow> bool" where
  "underscoreOK s =
     (if based s then underscores (lower (s ! 1) = CHR ''x'') CHR ''0'' (drop 2 s) else underscores False CHR ''^'' s)"

definition ParseUint :: "string \<Rightarrow> int option" where
  "ParseUint s =
     (if s = [] \<or> CHR ''_'' \<in> set s \<and> \<not> underscoreOK s then None
      else if s ! 0 \<noteq> CHR ''0'' then ParseUint_loop 10 0 s
      else if 3 \<le> length s \<and> based s then
        ParseUint_loop (if lower (s ! 1) = CHR ''b'' then 2 else if lower (s ! 1) = CHR ''o'' then 8 else 16) 0 (drop 2 s)
      else ParseUint_loop 8 0 (drop 1 s))"

definition ParseInt :: "string \<Rightarrow> int option" where
  "ParseInt s =
     (let neg = take 1 s = ''-''; s' = (if neg \<or> take 1 s = ''+'' then drop 1 s else s) in
      case ParseUint s' of
        None \<Rightarrow> None
      | Some n \<Rightarrow> if neg then (if n > 2 ^ 63 then None else Some (- n)) else if n \<ge> 2 ^ 63 then None else Some n)"

lemma ParseInt_examples:
  "ParseInt ''200'' = Some 200" "ParseInt ''-0x1f'' = Some (- 31)" "ParseInt ''017'' = Some 15" "ParseInt ''1_000'' = Some 1000" "ParseInt ''0'' = Some 0"
  "ParseInt ''1__0'' = None" "ParseInt ''_1'' = None" "ParseInt ''12a'' = None" "ParseInt [] = None" "ParseInt ''9223372036854775808'' = None"
  by code_simp+

definition flag_ErrHelp :: error where
  "flag_ErrHelp = Foreign ''flag: help requested''"

definition flag_error :: "string \<Rightarrow> string \<Rightarrow> error" where
  "flag_error text name = Foreign (text @ name)"

text \<open>One argument that begins with a minus sign: the name of the flag and the value given with it.\<close>

definition flag_name :: "string \<Rightarrow> error + string \<times> string option" where
  "flag_name s =
     (let name = (if take 2 s = ''--'' then drop 2 s else drop 1 s) in
      if name = [] \<or> hd name = CHR ''-'' \<or> hd name = CHR ''='' then Inl (flag_error ''bad flag syntax: '' s)
      else case Cut CHR ''='' (tl name) of
        None \<Rightarrow> Inr (name, None)
      | Some (before, after) \<Rightarrow> Inr (hd name # before, Some after))"

fun parse_flags :: "(string \<times> flag_kind) list \<Rightarrow> (string, string) gomap \<Rightarrow> string list \<Rightarrow> error + (string, string) gomap \<times> string list" where
  "parse_flags formal m [] = Inr (m, [])"
| "parse_flags formal m (s # args) =
     (if length s < 2 \<or> hd s \<noteq> CHR ''-'' then Inr (m, s # args)
      else if s = ''--'' then Inr (m, args)
      else case flag_name s of
        Inl e \<Rightarrow> Inl e
      | Inr (name, value) \<Rightarrow>
          (case map_of formal name of
             None \<Rightarrow> if name = ''help'' \<or> name = ''h'' then Inl flag_ErrHelp else Inl (flag_error ''flag provided but not defined: -'' name)
           | Some BoolFlag \<Rightarrow>
               (case value of
                  None \<Rightarrow> parse_flags formal (gomap_set name ''true'' m) args
                | Some v \<Rightarrow>
                    (case ParseBool v of
                       None \<Rightarrow> Inl (flag_error ''invalid boolean value for -'' name)
                     | Some b \<Rightarrow> parse_flags formal (gomap_set name (if b then ''true'' else ''false'') m) args))
           | Some StringFlag \<Rightarrow>
               (case value of
                  Some v \<Rightarrow> parse_flags formal (gomap_set name v m) args
                | None \<Rightarrow>
                    (case args of
                       [] \<Rightarrow> Inl (flag_error ''flag needs an argument: -'' name)
                     | v # rest \<Rightarrow> parse_flags formal (gomap_set name v m) rest))
           | Some IntFlag \<Rightarrow>
               (case (case value of Some v \<Rightarrow> Some v | None \<Rightarrow> (case args of [] \<Rightarrow> None | v # _ \<Rightarrow> Some v)) of
                  None \<Rightarrow> Inl (flag_error ''flag needs an argument: -'' name)
                | Some v \<Rightarrow>
                    (case ParseInt v of
                       None \<Rightarrow> Inl (flag_error ''invalid value for flag -'' name)
                     | Some n \<Rightarrow> parse_flags formal (gomap_set name (show_int n) m) (if value = None then drop 1 args else args)))))"

subsection \<open>Output\<close>

datatype stream = Stdout | Stderr

record 'n cli =
  cl_writes :: "(stream \<times> string) list"
  cl_net :: 'n

text \<open>
  The outside of a run: the environment, the write that fails, the files, the YAML and schema libraries and the HTTP client. The files may change while the tool runs:
  \<open>ce_files env n\<close> is what the n-th load of the manifests finds (one load sees one state of them). \<open>apply\<close> loads twice, to validate and to apply.
\<close>

record ('n, 'y, 'doc, 'compiler, 'schema) cli_env =
  ce_getenv :: environ
  ce_write :: "nat \<Rightarrow> error option"
  ce_files :: "nat \<Rightarrow> file_tree"
  ce_node :: "'y yaml_node"
  ce_yaml :: "bytes \<Rightarrow> 'y yaml_document list"
  ce_schema :: "('doc, 'compiler, 'schema) jsonschema"
  ce_client :: "'n HttpClient"

definition cli_writeLine :: "('n, 'y, 'doc, 'compiler, 'schema) cli_env \<Rightarrow> stream \<Rightarrow> string \<Rightarrow> ('n cli, unit) M" where
  "cli_writeLine env out line w =
     (case ce_write env (length (cl_writes w)) of
        Some e \<Rightarrow> (Inl e, w)
      | None \<Rightarrow> (Inr (), w\<lparr>cl_writes := cl_writes w @ [(out, line)]\<rparr>))"

definition newline :: string where
  "newline = [CHR 0x0A]"

definition printUsage :: "('n, 'y, 'doc, 'compiler, 'schema) cli_env \<Rightarrow> stream \<Rightarrow> ('n cli, unit) M" where
  "printUsage env out =
     bindM (cli_writeLine env out (''Usage:'' @ newline)) (\<lambda>_.
     bindM (cli_writeLine env out (''  cfgctl validate [file-or-directory ...]'' @ newline)) (\<lambda>_.
     cli_writeLine env out
       (''  cfgctl apply [--dry-run] [--include-rollouts] [--control-plane-url URL] [--token TOKEN] [file-or-directory ...]'' @ newline)))"

definition usageError :: "('n, 'y, 'doc, 'compiler, 'schema) cli_env \<Rightarrow> ('n cli, unit) M" where
  "usageError env = bindM (printUsage env Stderr) (\<lambda>_. raiseM (New ''usage: cfgctl <command> [options]''))"

fun printDiagnostics :: "('n, 'y, 'doc, 'compiler, 'schema) cli_env \<Rightarrow> stream \<Rightarrow> Diagnostic list \<Rightarrow> ('n cli, unit) M" where
  "printDiagnostics env out [] = retM ()"
| "printDiagnostics env out (d # ds) = bindM (cli_writeLine env out (Diagnostic_String d @ newline)) (\<lambda>_. printDiagnostics env out ds)"

subsection \<open>Commands\<close>

definition cli_report :: "('n, 'y, 'doc, 'compiler, 'schema) cli_env \<Rightarrow> string list \<Rightarrow> Report" where
  "cli_report env paths = ValidatePaths (ce_schema env) (ce_files env 0) (ce_node env) (ce_yaml env) \<lparr>va_SchemaValidator = None\<rparr> paths"

definition validation_failed :: "Report \<Rightarrow> error" where
  "validation_failed report = Errorf ''validation failed: %d error(s)'' [FD (int (length (rp_Errors report)))]"

definition runValidate :: "('n, 'y, 'doc, 'compiler, 'schema) cli_env \<Rightarrow> string list \<Rightarrow> ('n cli, unit) M" where
  "runValidate env args =
     bindM (liftE (parse_flags [] [] args)) (\<lambda>(_, paths).
     let report = cli_report env paths in
     bindM (printDiagnostics env Stderr (rp_Errors report)) (\<lambda>_.
     if \<not> Report_OK report then raiseM (validation_failed report)
     else cli_writeLine env Stdout
       (''validated '' @ show_int (rp_Manifests report) @ '' manifest(s) in '' @ show_int (rp_Files report) @ '' file(s)'' @ newline)))"

definition apply_flags :: "(string \<times> flag_kind) list" where
  "apply_flags = [(''control-plane-url'', StringFlag), (''token'', StringFlag), (''dry-run'', BoolFlag), (''include-rollouts'', BoolFlag)]"

definition apply_defaults :: "environ \<Rightarrow> (string, string) gomap" where
  "apply_defaults getenv =
     [(''control-plane-url'', getenv ''SAFECONFIG_CONTROL_PLANE_URL''), (''token'', getenv ''SAFECONFIG_TOKEN''), (''dry-run'', ''false''),
      (''include-rollouts'', ''false'')]"

definition flag_value :: "(string, string) gomap \<Rightarrow> string \<Rightarrow> string" where
  "flag_value m name = (case gomap_get m name of None \<Rightarrow> [] | Some v \<Rightarrow> v)"

definition apply_options :: "(string, string) gomap \<Rightarrow> ApplyOptions" where
  "apply_options m =
     \<lparr>ao_BaseURL = flag_value m ''control-plane-url'', ao_Token = flag_value m ''token'', ao_DryRun = (flag_value m ''dry-run'' = ''true''),
      ao_IncludeRollouts = (flag_value m ''include-rollouts'' = ''true'')\<rparr>"

fun printSteps :: "('n, 'y, 'doc, 'compiler, 'schema) cli_env \<Rightarrow> ApplyReport \<Rightarrow> ('n cli, unit) M" where
  "printSteps env [] = retM ()"
| "printSteps env (step # steps) =
     bindM (cli_writeLine env Stdout (as_Status step @ '' '' @ as_Action step @ '' '' @ as_Kind step @ '': '' @ as_Name step @ newline)) (\<lambda>_.
     printSteps env steps)"

definition cli_ApplyPaths :: "('n, 'y, 'doc, 'compiler, 'schema) cli_env \<Rightarrow> ApplyOptions \<Rightarrow> string list \<Rightarrow> ('n cli, ApplyReport) M" where
  "cli_ApplyPaths env options paths w =
     (case ApplyPaths (ce_files env 1) (ce_node env) (ce_yaml env) (ce_client env) options paths (cl_net w) of
        ((steps, err), n) \<Rightarrow> (case err of Some e \<Rightarrow> Inl e | None \<Rightarrow> Inr steps, w\<lparr>cl_net := n\<rparr>))"

definition runApply :: "('n, 'y, 'doc, 'compiler, 'schema) cli_env \<Rightarrow> string list \<Rightarrow> ('n cli, unit) M" where
  "runApply env args =
     bindM (liftE (parse_flags apply_flags (apply_defaults (ce_getenv env)) args)) (\<lambda>(flags, paths).
     let report = cli_report env paths in
     bindM (printDiagnostics env Stderr (rp_Errors report)) (\<lambda>_.
     if \<not> Report_OK report then raiseM (validation_failed report)
     else
       bindM (cli_ApplyPaths env (apply_options flags) paths) (\<lambda>steps.
       bindM (printSteps env steps) (\<lambda>_.
       cli_writeLine env Stdout (''processed '' @ show_int (int (length steps)) @ '' step(s)'' @ newline)))))"

definition cfgctl_run :: "('n, 'y, 'doc, 'compiler, 'schema) cli_env \<Rightarrow> string list \<Rightarrow> ('n cli, unit) M" where
  "cfgctl_run env args =
     (case args of
        [] \<Rightarrow> usageError env
      | command # rest \<Rightarrow>
          if command = ''validate'' then runValidate env rest
          else if command = ''apply'' then runApply env rest
          else if command \<in> set [''help'', ''-h'', ''--help''] then printUsage env Stdout
          else usageError env)"

text \<open>The status of the process: an error is written to the standard error and gives 1, or 2 when it cannot be written.\<close>

definition cfgctl_main :: "('n, 'y, 'doc, 'compiler, 'schema) cli_env \<Rightarrow> string list \<Rightarrow> 'n cli \<Rightarrow> int \<times> 'n cli" where
  "cfgctl_main env args w =
     (case cfgctl_run env args w of
        (Inr _, w') \<Rightarrow> (0, w')
      | (Inl err, w') \<Rightarrow> (case cli_writeLine env Stderr (error_text err @ newline) w' of (Inl _, w'') \<Rightarrow> (2, w'') | (Inr _, w'') \<Rightarrow> (1, w'')))"

subsection \<open>What reaches the control plane\<close>

definition quiet :: "('n cli, 'a) M \<Rightarrow> bool" where
  "quiet f \<longleftrightarrow> (\<forall>w. cl_net (snd (f w)) = cl_net w)"

lemma quiet_bind: "quiet f \<Longrightarrow> (\<And>a. quiet (g a)) \<Longrightarrow> quiet (bindM f g)"
  by (auto simp: quiet_def bindM_def split: prod.splits sum.splits) (metis snd_conv)+

lemma quiet_basic: "quiet (retM a)" "quiet (raiseM e)" "quiet (liftE r)" "quiet (cli_writeLine env out line)"
  by (auto simp: quiet_def retM_def raiseM_def liftE_def cli_writeLine_def split: sum.splits option.splits)

lemma quiet_if: "quiet f \<Longrightarrow> quiet g \<Longrightarrow> quiet (if b then f else g)"
  by simp

lemma quiet_printDiagnostics: "quiet (printDiagnostics env out ds)"
  by (induction ds) (simp_all add: quiet_bind quiet_basic)

lemma quiet_printSteps: "quiet (printSteps env steps)"
  by (induction steps) (simp_all add: quiet_bind quiet_basic)

lemma quiet_usage: "quiet (printUsage env out)" "quiet (usageError env)"
  by (simp_all add: printUsage_def usageError_def quiet_bind quiet_basic)

lemmas quiet_prints = quiet_printDiagnostics quiet_printSteps quiet_usage

lemmas quiet_rules = quiet_bind quiet_if quiet_basic quiet_prints

lemma quiet_validate: "quiet (runValidate env args)"
  unfolding runValidate_def by (rule quiet_bind [OF quiet_basic(3)]) (simp add: Let_def quiet_rules split: prod.split)

lemma bind_quiet_net:
  "quiet f \<Longrightarrow> cl_net (snd (bindM f g w)) = (case f w of (Inl e, _) \<Rightarrow> cl_net w | (Inr a, w1) \<Rightarrow> cl_net (snd (g a w1)))"
  by (auto simp: bindM_def quiet_def split: prod.split sum.split) (metis snd_conv)

lemma bind_then_quiet: "(\<And>a. quiet (g a)) \<Longrightarrow> cl_net (snd (bindM f g w)) = cl_net (snd (f w))"
  by (auto simp: bindM_def quiet_def split: prod.splits sum.splits)

lemma bind_parsed: "bindM (liftE r) g w = (case r of Inl e \<Rightarrow> (Inl e, w) | Inr a \<Rightarrow> g a w)"
  by (simp add: bindM_def liftE_def split: sum.split)

lemma quiet_same: "quiet f \<Longrightarrow> f w = (r, w1) \<Longrightarrow> cl_net w1 = cl_net w"
  by (metis quiet_def snd_conv)

lemma reported_net:
  assumes "quiet printed" "\<And>steps. quiet (after steps)"
  shows "cl_net (snd (bindM printed (\<lambda>_. if \<not> ok then raiseM e else bindM (cli_ApplyPaths env options paths) after) w)) =
    (if (\<exists>u. fst (printed w) = Inr u) \<and> ok
     then snd (ApplyPaths (ce_files env 1) (ce_node env) (ce_yaml env) (ce_client env) options paths (cl_net w)) else cl_net w)"
proof -
  obtain r w1 where p: "printed w = (r, w1)" by fastforce
  then have same: "cl_net w1 = cl_net w" by (rule quiet_same [OF assms(1)])
  show ?thesis
  proof (cases r)
    case (Inl e')
    then show ?thesis using p same by (simp add: bindM_def)
  next
    case (Inr u)
    have "cl_net (snd (bindM (cli_ApplyPaths env options paths) after w1)) =
        snd (ApplyPaths (ce_files env 1) (ce_node env) (ce_yaml env) (ce_client env) options paths (cl_net w1))"
      by (simp only: bind_then_quiet [OF assms(2)]) (simp add: cli_ApplyPaths_def split: prod.split)
    then show ?thesis using Inr p same by (simp add: bindM_def [of printed] raiseM_def)
  qed
qed

lemma runApply_net:
  "cl_net (snd (runApply env args w)) =
     (case parse_flags apply_flags (apply_defaults (ce_getenv env)) args of
        Inl _ \<Rightarrow> cl_net w
      | Inr (flags, paths) \<Rightarrow>
          if (\<exists>u. fst (printDiagnostics env Stderr (rp_Errors (cli_report env paths)) w) = Inr u) \<and> Report_OK (cli_report env paths)
          then snd (ApplyPaths (ce_files env 1) (ce_node env) (ce_yaml env) (ce_client env) (apply_options flags) paths (cl_net w))
          else cl_net w)"
  by (simp add: runApply_def bind_parsed Let_def reported_net quiet_rules split: sum.split prod.split)

lemma apply_changes_net:
  assumes "cl_net (snd (runApply env args w)) \<noteq> cl_net w"
  obtains flags paths where "parse_flags apply_flags (apply_defaults (ce_getenv env)) args = Inr (flags, paths)" "Report_OK (cli_report env paths)"
    "cl_net (snd (runApply env args w)) =
       snd (ApplyPaths (ce_files env 1) (ce_node env) (ce_yaml env) (ce_client env) (apply_options flags) paths (cl_net w))"
  using assms unfolding runApply_net by (auto split: sum.splits prod.splits if_splits)

lemma dry_run_silent: "ao_DryRun options \<Longrightarrow> snd (apply_steps client options docs known w) = w"
  by (induction docs) (auto simp: applyDocument_def retM_def split: prod.split)

lemma dry_run_documents: "ao_DryRun options \<Longrightarrow> snd (ApplyDocuments client options docs w) = w"
  by (simp add: ApplyDocuments_def dry_run_silent)

lemma dry_run_paths: "ao_DryRun options \<Longrightarrow> snd (ApplyPaths fs Y yaml client options paths w) = w"
  by (auto simp: ApplyPaths_def dest: dry_run_documents split: prod.split)

text \<open>The documents, and the complaints, of the n-th load.\<close>

definition loaded :: "('n, 'y, 'doc, 'compiler, 'schema) cli_env \<Rightarrow> nat \<Rightarrow> string list \<Rightarrow> ManifestDocument list \<times> Diagnostic list" where
  "loaded env n paths =
     (case LoadManifestDocuments (ce_files env n) (ce_node env) (ce_yaml env) paths of (documents, _, diagnostics) \<Rightarrow> (documents, diagnostics))"

lemma report_ok_loads: "Report_OK (cli_report env paths) \<Longrightarrow> snd (loaded env 0 paths) = []"
  by (auto simp: loaded_def Report_OK_def cli_report_def ValidatePaths_def Let_def split: prod.splits if_splits)

lemma report_ok_passed:
  assumes "Report_OK (cli_report env paths)" and "d \<in> set (fst (loaded env 0 paths))"
  shows "manifest_messages (JSONSchemaValidator (ce_schema env)) (md_Manifest d) (buildValidationState (fst (loaded env 0 paths))) = []"
proof -
  obtain docs files ds where load: "LoadManifestDocuments (ce_files env 0) (ce_node env) (ce_yaml env) paths = (docs, files, ds)" by (metis prod_cases3)
  then show ?thesis
    using report_ok_messages [OF assms(1) [unfolded cli_report_def] load] assms(2) by (simp add: loaded_def schemaValidator_def)
qed

lemma apply_loaded:
  "snd (ApplyPaths (ce_files env n) (ce_node env) (ce_yaml env) client options paths w) =
     (if snd (loaded env n paths) = [] then snd (ApplyDocuments client options (fst (loaded env n paths)) w) else w)"
  by (auto simp: ApplyPaths_def loaded_def split: prod.split)

text \<open>C34 (safety). A run of \<open>cfgctl\<close> reaches the control plane only as \<open>apply\<close> without \<open>--dry-run\<close>, and only when the flags parse, a base URL is given and
  both loads of the files succeed, the first with documents that all pass the validation. What it then sends is the application of the documents of the second load: the validated
  ones if both loads find the same documents, and otherwise others, which nothing has validated.\<close>

theorem apply_sends_validated_manifests_only:
  assumes "cl_net (snd (cfgctl_run env args w)) \<noteq> cl_net w"
  shows "\<exists>rest flags paths validated applied. args = ''apply'' # rest \<and>
    parse_flags apply_flags (apply_defaults (ce_getenv env)) rest = Inr (flags, paths) \<and>
    \<not> ao_DryRun (apply_options flags) \<and> TrimSpace (ao_BaseURL (apply_options flags)) \<noteq> [] \<and>
    loaded env 0 paths = (validated, []) \<and> loaded env 1 paths = (applied, []) \<and>
    (\<forall>d \<in> set validated. manifest_messages (JSONSchemaValidator (ce_schema env)) (md_Manifest d) (buildValidationState validated) = []) \<and>
    cl_net (snd (cfgctl_run env args w)) = snd (ApplyDocuments (ce_client env) (apply_options flags) applied (cl_net w))"
proof -
  obtain command rest where args: "args = command # rest"
    using assms quiet_prints(4) by (cases args) (auto simp: cfgctl_run_def quiet_def)
  have "command = ''apply''"
  proof (rule ccontr)
    assume "command \<noteq> ''apply''"
    then have "quiet (cfgctl_run env args)" by (simp add: args cfgctl_run_def quiet_if quiet_validate quiet_usage)
    then show False using assms by (simp add: quiet_def)
  qed
  then have run: "cfgctl_run env args w = runApply env rest w" by (simp add: args cfgctl_run_def)
  have "cl_net (snd (runApply env rest w)) \<noteq> cl_net w" using assms run by simp
  from apply_changes_net [OF this] obtain flags paths where f: "parse_flags apply_flags (apply_defaults (ce_getenv env)) rest = Inr (flags, paths)"
    "Report_OK (cli_report env paths)"
    "cl_net (snd (runApply env rest w)) =
       snd (ApplyPaths (ce_files env 1) (ce_node env) (ce_yaml env) (ce_client env) (apply_options flags) paths (cl_net w))" by blast
  have changes: "snd (ApplyPaths (ce_files env 1) (ce_node env) (ce_yaml env) (ce_client env) (apply_options flags) paths (cl_net w)) \<noteq> cl_net w"
    using assms unfolding run f(3) .
  have wet: "\<not> ao_DryRun (apply_options flags)"
  proof
    assume dry: "ao_DryRun (apply_options flags)"
    show False using changes by (simp add: dry_run_paths [OF dry])
  qed
  obtain validated where first: "loaded env 0 paths = (validated, [])" using report_ok_loads [OF f(2)] by (cases "loaded env 0 paths") simp
  obtain applied where second: "loaded env 1 paths = (applied, [])" using changes unfolding apply_loaded
    by (cases "loaded env 1 paths") (simp split: if_splits)
  have net: "cl_net (snd (cfgctl_run env args w)) = snd (ApplyDocuments (ce_client env) (apply_options flags) applied (cl_net w))"
    unfolding run f(3) apply_loaded by (simp add: second del: One_nat_def)
  have "TrimSpace (ao_BaseURL (apply_options flags)) \<noteq> []"
    using assms wet unfolding net by (auto simp: ApplyDocuments_def)
  moreover have "\<forall>d \<in> set validated. manifest_messages (JSONSchemaValidator (ce_schema env)) (md_Manifest d) (buildValidationState validated) = []"
    using report_ok_passed [OF f(2)] by (simp add: first)
  ultimately show ?thesis using args \<open>command = ''apply''\<close> f(1) wet first second net by blast
qed

text \<open>A network that counts requests and answers none; a tenant to apply.\<close>

definition counting_client :: "nat HttpClient" where
  "counting_client = \<lparr>hc_NewRequest = (\<lambda>_. None), hc_Do = (\<lambda>_ n. (Inl (New ''refused''), Suc n))\<rparr>"

definition demo_cli :: "(nat, Manifest, bytes, unit, bytes) cli_env" where
  "demo_cli = \<lparr>ce_getenv = (\<lambda>_. []), ce_write = (\<lambda>_. None), ce_files = (\<lambda>_. demo_tree), ce_node = demo_yaml,
     ce_yaml = (\<lambda>_. map YamlNode [demo_version_manifest, demo_definition_manifest]), ce_schema = demo_jsonschema, ce_client = counting_client\<rparr>"

theorem apply_sends_validated_manifests_only_witness:
  "\<exists>rest flags paths validated applied. [''apply'', ''--control-plane-url=http://cp'', ''c.yaml''] = ''apply'' # rest \<and>
    parse_flags apply_flags (apply_defaults (ce_getenv demo_cli)) rest = Inr (flags, paths) \<and>
    \<not> ao_DryRun (apply_options flags) \<and> TrimSpace (ao_BaseURL (apply_options flags)) \<noteq> [] \<and>
    loaded demo_cli 0 paths = (validated, []) \<and> loaded demo_cli 1 paths = (applied, []) \<and>
    (\<forall>d \<in> set validated. manifest_messages (JSONSchemaValidator (ce_schema demo_cli)) (md_Manifest d) (buildValidationState validated) = []) \<and>
    cl_net (snd (cfgctl_run demo_cli [''apply'', ''--control-plane-url=http://cp'', ''c.yaml''] \<lparr>cl_writes = [], cl_net = 0\<rparr>)) =
      snd (ApplyDocuments (ce_client demo_cli) (apply_options flags) applied (cl_net \<lparr>cl_writes = [], cl_net = 0\<rparr>))"
proof (rule apply_sends_validated_manifests_only)
  have "cl_net (snd (cfgctl_run demo_cli [''apply'', ''--control-plane-url=http://cp'', ''c.yaml''] \<lparr>cl_writes = [], cl_net = 0\<rparr>)) = 1" by code_simp
  then show "cl_net (snd (cfgctl_run demo_cli [''apply'', ''--control-plane-url=http://cp'', ''c.yaml''] \<lparr>cl_writes = [], cl_net = 0\<rparr>)) \<noteq>
      cl_net \<lparr>cl_writes = [], cl_net = 0\<rparr>" by simp
qed

text \<open>
  A file that changes between the two loads: the first finds a version with its definition, the second the version alone, which the validation would
  have refused. It is sent all the same.
\<close>

definition changing_tree :: "nat \<Rightarrow> file_tree" where
  "changing_tree n = demo_tree\<lparr>fs_ReadFile := (\<lambda>_. Inr (if n = 0 then ''both'' else ''version''))\<rparr>"

definition changing_cli :: "(nat, Manifest, bytes, unit, bytes) cli_env" where
  "changing_cli = demo_cli\<lparr>ce_files := changing_tree,
     ce_yaml := (\<lambda>data. map YamlNode (if data = ''both'' then [demo_version_manifest, demo_definition_manifest] else [demo_version_manifest]))\<rparr>"

lemma changed_files_escape_validation:
  "cl_net (snd (cfgctl_run changing_cli [''apply'', ''--control-plane-url=http://cp'', ''c.yaml''] \<lparr>cl_writes = [], cl_net = 0\<rparr>)) = 1"
  "\<not> Report_OK (ValidatePaths (ce_schema changing_cli) (changing_tree 1) (ce_node changing_cli) (ce_yaml changing_cli) \<lparr>va_SchemaValidator = None\<rparr> [''c.yaml''])"
  by code_simp+

end
