(* ===== verification/Parallel.thy ===== *)
theory Parallel
  imports Prelude
begin

section \<open>The worker pool\<close>

text \<open>
  \<open>parallel\<close> of \<open>internal/simulator/simulator.go\<close> and \<open>runParallel\<close> of \<open>internal/reliability/harness.go\<close>, which are the same function: it starts
  workers, hands them the indices below \<open>count\<close> over the channel \<open>jobs\<close>, keeps an error in the channel \<open>errs\<close>, which holds one, closes \<open>jobs\<close> and
  waits for the workers. A state has the position of the function, of each worker, the channels, and the world that the calls of \<open>fn\<close> share; an
  event is one atomic step of the function or of a worker, so that a list of events is an interleaving. \<open>jobs\<close> has no buffer: an index is handed
  over in one step of both sides. A call \<open>fn index\<close> is a list of atomic actions that stops at its first error, because the calls of
  different workers interleave. \<open>pl_calls\<close> is not in the code: it records the calls that ended, with their errors.
\<close>

datatype 'w worker = Receiving | Running nat "('w, unit) M list" | Exited

datatype pool_main = Offering | Waiting "error option" | Returned "error option"

record 'w pool =
  pl_main :: pool_main
  pl_index :: nat
  pl_closed :: bool
  pl_errs :: "error option"
  pl_workers :: "'w worker list"
  pl_world :: 'w
  pl_calls :: "(nat \<times> error option) list"

definition pool_start :: "int \<Rightarrow> 'w \<Rightarrow> 'w pool" where
  "pool_start concurrency w =
     \<lparr>pl_main = Offering, pl_index = 0, pl_closed = False, pl_errs = None,
      pl_workers = replicate (nat (if concurrency < 1 then 1 else concurrency)) Receiving, pl_world = w, pl_calls = []\<rparr>"

text \<open>The two cases of the \<open>select\<close> over the indices, the end of the loop, an action of a worker, its leaving the loop, and the return.\<close>

datatype pool_event = HandOver nat | TakeError | CloseJobs | Act nat | Leave nat | Return

definition set_worker :: "nat \<Rightarrow> 'w worker \<Rightarrow> 'w pool \<Rightarrow> 'w pool" where
  "set_worker k x s = s\<lparr>pl_workers := (pl_workers s)[k := x]\<rparr>"

definition ended_call :: "nat \<Rightarrow> nat \<Rightarrow> error option \<Rightarrow> 'w pool \<Rightarrow> 'w pool" where
  "ended_call k i err s =
     (set_worker k Receiving s)
       \<lparr>pl_calls := pl_calls s @ [(i, err)],
        pl_errs := (case err of None \<Rightarrow> pl_errs s | Some e \<Rightarrow> (if pl_errs s = None then Some e else pl_errs s))\<rparr>"

definition exited :: "'w worker \<Rightarrow> bool" where
  "exited x \<longleftrightarrow> (case x of Exited \<Rightarrow> True | _ \<Rightarrow> False)"

definition worker_at :: "'w pool \<Rightarrow> nat \<Rightarrow> 'w worker option" where
  "worker_at s k = (if k < length (pl_workers s) then Some (pl_workers s ! k) else None)"

fun pool_step :: "nat \<Rightarrow> (nat \<Rightarrow> ('w, unit) M list) \<Rightarrow> pool_event \<Rightarrow> 'w pool \<Rightarrow> 'w pool option" where
  "pool_step jobs fn (HandOver k) s =
     (case worker_at s k of
        Some Receiving \<Rightarrow>
          if pl_main s = Offering \<and> pl_index s < jobs
          then Some ((set_worker k (Running (pl_index s) (fn (pl_index s))) s)\<lparr>pl_index := Suc (pl_index s)\<rparr>)
          else None
      | _ \<Rightarrow> None)"
| "pool_step jobs fn TakeError s =
     (case pl_errs s of
        Some e \<Rightarrow>
          if pl_main s = Offering \<and> pl_index s < jobs
          then Some (s\<lparr>pl_main := Waiting (Some e), pl_closed := True, pl_errs := None\<rparr>)
          else None
      | None \<Rightarrow> None)"
| "pool_step jobs fn CloseJobs s =
     (if pl_main s = Offering \<and> \<not> pl_index s < jobs then Some (s\<lparr>pl_main := Waiting None, pl_closed := True\<rparr>) else None)"
| "pool_step jobs fn (Act k) s =
     (case worker_at s k of
        Some (Running i actions) \<Rightarrow>
          Some (case actions of
                  [] \<Rightarrow> ended_call k i None s
                | a # rest \<Rightarrow>
                    (case a (pl_world s) of
                       (Inl e, w) \<Rightarrow> ended_call k i (Some e) (s\<lparr>pl_world := w\<rparr>)
                     | (Inr _, w) \<Rightarrow> set_worker k (Running i rest) (s\<lparr>pl_world := w\<rparr>)))
      | _ \<Rightarrow> None)"
| "pool_step jobs fn (Leave k) s =
     (case worker_at s k of Some Receiving \<Rightarrow> if pl_closed s then Some (set_worker k Exited s) else None | _ \<Rightarrow> None)"
| "pool_step jobs fn Return s =
     (case pl_main s of
        Waiting err \<Rightarrow>
          if list_all exited (pl_workers s)
          then Some (s\<lparr>pl_main := Returned (case err of Some e \<Rightarrow> Some e | None \<Rightarrow> pl_errs s)\<rparr>)
          else None
      | _ \<Rightarrow> None)"

fun pool_run :: "nat \<Rightarrow> (nat \<Rightarrow> ('w, unit) M list) \<Rightarrow> pool_event list \<Rightarrow> 'w pool \<Rightarrow> 'w pool option" where
  "pool_run jobs fn [] s = Some s"
| "pool_run jobs fn (e # es) s = (case pool_step jobs fn e s of None \<Rightarrow> None | Some s' \<Rightarrow> pool_run jobs fn es s')"

subsection \<open>Invariants\<close>

fun running :: "'w worker \<Rightarrow> nat list" where
  "running (Running i _) = [i]"
| "running _ = []"

text \<open>The indices that were handed over are those of the calls that ended and of those that run; errors come from calls; the function waits
  for all workers and forgets no error.\<close>

definition errors_in :: "(nat \<times> error option) list \<Rightarrow> error set" where
  "errors_in calls = {e. Some e \<in> snd ` set calls}"

definition handed_over :: "'w pool \<Rightarrow> bool" where
  "handed_over s \<longleftrightarrow> mset (map fst (pl_calls s)) + mset (concat (map running (pl_workers s))) = mset [0..<pl_index s]"

definition shape :: "nat \<Rightarrow> 'w pool \<Rightarrow> bool" where
  "shape jobs s \<longleftrightarrow>
     pl_index s \<le> jobs \<and> pl_workers s \<noteq> [] \<and> (pl_closed s \<longleftrightarrow> pl_main s \<noteq> Offering) \<and>
     (pl_closed s \<or> \<not> list_ex exited (pl_workers s)) \<and>
     (\<forall>e. pl_errs s = Some e \<longrightarrow> e \<in> errors_in (pl_calls s))"

definition main_ok :: "nat \<Rightarrow> 'w pool \<Rightarrow> bool" where
  "main_ok jobs s \<longleftrightarrow>
     (case pl_main s of
        Offering \<Rightarrow> pl_errs s = None \<longrightarrow> errors_in (pl_calls s) = {}
      | Waiting None \<Rightarrow> pl_index s = jobs \<and> (pl_errs s = None \<longrightarrow> errors_in (pl_calls s) = {})
      | Waiting (Some e) \<Rightarrow> e \<in> errors_in (pl_calls s)
      | Returned None \<Rightarrow> pl_index s = jobs \<and> errors_in (pl_calls s) = {} \<and> list_all exited (pl_workers s)
      | Returned (Some e) \<Rightarrow> e \<in> errors_in (pl_calls s) \<and> list_all exited (pl_workers s))"

definition pool_inv :: "nat \<Rightarrow> 'w pool \<Rightarrow> bool" where
  "pool_inv jobs s \<longleftrightarrow> handed_over s \<and> shape jobs s \<and> main_ok jobs s"

lemma worker_at_Some: "worker_at s k = Some x \<longleftrightarrow> k < length (pl_workers s) \<and> pl_workers s ! k = x"
  by (auto simp: worker_at_def)

lemma running_update:
  "k < length ws \<Longrightarrow> mset (concat (map running (ws[k := y]))) + mset (running (ws ! k)) = mset (concat (map running ws)) + mset (running y)"
proof (induction ws arbitrary: k)
  case (Cons x ws)
  then show ?case by (cases k) (auto simp: union_ac)
qed simp

lemma running_receiving:
  "worker_at s k = Some Receiving \<Longrightarrow> mset (concat (map running ((pl_workers s)[k := y]))) = mset (concat (map running (pl_workers s))) + mset (running y)"
  using running_update [of k "pl_workers s" y] by (simp add: worker_at_Some)

lemma running_running:
  "worker_at s k = Some (Running i as) \<Longrightarrow>
    mset (concat (map running ((pl_workers s)[k := y]))) + {#i#} = mset (concat (map running (pl_workers s))) + mset (running y)"
  using running_update [of k "pl_workers s" y] by (simp add: worker_at_Some)

lemma exited_simps [simp]: "\<not> exited Receiving" "\<not> exited (Running i as)" "exited Exited"
  by (simp_all add: exited_def)

lemma errors_in_simps [simp]: "errors_in [] = {}" "errors_in (calls @ [(i, None)]) = errors_in calls"
  "errors_in (calls @ [(i, Some e)]) = insert e (errors_in calls)"
  by (auto simp: errors_in_def)

lemma inv_start: "pool_inv jobs (pool_start concurrency w)"
  by (simp add: pool_inv_def handed_over_def shape_def main_ok_def pool_start_def list_ex_iff concat_eq_Nil_conv)

lemma not_exited_update: "\<not> list_ex exited ws \<Longrightarrow> \<not> exited x \<Longrightarrow> \<not> list_ex exited (ws[k := x])"
  by (auto simp: list_ex_iff dest: set_update_subset_insert [THEN subsetD])

lemma main_not_returned: "main_ok jobs s \<Longrightarrow> worker_at s k = Some x \<Longrightarrow> \<not> exited x \<Longrightarrow> pl_main s \<noteq> Returned r"
  by (cases r) (auto simp: main_ok_def worker_at_Some list_all_length)

lemma inv_ended:
  assumes "pool_inv jobs s" "worker_at s k = Some (Running i as)"
  shows "pool_inv jobs (ended_call k i err s)"
proof -
  note moved = running_running [OF assms(2), of Receiving, symmetric]
  have "handed_over (ended_call k i err s)"
    using assms(1) moved by (simp add: pool_inv_def handed_over_def ended_call_def set_worker_def)
  moreover have "shape jobs (ended_call k i err s)"
    using assms(1) not_exited_update [of "pl_workers s" Receiving k]
    by (cases err; cases "pl_errs s") (auto simp: pool_inv_def shape_def ended_call_def set_worker_def)
  moreover have "main_ok jobs (ended_call k i err s)"
  proof (cases "pl_main s")
    case (Returned r)
    then show ?thesis using main_not_returned assms by (fastforce simp: pool_inv_def)
  qed (use assms(1) in \<open>cases err; auto simp: pool_inv_def main_ok_def ended_call_def set_worker_def split: option.splits\<close>)+
  ultimately show ?thesis by (simp add: pool_inv_def)
qed

lemma inv_world: "pool_inv jobs s \<Longrightarrow> pool_inv jobs (s\<lparr>pl_world := w\<rparr>)"
  by (auto simp: pool_inv_def handed_over_def shape_def main_ok_def split: pool_main.splits option.splits)

lemma inv_worker:
  assumes "pool_inv jobs s" "worker_at s k = Some x" "\<not> exited x" "running x = running y" "\<not> exited y \<or> pl_closed s"
  shows "pool_inv jobs (set_worker k y s)"
proof -
  have "mset (concat (map running ((pl_workers s)[k := y]))) = mset (concat (map running (pl_workers s)))"
    using running_update [of k "pl_workers s" y] assms(2,4) by (simp add: worker_at_Some)
  moreover have "main_ok jobs (set_worker k y s)"
    using assms(1-3) main_not_returned [of jobs s k x]
    by (cases "pl_main s") (auto simp: pool_inv_def main_ok_def set_worker_def split: option.splits)
  ultimately show ?thesis
    using assms(1,5) not_exited_update [of "pl_workers s" y k]
    by (auto simp: pool_inv_def handed_over_def shape_def set_worker_def)
qed

lemma inv_step:
  assumes "pool_inv jobs s" "pool_step jobs fn e s = Some s'"
  shows "pool_inv jobs s'"
proof (cases e)
  case (HandOver k)
  then have k: "worker_at s k = Some Receiving" "pl_main s = Offering" "pl_index s < jobs"
    "s' = (set_worker k (Running (pl_index s) (fn (pl_index s))) s)\<lparr>pl_index := Suc (pl_index s)\<rparr>"
    using assms(2) by (auto split: option.splits worker.splits if_splits)
  show ?thesis
    using assms(1) k(2-4) running_receiving [OF k(1), of "Running (pl_index s) (fn (pl_index s))"]
      not_exited_update [of "pl_workers s" "Running (pl_index s) (fn (pl_index s))" k]
    by (auto simp: pool_inv_def handed_over_def shape_def main_ok_def set_worker_def)
next
  case (Act k)
  then obtain i actions where k: "worker_at s k = Some (Running i actions)" using assms(2) by (auto split: option.splits worker.splits)
  show ?thesis
  proof (cases actions)
    case Nil
    then have "s' = ended_call k i None s" using Act k assms(2) by simp
    then show ?thesis using inv_ended [OF assms(1) k] by blast
  next
    case (Cons a rest)
    obtain r w where run: "a (pl_world s) = (r, w)" by fastforce
    have k': "worker_at (s\<lparr>pl_world := w\<rparr>) k = Some (Running i actions)" using k unfolding worker_at_Some by simp
    show ?thesis
    proof (cases r)
      case (Inl err)
      then have "s' = ended_call k i (Some err) (s\<lparr>pl_world := w\<rparr>)" using Act k Cons run assms(2) by simp
      then show ?thesis using inv_ended [OF inv_world [OF assms(1)] k'] by blast
    next
      case (Inr u)
      then have "s' = set_worker k (Running i rest) (s\<lparr>pl_world := w\<rparr>)" using Act k Cons run assms(2) by simp
      then show ?thesis using inv_worker [OF inv_world [OF assms(1)] k', of "Running i rest"] by simp
    qed
  qed
next
  case (Leave k)
  then have k: "worker_at s k = Some Receiving" "pl_closed s" "s' = set_worker k Exited s"
    using assms(2) by (auto split: option.splits worker.splits if_splits)
  then show ?thesis using inv_worker [OF assms(1) k(1), of Exited] by simp
next
  case TakeError
  then show ?thesis using assms by (auto simp: pool_inv_def handed_over_def shape_def main_ok_def split: option.splits if_splits)
next
  case CloseJobs
  then show ?thesis using assms by (auto simp: pool_inv_def handed_over_def shape_def main_ok_def split: if_splits)
next
  case Return
  then show ?thesis
    using assms by (auto simp: pool_inv_def handed_over_def shape_def main_ok_def split: pool_main.splits option.splits if_splits)
qed

lemma inv_run: "pool_inv jobs s \<Longrightarrow> pool_run jobs fn es s = Some s' \<Longrightarrow> pool_inv jobs s'"
  by (induction es arbitrary: s) (auto split: option.splits dest: inv_step)

subsection \<open>Termination\<close>

definition worker_weight :: "'w worker \<Rightarrow> nat" where
  "worker_weight x = (case x of Receiving \<Rightarrow> 1 | Running _ as \<Rightarrow> length as + 2 | Exited \<Rightarrow> 0)"

definition main_weight :: "pool_main \<Rightarrow> nat" where
  "main_weight m = (case m of Offering \<Rightarrow> 2 | Waiting _ \<Rightarrow> 1 | Returned _ \<Rightarrow> 0)"

definition remaining :: "nat \<Rightarrow> (nat \<Rightarrow> 'a list) \<Rightarrow> nat \<Rightarrow> nat" where
  "remaining jobs fn i = (\<Sum>j = i..<jobs. length (fn j) + 2)"

definition pool_measure :: "nat \<Rightarrow> (nat \<Rightarrow> ('w, unit) M list) \<Rightarrow> 'w pool \<Rightarrow> nat" where
  "pool_measure jobs fn s = remaining jobs fn (pl_index s) + sum_list (map worker_weight (pl_workers s)) + main_weight (pl_main s)"

lemma weight_update:
  "worker_at s k = Some x \<Longrightarrow>
    sum_list (map worker_weight ((pl_workers s)[k := y])) + worker_weight x = sum_list (map worker_weight (pl_workers s)) + worker_weight y"
proof -
  have "k < length ws \<Longrightarrow> sum_list (map worker_weight (ws[k := y])) + worker_weight (ws ! k) = sum_list (map worker_weight ws) + worker_weight y"
    for ws :: "'a worker list" and k y
  proof (induction ws arbitrary: k)
    case (Cons x ws)
    then show ?case by (cases k) auto
  qed simp
  then show "worker_at s k = Some x \<Longrightarrow> ?thesis" by (auto simp: worker_at_Some)
qed

lemma remaining_Suc: "i < jobs \<Longrightarrow> remaining jobs fn i = length (fn i) + 2 + remaining jobs fn (Suc i)"
  by (simp add: remaining_def sum.atLeast_Suc_lessThan)

lemma step_decreases: "pool_step jobs fn e s = Some s' \<Longrightarrow> pool_measure jobs fn s' < pool_measure jobs fn s"
proof (cases e)
  case (HandOver k)
  assume "pool_step jobs fn e s = Some s'"
  then show ?thesis
    using HandOver weight_update [of s k Receiving "Running (pl_index s) (fn (pl_index s))"]
    by (auto simp: pool_measure_def set_worker_def worker_weight_def remaining_Suc split: option.splits worker.splits if_splits)
next
  case (Act k)
  assume step: "pool_step jobs fn e s = Some s'"
  then obtain i actions where k: "worker_at s k = Some (Running i actions)" using Act by (auto split: option.splits worker.splits)
  show ?thesis
    using step Act k weight_update [OF k, of Receiving] weight_update [OF k, of "Running i (tl actions)"]
    by (cases actions) (auto simp: pool_measure_def set_worker_def ended_call_def worker_weight_def split: prod.splits sum.splits)
next
  case (Leave k)
  assume "pool_step jobs fn e s = Some s'"
  then show ?thesis
    using Leave weight_update [of s k Receiving Exited]
    by (auto simp: pool_measure_def set_worker_def worker_weight_def split: option.splits worker.splits if_splits)
qed (auto simp: pool_measure_def main_weight_def split: option.splits pool_main.splits if_splits)

lemma run_decreases: "pool_run jobs fn es s = Some s' \<Longrightarrow> pool_measure jobs fn s' + length es \<le> pool_measure jobs fn s"
proof (induction es arbitrary: s)
  case (Cons e es)
  then obtain s1 where "pool_step jobs fn e s = Some s1" "pool_run jobs fn es s1 = Some s'" by (auto split: option.splits)
  with Cons.IH [of s1] step_decreases [of jobs fn e s s1] show ?case by simp
qed simp

text \<open>Some event is possible until the function has returned: no deadlock.\<close>

lemma worker_moves:
  assumes "x \<in> set (pl_workers s)" "\<not> exited x" "pl_closed s \<or> pl_main s = Offering \<and> pl_index s < jobs"
  shows "\<exists>e s'. pool_step jobs fn e s = Some s'"
proof -
  obtain k where k: "worker_at s k = Some x" using assms(1) by (auto simp: worker_at_Some in_set_conv_nth)
  show ?thesis
  proof (cases x)
    case Receiving
    show ?thesis
    proof (cases "pl_closed s")
      case True
      then have "pool_step jobs fn (Leave k) s = Some (set_worker k Exited s)" using k Receiving by simp
      then show ?thesis by blast
    next
      case False
      then have "pool_step jobs fn (HandOver k) s \<noteq> None" using assms(3) k Receiving by simp
      then show ?thesis by blast
    qed
  next
    case (Running i as)
    then have "pool_step jobs fn (Act k) s \<noteq> None" using k by simp
    then show ?thesis by blast
  next
    case Exited
    then show ?thesis using assms(2) by simp
  qed
qed

lemma no_deadlock:
  assumes "pool_inv jobs s" "\<And>r. pl_main s \<noteq> Returned r"
  shows "\<exists>e s'. pool_step jobs fn e s = Some s'"
proof (cases "pl_main s")
  case Offering
  show ?thesis
  proof (cases "pl_index s < jobs")
    case True
    have "pl_workers s \<noteq> []" "\<not> list_ex exited (pl_workers s)" using assms(1) Offering by (auto simp: pool_inv_def shape_def)
    then obtain x where "x \<in> set (pl_workers s)" "\<not> exited x" by (cases "pl_workers s") (auto simp: list_ex_iff)
    then show ?thesis using worker_moves Offering True by blast
  next
    case False
    then have "pool_step jobs fn CloseJobs s \<noteq> None" using Offering by simp
    then show ?thesis by blast
  qed
next
  case (Waiting r)
  then have closed: "pl_closed s" using assms(1) by (simp add: pool_inv_def shape_def)
  show ?thesis
  proof (cases "list_all exited (pl_workers s)")
    case True
    then have "pool_step jobs fn Return s \<noteq> None" using Waiting by simp
    then show ?thesis by blast
  next
    case False
    then obtain x where "x \<in> set (pl_workers s)" "\<not> exited x" by (auto simp: list_all_iff)
    then show ?thesis using worker_moves closed by blast
  qed
qed (use assms(2) in blast)

subsection \<open>A whole call\<close>

text \<open>
  The Go scheduler chooses the next event; \<open>sched\<close> is its choice at each step, and where it names an event that is not possible the first one that
  is takes place. The fuel is the bound of the measure, so that the call has returned when it is spent (\<open>parallel_returned\<close>).
\<close>

definition pool_events :: "'w pool \<Rightarrow> pool_event list" where
  "pool_events s = [TakeError, CloseJobs, Return] @ concat (map (\<lambda>k. [HandOver k, Act k, Leave k]) [0..<length (pl_workers s)])"

definition possible :: "nat \<Rightarrow> (nat \<Rightarrow> ('w, unit) M list) \<Rightarrow> 'w pool \<Rightarrow> pool_event \<Rightarrow> bool" where
  "possible jobs fn s e \<longleftrightarrow> (case pool_step jobs fn e s of None \<Rightarrow> False | Some _ \<Rightarrow> True)"

definition pool_next :: "nat \<Rightarrow> (nat \<Rightarrow> ('w, unit) M list) \<Rightarrow> pool_event \<Rightarrow> 'w pool \<Rightarrow> 'w pool option" where
  "pool_next jobs fn e s =
     (case find (possible jobs fn s) (e # pool_events s) of
        None \<Rightarrow> None
      | Some e \<Rightarrow> pool_step jobs fn e s)"

fun pool_loop :: "nat \<Rightarrow> nat \<Rightarrow> (nat \<Rightarrow> ('w, unit) M list) \<Rightarrow> (nat \<Rightarrow> pool_event) \<Rightarrow> 'w pool \<Rightarrow> 'w pool" where
  "pool_loop 0 jobs fn sched s = s"
| "pool_loop (Suc fuel) jobs fn sched s =
     (case pool_next jobs fn (sched 0) s of None \<Rightarrow> s | Some s' \<Rightarrow> pool_loop fuel jobs fn (\<lambda>n. sched (Suc n)) s')"

definition pool_fuel :: "nat \<Rightarrow> int \<Rightarrow> (nat \<Rightarrow> 'a list) \<Rightarrow> nat" where
  "pool_fuel jobs concurrency fn = sum_list (map (\<lambda>j. length (fn j) + 2) [0..<jobs]) + nat (max 1 concurrency) + 2"

definition parallel :: "(nat \<Rightarrow> pool_event) \<Rightarrow> int \<Rightarrow> int \<Rightarrow> (nat \<Rightarrow> ('w, unit) M list) \<Rightarrow> ('w, unit) M" where
  "parallel sched jobs concurrency fn w =
     (let s = pool_loop (pool_fuel (nat jobs) concurrency fn) (nat jobs) fn sched (pool_start concurrency w) in
      (case pl_main s of Returned (Some e) \<Rightarrow> Inl e | _ \<Rightarrow> Inr (), pl_world s))"

definition runParallel :: "(nat \<Rightarrow> pool_event) \<Rightarrow> int \<Rightarrow> int \<Rightarrow> (nat \<Rightarrow> ('w, unit) M list) \<Rightarrow> ('w, unit) M" where
  "runParallel sched jobs concurrency fn = parallel sched jobs concurrency fn"

lemma possible_events: "pool_step jobs fn e s = Some s' \<Longrightarrow> e \<in> set (pool_events s)"
  by (cases e) (auto simp: pool_events_def worker_at_Some split: option.splits worker.splits)

lemma pool_next_Some: "pool_next jobs fn e s = Some s' \<Longrightarrow> \<exists>e'. pool_step jobs fn e' s = Some s'"
  by (auto simp: pool_next_def split: option.splits)

lemma pool_next_None: "pool_next jobs fn e s = None \<Longrightarrow> pool_step jobs fn e' s = None"
proof (rule ccontr)
  assume none: "pool_next jobs fn e s = None" and "pool_step jobs fn e' s \<noteq> None"
  then obtain s' where step: "pool_step jobs fn e' s = Some s'" by blast
  have "possible jobs fn s e'" using step by (simp add: possible_def)
  then have "\<exists>x. find (possible jobs fn s) (e # pool_events s) = Some x"
    using possible_events [OF step] by (metis find_None_iff list.set_intros(2) not_Some_eq)
  then obtain x where "find (possible jobs fn s) (e # pool_events s) = Some x" by blast
  moreover from this have "possible jobs fn s x" unfolding find_Some_iff by blast
  ultimately show False using none by (auto simp: pool_next_def possible_def simp del: find.simps split: option.splits)
qed

lemma pool_loop_run:
  assumes "pool_inv jobs s" "pool_measure jobs fn s \<le> fuel"
  shows "\<exists>events r. pool_run jobs fn events s = Some (pool_loop fuel jobs fn sched s) \<and> pl_main (pool_loop fuel jobs fn sched s) = Returned r"
  using assms
proof (induction fuel arbitrary: s sched)
  case 0
  then have "\<exists>r. pl_main s = Returned r" using no_deadlock [of jobs s fn] step_decreases [of jobs fn _ s] by fastforce
  then show ?case by (metis pool_loop.simps(1) pool_run.simps(1))
next
  case (Suc fuel)
  show ?case
  proof (cases "pool_next jobs fn (sched 0) s")
    case None
    then have "\<exists>r. pl_main s = Returned r" by (metis no_deadlock Suc.prems(1) pool_next_None option.distinct(1))
    then show ?thesis using None by (metis option.case(1) pool_loop.simps(2) pool_run.simps(1))
  next
    case (Some s')
    then obtain e where step: "pool_step jobs fn e s = Some s'" using pool_next_Some by blast
    then have "pool_measure jobs fn s' \<le> fuel" using step_decreases [OF step] Suc.prems(2) by simp
    from Suc.IH [OF inv_step [OF Suc.prems(1) step] this, of "\<lambda>n. sched (Suc n)"] obtain events r where
      "pool_run jobs fn events s' = Some (pool_loop fuel jobs fn (\<lambda>n. sched (Suc n)) s')"
      "pl_main (pool_loop fuel jobs fn (\<lambda>n. sched (Suc n)) s') = Returned r" by blast
    then have "pool_run jobs fn (e # events) s = Some (pool_loop (Suc fuel) jobs fn sched s)"
      "pl_main (pool_loop (Suc fuel) jobs fn sched s) = Returned r" using step Some by simp_all
    then show ?thesis by blast
  qed
qed

lemma measure_start: "pool_measure jobs fn (pool_start concurrency w) = (\<Sum>j = 0..<jobs. length (fn j) + 2) + nat (max 1 concurrency) + 2"
  by (simp add: pool_measure_def remaining_def pool_start_def worker_weight_def main_weight_def sum_list_replicate max_def)

lemma parallel_returned:
  "\<exists>events s r. pool_run (nat jobs) fn events (pool_start concurrency w) = Some s \<and> pl_main s = Returned r \<and>
     parallel sched jobs concurrency fn w = (case r of Some e \<Rightarrow> Inl e | None \<Rightarrow> Inr (), pl_world s)"
proof -
  have "pool_fuel (nat jobs) concurrency fn = (\<Sum>j = 0..<nat jobs. length (fn j) + 2) + nat (max 1 concurrency) + 2"
    by (simp add: pool_fuel_def sum_list_distinct_conv_sum_set)
  then have "pool_measure (nat jobs) fn (pool_start concurrency w) \<le> pool_fuel (nat jobs) concurrency fn" by (simp add: measure_start)
  from pool_loop_run [OF inv_start this, of sched] show ?thesis by (fastforce simp: parallel_def Let_def split: option.splits)
qed

lemma distinct_removed: "distinct xs \<Longrightarrow> M + {#i#} = mset xs \<Longrightarrow> j \<in># M \<Longrightarrow> j \<noteq> i"
  using distinct_count_atmost_1 [of xs] by (metis One_nat_def add_mset_add_single count_add_mset count_eq_zero_iff nat.inject not_less_eq_eq
      order_refl set_mset_mset union_single_eq_member zero_neq_one)

lemma handed_out:
  assumes "pool_inv jobs s"
  shows "distinct (map fst (pl_calls s) @ concat (map running (pl_workers s)))"
    and "set (map fst (pl_calls s)) \<union> set (concat (map running (pl_workers s))) = {0..<pl_index s}"
proof -
  have total: "mset (map fst (pl_calls s) @ concat (map running (pl_workers s))) = mset [0..<pl_index s]"
    using assms by (simp add: pool_inv_def handed_over_def)
  show "distinct (map fst (pl_calls s) @ concat (map running (pl_workers s)))" by (metis total distinct_upt mset_eq_imp_distinct_iff)
  show "set (map fst (pl_calls s)) \<union> set (concat (map running (pl_workers s))) = {0..<pl_index s}" using mset_eq_setD [OF total] by simp
qed

lemma all_called:
  assumes "pool_run jobs fn events (pool_start concurrency w) = Some s"
  shows "distinct (map fst (pl_calls s)) \<and> set (map fst (pl_calls s)) \<subseteq> {0..<jobs} \<and>
    (case pl_main s of
       Returned None \<Rightarrow> set (map fst (pl_calls s)) = {0..<jobs} \<and> set (map snd (pl_calls s)) \<subseteq> {None} \<and> list_all exited (pl_workers s)
     | Returned (Some e) \<Rightarrow> Some e \<in> set (map snd (pl_calls s)) \<and> list_all exited (pl_workers s)
     | _ \<Rightarrow> True)"
proof -
  have inv: "pool_inv jobs s" by (rule inv_run [OF inv_start assms])
  define ran where "ran = concat (map running (pl_workers s))"
  have "distinct (map fst (pl_calls s) @ ran)" unfolding ran_def by (rule handed_out(1) [OF inv])
  moreover have sets: "set (map fst (pl_calls s)) \<union> set ran = {0..<pl_index s}" unfolding ran_def by (rule handed_out(2) [OF inv])
  moreover have "set (map fst (pl_calls s)) \<subseteq> {0..<jobs}" 
  proof -
    have "pl_index s \<le> jobs" using inv by (simp add: pool_inv_def shape_def)
    moreover have "set (map fst (pl_calls s)) \<subseteq> {0..<pl_index s}" using sets by blast
    ultimately show ?thesis by (metis atLeastLessThan_subset_iff order_refl subset_trans ivl_subset)
  qed
  moreover have "set (map snd (pl_calls s)) \<subseteq> {None}" if "errors_in (pl_calls s) = {}"
    using that by (auto simp: errors_in_def image_iff) (metis not_Some_eq snd_conv)
  moreover have "ran = []" if "list_all exited (pl_workers s)"
  proof -
    have "running x = []" if "exited x" for x :: "'a worker" using that by (cases x) auto
    then show ?thesis using that unfolding ran_def by (auto simp: concat_eq_Nil_conv list_all_iff)
  qed
  moreover have "main_ok jobs s" using inv by (simp add: pool_inv_def)
  moreover have "Some e \<in> set (map snd (pl_calls s))" if "e \<in> errors_in (pl_calls s)" for e using that by (simp add: errors_in_def)
  ultimately show ?thesis
    by (cases "pl_main s") (simp_all add: main_ok_def split: option.splits)
qed

subsection \<open>Reasoning about the jobs\<close>

text \<open>
  The rule for a call of the pool: \<open>I\<close> holds between any two actions, and \<open>P i d\<close> holds of the world once the first \<open>d\<close> actions of job \<open>i\<close> have
  been taken. Every action keeps \<open>I\<close>, takes its own job further, and leaves the assertions of the other jobs true.
\<close>

locale pool_jobs =
  fixes jobs :: nat and fn :: "nat \<Rightarrow> ('w, unit) M list" and I :: "'w \<Rightarrow> bool" and P :: "nat \<Rightarrow> nat \<Rightarrow> 'w \<Rightarrow> bool"
  assumes job_start: "i < jobs \<Longrightarrow> I w \<Longrightarrow> P i 0 w"
    and job_keeps: "i < jobs \<Longrightarrow> d < length (fn i) \<Longrightarrow> I w \<Longrightarrow> P i d w \<Longrightarrow> (fn i ! d) w = (r, w') \<Longrightarrow> I w'"
    and job_moves: "i < jobs \<Longrightarrow> d < length (fn i) \<Longrightarrow> I w \<Longrightarrow> P i d w \<Longrightarrow> (fn i ! d) w = (Inr u, w') \<Longrightarrow> P i (Suc d) w'"
    and job_stable: "i < jobs \<Longrightarrow> d < length (fn i) \<Longrightarrow> I w \<Longrightarrow> P i d w \<Longrightarrow> (fn i ! d) w = (r, w') \<Longrightarrow> j < jobs \<Longrightarrow> j \<noteq> i \<Longrightarrow> P j e w \<Longrightarrow> P j e w'"
begin

definition on_track :: "'w \<Rightarrow> 'w worker \<Rightarrow> bool" where
  "on_track w x \<longleftrightarrow> (case x of Running i as \<Rightarrow> i < jobs \<and> (\<exists>d \<le> length (fn i). as = drop d (fn i) \<and> P i d w) | _ \<Rightarrow> True)"

definition tracked :: "'w pool \<Rightarrow> bool" where
  "tracked s \<longleftrightarrow> I (pl_world s) \<and> list_all (on_track (pl_world s)) (pl_workers s) \<and>
     (\<forall>i. (i, None) \<in> set (pl_calls s) \<longrightarrow> P i (length (fn i)) (pl_world s))"

lemma on_track_idle [simp]: "on_track w Receiving" "on_track w Exited"
  by (simp_all add: on_track_def)

lemma on_track_Running: "on_track w (Running i as) \<longleftrightarrow> i < jobs \<and> (\<exists>d \<le> length (fn i). as = drop d (fn i) \<and> P i d w)"
  by (simp add: on_track_def)

lemma tracked_worker:
  "tracked s \<Longrightarrow> on_track (pl_world s) x \<Longrightarrow> pl_world s' = pl_world s \<Longrightarrow> pl_calls s' = pl_calls s \<Longrightarrow> pl_workers s' = (pl_workers s)[k := x] \<Longrightarrow> tracked s'"
  by (auto simp: tracked_def list_all_iff dest!: set_update_subset_insert [THEN subsetD])

lemma calls_below:
  assumes "pool_inv jobs s" "(i, err) \<in> set (pl_calls s)"
  shows "i < jobs"
proof -
  have "i \<in> set (map fst (pl_calls s))" using assms(2) by force
  then have "i \<in> {0..<pl_index s}" unfolding handed_out(2) [OF assms(1), symmetric] by blast
  then have "i < pl_index s" by simp
  moreover have "pl_index s \<le> jobs" using assms(1) by (simp add: pool_inv_def shape_def)
  ultimately show ?thesis by simp
qed

lemma tracked_act:
  assumes "pool_inv jobs s" "tracked s" "worker_at s k = Some (Running i (a # rest))" "a (pl_world s) = (r, w)"
  shows "tracked (case r of Inl e \<Rightarrow> ended_call k i (Some e) (s\<lparr>pl_world := w\<rparr>) | Inr _ \<Rightarrow> set_worker k (Running i rest) (s\<lparr>pl_world := w\<rparr>))"
proof -
  have k: "k < length (pl_workers s)" "pl_workers s ! k = Running i (a # rest)" using assms(3) by (simp_all add: worker_at_Some)
  then have "on_track (pl_world s) (Running i (a # rest))" using assms(2) by (metis tracked_def list_all_length)
  then obtain d where i: "i < jobs" and d: "d \<le> length (fn i)" "a # rest = drop d (fn i)" "P i d (pl_world s)" by (auto simp: on_track_Running)
  have less: "d < length (fn i)" using d(2) by (metis drop_eq_Nil list.distinct(1) not_le)
  then have a: "a = fn i ! d" "rest = drop (Suc d) (fn i)" using d(2) by (metis Cons_nth_drop_Suc list.inject)+
  have run: "(fn i ! d) (pl_world s) = (r, w)" using assms(4) a by simp
  have I: "I (pl_world s)" using assms(2) by (simp add: tracked_def)
  note facts = i less I d(3) run
  have "I w" by (rule job_keeps [OF facts])
  have stable: "P j e w" if "P j e (pl_world s)" "j < jobs" "j \<noteq> i" for j e by (rule job_stable [OF facts that(2,3,1)])
  have others: "on_track w x" if x: "x \<in> set ((pl_workers s)[k := Receiving])" for x
  proof (cases x)
    case (Running j as)
    have "j \<in># mset (concat (map running ((pl_workers s)[k := Receiving])))" using x Running by force
    moreover have "mset (concat (map running ((pl_workers s)[k := Receiving]))) + {#i#} = mset (concat (map running (pl_workers s)))"
      using running_running [OF assms(3), of Receiving] by simp
    moreover have "distinct (concat (map running (pl_workers s)))" using handed_out(1) [OF assms(1)] by simp
    ultimately have "j \<noteq> i" using distinct_removed by metis
    have "x \<in> set (pl_workers s)" using x Running k(1) by (auto dest!: set_update_subset_insert [THEN subsetD])
    then have "on_track (pl_world s) x" using assms(2) by (simp add: tracked_def list_all_iff)
    then show ?thesis using stable \<open>j \<noteq> i\<close> by (auto simp: Running on_track_Running)
  qed simp_all
  have calls: "P j (length (fn j)) w" if c: "(j, None) \<in> set (pl_calls s)" for j
  proof -
    have "distinct (map fst (pl_calls s) @ concat (map running (pl_workers s)))" by (rule handed_out(1) [OF assms(1)])
    moreover have "i \<in> set (concat (map running (pl_workers s)))" using nth_mem [OF k(1)] k(2) by (auto intro!: bexI [of _ "Running i (a # rest)"])
    moreover have "j \<in> set (map fst (pl_calls s))" using c by force
    ultimately have "j \<noteq> i" by auto
    then show ?thesis using stable c calls_below [OF assms(1) c] assms(2) by (auto simp: tracked_def)
  qed
  show ?thesis
  proof (cases r)
    case (Inl e)
    then show ?thesis using \<open>I w\<close> others calls by (auto simp: tracked_def ended_call_def set_worker_def list_all_iff)
  next
    case (Inr u)
    have "P i (Suc d) w" using run unfolding Inr by (rule job_moves [OF i less I d(3)])
    then have "on_track w (Running i rest)" using i less a(2) by (auto simp: on_track_Running intro!: exI [of _ "Suc d"])
    then have "\<forall>x \<in> set (((pl_workers s)[k := Receiving])[k := Running i rest]). on_track w x"
      using others set_update_subset_insert [of "(pl_workers s)[k := Receiving]" k "Running i rest"] by blast
    then have "list_all (on_track w) ((pl_workers s)[k := Running i rest])" by (simp add: list_all_iff)
    then show ?thesis using Inr \<open>I w\<close> calls by (simp add: tracked_def set_worker_def)
  qed
qed

lemma tracked_step:
  assumes "pool_inv jobs s" "tracked s" "pool_step jobs fn e s = Some s'"
  shows "tracked s'"
proof (cases e)
  case (HandOver k)
  then have k: "worker_at s k = Some Receiving" "pl_index s < jobs"
    "s' = (set_worker k (Running (pl_index s) (fn (pl_index s))) s)\<lparr>pl_index := Suc (pl_index s)\<rparr>"
    using assms(3) by (auto split: option.splits worker.splits if_splits)
  have "on_track (pl_world s) (Running (pl_index s) (fn (pl_index s)))"
    using k(2) job_start assms(2) by (auto simp: on_track_Running tracked_def intro!: exI [of _ 0])
  then show ?thesis by (rule tracked_worker [OF assms(2)]) (simp_all add: k(3) set_worker_def)
next
  case (Act k)
  then obtain i actions where k: "worker_at s k = Some (Running i actions)" using assms(3) by (auto split: option.splits worker.splits)
  show ?thesis
  proof (cases actions)
    case Nil
    have "on_track (pl_world s) (Running i [])" using assms(2) k Nil by (metis tracked_def list_all_length worker_at_Some)
    then have "P i (length (fn i)) (pl_world s)" by (auto simp: on_track_Running)
    moreover have "s' = ended_call k i None s" using Act k Nil assms(3) by simp
    moreover have "tracked (set_worker k Receiving s)" by (rule tracked_worker [OF assms(2)]) (simp_all add: set_worker_def)
    ultimately show ?thesis by (auto simp: tracked_def ended_call_def set_worker_def)
  next
    case (Cons a rest)
    obtain r w where run: "a (pl_world s) = (r, w)" by fastforce
    have "s' = (case r of Inl e \<Rightarrow> ended_call k i (Some e) (s\<lparr>pl_world := w\<rparr>) | Inr _ \<Rightarrow> set_worker k (Running i rest) (s\<lparr>pl_world := w\<rparr>))"
      using Act k Cons run assms(3) by (auto split: sum.split)
    then show ?thesis using tracked_act [OF assms(1,2) k [unfolded Cons] run] by simp
  qed
next
  case (Leave k)
  then have "s' = set_worker k Exited s" using assms(3) by (auto split: option.splits worker.splits if_splits)
  then show ?thesis by (intro tracked_worker [OF assms(2), of Exited]) (simp_all add: set_worker_def)
qed (use assms(2,3) in \<open>auto simp: tracked_def split: option.splits if_splits pool_main.splits\<close>)

lemma tracked_run:
  "pool_inv jobs s \<Longrightarrow> tracked s \<Longrightarrow> pool_run jobs fn es s = Some s' \<Longrightarrow> tracked s'"
  by (induction es arbitrary: s) (auto split: option.splits dest: inv_step tracked_step)

lemma parallel_rule:
  assumes "I w"
  shows "wp (parallel sched (int jobs) concurrency fn) (\<lambda>_ w'. I w' \<and> (\<forall>i < jobs. P i (length (fn i)) w')) (\<lambda>_ w'. I w') w"
proof -
  obtain events s r where run: "pool_run jobs fn events (pool_start concurrency w) = Some s" "pl_main s = Returned r"
    "parallel sched (int jobs) concurrency fn w = (case r of Some e \<Rightarrow> Inl e | None \<Rightarrow> Inr (), pl_world s)"
    using parallel_returned [of "int jobs" fn concurrency w sched] by auto
  have "tracked (pool_start concurrency w)" using assms by (simp add: tracked_def pool_start_def list_all_iff)
  then have t: "tracked s" by (rule tracked_run [OF inv_start _ run(1)])
  have "P i (length (fn i)) (pl_world s)" if r: "r = None" "i < jobs" for i
  proof -
    have called: "set (map fst (pl_calls s)) = {0..<jobs} \<and> set (map snd (pl_calls s)) \<subseteq> {None}"
      using all_called [OF run(1)] run(2) r(1) by simp
    then obtain err where "(i, err) \<in> set (pl_calls s)" using r(2) by force
    moreover from this called have "err = None" by force
    ultimately show ?thesis using t by (simp add: tracked_def)
  qed
  then show ?thesis using t by (cases r) (auto simp: wp_def run(3) tracked_def)
qed

end

subsection \<open>Properties\<close>

text \<open>C32 (safety). Whatever the interleaving: no index is called twice; when the pool returns without an error, every index below the count was
  called exactly once and no call failed; when it returns an error, it is the error of a call; and no worker is left when it has returned.\<close>

theorem pool_calls_every_job:
  assumes "pool_run jobs fn events (pool_start concurrency w) = Some s"
  shows "distinct (map fst (pl_calls s)) \<and> set (map fst (pl_calls s)) \<subseteq> {0..<jobs} \<and>
    (case pl_main s of
       Returned None \<Rightarrow> set (map fst (pl_calls s)) = {0..<jobs} \<and> set (map snd (pl_calls s)) \<subseteq> {None} \<and> list_all exited (pl_workers s)
     | Returned (Some e) \<Rightarrow> Some e \<in> set (map snd (pl_calls s)) \<and> list_all exited (pl_workers s)
     | _ \<Rightarrow> True)"
  using assms by (rule all_called)

text \<open>C33 (termination). The pool always returns: from the start no execution has more events than the jobs have actions, twice their number, the
  number of workers and two together, and as long as it has not returned some event is possible, so that no interleaving deadlocks.\<close>

theorem pool_returns:
  assumes "pool_run jobs fn events (pool_start concurrency w) = Some s"
  shows "length events \<le> (\<Sum>j = 0..<jobs. length (fn j) + 2) + nat (max 1 concurrency) + 2 \<and>
    (case pl_main s of Returned _ \<Rightarrow> True | _ \<Rightarrow> (\<exists>e s'. pool_step jobs fn e s = Some s'))"
proof -
  from run_decreases [OF assms] have "length events \<le> (\<Sum>j = 0..<jobs. length (fn j) + 2) + nat (max 1 concurrency) + 2"
    by (simp add: measure_start)
  moreover have "pool_inv jobs s" by (rule inv_run [OF inv_start assms])
  ultimately show ?thesis using no_deadlock [of jobs s fn] by (cases "pl_main s") auto
qed

text \<open>Three jobs on two workers: the second fails, the third runs beside it.\<close>

definition demo_job :: "nat \<Rightarrow> (nat list, unit) M list" where
  "demo_job i = [\<lambda>w. (Inr (), w @ [i]), \<lambda>w. (if i = 1 then Inl (New ''failed'') else Inr (), w)]"

definition demo_events :: "pool_event list" where
  "demo_events =
     [HandOver 0, HandOver 1, Act 0, Act 1, Act 0, Act 0, HandOver 0, Act 1, CloseJobs, Act 0, Act 0, Act 0, Leave 1, Leave 0, Return]"

definition demo_end :: "nat list pool" where
  "demo_end =
     \<lparr>pl_main = Returned (Some (New ''failed'')), pl_index = 3, pl_closed = True, pl_errs = Some (New ''failed''), pl_workers = [Exited, Exited],
      pl_world = [0, 1, 2], pl_calls = [(0, None), (1, Some (New ''failed'')), (2, None)]\<rparr>"

lemma demo_runs: "pool_run 3 demo_job demo_events (pool_start 2 []) = Some demo_end"
  by (simp add: demo_events_def demo_job_def demo_end_def pool_start_def worker_at_def set_worker_def ended_call_def numeral_2_eq_2)

theorem pool_calls_every_job_witness:
  "distinct (map fst (pl_calls demo_end)) \<and> Some (New ''failed'') \<in> set (map snd (pl_calls demo_end)) \<and> list_all exited (pl_workers demo_end)"
  using pool_calls_every_job [OF demo_runs] by (simp add: demo_end_def)

theorem pool_returns_witness: "length demo_events \<le> 16"
  using pool_returns [OF demo_runs] by (simp add: demo_job_def)

end
