(* ===== verification/Simulator.thy ===== *)
theory Simulator
  imports Plane_Snapshots Parallel Json_Float
begin

section \<open>internal/simulator\<close>

text \<open>
  The load simulator: a control plane and a data plane in one process, \<open>AgentCount\<close> virtual agents registered through the worker pool, and a
  rollout acknowledged stage by stage until it ends. A run threads a \<open>Sim\<close>: the world of the three stores, and the slices that the closures of
  \<open>registerAgents\<close> and \<open>acknowledgeStage\<close> write from several workers (\<open>sim_started\<close> holds the local variable \<open>started\<close> of each call). A call of a
  service is one action of a job. \<open>sched\<close> gives the interleaving of the pool that starts at a tick of the world. The loop over the stages has
  fuel; \<open>None\<close> says that it was spent. A panic is an error that nothing catches.
\<close>

subsection \<open>Types\<close>

record Options =
  opt_AgentCount :: int
  opt_Concurrency :: int
  opt_Service :: string
  opt_Environment :: Environment

record Latency =
  lat_Count :: int
  lat_Min :: duration
  lat_Avg :: duration
  lat_P50 :: duration
  lat_P95 :: duration
  lat_Max :: duration

record StageResult =
  sgr_StageID :: string
  sgr_Targets :: int
  sgr_Acked :: int
  sgr_Coverage :: float64
  sgr_Duration :: duration
  sgr_NextState :: string
  sgr_NextStage :: string

record Result =
  srs_AgentCount :: int
  srs_RegisteredAgents :: int
  srs_SnapshotReads :: int
  srs_Acknowledgements :: int
  srs_AgentsPerSecond :: float64
  srs_SnapshotsPerSecond :: float64
  srs_AcksPerSecond :: float64
  srs_RolloutID :: string
  srs_FinalState :: string
  srs_FinalStage :: string
  srs_Duration :: duration
  srs_RegisterLatency :: Latency
  srs_SnapshotLatency :: Latency
  srs_AckLatency :: Latency
  srs_StageResults :: "StageResult list"

record virtualAgent =
  va_ID :: string
  va_Token :: string

record pendingAck =
  pa_AgentID :: string
  pa_Token :: string
  pa_ConfigDefinitionID :: string
  pa_VersionID :: string
  pa_SnapshotRevision :: int
  pa_RolloutID :: string
  pa_StageID :: string

record Sim =
  sim_world :: World
  sim_agents :: "virtualAgent list"
  sim_started :: "go_time list"
  sim_latencies :: "duration list"
  sim_pending :: "pendingAck list"

definition sim_on :: "(World, 'a) M \<Rightarrow> (Sim, 'a) M" where
  "sim_on f s = (case f (sim_world s) of (r, w) \<Rightarrow> (r, s\<lparr>sim_world := w\<rparr>))"

definition sim_now :: "Config \<Rightarrow> (Sim, go_time) M" where
  "sim_now cfg = sim_on (effM (w_now (cfg_oracle cfg)))"

text \<open>\<open>time.Since\<close>.\<close>

definition sim_since :: "Config \<Rightarrow> go_time \<Rightarrow> (Sim, duration) M" where
  "sim_since cfg started = bindM (sim_now cfg) (\<lambda>now. retM (time_Sub now started))"

text \<open>Writing the cells and the slices that the closures share.\<close>

definition sim_do :: "(Sim \<Rightarrow> Sim) \<Rightarrow> (Sim, unit) M" where
  "sim_do f s = (Inr (), f s)"

definition makeslice_panic :: error where
  "makeslice_panic = Foreign ''panic: runtime error: makeslice: len out of range''"

subsection \<open>Numbers\<close>

fun f64_add :: "float64 \<Rightarrow> float64 \<Rightarrow> float64" where
  "f64_add (Fin a) (Fin b) = to_float64 (a + b)"
| "f64_add (Fin a) y = y"
| "f64_add PInf (Fin b) = PInf"
| "f64_add NInf (Fin b) = NInf"
| "f64_add PInf PInf = PInf"
| "f64_add NInf NInf = NInf"
| "f64_add _ _ = NaN"

text \<open>Division of integers in Go rounds to zero.\<close>

definition go_quot :: "int \<Rightarrow> int \<Rightarrow> int" where
  "go_quot a b = sgn a * sgn b * (\<bar>a\<bar> div \<bar>b\<bar>)"

definition duration_Seconds :: "duration \<Rightarrow> float64" where
  "duration_Seconds d =
     (let sec = go_quot d Second; nsec = d - sec * Second in f64_add (f64_of_int sec) (f64_div (f64_of_int nsec) (Fin 1000000000)))"

definition perSecond :: "int \<Rightarrow> duration \<Rightarrow> float64" where
  "perSecond n d = (if d \<le> 0 then Fin 0 else f64_div (f64_of_int n) (duration_Seconds d))"

definition percentile :: "duration list \<Rightarrow> int \<Rightarrow> duration" where
  "percentile values p =
     (if length values = 0 then 0
      else
        let index = go_quot (int (length values) * p + 99) 100 - 1;
            index = (if index < 0 then 0 else index);
            index = (if index \<ge> int (length values) then int (length values) - 1 else index) in
        values ! nat index)"

fun wrapped_sum :: "int \<Rightarrow> duration list \<Rightarrow> int" where
  "wrapped_sum acc [] = acc"
| "wrapped_sum acc (x # xs) = wrapped_sum (wrap64 (acc + x)) xs"

text \<open>\<open>sort.Slice\<close> is not stable, but equal durations cannot be told apart.\<close>

definition summarize :: "duration list \<Rightarrow> Latency" where
  "summarize values =
     (if length values = 0 then \<lparr>lat_Count = 0, lat_Min = 0, lat_Avg = 0, lat_P50 = 0, lat_P95 = 0, lat_Max = 0\<rparr>
      else
        let xs = sort values; sum = wrapped_sum 0 xs in
        \<lparr>lat_Count = int (length xs), lat_Min = xs ! 0, lat_Avg = go_quot sum (int (length xs)), lat_P50 = percentile xs 50,
         lat_P95 = percentile xs 95, lat_Max = xs ! (length xs - 1)\<rparr>)"

subsection \<open>Set-up\<close>

definition normalizeOptions :: "Options \<Rightarrow> Options" where
  "normalizeOptions o' =
     (let o' = (if opt_AgentCount o' = 0 then o'\<lparr>opt_AgentCount := 1000\<rparr> else o');
          o' = (if opt_Concurrency o' = 0 then o'\<lparr>opt_Concurrency := 64\<rparr> else o');
          o' = (if opt_Service o' = [] then o'\<lparr>opt_Service := ''payment-service''\<rparr> else o') in
      if opt_Environment o' = [] then o'\<lparr>opt_Environment := EnvironmentProduction\<rparr> else o')"

text \<open>\<open>time.Date(2026, 8, 24, 0, 0, 0, 0, time.UTC)\<close>.\<close>

definition seed_time :: go_time where
  "seed_time = 63923126400 * Second"

definition schema_text :: "(string \<times> string) list \<Rightarrow> string" where
  "schema_text kvs = json_object (map (\<lambda>(k, v). json_field k v) kvs)"

text \<open>The registry before the run: a tenant, a definition with two versions, of which the first is stable.\<close>

definition seed_registry :: "Config \<Rightarrow> string \<Rightarrow> string \<Rightarrow> Environment \<Rightarrow> (World, unit) M" where
  "seed_registry cfg description author env =
     (let store = world_config_store (cfg_oracle cfg) in
      bindM (cs_CreateTenant store
        \<lparr>tenant_ID = ''payments'', tenant_Name = ''Payments'', tenant_Description = [], tenant_Owner = [], tenant_CreatedAt = seed_time,
         tenant_UpdatedAt = seed_time\<rparr>) (\<lambda>_.
      bindM (cs_CreateDefinition store
        \<lparr>def_ID = ''cfg_payment_failure_rate'', def_TenantID = ''payments'', def_Key = ''payment.failure_rate'', def_Description = description,
         def_Schema = schema_text [(''type'', json_string ''number''), (''minimum'', ''0''), (''maximum'', ''1'')], def_DefaultValue = ''0'',
         def_CreatedAt = seed_time, def_UpdatedAt = seed_time\<rparr>) (\<lambda>_.
      bindM (cs_CreateVersion store
        \<lparr>ver_ID = ''ver_payment_failure_rate_v1'', ver_ConfigDefinitionID = ''cfg_payment_failure_rate'', ver_VersionNumber = 0, ver_Value = ''0'',
         ver_SourceCommitSHA = [], ver_CreatedBy = author, ver_CreatedAt = seed_time\<rparr>) (\<lambda>v1.
      bindM (cs_CreateVersion store
        \<lparr>ver_ID = ''ver_payment_failure_rate_v2'', ver_ConfigDefinitionID = ''cfg_payment_failure_rate'', ver_VersionNumber = 0, ver_Value = ''0.2'',
         ver_SourceCommitSHA = [], ver_CreatedBy = author, ver_CreatedAt = seed_time\<rparr>) (\<lambda>_.
      cs_SaveEnvironmentState store
        \<lparr>env_ConfigDefinitionID = ''cfg_payment_failure_rate'', env_Environment = env, env_StableVersionID = ver_ID v1, env_ActiveRolloutID = [],
         env_UpdatedAt = seed_time\<rparr>)))))"

definition new_stores :: "World \<Rightarrow> World" where
  "new_stores w = w\<lparr>w_registry := cr_NewMemoryStore, w_agents := ag_NewMemoryStore, w_rollouts := ro_NewMemoryStore\<rparr>"

definition sim_config :: "('doc, 'compiler, 'schema) jsonschema \<Rightarrow> Oracle \<Rightarrow> Config" where
  "sim_config js orc =
     \<lparr>cfg_validator = JSONSchemaValidator js, cfg_bootstrapToken = ''sim-bootstrap'', cfg_credentialTTL = 3600 * Second, cfg_prometheus = False,
      cfg_oracle = orc\<rparr>"

definition setup_simulation :: "Config \<Rightarrow> Options \<Rightarrow> (Sim, unit) M" where
  "setup_simulation cfg o' =
     bindM (sim_do (\<lambda>s. s\<lparr>sim_world := new_stores (sim_world s)\<rparr>)) (\<lambda>_.
     sim_on (seed_registry cfg ''Synthetic payment authorization failure rate used by the simulator.'' ''simulator'' (opt_Environment o')))"

subsection \<open>Registration\<close>

definition sim_agent_id :: "nat \<Rightarrow> string" where
  "sim_agent_id index = ''agent-'' @ pad 4 (int index + 1)"

definition register_input :: "Options \<Rightarrow> nat \<Rightarrow> RegisterInput" where
  "register_input o' index =
     \<lparr>rgi_BootstrapToken = ''sim-bootstrap'', rgi_ID = sim_agent_id index, rgi_Service = opt_Service o', rgi_Environment = opt_Environment o',
      rgi_Zone = ''zone-'' @ show_int (int index mod 3), rgi_Instance = sim_agent_id index, rgi_Labels = []\<rparr>"

definition note_started :: "Config \<Rightarrow> nat \<Rightarrow> (Sim, unit) M" where
  "note_started cfg index = bindM (sim_now cfg) (\<lambda>now. sim_do (\<lambda>s. s\<lparr>sim_started := (sim_started s)[index := now]\<rparr>))"

definition note_latency :: "Config \<Rightarrow> nat \<Rightarrow> (Sim, unit) M" where
  "note_latency cfg index =
     bindM (sim_now cfg) (\<lambda>now. sim_do (\<lambda>s. s\<lparr>sim_latencies := (sim_latencies s)[index := time_Sub now (sim_started s ! index)]\<rparr>))"

definition register_job :: "Config \<Rightarrow> Options \<Rightarrow> nat \<Rightarrow> (Sim, unit) M list" where
  "register_job cfg o' index =
     [note_started cfg index,
      tryM (sim_on (ag_Register (agent_service cfg) (register_input o' index)))
        (\<lambda>err. bindM (note_latency cfg index) (\<lambda>_. raiseM err))
        (\<lambda>result. bindM (note_latency cfg index) (\<lambda>_.
          sim_do (\<lambda>s. s\<lparr>sim_agents := (sim_agents s)[index := \<lparr>va_ID = agent_ID (rgr_Agent result), va_Token = cred_Token (rgr_Credential result)\<rparr>]\<rparr>)))]"

type_synonym schedules = "nat \<Rightarrow> nat \<Rightarrow> pool_event"

definition sim_parallel :: "schedules \<Rightarrow> int \<Rightarrow> int \<Rightarrow> (nat \<Rightarrow> (Sim, unit) M list) \<Rightarrow> (Sim, unit) M" where
  "sim_parallel sched n concurrency fn s = parallel (sched (w_tick (sim_world s))) n concurrency fn s"

definition registerAgents :: "schedules \<Rightarrow> Config \<Rightarrow> Options \<Rightarrow> (Sim, duration list) M" where
  "registerAgents sched cfg o' =
     (if opt_AgentCount o' < 0 then raiseM makeslice_panic
      else
        bindM (sim_do (\<lambda>s. s\<lparr>sim_agents := replicate (nat (opt_AgentCount o')) \<lparr>va_ID = [], va_Token = []\<rparr>,
            sim_started := replicate (nat (opt_AgentCount o')) 0, sim_latencies := replicate (nat (opt_AgentCount o')) 0\<rparr>)) (\<lambda>_.
        bindM (sim_parallel sched (opt_AgentCount o') (opt_Concurrency o') (register_job cfg o')) (\<lambda>_.
        (\<lambda>s. (Inr (sim_latencies s), s)))))"

subsection \<open>Acknowledgement of a stage\<close>

definition pending_for :: "virtualAgent \<Rightarrow> string \<Rightarrow> Snapshot \<Rightarrow> pendingAck list" where
  "pending_for agent stageID snapshot =
     map (\<lambda>item. \<lparr>pa_AgentID = va_ID agent, pa_Token = va_Token agent, pa_ConfigDefinitionID = si_ConfigDefinitionID item,
         pa_VersionID = si_VersionID item, pa_SnapshotRevision = snap_Revision snapshot, pa_RolloutID = asg_RolloutID (si_Assignment item),
         pa_StageID = asg_StageID (si_Assignment item)\<rparr>)
       (filter (\<lambda>item. \<not> (asg_RolloutID (si_Assignment item) = [] \<or> asg_StageID (si_Assignment item) \<noteq> stageID)) (snap_Configs snapshot))"

text \<open>The registry has one definition, so that an agent appends at most once and its loop is one action.\<close>

definition snapshot_job :: "Config \<Rightarrow> string \<Rightarrow> virtualAgent list \<Rightarrow> nat \<Rightarrow> (Sim, unit) M list" where
  "snapshot_job cfg stageID agents index =
     [note_started cfg index,
      tryM (sim_on (DynamicSnapshotStore_GetSnapshot (snapshot_store cfg [''payments'']) (va_ID (agents ! index))))
        (\<lambda>err. bindM (note_latency cfg index) (\<lambda>_. raiseM err))
        (\<lambda>snapshot. bindM (note_latency cfg index) (\<lambda>_.
          sim_do (\<lambda>s. s\<lparr>sim_pending := sim_pending s @ pending_for (agents ! index) stageID snapshot\<rparr>)))]"

fun ack_loop :: "Config \<Rightarrow> pendingAck list \<Rightarrow> (Sim, duration list) M" where
  "ack_loop cfg [] = retM []"
| "ack_loop cfg (ack # pending) =
     bindM (sim_now cfg) (\<lambda>started.
     bindM (sim_on (ag_Acknowledge (agent_service cfg)
       \<lparr>gai_AgentID = pa_AgentID ack, gai_Token = pa_Token ack, gai_ConfigDefinitionID = pa_ConfigDefinitionID ack, gai_VersionID = pa_VersionID ack,
        gai_SnapshotRevision = pa_SnapshotRevision ack\<rparr>)) (\<lambda>_.
     bindM (sim_on (ro_Acknowledge (rollouts_service cfg)
       \<lparr>aki_RolloutID = pa_RolloutID ack, aki_StageID = pa_StageID ack, aki_AgentID = pa_AgentID ack, aki_VersionID = pa_VersionID ack,
        aki_SnapshotRevision = pa_SnapshotRevision ack\<rparr>)) (\<lambda>_.
     bindM (sim_since cfg started) (\<lambda>latency.
     bindM (ack_loop cfg pending) (\<lambda>latencies. retM (latency # latencies))))))"

definition acknowledgeStage :: "schedules \<Rightarrow> Config \<Rightarrow> string \<Rightarrow> int \<Rightarrow> (Sim, duration list \<times> duration list) M" where
  "acknowledgeStage sched cfg stageID concurrency s =
     (let agents = sim_agents s in
      bindM (sim_do (\<lambda>s. s\<lparr>sim_started := replicate (length agents) 0, sim_latencies := replicate (length agents) 0, sim_pending := []\<rparr>)) (\<lambda>_.
      bindM (sim_parallel sched (int (length agents)) concurrency (snapshot_job cfg stageID agents)) (\<lambda>_ s.
      bindM (ack_loop cfg (sim_pending s)) (\<lambda>ackLatencies. retM (sim_latencies s, ackLatencies)) s)) s)"

subsection \<open>Run\<close>

record Progress =
  prg_snapshots :: "duration list"
  prg_acks :: "duration list"
  prg_stages :: "StageResult list"

definition sim_rollout_input :: "Options \<Rightarrow> CreateRolloutInput" where
  "sim_rollout_input o' =
     \<lparr>cri_TenantID = ''payments'', cri_Key = ''payment.failure_rate'', cri_Environment = opt_Environment o', cri_CandidateVersionNumber = 2,
      cri_TargetServices = [opt_Service o'],
      cri_Stages =
        [\<lparr>stage_ID = ''stage-5'', stage_Percentage = 5, stage_MinimumDuration = 0\<rparr>,
         \<lparr>stage_ID = ''stage-25'', stage_Percentage = 25, stage_MinimumDuration = 0\<rparr>,
         \<lparr>stage_ID = ''stage-100'', stage_Percentage = 100, stage_MinimumDuration = 0\<rparr>],
      cri_Guardrails = [], cri_RequiredAckPercentage = Fin 100, cri_DeploymentTimeout = 5 * Minute, cri_RolloutMaxDuration = 0,
      cri_RollbackTimeout = 0\<rparr>"

definition stage_coverage :: "int \<Rightarrow> int \<Rightarrow> float64" where
  "stage_coverage acked n = (if n > 0 then f64_mul (f64_div (f64_of_int acked) (f64_of_int n)) (Fin 100) else Fin 0)"

definition stage_progress :: "Progress \<Rightarrow> Rollout \<Rightarrow> StageTarget list \<Rightarrow> Rollout \<Rightarrow> duration list \<Rightarrow> duration list \<Rightarrow> duration \<Rightarrow> Progress" where
  "stage_progress p active targets updated snapshots acks d =
     \<lparr>prg_snapshots = prg_snapshots p @ snapshots, prg_acks = prg_acks p @ acks,
      prg_stages = prg_stages p @
        [\<lparr>sgr_StageID = ro_CurrentStageID active, sgr_Targets = int (length targets), sgr_Acked = int (length acks),
          sgr_Coverage = stage_coverage (int (length acks)) (int (length targets)), sgr_Duration = d,
          sgr_NextState = state_text (ro_State updated), sgr_NextStage = ro_CurrentStageID updated\<rparr>]\<rparr>"

fun stages_loop :: "nat \<Rightarrow> schedules \<Rightarrow> Config \<Rightarrow> Options \<Rightarrow> string \<Rightarrow> Progress \<Rightarrow> (Sim, Progress option) M" where
  "stages_loop 0 sched cfg o' rolloutID p = retM None"
| "stages_loop (Suc fuel) sched cfg o' rolloutID p =
     bindM (sim_on (ro_GetRollout (rollouts_service cfg) rolloutID)) (\<lambda>(active, targets, _).
     if Terminal (ro_State active) then retM (Some p)
     else
       bindM (sim_now cfg) (\<lambda>stageStarted.
       bindM (acknowledgeStage sched cfg (ro_CurrentStageID active) (opt_Concurrency o')) (\<lambda>(snapshots, acks).
       bindM (sim_on (ro_GetRollout (rollouts_service cfg) rolloutID)) (\<lambda>(updated, _, coverage).
       bindM (sim_since cfg stageStarted) (\<lambda>stageDuration.
       let p' = stage_progress p active targets updated snapshots acks stageDuration in
       if Terminal (ro_State updated) then retM (Some p')
       else if ro_CurrentStageID updated = ro_CurrentStageID active \<and> f64_lt (cov_Percentage coverage) (ro_RequiredAckPercent active) then
         raiseM (Errorf ''stage %s did not reach required acknowledgement coverage'' [FS (ro_CurrentStageID active)])
       else stages_loop fuel sched cfg o' rolloutID p')))))"

definition simulation_result :: "Options \<Rightarrow> nat \<Rightarrow> Rollout \<Rightarrow> Rollout \<Rightarrow> duration list \<Rightarrow> Progress \<Rightarrow> duration \<Rightarrow> Result" where
  "simulation_result o' registered created final registers p d =
     \<lparr>srs_AgentCount = opt_AgentCount o', srs_RegisteredAgents = int registered, srs_SnapshotReads = int (length (prg_snapshots p)),
      srs_Acknowledgements = int (length (prg_acks p)), srs_AgentsPerSecond = perSecond (int registered) d,
      srs_SnapshotsPerSecond = perSecond (int (length (prg_snapshots p))) d, srs_AcksPerSecond = perSecond (int (length (prg_acks p))) d,
      srs_RolloutID = ro_ID created, srs_FinalState = state_text (ro_State final), srs_FinalStage = ro_CurrentStageID final, srs_Duration = d,
      srs_RegisterLatency = summarize registers, srs_SnapshotLatency = summarize (prg_snapshots p), srs_AckLatency = summarize (prg_acks p),
      srs_StageResults = prg_stages p\<rparr>"

definition simulator_Run ::
  "nat \<Rightarrow> schedules \<Rightarrow> ('doc, 'compiler, 'schema) jsonschema \<Rightarrow> Oracle \<Rightarrow> Options \<Rightarrow> (Sim, Result option) M" where
  "simulator_Run fuel sched js orc o' =
     (let o' = normalizeOptions o'; cfg = sim_config js orc in
      bindM (sim_now cfg) (\<lambda>started.
      bindM (setup_simulation cfg o') (\<lambda>_.
      bindM (registerAgents sched cfg o') (\<lambda>registers.
      bindM (sim_on (ro_CreateRollout (rollouts_service cfg) (sim_rollout_input o'))) (\<lambda>(created, _).
      bindM (stages_loop fuel sched cfg o' (ro_ID created) \<lparr>prg_snapshots = [], prg_acks = [], prg_stages = []\<rparr>) (\<lambda>progress.
      case progress of
        None \<Rightarrow> retM None
      | Some p \<Rightarrow>
          bindM (sim_on (ro_GetRollout (rollouts_service cfg) (ro_ID created))) (\<lambda>(final, _, _).
          bindM (sim_since cfg started) (\<lambda>d s.
          (Inr (Some (simulation_result o' (length (sim_agents s)) created final registers p d)), s)))))))))"

subsection \<open>Weakest preconditions of the steps\<close>

lemma wp_sim_on [wp_simps]:
  "wp (sim_on f) Q E s = wp f (\<lambda>a w. Q a (s\<lparr>sim_world := w\<rparr>)) (\<lambda>e w. E e (s\<lparr>sim_world := w\<rparr>)) (sim_world s)"
  by (simp add: wp_def sim_on_def split: prod.splits sum.splits)

lemma wp_sim_do [wp_simps]: "wp (sim_do f) Q E s = Q () (f s)"
  by (simp add: wp_def sim_do_def)

lemma wp_sim_now [wp_simps]:
  "wp (sim_now cfg) Q E s = Q (orc_now (cfg_oracle cfg) (w_tick (sim_world s))) (s\<lparr>sim_world := tick (sim_world s)\<rparr>)"
  by (simp add: sim_now_def wp_simps w_now_def)

definition stored_agents :: "Sim \<Rightarrow> string set" where
  "stored_agents s = dom (adb_agents (ag_abs (w_agents (sim_world s))))"

definition slices_ok :: "nat \<Rightarrow> Sim \<Rightarrow> bool" where
  "slices_ok n s \<longleftrightarrow> length (sim_agents s) = n \<and> length (sim_started s) = n \<and> length (sim_latencies s) = n"

lemma stored_agents_tick [simp]: "stored_agents (s\<lparr>sim_world := tick w\<rparr>) = stored_agents (s\<lparr>sim_world := w\<rparr>)"
  by (simp add: stored_agents_def)

lemma stored_agents_local [simp]:
  "stored_agents (s\<lparr>sim_agents := a\<rparr>) = stored_agents s" "stored_agents (s\<lparr>sim_started := b\<rparr>) = stored_agents s"
  "stored_agents (s\<lparr>sim_latencies := c\<rparr>) = stored_agents s" "stored_agents (s\<lparr>sim_pending := d\<rparr>) = stored_agents s"
  by (simp_all add: stored_agents_def)

subsection \<open>Registration\<close>

definition reg_inv :: "nat \<Rightarrow> Sim \<Rightarrow> bool" where
  "reg_inv n s \<longleftrightarrow> wJ (sim_world s) \<and> slices_ok n s"

definition reg_done :: "nat \<Rightarrow> nat \<Rightarrow> Sim \<Rightarrow> bool" where
  "reg_done i d s \<longleftrightarrow> d < 2 \<or> va_ID (sim_agents s ! i) = sim_agent_id i \<and> sim_agent_id i \<in> stored_agents s"

text \<open>What an action does to the agents of the other jobs: nothing.\<close>

definition reg_frame :: "nat \<Rightarrow> Sim \<Rightarrow> Sim \<Rightarrow> bool" where
  "reg_frame i s s' \<longleftrightarrow> (\<forall>j. j \<noteq> i \<longrightarrow> sim_agents s' ! j = sim_agents s ! j) \<and> stored_agents s \<subseteq> stored_agents s'"

lemma Register_agents:
  assumes "wJ w" "rgi_ID input \<noteq> []"
  shows "wp (ag_Register (agent_service cfg) input)
    (\<lambda>x w'. wJ w' \<and> agent_ID (rgr_Agent x) = rgi_ID input \<and>
       dom (adb_agents (ag_abs (w_agents w'))) = insert (rgi_ID input) (dom (adb_agents (ag_abs (w_agents w)))))
    (\<lambda>_ w'. wJ w' \<and> dom (adb_agents (ag_abs (w_agents w))) \<subseteq> dom (adb_agents (ag_abs (w_agents w')))) w"
  by (rule wp_mono [OF agents.Register_spec [OF assms(1)]]) (use assms(2) in \<open>auto simp: ab_ag_def\<close>)

lemma register_action:
  assumes "i < n" "d < 2" "reg_inv n s"
  shows "wp (register_job cfg o' i ! d) (\<lambda>_ s'. reg_inv n s' \<and> reg_done i (Suc d) s' \<and> reg_frame i s s') (\<lambda>_ s'. reg_inv n s' \<and> reg_frame i s s') s"
proof (cases d)
  case 0
  then show ?thesis
    using assms by (simp add: register_job_def note_started_def wp_simps reg_inv_def slices_ok_def reg_done_def reg_frame_def stored_agents_def)
next
  case (Suc d')
  have id: "rgi_ID (register_input o' i) = sim_agent_id i" "sim_agent_id i \<noteq> []" by (simp_all add: register_input_def sim_agent_id_def)
  have J: "wJ (sim_world s)" using assms(3) by (simp add: reg_inv_def)
  show ?thesis
    using Suc assms unfolding register_job_def note_latency_def
    by (auto simp: wp_simps reg_inv_def slices_ok_def reg_done_def reg_frame_def stored_agents_def id nth_list_update
        intro!: wp_mono [OF Register_agents [OF J, of "register_input o' i" cfg]])
qed

lemma register_job_length: "length (register_job cfg o' i) = 2"
  by (simp add: register_job_def)

interpretation registration: pool_jobs n "register_job cfg o'" "reg_inv n" reg_done for n cfg o'
proof (unfold_locales, unfold register_job_length)
  show "reg_done i 0 s" for i s by (simp add: reg_done_def)
  fix i d s r s'
  assume *: "i < n" "d < 2" "reg_inv n s" "(register_job cfg o' i ! d) s = (r, s')"
  note action = register_action [OF *(1-3), of cfg o']
  show "reg_inv n s'" using action *(4) by (cases r) (auto simp: wp_def)
  have frame: "reg_frame i s s'" using action *(4) by (cases r) (auto simp: wp_def)
  show "reg_done j e s'" if "reg_done j e s" "j \<noteq> i" for j e using frame that by (auto simp: reg_done_def reg_frame_def)
next
  show "reg_done i (Suc d) s'" if "i < n" "d < 2" "reg_inv n s" "(register_job cfg o' i ! d) s = (Inr u, s')" for i d s u s'
    using register_action [OF that(1-3), of cfg o'] that(4) by (auto simp: wp_def)
qed

lemma parallel_wp: "wp (sim_parallel sched n c fn) Q E s = wp (parallel (sched (w_tick (sim_world s))) n c fn) Q E s"
  by (simp add: wp_def sim_parallel_def)

lemma registerAgents_wp:
  assumes "wJ (sim_world s)" "n = nat (opt_AgentCount o')"
  shows "wp (registerAgents sched cfg o')
    (\<lambda>latencies s'. 0 \<le> opt_AgentCount o' \<and> reg_inv n s' \<and> length latencies = n \<and> map va_ID (sim_agents s') = map sim_agent_id [0..<n] \<and>
       set (map sim_agent_id [0..<n]) \<subseteq> stored_agents s')
    (\<lambda>_ s'. wJ (sim_world s')) s"
proof (cases "opt_AgentCount o' < 0")
  case False
  define s0 where "s0 = s\<lparr>sim_agents := replicate n \<lparr>va_ID = [], va_Token = []\<rparr>, sim_started := replicate n 0, sim_latencies := replicate n 0\<rparr>"
  have "reg_inv n s0" using assms(1) by (simp add: s0_def reg_inv_def slices_ok_def)
  note run = registration.parallel_rule [OF this, of "sched (w_tick (sim_world s0))" "opt_Concurrency o'" cfg o', unfolded register_job_length]
  have n: "opt_AgentCount o' = int n" using False assms(2) by simp
  have ids: "map va_ID (sim_agents s') = map sim_agent_id [0..<n]" if "reg_inv n s'" "\<forall>i<n. reg_done i 2 s'" for s'
    by (rule nth_equalityI) (use that in \<open>auto simp: reg_inv_def slices_ok_def reg_done_def\<close>)
  have "wp (sim_parallel sched (int n) (opt_Concurrency o') (register_job cfg o'))
      (\<lambda>_ s'. wp (\<lambda>s. (Inr (sim_latencies s), s)) (\<lambda>latencies s'. 0 \<le> opt_AgentCount o' \<and> reg_inv n s' \<and> length latencies = n \<and>
         map va_ID (sim_agents s') = map sim_agent_id [0..<n] \<and> set (map sim_agent_id [0..<n]) \<subseteq> stored_agents s')
         (\<lambda>_ s'. wJ (sim_world s')) s') (\<lambda>_ s'. wJ (sim_world s')) s0"
    unfolding parallel_wp
    by (rule wp_mono [OF run]) (use ids in \<open>auto simp: n wp_def reg_inv_def slices_ok_def reg_done_def\<close>)
  then show ?thesis unfolding registerAgents_def wp_if wp_bind wp_sim_do using False by (simp add: n s0_def del: map_map)
qed (use assms(1) in \<open>simp add: registerAgents_def wp_simps\<close>)

lemma seed_keeps: "wJ w \<Longrightarrow> wp (seed_registry cfg description author env) (\<lambda>_. wJ) (\<lambda>_. wJ) w"
  unfolding seed_registry_def Let_def
  by (auto simp: wp_simps nul_free_def nul_def intro!: wp_contract [OF config_mem.CreateTenant] wp_contract [OF config_mem.CreateDefinition]
      wp_contract [OF config_mem.CreateVersion] wp_contract [OF config_mem.SaveEnvironmentState])

lemma new_stores_ok: "wJ (new_stores w)"
  by (simp add: wJ_def new_stores_def ro_mem_init cr_mem_init ag_mem_init)

lemma setup_keeps: "setup_simulation cfg o' s = (r, s') \<Longrightarrow> wJ (sim_world s')"
proof -
  assume run: "setup_simulation cfg o' s = (r, s')"
  have "wp (setup_simulation cfg o') (\<lambda>_ s'. wJ (sim_world s')) (\<lambda>_ s'. wJ (sim_world s')) s"
    unfolding setup_simulation_def by (simp add: wp_simps) (rule wp_mono [OF seed_keeps [OF new_stores_ok]], simp_all)
  then show ?thesis using run by (auto simp: wp_def split: sum.splits)
qed

text \<open>However the workers interleave, a registration of the virtual agents that reports no error has registered every agent: the slice of
  identities has the identifiers in order, whatever their order of registration was, and the registry stores an agent under each.\<close>

theorem registration_reaches_every_agent:
  "wp (bindM (setup_simulation cfg o') (\<lambda>_. registerAgents sched cfg o'))
    (\<lambda>latencies s'. length latencies = nat (opt_AgentCount o') \<and>
       map va_ID (sim_agents s') = map sim_agent_id [0..<nat (opt_AgentCount o')] \<and>
       set (map sim_agent_id [0..<nat (opt_AgentCount o')]) \<subseteq> dom (gomap_get (ams_agents (w_agents (sim_world s')))))
    (\<lambda>_ s'. wJ (sim_world s')) s"
proof (rule wpI)
  fix latencies s'
  assume "bindM (setup_simulation cfg o') (\<lambda>_. registerAgents sched cfg o') s = (Inr latencies, s')"
  then obtain s1 where s1: "setup_simulation cfg o' s = (Inr (), s1)" and run: "registerAgents sched cfg o' s1 = (Inr latencies, s')"
    by (auto simp: bindM_Inr)
  show "length latencies = nat (opt_AgentCount o') \<and>
       map va_ID (sim_agents s') = map sim_agent_id [0..<nat (opt_AgentCount o')] \<and>
       set (map sim_agent_id [0..<nat (opt_AgentCount o')]) \<subseteq> dom (gomap_get (ams_agents (w_agents (sim_world s'))))"
    using wpD_Inr [OF registerAgents_wp [OF setup_keeps [OF s1] refl] run] by (simp add: stored_agents_def ag_abs_def)
next
  fix e s'
  assume run: "bindM (setup_simulation cfg o') (\<lambda>_. registerAgents sched cfg o') s = (Inl e, s')"
  obtain r s1 where s1: "setup_simulation cfg o' s = (r, s1)" by fastforce
  note J = setup_keeps [OF s1]
  show "wJ (sim_world s')"
  proof (cases r)
    case Inl
    then show ?thesis using run s1 J by (simp add: bindM_def)
  next
    case (Inr u)
    then have "registerAgents sched cfg o' s1 = (Inl e, s')" using run s1 by (simp add: bindM_def)
    then show ?thesis using wpD_Inl [OF registerAgents_wp [OF J refl]] by blast
  qed
qed

subsection \<open>The stages\<close>

lemma GetRollout_same:
  assumes "ro_GetRollout (rollouts_service cfg) i w = (Inr (r, ts, cov), w')"
  shows "w_rollouts w' = w_rollouts w" "stored_rollout w i = Some r"
  using assms
  by (auto simp: ro_GetRollout_def rollouts_service_def ro_NewService_def SetGuardrailQueryer_def Let_def run_Inr world_rollout_store_sel on_rollouts_def
      on_cell_def ro_mem_GetRollout_def ro_mem_ListStageTargets_def tick_def split: option.splits if_splits prod.splits)

lemma sim_on_run: "sim_on f s = (r, s') \<Longrightarrow> sim_agents s' = sim_agents s \<and> sim_latencies s' = sim_latencies s \<and> f (sim_world s) = (r, sim_world s')"
  by (auto simp: sim_on_def split: prod.splits)

lemma sim_now_run: "sim_now cfg s = (Inr t, s') \<Longrightarrow> s' = s\<lparr>sim_world := tick (sim_world s)\<rparr>"
  by (simp add: sim_now_def sim_on_def effM_def w_now_def)

lemma sim_since_run: "sim_since cfg t0 s = (Inr t, s') \<Longrightarrow> s' = s\<lparr>sim_world := tick (sim_world s)\<rparr>"
  by (auto simp: sim_since_def bindM_Inr retM_Inr dest: sim_now_run)

lemma ack_loop_run:
  "ack_loop cfg pending s = (Inr l, s') \<Longrightarrow> length l = length pending \<and> sim_agents s' = sim_agents s \<and> sim_latencies s' = sim_latencies s"
  by (induction pending arbitrary: s l) (fastforce simp: run_Inr dest!: sim_on_run sim_now_run sim_since_run)+

definition stage_inv :: "virtualAgent list \<Rightarrow> Sim \<Rightarrow> bool" where
  "stage_inv agents s \<longleftrightarrow> sim_agents s = agents \<and> slices_ok (length agents) s"

lemma snapshot_action:
  assumes "d < 2" "stage_inv agents s"
  shows "wp (snapshot_job cfg stageID agents i ! d) (\<lambda>_. stage_inv agents) (\<lambda>_. stage_inv agents) s"
proof (cases d)
  case 0
  then show ?thesis using assms by (simp add: snapshot_job_def note_started_def wp_simps stage_inv_def slices_ok_def)
next
  case (Suc d')
  then show ?thesis
    using assms by (auto simp: snapshot_job_def note_latency_def wp_simps stage_inv_def slices_ok_def intro!: wpI)
qed

lemma snapshot_job_length: "length (snapshot_job cfg stageID agents i) = 2"
  by (simp add: snapshot_job_def)

interpretation snapshot_reads: pool_jobs n "snapshot_job cfg stageID agents" "stage_inv agents" "\<lambda>_ _ _. True" for n cfg stageID agents
proof (unfold_locales, unfold snapshot_job_length)
  fix i d s r s'
  assume *: "d < 2" "stage_inv agents s" "(snapshot_job cfg stageID agents i ! d) s = (r, s')"
  show "stage_inv agents s'" using snapshot_action [OF *(1,2), of cfg stageID i] *(3) by (cases r) (auto simp: wp_def)
qed simp_all

lemma acknowledgeStage_wp:
  "wp (acknowledgeStage sched cfg stageID c)
     (\<lambda>(snapshots, acks) s'. length snapshots = length (sim_agents s) \<and> sim_agents s' = sim_agents s) (\<lambda>_ _. True) s"
proof -
  define s0 where "s0 = s\<lparr>sim_started := replicate (length (sim_agents s)) 0, sim_latencies := replicate (length (sim_agents s)) 0, sim_pending := []\<rparr>"
  have "stage_inv (sim_agents s) s0" by (simp add: s0_def stage_inv_def slices_ok_def)
  note run = snapshot_reads.parallel_rule [OF this, of "sched (w_tick (sim_world s0))" "length (sim_agents s)" c cfg stageID]
  have "wp (bindM (sim_parallel sched (int (length (sim_agents s))) c (snapshot_job cfg stageID (sim_agents s)))
      (\<lambda>_ s. bindM (ack_loop cfg (sim_pending s)) (\<lambda>ackLatencies. retM (sim_latencies s, ackLatencies)) s))
      (\<lambda>(snapshots, acks) s'. length snapshots = length (sim_agents s) \<and> sim_agents s' = sim_agents s) (\<lambda>_ _. True) s0"
    unfolding wp_bind parallel_wp
  proof (rule wp_mono [OF run])
    fix s1 assume "stage_inv (sim_agents s) s1 \<and> (\<forall>i<length (sim_agents s). True)"
    then have s1: "sim_agents s1 = sim_agents s" "length (sim_latencies s1) = length (sim_agents s)" by (simp_all add: stage_inv_def slices_ok_def)
    have "wp (bindM (ack_loop cfg (sim_pending s1)) (\<lambda>ackLatencies. retM (sim_latencies s1, ackLatencies)))
        (\<lambda>(snapshots, acks) s'. length snapshots = length (sim_agents s) \<and> sim_agents s' = sim_agents s) (\<lambda>_ _. True) s1"
      by (rule wpI) (auto simp: run_Inr s1 dest!: ack_loop_run)
    then show "wp (\<lambda>s. bindM (ack_loop cfg (sim_pending s)) (\<lambda>ackLatencies. retM (sim_latencies s, ackLatencies)) s)
        (\<lambda>(snapshots, acks) s'. length snapshots = length (sim_agents s) \<and> sim_agents s' = sim_agents s) (\<lambda>_ _. True) s1" by (simp add: wp_def)
  qed simp
  then show ?thesis by (simp add: acknowledgeStage_def Let_def wp_def bindM_def sim_do_def s0_def)
qed

definition progress_ok :: "nat \<Rightarrow> Progress \<Rightarrow> bool" where
  "progress_ok n p \<longleftrightarrow> length (prg_snapshots p) = n * length (prg_stages p) \<and> int (length (prg_acks p)) = sum_list (map sgr_Acked (prg_stages p))"

definition ended_in :: "string \<Rightarrow> Sim \<Rightarrow> Rollout \<Rightarrow> bool" where
  "ended_in i s r \<longleftrightarrow> stored_rollout (sim_world s) i = Some r \<and> Terminal (ro_State r)"

lemma GetRollout_run:
  assumes "sim_on (ro_GetRollout (rollouts_service cfg) i) s = (Inr (r, ts, cov), s')"
  shows "sim_agents s' = sim_agents s" "stored_rollout (sim_world s') i = Some r" "w_rollouts (sim_world s') = w_rollouts (sim_world s)"
  using sim_on_run [OF assms] GetRollout_same [of cfg i "sim_world s" r ts cov "sim_world s'"] by simp_all

lemma acknowledgeStage_run:
  "acknowledgeStage sched cfg stageID c s = (Inr (snapshots, acks), s') \<Longrightarrow>
    length snapshots = length (sim_agents s) \<and> sim_agents s' = sim_agents s"
  using acknowledgeStage_wp [of sched cfg stageID c s] by (auto simp: wp_def)

text \<open>The loop on the stages that returns has either found the rollout ended, or made a round and then ended, stopped or gone on.\<close>

lemma stages_loop_round:
  assumes "stages_loop (Suc fuel) sched cfg o' i p s = (Inr out, s')"
  obtains (ended) active targets cov where "sim_on (ro_GetRollout (rollouts_service cfg) i) s = (Inr (active, targets, cov), s')"
      "Terminal (ro_State active)" "out = Some p"
  | (round) active targets cov s1 t s2 snapshots acks s3 updated ts cov' s4 d s5 where
      "sim_on (ro_GetRollout (rollouts_service cfg) i) s = (Inr (active, targets, cov), s1)" "\<not> Terminal (ro_State active)"
      "sim_now cfg s1 = (Inr t, s2)"
      "acknowledgeStage sched cfg (ro_CurrentStageID active) (opt_Concurrency o') s2 = (Inr (snapshots, acks), s3)"
      "sim_on (ro_GetRollout (rollouts_service cfg) i) s3 = (Inr (updated, ts, cov'), s4)"
      "sim_since cfg t s4 = (Inr d, s5)"
      "Terminal (ro_State updated) \<Longrightarrow> out = Some (stage_progress p active targets updated snapshots acks d) \<and> s' = s5"
      "\<not> Terminal (ro_State updated) \<Longrightarrow>
         \<not> (ro_CurrentStageID updated = ro_CurrentStageID active \<and> f64_lt (cov_Percentage cov') (ro_RequiredAckPercent active)) \<and>
         stages_loop fuel sched cfg o' i (stage_progress p active targets updated snapshots acks d) s5 = (Inr out, s')"
proof -
  obtain active targets cov s1 where get1: "sim_on (ro_GetRollout (rollouts_service cfg) i) s = (Inr (active, targets, cov), s1)"
    and rest: "(if Terminal (ro_State active) then retM (Some p)
     else
       bindM (sim_now cfg) (\<lambda>stageStarted.
       bindM (acknowledgeStage sched cfg (ro_CurrentStageID active) (opt_Concurrency o')) (\<lambda>(snapshots, acks).
       bindM (sim_on (ro_GetRollout (rollouts_service cfg) i)) (\<lambda>(updated, _, coverage).
       bindM (sim_since cfg stageStarted) (\<lambda>stageDuration.
       let p' = stage_progress p active targets updated snapshots acks stageDuration in
       if Terminal (ro_State updated) then retM (Some p')
       else if ro_CurrentStageID updated = ro_CurrentStageID active \<and> f64_lt (cov_Percentage coverage) (ro_RequiredAckPercent active) then
         raiseM (Errorf ''stage %s did not reach required acknowledgement coverage'' [FS (ro_CurrentStageID active)])
       else stages_loop fuel sched cfg o' i p'))))) s1 = (Inr out, s')"
    using assms unfolding stages_loop.simps bindM_Inr [where g = "\<lambda>(active, targets, _). _ active targets"] by (auto simp: bindM_Inr)
  show thesis
  proof (cases "Terminal (ro_State active)")
    case True
    then show thesis using rest get1 by (intro ended) (auto simp: retM_Inr)
  next
    case False
    then obtain t s2 snapshots acks s3 updated ts cov' s4 d s5 where parts: "sim_now cfg s1 = (Inr t, s2)"
      "acknowledgeStage sched cfg (ro_CurrentStageID active) (opt_Concurrency o') s2 = (Inr (snapshots, acks), s3)"
      "sim_on (ro_GetRollout (rollouts_service cfg) i) s3 = (Inr (updated, ts, cov'), s4)"
      "sim_since cfg t s4 = (Inr d, s5)"
      and final: "(if Terminal (ro_State updated) then retM (Some (stage_progress p active targets updated snapshots acks d))
       else if ro_CurrentStageID updated = ro_CurrentStageID active \<and> f64_lt (cov_Percentage cov') (ro_RequiredAckPercent active) then
         raiseM (Errorf ''stage %s did not reach required acknowledgement coverage'' [FS (ro_CurrentStageID active)])
       else stages_loop fuel sched cfg o' i (stage_progress p active targets updated snapshots acks d)) s5 = (Inr out, s')"
      using rest by (auto simp: bindM_Inr Let_def)
    show thesis by (rule round [OF get1 False parts]) (use final in \<open>auto simp: retM_Inr raiseM_Inr split: if_splits\<close>)
  qed
qed

lemma stages_loop_run:
  "stages_loop fuel sched cfg o' i p s = (Inr out, s') \<Longrightarrow> progress_ok (length (sim_agents s)) p \<Longrightarrow>
    sim_agents s' = sim_agents s \<and> (case out of None \<Rightarrow> True | Some p' \<Rightarrow> progress_ok (length (sim_agents s)) p' \<and> (\<exists>r. ended_in i s' r))"
proof (induction fuel arbitrary: s p)
  case (Suc fuel)
  from Suc.prems(1) show ?case
  proof (cases rule: stages_loop_round)
    case (ended active targets cov)
    then show ?thesis using GetRollout_run [OF ended(1)] Suc.prems(2) by (auto simp: ended_in_def)
  next
    case (round active targets cov s1 t s2 snapshots acks s3 updated ts cov' s4 d s5)
    note one = GetRollout_run [OF round(1)] and two = GetRollout_run [OF round(5)] and acked = acknowledgeStage_run [OF round(4)]
      and s2 = sim_now_run [OF round(3)] and s5 = sim_since_run [OF round(6)]
    have agents: "sim_agents s5 = sim_agents s" using one two acked s2 s5 by simp
    have ok: "progress_ok (length (sim_agents s)) (stage_progress p active targets updated snapshots acks d)"
      using Suc.prems(2) acked one s2 by (simp add: progress_ok_def stage_progress_def)
    show ?thesis
    proof (cases "Terminal (ro_State updated)")
      case True
      then show ?thesis using round(7) agents ok two s5 by (auto simp: ended_in_def)
    next
      case False
      then show ?thesis using Suc.IH [of _ s5, unfolded agents] round(8) ok by blast
    qed
  qed
qed (simp add: retM_Inr)

subsection \<open>Properties of a run\<close>

text \<open>The steps of a run that returns.\<close>

lemma simulator_Run_parts:
  assumes "simulator_Run fuel sched js orc o' s = (Inr out, s')"
  obtains (parts) t s1 s2 registers s3 created ts s4 progress s5 where
    "setup_simulation (sim_config js orc) (normalizeOptions o') s1 = (Inr (), s2)"
    "registerAgents sched (sim_config js orc) (normalizeOptions o') s2 = (Inr registers, s3)"
    "sim_on (ro_CreateRollout (rollouts_service (sim_config js orc)) (sim_rollout_input (normalizeOptions o'))) s3 = (Inr (created, ts), s4)"
    "stages_loop fuel sched (sim_config js orc) (normalizeOptions o') (ro_ID created) \<lparr>prg_snapshots = [], prg_acks = [], prg_stages = []\<rparr> s4 =
       (Inr progress, s5)"
    "progress = None \<Longrightarrow> out = None \<and> s' = s5"
    "\<And>p. progress = Some p \<Longrightarrow> \<exists>final ts' cov s6 d.
       sim_on (ro_GetRollout (rollouts_service (sim_config js orc)) (ro_ID created)) s5 = (Inr (final, ts', cov), s6) \<and>
       sim_since (sim_config js orc) t s6 = (Inr d, s') \<and>
       out = Some (simulation_result (normalizeOptions o') (length (sim_agents s')) created final registers p d)"
proof -
  let ?o = "normalizeOptions o'" and ?cfg = "sim_config js orc"
  obtain t s1 s2 registers s3 created ts s4 progress s5 where
    reg: "registerAgents sched ?cfg ?o s2 = (Inr registers, s3)" and made: "setup_simulation ?cfg ?o s1 = (Inr (), s2)"
    and create: "sim_on (ro_CreateRollout (rollouts_service ?cfg) (sim_rollout_input ?o)) s3 = (Inr (created, ts), s4)"
    and stages: "stages_loop fuel sched ?cfg ?o (ro_ID created) \<lparr>prg_snapshots = [], prg_acks = [], prg_stages = []\<rparr> s4 = (Inr progress, s5)"
    and rest: "(case progress of None \<Rightarrow> retM None
      | Some p \<Rightarrow>
          bindM (sim_on (ro_GetRollout (rollouts_service ?cfg) (ro_ID created))) (\<lambda>(final, _, _).
          bindM (sim_since ?cfg t) (\<lambda>d s.
          (Inr (Some (simulation_result ?o (length (sim_agents s)) created final registers p d)), s)))) s5 = (Inr out, s')"
    using assms unfolding simulator_Run_def Let_def by (auto simp: bindM_Inr)
  show thesis
    by (rule parts [OF made reg create stages]) (use rest in \<open>auto simp: retM_Inr bindM_Inr\<close>)
qed

text \<open>What a simulation reports when it returns a result, for every interleaving of its workers, every clock and every random
  source: as many registered agents as it was asked for, with the identifiers in order; one snapshot read per agent and stage; as many
  acknowledgements as its stages report together; and a final state that is the one of the stored rollout, which has ended.\<close>

theorem simulation_accounts_for_its_stages:
  "wp (simulator_Run fuel sched js orc o')
    (\<lambda>out s'. case out of None \<Rightarrow> True
      | Some r \<Rightarrow>
          srs_RegisteredAgents r = opt_AgentCount (normalizeOptions o') \<and>
          map va_ID (sim_agents s') = map sim_agent_id [0..<nat (srs_RegisteredAgents r)] \<and>
          srs_SnapshotReads r = srs_RegisteredAgents r * int (length (srs_StageResults r)) \<and>
          srs_Acknowledgements r = sum_list (map sgr_Acked (srs_StageResults r)) \<and>
          (\<exists>rollout. stored_rollout (sim_world s') (srs_RolloutID r) = Some rollout \<and> Terminal (ro_State rollout) \<and>
             srs_FinalState r = state_text (ro_State rollout)))
    (\<lambda>_ _. True) s"
proof (rule wpI)
  let ?o = "normalizeOptions o'" and ?cfg = "sim_config js orc"
  fix out s'
  assume run: "simulator_Run fuel sched js orc o' s = (Inr out, s')"
  show "case out of None \<Rightarrow> True
      | Some r \<Rightarrow>
          srs_RegisteredAgents r = opt_AgentCount ?o \<and>
          map va_ID (sim_agents s') = map sim_agent_id [0..<nat (srs_RegisteredAgents r)] \<and>
          srs_SnapshotReads r = srs_RegisteredAgents r * int (length (srs_StageResults r)) \<and>
          srs_Acknowledgements r = sum_list (map sgr_Acked (srs_StageResults r)) \<and>
          (\<exists>rollout. stored_rollout (sim_world s') (srs_RolloutID r) = Some rollout \<and> Terminal (ro_State rollout) \<and>
             srs_FinalState r = state_text (ro_State rollout))"
    using run
  proof (cases rule: simulator_Run_parts)
    case (parts t s1 s2 registers s3 created ts s4 progress s5)
    show ?thesis
    proof (cases progress)
      case None
      then show ?thesis using parts(5) by simp
    next
      case (Some p)
      have s2: "wJ (sim_world s2)" using setup_keeps [OF parts(1)] .
      have agents: "0 \<le> opt_AgentCount ?o" "map va_ID (sim_agents s3) = map sim_agent_id [0..<nat (opt_AgentCount ?o)]"
        using wpD_Inr [OF registerAgents_wp [OF s2 refl] parts(2)] by simp_all
      then have n: "length (sim_agents s3) = nat (opt_AgentCount ?o)" by (metis length_map length_upt minus_nat.diff_0)
      have s4: "sim_agents s4 = sim_agents s3" using sim_on_run [OF parts(3)] by simp
      have s5: "sim_agents s5 = sim_agents s4" "progress_ok (length (sim_agents s4)) p" "\<exists>r. ended_in (ro_ID created) s5 r"
        using stages_loop_run [OF parts(4)] by (simp_all add: Some progress_ok_def)
      obtain final ts' cov s6 d where get: "sim_on (ro_GetRollout (rollouts_service ?cfg) (ro_ID created)) s5 = (Inr (final, ts', cov), s6)"
        and since: "sim_since ?cfg t s6 = (Inr d, s')"
        and out: "out = Some (simulation_result ?o (length (sim_agents s')) created final registers p d)"
        using parts(6) [OF Some] by blast
      note g = GetRollout_run [OF get] and s' = sim_since_run [OF since]
      have "Terminal (ro_State final)" using s5(3) g by (auto simp: ended_in_def)
      moreover have "stored_rollout (sim_world s') (ro_ID created) = Some final" using g s' by simp
      moreover have "sim_agents s' = sim_agents s3" using g s' s4 s5 by simp
      ultimately show ?thesis
        using agents n s4 s5(2) by (simp add: out simulation_result_def progress_ok_def)
    qed
  qed
qed simp

subsection \<open>Latencies\<close>

lemma ceil_hundredth:
  fixes m N :: int
  assumes "0 < m" "m \<le> N * 100"
  shows "0 \<le> (m + 99) div 100 - 1" "(m + 99) div 100 - 1 < N" "100 * ((m + 99) div 100 - 1) < m" "m \<le> 100 * ((m + 99) div 100)"
proof -
  define d r where "d = (m + 99) div 100" and "r = (m + 99) mod 100"
  have "d * 100 + r = m + 99" "0 \<le> r" "r < 100" unfolding d_def r_def by simp_all
  with assms have "0 \<le> d - 1 \<and> d - 1 < N \<and> 100 * (d - 1) < m \<and> m \<le> 100 * d" by auto
  then show "0 \<le> (m + 99) div 100 - 1" "(m + 99) div 100 - 1 < N" "100 * ((m + 99) div 100 - 1) < m" "m \<le> 100 * ((m + 99) div 100)"
    unfolding d_def by auto
qed

lemma rank_index:
  assumes "0 < n" "0 < p" "p \<le> 100"
  shows "0 \<le> go_quot (int n * p + 99) 100 - 1" "go_quot (int n * p + 99) 100 - 1 < int n"
    "100 * (go_quot (int n * p + 99) 100 - 1) < int n * p" "int n * p \<le> 100 * go_quot (int n * p + 99) 100"
proof -
  have pos: "0 < int n * p" using assms by simp
  have upper: "int n * p \<le> int n * 100" using assms by (intro mult_left_mono) simp_all
  have quot: "go_quot (int n * p + 99) 100 = (int n * p + 99) div 100" using pos by (simp add: go_quot_def)
  show "0 \<le> go_quot (int n * p + 99) 100 - 1" "go_quot (int n * p + 99) 100 - 1 < int n"
    "100 * (go_quot (int n * p + 99) 100 - 1) < int n * p" "int n * p \<le> 100 * go_quot (int n * p + 99) 100"
    unfolding quot by (rule ceil_hundredth [OF pos upper])+
qed

lemma percentile_nth:
  assumes "xs \<noteq> []" "0 < p" "p \<le> 100"
  obtains k where "k < length xs" "percentile xs p = xs ! k" "100 * int k < int (length xs) * p" "int (length xs) * p \<le> 100 * int (Suc k)"
proof -
  note rank = rank_index [OF _ assms(2,3), of "length xs"]
  have n: "0 < length xs" using assms(1) by simp
  define k where "k = nat (go_quot (int (length xs) * p + 99) 100 - 1)"
  have k: "int k = go_quot (int (length xs) * p + 99) 100 - 1" using rank(1) [OF n] by (simp add: k_def)
  show ?thesis
  proof (rule that [of k])
    show "k < length xs" "100 * int k < int (length xs) * p" "int (length xs) * p \<le> 100 * int (Suc k)" using rank [OF n] k by simp_all
    show "percentile xs p = xs ! k" using rank [OF n] n by (auto simp: percentile_def Let_def k_def)
  qed
qed

text \<open>An element of a sorted list by its rank: \<open>k + 1\<close> elements are not above the one at \<open>k\<close>, and at most \<open>k\<close> are below it.\<close>

lemma ranked:
  assumes "sorted xs" "k < length xs"
  shows "Suc k \<le> length (filter (\<lambda>v. v \<le> xs ! k) xs)" "length (filter (\<lambda>v. v < xs ! k) xs) \<le> k"
proof -
  have "filter (\<lambda>v. v \<le> xs ! k) (take (Suc k) xs) = take (Suc k) xs"
    using assms by (auto simp: filter_id_conv in_set_conv_nth sorted_iff_nth_mono)
  then have "Suc k = length (filter (\<lambda>v. v \<le> xs ! k) (take (Suc k) xs))" using assms(2) by simp
  also have "\<dots> \<le> length (filter (\<lambda>v. v \<le> xs ! k) (take (Suc k) xs @ drop (Suc k) xs))" by (simp only: filter_append length_append)
  finally show "Suc k \<le> length (filter (\<lambda>v. v \<le> xs ! k) xs)" by (simp only: append_take_drop_id)
  have "filter (\<lambda>v. v < xs ! k) (drop k xs) = []"
    using assms by (auto simp: filter_empty_conv in_set_conv_nth sorted_iff_nth_mono not_less)
  then have "length (filter (\<lambda>v. v < xs ! k) (take k xs @ drop k xs)) = length (filter (\<lambda>v. v < xs ! k) (take k xs))"
    by (simp only: filter_append append_Nil2)
  also have "\<dots> \<le> k" using length_filter_le [of "\<lambda>v. v < xs ! k" "take k xs"] by simp
  finally show "length (filter (\<lambda>v. v < xs ! k) xs) \<le> k" by (simp only: append_take_drop_id)
qed

definition is_percentile :: "duration list \<Rightarrow> int \<Rightarrow> duration \<Rightarrow> bool" where
  "is_percentile values p x \<longleftrightarrow>
     x \<in> set values \<and> int (length values) * p \<le> 100 * int (length (filter (\<lambda>v. v \<le> x) values)) \<and>
     100 * int (length (filter (\<lambda>v. v < x) values)) < int (length values) * p"

lemma percentile_correct:
  assumes "values \<noteq> []" "0 < p" "p \<le> 100"
  shows "is_percentile values p (percentile (sort values) p)"
proof -
  have "sort values \<noteq> []" using assms(1) by (metis length_0_conv length_sort)
  from percentile_nth [OF this assms(2,3)] obtain k where k: "k < length (sort values)" "percentile (sort values) p = sort values ! k"
    "100 * int k < int (length values) * p" "int (length values) * p \<le> 100 * int (Suc k)" by auto
  have same: "length (filter P (sort values)) = length (filter P values)" for P by (simp add: filter_sort)
  note r = ranked [OF sorted_sort k(1), unfolded same]
  have "sort values ! k \<in> set values" using k(1) by (metis nth_mem set_sort)
  then show ?thesis using r k(3,4) unfolding is_percentile_def k(2) by auto
qed

lemma wrapped_sum_wrap: "in_int64 acc \<Longrightarrow> wrapped_sum acc xs = wrap64 (acc + sum_list xs)"
proof (induction xs arbitrary: acc)
  case (Cons x xs)
  have "wrapped_sum (wrap64 (acc + x)) xs = wrap64 (wrap64 (acc + x) + sum_list xs)" by (rule Cons.IH [OF wrap64_range])
  also have "\<dots> = wrap64 (acc + x + sum_list xs)" by (simp add: wrap64_def mod_simps algebra_simps)
  finally show ?case by (simp add: add.assoc)
qed simp

lemma go_quot_between:
  assumes "0 < n" "n * lo \<le> sm" "sm \<le> n * hi"
  shows "lo \<le> go_quot sm n" "go_quot sm n \<le> hi"
proof -
  have q: "go_quot sm n = (if 0 \<le> sm then sm div n else - ((- sm) div n))"
    using assms(1) by (auto simp: go_quot_def sgn_if)
  have lower: "lo \<le> sm div n" using assms(1,2) by (metis nonzero_mult_div_cancel_left order_less_irrefl zdiv_mono1)
  have upper: "- hi \<le> (- sm) div n"
    using assms(1,3) by (metis mult_minus_right neg_le_iff_le nonzero_mult_div_cancel_left order_less_irrefl zdiv_mono1)
  have "sm div n \<le> hi" using assms(1,3) by (metis nonzero_mult_div_cancel_left order_less_irrefl zdiv_mono1)
  moreover have "(- sm) div n \<le> - lo"
    using assms(1,2) by (metis mult_minus_right neg_le_iff_le nonzero_mult_div_cancel_left order_less_irrefl zdiv_mono1)
  ultimately show "lo \<le> go_quot sm n" "go_quot sm n \<le> hi" using lower upper by (simp_all add: q)
qed

lemma sum_list_between: "(\<And>x. x \<in> set xs \<Longrightarrow> lo \<le> x \<and> x \<le> hi) \<Longrightarrow> int (length xs) * lo \<le> sum_list xs \<and> sum_list xs \<le> int (length xs) * hi"
  by (induction xs) (auto simp: algebra_simps add_mono)

lemma sorted_ends: "sorted xs \<Longrightarrow> xs \<noteq> [] \<Longrightarrow> xs ! 0 = Min (set xs)" "sorted xs \<Longrightarrow> xs \<noteq> [] \<Longrightarrow> xs ! (length xs - 1) = Max (set xs)"
  for xs :: "int list"
  by (rule Min_eqI [symmetric], auto simp: in_set_conv_nth sorted_iff_nth_mono)
    (rule Max_eqI [symmetric], auto simp: in_set_conv_nth sorted_iff_nth_mono intro!: exI [of _ "length xs - Suc 0"])

lemma length_filter_mono: "(\<And>x. P x \<Longrightarrow> Q x) \<Longrightarrow> length (filter P xs) \<le> length (filter Q xs)"
  by (induction xs) (auto intro: le_SucI)

text \<open>The summary of at least one latency: the smallest and the largest value, percentiles of nearest rank (an element of the values that at
  least 50 or 95 percent of them do not exceed and fewer fall below), in order, and a mean between smallest and largest unless the sum leaves \<open>int64\<close>.\<close>

theorem latency_summary:
  assumes "values \<noteq> []"
  shows "lat_Count (summarize values) = int (length values) \<and> lat_Min (summarize values) = Min (set values) \<and>
    lat_Max (summarize values) = Max (set values) \<and> is_percentile values 50 (lat_P50 (summarize values)) \<and>
    is_percentile values 95 (lat_P95 (summarize values)) \<and> lat_P50 (summarize values) \<le> lat_P95 (summarize values) \<and>
    (in_int64 (sum_list values) \<longrightarrow> Min (set values) \<le> lat_Avg (summarize values) \<and> lat_Avg (summarize values) \<le> Max (set values))"
proof -
  let ?xs = "sort values"
  have n: "0 < length values" "length values \<noteq> 0" "?xs \<noteq> []" using assms by (simp_all, metis length_0_conv length_sort)
  have ends: "?xs ! 0 = Min (set values)" "?xs ! (length values - 1) = Max (set values)"
    using sorted_ends [OF sorted_sort n(3)] by simp_all
  have order: "percentile ?xs 50 \<le> percentile ?xs 95"
  proof (rule ccontr)
    assume less: "\<not> percentile ?xs 50 \<le> percentile ?xs 95"
    have "length (filter (\<lambda>v. v \<le> percentile ?xs 95) values) \<le> length (filter (\<lambda>v. v < percentile ?xs 50) values)"
      using less by (intro length_filter_mono) auto
    then show False
      using percentile_correct [OF assms, of 50] percentile_correct [OF assms, of 95] n(1) by (auto simp: is_percentile_def)
  qed
  have total: "sum_list ?xs = sum_list values" by (metis mset_sort sum_mset_sum_list)
  have "Min (set values) \<le> go_quot (wrapped_sum 0 ?xs) (int (length values)) \<and> go_quot (wrapped_sum 0 ?xs) (int (length values)) \<le> Max (set values)"
    if "in_int64 (sum_list values)"
  proof -
    have "wrapped_sum 0 ?xs = sum_list values" using that by (simp add: wrapped_sum_wrap total in_int64_def)
    then show ?thesis
      using go_quot_between [of "int (length values)" "Min (set values)" "sum_list values" "Max (set values)"] sum_list_between [of "values" "Min (set values)" "Max (set values)"] n(1) by simp
  qed
  then show ?thesis
    using n ends order percentile_correct [OF assms, of 50] percentile_correct [OF assms, of 95] by (simp add: summarize_def Let_def)
qed

theorem latency_summary_witness:
  "lat_P50 (summarize [30, 10, 20, 40]) \<le> lat_P95 (summarize [30, 10, 20, 40]) \<and> lat_P95 (summarize [30, 10, 20, 40]) = 40 \<and>
    lat_Avg (summarize [30, 10, 20, 40]) = 25"
  using latency_summary [of "[30, 10, 20, 40]"] by (simp add: summarize_def Let_def percentile_def go_quot_def wrap64_def insort_key.simps sort_key_def)

end
