(* ===== verification/Simulator_Ends.thy ===== *)
theory Simulator_Ends
  imports Simulator
begin

section \<open>A simulation comes to an end\<close>

text \<open>
  The loop of \<open>Run\<close> over the stages has no bound of its own: it goes on until the rollout has ended or a stage is not covered. Here it is shown to
  end after three rounds, on a clock that does not run backwards and a run of less than five minutes, the deployment timeout; the fuel of
  \<open>stages_loop\<close> is then never spent. Every round leaves the stored rollout at the stage where it was, not covered, and then the loop stops with an error; or at
  the next stage, or completed after the last one. On a slower run the loop may never end: see the finding on \<open>simulator.go\<close>.
\<close>

subsection \<open>Calls that leave the rollouts and the agents alone\<close>

definition same_rollouts :: "World \<Rightarrow> World \<Rightarrow> bool" where
  "same_rollouts w w' \<longleftrightarrow> w_rollouts w' = w_rollouts w \<and> ams_agents (w_agents w') = ams_agents (w_agents w) \<and> w_tick w \<le> w_tick w'"

lemma same_rollouts_trans: "same_rollouts w1 w2 \<Longrightarrow> same_rollouts w2 w3 \<Longrightarrow> same_rollouts w1 w3"
  by (simp add: same_rollouts_def)

definition undisturbed :: "(World, 'a) M \<Rightarrow> bool" where
  "undisturbed f \<longleftrightarrow> (\<forall>w. same_rollouts w (snd (f w)))"

lemma undisturbedD: "undisturbed f \<Longrightarrow> f w = (r, w') \<Longrightarrow> same_rollouts w w'"
  unfolding undisturbed_def by (metis snd_conv)

lemma undisturbed_bind: "undisturbed f \<Longrightarrow> (\<And>a. undisturbed (g a)) \<Longrightarrow> undisturbed (bindM f g)"
  unfolding undisturbed_def [of "bindM f g"]
  by (auto simp: bindM_def split: prod.split sum.split intro: undisturbedD same_rollouts_trans) (metis undisturbedD same_rollouts_trans prod.collapse)

lemma undisturbed_try: "undisturbed f \<Longrightarrow> (\<And>e. undisturbed (h e)) \<Longrightarrow> (\<And>a. undisturbed (g a)) \<Longrightarrow> undisturbed (tryM f h g)"
  unfolding undisturbed_def [of "tryM f h g"]
  by (auto simp: tryM_def split: prod.split sum.split) (metis undisturbedD same_rollouts_trans prod.collapse)+

lemma undisturbed_basic:
  "undisturbed (retM a)" "undisturbed (raiseM e)" "undisturbed (checkM c)" "undisturbed (liftE x)" "undisturbed (effM (w_now orc))"
  "undisturbed (effM (w_newID orc p))" "undisturbed (on_registry orc f)"
  by (simp_all add: undisturbed_def same_rollouts_def retM_def raiseM_def checkM_def liftE_def effM_def w_now_def w_newID_def on_registry_def on_cell_def tick_def
      split: option.splits prod.splits)

lemma undisturbed_agents:
  "(\<And>c s. ams_agents (snd (f c s)) = ams_agents s) \<Longrightarrow> undisturbed (on_agents orc f)"
  by (auto simp: undisturbed_def same_rollouts_def on_agents_def on_cell_def tick_def split: prod.splits) (metis snd_conv)

lemma undisturbed_rollouts:
  "(\<And>c s. snd (f c s) = s) \<Longrightarrow> undisturbed (on_rollouts orc f)"
  by (auto simp: undisturbed_def same_rollouts_def on_rollouts_def on_cell_def tick_def split: prod.splits) (metis snd_conv)

lemma undisturbed_stores:
  "undisturbed (as_GetAgent (world_agent_store orc) i)" "undisturbed (as_ListAgents (world_agent_store orc))"
  "undisturbed (as_GetCredential (world_agent_store orc) t)" "undisturbed (as_SaveAcknowledgement (world_agent_store orc) k)"
  "undisturbed (st_GetRollout (world_rollout_store orc) i)" "undisturbed (st_GetActiveRollout (world_rollout_store orc) i e)"
  "undisturbed (st_ListStageTargets (world_rollout_store orc) i sid)"
  unfolding world_agent_store_sel world_rollout_store_sel
  by (rule undisturbed_agents undisturbed_rollouts,
      simp add: ag_mem_GetAgent_def ag_mem_ListAgents_def ag_mem_GetCredential_def ag_mem_SaveAcknowledgement_def ro_mem_GetRollout_def
        ro_mem_GetActiveRollout_def ro_mem_ListStageTargets_def Let_def split: option.splits)+

lemma undisturbed_if: "undisturbed f \<Longrightarrow> undisturbed g \<Longrightarrow> undisturbed (if b then f else g)"
  by simp

lemma undisturbed_option: "undisturbed f \<Longrightarrow> (\<And>a. undisturbed (g a)) \<Longrightarrow> undisturbed (case x of None \<Rightarrow> f | Some a \<Rightarrow> g a)"
  by (simp split: option.splits)

lemma undisturbed_sum: "(\<And>e. undisturbed (f e)) \<Longrightarrow> (\<And>a. undisturbed (g a)) \<Longrightarrow> undisturbed (case x of Inl e \<Rightarrow> f e | Inr a \<Rightarrow> g a)"
  by (simp split: sum.splits)

lemma undisturbed_prod: "(\<And>a b. undisturbed (f a b)) \<Longrightarrow> undisturbed (case x of (a, b) \<Rightarrow> f a b)"
  by (simp split: prod.splits)

lemmas undisturbed_rules =
  undisturbed_bind undisturbed_try undisturbed_if undisturbed_option undisturbed_sum undisturbed_prod undisturbed_basic undisturbed_stores

lemma undisturbed_reads:
  "undisturbed (cr_ListTenants (registry_service cfg))" "undisturbed (cr_GetDefinition (registry_service cfg) i k)"
  "undisturbed (cr_ListDefinitions (registry_service cfg) i)" "undisturbed (cr_ListVersions (registry_service cfg) i k)"
  "undisturbed (cr_GetEnvironmentState (registry_service cfg) i k e)"
  unfolding cr_ListTenants_def cr_GetDefinition_def cr_ListDefinitions_def cr_ListVersions_def cr_GetEnvironmentState_def registry_service_sel
    world_config_store_sel
  by (intro undisturbed_rules)+

lemma undisturbed_SetStableVersion: "undisturbed (cr_SetStableVersion (registry_service cfg) input)"
  unfolding cr_SetStableVersion_def registry_service_sel world_config_store_sel Let_def by (intro undisturbed_rules)

lemma undisturbed_Acknowledge: "undisturbed (ag_Acknowledge (agent_service cfg) input)"
  unfolding ag_Acknowledge_def ag_Verify_def agent_service_sel Let_def by (intro undisturbed_rules)

lemma undisturbed_agent_reads: "undisturbed (ag_ListAgents (agent_service cfg))" "undisturbed (ag_GetAgent (agent_service cfg) i)"
  unfolding ag_ListAgents_def ag_GetAgent_def agent_service_sel by (intro undisturbed_rules)+

lemma undisturbed_rollout_reads:
  "undisturbed (ro_ActiveRollout (rollouts_service cfg) c e)" "undisturbed (ro_GetRollout (rollouts_service cfg) i)"
  unfolding ro_ActiveRollout_def ro_GetRollout_def rollouts_service_sel by (intro undisturbed_rules)+

lemma undisturbed_item: "undisturbed (snapshotItem (snapshot_store cfg ts) tenant x agent)"
  unfolding snapshotItem_def effective_for_def snapshot_store_sel Let_def by (intro undisturbed_rules undisturbed_reads undisturbed_rollout_reads)

lemma undisturbed_definitions: "undisturbed (definitions_loop (snapshot_store cfg ts) tenant agent xs revision items)"
  by (induction xs arbitrary: revision items) (auto intro!: undisturbed_rules undisturbed_item)

lemma undisturbed_tenants: "undisturbed (tenants_loop (snapshot_store cfg ts) agent is revision items)"
  by (induction "is" arbitrary: revision items) (auto intro!: undisturbed_rules undisturbed_definitions undisturbed_reads)

lemma undisturbed_GetSnapshot: "undisturbed (DynamicSnapshotStore_GetSnapshot (snapshot_store cfg ts) i)"
  unfolding DynamicSnapshotStore_GetSnapshot_def snapshotTenants_def snapshot_store_sel
  by (intro undisturbed_rules undisturbed_reads undisturbed_agent_reads undisturbed_tenants)

subsection \<open>What a successful call of the store has done\<close>

lemma on_rollouts_Inr:
  "on_rollouts orc f w = (Inr a, w') \<longleftrightarrow> (\<exists>s. f (w_ctx orc w) (w_rollouts w) = (Inr a, s) \<and> w' = tick (w\<lparr>w_rollouts := s\<rparr>))"
  by (auto simp: on_rollouts_def on_cell_def split: prod.splits)

lemma now_Inr: "effM (w_now orc) w = (Inr t, w') \<longleftrightarrow> t = orc_now orc (w_tick w) \<and> w' = tick w"
  by (auto simp: effM_def w_now_def)

lemma newID_Inr: "effM (w_newID orc p) w = (Inr i, w') \<longleftrightarrow> i = randomID p (orc_entropy orc (w_tick w)) \<and> w' = tick w"
  by (auto simp: effM_def w_newID_def)

lemma store_Inr:
  "st_GetRollout (world_rollout_store orc) i w = (Inr r, w') \<Longrightarrow> stored_rollout w i = Some r \<and> w' = tick w"
  "st_ListStageTargets (world_rollout_store orc) i sid w = (Inr ts, w') \<Longrightarrow>
     ts = gomap_slice (rms_targets (w_rollouts w)) (targetKey i sid) \<and> w' = tick w"
  "st_ListStages (world_rollout_store orc) i w = (Inr ss, w') \<Longrightarrow> stored_stages w i = Some ss \<and> w' = tick w"
  "st_UpdateRollout (world_rollout_store orc) r w = (Inr u, w') \<Longrightarrow>
     w_tick w' = Suc (w_tick w) \<and> w_agents w' = w_agents w \<and> rms_rollouts (w_rollouts w') = gomap_set (ro_ID r) r (rms_rollouts (w_rollouts w)) \<and>
     rms_stages (w_rollouts w') = rms_stages (w_rollouts w) \<and> rms_targets (w_rollouts w') = rms_targets (w_rollouts w)"
  "st_ReplaceStageTargets (world_rollout_store orc) i sid ts w = (Inr u, w') \<Longrightarrow>
     w' = tick (w\<lparr>w_rollouts := (w_rollouts w)\<lparr>rms_targets := gomap_set (targetKey i sid) ts (rms_targets (w_rollouts w))\<rparr>\<rparr>)"
  "st_SaveStageTargets (world_rollout_store orc) ts w = (Inr u, w') \<Longrightarrow>
     w' = tick (w\<lparr>w_rollouts := (w_rollouts w)\<lparr>rms_targets := save_targets_loop ts (rms_targets (w_rollouts w))\<rparr>\<rparr>)"
  "st_NextSnapshotRevision (world_rollout_store orc) w = (Inr n, w') \<Longrightarrow>
     w_tick w' = Suc (w_tick w) \<and> w_agents w' = w_agents w \<and> rms_rollouts (w_rollouts w') = rms_rollouts (w_rollouts w) \<and>
     rms_stages (w_rollouts w') = rms_stages (w_rollouts w) \<and> rms_targets (w_rollouts w') = rms_targets (w_rollouts w)"
  "st_CreateRollout (world_rollout_store orc) r ss w = (Inr u, w') \<Longrightarrow>
     w_tick w' = Suc (w_tick w) \<and> w_agents w' = w_agents w \<and> rms_rollouts (w_rollouts w') = gomap_set (ro_ID r) r (rms_rollouts (w_rollouts w)) \<and>
     rms_stages (w_rollouts w') = gomap_set (ro_ID r) ss (rms_stages (w_rollouts w)) \<and> rms_targets (w_rollouts w') = rms_targets (w_rollouts w)"
  unfolding world_rollout_store_sel on_rollouts_Inr
  by (auto simp: ro_mem_defs Let_def tick_def split: option.splits if_splits)

lemma ListAgents_Inr:
  assumes "ag_ListAgents (agent_service cfg) w = (Inr agents, w')"
  shows "length agents = length (ams_agents (w_agents w))" "same_rollouts w w'"
  using assms
  by (auto simp: ag_ListAgents_def world_agent_store_sel on_agents_def on_cell_def ag_mem_ListAgents_def same_rollouts_def tick_def
      split: prod.splits option.splits)

subsection \<open>The stages of a simulation\<close>

definition sim_stages :: "Stage list" where
  "sim_stages = cri_Stages (sim_rollout_input \<lparr>opt_AgentCount = 0, opt_Concurrency = 0, opt_Service = [], opt_Environment = []\<rparr>)"

definition sim_stage :: "nat \<Rightarrow> string" where
  "sim_stage k = stage_ID (sim_stages ! k)"

lemma sim_stages_simps [simp]:
  "cri_Stages (sim_rollout_input o') = sim_stages" "length sim_stages = 3" "sim_stages \<noteq> []"
  "map stage_ID sim_stages = [''stage-5'', ''stage-25'', ''stage-100'']"
  by (simp_all add: sim_stages_def sim_rollout_input_def)

lemma sim_stage_inj: "j < 3 \<Longrightarrow> k < 3 \<Longrightarrow> sim_stage j = sim_stage k \<longleftrightarrow> j = k"
  by (auto simp: sim_stage_def sim_stages_def sim_rollout_input_def less_Suc_eq numeral_eq_Suc)

lemma sim_stage_duration: "k < 3 \<Longrightarrow> stage_MinimumDuration (sim_stages ! k) = 0"
  by (auto simp: sim_stages_def sim_rollout_input_def less_Suc_eq numeral_eq_Suc)

text \<open>The clock of a run of less than five minutes that does not go back.\<close>

definition steady :: "Oracle \<Rightarrow> bool" where
  "steady orc \<longleftrightarrow> (\<forall>m n. (m \<le> n \<longrightarrow> orc_now orc m \<le> orc_now orc n) \<and> orc_now orc n - orc_now orc m < 5 * Minute)"

definition stage_targets :: "World \<Rightarrow> string \<Rightarrow> nat \<Rightarrow> StageTarget list" where
  "stage_targets w i k = gomap_slice (rms_targets (w_rollouts w)) (targetKey i (sim_stage k))"

text \<open>The only rollout is in the stage \<open>k\<close>, which began in the past; later stages have no targets yet. At rest the stage is not covered.\<close>

definition deploying :: "Oracle \<Rightarrow> string \<Rightarrow> nat \<Rightarrow> nat \<Rightarrow> Rollout \<Rightarrow> bool" where
  "deploying orc i k now r \<longleftrightarrow>
     ro_ID r = i \<and> ro_State r = StateDeploying \<and> ro_CurrentStageIndex r = int k \<and> ro_CurrentStageID r = sim_stage k \<and>
     ro_RequiredAckPercent r = Fin 100 \<and> ro_Guardrails r = [] \<and> ro_RolloutMaxDuration r = 15 * Minute \<and> ro_DeploymentTimeout r = 5 * Minute \<and>
     (\<exists>m. ro_CreatedAt r = orc_now orc m) \<and> (\<exists>m \<le> now. ro_StageStartedAt r = orc_now orc m)"

definition uncovered :: "nat \<Rightarrow> string \<Rightarrow> nat \<Rightarrow> StageTarget list \<Rightarrow> bool" where
  "uncovered n i k ts \<longleftrightarrow> length ts \<le> n \<and> (\<forall>t \<in> set ts. tgt_StageID t = sim_stage k) \<and> \<not> CoverageReached ts (Fin 100)"

definition in_stage :: "Oracle \<Rightarrow> nat \<Rightarrow> string \<Rightarrow> nat \<Rightarrow> World \<Rightarrow> bool" where
  "in_stage orc n i k w \<longleftrightarrow> k < 3 \<and> nul_free i \<and> length (ams_agents (w_agents w)) \<le> n \<and> stored_stages w i = Some sim_stages \<and>
     (\<exists>r. rms_rollouts (w_rollouts w) = [(i, r)] \<and> deploying orc i k (w_tick w) r) \<and> (\<forall>j. k < j \<longrightarrow> j < 3 \<longrightarrow> stage_targets w i j = [])"

definition at_stage :: "Oracle \<Rightarrow> nat \<Rightarrow> string \<Rightarrow> nat \<Rightarrow> World \<Rightarrow> bool" where
  "at_stage orc n i k w \<longleftrightarrow> in_stage orc n i k w \<and> uncovered n i k (stage_targets w i k)"

definition completed :: "string \<Rightarrow> World \<Rightarrow> bool" where
  "completed i w \<longleftrightarrow> (\<exists>r. rms_rollouts (w_rollouts w) = [(i, r)] \<and> ro_State r = StateCompleted \<and> ro_CurrentStageID r = sim_stage 2)"

lemma targetKey_stage [simp]: "targetKey i s = targetKey i s' \<longleftrightarrow> s = s'"
  by (simp add: targetKey_def nul_join_def)

lemma in_stage_same:
  assumes "in_stage orc n i k w" "same_rollouts w w'"
  shows "in_stage orc n i k w'"
proof -
  have "deploying orc i k (w_tick w') r" if "deploying orc i k (w_tick w) r" for r
    using that assms(2) unfolding deploying_def same_rollouts_def by (meson order_trans)
  then show ?thesis using assms unfolding in_stage_def same_rollouts_def stage_targets_def by auto
qed

lemma at_stage_same: "at_stage orc n i k w \<Longrightarrow> same_rollouts w w' \<Longrightarrow> at_stage orc n i k w'"
  using in_stage_same [of orc n i k w w'] by (simp add: at_stage_def stage_targets_def same_rollouts_def)

lemma same_rollouts_tick [simp]: "same_rollouts w (tick w)"
  by (simp add: same_rollouts_def)

text \<open>The decision at a stage: the clock allows a promotion and nothing else.\<close>

lemma stage_decision_run:
  assumes "steady (cfg_oracle cfg)" "deploying (cfg_oracle cfg) i k (w_tick w) r" "k < 3"
    and run: "evaluateStageDecision (rollouts_service cfg) r ts (sim_stages ! k) w = (Inr (d, r'), w')"
  shows "r' = r \<and> w' = tick w \<and> d = (if CoverageReached ts (Fin 100) then DecisionPromote else DecisionWait)"
proof -
  let ?now = "orc_now (cfg_oracle cfg) (w_tick w)"
  from assms(2) obtain m c where r: "ro_Guardrails r = []" "ro_RequiredAckPercent r = Fin 100" "ro_RolloutMaxDuration r = 15 * Minute"
    "ro_DeploymentTimeout r = 5 * Minute" "m \<le> w_tick w" "ro_StageStartedAt r = orc_now (cfg_oracle cfg) m" "ro_CreatedAt r = orc_now (cfg_oracle cfg) c"
    by (auto simp: deploying_def)
  have clock: "ro_StageStartedAt r \<le> ?now" "?now - ro_StageStartedAt r < 5 * Minute" "?now - ro_CreatedAt r < 5 * Minute"
    using assms(1) r(5) unfolding steady_def r(6,7) by blast+
  then have elapsed: "0 \<le> time_Sub ?now (ro_StageStartedAt r)" "time_Sub ?now (ro_StageStartedAt r) < 5 * Minute" "time_Sub ?now (ro_CreatedAt r) < 15 * Minute"
    by (auto simp: time_Sub_def Minute_def Second_def)
  then show ?thesis
    using run r(1-4) sim_stage_duration [OF assms(3)]
    by (auto simp: evaluateStageDecision_def bindM_Inr now_Inr retM_Inr EvaluateStageProgress_def Let_def not_le split: if_splits)
qed

text \<open>A new stage begins without acknowledgements, so it is not covered.\<close>

lemma fresh_uncovered:
  assumes "length ts \<le> 2 ^ 40" "\<forall>t \<in> set ts. tgt_Status t = TargetPending"
  shows "\<not> CoverageReached ts (Fin 100)"
proof
  assume c: "CoverageReached ts (Fin 100)"
  have "acked_count ts = 0" using assms(2) by (simp add: acked_count_def is_acked_def)
  then have "percent (acked_count ts) (length ts) < 100"
    using percent_less [of 0 "length ts"] CoverageReached_nonempty [OF c] assms(1) by simp
  moreover have "length ts < 2 ^ 53" using assms(1) by simp
  ultimately show False using c by (simp add: CoverageReached_percent)
qed

lemma built_uncovered:
  assumes "BuildStageTargets input = Inr ts" "length (bti_Agents input) \<le> n" "n \<le> 2 ^ 40" "stage_ID (bti_Stage input) = sim_stage k"
  shows "uncovered n i k ts" "targets_of (ro_ID (bti_Rollout input)) (sim_stage k) ts = ts"
    "\<forall>t \<in> set ts. tgt_RolloutID t = ro_ID (bti_Rollout input) \<and> tgt_StageID t = sim_stage k"
proof -
  have "length ts = length (filter (in_cohort input) (bti_Agents input))" using assms(1) by (auto simp: BuildStageTargets_Inr)
  then have n: "length ts \<le> n" using assms(2) length_filter_le [of "in_cohort input" "bti_Agents input"] by linarith
  note ts = set_BuildStageTargets [OF assms(1)]
  then show t: "\<forall>t \<in> set ts. tgt_RolloutID t = ro_ID (bti_Rollout input) \<and> tgt_StageID t = sim_stage k" using assms(4) by auto
  then show "targets_of (ro_ID (bti_Rollout input)) (sim_stage k) ts = ts" by (simp add: targets_of_def filter_id_conv)
  show "uncovered n i k ts" unfolding uncovered_def using n t ts fresh_uncovered [of ts] assms(3) by auto
qed

lemma filterAgents_length: "length (filterAgents as e services) \<le> length as"
  by (induction as) auto

text \<open>Beginning a stage that has no targets yet.\<close>

lemma activate_run:
  assumes run: "activateStage (rollouts_service cfg) r (sim_stages ! k) services w = (Inr ts, w')"
    and "ro_ID r = i" "nul_free i" "length (ams_agents (w_agents w)) \<le> n" "n \<le> 2 ^ 40" "stage_targets w i k = []"
  shows "uncovered n i k (stage_targets w' i k)" "rms_rollouts (w_rollouts w') = rms_rollouts (w_rollouts w)"
    "stored_stages w' i = stored_stages w i" "length (ams_agents (w_agents w')) \<le> n" "w_tick w \<le> w_tick w'"
    "j \<noteq> k \<Longrightarrow> j < 3 \<Longrightarrow> k < 3 \<Longrightarrow> stage_targets w' i j = stage_targets w i j"
proof -
  obtain as w1 rev w2 where parts: "ag_ListAgents (agent_service cfg) w = (Inr as, w1)"
      "st_NextSnapshotRevision (world_rollout_store (cfg_oracle cfg)) w1 = (Inr rev, w2)"
      "BuildStageTargets \<lparr>bti_Rollout = r, bti_Stage = sim_stages ! k, bti_Agents = filterAgents as (ro_Environment r) services,
         bti_SnapshotRevision = rev, bti_CreatedAt = orc_now (cfg_oracle cfg) (w_tick w2)\<rparr> = Inr ts"
      "st_SaveStageTargets (world_rollout_store (cfg_oracle cfg)) ts (tick w2) = (Inr (), w')"
    using run by (auto simp: activateStage_def Let_def bindM_Inr retM_Inr now_Inr liftE_Inr)
  note list = ListAgents_Inr [OF parts(1)] and rev = store_Inr(7) [OF parts(2)] and save = store_Inr(6) [OF parts(4)]
  have "length (filterAgents as (ro_Environment r) services) \<le> n" using filterAgents_length [of as] list(1) assms(4) by (metis order_trans)
  then have built: "uncovered n i k ts" "targets_of i (sim_stage k) ts = ts" "\<forall>t \<in> set ts. tgt_RolloutID t = i \<and> tgt_StageID t = sim_stage k"
    using built_uncovered [OF parts(3) _ assms(5), of k] assms(2) by (simp_all add: sim_stage_def)
  have slice: "gomap_slice (save_targets_loop ts m) (targetKey i sid) = gomap_slice m (targetKey i sid) @ targets_of i sid ts" for m sid
    by (rule save_targets_loop_slice) (use built(3) assms(2,3) in auto)
  have other: "targets_of i (sim_stage j) ts = []" if "j \<noteq> k" "j < 3" "k < 3" for j
    using built(3) sim_stage_inj [OF that(2,3)] that(1) by (auto simp: targets_of_def filter_empty_conv)
  have same: "stage_targets w' i j = stage_targets w i j @ targets_of i (sim_stage j) ts" for j
    using list(2) rev by (simp add: stage_targets_def save slice same_rollouts_def)
  show "uncovered n i k (stage_targets w' i k)" using same [of k] assms(6) built by simp
  show "j \<noteq> k \<Longrightarrow> j < 3 \<Longrightarrow> k < 3 \<Longrightarrow> stage_targets w' i j = stage_targets w i j" using same [of j] other [of j] by simp
  show "rms_rollouts (w_rollouts w') = rms_rollouts (w_rollouts w)" "stored_stages w' i = stored_stages w i"
    "length (ams_agents (w_agents w')) \<le> n" "w_tick w \<le> w_tick w'"
    using list(2) rev assms(4) by (simp_all add: save same_rollouts_def)
qed

text \<open>A promotion goes to the next stage, or completes the rollout after the last one.\<close>

lemma promote_run:
  assumes at: "in_stage (cfg_oracle cfg) n i k w" and "n \<le> 2 ^ 40" and r: "rms_rollouts (w_rollouts w) = [(i, r)]"
    and run: "promote (rollouts_service cfg) r sim_stages w = (Inr r', w')"
  shows "if k = 2 then completed i w' else at_stage (cfg_oracle cfg) n i (Suc k) w'"
proof -
  have d: "deploying (cfg_oracle cfg) i k (w_tick w) r" and k: "k < 3" "nul_free i" "length (ams_agents (w_agents w)) \<le> n"
      "stored_stages w i = Some sim_stages" "\<And>j. k < j \<Longrightarrow> j < 3 \<Longrightarrow> stage_targets w i j = []"
    using at r by (auto simp: in_stage_def)
  then have fields: "ro_ID r = i" "ro_CurrentStageIndex r = int k" "ro_State r = StateDeploying" by (auto simp: deploying_def)
  show ?thesis
  proof (cases "k = 2")
    case True
    then obtain st w1 where parts: "cr_SetStableVersion (registry_service cfg)
         \<lparr>ssv_TenantID = ro_TenantID r, ssv_Key = ro_ConfigKey r, ssv_Environment = ro_Environment r, ssv_VersionNumber = ro_CandidateVersion r\<rparr> w = (Inr st, w1)"
        "st_UpdateRollout (world_rollout_store (cfg_oracle cfg))
         (r\<lparr>ro_State := StateCompleted, ro_UpdatedAt := orc_now (cfg_oracle cfg) (w_tick w1)\<rparr>) (tick w1) = (Inr (), w')"
      using run fields by (auto simp: promote_def Let_def bindM_Inr retM_Inr raiseM_Inr now_Inr split: option.splits if_splits)
    have "rms_rollouts (w_rollouts w1) = [(i, r)]"
      using undisturbedD [OF undisturbed_SetStableVersion parts(1)] r by (simp add: same_rollouts_def)
    then show ?thesis using store_Inr(4) [OF parts(2)] fields(1) True d by (simp add: completed_def gomap_set_def deploying_def)
  next
    case False
    define r1 where "r1 = r\<lparr>ro_State := StateDeploying, ro_CurrentStageIndex := int k + 1, ro_CurrentStageID := stage_ID (sim_stages ! nat (int k + 1)),
        ro_StageStartedAt := orc_now (cfg_oracle cfg) (w_tick w), ro_UpdatedAt := orc_now (cfg_oracle cfg) (w_tick w)\<rparr>"
    have index: "nat (int k + 1) = Suc k" by simp
    obtain w1 ts where parts: "st_UpdateRollout (world_rollout_store (cfg_oracle cfg)) r1 (tick w) = (Inr (), w1)"
        "activateStage (rollouts_service cfg) r1 (sim_stages ! Suc k) (ro_TargetServices r1) w1 = (Inr ts, w')"
      using run fields False k(1) unfolding r1_def index by (auto simp: promote_def Let_def bindM_Inr retM_Inr now_Inr index)
    note up = store_Inr(4) [OF parts(1)]
    have id: "ro_ID r1 = i" using fields by (simp add: r1_def)
    have k3: "Suc k < 3" using False k(1) by simp
    have w1: "length (ams_agents (w_agents w1)) \<le> n" "stage_targets w1 i j = stage_targets w i j" for j
      using up k(3) by (simp_all add: stage_targets_def)
    note act = activate_run [OF parts(2) id k(2) w1(1) assms(2)]
    have empty: "stage_targets w1 i (Suc k) = []" using w1(2) k(5) [of "Suc k"] k3 by simp
    have "deploying (cfg_oracle cfg) i (Suc k) t r1" if "w_tick w \<le> t" for t
      using d that by (auto simp: deploying_def r1_def index sim_stage_def)
    moreover have "rms_rollouts (w_rollouts w') = [(i, r1)]" using act(2) [OF empty] up r id by (simp add: gomap_set_def)
    moreover have "stored_stages w' i = Some sim_stages" using act(3) [OF empty] up k(4) by simp
    moreover have "stage_targets w' i j = []" if "Suc k < j" "j < 3" for j
      using act(6) [OF empty, of j] that k3 w1(2) k(5) [of j] by simp
    ultimately show ?thesis
      using False k3 k(2) act(1,4,5) [OF empty] up by (auto simp: at_stage_def in_stage_def)
  qed
qed

subsection \<open>One acknowledgement\<close>

lemma ApplyAck_counted:
  assumes "ApplyAck ts a = (True, ts')"
  shows "\<exists>t \<in> set ts. tgt_StageID t = ack_StageID a"
  using assms by (induction ts arbitrary: ts') (auto simp: ack_matches_def split: if_splits prod.splits)

lemma ApplyAck_stages: "map tgt_StageID (snd (ApplyAck ts a)) = map tgt_StageID ts"
  by (induction ts) (auto split: prod.splits)

lemma Acknowledge_parts:
  assumes "ro_Acknowledge svc input w = (Inr x, w')"
  obtains r w1 ts0 w2 counted ts w3 ss w4 where "st_GetRollout (ros_store svc) (aki_RolloutID input) w = (Inr r, w1)"
    "st_ListStageTargets (ros_store svc) (ro_ID r) (ro_CurrentStageID r) w1 = (Inr ts0, w2)"
    "ApplyAck ts0 \<lparr>ack_RolloutID = aki_RolloutID input, ack_StageID = aki_StageID input, ack_AgentID = aki_AgentID input,
       ack_VersionID = aki_VersionID input, ack_SnapshotRevision = aki_SnapshotRevision input, ack_AckedAt = fst (ros_now svc w2)\<rparr> = (counted, ts)"
    "(if counted then st_ReplaceStageTargets (ros_store svc) (ro_ID r) (ro_CurrentStageID r) ts else retM ()) (snd (ros_now svc w2)) = (Inr (), w3)"
    "st_ListStages (ros_store svc) (ro_ID r) w3 = (Inr ss, w4)"
    "ro_State r \<noteq> StateRollingBack \<Longrightarrow> \<exists>d r1 w5 r2. evaluateStageDecision svc r ts (ss ! nat (ro_CurrentStageIndex r)) w4 = (Inr (d, r1), w5) \<and>
       act_on_decision svc d r1 ss w5 = (Inr r2, w')"
proof -
  obtain r w1 ts0 w2 where get: "st_GetRollout (ros_store svc) (aki_RolloutID input) w = (Inr r, w1)"
      "st_ListStageTargets (ros_store svc) (ro_ID r) (ro_CurrentStageID r) w1 = (Inr ts0, w2)"
    and rest: "bindM (effM (ros_now svc)) (\<lambda>now.
       case ApplyAck ts0 \<lparr>ack_RolloutID = aki_RolloutID input, ack_StageID = aki_StageID input,
              ack_AgentID = aki_AgentID input, ack_VersionID = aki_VersionID input,
              ack_SnapshotRevision = aki_SnapshotRevision input, ack_AckedAt = now\<rparr> of (counted, targets) \<Rightarrow>
       bindM (if counted then st_ReplaceStageTargets (ros_store svc) (ro_ID r) (ro_CurrentStageID r) targets
              else retM ()) (\<lambda>_.
       bindM (st_ListStages (ros_store svc) (ro_ID r)) (\<lambda>stages.
       if ro_State r = StateRollingBack then
         bindM (reconcileRollback svc r targets) (\<lambda>r.
         retM \<lparr>akr_Counted = counted, akr_Coverage = AcknowledgementCoverage targets,
               akr_Decision = DecisionWait, akr_Rollout = r\<rparr>)
       else if ro_CurrentStageIndex r < 0 \<or> ro_CurrentStageIndex r \<ge> int (length stages) then raiseM stage_range_error
       else
         bindM (evaluateStageDecision svc r targets (stages ! nat (ro_CurrentStageIndex r))) (\<lambda>(decision, evaluated).
         bindM (act_on_decision svc decision evaluated stages) (\<lambda>r.
         retM \<lparr>akr_Counted = counted, akr_Coverage = AcknowledgementCoverage targets,
               akr_Decision = decision, akr_Rollout = r\<rparr>))))) w2 = (Inr x, w')"
    using assms unfolding ro_Acknowledge_def bindM_Inr [of "st_GetRollout _ _"] bindM_Inr [of "st_ListStageTargets _ _ _"]
    by (auto simp: raiseM_Inr bindM_Inr [of "st_ListStageTargets _ _ _"] split: if_splits)
  define ack where "ack = \<lparr>ack_RolloutID = aki_RolloutID input, ack_StageID = aki_StageID input, ack_AgentID = aki_AgentID input,
       ack_VersionID = aki_VersionID input, ack_SnapshotRevision = aki_SnapshotRevision input, ack_AckedAt = fst (ros_now svc w2)\<rparr>"
  obtain counted ts where applied: "ApplyAck ts0 ack = (counted, ts)" by fastforce
  define n1 where "n1 = snd (ros_now svc w2)"
  have now: "bindM (effM (ros_now svc)) f w2 = f (fst (ros_now svc w2)) n1" for f :: "go_time \<Rightarrow> ('a, 'b) M"
    by (simp add: bindM_def effM_def n1_def split: prod.splits)
  obtain w3 where replaced: "(if counted then st_ReplaceStageTargets (ros_store svc) (ro_ID r) (ro_CurrentStageID r) ts else retM ()) n1 = (Inr (), w3)"
    and rest3: "bindM (st_ListStages (ros_store svc) (ro_ID r)) (\<lambda>stages.
       if ro_State r = StateRollingBack then
         bindM (reconcileRollback svc r ts) (\<lambda>r.
         retM \<lparr>akr_Counted = counted, akr_Coverage = AcknowledgementCoverage ts, akr_Decision = DecisionWait, akr_Rollout = r\<rparr>)
       else if ro_CurrentStageIndex r < 0 \<or> ro_CurrentStageIndex r \<ge> int (length stages) then raiseM stage_range_error
       else
         bindM (evaluateStageDecision svc r ts (stages ! nat (ro_CurrentStageIndex r))) (\<lambda>(decision, evaluated).
         bindM (act_on_decision svc decision evaluated stages) (\<lambda>r.
         retM \<lparr>akr_Counted = counted, akr_Coverage = AcknowledgementCoverage ts, akr_Decision = decision, akr_Rollout = r\<rparr>))) w3 = (Inr x, w')"
    using rest unfolding now ack_def [symmetric] applied prod.case bindM_Inr [of "if counted then _ else _"] by auto
  obtain ss w4 where stages: "st_ListStages (ros_store svc) (ro_ID r) w3 = (Inr ss, w4)"
    and rest4: "(if ro_State r = StateRollingBack then
         bindM (reconcileRollback svc r ts) (\<lambda>r.
         retM \<lparr>akr_Counted = counted, akr_Coverage = AcknowledgementCoverage ts, akr_Decision = DecisionWait, akr_Rollout = r\<rparr>)
       else if ro_CurrentStageIndex r < 0 \<or> ro_CurrentStageIndex r \<ge> int (length ss) then raiseM stage_range_error
       else
         bindM (evaluateStageDecision svc r ts (ss ! nat (ro_CurrentStageIndex r))) (\<lambda>(decision, evaluated).
         bindM (act_on_decision svc decision evaluated ss) (\<lambda>r.
         retM \<lparr>akr_Counted = counted, akr_Coverage = AcknowledgementCoverage ts, akr_Decision = decision, akr_Rollout = r\<rparr>))) w4 = (Inr x, w')"
    using rest3 unfolding bindM_Inr [of "st_ListStages _ _"] by auto
  have decided: "\<exists>d r1 w5 r2. evaluateStageDecision svc r ts (ss ! nat (ro_CurrentStageIndex r)) w4 = (Inr (d, r1), w5) \<and>
       act_on_decision svc d r1 ss w5 = (Inr r2, w')" if "ro_State r \<noteq> StateRollingBack"
    using rest4 that by (auto simp: bindM_Inr retM_Inr raiseM_Inr split: if_splits)
  show thesis
    by (rule that [OF get _ _ stages decided]) (use applied replaced in \<open>simp_all add: ack_def n1_def\<close>)
qed

lemma Acknowledge_run:
  assumes "steady (cfg_oracle cfg)" "n \<le> 2 ^ 40" and at: "at_stage (cfg_oracle cfg) n i k w"
    and run: "ro_Acknowledge (rollouts_service cfg) input w = (Inr x, w')"
  shows "at_stage (cfg_oracle cfg) n i k w' \<or>
    aki_StageID input = sim_stage k \<and> (if k = 2 then completed i w' else at_stage (cfg_oracle cfg) n i (Suc k) w')"
proof -
  let ?orc = "cfg_oracle cfg"
  obtain r where r: "rms_rollouts (w_rollouts w) = [(i, r)]" "deploying ?orc i k (w_tick w) r" and in_k: "in_stage ?orc n i k w"
      and un: "uncovered n i k (stage_targets w i k)" and k: "k < 3" "stored_stages w i = Some sim_stages"
    using at by (auto simp: at_stage_def in_stage_def)
  have fields: "ro_ID r = i" "ro_State r = StateDeploying" "ro_CurrentStageIndex r = int k" "ro_CurrentStageID r = sim_stage k"
    using r(2) by (auto simp: deploying_def)
  obtain r0 w1 ts0 w2 counted ts w3 ss w4 where
      get: "st_GetRollout (world_rollout_store ?orc) (aki_RolloutID input) w = (Inr r0, w1)"
    and list: "st_ListStageTargets (world_rollout_store ?orc) (ro_ID r0) (ro_CurrentStageID r0) w1 = (Inr ts0, w2)"
    and applied: "ApplyAck ts0 \<lparr>ack_RolloutID = aki_RolloutID input, ack_StageID = aki_StageID input, ack_AgentID = aki_AgentID input,
       ack_VersionID = aki_VersionID input, ack_SnapshotRevision = aki_SnapshotRevision input, ack_AckedAt = fst (w_now ?orc w2)\<rparr> = (counted, ts)"
    and replaced: "(if counted then st_ReplaceStageTargets (world_rollout_store ?orc) (ro_ID r0) (ro_CurrentStageID r0) ts else retM ()) (snd (w_now ?orc w2)) = (Inr (), w3)"
    and stages: "st_ListStages (world_rollout_store ?orc) (ro_ID r0) w3 = (Inr ss, w4)"
    and decided: "ro_State r0 \<noteq> StateRollingBack \<Longrightarrow> \<exists>d r1 w5 r2. evaluateStageDecision (rollouts_service cfg) r0 ts (ss ! nat (ro_CurrentStageIndex r0)) w4 = (Inr (d, r1), w5) \<and>
       act_on_decision (rollouts_service cfg) d r1 ss w5 = (Inr r2, w')"
    using Acknowledge_parts [OF run] unfolding rollouts_service_sel by blast
  have r0: "r0 = r" "w1 = tick w" using store_Inr(1) [OF get] r(1) by (auto simp: gomap_get_def split: if_splits)
  then have ts0: "ts0 = stage_targets w i k" "w2 = tick (tick w)" using store_Inr(2) [OF list] fields by (simp_all add: stage_targets_def)
  have ts: "length ts \<le> n" "\<forall>t \<in> set ts. tgt_StageID t = sim_stage k"
  proof -
    have "length ts = length ts0" "map tgt_StageID ts = map tgt_StageID ts0"
      using applied ApplyAck_length [of ts0] ApplyAck_stages [of ts0] by (metis snd_conv)+
    then show "length ts \<le> n" "\<forall>t \<in> set ts. tgt_StageID t = sim_stage k"
      using un unfolding ts0(1) uncovered_def by (simp, metis (no_types, lifting) list.set_map imageE imageI)
  qed
  have w3: "w_rollouts w3 = (w_rollouts w)\<lparr>rms_targets := rms_targets (w_rollouts w3)\<rparr>" "stage_targets w3 i k = ts"
      "j \<noteq> k \<Longrightarrow> j < 3 \<Longrightarrow> stage_targets w3 i j = stage_targets w i j" "w_agents w3 = w_agents w" "w_tick w \<le> w_tick w3" for j
  proof -
    have "if counted then w3 = tick ((tick w2)\<lparr>w_rollouts := (w_rollouts (tick w2))\<lparr>rms_targets := gomap_set (targetKey i (sim_stage k)) ts (rms_targets (w_rollouts (tick w2)))\<rparr>\<rparr>)
        else w3 = tick w2 \<and> ts = ts0"
      using replaced store_Inr(5) [of ?orc i "sim_stage k" ts "tick w2" "()" w3] ApplyAck_not_counted [of ts0 _ ts] applied fields
      by (auto simp: r0 w_now_def retM_def split: if_splits)
    then show "w_rollouts w3 = (w_rollouts w)\<lparr>rms_targets := rms_targets (w_rollouts w3)\<rparr>" "stage_targets w3 i k = ts"
      "j \<noteq> k \<Longrightarrow> j < 3 \<Longrightarrow> stage_targets w3 i j = stage_targets w i j" "w_agents w3 = w_agents w" "w_tick w \<le> w_tick w3"
      using ts0 sim_stage_inj [OF _ k(1), of j] by (auto simp: stage_targets_def tick_def split: if_splits)
  qed
  have still: "ss = sim_stages" "w4 = tick w3" using store_Inr(3) [OF stages] k(2) w3(1) fields by (simp_all add: r0, metis option.inject ro_MemoryStore.select_convs(3) ro_MemoryStore.surjective ro_MemoryStore.update_convs(4))
  have "rms_rollouts (w_rollouts w3) = [(i, r)]" "stored_stages w3 i = Some sim_stages"
    by (subst w3(1), simp add: r(1) k(2))+
  moreover have "deploying ?orc i k (w_tick w4) r" using r(2) w3(5) unfolding deploying_def still(2) by (auto intro: order_trans le_SucI)
  ultimately have in4: "in_stage ?orc n i k (tick w4)" and r4: "deploying ?orc i k (w_tick w4) r" "rms_rollouts (w_rollouts (tick w4)) = [(i, r)]"
    using in_k w3(3,4) unfolding in_stage_def still(2) by (auto simp: stage_targets_def deploying_def intro: le_SucI)
  obtain d r1 w5 r2 where parts: "evaluateStageDecision (rollouts_service cfg) r ts (sim_stages ! k) w4 = (Inr (d, r1), w5)"
      "act_on_decision (rollouts_service cfg) d r1 sim_stages w5 = (Inr r2, w')"
    using decided fields unfolding r0 still(1) by auto
  note dec = stage_decision_run [OF assms(1) r4(1) k(1) parts(1)]
  show ?thesis
  proof (cases "CoverageReached ts (Fin 100)")
    case False
    then have "w' = tick w4" using dec parts(2) by (simp add: act_on_decision_def retM_def)
    then have "at_stage ?orc n i k w'" using in4 ts False w3(2) by (simp add: at_stage_def uncovered_def stage_targets_def still(2))
    then show ?thesis by simp
  next
    case True
    then have "counted" using ApplyAck_not_counted [of ts0 _ ts] applied un ts0(1) by (cases counted) (auto simp: uncovered_def)
    then have "aki_StageID input = sim_stage k" using ApplyAck_counted [of ts0 _ ts] applied un ts0(1) by (auto simp: uncovered_def)
    moreover have "if k = 2 then completed i w' else at_stage ?orc n i (Suc k) w'"
      by (rule promote_run [OF in4 assms(2) r4(2)]) (use True dec parts(2) in \<open>simp add: act_on_decision_def\<close>)
    ultimately show ?thesis by simp
  qed
qed

text \<open>What a round makes of a rollout at the stage \<open>k\<close>: the next stage, or its end after the last one.\<close>

definition moved :: "Oracle \<Rightarrow> nat \<Rightarrow> string \<Rightarrow> nat \<Rightarrow> World \<Rightarrow> bool" where
  "moved orc n i k w \<longleftrightarrow> (if k = 2 then completed i w else at_stage orc n i (Suc k) w)"

definition in_round :: "Oracle \<Rightarrow> nat \<Rightarrow> string \<Rightarrow> nat \<Rightarrow> World \<Rightarrow> bool" where
  "in_round orc n i k w \<longleftrightarrow> k < 3 \<and> (at_stage orc n i k w \<or> moved orc n i k w)"

lemma Acknowledge_completed:
  assumes "completed i w"
  shows "ro_Acknowledge (rollouts_service cfg) input w \<noteq> (Inr x, w')"
proof
  assume "ro_Acknowledge (rollouts_service cfg) input w = (Inr x, w')"
  then obtain r w1 where get: "st_GetRollout (world_rollout_store (cfg_oracle cfg)) (aki_RolloutID input) w = (Inr r, w1)" and "\<not> Terminal (ro_State r)"
    unfolding ro_Acknowledge_def rollouts_service_sel bindM_Inr [of "st_GetRollout _ _"] by (auto simp: raiseM_Inr split: if_splits)
  then show False using store_Inr(1) [OF get] assms by (auto simp: completed_def gomap_get_def split: if_splits)
qed

lemma in_round_same:
  assumes "in_round orc n i k w" "same_rollouts w w'"
  shows "in_round orc n i k w'"
  using assms at_stage_same [of orc n i _ w w'] by (auto simp: in_round_def moved_def completed_def same_rollouts_def)

lemma Acknowledge_in_round:
  assumes "steady (cfg_oracle cfg)" "n \<le> 2 ^ 40" "in_round (cfg_oracle cfg) n i k w" "aki_StageID input = sim_stage k"
    and run: "ro_Acknowledge (rollouts_service cfg) input w = (Inr x, w')"
  shows "in_round (cfg_oracle cfg) n i k w'"
proof (cases "at_stage (cfg_oracle cfg) n i k w")
  case True
  then show ?thesis using Acknowledge_run [OF assms(1,2) True run] assms(3) by (auto simp: in_round_def moved_def)
next
  case False
  then have "moved (cfg_oracle cfg) n i k w" using assms(3) by (simp add: in_round_def)
  then have next_stage: "k \<noteq> 2" "at_stage (cfg_oracle cfg) n i (Suc k) w"
    using Acknowledge_completed [of i w cfg input x w'] run by (auto simp: moved_def split: if_splits)
  then have "Suc k < 3" by (simp add: at_stage_def in_stage_def)
  then have "aki_StageID input \<noteq> sim_stage (Suc k)" using sim_stage_inj [of k "Suc k"] assms(4) by simp
  then show ?thesis using Acknowledge_run [OF assms(1,2) next_stage(2) run] assms(3) next_stage(1) by (auto simp: in_round_def moved_def)
qed

lemma ack_loop_in_round:
  assumes "steady (cfg_oracle cfg)" "n \<le> 2 ^ 40"
  shows "ack_loop cfg pending s = (Inr l, s') \<Longrightarrow> in_round (cfg_oracle cfg) n i k (sim_world s) \<Longrightarrow> \<forall>a \<in> set pending. pa_StageID a = sim_stage k \<Longrightarrow>
    in_round (cfg_oracle cfg) n i k (sim_world s')"
proof (induction pending arbitrary: s l)
  case (Cons a pending)
  obtain t s1 g s2 x s3 d s4 l' where steps: "sim_now cfg s = (Inr t, s1)"
      "sim_on (ag_Acknowledge (agent_service cfg) \<lparr>gai_AgentID = pa_AgentID a, gai_Token = pa_Token a, gai_ConfigDefinitionID = pa_ConfigDefinitionID a,
         gai_VersionID = pa_VersionID a, gai_SnapshotRevision = pa_SnapshotRevision a\<rparr>) s1 = (Inr g, s2)"
      "sim_on (ro_Acknowledge (rollouts_service cfg) \<lparr>aki_RolloutID = pa_RolloutID a, aki_StageID = pa_StageID a, aki_AgentID = pa_AgentID a,
         aki_VersionID = pa_VersionID a, aki_SnapshotRevision = pa_SnapshotRevision a\<rparr>) s2 = (Inr x, s3)"
      "sim_since cfg t s3 = (Inr d, s4)" "ack_loop cfg pending s4 = (Inr l', s')"
    using Cons.prems(1) by (auto simp: bindM_Inr retM_Inr)
  have "in_round (cfg_oracle cfg) n i k (sim_world s1)"
    using sim_now_run [OF steps(1)] by (simp add: in_round_same [OF Cons.prems(2)])
  then have "in_round (cfg_oracle cfg) n i k (sim_world s2)"
    by (rule in_round_same) (use undisturbedD [OF undisturbed_Acknowledge] sim_on_run [OF steps(2)] in blast)
  then have "in_round (cfg_oracle cfg) n i k (sim_world s3)"
    by (rule Acknowledge_in_round [OF assms]) (use Cons.prems(3) sim_on_run [OF steps(3)] in auto)
  then have "in_round (cfg_oracle cfg) n i k (sim_world s4)"
    by (rule in_round_same) (simp add: sim_since_run [OF steps(4)])
  then show ?case by (rule Cons.IH [OF steps(5)]) (use Cons.prems(3) in simp)
qed (simp add: retM_Inr)

subsection \<open>The snapshots of a stage\<close>

text \<open>While the workers read their snapshots, the rollouts stay as they are and only acknowledgements of the stage are collected.\<close>

definition collecting :: "World \<Rightarrow> string \<Rightarrow> Sim \<Rightarrow> bool" where
  "collecting w stageID s \<longleftrightarrow> same_rollouts w (sim_world s) \<and> (\<forall>a \<in> set (sim_pending s). pa_StageID a = stageID)"

lemma collecting_tick: "collecting w stageID s \<Longrightarrow> collecting w stageID (s\<lparr>sim_world := tick (sim_world s)\<rparr>)"
  using same_rollouts_trans [OF _ same_rollouts_tick] by (simp add: collecting_def)

lemma pending_for_stage: "a \<in> set (pending_for agent stageID snapshot) \<Longrightarrow> pa_StageID a = stageID"
  by (auto simp: pending_for_def)

lemma collecting_action:
  assumes "d < 2" "collecting w stageID s" "(snapshot_job cfg stageID agents i ! d) s = (r, s')"
  shows "collecting w stageID s'"
proof (cases d)
  case 0
  then show ?thesis
    using assms(3) collecting_tick [OF assms(2)] by (auto simp: snapshot_job_def note_started_def bindM_def sim_do_def sim_now_def sim_on_def effM_def w_now_def collecting_def)
next
  case (Suc d')
  obtain x w1 where read: "DynamicSnapshotStore_GetSnapshot (snapshot_store cfg [''payments'']) (va_ID (agents ! i)) (sim_world s) = (x, w1)" by fastforce
  have "same_rollouts w w1" using undisturbedD [OF undisturbed_GetSnapshot read] assms(2) same_rollouts_trans by (auto simp: collecting_def)
  then have "same_rollouts w (tick w1)" by (rule same_rollouts_trans) simp
  then show ?thesis
    using assms(1-3) read Suc pending_for_stage [of _ "agents ! i" stageID]
    by (auto simp: snapshot_job_def note_latency_def tryM_def bindM_def raiseM_def sim_do_def sim_now_def sim_on_def effM_def w_now_def collecting_def split: sum.splits)
qed

interpretation snapshot_frame: pool_jobs n "snapshot_job cfg stageID agents" "collecting w stageID" "\<lambda>_ _ _. True" for n cfg stageID agents w
  by (unfold_locales, unfold snapshot_job_length) (use collecting_action in blast)+

lemma acknowledgeStage_in_round:
  assumes "steady (cfg_oracle cfg)" "n \<le> 2 ^ 40" "in_round (cfg_oracle cfg) n i k (sim_world s)"
    and run: "acknowledgeStage sched cfg (sim_stage k) c s = (Inr x, s')"
  shows "in_round (cfg_oracle cfg) n i k (sim_world s')"
proof -
  define s0 where "s0 = s\<lparr>sim_started := replicate (length (sim_agents s)) 0, sim_latencies := replicate (length (sim_agents s)) 0, sim_pending := []\<rparr>"
  have start: "collecting (sim_world s) (sim_stage k) s0" by (simp add: s0_def collecting_def same_rollouts_def)
  obtain s1 l where pool: "sim_parallel sched (int (length (sim_agents s))) c (snapshot_job cfg (sim_stage k) (sim_agents s)) s0 = (Inr (), s1)"
    and acks: "ack_loop cfg (sim_pending s1) s1 = (Inr l, s')"
    using run unfolding acknowledgeStage_def Let_def s0_def by (auto simp: bindM_Inr retM_Inr sim_do_def)
  have "collecting (sim_world s) (sim_stage k) s1"
    using wpD_Inr [OF snapshot_frame.parallel_rule [OF start] pool [unfolded sim_parallel_def]] by simp
  then show ?thesis
    using ack_loop_in_round [OF assms(1,2) acks] in_round_same [OF assms(3)] by (simp add: collecting_def)
qed

subsection \<open>The world before the rollout\<close>

text \<open>While the agents register there is no rollout, and no agent but those of the run.\<close>

definition enrolling :: "nat \<Rightarrow> World \<Rightarrow> bool" where
  "enrolling n w \<longleftrightarrow> w_rollouts w = ro_NewMemoryStore \<and> gomap_ok (ams_agents (w_agents w)) \<and> fst ` set (ams_agents (w_agents w)) \<subseteq> sim_agent_id ` {..<n}"

lemma enrolling_length:
  assumes "enrolling n w"
  shows "length (ams_agents (w_agents w)) \<le> n"
proof -
  have "length (ams_agents (w_agents w)) = card (fst ` set (ams_agents (w_agents w)))"
    using assms by (metis enrolling_def gomap_ok_def distinct_card length_map list.set_map)
  also have "\<dots> \<le> card (sim_agent_id ` {..<n})" using assms by (intro card_mono) (auto simp: enrolling_def)
  also have "\<dots> \<le> n" using card_image_le [of "{..<n}" sim_agent_id] by simp
  finally show ?thesis .
qed

lemma enrolling_tick [simp]: "enrolling n (tick w) = enrolling n w"
  by (simp add: enrolling_def)

lemma gomap_set_keys: "fst ` set (gomap_set k v m) = insert k (fst ` set m)"
  unfolding gomap_set_def by (induction m) auto

lemma wp_on_agents: "wp (on_agents orc f) Q E w = wp (f (w_ctx orc w)) (\<lambda>a s. Q a (tick (w\<lparr>w_agents := s\<rparr>))) (\<lambda>e s. E e (tick (w\<lparr>w_agents := s\<rparr>))) (w_agents w)"
  by (simp add: wp_def on_agents_def on_cell_def split: prod.splits sum.splits)

lemma enrolling_stores:
  "enrolling n w \<Longrightarrow> agent_ID a \<in> sim_agent_id ` {..<n} \<Longrightarrow> wp (as_SaveAgent (world_agent_store orc) a) (\<lambda>_. enrolling n) (\<lambda>_. enrolling n) w"
  "enrolling n w \<Longrightarrow> wp (as_SaveCredential (world_agent_store orc) c) (\<lambda>_. enrolling n) (\<lambda>_. enrolling n) w"
  unfolding world_agent_store_sel wp_on_agents
  by (auto simp: wp_def ag_mem_SaveAgent_def ag_mem_SaveCredential_def enrolling_def gomap_set_keys split: option.splits)

lemma enrolling_Register:
  assumes "enrolling n w" "rgi_ID input \<in> sim_agent_id ` {..<n}"
  shows "wp (ag_Register (agent_service cfg) input) (\<lambda>_. enrolling n) (\<lambda>_. enrolling n) w"
proof -
  have id: "rgi_ID input \<noteq> []" using assms(2) by (auto simp: sim_agent_id_def)
  show ?thesis
    unfolding ag_Register_def agent_service_sel Let_def
    using assms by (auto simp: wp_simps id w_now_def w_newID_def intro!: wp_mono [OF enrolling_stores(1)] enrolling_stores(2) split: option.split)
qed

lemma enrolling_action:
  assumes "i < n" "d < 2" "enrolling n (sim_world s)" "(register_job cfg o' i ! d) s = (r, s')"
  shows "enrolling n (sim_world s')"
proof (cases d)
  case 0
  then show ?thesis
    using assms(3,4) by (auto simp: register_job_def note_started_def bindM_def sim_do_def sim_now_def sim_on_def effM_def w_now_def)
next
  case (Suc d')
  obtain x w1 where run: "ag_Register (agent_service cfg) (register_input o' i) (sim_world s) = (x, w1)" by fastforce
  have "rgi_ID (register_input o' i) \<in> sim_agent_id ` {..<n}" using assms(1) by (simp add: register_input_def)
  from enrolling_Register [OF assms(3) this, of cfg] run have "enrolling n w1" by (auto simp: wp_def split: sum.splits)
  then show ?thesis
    using assms(2,4) run Suc
    by (auto simp: register_job_def note_latency_def tryM_def bindM_def raiseM_def sim_do_def sim_now_def sim_on_def effM_def w_now_def split: sum.splits)
qed

interpretation register_frame: pool_jobs n "register_job cfg o'" "\<lambda>s. enrolling n (sim_world s)" "\<lambda>_ _ _. True" for n cfg o'
  by (unfold_locales, unfold register_job_length) (use enrolling_action in blast)+

lemma undisturbed_seed: "undisturbed (seed_registry cfg description author env)"
  unfolding seed_registry_def Let_def world_config_store_sel by (intro undisturbed_rules)

lemma setup_enrolling: "setup_simulation cfg o' s = (Inr u, s') \<Longrightarrow> enrolling n (sim_world s')"
  using undisturbedD [OF undisturbed_seed, of cfg _ _ _ "new_stores (sim_world s)"]
  by (auto simp: setup_simulation_def bindM_Inr sim_do_def sim_on_def enrolling_def same_rollouts_def new_stores_def ag_NewMemoryStore_def split: prod.splits)

lemma registerAgents_enrolling:
  assumes "enrolling (nat (opt_AgentCount o')) (sim_world s)" "registerAgents sched cfg o' s = (Inr l, s')"
  shows "enrolling (nat (opt_AgentCount o')) (sim_world s')" "0 \<le> opt_AgentCount o'"
proof -
  let ?n = "nat (opt_AgentCount o')"
  define s0 where "s0 = s\<lparr>sim_agents := replicate ?n \<lparr>va_ID = [], va_Token = []\<rparr>, sim_started := replicate ?n 0, sim_latencies := replicate ?n 0\<rparr>"
  have pool: "sim_parallel sched (opt_AgentCount o') (opt_Concurrency o') (register_job cfg o') s0 = (Inr (), s')" and pos: "0 \<le> opt_AgentCount o'"
    using assms(2) by (auto simp: registerAgents_def raiseM_Inr bindM_Inr sim_do_def s0_def split: if_splits)
  then have "parallel (sched (w_tick (sim_world s0))) (int ?n) (opt_Concurrency o') (register_job cfg o') s0 = (Inr (), s')" by (simp add: sim_parallel_def)
  moreover have "enrolling ?n (sim_world s0)" using assms(1) by (simp add: s0_def)
  ultimately show "enrolling ?n (sim_world s')" using wpD_Inr [OF register_frame.parallel_rule] by blast
  show "0 \<le> opt_AgentCount o'" by (rule pos)
qed

text \<open>The rollout of a run begins at the first stage.\<close>

lemma CreateRollout_run:
  assumes "enrolling n w" "n \<le> 2 ^ 40"
    and run: "ro_CreateRollout (rollouts_service cfg) (sim_rollout_input o') w = (Inr (r, ts), w')"
  shows "at_stage (cfg_oracle cfg) n (ro_ID r) 0 w'"
proof -
  obtain def w1 vs w2 candidate state w3 w4 where reads: "cr_GetDefinition (registry_service cfg) ''payments'' ''payment.failure_rate'' w = (Inr def, w1)"
      "cr_ListVersions (registry_service cfg) ''payments'' ''payment.failure_rate'' w1 = (Inr vs, w2)"
      "cr_GetEnvironmentState (registry_service cfg) ''payments'' ''payment.failure_rate'' (opt_Environment o') w2 = (Inr state, w3)"
    and r: "r = new_rollout (sim_rollout_input o') sim_stages def candidate state (orc_now (cfg_oracle cfg) (w_tick w3))
         (randomID ''rollout'' (orc_entropy (cfg_oracle cfg) (Suc (w_tick w3))))"
    and create: "st_CreateRollout (world_rollout_store (cfg_oracle cfg)) r sim_stages (tick (tick w3)) = (Inr (), w4)"
    and activate: "activateStage (rollouts_service cfg) r (sim_stages ! 0) (cri_TargetServices (sim_rollout_input o')) w4 = (Inr ts, w')"
    using run
    by (auto simp: ro_CreateRollout_def Let_def bindM_Inr retM_Inr raiseM_Inr checkM_Inr now_Inr newID_Inr create_stages_def split: if_splits option.splits)
      (auto simp: sim_rollout_input_def tick_def)
  have "same_rollouts w w3"
    using undisturbedD [OF undisturbed_reads(2) reads(1)] undisturbedD [OF undisturbed_reads(4) reads(2)] undisturbedD [OF undisturbed_reads(5) reads(3)]
    by (blast intro: same_rollouts_trans)
  then have w3: "w_rollouts w3 = ro_NewMemoryStore" "length (ams_agents (w_agents w3)) \<le> n"
    using assms(1) enrolling_length [OF assms(1)] by (simp_all add: same_rollouts_def enrolling_def)
  note made = store_Inr(8) [OF create]
  have i: "nul_free (ro_ID r)" using randomID_nul_free [of "''rollout''"] by (simp add: r new_rollout_def nul_free_def nul_def)
  have n4: "length (ams_agents (w_agents w4)) \<le> n" and empty: "stage_targets w4 (ro_ID r) j = []" for j
    using made w3 by (simp_all add: stage_targets_def ro_NewMemoryStore_def gomap_slice_def gomap_get_def)
  note act = activate_run [OF activate refl i n4 assms(2) empty]
  have "deploying (cfg_oracle cfg) (ro_ID r) 0 t r" if "w_tick w4 \<le> t" for t
    using made that by (auto simp: deploying_def r new_rollout_def sim_rollout_input_def sim_stage_def sim_stages_def f64_eq_def Minute_def Second_def intro!: exI [of _ "w_tick w3"])
  moreover have "rms_rollouts (w_rollouts w4) = [(ro_ID r, r)]" "stored_stages w4 (ro_ID r) = Some sim_stages"
    using made w3 by (simp_all add: ro_NewMemoryStore_def gomap_set_def gomap_get_def)
  moreover have "stage_targets w' (ro_ID r) j = []" if "0 < j" "j < 3" for j using act(6) [of j] that empty by simp
  ultimately show ?thesis using act(1-5) i by (auto simp: at_stage_def in_stage_def)
qed

subsection \<open>The loop over the stages\<close>

lemma GetRollout_coverage:
  assumes "sim_on (ro_GetRollout (rollouts_service cfg) i) s = (Inr (r, ts, cov), s')"
  shows "stored_rollout (sim_world s) i = Some r" "same_rollouts (sim_world s) (sim_world s')"
    "cov = AcknowledgementCoverage (gomap_slice (rms_targets (w_rollouts (sim_world s))) (targetKey (ro_ID r) (ro_CurrentStageID r)))"
proof -
  have "ro_GetRollout (rollouts_service cfg) i (sim_world s) = (Inr (r, ts, cov), sim_world s')" using sim_on_run [OF assms] by simp
  then obtain w1 where get: "st_GetRollout (world_rollout_store (cfg_oracle cfg)) i (sim_world s) = (Inr r, w1)"
      and list: "st_ListStageTargets (world_rollout_store (cfg_oracle cfg)) (ro_ID r) (ro_CurrentStageID r) w1 = (Inr ts, sim_world s')"
      and cov: "cov = AcknowledgementCoverage ts"
    by (auto simp: ro_GetRollout_def bindM_Inr retM_Inr)
  show "stored_rollout (sim_world s) i = Some r" "same_rollouts (sim_world s) (sim_world s')"
    "cov = AcknowledgementCoverage (gomap_slice (rms_targets (w_rollouts (sim_world s))) (targetKey (ro_ID r) (ro_CurrentStageID r)))"
    using store_Inr(1) [OF get] store_Inr(2) [OF list] cov by (simp_all add: same_rollouts_def)
qed

lemma uncovered_percentage:
  assumes "\<not> CoverageReached ts (Fin 100)" "length ts \<le> 2 ^ 40"
  shows "f64_lt (cov_Percentage (AcknowledgementCoverage ts)) (Fin 100)"
proof (cases "ts = []")
  case False
  then have len: "0 < length ts" "length ts < 2 ^ 53" using assms(2) by auto
  have "cov_Percentage (AcknowledgementCoverage ts) = Fin (percent (acked_count ts) (length ts))"
    using percent_facts(1) [OF acked_count_le len] False by (simp add: AcknowledgementCoverage_def acked_loop_count Let_def)
  then show ?thesis using assms(1) False len(2) by (simp add: CoverageReached_percent)
qed (simp add: AcknowledgementCoverage_def)

text \<open>What a run reports of the stages from \<open>k\<close> on, and what a round adds.\<close>

definition stage_row :: "StageResult \<Rightarrow> string \<times> string \<times> string" where
  "stage_row x = (sgr_StageID x, sgr_NextState x, sgr_NextStage x)"

definition stage_rows :: "nat \<Rightarrow> (string \<times> string \<times> string) list" where
  "stage_rows k = drop k
     [(''stage-5'', ''DEPLOYING'', ''stage-25''), (''stage-25'', ''DEPLOYING'', ''stage-100''), (''stage-100'', ''COMPLETED'', ''stage-100'')]"

lemma stage_rows_next: "k < 3 \<Longrightarrow> (sim_stage k, if k = 2 then ''COMPLETED'' else ''DEPLOYING'', sim_stage (if k = 2 then 2 else Suc k)) # stage_rows (Suc k) = stage_rows k"
  by (auto simp: stage_rows_def sim_stage_def sim_stages_def sim_rollout_input_def less_Suc_eq numeral_eq_Suc)

lemma at_stage_rollout:
  assumes "at_stage orc n i k w" "stored_rollout w j = Some r"
  shows "j = i" "ro_ID r = i" "ro_State r = StateDeploying" "ro_CurrentStageID r = sim_stage k" "ro_RequiredAckPercent r = Fin 100" "k < 3"
  using assms by (auto simp: at_stage_def in_stage_def deploying_def gomap_get_def split: if_splits)

lemma stages_loop_ends:
  assumes "steady (cfg_oracle cfg)" "n \<le> 2 ^ 40"
  shows "stages_loop fuel sched cfg o' i p s = (Inr out, s') \<Longrightarrow> at_stage (cfg_oracle cfg) n i k (sim_world s) \<Longrightarrow> 3 \<le> fuel + k \<Longrightarrow>
    completed i (sim_world s') \<and> (\<exists>p'. out = Some p' \<and> map stage_row (prg_stages p') = map stage_row (prg_stages p) @ stage_rows k)"
proof (induction fuel arbitrary: k p s)
  case 0
  then show ?case by (simp add: at_stage_def in_stage_def)
next
  case (Suc fuel)
  from Suc.prems(1) show ?case
  proof (cases rule: stages_loop_round)
    case (ended active targets cov)
    then show ?thesis using at_stage_rollout(3) [OF Suc.prems(2) GetRollout_coverage(1) [OF ended(1)]] by simp
  next
    case (round active targets cov s1 t s2 snapshots acks s3 updated ts cov' s4 d s5)
    note one = GetRollout_coverage [OF round(1)] and two = GetRollout_coverage [OF round(5)]
    note active = at_stage_rollout [OF Suc.prems(2) one(1)]
    have "at_stage (cfg_oracle cfg) n i k (sim_world s2)"
      using at_stage_same [OF at_stage_same [OF Suc.prems(2) one(2)] same_rollouts_tick] sim_now_run [OF round(3)] by simp
    then have "in_round (cfg_oracle cfg) n i k (sim_world s2)" using active(6) by (simp add: in_round_def)
    then have "in_round (cfg_oracle cfg) n i k (sim_world s3)"
      by (rule acknowledgeStage_in_round [OF assms _ round(4) [unfolded active(4)]])
    moreover have "\<not> at_stage (cfg_oracle cfg) n i k (sim_world s3)"
    proof
      assume at: "at_stage (cfg_oracle cfg) n i k (sim_world s3)"
      note updated = at_stage_rollout [OF at two(1)]
      have "uncovered n i k (stage_targets (sim_world s3) i k)" using at by (simp add: at_stage_def)
      then have "f64_lt (cov_Percentage cov') (Fin 100)"
        using uncovered_percentage [of "stage_targets (sim_world s3) i k"] assms(2) two(3) updated by (simp add: uncovered_def stage_targets_def)
      then show False using round(8) active updated by simp
    qed
    ultimately have moved: "moved (cfg_oracle cfg) n i k (sim_world s3)" by (simp add: in_round_def)
    have s5: "same_rollouts (sim_world s3) (sim_world s5)"
      using same_rollouts_trans [OF two(2) same_rollouts_tick] sim_since_run [OF round(6)] by simp
    let ?p = "stage_progress p active targets updated snapshots acks d"
    show ?thesis
    proof (cases "k = 2")
      case True
      then obtain r where r: "rms_rollouts (w_rollouts (sim_world s3)) = [(i, r)]" "ro_State r = StateCompleted" "ro_CurrentStageID r = sim_stage 2"
        using moved by (auto simp: moved_def completed_def)
      then have "updated = r" using two(1) by (simp add: gomap_get_def)
      then have over: "out = Some ?p" "s' = s5" using round(7) r(2) by simp_all
      have "map stage_row (prg_stages ?p) = map stage_row (prg_stages p) @ stage_rows k"
        using stage_rows_next [of k] True active(4) r \<open>updated = r\<close> by (simp add: stage_progress_def stage_row_def) (simp add: stage_rows_def)
      moreover have "completed i (sim_world s')" using r s5 unfolding over by (simp add: completed_def same_rollouts_def)
      ultimately show ?thesis using over by blast
    next
      case False
      then have at: "at_stage (cfg_oracle cfg) n i (Suc k) (sim_world s3)" using moved by (simp add: moved_def)
      note updated = at_stage_rollout [OF at two(1)]
      have loop: "stages_loop fuel sched cfg o' i ?p s5 = (Inr out, s')" using round(8) updated(3) by simp
      have row: "map stage_row (prg_stages ?p) @ stage_rows (Suc k) = map stage_row (prg_stages p) @ stage_rows k"
        using stage_rows_next [OF active(6)] False active(4) updated by (simp add: stage_progress_def stage_row_def)
      from Suc.IH [OF loop at_stage_same [OF at s5]] Suc.prems(3) show ?thesis unfolding row by simp
    qed
  qed
qed

subsection \<open>Property\<close>

text \<open>C35 (termination). A simulation comes to an end: on a clock that never runs backwards over a run of less than five minutes, with at most
  \<open>2 ^ 40\<close> agents, three rounds are enough for every interleaving of the workers, every failure and every random source. A run that returns no error has
  therefore a result: the three stages in order, the first two followed by the next one and the last by completion; a snapshot read per agent and stage; the
  acknowledgements its stages report together; and a stored rollout that is completed, as the result says.\<close>

theorem simulation_ends:
  assumes "steady orc" "opt_AgentCount (normalizeOptions o') \<le> 2 ^ 40" "3 \<le> fuel"
  shows "wp (simulator_Run fuel sched js orc o')
    (\<lambda>out s'. \<exists>r. out = Some r \<and>
       srs_RegisteredAgents r = opt_AgentCount (normalizeOptions o') \<and>
       map va_ID (sim_agents s') = map sim_agent_id [0..<nat (srs_RegisteredAgents r)] \<and>
       map (\<lambda>x. (sgr_StageID x, sgr_NextState x, sgr_NextStage x)) (srs_StageResults r) =
         [(''stage-5'', ''DEPLOYING'', ''stage-25''), (''stage-25'', ''DEPLOYING'', ''stage-100''), (''stage-100'', ''COMPLETED'', ''stage-100'')] \<and>
       srs_SnapshotReads r = 3 * srs_RegisteredAgents r \<and> srs_Acknowledgements r = sum_list (map sgr_Acked (srs_StageResults r)) \<and>
       srs_FinalState r = ''COMPLETED'' \<and> srs_FinalStage r = ''stage-100'' \<and>
       (\<exists>rollout. stored_rollout (sim_world s') (srs_RolloutID r) = Some rollout \<and> ro_State rollout = StateCompleted))
    (\<lambda>_ _. True) s"
proof (rule wpI)
  let ?o = "normalizeOptions o'" and ?cfg = "sim_config js orc"
  fix out s'
  assume run: "simulator_Run fuel sched js orc o' s = (Inr out, s')"
  note accounts = wpD_Inr [OF simulation_accounts_for_its_stages run]
  from run obtain r where "out = Some r" "map stage_row (srs_StageResults r) = stage_rows 0" "completed (srs_RolloutID r) (sim_world s')"
      "srs_FinalStage r = ''stage-100''"
  proof (cases rule: simulator_Run_parts)
    case (parts t s1 s2 registers s3 created ts s4 progress s5)
    note enrolled = registerAgents_enrolling [OF setup_enrolling [OF parts(1)] parts(2)]
    have n: "nat (opt_AgentCount ?o) \<le> 2 ^ 40" using assms(2) by simp
    have at: "at_stage (cfg_oracle ?cfg) (nat (opt_AgentCount ?o)) (ro_ID created) 0 (sim_world s4)"
      by (rule CreateRollout_run [OF enrolled(1) n]) (use sim_on_run [OF parts(3)] in blast)
    have "steady (cfg_oracle ?cfg)" using assms(1) by (simp add: sim_config_def)
    then obtain p where p: "progress = Some p" "map stage_row (prg_stages p) = stage_rows 0" "completed (ro_ID created) (sim_world s5)"
      using stages_loop_ends [OF _ n parts(4) at] assms(3) by auto
    obtain final ts' cov s6 d where final: "sim_on (ro_GetRollout (rollouts_service ?cfg) (ro_ID created)) s5 = (Inr (final, ts', cov), s6)"
        "sim_since ?cfg t s6 = (Inr d, s')" "out = Some (simulation_result ?o (length (sim_agents s')) created final registers p d)"
      using parts(6) [OF p(1)] by blast
    note get = GetRollout_coverage [OF final(1)]
    have "ro_CurrentStageID final = ''stage-100''"
      using p(3) get(1) by (auto simp: completed_def gomap_get_def sim_stage_def sim_stages_def sim_rollout_input_def split: if_splits)
    moreover have "completed (ro_ID created) (sim_world s')"
      using p(3) get(2) sim_since_run [OF final(2)] by (simp add: completed_def same_rollouts_def)
    ultimately show thesis by (intro that [OF final(3)]) (use p in \<open>simp_all add: simulation_result_def\<close>)
  qed
  note result = this
  obtain rollout where rollout: "stored_rollout (sim_world s') (srs_RolloutID r) = Some rollout" "ro_State rollout = StateCompleted"
    using result(3) by (auto simp: completed_def gomap_get_def)
  have rows: "map (\<lambda>x. (sgr_StageID x, sgr_NextState x, sgr_NextStage x)) (srs_StageResults r) = stage_rows 0"
    using result(2) by (simp add: stage_row_def [abs_def])
  have "length (srs_StageResults r) = 3" using arg_cong [OF rows, of length] by (simp add: stage_rows_def)
  then have counts: "srs_RegisteredAgents r = opt_AgentCount ?o" "map va_ID (sim_agents s') = map sim_agent_id [0..<nat (srs_RegisteredAgents r)]"
      "srs_SnapshotReads r = 3 * srs_RegisteredAgents r" "srs_Acknowledgements r = sum_list (map sgr_Acked (srs_StageResults r))"
    and final: "srs_FinalState r = ''COMPLETED''"
    using accounts rollout unfolding result(1) option.case by auto
  show "\<exists>r. out = Some r \<and>
       srs_RegisteredAgents r = opt_AgentCount ?o \<and>
       map va_ID (sim_agents s') = map sim_agent_id [0..<nat (srs_RegisteredAgents r)] \<and>
       map (\<lambda>x. (sgr_StageID x, sgr_NextState x, sgr_NextStage x)) (srs_StageResults r) =
         [(''stage-5'', ''DEPLOYING'', ''stage-25''), (''stage-25'', ''DEPLOYING'', ''stage-100''), (''stage-100'', ''COMPLETED'', ''stage-100'')] \<and>
       srs_SnapshotReads r = 3 * srs_RegisteredAgents r \<and> srs_Acknowledgements r = sum_list (map sgr_Acked (srs_StageResults r)) \<and>
       srs_FinalState r = ''COMPLETED'' \<and> srs_FinalStage r = ''stage-100'' \<and>
       (\<exists>rollout. stored_rollout (sim_world s') (srs_RolloutID r) = Some rollout \<and> ro_State rollout = StateCompleted)"
    by (rule exI [of _ r], intro conjI exI [of _ rollout])
      (fact result(1) counts rows [unfolded stage_rows_def drop0] final result(4) rollout)+
qed simp

text \<open>A clock that moves by a nanosecond for the first million of its readings, other bytes at every reading, no faults; a schema library that accepts everything.\<close>

definition calm_oracle :: Oracle where
  "calm_oracle = \<lparr>orc_now = (\<lambda>n. seed_time + int (min n 1000000)), orc_entropy = (\<lambda>n. map (\<lambda>i. of_nat (n div 256 ^ i)) [0..<12]), orc_ctx = (\<lambda>_. None),
     orc_query = (\<lambda>_ _ _. Inr (Fin 0)), orc_order = (\<lambda>_. [])\<rparr>"

definition lenient_jsonschema :: "(bytes, unit, bytes) jsonschema" where
  "lenient_jsonschema = \<lparr>js_UnmarshalJSON = Inr, js_NewCompiler = (), js_AddResource = (\<lambda>c _ _. Inr c), js_Compile = (\<lambda>_ _. Inr ''true''), js_Validate = (\<lambda>_ _. None)\<rparr>"

definition idle_sim :: Sim where
  "idle_sim = \<lparr>sim_world = initial_world, sim_agents = [], sim_started = [], sim_latencies = [], sim_pending = []\<rparr>"

definition fifty_agents :: Options where
  "fifty_agents = \<lparr>opt_AgentCount = 50, opt_Concurrency = 4, opt_Service = ''payments'', opt_Environment = ''production''\<rparr>"

lemma calm_steady: "steady calm_oracle"
  by (auto simp: steady_def calm_oracle_def Minute_def Second_def min_def)

theorem simulation_ends_witness:
  "wp (simulator_Run 3 (\<lambda>_ _. Return) lenient_jsonschema calm_oracle fifty_agents)
     (\<lambda>out _. \<exists>r. out = Some r \<and> srs_FinalState r = ''COMPLETED'' \<and> srs_RegisteredAgents r = 50) (\<lambda>_ _. True) idle_sim"
  by (rule wp_mono [OF simulation_ends [OF calm_steady]]) (auto simp: fifty_agents_def normalizeOptions_def)

end
