(* ===== verification/Programs.thy ===== *)
theory Programs
  imports Runtime Agent_Sync Prometheus Plane_Snapshots Scenario
begin

section \<open>The programs of cmd\<close>

text \<open>
  \<open>cmd/control-plane\<close>, \<open>cmd/data-plane\<close> and \<open>cmd/agent\<close>: what their environment makes of them. A store is taken as opened (the connection to
  PostgreSQL is \<open>pgx\<close>, a parameter), the services are wired over it as in the source, and the goroutines that run beside the HTTP server are the
  sequences of their rounds. \<open>os.Exit(1)\<close> is an error, whose text is in the log. Log records are not modelled.
\<close>

definition server_config :: "environ \<Rightarrow> string \<Rightarrow> string \<Rightarrow> string \<Rightarrow> HTTPServerConfig" where
  "server_config getenv service prefix1 addr =
     \<lparr>hsc_ServiceName = service, hsc_Addr = EnvString getenv (prefix1 @ ''_ADDR'') addr,
      hsc_ReadTimeout = EnvDuration getenv (prefix1 @ ''_READ_TIMEOUT'') (5 * Second),
      hsc_WriteTimeout = EnvDuration getenv (prefix1 @ ''_WRITE_TIMEOUT'') (10 * Second),
      hsc_IdleTimeout = EnvDuration getenv (prefix1 @ ''_IDLE_TIMEOUT'') (60 * Second),
      hsc_ShutdownTimeout = EnvDuration getenv (prefix1 @ ''_SHUTDOWN_TIMEOUT'') (10 * Second)\<rparr>"

definition exit_status :: "error option \<Rightarrow> int" where
  "exit_status err = (case err of None \<Rightarrow> 0 | Some _ \<Rightarrow> 1)"

text \<open>The pool of connections: opened by \<open>pgxpool.New\<close>, which need not connect, and asked by \<open>Ping\<close>, which closes it when there is no answer.\<close>

record 'pool pgxpool =
  pgx_New :: "string \<Rightarrow> error + 'pool"
  pgx_Ping :: "'pool \<Rightarrow> error option"

definition pg_NewStore :: "'pool pgxpool \<Rightarrow> string \<Rightarrow> error + 'pool" where
  "pg_NewStore pgx databaseURL =
     (case pgx_New pgx databaseURL of
        Inl err \<Rightarrow> Inl err
      | Inr pool \<Rightarrow> (case pgx_Ping pgx pool of Some err \<Rightarrow> Inl err | None \<Rightarrow> Inr pool))"

definition pg_Check :: "'pool pgxpool \<Rightarrow> 'pool \<Rightarrow> 'w Checker" where
  "pg_Check pgx pool = checkM (pgx_Ping pgx pool)"

subsection \<open>control-plane\<close>

record 'w stores =
  sto_registry :: "'w cr_Store"
  sto_agents :: "'w ag_Store"
  sto_rollouts :: "'w ro_Store"
  sto_readiness :: "'w Checker"

definition openStores :: "environ \<Rightarrow> 'w stores \<Rightarrow> 'pool pgxpool \<Rightarrow> ('pool \<Rightarrow> 'w Checker \<Rightarrow> 'w stores) \<Rightarrow> error + 'w stores" where
  "openStores getenv memory pgx postgres =
     (let databaseURL = getenv ''DATABASE_URL'' in
      if databaseURL = [] then Inr (memory\<lparr>sto_readiness := StaticChecker\<rparr>)
      else map_sum id (\<lambda>pool. postgres pool (pg_Check pgx pool)) (pg_NewStore pgx databaseURL))"

text \<open>What a process shares among its services: the clock and the random source.\<close>

record 'w process =
  prc_now :: "'w \<Rightarrow> go_time \<times> 'w"
  prc_newID :: "string \<Rightarrow> 'w \<Rightarrow> string \<times> 'w"
  prc_url_Parse :: "string \<Rightarrow> error + url"
  prc_http_Get :: "duration \<Rightarrow> url \<Rightarrow> ('w, HttpResponse) M"

definition configureGuardrails :: "environ \<Rightarrow> 'w process \<Rightarrow> 'w ro_Service \<Rightarrow> 'w ro_Service" where
  "configureGuardrails getenv p rollouts =
     (let prometheusURL = getenv ''PROMETHEUS_URL'' in
      if prometheusURL = [] then rollouts
      else case NewPrometheusClient (prc_url_Parse p) (prc_http_Get p) prometheusURL (EnvDuration getenv ''PROMETHEUS_QUERY_TIMEOUT'' (2 * Second)) of
        Inl err \<Rightarrow> rollouts
      | Inr client \<Rightarrow> SetGuardrailQueryer (prometheus_Query (Some client)) rollouts)"

record 'w services =
  srv_registry :: "'w cr_Service"
  srv_agents :: "'w ag_Service"
  srv_rollouts :: "'w ro_Service"

definition wire_services :: "SchemaValidator \<Rightarrow> 'w process \<Rightarrow> string \<Rightarrow> duration \<Rightarrow> 'w stores \<Rightarrow> 'w services" where
  "wire_services validator p token ttl st =
     (let registry = \<lparr>crs_store = sto_registry st, crs_validator = validator, crs_now = prc_now p, crs_newID = prc_newID p\<rparr>;
          agents = ag_NewService (sto_agents st) token ttl (prc_now p) (prc_newID p);
          rollouts = ro_NewService (sto_rollouts st)
            \<lparr>rg_GetDefinition = cr_GetDefinition registry, rg_ListVersions = cr_ListVersions registry,
             rg_GetEnvironmentState = cr_GetEnvironmentState registry, rg_SetStableVersion = cr_SetStableVersion registry\<rparr>
            (ag_ListAgents agents) (prc_now p) (prc_newID p)
      in \<lparr>srv_registry = registry, srv_agents = agents, srv_rollouts = rollouts\<rparr>)"

definition control_plane_services :: "environ \<Rightarrow> SchemaValidator \<Rightarrow> 'w process \<Rightarrow> 'w stores \<Rightarrow> 'w services" where
  "control_plane_services getenv validator p st =
     (let s = wire_services validator p (EnvString getenv ''AGENT_BOOTSTRAP_TOKEN'' ''dev-bootstrap-token'')
            (EnvDuration getenv ''AGENT_CREDENTIAL_TTL'' (15 * Minute)) st
      in s\<lparr>srv_rollouts := configureGuardrails getenv p (srv_rollouts s)\<rparr>)"

text \<open>The reconciler: off for an interval that is not positive, otherwise a reconciliation per tick whose error is logged.\<close>

definition startRolloutReconciler :: "environ \<Rightarrow> duration option" where
  "startRolloutReconciler getenv =
     (let interval = EnvDuration getenv ''ROLLOUT_RECONCILE_INTERVAL'' (2 * Second) in if interval \<le> 0 then None else Some interval)"

fun reconcile_ticks :: "'w ro_Service \<Rightarrow> nat \<Rightarrow> 'w \<Rightarrow> 'w" where
  "reconcile_ticks rollouts 0 w = w"
| "reconcile_ticks rollouts (Suc n) w = reconcile_ticks rollouts n (snd (ro_ReconcileActive rollouts w))"

definition control_plane_main ::
  "environ \<Rightarrow> SchemaValidator \<Rightarrow> 'w process \<Rightarrow> 'w stores \<Rightarrow> 'pool pgxpool \<Rightarrow> ('pool \<Rightarrow> 'w Checker \<Rightarrow> 'w stores) \<Rightarrow> http_Server \<Rightarrow> server_case \<Rightarrow>
   int \<times> ('w services \<times> 'w Checker) option" where
  "control_plane_main getenv validator p memory pgx postgres server first =
     (case openStores getenv memory pgx postgres of
        Inl err \<Rightarrow> (1, None)
      | Inr st \<Rightarrow>
          (exit_status (RunHTTPServer server first (server_config getenv ''control-plane'' ''CONTROL_PLANE'' '':8080'')),
           Some (control_plane_services getenv validator p st, sto_readiness st)))"

subsection \<open>data-plane\<close>

fun split_on :: "char \<Rightarrow> string \<Rightarrow> string list" where
  "split_on c [] = [[]]"
| "split_on c (x # xs) = (if x = c then [] # split_on c xs else (case split_on c xs of part # parts \<Rightarrow> (x # part) # parts | [] \<Rightarrow> [[x]]))"

definition agentTokens :: "environ \<Rightarrow> (string, string) gomap" where
  "agentTokens getenv =
     (let agentID = getenv ''DATA_PLANE_AGENT_ID''; token = getenv ''DATA_PLANE_AGENT_TOKEN'' in
      if agentID = [] \<or> token = [] then [] else [(token, agentID)])"

definition tenantFilter :: "environ \<Rightarrow> string list" where
  "tenantFilter getenv =
     (let raw = getenv ''DATA_PLANE_TENANTS''; raw = (if raw = [] then getenv ''DATA_PLANE_TENANT_ID'' else raw) in
      if raw = [] then [] else filter (\<lambda>tenant. tenant \<noteq> []) (map TrimSpace (split_on CHR '','' raw)))"

definition seedSnapshot :: "environ \<Rightarrow> go_time \<Rightarrow> MemorySnapshotStore \<Rightarrow> MemorySnapshotStore" where
  "seedSnapshot getenv now store =
     (let agentID = getenv ''DATA_PLANE_AGENT_ID''; key = getenv ''DATA_PLANE_CONFIG_KEY''; val = getenv ''DATA_PLANE_CONFIG_VALUE'' in
      if agentID = [] \<or> key = [] \<or> val = [] then store
      else if \<not> json_Valid val then store
      else PutSnapshot agentID
        \<lparr>snap_Revision = 1, snap_GeneratedAt = now,
         snap_Configs =
           [\<lparr>si_ConfigDefinitionID = EnvString getenv ''DATA_PLANE_CONFIG_DEFINITION_ID'' ''cfg-dev'', si_Key = key,
             si_VersionID = EnvString getenv ''DATA_PLANE_CONFIG_VERSION_ID'' ''ver-dev'', si_Version = 1, si_Value = val,
             si_Checksum = Checksum val, si_Assignment = \<lparr>asg_RolloutID = [], asg_StageID = []\<rparr>\<rparr>]\<rparr> store)"

text \<open>The snapshots put into the store at the start are not changed later, so that the memory store reads them; \<open>ctx\<close> is the error of the request.\<close>

definition memory_handler :: "environ \<Rightarrow> go_time \<Rightarrow> ('w \<Rightarrow> error option) \<Rightarrow> 'w dp_Handler" where
  "memory_handler getenv now ctx =
     (let store = seedSnapshot getenv now NewMemorySnapshotStore in
      \<lparr>dph_store = (\<lambda>agentID w. (fst (MemorySnapshotStore_GetSnapshot (ctx w) agentID store), w)),
       dph_verifier = (\<lambda>token w. (StaticCredentialVerifier_Verify (agentTokens getenv) (ctx w) token, w))\<rparr>)"

definition dynamic_handler :: "environ \<Rightarrow> SchemaValidator \<Rightarrow> 'w process \<Rightarrow> 'w stores \<Rightarrow> 'w dp_Handler" where
  "dynamic_handler getenv validator p st =
     (let s = wire_services validator p [] (EnvDuration getenv ''AGENT_CREDENTIAL_TTL'' (15 * Minute)) st;
          snapshots = NewDynamicSnapshotStore
            \<lparr>rss_ListTenants = cr_ListTenants (srv_registry s), rss_ListDefinitions = cr_ListDefinitions (srv_registry s),
             rss_ListVersions = cr_ListVersions (srv_registry s), rss_GetEnvironmentState = cr_GetEnvironmentState (srv_registry s)\<rparr>
            (ag_GetAgent (srv_agents s)) (ro_ActiveRollout (srv_rollouts s)) (tenantFilter getenv) (prc_now p)
      in \<lparr>dph_store = DynamicSnapshotStore_GetSnapshot snapshots, dph_verifier = AgentCredentialVerifier_Verify (ag_Verify (srv_agents s))\<rparr>)"

definition openDataPlaneDependencies ::
  "environ \<Rightarrow> go_time \<Rightarrow> ('w \<Rightarrow> error option) \<Rightarrow> SchemaValidator \<Rightarrow> 'w process \<Rightarrow> 'pool pgxpool \<Rightarrow> ('pool \<Rightarrow> 'w stores) \<Rightarrow> error + 'w dp_Handler" where
  "openDataPlaneDependencies getenv now ctx validator p pgx postgres =
     (let databaseURL = getenv ''DATABASE_URL'' in
      if databaseURL = [] then Inr (memory_handler getenv now ctx)
      else map_sum id (\<lambda>pool. dynamic_handler getenv validator p (postgres pool)) (pg_NewStore pgx databaseURL))"

definition data_plane_main ::
  "environ \<Rightarrow> go_time \<Rightarrow> ('w \<Rightarrow> error option) \<Rightarrow> SchemaValidator \<Rightarrow> 'w process \<Rightarrow> 'pool pgxpool \<Rightarrow> ('pool \<Rightarrow> 'w stores) \<Rightarrow> http_Server \<Rightarrow> server_case \<Rightarrow>
   int \<times> 'w dp_Handler option" where
  "data_plane_main getenv now ctx validator p pgx postgres server first =
     (case openDataPlaneDependencies getenv now ctx validator p pgx postgres of
        Inl err \<Rightarrow> (1, None)
      | Inr handler \<Rightarrow>
          (exit_status (RunHTTPServer server first (server_config getenv ''data-plane'' ''DATA_PLANE'' '':8081'')), Some handler))"

subsection \<open>agent\<close>

record agentIdentity =
  aid_id :: string
  aid_credential :: string

definition hostname :: "error + string \<Rightarrow> string" where
  "hostname os_Hostname = (case os_Hostname of Inl err \<Rightarrow> ''agent-local'' | Inr name \<Rightarrow> if name = [] then ''agent-local'' else name)"

definition registerAgent :: "'n HttpClient \<Rightarrow> environ \<Rightarrow> string \<Rightarrow> string \<Rightarrow> ('n, agent_RegisterResult) M" where
  "registerAgent client getenv controlPlaneURL agentID =
     client_Register client controlPlaneURL
       \<lparr>ari_BootstrapToken = getenv ''AGENT_BOOTSTRAP_TOKEN'', ari_ID = agentID,
        ari_Service = EnvString getenv ''AGENT_SERVICE'' (EnvString getenv ''SERVICE_NAME'' ''payment-service''),
        ari_Environment = EnvString getenv ''AGENT_ENVIRONMENT'' (EnvString getenv ''ENVIRONMENT'' ''production''),
        ari_Zone = getenv ''AGENT_ZONE'', ari_Instance = EnvString getenv ''AGENT_INSTANCE'' agentID, ari_Labels = []\<rparr>"

definition resolveIdentity :: "'n HttpClient \<Rightarrow> environ \<Rightarrow> error + string \<Rightarrow> string \<Rightarrow> 'n \<Rightarrow> agentIdentity \<times> 'n" where
  "resolveIdentity client getenv os_Hostname controlPlaneURL net =
     (let ident = \<lparr>aid_id = EnvString getenv ''AGENT_ID'' (hostname os_Hostname), aid_credential = getenv ''AGENT_INSTANCE_CREDENTIAL''\<rparr> in
      if aid_credential ident \<noteq> [] \<or> controlPlaneURL = [] then (ident, net)
      else case registerAgent client getenv controlPlaneURL (aid_id ident) net of
        (Inl err, net) \<Rightarrow> (ident, net)
      | (Inr result, net) \<Rightarrow> (\<lparr>aid_id = arr_AgentID result, aid_credential = arr_InstanceCredential result\<rparr>, net))"

definition acknowledger :: "'n HttpClient \<Rightarrow> string \<Rightarrow> 'n Acknowledger option" where
  "acknowledger client controlPlaneURL =
     (if controlPlaneURL = [] then None else Some (ControlPlaneAcknowledger_Acknowledge client controlPlaneURL))"

definition startRemoteSync :: "'n HttpClient \<Rightarrow> environ \<Rightarrow> string \<Rightarrow> string \<Rightarrow> agentIdentity \<Rightarrow> 'n Syncer option" where
  "startRemoteSync client getenv dataPlaneURL controlPlaneURL ident =
     (if dataPlaneURL = [] \<or> aid_id ident = [] \<or> aid_credential ident = [] then None
      else Some
        \<lparr>sy_Client = \<lparr>scl_BaseURL = dataPlaneURL, scl_AgentID = aid_id ident, scl_Token = aid_credential ident\<rparr>, sy_Http = client,
         sy_Acknowledger = acknowledger client controlPlaneURL, sy_PollInterval = EnvDuration getenv ''AGENT_POLL_INTERVAL'' (2 * Second)\<rparr>)"

text \<open>The agent after some rounds of its synchronisation, or without one.\<close>

definition agent_main ::
  "'n HttpClient \<Rightarrow> environ \<Rightarrow> error + string \<Rightarrow> (string, bytes) gomap \<Rightarrow> Os \<Rightarrow> error option \<Rightarrow> Round list \<Rightarrow> http_Server \<Rightarrow> server_case \<Rightarrow> 'n \<Rightarrow>
   int \<times> 'n SyncState" where
  "agent_main client getenv os_Hostname files os ctx rounds server first net =
     (let controlPlaneURL = getenv ''CONTROL_PLANE_URL'' in
      case resolveIdentity client getenv os_Hostname controlPlaneURL net of
        (ident, net) \<Rightarrow>
          let w = started (EnvString getenv ''AGENT_CACHE_PATH'' ''var/safeconfig/snapshot.json'') files os ctx net in
          (exit_status (RunHTTPServer server first (server_config getenv ''agent'' ''AGENT'' '':8082'')),
           case startRemoteSync client getenv (getenv ''DATA_PLANE_URL'') controlPlaneURL ident of
             None \<Rightarrow> w
           | Some syncer \<Rightarrow> snd (snd (syncer_Run syncer rounds w))))"

section \<open>What the programs do\<close>

text \<open>The control plane of \<open>Control_World\<close> is the program with the in-memory stores.\<close>

definition world_stores :: "Oracle \<Rightarrow> World stores" where
  "world_stores orc =
     \<lparr>sto_registry = world_config_store orc, sto_agents = world_agent_store orc, sto_rollouts = world_rollout_store orc, sto_readiness = StaticChecker\<rparr>"

definition world_process :: "Oracle \<Rightarrow> (string \<Rightarrow> error + url) \<Rightarrow> (duration \<Rightarrow> url \<Rightarrow> (World, HttpResponse) M) \<Rightarrow> World process" where
  "world_process orc parse get = \<lparr>prc_now = w_now orc, prc_newID = w_newID orc, prc_url_Parse = parse, prc_http_Get = get\<rparr>"

definition control_config :: "environ \<Rightarrow> SchemaValidator \<Rightarrow> Oracle \<Rightarrow> Config" where
  "control_config getenv validator orc =
     \<lparr>cfg_validator = validator, cfg_bootstrapToken = EnvString getenv ''AGENT_BOOTSTRAP_TOKEN'' ''dev-bootstrap-token'',
      cfg_credentialTTL = EnvDuration getenv ''AGENT_CREDENTIAL_TTL'' (15 * Minute), cfg_prometheus = False, cfg_oracle = orc\<rparr>"

lemma main_wires_the_modelled_services:
  assumes "getenv ''DATABASE_URL'' = []" "getenv ''PROMETHEUS_URL'' = []"
  shows "snd (control_plane_main getenv validator (world_process orc parse get) (world_stores orc) pgx postgres server first) =
    Some (\<lparr>srv_registry = registry_service (control_config getenv validator orc), srv_agents = agent_service (control_config getenv validator orc),
      srv_rollouts = rollouts_service (control_config getenv validator orc)\<rparr>, StaticChecker)"
  using assms
  by (simp add: control_plane_main_def openStores_def control_plane_services_def wire_services_def configureGuardrails_def world_stores_def
      world_process_def control_config_def registry_service_def agent_service_def rollouts_service_def rollout_registry_def Let_def)

text \<open>Its registration is never open: the bootstrap token has a default.\<close>

lemma bootstrap_token_set: "cfg_bootstrapToken (control_config getenv validator orc) \<noteq> []"
  by (simp add: control_config_def EnvString_def Let_def)

lemma ticks_reachable: "reachable cfg w \<Longrightarrow> reachable cfg (reconcile_ticks (rollouts_service cfg) n w)"
proof (induction n arbitrary: w)
  case (Suc n)
  have "reachable cfg (serve cfg CallReconcileActive w)" by (rule reachable.served [OF Suc.prems])
  then show ?case using Suc.IH by simp
qed simp

text \<open>An agent without a URL of the data plane, or without identity, only serves its cache: it sends nothing after its start.\<close>

lemma agent_without_sync:
  "getenv ''DATA_PLANE_URL'' = [] \<Longrightarrow> getenv ''CONTROL_PLANE_URL'' = [] \<Longrightarrow>
    ss_net (snd (agent_main client getenv os_Hostname files os ctx rounds server first net)) = net"
  by (simp add: agent_main_def resolveIdentity_def startRemoteSync_def started_def Let_def)

subsection \<open>The tenant filter\<close>

definition item_of :: "ConfigDefinition \<Rightarrow> SnapshotItem \<Rightarrow> bool" where
  "item_of x item \<longleftrightarrow> si_ConfigDefinitionID item = def_ID x \<and> si_Key item = def_Key x"

lemma snapshotItem_of: "snapshotItem s i x agent w = (Inr (Some (item, n)), w') \<Longrightarrow> item_of x item"
  by (auto simp: snapshotItem_def tryM_def bindM_Inr retM_def raiseM_def make_item_def item_of_def split: sum.splits prod.splits if_splits option.splits)

lemma definitions_loop_of:
  "definitions_loop s i agent xs revision items w = (Inr (revision', items'), w') \<Longrightarrow> item \<in> set items' \<Longrightarrow>
    item \<in> set items \<or> (\<exists>x \<in> set xs. item_of x item)"
proof (induction xs arbitrary: revision items w)
  case (Cons x xs)
  from Cons.prems(1) obtain found w1 where found: "snapshotItem s i x agent w = (Inr found, w1)"
    and rest: "(case found of None \<Rightarrow> definitions_loop s i agent xs revision items
      | Some (item, itemRevision) \<Rightarrow>
          definitions_loop s i agent xs (if revision < itemRevision then itemRevision else revision) (items @ [item])) w1 = (Inr (revision', items'), w')"
    by (auto simp: bindM_Inr)
  show ?case
  proof (cases found)
    case None
    then show ?thesis using Cons.IH [of revision items w1] rest Cons.prems(2) by auto
  next
    case (Some y)
    obtain new n where y: "y = (new, n)" by (cases y)
    then have "item \<in> set (items @ [new]) \<or> (\<exists>x \<in> set xs. item_of x item)"
      using Cons.IH [of "if revision < n then n else revision" "items @ [new]" w1] rest Cons.prems(2) Some by simp
    then show ?thesis using snapshotItem_of found Some y by auto
  qed
qed (simp add: retM_Inr)

context snapshot_sources
begin

definition from_tenants :: "'w \<Rightarrow> string list \<Rightarrow> SnapshotItem \<Rightarrow> bool" where
  "from_tenants w tenants item \<longleftrightarrow>
     (\<exists>i \<in> set tenants. \<exists>x. reg_defs (reg (snd (ab w))) (definitionKey i (def_Key x)) = Some x \<and> item_of x item)"

lemma definitions_loop_from:
  assumes "\<forall>x \<in> set xs. reg_defs (reg (snd (ab w))) (definitionKey i (def_Key x)) = Some x" "J w" "pointers_ok (reg (snd (ab w)))"
    and "items_ok (fst (ab w)) (reg (snd (ab w))) agent revision items"
  shows "wp (definitions_loop S i agent xs revision items)
    (\<lambda>(rev', items') w'. J w' \<and> ab w' = ab w \<and> items_ok (fst (ab w)) (reg (snd (ab w))) agent rev' items' \<and>
       (\<forall>item \<in> set items'. item \<in> set items \<or> from_tenants w [i] item))
    (\<lambda>_ w'. J w' \<and> ab w' = ab w) w"
proof (rule wpI)
  fix y w' assume run: "definitions_loop S i agent xs revision items w = (Inr y, w')"
  obtain rev' items' where y: "y = (rev', items')" by (cases y)
  have "item \<in> set items \<or> from_tenants w [i] item" if "item \<in> set items'" for item
    using definitions_loop_of [OF run [unfolded y] that] assms(1) by (auto simp: from_tenants_def)
  then show "(case y of (rev', items') \<Rightarrow> \<lambda>w'. J w' \<and> ab w' = ab w \<and> items_ok (fst (ab w)) (reg (snd (ab w))) agent rev' items' \<and>
       (\<forall>item \<in> set items'. item \<in> set items \<or> from_tenants w [i] item)) w'"
    using wpD_Inr [OF definitions_loop_spec [OF assms] run] y by auto
next
  fix e w' assume "definitions_loop S i agent xs revision items w = (Inl e, w')"
  then show "J w' \<and> ab w' = ab w" using wpD_Inl [OF definitions_loop_spec [OF assms]] by blast
qed

lemma tenants_loop_from:
  assumes "J w" "pointers_ok (reg (snd (ab w)))" "items_ok (fst (ab w)) (reg (snd (ab w))) agent revision items"
  shows "wp (tenants_loop S agent is revision items)
    (\<lambda>(rev', items') _. \<forall>item \<in> set items'. item \<in> set items \<or> from_tenants w is item) (\<lambda>_ _. True) w"
  using assms
proof (induction "is" arbitrary: w revision items)
  case (Cons i "is")
  have more: "from_tenants w (i # is) item" if "from_tenants w' is item \<or> from_tenants w [i] item" "ab w' = ab w" for w' item
    using that by (auto simp: from_tenants_def)
  show ?case unfolding tenants_loop.simps wp_try
  proof (rule wp_contract [OF ListDefinitions Cons.prems(1) TrueI], goal_cases)
    case (1 xs w1)
    then have same: "ab w1 = ab w" by simp
    show ?case unfolding wp_bind
    proof (rule wp_mono [OF definitions_loop_from], goal_cases)
      case (5 y w2)
      obtain rev' items' where y: "y = (rev', items')" by (cases y)
      have "wp (tenants_loop S agent is rev' items') (\<lambda>(_, items'') _. \<forall>item \<in> set items''. item \<in> set items' \<or> from_tenants w2 is item) (\<lambda>_ _. True) w2"
        by (rule Cons.IH) (use 5 y same Cons.prems in auto)
      then show ?case unfolding y prod.case
        by (rule wp_mono) (use 5 y same more in \<open>fastforce simp: from_tenants_def\<close>)+
    qed (use 1 same Cons.prems in auto)
  next
    case (2 e w1)
    have "wp (tenants_loop S agent is revision items) (\<lambda>(_, items') _. \<forall>item \<in> set items'. item \<in> set items \<or> from_tenants w1 is item) (\<lambda>_ _. True) w1"
      by (rule Cons.IH) (use 2 Cons.prems in auto)
    then have "wp (tenants_loop S agent is revision items) (\<lambda>(_, items') _. \<forall>item \<in> set items'. item \<in> set items \<or> from_tenants w (i # is) item) (\<lambda>_ _. True) w1"
      by (rule wp_mono) (use more [of w1] 2(2) in auto)
    then show ?case by (simp add: wp_raise)
  qed
qed (simp add: wp_simps)

lemma GetSnapshot_from:
  assumes "J w" "pointers_ok (reg (snd (ab w)))" "dss_tenants S \<noteq> []"
    and "DynamicSnapshotStore_GetSnapshot S i w = (Inr snap, w')" "item \<in> set (snap_Configs snap)"
  shows "from_tenants w (dss_tenants S) item"
proof -
  have "wp (DynamicSnapshotStore_GetSnapshot S i) (\<lambda>snap _. \<forall>item \<in> set (snap_Configs snap). from_tenants w (dss_tenants S) item) (\<lambda>_ _. True) w"
    unfolding DynamicSnapshotStore_GetSnapshot_def wp_try
  proof (rule wp_contract [OF GetAgent assms(1) TrueI], goal_cases)
    case (1 agent w1)
    have "wp (tenants_loop S agent (dss_tenants S) 1 [])
        (\<lambda>(_, items) _. \<forall>item \<in> set items. item \<in> set [] \<or> from_tenants w1 (dss_tenants S) item) (\<lambda>_ _. True) w1"
      by (rule tenants_loop_from) (use 1 assms(2) in \<open>auto simp: items_ok_def\<close>)
    then have "wp (tenants_loop S agent (dss_tenants S) 1 []) (\<lambda>(_, items) _. \<forall>item \<in> set items. from_tenants w (dss_tenants S) item) (\<lambda>_ _. True) w1"
      by (rule wp_mono) (use 1 in \<open>auto simp: from_tenants_def\<close>)
    then show ?case
      using assms(3) unfolding wp_bind snapshotTenants_def
      by (simp add: wp_simps) (erule wp_mono, auto simp: wp_simps)
  qed (simp add: wp_simps)
  then show ?thesis using assms(4,5) by (auto simp: wp_def)
qed

end

text \<open>C36 (safety). Tenants are kept apart: a data plane whose \<open>DATA_PLANE_TENANTS\<close> or \<open>DATA_PLANE_TENANT_ID\<close> names a tenant serves to any agent, in every reachable
  state, only items of definitions that belong to a tenant of this list, under the key of the definition.\<close>

theorem snapshots_stay_within_the_tenants:
  assumes "reachable cfg w" "tenantFilter getenv \<noteq> []"
    and "DynamicSnapshotStore_GetSnapshot (snapshot_store cfg (tenantFilter getenv)) i w = (Inr snap, w')" "item \<in> set (snap_Configs snap)"
  shows "\<exists>x. reg_defs (cr_abs (w_registry w)) (joined_key x) = Some x \<and> def_TenantID x \<in> set (tenantFilter getenv) \<and>
    si_ConfigDefinitionID item = def_ID x \<and> si_Key item = def_Key x"
proof -
  have J: "wJ w" and p: "pointers_ok (cr_abs (w_registry w))" using reachable_parts [OF assms(1)] by simp_all
  have tenants: "dss_tenants (snapshot_store cfg (tenantFilter getenv)) = tenantFilter getenv" by (simp add: snapshot_store_def NewDynamicSnapshotStore_def)
  have "snapshots.from_tenants w (tenantFilter getenv) item"
    using snapshots.GetSnapshot_from [OF J, of cfg "tenantFilter getenv" i snap w' item] p assms(2-4) by (simp add: tenants ab_ro_def)
  then obtain t x where x: "t \<in> set (tenantFilter getenv)" "reg_defs (cr_abs (w_registry w)) (definitionKey t (def_Key x)) = Some x" "item_of x item"
    by (auto simp: snapshots.from_tenants_def ab_ro_def)
  have "defs_ok (cr_abs (w_registry w))" using J by (simp add: wJ_def cr_mem_inv_def registry_ok_def)
  then have key: "joined_key x = definitionKey t (def_Key x)" using x(2) by (simp add: defs_ok_def)
  then have "def_TenantID x = t" by (simp add: joined_key_def definitionKey_def nul_join_def)
  then show ?thesis using x key by (intro exI [of _ x]) (auto simp: item_of_def)
qed

text \<open>The filter of a list with blanks, and the world of \<open>Scenario\<close> seen through it.\<close>

definition demo_environ :: environ where
  "demo_environ name = (if name = ''DATA_PLANE_TENANTS'' then '' x ,t,,'' else [])"

lemma demo_filter: "tenantFilter demo_environ = [''x'', ''t'']"
  by code_simp

declare Checksum_def [code del]

lemma demo_filtered:
  "let x = DynamicSnapshotStore_GetSnapshot (snapshot_store demo_config [''x'', ''t'']) ''a'' demo_world in
   case fst x of Inl _ \<Rightarrow> False | Inr snap \<Rightarrow> map si_Key (snap_Configs snap) = [''k'']"
  by code_simp

declare Checksum_def [code]

theorem snapshots_stay_within_the_tenants_witness:
  "\<exists>snap w' item. DynamicSnapshotStore_GetSnapshot (snapshot_store demo_config (tenantFilter demo_environ)) ''a'' demo_world = (Inr snap, w') \<and>
    item \<in> set (snap_Configs snap) \<and> (\<exists>x. reg_defs (cr_abs (w_registry demo_world)) (joined_key x) = Some x \<and>
      def_TenantID x \<in> set (tenantFilter demo_environ) \<and> si_ConfigDefinitionID item = def_ID x \<and> si_Key item = def_Key x)"
proof -
  define x where "x = DynamicSnapshotStore_GetSnapshot (snapshot_store demo_config [''x'', ''t'']) ''a'' demo_world"
  obtain snap where snap: "fst x = Inr snap" "map si_Key (snap_Configs snap) = [''k'']"
    using demo_filtered unfolding Let_def x_def [symmetric] by (cases "fst x") auto
  obtain item where item: "item \<in> set (snap_Configs snap)" using snap(2) by (cases "snap_Configs snap") auto
  have run: "DynamicSnapshotStore_GetSnapshot (snapshot_store demo_config (tenantFilter demo_environ)) ''a'' demo_world = (Inr snap, snd x)"
    using snap(1) unfolding demo_filter x_def [symmetric] by (cases x) simp
  have "tenantFilter demo_environ \<noteq> []" by (simp add: demo_filter)
  note served = snapshots_stay_within_the_tenants [OF demo_world_reachable this run item]
  show ?thesis by (rule exI, rule exI, rule exI) (rule conjI [OF run conjI [OF item served]])
qed

text \<open>A list of blanks only is the empty filter, which is no filter.\<close>

lemma blank_filter: "tenantFilter (\<lambda>_. '' , ,'') = []"
  by code_simp

end
