(* ===== verification/Serving.thy ===== *)
theory Serving
  imports Wire Programs
begin

section \<open>The servers on the network\<close>

text \<open>
  The bytes between the clients of \<open>internal/agent\<close> and the handlers of \<open>internal/controlplane\<close> and \<open>internal/dataplane\<close>: the routes as
  \<open>net/http\<close> matches them, the JSON text of the responses, and a network on which the two servers listen or do not. What the network adds is a
  parameter: the URLs of listeners, the check of a URL, the faults of connections, and the answer to a path that the multiplexer redirects.
\<close>

subsection \<open>JSON of the responses\<close>

definition json_bool :: "bool \<Rightarrow> string" where
  "json_bool b = (if b then ''true'' else ''false'')"

definition string_field :: "string \<Rightarrow> string \<Rightarrow> string" where
  "string_field name v = json_field name (json_string v)"

definition tenantResponse_json :: "tenantResponse \<Rightarrow> string" where
  "tenantResponse_json r = json_object
     ([string_field ''id'' (tres_ID r), string_field ''name'' (tres_Name r)] @ omitempty ''description'' (tres_Description r) @
      omitempty ''owner'' (tres_Owner r) @ [string_field ''created_at'' (tres_CreatedAt r), string_field ''updated_at'' (tres_UpdatedAt r)])"

definition definitionResponse_json :: "definitionResponse \<Rightarrow> error + string" where
  "definitionResponse_json r =
     (case json_raw (dres_Schema r) of Inl e \<Rightarrow> Inl e | Inr schema \<Rightarrow>
     (case json_raw (dres_DefaultValue r) of Inl e \<Rightarrow> Inl e | Inr default1 \<Rightarrow>
      Inr (json_object
       ([string_field ''id'' (dres_ID r), string_field ''tenant_id'' (dres_TenantID r), string_field ''key'' (dres_Key r)] @
        omitempty ''description'' (dres_Description r) @ [json_field ''schema'' schema] @
        (if dres_DefaultValue r = [] then [] else [json_field ''default'' default1]) @
        [string_field ''created_at'' (dres_CreatedAt r), string_field ''updated_at'' (dres_UpdatedAt r)]))))"

definition versionResponse_json :: "versionResponse \<Rightarrow> error + string" where
  "versionResponse_json r =
     (case json_raw (vres_Value r) of Inl e \<Rightarrow> Inl e | Inr v \<Rightarrow>
      Inr (json_object
       ([string_field ''id'' (vres_ID r), string_field ''config_definition_id'' (vres_ConfigDefinitionID r),
         json_field ''version_number'' (show_int (vres_VersionNumber r)), json_field ''value'' v] @
        omitempty ''source_commit_sha'' (vres_SourceCommitSHA r) @ omitempty ''created_by'' (vres_CreatedBy r) @
        [string_field ''created_at'' (vres_CreatedAt r)])))"

definition environmentStateResponse_json :: "environmentStateResponse \<Rightarrow> string" where
  "environmentStateResponse_json r = json_object
     ([string_field ''config_definition_id'' (sres_ConfigDefinitionID r), string_field ''environment'' (sres_Environment r),
       string_field ''stable_version_id'' (sres_StableVersionID r)] @ omitempty ''active_rollout_id'' (sres_ActiveRolloutID r) @
      [string_field ''updated_at'' (sres_UpdatedAt r)])"

definition agentResponse_json :: "agentResponse \<Rightarrow> string" where
  "agentResponse_json r = json_object
     ([string_field ''id'' (ares_ID r), string_field ''service'' (ares_Service r), string_field ''environment'' (ares_Environment r)] @
      omitempty ''zone'' (ares_Zone r) @ [string_field ''instance'' (ares_Instance r)] @
      (if ares_Labels r = [] then [] else [json_field ''labels'' (json_string_map (ares_Labels r))]) @
      [string_field ''registered_at'' (ares_RegisteredAt r), string_field ''last_seen_at'' (ares_LastSeenAt r)])"

definition registerAgentResponse_json :: "registerAgentResponse \<Rightarrow> string" where
  "registerAgentResponse_json r = json_object
     [json_field ''agent'' (agentResponse_json (rares_Agent r)), string_field ''instance_credential'' (rares_InstanceCredential r),
      string_field ''expires_at'' (rares_ExpiresAt r)]"

definition coverageResponse_json :: "coverageResponse \<Rightarrow> error + string" where
  "coverageResponse_json r =
     (case json_float64 (cres_Percentage r) of Inl e \<Rightarrow> Inl e | Inr percentage \<Rightarrow>
      Inr (json_object [json_field ''total'' (show_int (cres_Total r)), json_field ''acked'' (show_int (cres_Acked r)),
        json_field ''percentage'' percentage]))"

definition rolloutAckResponse_json :: "rolloutAckResponse \<Rightarrow> error + string" where
  "rolloutAckResponse_json r =
     (case coverageResponse_json (rakres_Coverage r) of Inl e \<Rightarrow> Inl e | Inr coverage \<Rightarrow>
      Inr (json_object [json_field ''counted'' (json_bool (rakres_Counted r)), string_field ''decision'' (rakres_Decision r),
        json_field ''coverage'' coverage]))"

definition acknowledgementResponse_json :: "acknowledgementResponse \<Rightarrow> error + string" where
  "acknowledgementResponse_json r =
     (case (case akres_Rollout r of None \<Rightarrow> Inr [] | Some x \<Rightarrow> map_sum id (\<lambda>t. [json_field ''rollout'' t]) (rolloutAckResponse_json x)) of
        Inl e \<Rightarrow> Inl e
      | Inr member \<Rightarrow>
          Inr (json_object
            ([string_field ''id'' (akres_ID r), string_field ''agent_id'' (akres_AgentID r),
              string_field ''config_definition_id'' (akres_ConfigDefinitionID r), string_field ''version_id'' (akres_VersionID r),
              json_field ''snapshot_revision'' (show_int (akres_SnapshotRevision r)), json_field ''counted'' (json_bool (akres_Counted r)),
              string_field ''created_at'' (akres_CreatedAt r)] @ member)))"

definition rolloutResponse_json :: "rolloutResponse \<Rightarrow> error + string" where
  "rolloutResponse_json r =
     (case coverageResponse_json (rores_Coverage r) of Inl e \<Rightarrow> Inl e | Inr coverage \<Rightarrow>
      Inr (json_object
       ([string_field ''id'' (rores_ID r), string_field ''config_definition_id'' (rores_ConfigDefinitionID r),
         string_field ''tenant_id'' (rores_TenantID r), string_field ''key'' (rores_Key r), string_field ''environment'' (rores_Environment r),
         string_field ''stable_version_id'' (rores_StableVersionID r), string_field ''candidate_version_id'' (rores_CandidateVersionID r),
         json_field ''candidate_version'' (show_int (rores_CandidateVersion r)), string_field ''state'' (rores_State r),
         string_field ''current_stage_id'' (rores_CurrentStageID r)] @ omitempty ''rollback_status'' (rores_RollbackStatus r) @
        [json_field ''coverage'' coverage, json_field ''targets'' (show_int (rores_Targets r))])))"

definition errorResponse_json :: "string \<Rightarrow> string \<Rightarrow> string" where
  "errorResponse_json code message = json_object [string_field ''error'' code, string_field ''message'' message]"

fun array_json :: "('a \<Rightarrow> error + string) \<Rightarrow> 'a list \<Rightarrow> error + string list" where
  "array_json f [] = Inr []"
| "array_json f (x # xs) =
     (case f x of Inl e \<Rightarrow> Inl e | Inr t \<Rightarrow> (case array_json f xs of Inl e \<Rightarrow> Inl e | Inr ts \<Rightarrow> Inr (t # ts)))"

fun cp_body_json :: "cp_body \<Rightarrow> error + string" where
  "cp_body_json (TenantBody r) = Inr (tenantResponse_json r)"
| "cp_body_json (TenantsBody rs) = Inr (json_array (map tenantResponse_json rs))"
| "cp_body_json (DefinitionBody r) = definitionResponse_json r"
| "cp_body_json (DefinitionsBody rs) = map_sum id json_array (array_json definitionResponse_json rs)"
| "cp_body_json (VersionBody r) = versionResponse_json r"
| "cp_body_json (VersionsBody rs) = map_sum id json_array (array_json versionResponse_json rs)"
| "cp_body_json (EnvironmentStateBody r) = Inr (environmentStateResponse_json r)"
| "cp_body_json (RegisterBody r) = Inr (registerAgentResponse_json r)"
| "cp_body_json (AgentBody r) = Inr (agentResponse_json r)"
| "cp_body_json (AcknowledgementBody r) = acknowledgementResponse_json r"
| "cp_body_json (RolloutBody r) = rolloutResponse_json r"
| "cp_body_json (FailureBody code message) = Inr (errorResponse_json code message)"

text \<open>The status and the headers are written first; an encoding that fails leaves the body empty.\<close>

definition writeJSON :: "int \<Rightarrow> string \<Rightarrow> error + string \<Rightarrow> HttpResponse" where
  "writeJSON status etag payload =
     \<lparr>hresp_StatusCode = status, hresp_ETag = etag,
      hresp_Body = (case payload of Inl e \<Rightarrow> [] | Inr t \<Rightarrow> t @ [CHR 0x0A], None)\<rparr>"

definition cp_response :: "cp_Response \<Rightarrow> HttpResponse" where
  "cp_response r = writeJSON (fst r) [] (cp_body_json (snd r))"

definition dp_response :: "dp_Response \<Rightarrow> HttpResponse" where
  "dp_response r =
     (let etag = (case rsp_ETag r of None \<Rightarrow> [] | Some t \<Rightarrow> t) in
      case rsp_Body r of
        NoBody \<Rightarrow> \<lparr>hresp_StatusCode = rsp_Status r, hresp_ETag = etag, hresp_Body = ([], None)\<rparr>
      | SnapshotBody snapshot \<Rightarrow> writeJSON (rsp_Status r) etag (Snapshot_Marshal snapshot)
      | ErrorBody code message \<Rightarrow> writeJSON (rsp_Status r) etag (Inr (errorResponse_json code message)))"

subsection \<open>net/http: the multiplexer\<close>

text \<open>
  A pattern matches segment by segment, each unescaped on its own; a wildcard takes one segment that is not empty. A path that is not clean is
  redirected. A pattern of GET takes HEAD too, whose response has no body.
\<close>

fun percent_decode :: "string \<Rightarrow> string option" where
  "percent_decode [] = Some []"
| "percent_decode (c # s) =
     (if c \<noteq> CHR ''%'' then map_option ((#) c) (percent_decode s)
      else case s of
        a # b # r \<Rightarrow>
          (case (hex_value a, hex_value b) of
             (Some x, Some y) \<Rightarrow> map_option ((#) (char_of (x * 16 + y))) (percent_decode r)
           | _ \<Rightarrow> None)
      | _ \<Rightarrow> None)"

definition path_segment :: "string \<Rightarrow> string" where
  "path_segment s = (case percent_decode s of None \<Rightarrow> s | Some t \<Rightarrow> t)"

definition clean_path :: "string \<Rightarrow> bool" where
  "clean_path path \<longleftrightarrow>
     (case path of
        c # rest \<Rightarrow> c = CHR ''/'' \<and> (let segs = split_on CHR ''/'' rest in [] \<notin> set (butlast segs) \<and> ''.'' \<notin> set segs \<and> ''..'' \<notin> set segs)
      | [] \<Rightarrow> False)"

datatype pattern = Lit string | Wild

fun match_segments :: "pattern list \<Rightarrow> string list \<Rightarrow> string list option" where
  "match_segments [] [] = Some []"
| "match_segments (Lit l # ps) (s # ss) = (if s = l then match_segments ps ss else None)"
| "match_segments (Wild # ps) (s # ss) = (if s = [] then None else map_option ((#) s) (match_segments ps ss))"
| "match_segments _ _ = None"

type_synonym 'w route = "string \<times> pattern list \<times> (string list \<Rightarrow> HttpRequest \<Rightarrow> ('w, HttpResponse) M)"

definition plain_response :: "int \<Rightarrow> string \<Rightarrow> HttpResponse" where
  "plain_response status message = \<lparr>hresp_StatusCode = status, hresp_ETag = [], hresp_Body = (message @ [CHR 0x0A], None)\<rparr>"

definition method_matches :: "string \<Rightarrow> string \<Rightarrow> bool" where
  "method_matches m method \<longleftrightarrow> m = method \<or> m = ''GET'' \<and> method = ''HEAD''"

definition without_body :: "HttpResponse \<Rightarrow> HttpResponse" where
  "without_body resp = resp\<lparr>hresp_Body := ([], None)\<rparr>"

fun find_route :: "'w route list \<Rightarrow> string \<Rightarrow> string list \<Rightarrow> (string list \<times> (string list \<Rightarrow> HttpRequest \<Rightarrow> ('w, HttpResponse) M)) option" where
  "find_route [] method segs = None"
| "find_route ((m, ps, handle) # routes) method segs =
     (case match_segments ps segs of
        Some vs \<Rightarrow> if method_matches m method then Some (vs, handle) else find_route routes method segs
      | None \<Rightarrow> find_route routes method segs)"

definition mux_serve :: "'w route list \<Rightarrow> (HttpRequest \<Rightarrow> ('w, HttpResponse) M) \<Rightarrow> string \<Rightarrow> HttpRequest \<Rightarrow> ('w, HttpResponse) M" where
  "mux_serve routes redirected path req =
     (if \<not> clean_path path then redirected req
      else
        let segs = map path_segment (split_on CHR ''/'' (drop 1 path)) in
        case find_route routes (hreq_Method req) segs of
          Some (vs, handle) \<Rightarrow>
            bindM (handle vs req) (\<lambda>resp. retM (if hreq_Method req = ''HEAD'' then without_body resp else resp))
        | None \<Rightarrow>
            retM (if list_ex (\<lambda>(m, ps, _). match_segments ps segs \<noteq> None) routes then plain_response 405 ''Method Not Allowed''
                  else plain_response 404 ''404 page not found''))"

subsection \<open>The two servers\<close>

definition header :: "string \<Rightarrow> HttpRequest \<Rightarrow> string" where
  "header name req = (case map_of (hreq_Header req) name of None \<Rightarrow> [] | Some v \<Rightarrow> v)"

definition health_routes :: "'w health_Handler \<Rightarrow> 'w route list" where
  "health_routes h =
     map (\<lambda>path. (''GET'', [Lit path], \<lambda>_ _.
         case health_route h (CHR ''/'' # path) of
           None \<Rightarrow> retM (plain_response 404 ''404 page not found'')
         | Some answer \<Rightarrow> bindM answer (\<lambda>(status, data). retM \<lparr>hresp_StatusCode = status, hresp_ETag = [], hresp_Body = (data, None)\<rparr>)))
       [''healthz'', ''livez'', ''readyz'']"

definition cp_routes :: "'w cp_Handler \<Rightarrow> 'w health_Handler \<Rightarrow> 'w route list" where
  "cp_routes h health =
     (let serve = (\<lambda>ep. bindM (cp_serve h ep) (\<lambda>r. retM (cp_response r)));
          v1 = Lit ''v1''; tenants = Lit ''tenants''; configs = Lit ''configs''; agents = Lit ''agents''
      in health_routes health @
       [(''POST'', [v1, tenants], \<lambda>vs req. serve (PostTenants (hreq_Body req, None))),
        (''GET'', [v1, tenants], \<lambda>vs req. serve GetTenants),
        (''GET'', [v1, tenants, Wild], \<lambda>vs req. serve (GetTenant (vs ! 0))),
        (''POST'', [v1, tenants, Wild, configs], \<lambda>vs req. serve (PostConfigs (vs ! 0) (hreq_Body req, None))),
        (''GET'', [v1, tenants, Wild, configs], \<lambda>vs req. serve (GetConfigs (vs ! 0))),
        (''GET'', [v1, tenants, Wild, configs, Wild], \<lambda>vs req. serve (GetConfig (vs ! 0) (vs ! 1))),
        (''POST'', [v1, tenants, Wild, configs, Wild, Lit ''versions''],
           \<lambda>vs req. serve (PostVersions (vs ! 0) (vs ! 1) (hreq_Body req, None))),
        (''GET'', [v1, tenants, Wild, configs, Wild, Lit ''versions''], \<lambda>vs req. serve (GetVersions (vs ! 0) (vs ! 1))),
        (''POST'', [v1, tenants, Wild, configs, Wild, Lit ''environments'', Wild, Lit ''stable''],
           \<lambda>vs req. serve (PostStable (vs ! 0) (vs ! 1) (vs ! 2) (hreq_Body req, None))),
        (''GET'', [v1, tenants, Wild, configs, Wild, Lit ''environments'', Wild, Lit ''stable''],
           \<lambda>vs req. serve (GetStable (vs ! 0) (vs ! 1) (vs ! 2))),
        (''POST'', [v1, agents, Lit ''register''], \<lambda>vs req. serve (PostRegister (hreq_Body req, None))),
        (''POST'', [v1, agents, Wild, Lit ''heartbeat''], \<lambda>vs req. serve (PostHeartbeat (vs ! 0) (header ''Authorization'' req))),
        (''POST'', [v1, agents, Wild, Lit ''acknowledgements''],
           \<lambda>vs req. serve (PostAcknowledgements (vs ! 0) (header ''Authorization'' req) (hreq_Body req, None))),
        (''POST'', [v1, Lit ''rollouts''], \<lambda>vs req. serve (PostRollouts (hreq_Body req, None))),
        (''GET'', [v1, Lit ''rollouts'', Wild], \<lambda>vs req. serve (GetRollout (vs ! 0)))])"

definition dp_routes :: "'w dp_Handler \<Rightarrow> 'w health_Handler \<Rightarrow> 'w route list" where
  "dp_routes h health =
     health_routes health @
     [(''GET'', [Lit ''v1'', Lit ''agents'', Wild, Lit ''snapshot''], \<lambda>vs req.
         bindM (dp_getSnapshot h (vs ! 0) (header ''Authorization'' req) (header ''If-None-Match'' req)) (\<lambda>r. retM (dp_response r)))]"

fun agent_body_json :: "agent_body \<Rightarrow> error + string" where
  "agent_body_json (AgentSnapshot snapshot) = Snapshot_Marshal snapshot"
| "agent_body_json (AgentConfig key version v) =
     map_sum id (\<lambda>t. json_object [string_field ''key'' key, json_field ''version'' (show_int version), json_field ''value'' t]) (json_raw v)"
| "agent_body_json (AgentFailure code message) = Inr (errorResponse_json code message)"

definition agent_response :: "int \<times> agent_body \<Rightarrow> HttpResponse" where
  "agent_response r = writeJSON (fst r) [] (agent_body_json (snd r))"

text \<open>The local endpoint of the agent, ready when the cache has a snapshot.\<close>

definition agent_routes :: "(Node \<Rightarrow> go_time \<times> Node) \<Rightarrow> Node route list" where
  "agent_routes now =
     (let serve = (\<lambda>answer. bindM answer (\<lambda>r. retM (agent_response r)))
      in health_routes (health_NewHandler ''agent'' (Some cache_Check) now) @
       [(''GET'', [Lit ''v1'', Lit ''snapshot''], \<lambda>vs req. serve agent_getSnapshot),
        (''GET'', [Lit ''v1'', Lit ''config'', Wild], \<lambda>vs req. serve (agent_getConfig (vs ! 0)))])"

text \<open>No path matches two patterns of the same method, so the order of the routes does not matter.\<close>

fun overlap :: "pattern list \<Rightarrow> pattern list \<Rightarrow> bool" where
  "overlap [] [] = True"
| "overlap (Lit l # ps) (Lit m # qs) = (l = m \<and> overlap ps qs)"
| "overlap (_ # ps) (_ # qs) = overlap ps qs"
| "overlap _ _ = False"

lemma match_overlap: "match_segments ps segs = Some vs \<Longrightarrow> match_segments qs segs = Some us \<Longrightarrow> overlap ps qs"
  by (induction ps segs arbitrary: vs us qs rule: match_segments.induct)
    (case_tac qs; auto split: if_splits; case_tac a; auto split: if_splits)+

lemma routes_disjoint:
  "sorted_wrt (\<lambda>(m, ps, _) (m', ps', _). \<not> (m = m' \<and> overlap ps ps')) (cp_routes h health)"
  "sorted_wrt (\<lambda>(m, ps, _) (m', ps', _). \<not> (m = m' \<and> overlap ps ps')) (dp_routes h' health)"
  "sorted_wrt (\<lambda>(m, ps, _) (m', ps', _). \<not> (m = m' \<and> overlap ps ps')) (agent_routes now)"
  by (simp_all add: cp_routes_def dp_routes_def agent_routes_def health_routes_def Let_def)

end
