(* ===== verification/Reliability.thy ===== *)
theory Reliability
  imports Serving Simulator
begin

section \<open>The reliability harness\<close>

text \<open>
  \<open>internal/reliability\<close>: a control plane and a data plane over one set of in-memory services, behind HTTP servers that the harness starts, stops
  and restarts, and the agents that talk to them with the clients of \<open>internal/agent\<close>. A request goes through the network of \<open>Serving\<close>: its
  bytes are routed, handled and answered by the modelled servers. A request that is served is one step, and so is the JSON around it.
\<close>

text \<open>
  What the network adds: the URL of the n-th listener, the check of \<open>net/url\<close> on the URL of a request, the fault of the n-th request, which may be
  lost before it is served or after, and the answer to a path that the multiplexer redirects.
\<close>

datatype Fault = Intact | RequestLost error | ResponseLost error

record Internet =
  net_URL :: "nat \<Rightarrow> string"
  net_NewRequest :: "string \<Rightarrow> error option"
  net_Fault :: "nat \<Rightarrow> Fault"
  net_Redirected :: "HttpRequest \<Rightarrow> (World, HttpResponse) M"

record HarnessOptions =
  hop_Service :: string
  hop_Environment :: Environment
  hop_TempDir :: string
  hop_Concurrency :: int

record AgentIdentity =
  hid_ID :: string
  hid_Token :: string

text \<open>The harness: its services are those of \<open>hn_config\<close> over \<open>hn_world\<close>, its servers the URLs they listen on.\<close>

record Harness =
  hn_config :: Config
  hn_options :: HarnessOptions
  hn_controlPlane :: "string option"
  hn_dataPlane :: "string option"
  hn_world :: World
  hn_servers :: nat
  hn_requests :: nat

definition hn_on :: "(World, 'a) M \<Rightarrow> (Harness, 'a) M" where
  "hn_on f h = (case f (hn_world h) of (r, w) \<Rightarrow> (r, h\<lparr>hn_world := w\<rparr>))"

definition hn_do :: "(Harness \<Rightarrow> Harness) \<Rightarrow> (Harness, unit) M" where
  "hn_do f h = (Inr (), f h)"

definition hn_get :: "(Harness \<Rightarrow> 'a) \<Rightarrow> (Harness, 'a) M" where
  "hn_get f h = (Inr (f h), h)"

definition hn_now :: "(Harness, go_time) M" where
  "hn_now h = hn_on (effM (w_now (cfg_oracle (hn_config h)))) h"

definition hn_since :: "go_time \<Rightarrow> (Harness, duration) M" where
  "hn_since t0 = bindM hn_now (\<lambda>now. retM (time_Sub now t0))"

subsection \<open>The network\<close>

definition control_server :: "Config \<Rightarrow> (HttpRequest \<Rightarrow> (World, HttpResponse) M) \<Rightarrow> string \<Rightarrow> HttpRequest \<Rightarrow> (World, HttpResponse) M" where
  "control_server cfg =
     mux_serve (cp_routes (control_handler cfg) (health_NewHandler ''control-plane'' (Some StaticChecker) (w_now (cfg_oracle cfg))))"

definition data_server :: "Config \<Rightarrow> (HttpRequest \<Rightarrow> (World, HttpResponse) M) \<Rightarrow> string \<Rightarrow> HttpRequest \<Rightarrow> (World, HttpResponse) M" where
  "data_server cfg =
     mux_serve (dp_routes (snapshot_handler cfg [''payments'']) (health_NewHandler ''data-plane'' (Some StaticChecker) (w_now (cfg_oracle cfg))))"

text \<open>The part of a URL after the address of a server: its path, up to a query or a fragment.\<close>

definition path_at :: "string \<Rightarrow> string \<Rightarrow> string option" where
  "path_at server url =
     (let rest = drop (length server) url in
      if take (length server) url = server \<and> (case rest of [] \<Rightarrow> True | c # _ \<Rightarrow> c \<in> set ''/?#'')
      then Some (takeWhile (\<lambda>c. c \<notin> set ''?#'') rest) else None)"

definition connection_refused :: error where
  "connection_refused = Foreign ''connection refused''"

definition listening :: "string option \<Rightarrow> string \<Rightarrow> string option" where
  "listening server url = (case server of None \<Rightarrow> None | Some s \<Rightarrow> path_at s url)"

definition serve_request :: "Internet \<Rightarrow> HttpRequest \<Rightarrow> (Harness, HttpResponse) M" where
  "serve_request net req h =
     (case listening (hn_controlPlane h) (hreq_URL req) of
        Some path \<Rightarrow> hn_on (control_server (hn_config h) (net_Redirected net) path req) h
      | None \<Rightarrow>
          (case listening (hn_dataPlane h) (hreq_URL req) of
             Some path \<Rightarrow> hn_on (data_server (hn_config h) (net_Redirected net) path req) h
           | None \<Rightarrow> (Inl connection_refused, h)))"

definition harness_Do :: "Internet \<Rightarrow> HttpRequest \<Rightarrow> (Harness, HttpResponse) M" where
  "harness_Do net req h =
     (let h' = h\<lparr>hn_requests := Suc (hn_requests h)\<rparr> in
      case net_Fault net (hn_requests h) of
        Intact \<Rightarrow> serve_request net req h'
      | RequestLost e \<Rightarrow> (Inl e, h')
      | ResponseLost e \<Rightarrow> (Inl e, snd (serve_request net req h')))"

definition harness_http :: "Internet \<Rightarrow> Harness HttpClient" where
  "harness_http net = \<lparr>hc_NewRequest = net_NewRequest net, hc_Do = harness_Do net\<rparr>"

subsection \<open>harness.go\<close>

definition bootstrapToken :: string where
  "bootstrapToken = ''reliability-bootstrap''"

definition FailureControlPlane :: string where
  "FailureControlPlane = ''control-plane''"

definition FailureDataPlane :: string where
  "FailureDataPlane = ''data-plane''"

definition harness_defaults :: "HarnessOptions \<Rightarrow> HarnessOptions" where
  "harness_defaults o' =
     (let o' = (if hop_Service o' = [] then o'\<lparr>hop_Service := ''payment-service''\<rparr> else o');
          o' = (if hop_Environment o' = [] then o'\<lparr>hop_Environment := EnvironmentProduction\<rparr> else o');
          o' = (if hop_TempDir o' = [] then o'\<lparr>hop_TempDir := ''.''\<rparr> else o') in
      if hop_Concurrency o' = 0 then o'\<lparr>hop_Concurrency := 16\<rparr> else o')"

definition harness_config :: "('doc, 'compiler, 'schema) jsonschema \<Rightarrow> Oracle \<Rightarrow> Config" where
  "harness_config js orc =
     \<lparr>cfg_validator = JSONSchemaValidator js, cfg_bootstrapToken = bootstrapToken, cfg_credentialTTL = 3600 * Second, cfg_prometheus = False,
      cfg_oracle = orc\<rparr>"

text \<open>The stores are new; the seed of the registry is the one of the simulator with another description and author.\<close>

definition NewHarness :: "('doc, 'compiler, 'schema) jsonschema \<Rightarrow> Oracle \<Rightarrow> HarnessOptions \<Rightarrow> World \<Rightarrow> (error + Harness) \<times> World" where
  "NewHarness js orc o' w =
     (let o' = harness_defaults o'; cfg = harness_config js orc in
      case seed_registry cfg ''Synthetic payment authorization failure rate used by reliability scenarios.'' ''reliability'' (hop_Environment o')
          (new_stores w) of
        (Inl e, w) \<Rightarrow> (Inl e, w)
      | (Inr _, w) \<Rightarrow>
          (Inr \<lparr>hn_config = cfg, hn_options = o', hn_controlPlane = None, hn_dataPlane = None, hn_world = w, hn_servers = 0, hn_requests = 0\<rparr>, w))"

definition harness_Close :: "Harness \<Rightarrow> Harness" where
  "harness_Close h = h\<lparr>hn_controlPlane := None, hn_dataPlane := None\<rparr>"

definition StartControlPlane :: "Internet \<Rightarrow> Harness \<Rightarrow> Harness" where
  "StartControlPlane net h =
     (case hn_controlPlane h of
        Some _ \<Rightarrow> h
      | None \<Rightarrow> h\<lparr>hn_controlPlane := Some (net_URL net (hn_servers h)), hn_servers := Suc (hn_servers h)\<rparr>)"

definition StartDataPlane :: "Internet \<Rightarrow> Harness \<Rightarrow> Harness" where
  "StartDataPlane net h =
     (case hn_dataPlane h of
        Some _ \<Rightarrow> h
      | None \<Rightarrow> h\<lparr>hn_dataPlane := Some (net_URL net (hn_servers h)), hn_servers := Suc (hn_servers h)\<rparr>)"

definition unknown_target :: "string \<Rightarrow> error" where
  "unknown_target target = Errorf ''unknown failure target: %s'' [FS target]"

definition InjectFailure :: "string \<Rightarrow> (Harness, unit) M" where
  "InjectFailure target h =
     (if target = FailureControlPlane then (Inr (), case hn_controlPlane h of None \<Rightarrow> h | Some _ \<Rightarrow> h\<lparr>hn_controlPlane := None\<rparr>)
      else if target = FailureDataPlane then (Inr (), case hn_dataPlane h of None \<Rightarrow> h | Some _ \<Rightarrow> h\<lparr>hn_dataPlane := None\<rparr>)
      else (Inl (unknown_target target), h))"

definition Recover :: "Internet \<Rightarrow> string \<Rightarrow> (Harness, unit) M" where
  "Recover net target h =
     (if target = FailureControlPlane then (Inr (), StartControlPlane net h)
      else if target = FailureDataPlane then (Inr (), StartDataPlane net h)
      else (Inl (unknown_target target), h))"

definition Restart :: "Internet \<Rightarrow> string \<Rightarrow> (Harness, unit) M" where
  "Restart net target = bindM (InjectFailure target) (\<lambda>_. Recover net target)"

definition ControlPlaneURL :: "(Harness, string) M" where
  "ControlPlaneURL h = (case hn_controlPlane h of None \<Rightarrow> Inl (Foreign ''control plane is not running'') | Some url \<Rightarrow> Inr url, h)"

definition DataPlaneURL :: "(Harness, string) M" where
  "DataPlaneURL h = (case hn_dataPlane h of None \<Rightarrow> Inl (Foreign ''data plane is not running'') | Some url \<Rightarrow> Inr url, h)"

definition harness_registration :: "HarnessOptions \<Rightarrow> string \<Rightarrow> agent_RegisterInput" where
  "harness_registration o' i =
     \<lparr>ari_BootstrapToken = bootstrapToken, ari_ID = i, ari_Service = hop_Service o', ari_Environment = hop_Environment o', ari_Zone = ''zone-1'',
      ari_Instance = i, ari_Labels = []\<rparr>"

definition RegisterAgent :: "Internet \<Rightarrow> string \<Rightarrow> (Harness, AgentIdentity) M" where
  "RegisterAgent net i =
     bindM ControlPlaneURL (\<lambda>baseURL.
     bindM (hn_get hn_options) (\<lambda>o'.
     bindM (client_Register (harness_http net) baseURL (harness_registration o' i)) (\<lambda>result.
     retM \<lparr>hid_ID = arr_AgentID result, hid_Token = arr_InstanceCredential result\<rparr>)))"

text \<open>The workers share the slice of identities; the servers do not change while they run.\<close>

definition on_harness :: "(Harness, 'a) M \<Rightarrow> (Harness \<times> 'x, 'a) M" where
  "on_harness f s = (case f (fst s) of (r, h) \<Rightarrow> (r, (h, snd s)))"

definition identity_name :: "string \<Rightarrow> nat \<Rightarrow> string" where
  "identity_name prefix1 index = prefix1 @ ''-'' @ pad 4 (int index + 1)"

definition identity_job :: "Internet \<Rightarrow> string \<Rightarrow> nat \<Rightarrow> (Harness \<times> AgentIdentity list, unit) M list" where
  "identity_job net prefix1 index =
     [bindM (on_harness (RegisterAgent net (identity_name prefix1 index))) (\<lambda>who.
      \<lambda>(h, agents). (Inr (), (h, agents[index := who])))]"

definition RegisterAgents :: "schedules \<Rightarrow> Internet \<Rightarrow> int \<Rightarrow> int \<Rightarrow> string \<Rightarrow> (Harness, AgentIdentity list) M" where
  "RegisterAgents sched net n concurrency prefix1 h =
     (if n < 1 then (Inl (Foreign ''agent count must be positive''), h)
      else
        let prefix1 = (if prefix1 = [] then ''agent'' else prefix1);
            agents = replicate (nat n) \<lparr>hid_ID = [], hid_Token = []\<rparr> in
        case runParallel (sched (w_tick (hn_world h))) n concurrency (identity_job net prefix1) (h, agents) of
          (Inl e, (h, _)) \<Rightarrow> (Inl e, h)
        | (Inr _, (h, agents)) \<Rightarrow> (Inr agents, h))"

definition heartbeat_request :: "string \<Rightarrow> AgentIdentity \<Rightarrow> HttpRequest" where
  "heartbeat_request baseURL who =
     \<lparr>hreq_Method = ''POST'', hreq_URL = baseURL @ ''/v1/agents/'' @ hid_ID who @ ''/heartbeat'',
      hreq_Header = [(''Authorization'', ''Bearer '' @ hid_Token who)], hreq_Body = []\<rparr>"

definition harness_Heartbeat :: "Internet \<Rightarrow> AgentIdentity \<Rightarrow> (Harness, unit) M" where
  "harness_Heartbeat net who =
     bindM ControlPlaneURL (\<lambda>baseURL.
     let req = heartbeat_request baseURL who in
     bindM (checkM (net_NewRequest net (hreq_URL req))) (\<lambda>_.
     bindM (harness_Do net req) (\<lambda>resp.
     if hresp_StatusCode resp \<noteq> 200 then raiseM (status_error ''heartbeat failed: status=%d body=%s'' resp) else retM ())))"

text \<open>\<open>filepath.Join\<close> without the lexical cleaning of the directory, which names the same file.\<close>

definition filepath_Join :: "string \<Rightarrow> string \<Rightarrow> string" where
  "filepath_Join dir name = (if dir = [] then name else dir @ ''/'' @ name)"

definition NewSyncer :: "Internet \<Rightarrow> AgentIdentity \<Rightarrow> (Harness, Harness Syncer \<times> SnapshotCache) M" where
  "NewSyncer net who =
     bindM DataPlaneURL (\<lambda>baseURL.
     bindM (hn_get hn_options) (\<lambda>o'.
     retM (\<lparr>sy_Client = \<lparr>scl_BaseURL = baseURL, scl_AgentID = hid_ID who, scl_Token = hid_Token who\<rparr>, sy_Http = harness_http net,
            sy_Acknowledger = None, sy_PollInterval = 0\<rparr>,
           NewSnapshotCache (filepath_Join (hop_TempDir o') (hid_ID who @ ''-snapshot.json'')))))"

definition CachedConfigValue :: "string \<Rightarrow> (Node, string \<times> int) M" where
  "CachedConfigValue key = bindM (cache_Config key) (\<lambda>item. retM (si_Value item, si_Version item))"

definition harness_rollout :: "HarnessOptions \<Rightarrow> CreateRolloutInput \<Rightarrow> CreateRolloutInput" where
  "harness_rollout o' input =
     (let input = (if cri_TenantID input = [] then input\<lparr>cri_TenantID := ''payments''\<rparr> else input);
          input = (if cri_Key input = [] then input\<lparr>cri_Key := ''payment.failure_rate''\<rparr> else input);
          input = (if cri_Environment input = [] then input\<lparr>cri_Environment := hop_Environment o'\<rparr> else input);
          input = (if cri_CandidateVersionNumber input = 0 then input\<lparr>cri_CandidateVersionNumber := 2\<rparr> else input);
          input = (if cri_TargetServices input = [] then input\<lparr>cri_TargetServices := [hop_Service o']\<rparr> else input);
          input = (if cri_RequiredAckPercentage input = Fin 0 then input\<lparr>cri_RequiredAckPercentage := Fin 100\<rparr> else input) in
      if cri_DeploymentTimeout input = 0 then input\<lparr>cri_DeploymentTimeout := 5 * Minute\<rparr> else input)"

definition harness_CreateRollout :: "CreateRolloutInput \<Rightarrow> (Harness, Rollout \<times> StageTarget list) M" where
  "harness_CreateRollout input h = hn_on (ro_CreateRollout (rollouts_service (hn_config h)) (harness_rollout (hn_options h) input)) h"

definition harness_GetRollout :: "string \<Rightarrow> (Harness, Rollout \<times> StageTarget list \<times> Coverage) M" where
  "harness_GetRollout i h = hn_on (ro_GetRollout (rollouts_service (hn_config h)) i) h"

definition harness_ReconcileActive :: "(Harness, unit) M" where
  "harness_ReconcileActive h = hn_on (ro_ReconcileActive (rollouts_service (hn_config h))) h"

text \<open>A queryer that reads the context of its call and the oracle: from now on the services ask it.\<close>

definition harness_SetGuardrailQueryer :: "(Oracle \<Rightarrow> nat \<Rightarrow> string \<Rightarrow> go_time \<Rightarrow> error + float64) \<Rightarrow> Harness \<Rightarrow> Harness" where
  "harness_SetGuardrailQueryer queryer h =
     (let cfg = hn_config h; orc = cfg_oracle cfg in
      h\<lparr>hn_config := cfg\<lparr>cfg_prometheus := True, cfg_oracle := orc\<lparr>orc_query := queryer orc\<rparr>\<rparr>\<rparr>)"

definition FetchSnapshot :: "Internet \<Rightarrow> AgentIdentity \<Rightarrow> (Harness, Snapshot) M" where
  "FetchSnapshot net who =
     bindM DataPlaneURL (\<lambda>baseURL.
     bindM (Fetch (harness_http net) \<lparr>scl_BaseURL = baseURL, scl_AgentID = hid_ID who, scl_Token = hid_Token who\<rparr> []) (\<lambda>result.
     retM (fr_Snapshot result)))"

definition AcknowledgeSnapshotItem :: "Internet \<Rightarrow> AgentIdentity \<Rightarrow> SnapshotItem \<Rightarrow> int \<Rightarrow> (Harness, unit) M" where
  "AcknowledgeSnapshotItem net who item revision =
     bindM ControlPlaneURL (\<lambda>baseURL. ControlPlaneAcknowledger_Acknowledge (harness_http net) baseURL (hid_ID who) (hid_Token who) item revision)"

text \<open>The registry has one definition, so that a snapshot has at most one item and the loop over the items of an agent is one action.\<close>

fun stage_ack_loop :: "Internet \<Rightarrow> AgentIdentity \<Rightarrow> string \<Rightarrow> int \<Rightarrow> SnapshotItem list \<Rightarrow> (Harness \<times> Snapshot list \<times> int, unit) M" where
  "stage_ack_loop net who stageID revision [] = retM ()"
| "stage_ack_loop net who stageID revision (item # items) =
     (if asg_StageID (si_Assignment item) \<noteq> stageID then stage_ack_loop net who stageID revision items
      else
        bindM (on_harness (AcknowledgeSnapshotItem net who item revision)) (\<lambda>_.
        bindM (\<lambda>(h, fetched, acknowledged). (Inr (), (h, fetched, acknowledged + 1))) (\<lambda>_.
        stage_ack_loop net who stageID revision items)))"

definition stage_ack_job :: "Internet \<Rightarrow> AgentIdentity list \<Rightarrow> string \<Rightarrow> nat \<Rightarrow> (Harness \<times> Snapshot list \<times> int, unit) M list" where
  "stage_ack_job net identities stageID index =
     (let who = identities ! index in
      [bindM (on_harness (FetchSnapshot net who)) (\<lambda>snapshot. \<lambda>(h, fetched, acknowledged). (Inr (), (h, fetched[index := snapshot], acknowledged))),
       \<lambda>(h, fetched, acknowledged).
         let snapshot = fetched ! index in
         stage_ack_loop net who stageID (snap_Revision snapshot) (snap_Configs snapshot) (h, fetched, acknowledged)])"

definition AcknowledgeAssignedStage :: "schedules \<Rightarrow> Internet \<Rightarrow> AgentIdentity list \<Rightarrow> string \<Rightarrow> int \<Rightarrow> (Harness, int) M" where
  "AcknowledgeAssignedStage sched net identities stageID concurrency h =
     (case runParallel (sched (w_tick (hn_world h))) (int (length identities)) concurrency (stage_ack_job net identities stageID)
         (h, replicate (length identities) zero_snapshot, 0) of
        (Inl e, (h, _)) \<Rightarrow> (Inl e, h)
      | (Inr _, (h, _, acknowledged)) \<Rightarrow> (Inr acknowledged, h))"

end
