(* ===== verification/Reliability_Scenarios.thy ===== *)
theory Reliability_Scenarios
  imports Reliability
begin

section \<open>The reliability scenarios\<close>

text \<open>
  \<open>result.go\<close>, \<open>runner.go\<close> and \<open>scenarios.go\<close> of \<open>internal/reliability\<close>: a runner that takes the steps of a scenario until one fails and
  reports them, and the four scenarios. The variables that the steps of a scenario share are a record of their own.
\<close>

subsection \<open>result.go and runner.go\<close>

record ScenarioEvent =
  sev_Name :: string
  sev_Passed :: bool
  sev_Duration :: duration
  sev_Error :: string

record ScenarioResult =
  scr_Name :: string
  scr_Passed :: bool
  scr_StartedAt :: go_time
  scr_Duration :: duration
  scr_Events :: "ScenarioEvent list"
  scr_Metrics :: "(string, int) gomap"
  scr_Timings :: "(string, duration) gomap"

definition zero_ScenarioResult :: ScenarioResult where
  "zero_ScenarioResult =
     \<lparr>scr_Name = [], scr_Passed = False, scr_StartedAt = 0, scr_Duration = 0, scr_Events = [], scr_Metrics = [], scr_Timings = []\<rparr>"

definition addMetric :: "string \<Rightarrow> int \<Rightarrow> ScenarioResult \<Rightarrow> ScenarioResult" where
  "addMetric name v r = r\<lparr>scr_Metrics := gomap_set name v (scr_Metrics r)\<rparr>"

definition addTiming :: "string \<Rightarrow> duration \<Rightarrow> ScenarioResult \<Rightarrow> ScenarioResult" where
  "addTiming name v r = r\<lparr>scr_Timings := gomap_set name v (scr_Timings r)\<rparr>"

record 'v Bench =
  bn_harness :: Harness
  bn_result :: ScenarioResult
  bn_vars :: 'v

record 'v Step =
  step_Name :: string
  step_Run :: "('v Bench, unit) M"

definition bn_on :: "(Harness, 'a) M \<Rightarrow> ('v Bench, 'a) M" where
  "bn_on f b = (case f (bn_harness b) of (r, h) \<Rightarrow> (r, b\<lparr>bn_harness := h\<rparr>))"

definition bn_do :: "('v Bench \<Rightarrow> 'v Bench) \<Rightarrow> ('v Bench, unit) M" where
  "bn_do f b = (Inr (), f b)"

definition bn_get :: "('v Bench \<Rightarrow> 'a) \<Rightarrow> ('v Bench, 'a) M" where
  "bn_get f b = (Inr (f b), b)"

definition metric :: "string \<Rightarrow> int \<Rightarrow> ('v Bench, unit) M" where
  "metric name v = bn_do (bn_result_update (addMetric name v))"

definition timing :: "string \<Rightarrow> duration \<Rightarrow> ('v Bench, unit) M" where
  "timing name v = bn_do (bn_result_update (addTiming name v))"

definition bn_clock :: "'v Bench \<Rightarrow> go_time \<times> 'v Bench" where
  "bn_clock b =
     (case w_now (cfg_oracle (hn_config (bn_harness b))) (hn_world (bn_harness b)) of
        (t, w) \<Rightarrow> (t, b\<lparr>bn_harness := (bn_harness b)\<lparr>hn_world := w\<rparr>\<rparr>))"

definition finish_run :: "go_time \<Rightarrow> error option \<Rightarrow> 'v Bench \<Rightarrow> (ScenarioResult \<times> error option) \<times> 'v Bench" where
  "finish_run t0 err b =
     (case bn_clock b of (now, b) \<Rightarrow>
      let b = b\<lparr>bn_result := (bn_result b)\<lparr>scr_Duration := time_Sub now t0\<rparr>\<rparr> in ((bn_result b, err), b))"

definition scenario_event :: "string \<Rightarrow> error option \<Rightarrow> duration \<Rightarrow> ScenarioEvent" where
  "scenario_event name err d =
     \<lparr>sev_Name = name, sev_Passed = (err = None), sev_Duration = d, sev_Error = (case err of None \<Rightarrow> [] | Some e \<Rightarrow> error_text e)\<rparr>"

fun run_steps :: "'v Step list \<Rightarrow> go_time \<Rightarrow> 'v Bench \<Rightarrow> (ScenarioResult \<times> error option) \<times> 'v Bench" where
  "run_steps [] t0 b = finish_run t0 None b"
| "run_steps (step # steps) t0 b =
     (case bn_clock b of (eventStarted, b) \<Rightarrow>
     (case step_Run step b of (r, b) \<Rightarrow>
     (case bn_clock b of (now, b) \<Rightarrow>
      let err = (case r of Inl e \<Rightarrow> Some e | Inr _ \<Rightarrow> None);
          result = bn_result b;
          result = result\<lparr>scr_Events := scr_Events result @ [scenario_event (step_Name step) err (time_Sub now eventStarted)]\<rparr> in
      case err of
        Some e \<Rightarrow> finish_run t0 err (b\<lparr>bn_result := result\<lparr>scr_Passed := False\<rparr>\<rparr>)
      | None \<Rightarrow> run_steps steps t0 (b\<lparr>bn_result := result\<rparr>))))"

definition runner_Run :: "string \<Rightarrow> 'v Step list \<Rightarrow> 'v Bench \<Rightarrow> (ScenarioResult \<times> error option) \<times> 'v Bench" where
  "runner_Run name steps b =
     (case bn_clock b of (startedAt, b) \<Rightarrow>
      case bn_clock b of (t0, b) \<Rightarrow>
        run_steps steps t0
          (b\<lparr>bn_result :=
             \<lparr>scr_Name = name, scr_Passed = True, scr_StartedAt = startedAt, scr_Duration = 0, scr_Events = [], scr_Metrics = [], scr_Timings = []\<rparr>\<rparr>))"

text \<open>A scenario: its harness, its steps, and the closing of the servers.\<close>

definition run_scenario ::
  "('doc, 'compiler, 'schema) jsonschema \<Rightarrow> Oracle \<Rightarrow> HarnessOptions \<Rightarrow> string \<Rightarrow> 'v Step list \<Rightarrow> 'v \<Rightarrow> World \<Rightarrow> (ScenarioResult \<times> error option) \<times> World" where
  "run_scenario js orc o' name steps vars w =
     (case NewHarness js orc o' w of
        (Inl e, w) \<Rightarrow> ((zero_ScenarioResult, Some e), w)
      | (Inr h, w) \<Rightarrow>
          (case runner_Run name steps \<lparr>bn_harness = h, bn_result = zero_ScenarioResult, bn_vars = vars\<rparr> of
             (r, b) \<Rightarrow> (r, hn_world (harness_Close (bn_harness b)))))"

subsection \<open>Restart of the control plane\<close>

definition no_identity :: AgentIdentity where
  "no_identity = \<lparr>hid_ID = [], hid_Token = []\<rparr>"

definition start_control :: "Internet \<Rightarrow> ('v Bench, unit) M" where
  "start_control net = bindM (bn_on (hn_do (StartControlPlane net))) (\<lambda>_. metric ''control_plane_starts'' 1)"

definition register_one :: "Internet \<Rightarrow> string \<Rightarrow> (AgentIdentity \<Rightarrow> 'v \<Rightarrow> 'v) \<Rightarrow> ('v Bench, unit) M" where
  "register_one net i assign =
     bindM (bn_on (RegisterAgent net i)) (\<lambda>who.
     bindM (bn_do (bn_vars_update (assign who))) (\<lambda>_. metric ''registered_agents'' 1))"

definition restart_steps :: "Internet \<Rightarrow> AgentIdentity Step list" where
  "restart_steps net =
     [\<lparr>step_Name = ''start control plane'', step_Run = start_control net\<rparr>,
      \<lparr>step_Name = ''register agent before restart'', step_Run = register_one net ''agent-restart-1'' (\<lambda>who _. who)\<rparr>,
      \<lparr>step_Name = ''restart control plane'', step_Run =
         bindM (bn_on (Restart net FailureControlPlane)) (\<lambda>_. metric ''control_plane_restarts'' 1)\<rparr>,
      \<lparr>step_Name = ''heartbeat through restarted control plane'', step_Run =
         bindM (bn_get bn_vars) (\<lambda>who.
         bindM (bn_on (harness_Heartbeat net who)) (\<lambda>_. metric ''post_restart_heartbeats'' 1))\<rparr>]"

definition RunControlPlaneRestartScenario ::
  "Internet \<Rightarrow> ('doc, 'compiler, 'schema) jsonschema \<Rightarrow> Oracle \<Rightarrow> HarnessOptions \<Rightarrow> World \<Rightarrow> (ScenarioResult \<times> error option) \<times> World" where
  "RunControlPlaneRestartScenario net js orc o' = run_scenario js orc o' ''control-plane-restart'' (restart_steps net) no_identity"

subsection \<open>Outage of the data plane\<close>

text \<open>The shared variables: the identity, and the synchronisation with its cache, its node and its entity tag once they are made.\<close>

record OutageVars =
  ov_identity :: AgentIdentity
  ov_syncer :: "(Harness Syncer \<times> Node \<times> string) option"

definition start_both :: "Internet \<Rightarrow> ('v Bench, unit) M" where
  "start_both net =
     bindM (bn_on (hn_do (\<lambda>h. StartDataPlane net (StartControlPlane net h)))) (\<lambda>_.
     bindM (metric ''control_plane_starts'' 1) (\<lambda>_. metric ''data_plane_starts'' 1))"

text \<open>A round of the synchronisation; the error of the context is read from the oracle.\<close>

definition outage_sync :: "Os \<Rightarrow> Harness Syncer \<Rightarrow> Node \<Rightarrow> string \<Rightarrow> (OutageVars Bench, unit) M" where
  "outage_sync os syncer node etag b =
     (let h = bn_harness b in
      case SyncOnce syncer os (w_ctx (cfg_oracle (hn_config h)) (hn_world h)) \<lparr>ss_node = node, ss_etag = etag, ss_net = h\<rparr> of
        (r, s) \<Rightarrow> (r, b\<lparr>bn_harness := ss_net s, bn_vars := (bn_vars b)\<lparr>ov_syncer := Some (syncer, ss_node s, ss_etag s)\<rparr>\<rparr>))"

definition cached_value :: "(OutageVars Bench, string \<times> int) M" where
  "cached_value b =
     (case ov_syncer (bn_vars b) of
        None \<Rightarrow> (Inl (Sentinel agent_ErrNoSnapshot), b)
      | Some (_, node, _) \<Rightarrow> (fst (CachedConfigValue ''payment.failure_rate'' node), b))"

definition expect_value :: "string \<Rightarrow> (OutageVars Bench, unit) M" where
  "expect_value format =
     bindM cached_value (\<lambda>(v, version). if v \<noteq> ''0'' \<or> version \<noteq> 1 then raiseM (Errorf format [FS v, FD version]) else retM ())"

definition warm_cache :: "Internet \<Rightarrow> Os \<Rightarrow> (string, bytes) gomap \<Rightarrow> (OutageVars Bench, unit) M" where
  "warm_cache net os files =
     bindM (bn_get (\<lambda>b. ov_identity (bn_vars b))) (\<lambda>who.
     bindM (bn_on (NewSyncer net who)) (\<lambda>(syncer, cache).
     bindM (outage_sync os syncer \<lparr>nd_files = files, nd_unsynced = [], nd_ops = 0, nd_cache = cache\<rparr> []) (\<lambda>_.
     bindM (expect_value ''unexpected cached config: value=%s version=%d'') (\<lambda>_.
     metric ''cache_warm_configs'' 1))))"

definition poll_in_outage :: "Os \<Rightarrow> (OutageVars Bench, unit) M" where
  "poll_in_outage os =
     bindM (bn_get (\<lambda>b. ov_syncer (bn_vars b))) (\<lambda>found.
     case found of
       None \<Rightarrow> raiseM (Foreign ''cache was not warmed'')
     | Some (syncer, node, etag) \<Rightarrow>
         bindM (tryM (outage_sync os syncer node etag) (\<lambda>_. retM ()) (\<lambda>_. raiseM (Foreign ''expected data-plane polling to fail during outage''))) (\<lambda>_.
         bindM (expect_value ''unexpected cached config during outage: value=%s version=%d'') (\<lambda>_.
         metric ''cache_reads_during_outage'' 1)))"

definition outage_steps :: "Internet \<Rightarrow> Os \<Rightarrow> (string, bytes) gomap \<Rightarrow> OutageVars Step list" where
  "outage_steps net os files =
     [\<lparr>step_Name = ''start control and data planes'', step_Run = start_both net\<rparr>,
      \<lparr>step_Name = ''register agent'', step_Run = register_one net ''agent-outage-1'' (\<lambda>who. ov_identity_update (\<lambda>_. who))\<rparr>,
      \<lparr>step_Name = ''warm local cache'', step_Run = warm_cache net os files\<rparr>,
      \<lparr>step_Name = ''inject data-plane outage'', step_Run =
         bindM (bn_on (InjectFailure FailureDataPlane)) (\<lambda>_. metric ''data_plane_outages'' 1)\<rparr>,
      \<lparr>step_Name = ''poll fails while cache remains usable'', step_Run = poll_in_outage os\<rparr>]"

definition RunDataPlaneOutageScenario ::
  "Internet \<Rightarrow> Os \<Rightarrow> (string, bytes) gomap \<Rightarrow> ('doc, 'compiler, 'schema) jsonschema \<Rightarrow> Oracle \<Rightarrow> HarnessOptions \<Rightarrow> World \<Rightarrow>
   (ScenarioResult \<times> error option) \<times> World" where
  "RunDataPlaneOutageScenario net os files js orc o' =
     run_scenario js orc o' ''data-plane-outage'' (outage_steps net os files) \<lparr>ov_identity = no_identity, ov_syncer = None\<rparr>"

subsection \<open>Concurrent acknowledgements\<close>

record RolloutVars =
  rv_identities :: "AgentIdentity list"
  rv_created :: "Rollout option"
  rv_targets :: "StageTarget list"
  rv_rollbackStarted :: go_time

definition no_rollout :: RolloutVars where
  "no_rollout = \<lparr>rv_identities = [], rv_created = None, rv_targets = [], rv_rollbackStarted = 0\<rparr>"

definition created_ID :: "RolloutVars \<Rightarrow> string" where
  "created_ID v = (case rv_created v of None \<Rightarrow> [] | Some r \<Rightarrow> ro_ID r)"

definition created_stage :: "RolloutVars \<Rightarrow> string" where
  "created_stage v = (case rv_created v of None \<Rightarrow> [] | Some r \<Rightarrow> ro_CurrentStageID r)"

definition register_many :: "schedules \<Rightarrow> Internet \<Rightarrow> int \<Rightarrow> string \<Rightarrow> (RolloutVars Bench, unit) M" where
  "register_many sched net n prefix1 =
     bindM (bn_on (hn_get (\<lambda>h. hop_Concurrency (hn_options h)))) (\<lambda>concurrency.
     bindM (bn_on (RegisterAgents sched net n concurrency prefix1)) (\<lambda>identities.
     bindM (bn_do (bn_vars_update (rv_identities_update (\<lambda>_. identities)))) (\<lambda>_.
     metric ''registered_agents'' (int (length identities)))))"

definition acknowledge_created :: "schedules \<Rightarrow> Internet \<Rightarrow> string \<Rightarrow> (RolloutVars Bench, int) M" where
  "acknowledge_created sched net stageID =
     bindM (bn_on (hn_get (\<lambda>h. hop_Concurrency (hn_options h)))) (\<lambda>concurrency.
     bindM (bn_get (\<lambda>b. rv_identities (bn_vars b))) (\<lambda>identities.
     bn_on (AcknowledgeAssignedStage sched net identities stageID concurrency)))"

definition single_stage :: CreateRolloutInput where
  "single_stage =
     \<lparr>cri_TenantID = [], cri_Key = [], cri_Environment = [], cri_CandidateVersionNumber = 0, cri_TargetServices = [],
      cri_Stages = [\<lparr>stage_ID = ''stage-100'', stage_Percentage = 100, stage_MinimumDuration = 0\<rparr>], cri_Guardrails = [],
      cri_RequiredAckPercentage = Fin 0, cri_DeploymentTimeout = 0, cri_RolloutMaxDuration = 0, cri_RollbackTimeout = 0\<rparr>"

definition create_rollout :: "CreateRolloutInput \<Rightarrow> (RolloutVars Bench, unit) M" where
  "create_rollout input =
     bindM (bn_on (harness_CreateRollout input)) (\<lambda>(created, targets).
     bn_do (bn_vars_update (\<lambda>v. v\<lparr>rv_created := Some created, rv_targets := targets\<rparr>)))"

definition concurrent_register :: "schedules \<Rightarrow> Internet \<Rightarrow> (RolloutVars Bench, unit) M" where
  "concurrent_register sched net =
     bindM (bn_on hn_now) (\<lambda>t0.
     bindM (register_many sched net 200 ''concurrent-agent'') (\<lambda>_.
     bindM (bn_on (hn_since t0)) (timing ''agent_registration_duration'')))"

definition concurrent_create :: "(RolloutVars Bench, unit) M" where
  "concurrent_create =
     bindM (create_rollout single_stage) (\<lambda>_.
     bindM (bn_get (\<lambda>b. int (length (rv_targets (bn_vars b))))) (\<lambda>targets.
     if targets \<noteq> 200 then raiseM (Errorf ''expected %d rollout targets, got %d'' [FD 200, FD targets])
     else metric ''rollout_targets'' targets))"

definition concurrent_acknowledge :: "schedules \<Rightarrow> Internet \<Rightarrow> (RolloutVars Bench, unit) M" where
  "concurrent_acknowledge sched net =
     bindM (bn_on hn_now) (\<lambda>t0.
     bindM (bn_get bn_vars) (\<lambda>v.
     bindM (acknowledge_created sched net (created_stage v)) (\<lambda>acked.
     bindM (metric ''concurrent_acknowledgements'' acked) (\<lambda>_.
     bindM (bn_on (hn_since t0)) (\<lambda>d.
     bindM (timing ''concurrent_ack_duration'' d) (\<lambda>_.
     if acked \<noteq> int (length (rv_targets v)) then
       raiseM (Errorf ''expected %d acknowledgements, got %d'' [FD (int (length (rv_targets v))), FD acked])
     else retM ()))))))"

definition concurrent_verify :: "(RolloutVars Bench, unit) M" where
  "concurrent_verify =
     bindM (bn_get bn_vars) (\<lambda>v.
     bindM (bn_on (harness_GetRollout (created_ID v))) (\<lambda>(final, _, coverage).
     if ro_State final \<noteq> StateCompleted then raiseM (Errorf ''expected completed rollout, got %s'' [FS (state_text (ro_State final))])
     else if cov_Acked coverage \<noteq> cov_Total coverage \<or> cov_Total coverage \<noteq> int (length (rv_targets v)) then
       raiseM (Errorf ''unexpected coverage: %+v'' [FD (cov_Total coverage), FD (cov_Acked coverage)])
     else metric ''final_coverage_percent'' (truncate64 (cov_Percentage coverage))))"

definition concurrent_steps :: "schedules \<Rightarrow> Internet \<Rightarrow> RolloutVars Step list" where
  "concurrent_steps sched net =
     [\<lparr>step_Name = ''start control and data planes'', step_Run = start_both net\<rparr>,
      \<lparr>step_Name = ''register concurrent agents'', step_Run = concurrent_register sched net\<rparr>,
      \<lparr>step_Name = ''create single-stage rollout'', step_Run = concurrent_create\<rparr>,
      \<lparr>step_Name = ''acknowledge rollout concurrently'', step_Run = concurrent_acknowledge sched net\<rparr>,
      \<lparr>step_Name = ''verify completed rollout'', step_Run = concurrent_verify\<rparr>]"

definition RunConcurrentRolloutAcknowledgementScenario ::
  "schedules \<Rightarrow> Internet \<Rightarrow> ('doc, 'compiler, 'schema) jsonschema \<Rightarrow> Oracle \<Rightarrow> HarnessOptions \<Rightarrow> World \<Rightarrow> (ScenarioResult \<times> error option) \<times> World" where
  "RunConcurrentRolloutAcknowledgementScenario sched net js orc o' =
     run_scenario js orc o' ''concurrent-rollout-acknowledgements'' (concurrent_steps sched net) no_rollout"

subsection \<open>Propagation of a rollback\<close>

text \<open>\<open>staticQueryer\<close>.\<close>

definition static_Query :: "float64 \<Rightarrow> error option \<Rightarrow> Oracle \<Rightarrow> nat \<Rightarrow> string \<Rightarrow> go_time \<Rightarrow> error + float64" where
  "static_Query v err orc t query at1 =
     (case orc_ctx orc t of Some e \<Rightarrow> Inl e | None \<Rightarrow> (case err of Some e \<Rightarrow> Inl e | None \<Rightarrow> Inr v))"

definition guarded_rollout :: CreateRolloutInput where
  "guarded_rollout = single_stage
     \<lparr>cri_Guardrails :=
        [\<lparr>rule_Name = ''error-rate'', rule_Query = ''sum(rate(payment_requests_total{result='' @ [CHR 0x22] @ ''error'' @ [CHR 0x22] @ ''}[1m]))'',
          rule_Operator = OperatorLessThan, rule_Threshold = to_float64 (2 / 100), rule_ConsecutiveFailures = 1\<rparr>],
      cri_RollbackTimeout := Minute\<rparr>"

definition rollback_start :: "Internet \<Rightarrow> (RolloutVars Bench, unit) M" where
  "rollback_start net =
     bindM (bn_on (hn_do (\<lambda>h. harness_SetGuardrailQueryer (static_Query (to_float64 (5 / 100)) None) (StartDataPlane net (StartControlPlane net h))))) (\<lambda>_.
     bindM (metric ''control_plane_starts'' 1) (\<lambda>_. metric ''data_plane_starts'' 1))"

definition rollback_create :: "(RolloutVars Bench, unit) M" where
  "rollback_create =
     bindM (create_rollout guarded_rollout) (\<lambda>_.
     bindM (bn_get (\<lambda>b. int (length (rv_targets (bn_vars b))))) (metric ''candidate_targets''))"

definition rollback_trigger :: "schedules \<Rightarrow> Internet \<Rightarrow> (RolloutVars Bench, unit) M" where
  "rollback_trigger sched net =
     bindM (bn_get bn_vars) (\<lambda>v.
     bindM (acknowledge_created sched net (created_stage v)) (\<lambda>acked.
     bindM (bn_on (harness_GetRollout (created_ID v))) (\<lambda>(current, _, _).
     if ro_State current \<noteq> StateRollingBack then raiseM (Errorf ''expected rolling back rollout, got %s'' [FS (state_text (ro_State current))])
     else
       bindM (bn_on hn_now) (\<lambda>now.
       bindM (bn_do (bn_vars_update (rv_rollbackStarted_update (\<lambda>_. now)))) (\<lambda>_.
       metric ''candidate_acknowledgements'' acked)))))"

definition rollback_propagate :: "schedules \<Rightarrow> Internet \<Rightarrow> (RolloutVars Bench, unit) M" where
  "rollback_propagate sched net =
     bindM (bn_get bn_vars) (\<lambda>v.
     bindM (bn_on harness_ReconcileActive) (\<lambda>_.
     bindM (bn_on (harness_GetRollout (created_ID v))) (\<lambda>(verifying, verificationTargets, _).
     if ro_State verifying \<noteq> StateRollingBack then raiseM (Errorf ''expected rollback verification, got %s'' [FS (state_text (ro_State verifying))])
     else if length verificationTargets \<noteq> length (rv_targets v) then
       raiseM (Errorf ''expected %d verification targets, got %d'' [FD (int (length (rv_targets v))), FD (int (length verificationTargets))])
     else
       bindM (acknowledge_created sched net (ro_CurrentStageID verifying)) (\<lambda>acked.
       bindM (bn_on (harness_GetRollout (created_ID v))) (\<lambda>(final, _, _).
       if ro_State final \<noteq> StateRolledBack then raiseM (Errorf ''expected rolled back rollout, got %s'' [FS (state_text (ro_State final))])
       else if ro_RollbackStatus final \<noteq> RollbackStatusVerified then
         raiseM (Errorf ''expected verified rollback, got %s'' [FS (rollback_status_text (ro_RollbackStatus final))])
       else
         bindM (metric ''rollback_verification_acknowledgements'' acked) (\<lambda>_.
         bindM (bn_on (hn_since (rv_rollbackStarted v))) (timing ''rollback_propagation_duration'')))))))"

definition rollback_steps :: "schedules \<Rightarrow> Internet \<Rightarrow> RolloutVars Step list" where
  "rollback_steps sched net =
     [\<lparr>step_Name = ''start control and data planes'', step_Run = rollback_start net\<rparr>,
      \<lparr>step_Name = ''register rollback agents'', step_Run = register_many sched net 120 ''rollback-agent''\<rparr>,
      \<lparr>step_Name = ''create guarded rollout'', step_Run = rollback_create\<rparr>,
      \<lparr>step_Name = ''trigger rollback from unhealthy guardrail'', step_Run = rollback_trigger sched net\<rparr>,
      \<lparr>step_Name = ''propagate stable rollback snapshot'', step_Run = rollback_propagate sched net\<rparr>]"

definition RunRollbackPropagationTimingScenario ::
  "schedules \<Rightarrow> Internet \<Rightarrow> ('doc, 'compiler, 'schema) jsonschema \<Rightarrow> Oracle \<Rightarrow> HarnessOptions \<Rightarrow> World \<Rightarrow> (ScenarioResult \<times> error option) \<times> World" where
  "RunRollbackPropagationTimingScenario sched net js orc o' =
     run_scenario js orc o' ''rollback-propagation-timing'' (rollback_steps sched net) no_rollout"

end
