(* ===== verification/Reliability_Theorems.thy ===== *)
theory Reliability_Theorems
  imports Reliability_Scenarios
begin

section \<open>What the reliability harness shows\<close>

subsection \<open>The answer to a registration\<close>

definition agent_members :: "agentResponse \<Rightarrow> (string \<times> string \<times> json) list" where
  "agent_members r =
     [string_member ''id'' (ares_ID r), string_member ''service'' (ares_Service r), string_member ''environment'' (ares_Environment r)] @
     (if ares_Zone r = [] then [] else [string_member ''zone'' (ares_Zone r)]) @ [string_member ''instance'' (ares_Instance r)] @
     (if ares_Labels r = [] then [] else [labels_member (ares_Labels r)]) @
     [string_member ''registered_at'' (ares_RegisteredAt r), string_member ''last_seen_at'' (ares_LastSeenAt r)]"

lemma agentResponse_members: "agentResponse_json r = json_object (fields_text (agent_members r))"
  by (simp add: agentResponse_json_def agent_members_def omitempty_def string_field_def)

lemma agent_members_written: "0 < d \<Longrightarrow> list_all (\<lambda>(k, t, v). writes d t v) (agent_members r)"
proof -
  assume "0 < d"
  then have "writes d (json_string_map (ares_Labels r)) (JObject (members_of (label_members (ares_Labels r))))"
    unfolding json_string_map_members by (intro writes_object written_labels)
  then show ?thesis by (simp add: agent_members_def) (simp add: labels_member_def)
qed

definition registered_members :: "registerAgentResponse \<Rightarrow> (string \<times> string \<times> json) list" where
  "registered_members r =
     [(''agent'', agentResponse_json (rares_Agent r), JObject (members_of (agent_members (rares_Agent r)))),
      string_member ''instance_credential'' (rares_InstanceCredential r), string_member ''expires_at'' (rares_ExpiresAt r)]"

lemma registered_response_members: "registerAgentResponse_json r = json_object (fields_text (registered_members r))"
  unfolding registered_members_def
  by (simp add: registerAgentResponse_json_def string_field_def string_member_def fields_text_def)

lemma other_members:
  "\<not> EqualFold ''id'' ''service''" "\<not> EqualFold ''id'' ''environment''" "\<not> EqualFold ''id'' ''zone''" "\<not> EqualFold ''id'' ''instance''"
  "\<not> EqualFold ''id'' ''labels''" "\<not> EqualFold ''id'' ''registered_at''" "\<not> EqualFold ''id'' ''last_seen_at''"
  "\<not> EqualFold ''agent'' ''instance_credential''" "\<not> EqualFold ''agent'' ''expires_at''"
  "\<not> EqualFold ''instance_credential'' ''agent''" "\<not> EqualFold ''instance_credential'' ''expires_at''"
  by code_simp+

lemma register_answer_decoded:
  "decode_body registerResponse_decoder \<lparr>arr_AgentID = [], arr_InstanceCredential = []\<rparr> (registerAgentResponse_json r @ rest, None) =
    Inr \<lparr>arr_AgentID = sanitize (ares_ID (rares_Agent r)), arr_InstanceCredential = sanitize (rares_InstanceCredential r)\<rparr>"
proof -
  have "writes (maxNestingDepth - 1) (agentResponse_json (rares_Agent r)) (JObject (members_of (agent_members (rares_Agent r))))"
    unfolding agentResponse_members by (intro writes_object agent_members_written) (simp_all add: maxNestingDepth_def)
  then have "list_all (\<lambda>(k, t, v). writes (maxNestingDepth - 1) t v) (registered_members r)" by (simp add: registered_members_def)
  note read = json_first_object [OF this]
  show ?thesis
    unfolding registered_response_members decode_body_def prod.case read
    by (simp add: registered_members_def agent_members_def members_of_def registerResponse_decoder_def decode_wire sanitize_ascii byte_of_def
        string_member_def labels_member_def other_members)
qed

subsection \<open>Requests on their way\<close>

lemma split_on_segment: "c \<notin> set s \<Longrightarrow> split_on c (s @ c # rest) = s # split_on c rest"
  by (induction s) auto

lemma split_on_last: "c \<notin> set s \<Longrightarrow> split_on c s = [s]"
  by (induction s) auto

lemma percent_decode_plain: "CHR ''%'' \<notin> set s \<Longrightarrow> percent_decode s = Some s"
  by (induction s) auto

lemma path_segment_plain: "CHR ''%'' \<notin> set s \<Longrightarrow> path_segment s = s"
  by (simp add: path_segment_def percent_decode_plain)

text \<open>A name that stands in a URL as it is, and for one segment of its path.\<close>

definition plain_name :: "string \<Rightarrow> bool" where
  "plain_name i \<longleftrightarrow> i \<noteq> [] \<and> i \<noteq> ''.'' \<and> i \<noteq> ''..'' \<and> list_all (\<lambda>c. c \<notin> set ''/?#%'') i"

lemma plain_nameD:
  "plain_name i \<Longrightarrow> CHR ''/'' \<notin> set i \<and> CHR ''?'' \<notin> set i \<and> CHR ''#'' \<notin> set i \<and> CHR ''%'' \<notin> set i \<and> i \<noteq> [] \<and> i \<noteq> ''.'' \<and> i \<noteq> ''..''"
  by (auto simp: plain_name_def list_all_iff)

lemma bindM_retM: "bindM f retM = f"
  by (rule ext) (simp add: bindM_def retM_def split: prod.split sum.split)

lemma path_at_server: "path_at url (url @ CHR ''/'' # rest) = Some (takeWhile (\<lambda>c. c \<notin> set ''?#'') (CHR ''/'' # rest))"
  by (simp add: path_at_def)

lemma route_register:
  "hreq_Method req = ''POST'' \<Longrightarrow> mux_serve (cp_routes h health) redirected ''/v1/agents/register'' req =
    bindM (h_registerAgent h (hreq_Body req, None)) (\<lambda>r. retM (cp_response r))"
  by (simp add: mux_serve_def clean_path_def cp_routes_def health_routes_def Let_def path_segment_def method_matches_def bindM_retM)

lemma route_heartbeat:
  assumes "plain_name i" "hreq_Method req = ''POST''"
  shows "mux_serve (cp_routes h health) redirected (''/v1/agents/'' @ i @ ''/heartbeat'') req =
    bindM (h_agentHeartbeat h i (header ''Authorization'' req)) (\<lambda>r. retM (cp_response r))"
proof -
  have i: "CHR ''/'' \<notin> set i" "CHR ''%'' \<notin> set i" "i \<noteq> []" "[] \<noteq> i" "''.'' \<noteq> i" "''..'' \<noteq> i" using plain_nameD [OF assms(1)] by auto
  have split: "split_on CHR ''/'' (''v1/agents/'' @ i @ ''/heartbeat'') = [''v1'', ''agents'', i, ''heartbeat'']"
    using i by (simp add: split_on_segment)
  show ?thesis
    using i assms(2) split
    by (simp add: mux_serve_def clean_path_def cp_routes_def health_routes_def Let_def path_segment_plain method_matches_def bindM_retM)
qed

lemma route_config:
  assumes "plain_name key" "hreq_Method req = ''GET''"
  shows "mux_serve (agent_routes now) redirected (''/v1/config/'' @ key) req = bindM (agent_getConfig key) (\<lambda>r. retM (agent_response r))"
proof -
  have key: "CHR ''/'' \<notin> set key" "CHR ''%'' \<notin> set key" "key \<noteq> []" "[] \<noteq> key" "''.'' \<noteq> key" "''..'' \<noteq> key" using plain_nameD [OF assms(1)] by auto
  have split: "split_on CHR ''/'' (''v1/config/'' @ key) = [''v1'', ''config'', key]"
    using key by (simp add: split_on_segment split_on_last)
  show ?thesis
    using key assms(2) split
    by (simp add: mux_serve_def clean_path_def agent_routes_def health_routes_def Let_def path_segment_plain method_matches_def bindM_retM)
qed

subsection \<open>Calls over HTTP\<close>

text \<open>A call that a server answers: what the caller gets and what is left of the harness.\<close>

definition answered :: "(error \<Rightarrow> error) \<Rightarrow> ('a \<Rightarrow> 'b) \<Rightarrow> (World, 'a) M \<Rightarrow> Harness \<Rightarrow> (error + 'b) \<times> Harness" where
  "answered onError onResult f h =
     (case f (hn_world h) of (r, w) \<Rightarrow> (map_sum onError onResult r, h\<lparr>hn_world := w, hn_requests := Suc (hn_requests h)\<rparr>))"

definition registered_input :: "agent_RegisterInput \<Rightarrow> RegisterInput" where
  "registered_input i =
     \<lparr>rgi_BootstrapToken = ari_BootstrapToken i, rgi_ID = ari_ID i, rgi_Service = ari_Service i, rgi_Environment = ari_Environment i,
      rgi_Zone = ari_Zone i, rgi_Instance = ari_Instance i, rgi_Labels = sort_key fst (ari_Labels i)\<rparr>"

lemma respond_run: "respond onError f onResult w = (case f w of (r, w') \<Rightarrow> (Inr (case r of Inl e \<Rightarrow> onError e | Inr a \<Rightarrow> onResult a), w'))"
  by (simp add: respond_def tryM_def retM_def split: prod.split sum.split)

lemma agent_error_status: "fst (cp_writeAgentError err) \<in> {400, 401, 403, 404, 500}"
  by (simp add: cp_writeAgentError_def invalid_input_def)

lemma register_unfolded:
  assumes "utf8_registration i"
  shows "control_server cfg redirected ''/v1/agents/register''
      \<lparr>hreq_Method = ''POST'', hreq_URL = u, hreq_Header = hdr, hreq_Body = RegisterInput_Marshal i\<rparr> w =
    (case ag_Register (agent_service cfg) (registered_input i) w of
       (r, w') \<Rightarrow> (Inr (cp_response (case r of Inl e \<Rightarrow> cp_writeAgentError e | Inr a \<Rightarrow> (201, RegisterBody (registerAgentResponseFromDomain a)))), w'))"
  by (simp add: control_server_def route_register control_handler_def h_registerAgent_def decodeRequest_def register_decoded [OF assms]
      registered_input_def [symmetric] bindM_def respond_run retM_def split: prod.split sum.split)

lemma client_registration:
  assumes "hn_controlPlane h = Some url" "TrimRight_slash url = url" "net_Fault net (hn_requests h) = Intact"
    and "net_NewRequest net (url @ ''/v1/agents/register'') = None" "utf8_registration i"
  shows "client_Register (harness_http net) url i h =
    answered (\<lambda>err. status_error ''agent registration failed: status=%d body=%s'' (cp_response (cp_writeAgentError err)))
      (\<lambda>result. \<lparr>arr_AgentID = sanitize (agent_ID (rgr_Agent result)), arr_InstanceCredential = sanitize (cred_Token (rgr_Credential result))\<rparr>)
      (ag_Register (agent_service (hn_config h)) (registered_input i)) h"
proof -
  have path: "path_at url (url @ ''/v1/agents/register'') = Some ''/v1/agents/register''" by (simp add: path_at_server)
  define req where "req = \<lparr>hreq_Method = ''POST'', hreq_URL = url @ ''/v1/agents/register'', hreq_Header = [(''Content-Type'', ''application/json'')],
    hreq_Body = RegisterInput_Marshal i\<rparr>"
  obtain r w where run: "ag_Register (agent_service (hn_config h)) (registered_input i) (hn_world h) = (r, w)" by fastforce
  have sent: "harness_Do net req h =
      (Inr (cp_response (case r of Inl e \<Rightarrow> cp_writeAgentError e | Inr a \<Rightarrow> (201, RegisterBody (registerAgentResponseFromDomain a)))),
       h\<lparr>hn_requests := Suc (hn_requests h), hn_world := w\<rparr>)"
    using assms(1,3) path run
    by (simp add: harness_Do_def Let_def serve_request_def listening_def req_def hn_on_def register_unfolded [OF assms(5)])
  have shape: "client_Register (harness_http net) url i =
      bindM (checkM (net_NewRequest net (url @ ''/v1/agents/register''))) (\<lambda>_. bindM (harness_Do net req) (\<lambda>resp.
      if hresp_StatusCode resp \<noteq> 201 then raiseM (status_error ''agent registration failed: status=%d body=%s'' resp)
      else liftE (decode_body registerResponse_decoder \<lparr>arr_AgentID = [], arr_InstanceCredential = []\<rparr> (hresp_Body resp))))"
    by (simp add: client_Register_def assms(2) harness_http_def Let_def req_def)
  show ?thesis
  proof (cases r)
    case (Inl e)
    have "fst (cp_writeAgentError e) \<noteq> 201" using agent_error_status [of e] by auto
    then show ?thesis unfolding shape answered_def run
      using sent Inl assms(4) by (simp add: bindM_def checkM_def cp_response_def writeJSON_def raiseM_def)
  next
    case (Inr a)
    then show ?thesis unfolding shape answered_def run
      using sent assms(4)
      by (simp add: bindM_def checkM_def cp_response_def writeJSON_def liftE_def register_answer_decoded registerAgentResponseFromDomain_def
          agentResponseFromDomain_def)
  qed
qed

text \<open>C38 (equivalence). A registration over HTTP is the registration in the registry: with a running control plane and an intact connection, the
  agent's client gets, for any input in UTF-8, the identifier and the token that the service issued for exactly this input, or an error with the
  status and text of the service's error, and the registry ends as if the service had been called.\<close>

theorem registration_over_http:
  assumes "hn_controlPlane h = Some url" "TrimRight_slash url = url" "net_Fault net (hn_requests h) = Intact"
    and "net_NewRequest net (url @ ''/v1/agents/register'') = None" "utf8_registration i"
  shows "client_Register (harness_http net) url i h =
    answered (\<lambda>err. status_error ''agent registration failed: status=%d body=%s'' (cp_response (cp_writeAgentError err)))
      (\<lambda>result. \<lparr>arr_AgentID = sanitize (agent_ID (rgr_Agent result)), arr_InstanceCredential = sanitize (cred_Token (rgr_Credential result))\<rparr>)
      (ag_Register (agent_service (hn_config h)) (registered_input i)) h"
  using assms by (rule client_registration)

lemma heartbeat_unfolded:
  assumes "plain_name i"
  shows "control_server cfg redirected (''/v1/agents/'' @ i @ ''/heartbeat'')
      \<lparr>hreq_Method = ''POST'', hreq_URL = u, hreq_Header = [(''Authorization'', ''Bearer '' @ token)], hreq_Body = data\<rparr> w =
    (case ag_Heartbeat (agent_service cfg) i token w of
       (r, w') \<Rightarrow> (Inr (cp_response (case r of Inl e \<Rightarrow> cp_writeAgentError e | Inr a \<Rightarrow> (200, AgentBody (agentResponseFromDomain a)))), w'))"
  unfolding control_server_def
  by (subst route_heartbeat [OF assms])
    (simp_all add: control_handler_def h_agentHeartbeat_def header_def bindM_def respond_run retM_def split: prod.split sum.split)

lemma heartbeat_over_http:
  assumes "hn_controlPlane h = Some url" "net_Fault net (hn_requests h) = Intact"
    and "net_NewRequest net (url @ ''/v1/agents/'' @ hid_ID who @ ''/heartbeat'') = None" "plain_name (hid_ID who)"
  shows "harness_Heartbeat net who h =
    answered (\<lambda>err. status_error ''heartbeat failed: status=%d body=%s'' (cp_response (cp_writeAgentError err))) (\<lambda>_. ())
      (ag_Heartbeat (agent_service (hn_config h)) (hid_ID who) (hid_Token who)) h"
proof -
  have "takeWhile (\<lambda>c. c \<notin> set ''?#'') (''/v1/agents/'' @ hid_ID who @ ''/heartbeat'') = ''/v1/agents/'' @ hid_ID who @ ''/heartbeat''"
    using plain_nameD [OF assms(4)] by (auto simp: takeWhile_eq_all_conv)
  then have path: "path_at url (url @ ''/v1/agents/'' @ hid_ID who @ ''/heartbeat'') = Some (''/v1/agents/'' @ hid_ID who @ ''/heartbeat'')"
    using path_at_server [of url "''v1/agents/'' @ hid_ID who @ ''/heartbeat''"] by simp
  obtain r w where run: "ag_Heartbeat (agent_service (hn_config h)) (hid_ID who) (hid_Token who) (hn_world h) = (r, w)" by fastforce
  have sent: "harness_Do net (heartbeat_request url who) h =
      (Inr (cp_response (case r of Inl e \<Rightarrow> cp_writeAgentError e | Inr a \<Rightarrow> (200, AgentBody (agentResponseFromDomain a)))),
       h\<lparr>hn_requests := Suc (hn_requests h), hn_world := w\<rparr>)"
    using assms(1,2) path run heartbeat_unfolded [OF assms(4)]
    by (simp add: harness_Do_def Let_def serve_request_def listening_def heartbeat_request_def hn_on_def)
  have "fst (cp_writeAgentError e) \<noteq> 200" for e using agent_error_status [of e] by auto
  then show ?thesis
    using sent assms(1,3) run
    by (cases r) (simp_all add: harness_Heartbeat_def answered_def ControlPlaneURL_def bindM_def checkM_def cp_response_def writeJSON_def
        raiseM_def retM_def Let_def heartbeat_request_def)
qed

subsection \<open>An outage\<close>

definition cut_off :: "Harness \<Rightarrow> SnapshotClient \<Rightarrow> bool" where
  "cut_off h c \<longleftrightarrow> hn_dataPlane h = None \<and>
     listening (hn_controlPlane h) (TrimRight_slash (scl_BaseURL c) @ ''/v1/agents/'' @ scl_AgentID c @ ''/snapshot'') = None"

lemma Fetch_cut_off:
  assumes "cut_off h c"
  shows "\<exists>e n. Fetch (harness_http net) c etag h = (Inl e, h\<lparr>hn_requests := n\<rparr>)"
proof -
  have "\<exists>e. harness_Do net (fetch_request c etag) h = (Inl e, h\<lparr>hn_requests := Suc (hn_requests h)\<rparr>)"
    using assms by (cases "net_Fault net (hn_requests h)")
      (simp_all add: harness_Do_def Let_def serve_request_def cut_off_def fetch_request_def listening_def)
  then obtain e where sent: "harness_Do net (fetch_request c etag) h = (Inl e, h\<lparr>hn_requests := Suc (hn_requests h)\<rparr>)" by blast
  show ?thesis
  proof (cases "net_NewRequest net (hreq_URL (fetch_request c etag))")
    case None
    then have "Fetch (harness_http net) c etag h = (Inl e, h\<lparr>hn_requests := Suc (hn_requests h)\<rparr>)"
      using sent by (simp add: Fetch_def harness_http_def Let_def bindM_def checkM_def)
    then show ?thesis by blast
  next
    case (Some e')
    then have "Fetch (harness_http net) c etag h = (Inl e', h\<lparr>hn_requests := hn_requests h\<rparr>)"
      by (simp add: Fetch_def harness_http_def Let_def bindM_def checkM_def raiseM_def)
    then show ?thesis by blast
  qed
qed

lemma sync_cut_off:
  assumes "cut_off (ss_net s) (sy_Client syncer)" "sy_Http syncer = harness_http net"
  shows "\<exists>e n. SyncOnce syncer os ctx s = (Inl e, s\<lparr>ss_net := (ss_net s)\<lparr>hn_requests := n\<rparr>\<rparr>)"
  using Fetch_cut_off [OF assms(1), of net "ss_etag s"]
  by (auto simp: SyncOnce_def get_etag_def bindM_def effM_def on_net_def assms(2))

lemma rounds_cut_off:
  "cut_off (ss_net s) (sy_Client syncer) \<Longrightarrow> sy_Http syncer = harness_http net \<Longrightarrow>
    \<exists>n. snd (snd (syncer_rounds syncer interval rounds s)) = s\<lparr>ss_net := (ss_net s)\<lparr>hn_requests := n\<rparr>\<rparr>"
proof (induction rounds arbitrary: s)
  case Nil
  show ?case by (rule exI [of _ "hn_requests (ss_net s)"]) simp
next
  case (Cons r rounds)
  obtain e n where sync: "SyncOnce syncer (rnd_os r) (rnd_ctx r) s = (Inl e, s\<lparr>ss_net := (ss_net s)\<lparr>hn_requests := n\<rparr>\<rparr>)"
    using sync_cut_off [OF Cons.prems] by blast
  define s' where "s' = s\<lparr>ss_net := (ss_net s)\<lparr>hn_requests := n\<rparr>\<rparr>"
  have "cut_off (ss_net s') (sy_Client syncer)" using Cons.prems(1) by (simp add: s'_def cut_off_def)
  from Cons.IH [OF this Cons.prems(2)] obtain m where m: "snd (snd (syncer_rounds syncer interval rounds s')) = s'\<lparr>ss_net := (ss_net s')\<lparr>hn_requests := m\<rparr>\<rparr>"
    by blast
  have "snd (snd (syncer_rounds syncer interval (r # rounds) s)) = s' \<or>
      snd (snd (syncer_rounds syncer interval (r # rounds) s)) = snd (snd (syncer_rounds syncer interval rounds s'))"
    using sync by (simp add: s'_def Let_def split: option.split prod.split)
  then show ?case using m by (auto simp: s'_def)
qed

text \<open>An outage of the data plane leaves the agents alone: while it is not running, any number of synchronisation rounds of an agent
  changes neither its files nor its cache nor its entity tag, nor any server or store, so that its local endpoint answers as before.\<close>

theorem outage_leaves_agents_alone:
  assumes "hn_dataPlane (ss_net s) = None" "sy_Http syncer = harness_http net"
    and "listening (hn_controlPlane (ss_net s))
      (TrimRight_slash (scl_BaseURL (sy_Client syncer)) @ ''/v1/agents/'' @ scl_AgentID (sy_Client syncer) @ ''/snapshot'') = None"
  shows "(\<exists>n. snd (snd (syncer_Run syncer rounds s)) = s\<lparr>ss_net := (ss_net s)\<lparr>hn_requests := n\<rparr>\<rparr>) \<and>
    fst (agent_getConfig key (ss_node (snd (snd (syncer_Run syncer rounds s))))) = fst (agent_getConfig key (ss_node s))"
proof -
  have "cut_off (ss_net s) (sy_Client syncer)" using assms by (simp add: cut_off_def)
  from rounds_cut_off [OF this assms(2)]
  have "\<exists>n. snd (snd (syncer_Run syncer rounds s)) = s\<lparr>ss_net := (ss_net s)\<lparr>hn_requests := n\<rparr>\<rparr>" by (simp add: syncer_Run_def Let_def)
  then show ?thesis by auto
qed

subsection \<open>Reports\<close>

text \<open>A step leaves the report to the runner when it touches the metrics and the timings of the result only.\<close>

definition keeps_report :: "('v Bench, 'a) M \<Rightarrow> bool" where
  "keeps_report f \<longleftrightarrow> (\<forall>b. let r = bn_result (snd (f b)) in
     scr_Name r = scr_Name (bn_result b) \<and> scr_Passed r = scr_Passed (bn_result b) \<and> scr_Events r = scr_Events (bn_result b))"

named_theorems keeps \<open>steps that leave the report to the runner\<close>

lemma bench_keeps_bind [keeps]: "keeps_report f \<Longrightarrow> (\<And>a. keeps_report (g a)) \<Longrightarrow> keeps_report (bindM f g)"
  unfolding keeps_report_def Let_def bindM_def by (auto split: prod.split sum.split) (metis snd_conv)+

lemma keeps_simple [keeps]:
  "keeps_report (retM a)" "keeps_report (raiseM e)" "keeps_report (bn_on f)" "keeps_report (bn_get k)" "keeps_report (metric name v)"
  "keeps_report (timing name d)" "keeps_report (bn_do (bn_vars_update u))"
  by (simp_all add: keeps_report_def retM_def raiseM_def bn_on_def bn_get_def bn_do_def metric_def timing_def addMetric_def addTiming_def
      split: prod.split)

lemma keeps_branches [keeps]:
  "keeps_report f \<Longrightarrow> keeps_report g \<Longrightarrow> keeps_report (if c then f else g)"
  "keeps_report f \<Longrightarrow> (\<And>x. keeps_report (k x)) \<Longrightarrow> keeps_report (case found of None \<Rightarrow> f | Some x \<Rightarrow> k x)"
  "(\<And>x y. keeps_report (h x y)) \<Longrightarrow> keeps_report (case p of (x, y) \<Rightarrow> h x y)"
  by (auto split: option.split prod.split)

lemma keeps_try [keeps]: "keeps_report f \<Longrightarrow> (\<And>e. keeps_report (h e)) \<Longrightarrow> (\<And>a. keeps_report (g a)) \<Longrightarrow> keeps_report (tryM f h g)"
  unfolding keeps_report_def Let_def tryM_def by (auto split: prod.split sum.split) (metis snd_conv)+

lemma keeps_outage [keeps]: "keeps_report (outage_sync os syncer node etag)" "keeps_report cached_value"
  by (auto simp: keeps_report_def outage_sync_def cached_value_def Let_def split: prod.split option.split)

definition truthful :: "string \<Rightarrow> string list \<Rightarrow> ScenarioResult \<times> error option \<Rightarrow> bool" where
  "truthful name names report \<longleftrightarrow>
     (case report of (r, err) \<Rightarrow>
        scr_Name r = name \<and> scr_Passed r = (err = None) \<and> map sev_Name (scr_Events r) = take (length (scr_Events r)) names \<and>
        (case err of
           None \<Rightarrow> length (scr_Events r) = length names \<and> list_all (\<lambda>ev. sev_Passed ev \<and> sev_Error ev = []) (scr_Events r)
         | Some e \<Rightarrow> scr_Events r \<noteq> [] \<and> \<not> sev_Passed (last (scr_Events r)) \<and> sev_Error (last (scr_Events r)) = error_text e \<and>
             list_all (\<lambda>ev. sev_Passed ev \<and> sev_Error ev = []) (butlast (scr_Events r))))"

lemma bn_clock_result [simp]: "bn_clock b = (t, b') \<Longrightarrow> bn_result b' = bn_result b"
  by (auto simp: bn_clock_def split: prod.splits)

lemma run_steps_truthful:
  assumes "list_all (\<lambda>step. keeps_report (step_Run step)) steps" "scr_Name (bn_result b) = name" "scr_Passed (bn_result b)"
    and "map sev_Name (scr_Events (bn_result b)) = done1" "list_all (\<lambda>ev. sev_Passed ev \<and> sev_Error ev = []) (scr_Events (bn_result b))"
  shows "truthful name (done1 @ map step_Name steps) (fst (run_steps steps t0 b))"
  using assms
proof (induction steps arbitrary: b done1)
  case Nil
  then show ?case by (auto simp: finish_run_def truthful_def Let_def split: prod.splits)
next
  case (Cons step steps)
  obtain t1 b1 where b1: "bn_clock b = (t1, b1)" by fastforce
  obtain r b2 where b2: "step_Run step b1 = (r, b2)" by fastforce
  obtain t3 b3 where b3: "bn_clock b2 = (t3, b3)" by fastforce
  have kept: "scr_Name (bn_result b3) = name" "scr_Passed (bn_result b3)" "scr_Events (bn_result b3) = scr_Events (bn_result b)"
    using Cons.prems bn_clock_result [OF b1] bn_clock_result [OF b3] b2 unfolding keeps_report_def Let_def
    by (auto dest!: spec [of _ b1])
  have len: "length (scr_Events (bn_result b)) = length done1" using Cons.prems(4) by (metis length_map)
  show ?case
  proof (cases r)
    case (Inl e)
    then show ?thesis
      using b1 b2 b3 kept Cons.prems(4,5) len
      by (auto simp: Let_def finish_run_def truthful_def scenario_event_def split: prod.splits)
  next
    case (Inr u)
    define b4 where "b4 = b3\<lparr>bn_result := (bn_result b3)\<lparr>scr_Events := scr_Events (bn_result b3) @ [scenario_event (step_Name step) None (time_Sub t3 t1)]\<rparr>\<rparr>"
    have "truthful name ((done1 @ [step_Name step]) @ map step_Name steps) (fst (run_steps steps t0 b4))"
      by (rule Cons.IH) (use Inr kept Cons.prems in \<open>simp_all add: b4_def scenario_event_def Let_def\<close>)
    then show ?thesis using b1 b2 b3 Inr by (simp add: b4_def Let_def)
  qed
qed

lemma runner_truthful:
  assumes "list_all (\<lambda>step. keeps_report (step_Run step)) steps"
  shows "truthful name (map step_Name steps) (fst (runner_Run name steps b))"
proof -
  obtain t b1 where b1: "bn_clock b = (t, b1)" by fastforce
  obtain t0 b2 where b2: "bn_clock b1 = (t0, b2)" by fastforce
  show ?thesis unfolding runner_Run_def b1 b2 prod.case
    using run_steps_truthful [OF assms, of "b2\<lparr>bn_result := r\<rparr>" name "[]" t0 for r] by simp
qed

lemma scenario_truthful:
  assumes "list_all (\<lambda>step. keeps_report (step_Run step)) steps"
  shows "case NewHarness js orc o' w of
      (Inl e, w') \<Rightarrow> run_scenario js orc o' name steps vars w = ((zero_ScenarioResult, Some e), w')
    | (Inr h, w') \<Rightarrow> truthful name (map step_Name steps) (fst (run_scenario js orc o' name steps vars w))"
proof -
  have "truthful name (map step_Name steps) (fst (case runner_Run name steps b of (r, b) \<Rightarrow> (r, hn_world (harness_Close (bn_harness b)))))" for b
    using runner_truthful [OF assms, of name b] by (cases "runner_Run name steps b") simp
  then show ?thesis by (simp add: run_scenario_def split: prod.split sum.split)
qed

lemmas step_defs =
  restart_steps_def start_control_def register_one_def outage_steps_def start_both_def warm_cache_def poll_in_outage_def expect_value_def
  concurrent_steps_def concurrent_register_def register_many_def concurrent_create_def create_rollout_def concurrent_acknowledge_def
  acknowledge_created_def concurrent_verify_def rollback_steps_def rollback_start_def rollback_create_def rollback_trigger_def rollback_propagate_def

lemma steps_keep:
  "list_all (\<lambda>step. keeps_report (step_Run step)) (restart_steps net)"
  "list_all (\<lambda>step. keeps_report (step_Run step)) (outage_steps net os files)"
  "list_all (\<lambda>step. keeps_report (step_Run step)) (concurrent_steps sched net)"
  "list_all (\<lambda>step. keeps_report (step_Run step)) (rollback_steps sched net)"
  by (simp_all add: step_defs keeps)

text \<open>C40 (functional). A scenario reports truthfully, whatever the network, the clock and the contexts do: its events are its steps in order up to the first
  that fails, each passed but a failing last one, which carries the error that the run returns; the scenario passed if and only if there is no error and
  then every step was taken.\<close>

theorem scenarios_report_truthfully:
  "case NewHarness js orc o' w of
     (Inl e, w') \<Rightarrow>
       RunControlPlaneRestartScenario net js orc o' w = ((zero_ScenarioResult, Some e), w') \<and>
       RunDataPlaneOutageScenario net os files js orc o' w = ((zero_ScenarioResult, Some e), w') \<and>
       RunConcurrentRolloutAcknowledgementScenario sched net js orc o' w = ((zero_ScenarioResult, Some e), w') \<and>
       RunRollbackPropagationTimingScenario sched net js orc o' w = ((zero_ScenarioResult, Some e), w')
   | (Inr h, w') \<Rightarrow>
       truthful ''control-plane-restart'' (map step_Name (restart_steps net)) (fst (RunControlPlaneRestartScenario net js orc o' w)) \<and>
       truthful ''data-plane-outage'' (map step_Name (outage_steps net os files)) (fst (RunDataPlaneOutageScenario net os files js orc o' w)) \<and>
       truthful ''concurrent-rollout-acknowledgements'' (map step_Name (concurrent_steps sched net))
         (fst (RunConcurrentRolloutAcknowledgementScenario sched net js orc o' w)) \<and>
       truthful ''rollback-propagation-timing'' (map step_Name (rollback_steps sched net))
         (fst (RunRollbackPropagationTimingScenario sched net js orc o' w))"
proof -
  obtain r w' where new: "NewHarness js orc o' w = (r, w')" by fastforce
  note report = scenario_truthful [where js = js and orc = orc and o' = o' and w = w, unfolded new]
  show ?thesis
    unfolding new RunControlPlaneRestartScenario_def RunDataPlaneOutageScenario_def RunConcurrentRolloutAcknowledgementScenario_def
      RunRollbackPropagationTimingScenario_def
    using report [OF steps_keep(1) [of net]] report [OF steps_keep(2) [of net os files]] report [OF steps_keep(3) [of sched net]]
      report [OF steps_keep(4) [of sched net]]
    by (cases r) simp_all
qed

subsection \<open>A restart of the control plane\<close>

text \<open>Nothing goes wrong: no context is cancelled, no request is lost, every URL is accepted, and a credential does not expire meanwhile.\<close>

definition undisturbed :: "Oracle \<Rightarrow> Internet \<Rightarrow> bool" where
  "undisturbed orc net \<longleftrightarrow>
     (\<forall>t. orc_ctx orc t = None) \<and> (\<forall>t t'. orc_now orc t' < orc_now orc t + 3600 * Second) \<and>
     (\<forall>n. net_Fault net n = Intact) \<and> (\<forall>u. net_NewRequest net u = None) \<and> (\<forall>n. TrimRight_slash (net_URL net n) = net_URL net n)"

lemma register_quiet:
  assumes "\<And>t. orc_ctx (cfg_oracle cfg) t = None" "rgi_BootstrapToken i = cfg_bootstrapToken cfg" "cfg_credentialTTL cfg = ttl" "ttl \<noteq> 0"
    and "TrimSpace (rgi_Service i) \<noteq> []" "TrimSpace (rgi_Instance i) \<noteq> []" "valid_env (rgi_Environment i)" "rgi_ID i \<noteq> []"
  shows "\<exists>a c w'. ag_Register (agent_service cfg) i w = (Inr \<lparr>rgr_Agent = a, rgr_Credential = c\<rparr>, w') \<and> agent_ID a = rgi_ID i \<and>
    cred_AgentID c = rgi_ID i \<and> cred_Token c = randomID ''cred'' (orc_entropy (cfg_oracle cfg) (Suc (w_tick w))) \<and>
    cred_ExpiresAt c = orc_now (cfg_oracle cfg) (w_tick w) + ttl \<and>
    gomap_get (ams_agents (w_agents w')) (rgi_ID i) = Some a \<and> gomap_get (ams_credentials (w_agents w')) (cred_Token c) = Some c"
  using assms
  by (simp add: ag_Register_def agent_service_def ag_NewService_def bindM_def checkM_def effM_def retM_def valid_env_def w_now_def w_newID_def tick_def
      world_agent_store_def on_agents_def on_cell_def w_ctx_def ag_mem_SaveAgent_def ag_mem_SaveCredential_def Let_def)

lemma heartbeat_quiet:
  assumes "\<And>t. orc_ctx (cfg_oracle cfg) t = None" "gomap_get (ams_credentials (w_agents w)) token = Some c" "cred_AgentID c = i"
    and "gomap_get (ams_agents (w_agents w)) i = Some a" "TrimSpace token \<noteq> []" "\<And>t. orc_now (cfg_oracle cfg) t < cred_ExpiresAt c"
  shows "\<exists>a w'. ag_Heartbeat (agent_service cfg) i token w = (Inr a, w')"
  using assms
  by (simp add: ag_Heartbeat_def ag_Verify_def agent_service_def ag_NewService_def bindM_def tryM_def effM_def retM_def w_now_def tick_def
      world_agent_store_def on_agents_def on_cell_def w_ctx_def ag_mem_GetCredential_def ag_mem_TouchHeartbeat_def Let_def)

lemma seed_versions_valid:
  "ConfigVersion_Validate
     \<lparr>ver_ID = ''ver_payment_failure_rate_v1'', ver_ConfigDefinitionID = ''cfg_payment_failure_rate'', ver_VersionNumber = 1, ver_Value = ''0'',
      ver_SourceCommitSHA = [], ver_CreatedBy = ''reliability'', ver_CreatedAt = seed_time\<rparr> = None"
  "ConfigVersion_Validate
     \<lparr>ver_ID = ''ver_payment_failure_rate_v2'', ver_ConfigDefinitionID = ''cfg_payment_failure_rate'', ver_VersionNumber = 2, ver_Value = ''0.2'',
      ver_SourceCommitSHA = [], ver_CreatedBy = ''reliability'', ver_CreatedAt = seed_time\<rparr> = None"
  by code_simp+

lemma NewHarness_quiet:
  assumes "\<And>t. orc_ctx orc t = None"
  shows "\<exists>w'. NewHarness js orc o' w =
    (Inr \<lparr>hn_config = harness_config js orc, hn_options = harness_defaults o', hn_controlPlane = None, hn_dataPlane = None, hn_world = w',
       hn_servers = 0, hn_requests = 0\<rparr>, w')"
  using assms
  by (simp add: NewHarness_def seed_registry_def Let_def bindM_def harness_config_def world_config_store_def on_registry_def on_cell_def w_ctx_def
      new_stores_def tick_def cr_NewMemoryStore_def cr_mem_CreateTenant_def cr_mem_CreateDefinition_def cr_mem_CreateVersion_def
      cr_mem_SaveEnvironmentState_def gomap_slice_def seed_versions_valid)

definition printable :: "char \<Rightarrow> bool" where
  "printable c \<longleftrightarrow> \<not> ascii_space c \<and> (of_char c :: nat) < 128"

lemma no_space_suffix:
  assumes "printable c"
  shows "space_suffix (c # s) = 0"
proof -
  have "c \<noteq> CHR 0x85" "c \<noteq> CHR 0xA0" "c \<noteq> CHR 0x80" "c \<noteq> CHR 0x9F" "c \<noteq> CHR 0xA8" "c \<noteq> CHR 0xA9" "c \<noteq> CHR 0xAF"
    using assms by (auto simp: printable_def)
  then have two: "\<not> space2 b c" and three: "\<not> space3 a b c" for a b
    using assms by (simp_all add: space2_def space3_def printable_def)
  have one: "\<not> ascii_space c" using assms by (simp add: printable_def)
  show ?thesis
  proof (cases s)
    case (Cons b s')
    then show ?thesis using one two three by (cases s') simp_all
  qed (simp add: one)
qed

lemma token_printable: "list_all printable (CHR ''_'' # hex_alphabet)"
  by code_simp

lemma token_facts:
  "sanitize (randomID ''cred'' b) = randomID ''cred'' b" "TrimSpace (randomID ''cred'' b) \<noteq> []"
proof -
  have hex: "list_all (\<lambda>c. byte_of c < 128) hex_alphabet" by code_simp
  have "list_all (\<lambda>c. byte_of c < 128) (hex_EncodeToString b)"
    using hex_EncodeToString_chars [of b] hex by (auto simp: list_all_iff)
  then have "list_all (\<lambda>c. byte_of c < 128) (randomID ''cred'' b)" by (simp add: randomID_def byte_of_def)
  then show "sanitize (randomID ''cred'' b) = randomID ''cred'' b" by (rule sanitize_ascii)
  obtain c r where rev: "rev (randomID ''cred'' b) = c # r" by (cases "rev (randomID ''cred'' b)") (simp_all add: randomID_def)
  have "rev (hex_EncodeToString b) @ ''_derc'' = c # r" using rev by (simp add: randomID_def)
  then have "c = CHR ''_'' \<or> c \<in> set (rev (hex_EncodeToString b))"
    by (cases "rev (hex_EncodeToString b)") simp_all
  then have "c \<in> set (CHR ''_'' # hex_alphabet)" using hex_EncodeToString_chars [of b] by auto
  then have "printable c" using token_printable by (auto simp: list_all_iff simp del: list.set)
  then have "trim_by space_suffix (c # r) = c # r" by (simp add: trim_by.simps no_space_suffix)
  moreover have "trim_by space_prefix (randomID ''cred'' b) = randomID ''cred'' b"
    by (subst trim_by.simps) (simp add: randomID_def ascii_space_def space2_def space3_def)
  ultimately show "TrimSpace (randomID ''cred'' b) \<noteq> []" by (simp add: TrimSpace_def rev)
qed

lemma restart_name: "plain_name ''agent-restart-1''" "valid_utf8 ''agent-restart-1''" "TrimSpace ''agent-restart-1'' \<noteq> []" "sanitize ''agent-restart-1'' = ''agent-restart-1''"
  by code_simp+

text \<open>What the steps of the scenario depend on; the clock and the report of the runner do not touch it.\<close>

record 'v View =
  vw_config :: Config
  vw_options :: HarnessOptions
  vw_control :: "string option"
  vw_agents :: ag_MemoryStore
  vw_vars :: 'v
  vw_metrics :: "(string, int) gomap"

definition view :: "'v Bench \<Rightarrow> 'v View" where
  "view b =
     \<lparr>vw_config = hn_config (bn_harness b), vw_options = hn_options (bn_harness b), vw_control = hn_controlPlane (bn_harness b),
      vw_agents = w_agents (hn_world (bn_harness b)), vw_vars = bn_vars b, vw_metrics = scr_Metrics (bn_result b)\<rparr>"

definition leads :: "('v View \<Rightarrow> bool) \<Rightarrow> ('v Bench, unit) M \<Rightarrow> ('v View \<Rightarrow> bool) \<Rightarrow> bool" where
  "leads P f Q \<longleftrightarrow> (\<forall>b. P (view b) \<longrightarrow> (\<exists>b'. f b = (Inr (), b') \<and> Q (view b')))"

lemma view_clock [simp]: "bn_clock b = (t, b') \<Longrightarrow> view b' = view b"
  by (auto simp: bn_clock_def w_now_def tick_def view_def)

definition passes_with :: "('v View \<Rightarrow> bool) \<Rightarrow> (ScenarioResult \<times> error option) \<times> 'v Bench \<Rightarrow> bool" where
  "passes_with Q out \<longleftrightarrow> (\<exists>r b. out = ((r, None), b) \<and> scr_Metrics r = vw_metrics (view b) \<and> Q (view b))"

lemma steps_pass_Nil: "Q (view b) \<Longrightarrow> passes_with Q (run_steps [] t0 b)"
proof -
  assume "Q (view b)"
  moreover obtain t b' where c: "bn_clock b = (t, b')" by fastforce
  moreover have "view (b'\<lparr>bn_result := (bn_result b')\<lparr>scr_Duration := d\<rparr>\<rparr>) = view b" for d using view_clock [OF c] by (simp add: view_def)
  ultimately show ?thesis by (simp add: passes_with_def finish_run_def Let_def) (simp add: view_def)
qed

lemma passes_Cons:
  assumes "leads P (step_Run step) P'" "P (view b)" "\<And>b. P' (view b) \<Longrightarrow> passes_with Q (run_steps steps t0 b)"
  shows "passes_with Q (run_steps (step # steps) t0 b)"
proof -
  obtain t1 b1 where b1: "bn_clock b = (t1, b1)" by fastforce
  have "P (view b1)" using assms(2) view_clock [OF b1] by simp
  then obtain b2 where b2: "step_Run step b1 = (Inr (), b2)" "P' (view b2)" using assms(1) unfolding leads_def by blast
  obtain t3 b3 where b3: "bn_clock b2 = (t3, b3)" by fastforce
  define b4 where "b4 = b3\<lparr>bn_result := (bn_result b3)\<lparr>scr_Events := scr_Events (bn_result b3) @ [scenario_event (step_Name step) None (time_Sub t3 t1)]\<rparr>\<rparr>"
  have "view b4 = view b2" using view_clock [OF b3] by (simp add: b4_def view_def)
  then have "passes_with Q (run_steps steps t0 b4)" using assms(3) b2(2) by simp
  then show ?thesis using b1 b2(1) b3 by (simp add: b4_def Let_def)
qed

lemmas passes_step = passes_Cons [where step = "\<lparr>step_Name = name, step_Run = f\<rparr>" for name f, unfolded Step.simps]

lemma passes_run:
  assumes "\<And>t0 b. P (view b) \<Longrightarrow> passes_with Q (run_steps steps t0 b)" "P ((view b)\<lparr>vw_metrics := []\<rparr>)"
  shows "passes_with Q (runner_Run name steps b)"
proof -
  obtain t b1 where b1: "bn_clock b = (t, b1)" by fastforce
  obtain t0 b2 where b2: "bn_clock b1 = (t0, b2)" by fastforce
  have same: "view b2 = view b" using view_clock [OF b1] view_clock [OF b2] by simp
  have "view (b2\<lparr>bn_result := r\<rparr>) = (view b2)\<lparr>vw_metrics := scr_Metrics r\<rparr>" for r by (simp add: view_def)
  then show ?thesis unfolding runner_Run_def b1 b2 prod.case using assms same by simp
qed

text \<open>The states between the steps.\<close>

definition listening_view :: "Internet \<Rightarrow> Config \<Rightarrow> HarnessOptions \<Rightarrow> (string, int) gomap \<Rightarrow> 'v View \<Rightarrow> bool" where
  "listening_view net cfg o' ms v \<longleftrightarrow>
     vw_config v = cfg \<and> vw_options v = o' \<and> (\<exists>n. vw_control v = Some (net_URL net n)) \<and> vw_metrics v = ms"

definition registered_view :: "Internet \<Rightarrow> Config \<Rightarrow> HarnessOptions \<Rightarrow> string \<Rightarrow> (string, int) gomap \<Rightarrow> AgentIdentity View \<Rightarrow> bool" where
  "registered_view net cfg o' i ms v \<longleftrightarrow>
     listening_view net cfg o' ms v \<and> hid_ID (vw_vars v) = i \<and> TrimSpace (hid_Token (vw_vars v)) \<noteq> [] \<and>
     (\<exists>a c t. gomap_get (ams_agents (vw_agents v)) i = Some a \<and> gomap_get (ams_credentials (vw_agents v)) (hid_Token (vw_vars v)) = Some c \<and>
        cred_AgentID c = i \<and> cred_ExpiresAt c = orc_now (cfg_oracle cfg) t + cfg_credentialTTL cfg)"

lemma leads_start:
  "leads (\<lambda>v. vw_config v = cfg \<and> vw_options v = o' \<and> vw_control v = None \<and> vw_metrics v = ms) (start_control net)
    (listening_view net cfg o' (gomap_set ''control_plane_starts'' 1 ms))"
  by (auto simp: leads_def view_def listening_view_def start_control_def bindM_def bn_on_def hn_do_def StartControlPlane_def metric_def bn_do_def
      addMetric_def)

lemma leads_register:
  assumes u: "undisturbed orc net" and cfg: "cfg = harness_config js orc" and i: "valid_utf8 i" "TrimSpace i \<noteq> []" "sanitize i = i"
    and o': "TrimSpace (hop_Service o') \<noteq> []" "valid_utf8 (hop_Service o')" "valid_env (hop_Environment o')"
  shows "leads (listening_view net cfg o' ms) (register_one net i (\<lambda>who _. who)) (registered_view net cfg o' i (gomap_set ''registered_agents'' 1 ms))"
  unfolding leads_def
proof (intro allI impI)
  fix b :: "AgentIdentity Bench"
  assume P: "listening_view net cfg o' ms (view b)"
  define h where "h = bn_harness b"
  obtain n where h: "hn_config h = cfg" "hn_options h = o'" "hn_controlPlane h = Some (net_URL net n)" "scr_Metrics (bn_result b) = ms"
    using P by (auto simp: listening_view_def view_def h_def)
  let ?input = "harness_registration o' i"
  have utf8: "utf8_registration ?input"
  proof -
    have "valid_utf8 bootstrapToken" "valid_utf8 ''zone-1''" "valid_utf8 ''production''" "valid_utf8 ''staging''" "valid_utf8 ''development''" by code_simp+
    then show ?thesis using i o'(2,3) by (auto simp: utf8_registration_def harness_registration_def utf8_labels_def gomap_ok_def valid_env_cases)
  qed
  have "\<exists>a c w'. ag_Register (agent_service cfg) (registered_input ?input) (hn_world h) = (Inr \<lparr>rgr_Agent = a, rgr_Credential = c\<rparr>, w') \<and>
      agent_ID a = rgi_ID (registered_input ?input) \<and> cred_AgentID c = rgi_ID (registered_input ?input) \<and>
      cred_Token c = randomID ''cred'' (orc_entropy (cfg_oracle cfg) (Suc (w_tick (hn_world h)))) \<and>
      cred_ExpiresAt c = orc_now (cfg_oracle cfg) (w_tick (hn_world h)) + cfg_credentialTTL cfg \<and>
      gomap_get (ams_agents (w_agents w')) (rgi_ID (registered_input ?input)) = Some a \<and> gomap_get (ams_credentials (w_agents w')) (cred_Token c) = Some c"
    using u i o' by (intro register_quiet) (auto simp: undisturbed_def cfg harness_config_def registered_input_def harness_registration_def Second_def)
  then obtain a c w' where reg: "ag_Register (agent_service cfg) (registered_input ?input) (hn_world h) = (Inr \<lparr>rgr_Agent = a, rgr_Credential = c\<rparr>, w')"
      "agent_ID a = i" "cred_AgentID c = i" "cred_Token c = randomID ''cred'' (orc_entropy (cfg_oracle cfg) (Suc (w_tick (hn_world h))))"
      "cred_ExpiresAt c = orc_now (cfg_oracle cfg) (w_tick (hn_world h)) + cfg_credentialTTL cfg"
      "gomap_get (ams_agents (w_agents w')) i = Some a" "gomap_get (ams_credentials (w_agents w')) (cred_Token c) = Some c"
    by (auto simp: registered_input_def harness_registration_def)
  have "client_Register (harness_http net) (net_URL net n) ?input h =
      (Inr \<lparr>arr_AgentID = i, arr_InstanceCredential = cred_Token c\<rparr>, h\<lparr>hn_world := w', hn_requests := Suc (hn_requests h)\<rparr>)"
    using client_registration [OF h(3) _ _ _ utf8, of net] u reg i(3) h(1) by (simp add: undisturbed_def answered_def token_facts)
  then have run: "RegisterAgent net i h = (Inr \<lparr>hid_ID = i, hid_Token = cred_Token c\<rparr>, h\<lparr>hn_world := w', hn_requests := Suc (hn_requests h)\<rparr>)"
    using h by (simp add: RegisterAgent_def bindM_def ControlPlaneURL_def hn_get_def retM_def)
  then show "\<exists>b'. register_one net i (\<lambda>who _. who) b = (Inr (), b') \<and> registered_view net cfg o' i (gomap_set ''registered_agents'' 1 ms) (view b')"
    using h reg token_facts(2)
    by (simp add: register_one_def bindM_def bn_on_def h_def [symmetric] bn_do_def metric_def addMetric_def registered_view_def listening_view_def view_def)
      blast
qed

lemma leads_restart:
  "leads (registered_view net cfg o' i ms) (bindM (bn_on (Restart net FailureControlPlane)) (\<lambda>_. metric name v))
    (registered_view net cfg o' i (gomap_set name v ms))"
  by (auto simp: leads_def view_def registered_view_def listening_view_def bindM_def bn_on_def Restart_def InjectFailure_def Recover_def
      StartControlPlane_def metric_def bn_do_def addMetric_def)

lemma leads_heartbeat:
  assumes u: "undisturbed orc net" and cfg: "cfg = harness_config js orc" and i: "plain_name i"
  shows "leads (registered_view net cfg o' i ms)
    (bindM (bn_get bn_vars) (\<lambda>who. bindM (bn_on (harness_Heartbeat net who)) (\<lambda>_. metric name v)))
    (\<lambda>x. vw_metrics x = gomap_set name v ms)"
  unfolding leads_def
proof (intro allI impI)
  fix b :: "AgentIdentity Bench"
  assume P: "registered_view net cfg o' i ms (view b)"
  define h where "h = bn_harness b"
  obtain n a c t where h: "hn_config h = cfg" "hn_controlPlane h = Some (net_URL net n)" "scr_Metrics (bn_result b) = ms" "hid_ID (bn_vars b) = i"
      "TrimSpace (hid_Token (bn_vars b)) \<noteq> []" "gomap_get (ams_agents (w_agents (hn_world h))) i = Some a"
      "gomap_get (ams_credentials (w_agents (hn_world h))) (hid_Token (bn_vars b)) = Some c" "cred_AgentID c = i"
      "cred_ExpiresAt c = orc_now (cfg_oracle cfg) t + cfg_credentialTTL cfg"
    using P by (auto simp: registered_view_def listening_view_def view_def h_def)
  have "\<exists>a w'. ag_Heartbeat (agent_service cfg) i (hid_Token (bn_vars b)) (hn_world h) = (Inr a, w')"
    by (rule heartbeat_quiet [OF _ h(7,8,6,5)]) (use u h(9) in \<open>auto simp: undisturbed_def cfg harness_config_def\<close>)
  then obtain a' w' where "ag_Heartbeat (agent_service cfg) i (hid_Token (bn_vars b)) (hn_world h) = (Inr a', w')" by blast
  then have "harness_Heartbeat net (bn_vars b) h = (Inr (), h\<lparr>hn_world := w', hn_requests := Suc (hn_requests h)\<rparr>)"
    using heartbeat_over_http [OF h(2), of net "bn_vars b"] u i h(1,4) by (simp add: undisturbed_def answered_def)
  then show "\<exists>b'. bindM (bn_get bn_vars) (\<lambda>who. bindM (bn_on (harness_Heartbeat net who)) (\<lambda>_. metric name v)) b = (Inr (), b') \<and>
      vw_metrics (view b') = gomap_set name v ms"
    using h(3) by (simp add: bindM_def bn_get_def bn_on_def h_def [symmetric] metric_def bn_do_def addMetric_def view_def)
qed

text \<open>C37 (liveness). The restart scenario passes: when nothing disturbs the run and the options name a service and a valid environment, the control plane is
  started, an agent registers over HTTP, the control plane is restarted at another URL and the agent's heartbeat succeeds with the credential
  it got before, because the stores outlive the server.\<close>

theorem restart_scenario_passes:
  assumes "undisturbed orc net" "TrimSpace (hop_Service (harness_defaults o')) \<noteq> []" "valid_utf8 (hop_Service (harness_defaults o'))"
    and "valid_env (hop_Environment (harness_defaults o'))"
  shows "\<exists>r. fst (RunControlPlaneRestartScenario net js orc o' w) = (r, None) \<and> scr_Passed r \<and> length (scr_Events r) = 4 \<and>
    scr_Metrics r = [(''control_plane_starts'', 1), (''registered_agents'', 1), (''control_plane_restarts'', 1), (''post_restart_heartbeats'', 1)]"
proof -
  let ?cfg = "harness_config js orc" and ?o = "harness_defaults o'"
  obtain w' where new: "NewHarness js orc o' w =
      (Inr \<lparr>hn_config = ?cfg, hn_options = ?o, hn_controlPlane = None, hn_dataPlane = None, hn_world = w', hn_servers = 0, hn_requests = 0\<rparr>, w')"
    using NewHarness_quiet [of orc js o' w] assms(1) by (auto simp: undisturbed_def)
  let ?b = "\<lparr>bn_harness = \<lparr>hn_config = ?cfg, hn_options = ?o, hn_controlPlane = None, hn_dataPlane = None, hn_world = w', hn_servers = 0,
      hn_requests = 0\<rparr>, bn_result = zero_ScenarioResult, bn_vars = no_identity\<rparr>"
  let ?ms = "gomap_set ''post_restart_heartbeats'' 1 (gomap_set ''control_plane_restarts'' 1 (gomap_set ''registered_agents'' 1
      (gomap_set ''control_plane_starts'' 1 [])))"
  let ?start = "\<lambda>v. vw_config v = ?cfg \<and> vw_options v = ?o \<and> vw_control v = None \<and> vw_metrics v = []"
  note register = leads_register [OF assms(1) refl restart_name(2-4) assms(2-4)]
  have steps: "passes_with (\<lambda>v. vw_metrics v = ?ms) (run_steps (restart_steps net) t0 b)" if "?start (view b)" for t0 b
    unfolding restart_steps_def
    by (rule passes_step [OF leads_start that], rule passes_step [OF register], assumption, rule passes_step [OF leads_restart], assumption,
        rule passes_step [OF leads_heartbeat [OF assms(1) refl restart_name(1)]], assumption, rule steps_pass_Nil, assumption)
  have "passes_with (\<lambda>v. vw_metrics v = ?ms) (runner_Run ''control-plane-restart'' (restart_steps net) ?b)"
    by (rule passes_run [where P = ?start, OF steps]) (simp_all add: view_def)
  then obtain r b where run: "runner_Run ''control-plane-restart'' (restart_steps net) ?b = ((r, None), b)" "scr_Metrics r = ?ms"
    unfolding passes_with_def by auto
  then have "truthful ''control-plane-restart'' (map step_Name (restart_steps net)) (r, None)"
    using runner_truthful [OF steps_keep(1), of "''control-plane-restart''" net ?b] by simp
  then have "scr_Passed r" "length (scr_Events r) = 4" by (simp_all add: truthful_def restart_steps_def)
  then show ?thesis using run by (simp add: RunControlPlaneRestartScenario_def run_scenario_def new gomap_set_def)
qed

subsection \<open>Witnesses\<close>

definition demo_net :: Internet where
  "demo_net =
     \<lparr>net_URL = (\<lambda>n. ''http://s'' @ replicate n (CHR ''s'')), net_NewRequest = (\<lambda>_. None), net_Fault = (\<lambda>_. Intact),
      net_Redirected = (\<lambda>_. raiseM connection_refused)\<rparr>"

definition demo_clock :: Oracle where
  "demo_clock =
     \<lparr>orc_now = (\<lambda>_. seed_time), orc_entropy = (\<lambda>n. replicate 12 (word_of_nat n)), orc_ctx = (\<lambda>_. None), orc_query = (\<lambda>_ _ _. Inr (Fin 0)),
      orc_order = (\<lambda>_. [])\<rparr>"

definition any_schema :: "(bytes, unit, bytes) jsonschema" where
  "any_schema = \<lparr>js_UnmarshalJSON = Inr, js_NewCompiler = (), js_AddResource = (\<lambda>c _ _. Inr c), js_Compile = (\<lambda>_ _. Inr ''true''), js_Validate = (\<lambda>_ _. None)\<rparr>"

definition no_options :: HarnessOptions where
  "no_options = \<lparr>hop_Service = [], hop_Environment = [], hop_TempDir = [], hop_Concurrency = 0\<rparr>"

lemma demo_undisturbed: "undisturbed demo_clock demo_net"
proof -
  have "dropWhile (\<lambda>c. c = CHR ''/'') (replicate n (CHR ''s'') @ ''s//:ptth'') = replicate n (CHR ''s'') @ ''s//:ptth''" for n
    by (cases n) simp_all
  then show ?thesis by (simp add: undisturbed_def demo_clock_def demo_net_def TrimRight_slash_def Second_def)
qed

theorem restart_scenario_passes_witness:
  "\<exists>r. fst (RunControlPlaneRestartScenario demo_net any_schema demo_clock no_options initial_world) = (r, None) \<and> scr_Passed r"
proof -
  have "TrimSpace (hop_Service (harness_defaults no_options)) \<noteq> []" "valid_utf8 (hop_Service (harness_defaults no_options))"
    "valid_env (hop_Environment (harness_defaults no_options))"
    by (simp_all add: valid_env_def) code_simp+
  from restart_scenario_passes [OF demo_undisturbed this, of any_schema initial_world] show ?thesis by blast
qed

definition demo_harness :: Harness where
  "demo_harness =
     \<lparr>hn_config = demo_config, hn_options = no_options, hn_controlPlane = Some ''http://c'', hn_dataPlane = None, hn_world = demo_world,
      hn_servers = 1, hn_requests = 0\<rparr>"

theorem registration_over_http_witness:
  "case fst (client_Register (harness_http demo_net) ''http://c'' demo_registration demo_harness) of
     Inl _ \<Rightarrow> False | Inr result \<Rightarrow> take 5 (arr_InstanceCredential result) = ''cred_''"
proof -
  have "utf8_registration demo_registration" "TrimRight_slash ''http://c'' = ''http://c''" by code_simp+
  then have over: "client_Register (harness_http demo_net) ''http://c'' demo_registration demo_harness =
    answered (\<lambda>err. status_error ''agent registration failed: status=%d body=%s'' (cp_response (cp_writeAgentError err)))
      (\<lambda>result. \<lparr>arr_AgentID = sanitize (agent_ID (rgr_Agent result)), arr_InstanceCredential = sanitize (cred_Token (rgr_Credential result))\<rparr>)
      (ag_Register (agent_service demo_config) (registered_input demo_registration)) demo_harness"
    using registration_over_http [of demo_harness "''http://c''" demo_net demo_registration] by (simp add: demo_harness_def demo_net_def)
  have run: "case fst (ag_Register (agent_service demo_config) (registered_input demo_registration) demo_world) of
     Inl _ \<Rightarrow> False | Inr result \<Rightarrow> take 5 (sanitize (cred_Token (rgr_Credential result))) = ''cred_''"
    by code_simp
  have "hn_world demo_harness = demo_world" by (simp add: demo_harness_def)
  then show ?thesis using run unfolding over answered_def
    by (cases "ag_Register (agent_service demo_config) (registered_input demo_registration) demo_world") (auto split: sum.splits)
qed

definition cut_off_agent :: "Harness SyncState" where
  "cut_off_agent =
     \<lparr>ss_node = \<lparr>nd_files = [], nd_unsynced = [], nd_ops = 0, nd_cache = \<lparr>sc_path = ''c.json'', sc_snapshot = Some demo_empty_snapshot\<rparr>\<rparr>, ss_etag = ''e'', ss_net = demo_harness\<rparr>"

definition cut_off_syncer :: "Harness Syncer" where
  "cut_off_syncer =
     \<lparr>sy_Client = \<lparr>scl_BaseURL = ''http://d'', scl_AgentID = ''a'', scl_Token = ''t''\<rparr>, sy_Http = harness_http demo_net, sy_Acknowledger = None, sy_PollInterval = 0\<rparr>"

theorem outage_leaves_agents_alone_witness:
  "ss_node (snd (snd (syncer_Run cut_off_syncer [demo_round 3 None, demo_round 4 None] cut_off_agent))) = ss_node cut_off_agent"
proof -
  have free: "listening (hn_controlPlane (ss_net cut_off_agent))
      (TrimRight_slash (scl_BaseURL (sy_Client cut_off_syncer)) @ ''/v1/agents/'' @ scl_AgentID (sy_Client cut_off_syncer) @ ''/snapshot'') = None"
    by code_simp
  have down: "hn_dataPlane (ss_net cut_off_agent) = None" "sy_Http cut_off_syncer = harness_http demo_net"
    by (simp_all add: cut_off_agent_def demo_harness_def cut_off_syncer_def)
  obtain n where "snd (snd (syncer_Run cut_off_syncer [demo_round 3 None, demo_round 4 None] cut_off_agent)) =
      cut_off_agent\<lparr>ss_net := (ss_net cut_off_agent)\<lparr>hn_requests := n\<rparr>\<rparr>"
    using outage_leaves_agents_alone [OF down free, of "[demo_round 3 None, demo_round 4 None]" "[]"] by blast
  then show ?thesis by simp
qed

end
