(* ===== verification/Tools.thy ===== *)
theory Tools
  imports Cfgctl Reliability_Scenarios
begin

section \<open>cmd/simulator and cmd/reliability\<close>

text \<open>
  The two programs that run a simulation and the reliability scenarios: their flags, their exit status and their output as text and as JSON. As in
  \<open>Cfgctl\<close> every write may fail and the usage text of the flag package is left out.
\<close>

subsection \<open>time.Duration and floating point numbers as text\<close>

definition fraction_text :: "nat \<Rightarrow> int \<Rightarrow> string" where
  "fraction_text prec v = (if v = 0 then [] else CHR ''.'' # rev (dropWhile (\<lambda>c. c = CHR ''0'') (rev (pad prec v))))"

definition scaled :: "nat \<Rightarrow> int \<Rightarrow> string \<Rightarrow> string" where
  "scaled prec u unit = show_uint (u div 10 ^ prec) @ fraction_text prec (u mod 10 ^ prec) @ unit"

definition duration_String :: "duration \<Rightarrow> string" where
  "duration_String d =
     (let u = \<bar>d\<bar> in
      if u = 0 then ''0s''
      else (if d < 0 then ''-'' else []) @
        (if u < 1000 then scaled 0 u ''ns''
         else if u < 1000000 then scaled 3 u [CHR 0xC2, CHR 0xB5, CHR ''s'']
         else if u < 1000000000 then scaled 6 u ''ms''
         else
           let secs = u div 1000000000; mins = secs div 60; hours = mins div 60 in
           (if 0 < hours then show_uint hours @ ''h'' else []) @ (if 0 < mins then show_uint (mins mod 60) @ ''m'' else []) @
           show_uint (secs mod 60) @ fraction_text 9 (u mod 1000000000) @ ''s''))"

definition duration_Round :: "duration \<Rightarrow> duration \<Rightarrow> duration" where
  "duration_Round d m =
     (if m \<le> 0 then d
      else
        let r = \<bar>d\<bar> mod m in
        if d < 0 then
          (if 2 * r < m then d + r else let d1 = wrap64 (d - m + r) in if d1 < d then d1 else - (2 ^ 63))
        else (if 2 * r < m then d - r else let d1 = wrap64 (d + m - r) in if d1 > d then d1 else 2 ^ 63 - 1))"

definition Millisecond :: duration where
  "Millisecond = 1000000"

definition Microsecond :: duration where
  "Microsecond = 1000"

lemma duration_examples:
  "duration_String 0 = ''0s''" "duration_String 1500000000 = ''1.5s''" "duration_String (3600 * Second) = ''1h0m0s''"
  "duration_String 2000001 = ''2.000001ms''" "duration_String (- 999) = ''-999ns''"
  "duration_Round 1499999 Millisecond = 1000000" "duration_Round 1500000 Millisecond = 2000000" "duration_Round (- 1500000) Millisecond = - 2000000"
  by code_simp+

text \<open>The verbs \<open>%.0f\<close> and \<open>%.2f\<close>: the exact value rounded half to even.\<close>

definition fixed_text :: "nat \<Rightarrow> float64 \<Rightarrow> string" where
  "fixed_text prec x =
     (case x of
        Fin q \<Rightarrow>
          (let n = round_even (\<bar>q\<bar> * 10 ^ prec) in
           (if q < 0 then ''-'' else []) @ show_uint (n div 10 ^ prec) @ (if prec = 0 then [] else CHR ''.'' # pad prec (n mod 10 ^ prec)))
      | PInf \<Rightarrow> ''+Inf'' | NInf \<Rightarrow> ''-Inf'' | NaN \<Rightarrow> ''NaN'')"

lemma fixed_examples: "fixed_text 2 (Fin 100) = ''100.00''" "fixed_text 0 (Fin (5 / 2)) = ''2''" "fixed_text 2 (Fin (1 / 8)) = ''0.12''"
  by code_simp+

subsection \<open>Output and exit\<close>

text \<open>Writes, of which each may fail.\<close>

type_synonym writer = "nat \<Rightarrow> error option"

definition tool_write :: "writer \<Rightarrow> stream \<Rightarrow> string \<Rightarrow> ('n cli, unit) M" where
  "tool_write wr out line w =
     (case wr (length (cl_writes w)) of Some e \<Rightarrow> (Inl e, w) | None \<Rightarrow> (Inr (), w\<lparr>cl_writes := cl_writes w @ [(out, line)]\<rparr>))"

text \<open>The status of the process; \<open>None\<close> when the run has not returned. A panic ends the process with status 2.\<close>

definition tool_main :: "writer \<Rightarrow> (string list \<Rightarrow> ('n cli, unit option) M) \<Rightarrow> string list \<Rightarrow> 'n cli \<Rightarrow> int option \<times> 'n cli" where
  "tool_main wr run args w =
     (case run args w of
        (Inr None, w') \<Rightarrow> (None, w')
      | (Inr (Some _), w') \<Rightarrow> (Some 0, w')
      | (Inl err, w') \<Rightarrow>
          if err = makeslice_panic then (Some 2, w')
          else (case tool_write wr Stderr (error_text err @ newline) w' of (Inl _, w'') \<Rightarrow> (Some 2, w'') | (Inr _, w'') \<Rightarrow> (Some 1, w'')))"

text \<open>An encoder with an indentation of two spaces; the value is written at once.\<close>

definition encode_indented :: "writer \<Rightarrow> error + string \<Rightarrow> ('n cli, unit) M" where
  "encode_indented wr payload = bindM (liftE payload) (\<lambda>t. tool_write wr Stdout (json_indent t @ newline))"

definition unsupported_format :: "string \<Rightarrow> error" where
  "unsupported_format format = Errorf ''unsupported format %q'' [FQ format]"

definition on_net1 :: "('n, 'a) M \<Rightarrow> ('n cli, 'a) M" where
  "on_net1 f w = (case f (cl_net w) of (r, n) \<Rightarrow> (r, w\<lparr>cl_net := n\<rparr>))"

fun write_all :: "writer \<Rightarrow> string list \<Rightarrow> ('n cli, unit) M" where
  "write_all wr [] = retM ()"
| "write_all wr (line # rest) = bindM (tool_write wr Stdout line) (\<lambda>_. write_all wr rest)"

definition int_value :: "(string, string) gomap \<Rightarrow> string \<Rightarrow> int" where
  "int_value m name = (case ParseInt (flag_value m name) of None \<Rightarrow> 0 | Some n \<Rightarrow> n)"

subsection \<open>cmd/simulator\<close>

definition simulator_flags :: "(string \<times> flag_kind) list" where
  "simulator_flags = [(''agents'', IntFlag), (''concurrency'', IntFlag), (''service'', StringFlag), (''environment'', StringFlag), (''format'', StringFlag)]"

definition simulator_defaults :: "(string, string) gomap" where
  "simulator_defaults =
     [(''agents'', ''1000''), (''concurrency'', ''64''), (''service'', ''payment-service''), (''environment'', EnvironmentProduction), (''format'', ''text'')]"

definition simulator_options :: "(string, string) gomap \<Rightarrow> Options" where
  "simulator_options m =
     \<lparr>opt_AgentCount = int_value m ''agents'', opt_Concurrency = int_value m ''concurrency'', opt_Service = flag_value m ''service'',
      opt_Environment = flag_value m ''environment''\<rparr>"

definition int_field :: "string \<Rightarrow> int \<Rightarrow> string" where
  "int_field name n = json_field name (show_int n)"

definition Latency_json :: "Latency \<Rightarrow> string" where
  "Latency_json l = json_object
     [int_field ''count'' (lat_Count l), int_field ''min'' (lat_Min l), int_field ''avg'' (lat_Avg l), int_field ''p50'' (lat_P50 l),
      int_field ''p95'' (lat_P95 l), int_field ''max'' (lat_Max l)]"

definition StageResult_json :: "StageResult \<Rightarrow> error + string" where
  "StageResult_json s =
     map_sum id (\<lambda>coverage. json_object
       ([string_field ''stage_id'' (sgr_StageID s), int_field ''targets'' (sgr_Targets s), int_field ''acked'' (sgr_Acked s),
         json_field ''coverage'' coverage, int_field ''duration'' (sgr_Duration s), string_field ''next_state'' (sgr_NextState s)] @
        omitempty ''next_stage'' (sgr_NextStage s))) (json_float64 (sgr_Coverage s))"

definition Result_json :: "Result \<Rightarrow> error + string" where
  "Result_json r =
     (case json_float64 (srs_AgentsPerSecond r) of Inl e \<Rightarrow> Inl e | Inr agents \<Rightarrow>
     (case json_float64 (srs_SnapshotsPerSecond r) of Inl e \<Rightarrow> Inl e | Inr snapshots \<Rightarrow>
     (case json_float64 (srs_AcksPerSecond r) of Inl e \<Rightarrow> Inl e | Inr acks \<Rightarrow>
     (case array_json StageResult_json (srs_StageResults r) of Inl e \<Rightarrow> Inl e | Inr stages \<Rightarrow>
      Inr (json_object
        [int_field ''agent_count'' (srs_AgentCount r), int_field ''registered_agents'' (srs_RegisteredAgents r),
         int_field ''snapshot_reads'' (srs_SnapshotReads r), int_field ''acknowledgements'' (srs_Acknowledgements r),
         json_field ''agents_per_second'' agents, json_field ''snapshots_per_second'' snapshots, json_field ''acks_per_second'' acks,
         string_field ''rollout_id'' (srs_RolloutID r), string_field ''final_state'' (srs_FinalState r), string_field ''final_stage'' (srs_FinalStage r),
         int_field ''duration'' (srs_Duration r), json_field ''register_latency'' (Latency_json (srs_RegisterLatency r)),
         json_field ''snapshot_latency'' (Latency_json (srs_SnapshotLatency r)), json_field ''ack_latency'' (Latency_json (srs_AckLatency r)),
         json_field ''stage_results'' (if srs_StageResults r = [] then ''null'' else json_array stages)])))))"

definition formatLatency :: "Latency \<Rightarrow> string" where
  "formatLatency l =
     (let show_d = (\<lambda>d. duration_String (duration_Round d Microsecond)) in
      ''latency[min='' @ show_d (lat_Min l) @ '' avg='' @ show_d (lat_Avg l) @ '' p50='' @ show_d (lat_P50 l) @ '' p95='' @ show_d (lat_P95 l) @
      '' max='' @ show_d (lat_Max l) @ '']'')"

definition stage_line :: "StageResult \<Rightarrow> string" where
  "stage_line s =
     ''stage '' @ sgr_StageID s @ '': targets='' @ show_int (sgr_Targets s) @ '' acked='' @ show_int (sgr_Acked s) @ '' coverage='' @
     fixed_text 2 (sgr_Coverage s) @ ''% next='' @ sgr_NextState s @ ''/'' @ sgr_NextStage s @ '' duration='' @
     duration_String (duration_Round (sgr_Duration s) Millisecond) @ newline"

definition simulator_lines :: "Result \<Rightarrow> string list" where
  "simulator_lines r =
     [''agents: '' @ show_int (srs_RegisteredAgents r) @ '' registered'' @ newline,
      ''rollout: '' @ srs_RolloutID r @ '' '' @ srs_FinalState r @ newline,
      ''duration: '' @ duration_String (duration_Round (srs_Duration r) Millisecond) @ newline,
      ''throughput: agents='' @ fixed_text 0 (srs_AgentsPerSecond r) @ ''/s snapshots='' @ fixed_text 0 (srs_SnapshotsPerSecond r) @ ''/s acks='' @
        fixed_text 0 (srs_AcksPerSecond r) @ ''/s'' @ newline,
      ''snapshots: '' @ show_int (srs_SnapshotReads r) @ '' '' @ formatLatency (srs_SnapshotLatency r) @ newline,
      ''acks: '' @ show_int (srs_Acknowledgements r) @ '' '' @ formatLatency (srs_AckLatency r) @ newline] @
     map stage_line (srs_StageResults r)"

definition simulator_output :: "writer \<Rightarrow> string \<Rightarrow> Result \<Rightarrow> ('n cli, unit) M" where
  "simulator_output wr format r =
     (if format = ''json'' then encode_indented wr (Result_json r)
      else if format = ''text'' then write_all wr (simulator_lines r)
      else raiseM (unsupported_format format))"

definition simulator_tool ::
  "writer \<Rightarrow> nat \<Rightarrow> schedules \<Rightarrow> ('doc, 'compiler, 'schema) jsonschema \<Rightarrow> Oracle \<Rightarrow> string list \<Rightarrow> (Sim cli, unit option) M" where
  "simulator_tool wr fuel sched js orc args =
     bindM (liftE (parse_flags simulator_flags simulator_defaults args)) (\<lambda>(flags, _).
     bindM (on_net1 (simulator_Run fuel sched js orc (simulator_options flags))) (\<lambda>result.
     case result of
       None \<Rightarrow> retM None
     | Some r \<Rightarrow> bindM (simulator_output wr (flag_value flags ''format'') r) (\<lambda>_. retM (Some ()))))"

definition simulator_main ::
  "writer \<Rightarrow> nat \<Rightarrow> schedules \<Rightarrow> ('doc, 'compiler, 'schema) jsonschema \<Rightarrow> Oracle \<Rightarrow> string list \<Rightarrow> Sim cli \<Rightarrow> int option \<times> Sim cli" where
  "simulator_main wr fuel sched js orc = tool_main wr (simulator_tool wr fuel sched js orc)"

subsection \<open>cmd/reliability\<close>

definition reliability_flags :: "(string \<times> flag_kind) list" where
  "reliability_flags = [(''scenario'', StringFlag), (''concurrency'', IntFlag), (''service'', StringFlag), (''environment'', StringFlag), (''format'', StringFlag)]"

definition reliability_defaults :: "(string, string) gomap" where
  "reliability_defaults =
     [(''scenario'', ''all''), (''concurrency'', ''32''), (''service'', ''payment-service''), (''environment'', EnvironmentProduction), (''format'', ''text'')]"

type_synonym scenario = "World \<Rightarrow> (ScenarioResult \<times> error option) \<times> World"

definition scenario_order :: "string list" where
  "scenario_order = [''control-plane-restart'', ''data-plane-outage'', ''concurrent-rollout-acknowledgements'', ''rollback-propagation-timing'']"

text \<open>The outside of a run: the network, the disk and its files, the schedules of the workers, the schema compiler, the oracle, and the order in which Go
  ranges over a map.\<close>

record ('doc, 'compiler, 'schema) lab =
  lab_net :: Internet
  lab_os :: Os
  lab_files :: "(string, bytes) gomap"
  lab_sched :: schedules
  lab_schema :: "('doc, 'compiler, 'schema) jsonschema"
  lab_oracle :: Oracle
  lab_range :: "(string, int) gomap \<Rightarrow> (string \<times> int) list"

definition scenario_runners :: "('doc, 'compiler, 'schema) lab \<Rightarrow> HarnessOptions \<Rightarrow> (string \<times> scenario) list" where
  "scenario_runners l o' =
     [(''control-plane-restart'', RunControlPlaneRestartScenario (lab_net l) (lab_schema l) (lab_oracle l) o'),
      (''data-plane-outage'', RunDataPlaneOutageScenario (lab_net l) (lab_os l) (lab_files l) (lab_schema l) (lab_oracle l) o'),
      (''concurrent-rollout-acknowledgements'',
         RunConcurrentRolloutAcknowledgementScenario (lab_sched l) (lab_net l) (lab_schema l) (lab_oracle l) o'),
      (''rollback-propagation-timing'', RunRollbackPropagationTimingScenario (lab_sched l) (lab_net l) (lab_schema l) (lab_oracle l) o')]"

fun run_in_order :: "(string \<times> scenario) list \<Rightarrow> string list \<Rightarrow> ScenarioResult list \<Rightarrow> World \<Rightarrow> (ScenarioResult list \<times> error option) \<times> World" where
  "run_in_order runners [] results w = ((results, None), w)"
| "run_in_order runners (name # names) results w =
     (case map_of runners name of
        None \<Rightarrow> ((results, Some (Foreign ''panic: nil function'')), w)
      | Some runner \<Rightarrow>
          (case runner w of
             ((result, Some err), w) \<Rightarrow> ((results @ [result], Some err), w)
           | ((result, None), w) \<Rightarrow> run_in_order runners names (results @ [result]) w))"

definition runSelected :: "('doc, 'compiler, 'schema) lab \<Rightarrow> string \<Rightarrow> HarnessOptions \<Rightarrow> World \<Rightarrow> (ScenarioResult list \<times> error option) \<times> World" where
  "runSelected l scenario o' w =
     (let runners = scenario_runners l o' in
      if scenario \<noteq> ''all'' then
        (case map_of runners scenario of
           None \<Rightarrow> (([], Some (Errorf ''unknown scenario %q'' [FQ scenario])), w)
         | Some runner \<Rightarrow> (case runner w of ((result, err), w) \<Rightarrow> (([result], err), w)))
      else run_in_order runners scenario_order [] w)"

definition ScenarioEvent_json :: "ScenarioEvent \<Rightarrow> string" where
  "ScenarioEvent_json e = json_object
     ([string_field ''name'' (sev_Name e), json_field ''passed'' (json_bool (sev_Passed e)), int_field ''duration'' (sev_Duration e)] @
      omitempty ''error'' (sev_Error e))"

definition int_map_member :: "string \<Rightarrow> (string, int) gomap \<Rightarrow> string list" where
  "int_map_member name m = (if m = [] then [] else [json_field name (json_object (map (\<lambda>(k, v). int_field k v) (sort_key fst m)))])"

definition ScenarioResult_json :: "ScenarioResult \<Rightarrow> error + string" where
  "ScenarioResult_json r =
     map_sum id (\<lambda>t. json_object
       ([string_field ''name'' (scr_Name r), json_field ''passed'' (json_bool (scr_Passed r)), json_field ''started_at'' t,
         int_field ''duration'' (scr_Duration r),
         json_field ''events'' (if scr_Events r = [] then ''null'' else json_array (map ScenarioEvent_json (scr_Events r)))] @
        int_map_member ''metrics'' (scr_Metrics r) @ int_map_member ''timings'' (scr_Timings r))) (json_time (scr_StartedAt r))"

definition status_text :: "bool \<Rightarrow> string" where
  "status_text passed = (if passed then ''PASSED'' else ''FAILED'')"

definition scenario_lines :: "((string, int) gomap \<Rightarrow> (string \<times> int) list) \<Rightarrow> ScenarioResult \<Rightarrow> string list" where
  "scenario_lines ranged r =
     (let show_d = (\<lambda>d. duration_String (duration_Round d Millisecond)) in
      [''scenario '' @ scr_Name r @ '': '' @ status_text (scr_Passed r) @ '' duration='' @ show_d (scr_Duration r) @ newline] @
      map (\<lambda>e. ''  step '' @ sev_Name e @ '': '' @ status_text (sev_Passed e) @ '' duration='' @ show_d (sev_Duration e) @ newline) (scr_Events r) @
      map (\<lambda>(name, v). ''  metric '' @ name @ ''='' @ show_int v @ newline) (ranged (scr_Metrics r)) @
      map (\<lambda>(name, v). ''  timing '' @ name @ ''='' @ show_d v @ newline) (ranged (scr_Timings r)))"

definition reliability_output :: "writer \<Rightarrow> ((string, int) gomap \<Rightarrow> (string \<times> int) list) \<Rightarrow> string \<Rightarrow> ScenarioResult list \<Rightarrow> ('n cli, unit) M" where
  "reliability_output wr ranged format results =
     (if format = ''json'' then encode_indented wr (map_sum id json_array (array_json ScenarioResult_json results))
      else if format = ''text'' then write_all wr (concat (map (scenario_lines ranged) results))
      else raiseM (unsupported_format format))"

text \<open>The temporary directory: its creation may fail, and so may its removal, which is reported and then forgotten.\<close>

definition reliability_tool ::
  "writer \<Rightarrow> ('doc, 'compiler, 'schema) lab \<Rightarrow> error + string \<Rightarrow> error option \<Rightarrow> string list \<Rightarrow> (World cli, unit option) M" where
  "reliability_tool wr l tempDir removed args =
     bindM (liftE (parse_flags reliability_flags reliability_defaults args)) (\<lambda>(flags, _).
     bindM (liftE tempDir) (\<lambda>dir w.
     case bindM (\<lambda>w. case runSelected l (flag_value flags ''scenario'')
               \<lparr>hop_Service = flag_value flags ''service'', hop_Environment = flag_value flags ''environment'', hop_TempDir = dir,
                hop_Concurrency = int_value flags ''concurrency''\<rparr> (cl_net w) of
             ((results, err), n) \<Rightarrow> (case err of Some e \<Rightarrow> Inl e | None \<Rightarrow> Inr results, w\<lparr>cl_net := n\<rparr>))
           (reliability_output wr (lab_range l) (flag_value flags ''format'')) w of
       (r, w') \<Rightarrow>
         (map_sum id Some r,
          case removed of None \<Rightarrow> w' | Some e \<Rightarrow> snd (tool_write wr Stderr (''remove temp dir: '' @ error_text e @ newline) w'))))"

definition reliability_main ::
  "writer \<Rightarrow> ('doc, 'compiler, 'schema) lab \<Rightarrow> error + string \<Rightarrow> error option \<Rightarrow> string list \<Rightarrow> World cli \<Rightarrow> int option \<times> World cli" where
  "reliability_main wr l tempDir removed = tool_main wr (reliability_tool wr l tempDir removed)"

section \<open>What a run of the scenarios reports\<close>

lemma run_in_order_names:
  "run_in_order runners names results w = ((out, err), w') \<Longrightarrow> \<exists>new. out = results @ new \<and> length new \<le> length names \<and> (err = None \<longrightarrow> length new = length names)"
proof (induction names arbitrary: results w)
  case (Cons name names)
  show ?case
  proof (cases "map_of runners name")
    case None
    then show ?thesis using Cons.prems by auto
  next
    case (Some runner)
    obtain result e w1 where run: "runner w = ((result, e), w1)" by (metis prod.collapse)
    show ?thesis
    proof (cases e)
      case None
      then have "run_in_order runners names (results @ [result]) w1 = ((out, err), w')" using Cons.prems Some run by simp
      from Cons.IH [OF this] obtain new where "out = (results @ [result]) @ new" "length new \<le> length names" "err = None \<longrightarrow> length new = length names" by blast
      then show ?thesis by (intro exI [of _ "result # new"]) auto
    next
      case (Some e')
      then show ?thesis using Cons.prems \<open>map_of runners name = Some runner\<close> run by auto
    qed
  qed
qed simp

text \<open>All scenarios are run, in order, when none of them returns an error.\<close>

lemma all_scenarios_run: "runSelected l ''all'' o' w = ((results, None), w') \<Longrightarrow> length results = 4"
  using run_in_order_names [of "scenario_runners l o'" scenario_order "[]" w results None w'] by (auto simp: runSelected_def Let_def scenario_order_def)

text \<open>An unknown scenario and a format that is not known leave nothing on the standard output.\<close>

lemma unknown_format_writes_nothing: "format \<noteq> ''json'' \<Longrightarrow> format \<noteq> ''text'' \<Longrightarrow> snd (simulator_output wr format r w) = w"
  by (simp add: simulator_output_def raiseM_def)

end
