(* ===== verification/Time_Roundtrip.thy ===== *)
theory Time_Roundtrip
  imports Json_Roundtrip
begin

section \<open>Times are read back\<close>

text \<open>
  What \<open>Time.MarshalJSON\<close> writes is what \<open>Time.UnmarshalJSON\<close> reads: the calendar date of a day number leads back to it, the padded numbers
  and the fraction without trailing zeros to theirs.
\<close>

subsection \<open>Dates\<close>

text \<open>A day of a cycle of 400 years lies in a century, a group of four years and a year, at some place in that year.\<close>

lemma cycle_day:
  fixes doe :: int
  assumes "0 \<le> doe" "doe < 146097"
  obtains a b e k where "doe = 36524 * a + 1461 * b + 365 * e + k" "0 \<le> a" "a \<le> 3" "0 \<le> b" "b \<le> 24" "0 \<le> e" "e \<le> 3" "0 \<le> k" "k \<le> 365"
    "k = 365 \<Longrightarrow> e = 3 \<and> (b \<noteq> 24 \<or> a = 3)"
proof -
  define a where "a = min 3 (doe div 36524)"
  define r where "r = doe - 36524 * a"
  have a: "0 \<le> a" "a \<le> 3" "0 \<le> r" "r \<le> 36524" "r = 36524 \<Longrightarrow> a = 3"
    using assms unfolding a_def r_def by (cases "3 \<le> doe div 36524"; simp; presburger)+
  define b where "b = r div 1461"
  define s where "s = r - 1461 * b"
  have b: "0 \<le> b" "b \<le> 24" "0 \<le> s" "s \<le> 1460" "s = 1460 \<Longrightarrow> b = 24 \<Longrightarrow> r = 36524" using a unfolding b_def s_def by auto
  define e where "e = min 3 (s div 365)"
  have e: "0 \<le> e" "e \<le> 3" "0 \<le> s - 365 * e" "s - 365 * e \<le> 365" "s - 365 * e = 365 \<Longrightarrow> e = 3 \<and> s = 1460"
    using b unfolding e_def by (cases "3 \<le> s div 365"; simp; presburger)+
  show thesis
    by (rule that [of a b e "s - 365 * e"]) (use a b e in \<open>auto simp: r_def s_def\<close>)
qed

lemma year_of_cycle:
  fixes a b e k :: int
  defines "doe \<equiv> 36524 * a + 1461 * b + 365 * e + k"
  assumes "0 \<le> a" "a \<le> 3" "0 \<le> b" "b \<le> 24" "0 \<le> e" "e \<le> 3" "0 \<le> k" "k \<le> 365" and "k = 365 \<Longrightarrow> e = 3 \<and> (b \<noteq> 24 \<or> a = 3)"
  shows "(doe - doe div 1460 + doe div 36524 - doe div 146096) div 365 = 100 * a + 4 * b + e"
proof -
  have century: "doe div 36524 - doe div 146096 = a"
  proof (cases "doe = 146096")
    case False
    have "doe \<le> 146096" using assms by linarith
    moreover have "doe < 36524 * a + 36524 \<or> a = 3" using assms by (cases "k = 365") auto
    ultimately show ?thesis using False assms by (auto simp: doe_def)
  next
    case True
    then have "a = 3" using assms by linarith
    then show ?thesis using True by simp
  qed
  define x where "x = 24 * a + b + 365 * e + k"
  have x: "doe = (25 * a + b) * 1460 + x" "0 \<le> x" "x \<le> 1556" using assms by (simp_all add: x_def doe_def)
  have D: "doe div 1460 = 25 * a + b + x div 1460" unfolding x(1) by simp
  have "x div 1460 = (if 1460 \<le> x then 1 else 0)" using x(2,3) by auto
  moreover have "0 \<le> k - (if 1460 \<le> x then 1 else 0)" "k - (if 1460 \<le> x then 1 else 0) \<le> 364"
    using assms unfolding x_def by (cases "k = 365"; auto)+
  ultimately have "(365 * (100 * a + 4 * b + e) + (k - x div 1460)) div 365 = 100 * a + 4 * b + e" by simp
  moreover have "doe - t + p - q = 365 * (100 * a + 4 * b + e) + (k - u)" if "p - q = a" "t = 25 * a + b + u" for p q t u
    using that by (simp add: doe_def)
  from this [OF century D] have "doe - doe div 1460 + doe div 36524 - doe div 146096 = 365 * (100 * a + 4 * b + e) + (k - x div 1460)" .
  ultimately show ?thesis by simp
qed

lemma day_of_year:
  fixes doy :: int
  assumes "0 \<le> doy" "doy \<le> 365"
  defines "mp \<equiv> (5 * doy + 2) div 153"
  shows "0 \<le> mp" "mp \<le> 11" "1 \<le> doy - (153 * mp + 2) div 5 + 1" "mp \<in> {1, 3, 6, 8} \<Longrightarrow> doy - (153 * mp + 2) div 5 + 1 \<le> 30"
    "doy - (153 * mp + 2) div 5 + 1 \<le> 31" "mp = 11 \<Longrightarrow> doy - (153 * mp + 2) div 5 + 1 = doy - 336"
proof -
  have bounds: "153 * mp \<le> 5 * doy + 2" "5 * doy + 2 < 153 * mp + 153" unfolding mp_def by presburger+
  then have mp: "0 \<le> mp" "mp \<le> 11" using assms(1,2) by linarith+
  then show "0 \<le> mp" "mp \<le> 11" by simp_all
  from mp have "mp = 0 \<or> mp = 1 \<or> mp = 2 \<or> mp = 3 \<or> mp = 4 \<or> mp = 5 \<or> mp = 6 \<or> mp = 7 \<or> mp = 8 \<or> mp = 9 \<or> mp = 10 \<or> mp = 11" by presburger
  then have "1 \<le> doy - (153 * mp + 2) div 5 + 1 \<and> (mp \<in> {1, 3, 6, 8} \<longrightarrow> doy - (153 * mp + 2) div 5 + 1 \<le> 30) \<and>
      doy - (153 * mp + 2) div 5 + 1 \<le> 31 \<and> (mp = 11 \<longrightarrow> doy - (153 * mp + 2) div 5 + 1 = doy - 336)"
    using bounds assms(1,2) by (elim disjE) simp_all
  then show "1 \<le> doy - (153 * mp + 2) div 5 + 1" "mp \<in> {1, 3, 6, 8} \<Longrightarrow> doy - (153 * mp + 2) div 5 + 1 \<le> 30"
    "doy - (153 * mp + 2) div 5 + 1 \<le> 31" "mp = 11 \<Longrightarrow> doy - (153 * mp + 2) div 5 + 1 = doy - 336" by blast+
qed

lemma civil_date:
  assumes "civil days = (y, m, d)"
  shows "1 \<le> m \<and> m \<le> 12 \<and> 1 \<le> d \<and> d \<le> days_in y m \<and> day_number y m d = days"
proof -
  define z where "z = days + 306"
  define era where "era = z div 146097"
  define doe where "doe = z mod 146097"
  have "0 \<le> doe" "doe < 146097" by (simp_all add: doe_def)
  then obtain a b e k where abek: "doe = 36524 * a + 1461 * b + 365 * e + k" "0 \<le> a" "a \<le> 3" "0 \<le> b" "b \<le> 24" "0 \<le> e" "e \<le> 3" "0 \<le> k" "k \<le> 365"
    "k = 365 \<Longrightarrow> e = 3 \<and> (b \<noteq> 24 \<or> a = 3)" by (rule cycle_day) blast
  define yoe where "yoe = 100 * a + 4 * b + e"
  have yoe: "(doe - doe div 1460 + doe div 36524 - doe div 146096) div 365 = yoe"
    using year_of_cycle [OF abek(2-10)] unfolding yoe_def abek(1) .
  have q: "yoe div 4 = 25 * a + b" "yoe div 100 = a" "0 \<le> yoe" "yoe < 400" using abek unfolding yoe_def by simp_all
  have doy: "doe - (365 * yoe + yoe div 4 - yoe div 100) = k" unfolding q(1,2) unfolding abek(1) yoe_def by simp
  define mp where "mp = (5 * k + 2) div 153"
  have md: "m = (if mp < 10 then mp + 3 else mp - 9)" "d = k - (153 * mp + 2) div 5 + 1" "y = yoe + era * 400 + (if m \<le> 2 then 1 else 0)"
    using assms unfolding civil_def Let_def z_def [symmetric] era_def [symmetric] doe_def [symmetric] yoe doy mp_def [symmetric] by auto
  note dy = day_of_year [OF abek(8,9), folded mp_def, folded md(2)]
  have m: "1 \<le> m" "m \<le> 12" "(if 2 < m then m - 3 else m + 9) = mp" using dy(1,2) by (auto simp: md(1))
  have march: "(if m \<le> 2 then y - 1 else y) = era * 400 + yoe" by (simp add: md(3))
  have "day_number y m d = era * 146097 + yoe * 365 + yoe div 4 - yoe div 100 + k - 306"
    unfolding day_number_def Let_def march m(3) using q(3,4) by (simp add: md(2))
  also have "\<dots> = z - 306" unfolding era_def using doy div_mult_mod_eq [of z 146097] by (simp add: doe_def [symmetric])
  finally have "day_number y m d = days" by (simp add: z_def)
  moreover have "d \<le> days_in y m"
  proof (cases "m = 2")
    case True
    then have mp: "mp = 11" using dy(1,2) by (auto simp: md(1) split: if_splits)
    then have "d = k - 336" using dy(6) by simp
    moreover have "leap_year y" if "k = 365"
    proof -
      have y: "y = 400 * era + (100 * a + 4 * b + 4)" using abek(10) that True by (simp add: md(3) yoe_def)
      have "y = 4 * (100 * era + 25 * a + b + 1)" unfolding y by simp
      then have "y mod 4 = 0" by simp
      moreover have "y mod 100 \<noteq> 0 \<or> y mod 400 = 0"
      proof (cases "b = 24")
        case True
        then have "y = 400 * (era + 1)" using abek(10) that unfolding y by simp
        then show ?thesis by simp
      next
        case False
        have "y = 4 * b + 4 + 100 * (4 * era + a)" unfolding y by simp
        then have "y mod 100 = (4 * b + 4) mod 100" by (simp only: mod_mult_self2)
        also have "\<dots> = 4 * b + 4" using abek(4,5) False by simp
        finally have "y mod 100 = 4 * b + 4" .
        then show ?thesis using abek(4) by simp
      qed
      ultimately show ?thesis by (simp add: leap_year_def)
    qed
    ultimately show ?thesis using abek(9) True by (cases "k = 365") (auto simp: days_in_def)
  next
    case False
    then show ?thesis using dy(2,4,5) by (auto simp: days_in_def md(1) split: if_splits)
  qed
  ultimately show ?thesis using m dy(3) by simp
qed

subsection \<open>Numbers of a fixed width\<close>

lemma length_show_uint: "0 \<le> n \<Longrightarrow> n < 10 ^ k \<Longrightarrow> 0 < k \<Longrightarrow> length (show_uint n) \<le> k"
proof (induction n arbitrary: k rule: show_uint.induct)
  case (1 n)
  show ?case
  proof (cases "n < 10")
    case True
    then show ?thesis using 1(4) by (simp add: show_uint.simps [of n])
  next
    case False
    then obtain k' where k: "k = Suc k'" "0 < k'" using 1(3,4) by (cases k; cases "k - 1") auto
    then have "length (show_uint (n div 10)) \<le> k'" using 1(1) [OF False, of k'] 1(2,3) by simp
    then show ?thesis using False k by (simp add: show_uint.simps [of n])
  qed
qed

lemma read_uint_zeros: "read_uint (replicate z CHR ''0'' @ s) = read_uint s"
  by (induction z) (simp_all add: read_uint_def)

lemma read_uint_append_zeros: "read_uint (s @ replicate z CHR ''0'') = read_uint s * 10 ^ z"
proof (induction z arbitrary: s)
  case (Suc z)
  have "s @ replicate (Suc z) CHR ''0'' = (s @ ''0'') @ replicate z CHR ''0''" by simp
  then show ?case using Suc [of "s @ ''0''"] by (simp add: read_uint_def)
qed simp

lemma pad_facts:
  assumes "0 \<le> n" "n < 10 ^ k" "0 < k"
  shows "length (pad k n) = k" "list_all json_digit (pad k n)" "read_uint (pad k n) = n"
proof -
  show "length (pad k n) = k" using length_show_uint [OF assms] by (simp add: pad_def Let_def)
  show "list_all json_digit (pad k n)"
    using show_uint_json [OF assms(1)] by (auto simp: pad_def Let_def list_all_iff json_digit_def)
  show "read_uint (pad k n) = n" by (simp add: pad_def Let_def read_uint_zeros read_show_uint [OF assms(1)])
qed

lemma read_digits_pad: "0 \<le> n \<Longrightarrow> n < 10 ^ k \<Longrightarrow> 0 < k \<Longrightarrow> read_digits k (pad k n @ r) = Some (n, r)"
  by (simp add: read_digits_def pad_facts)

lemma read_char_Cons [simp]: "read_char c (c # r) = Some r"
  by (simp add: read_char_def)

subsection \<open>Fractions\<close>

lemma read_fraction_written:
  assumes "0 \<le> ns" "ns < 1000000000"
  shows "read_fraction (fraction ns @ ''Z'') = Some (ns, ''Z'')"
proof (cases "ns = 0")
  case True
  then show ?thesis by (simp add: fraction_def read_fraction_def read_char_def)
next
  case False
  define s where "s = pad 9 ns"
  define ds where "ds = rev (dropWhile (\<lambda>c. c = CHR ''0'') (rev s))"
  define z where "z = length (takeWhile (\<lambda>c. c = CHR ''0'') (rev s))"
  have s: "length s = 9" "list_all json_digit s" "read_uint s = ns" using pad_facts [of ns 9] assms by (simp_all add: s_def)
  have zeros: "takeWhile (\<lambda>c. c = CHR ''0'') (rev s) = replicate z CHR ''0''"
    unfolding z_def by (rule replicate_eqI [symmetric, THEN sym]) (auto dest: set_takeWhileD)
  have "rev (rev s) = rev (replicate z CHR ''0'' @ dropWhile (\<lambda>c. c = CHR ''0'') (rev s))"
    unfolding zeros [symmetric] by (simp only: takeWhile_dropWhile_id)
  then have split: "s = ds @ replicate z CHR ''0''" by (simp add: ds_def)
  then have len: "length ds + z = 9" using s(1) by (metis length_append length_replicate)
  have val: "read_uint ds * 10 ^ z = ns" using s(3) unfolding split read_uint_append_zeros .
  from len have z: "9 - length ds = z" "take 9 ds = ds" by simp_all
  have "ds \<noteq> []" using val False by (auto simp: read_uint_def)
  moreover have "list_all json_digit ds" using s(2) unfolding split by simp
  then have "digits (ds @ ''Z'') = (ds, ''Z'')" by (simp add: digits_delimited json_digit_def)
  ultimately show ?thesis
    using False val z by (simp add: fraction_def s_def [symmetric] ds_def [symmetric] read_fraction_def)
qed

subsection \<open>Times\<close>

lemma clock_read:
  "0 \<le> h \<Longrightarrow> h < 24 \<Longrightarrow> 0 \<le> mi \<Longrightarrow> mi < 60 \<Longrightarrow> 0 \<le> s \<Longrightarrow> s < 60 \<Longrightarrow>
   read_clock (pad 2 h @ '':'' @ pad 2 mi @ '':'' @ pad 2 s @ r) = Some (h * 3600 + mi * 60 + s, r)"
  by (simp add: read_clock_def read_digits_pad)

lemma rfc3339_read:
  assumes "json_time t = Inr txt"
  shows "parse_rfc3339 (rfc3339 t) = Some t"
proof -
  define secs where "secs = t div 1000000000"
  define sod where "sod = secs mod 86400"
  obtain y m d where date: "civil (secs div 86400) = (y, m, d)" by (cases "civil (secs div 86400)") auto
  have y: "0 \<le> y" "y < 10 ^ 4" using assms by (auto simp: json_time_def Let_def secs_def [symmetric] date split: if_splits)
  note day = civil_date [OF date]
  have "days_in y m \<le> 31" by (simp add: days_in_def)
  then have md: "0 \<le> m" "m < 100" "0 \<le> d" "d < 100" using day by linarith+
  have s: "0 \<le> sod" "sod < 86400" by (simp_all add: sod_def)
  then have hms: "sod div 3600 < 24" "sod div 60 mod 60 < 60" "sod mod 60 < 60" "0 \<le> sod div 3600" "0 \<le> sod div 60 mod 60" "0 \<le> sod mod 60"
    by simp_all
  have "sod div 60 div 60 = sod div 3600" using zdiv_zmult2_eq [of 60 sod 60] by simp
  then have parts: "sod div 3600 * 3600 + sod div 60 mod 60 * 60 + sod mod 60 = sod"
    using div_mult_mod_eq [of sod 60] div_mult_mod_eq [of "sod div 60" 60] by linarith
  have shape: "rfc3339 t = pad 4 y @ ''-'' @ pad 2 m @ ''-'' @ pad 2 d @ ''T'' @ pad 2 (sod div 3600) @ '':'' @ pad 2 (sod div 60 mod 60) @ '':'' @
      pad 2 (sod mod 60) @ fraction (t mod 1000000000) @ ''Z''"
    by (simp add: rfc3339_def secs_def [symmetric] sod_def [symmetric] Let_def date)
  have read: "read_date (pad 4 y @ ''-'' @ pad 2 m @ ''-'' @ pad 2 d @ r) = Some (secs div 86400, r)" for r
    using y md day by (simp add: read_date_def read_digits_pad)
  have clock: "read_clock (pad 2 (sod div 3600) @ '':'' @ pad 2 (sod div 60 mod 60) @ '':'' @ pad 2 (sod mod 60) @ r) = Some (sod, r)" for r
    by (rule clock_read [OF hms(4,1,5,2,6,3), unfolded parts])
  have "secs div 86400 * 86400 + sod = secs" unfolding sod_def by (rule div_mult_mod_eq)
  moreover have "secs * 1000000000 + t mod 1000000000 = t" unfolding secs_def by (rule div_mult_mod_eq)
  ultimately have sum: "(secs div 86400 * 86400 + sod) * 1000000000 + t mod 1000000000 = t" by simp
  have frac: "read_fraction (fraction (t mod 1000000000) @ ''Z'') = Some (t mod 1000000000, ''Z'')" by (rule read_fraction_written) simp_all
  have zone: "read_zone ''Z'' = Some 0" by (simp add: read_zone_def)
  show ?thesis
    unfolding parse_rfc3339_def shape append_Cons append_Nil read [unfolded append_Cons append_Nil] clock [unfolded append_Cons append_Nil]
      option.case prod.case read_char_Cons frac zone diff_zero sum ..
qed

end
