(* ===== verification/Json_Suffix.thy ===== *)
theory Json_Suffix
  imports Json_Roundtrip
begin

section \<open>Values inside a document\<close>

text \<open>
  A text that parses as one value does so inside a document as well, wherever a delimiter follows: what the parser has read of a text does not
  depend on what stands behind it, and its fuel need not exceed the number of bytes read. With this a raw message, which is not written by an encoder,
  takes its place among the texts of \<open>writes\<close>.
\<close>

subsection \<open>Literals\<close>

lemma scan_string_extends: "scan_string s = Some (a, r) \<Longrightarrow> scan_string (s @ q) = Some (a, r @ q)"
  by (induction s arbitrary: a r rule: scan_string.induct) (fastforce split: if_splits list.splits)+

lemma digits_extends:
  assumes "digits s = (ds, r)" "r = [] \<Longrightarrow> q = [] \<or> \<not> json_digit (hd q)"
  shows "digits (s @ q) = (ds, r @ q)"
proof (cases "r = []")
  case True
  then have all: "\<forall>x \<in> set s. json_digit x" using assms(1) by (auto simp: digits_def dropWhile_eq_Nil_conv)
  then have "ds = s" "list_all json_digit s" using assms(1) takeWhile_eq_all_conv [of json_digit s] by (auto simp: digits_def list_all_iff)
  then show ?thesis using digits_delimited [of ds q] assms(2) True by simp
next
  case False
  then obtain x where "x \<in> set s" "\<not> json_digit x" using assms(1) by (auto simp: digits_def dropWhile_eq_Nil_conv)
  then show ?thesis using assms(1) by (auto simp: digits_def takeWhile_append1 dropWhile_append1)
qed

lemma scan_integer_extends:
  assumes "scan_integer s = Some (i, r)" "r = [] \<Longrightarrow> delimited q"
  shows "scan_integer (s @ q) = Some (i, r @ q)"
proof -
  have "digits (s @ q) = (i, r @ q)" if "digits s = (i, r)" using digits_extends [OF that] assms(2) delimited_no_digit by blast
  then show ?thesis using assms(1) by (cases s) (auto simp: scan_integer_def split: if_splits)
qed

lemma scan_fraction_extends:
  assumes "scan_fraction s = Some (f, r)" "r = [] \<Longrightarrow> delimited q"
  shows "scan_fraction (s @ q) = Some (f, r @ q)"
proof (cases s)
  case Nil
  then show ?thesis using assms no_more_number [of q] by (simp add: scan_fraction_def)
next
  case (Cons c t)
  show ?thesis
  proof (cases "c = CHR ''.''")
    case True
    then obtain ds where ds: "digits t = (ds, r)" "f = c # ds" "ds \<noteq> []"
      using assms(1) by (auto simp: Cons scan_fraction_def split: prod.splits if_splits)
    then have "digits (t @ q) = (ds, r @ q)" using digits_extends assms(2) delimited_no_digit by blast
    then show ?thesis using ds True by (simp add: Cons scan_fraction_def)
  qed (use assms(1) in \<open>auto simp: Cons scan_fraction_def\<close>)
qed

lemma scan_exponent_extends:
  assumes "scan_exponent s = Some (e, r)" "r = [] \<Longrightarrow> delimited q"
  shows "scan_exponent (s @ q) = Some (e, r @ q)"
proof (cases s)
  case Nil
  then show ?thesis using assms no_more_number [of q] by (simp add: scan_exponent_def)
next
  case (Cons c t)
  show ?thesis
  proof (cases "c = CHR ''e'' \<or> c = CHR ''E''")
    case True
    then obtain x t' where t: "t = x # t'" using assms(1) by (cases t) (auto simp: Cons scan_exponent_def digits_def)
    define body where "body = (if x = CHR ''+'' \<or> x = CHR ''-'' then t' else t)"
    obtain ds where ds: "digits body = (ds, r)" "ds \<noteq> []" "e = c # (if x = CHR ''+'' \<or> x = CHR ''-'' then [x] else []) @ ds"
      using assms(1) True by (auto simp: Cons t body_def scan_exponent_def split: prod.splits if_splits)
    have "digits (body @ q) = (ds, r @ q)" using digits_extends [OF ds(1)] assms(2) delimited_no_digit by blast
    then show ?thesis using ds True by (auto simp: Cons t body_def scan_exponent_def split: if_splits)
  qed (use assms(1) in \<open>auto simp: Cons scan_exponent_def\<close>)
qed

lemma scan_number_extends:
  assumes "scan_number s = Some (n, r)" "r = [] \<Longrightarrow> delimited q"
  shows "scan_number (s @ q) = Some (n, r @ q)"
proof -
  obtain c t where s: "s = c # t" using assms(1) by (cases s) (auto simp: scan_number_def scan_integer_def)
  define body where "body = (if c = CHR ''-'' then t else s)"
  obtain i r1 f r2 e where scan: "scan_integer body = Some (i, r1)" "scan_fraction r1 = Some (f, r2)" "scan_exponent r2 = Some (e, r)"
    and n: "n = (if c = CHR ''-'' then [c] else []) @ i @ f @ e"
    using assms(1) by (auto simp: s body_def scan_number_def split: option.splits if_splits)
  have "r = []" if "r2 = []" using scan(3) that by (simp add: scan_exponent_def)
  moreover have "r2 = []" if "r1 = []" using scan(2) that by (simp add: scan_fraction_def)
  ultimately have q: "r1 = [] \<Longrightarrow> delimited q" "r2 = [] \<Longrightarrow> delimited q" using assms(2) by blast+
  show ?thesis
    using scan_integer_extends [OF scan(1) q(1)] scan_fraction_extends [OF scan(2) q(2)] scan_exponent_extends [OF scan(3) assms(2)] n
    by (auto simp: s body_def scan_number_def)
qed

lemma scan_literal_extends: "scan_literal w v s = Some (x, r) \<Longrightarrow> scan_literal w v (s @ q) = Some (x, r @ q)"
  by (auto simp: scan_literal_def split: if_splits) (metis append_take_drop_id length_take min.absorb_iff2 take_append diff_is_0_eq drop_0 drop_append take_eq_Nil)+

lemma scan_scalar_extends:
  assumes "scan_scalar s = Some (v, r)" "r = [] \<Longrightarrow> delimited q"
  shows "scan_scalar (s @ q) = Some (v, r @ q)"
proof (cases s)
  case (Cons c t)
  have "scan_string (t @ q) = Some (a, b @ q)" if "scan_string t = Some (a, b)" for a b using scan_string_extends [OF that] .
  moreover have "scan_literal w u ((c # t) @ q) = Some (v, r @ q)" if "scan_literal w u (c # t) = Some (v, r)" for w u
    using scan_literal_extends [OF that] .
  moreover have "scan_number ((c # t) @ q) = Some (n, r @ q)" if "scan_number (c # t) = Some (n, r)" for n
    using scan_number_extends [OF that] assms(2) by blast
  ultimately show ?thesis using assms(1) by (auto simp: Cons scan_scalar_def split: if_splits option.splits)
qed (use assms(1) in \<open>simp add: scan_scalar_def\<close>)

subsection \<open>Values\<close>

lemma skip_space_append: "skip_space r \<noteq> [] \<Longrightarrow> skip_space (r @ q) = skip_space r @ q"
  by (auto simp: skip_space_def dropWhile_eq_Nil_conv dropWhile_append1)

lemma skip_space_take:
  assumes "take 1 (skip_space r) = [c]"
  shows "skip_space r = c # drop 1 (skip_space r)" "skip_space (r @ q) = c # drop 1 (skip_space r) @ q" "length (drop 1 (skip_space r)) < length r"
proof -
  show split: "skip_space r = c # drop 1 (skip_space r)" using assms by (cases "skip_space r") auto
  then show "skip_space (r @ q) = c # drop 1 (skip_space r) @ q" using skip_space_append [of r q] append_Cons by (metis list.distinct(1))
  show "length (drop 1 (skip_space r)) < length r" using skip_space_shrinks [of r] by (subst (asm) split) simp
qed

lemma consumed_extends: "length r < length s \<Longrightarrow> consumed (s @ q) (r @ q) = consumed s r"
  by (simp add: consumed_def)

text \<open>What \<open>parse_extends\<close> says of each of the three functions.\<close>

definition extends :: "(nat \<Rightarrow> string \<Rightarrow> ('a \<times> string) option) \<Rightarrow> string \<Rightarrow> 'a \<Rightarrow> string \<Rightarrow> bool" where
  "extends f s v r \<longleftrightarrow> (\<forall>m q. length s - length r < m \<longrightarrow> (r = [] \<longrightarrow> delimited q) \<longrightarrow> f m (s @ q) = Some (v, r @ q))"

lemma extendsD: "extends f s v r \<Longrightarrow> length s - length r < m \<Longrightarrow> (r = [] \<Longrightarrow> delimited q) \<Longrightarrow> f m (s @ q) = Some (v, r @ q)"
  by (simp add: extends_def)

lemma parse_extends:
  "parse_value n d s = Some (v, r) \<Longrightarrow> extends (\<lambda>m. parse_value m d) s v r"
  "parse_elements n d s = Some (vs, r) \<Longrightarrow> extends (\<lambda>m. parse_elements m d) s vs r"
  "parse_members n d s = Some (ms, r) \<Longrightarrow> extends (\<lambda>m. parse_members m d) s ms r"
proof (induction n d s and n d s and n d s arbitrary: v r and vs r and ms r rule: parse_value_parse_elements_parse_members.induct)
  case (2 n d s)
  then obtain c t where s: "s = c # t" by (cases s) auto
  show ?case unfolding extends_def
  proof (intro allI impI)
    fix m q assume m: "length s - length r < m" and q: "r = [] \<longrightarrow> delimited q"
    have "length r < length s" by (rule parse_shrinks(1) [OF 2(3)])
    with m obtain k where k: "m = Suc k" by (cases m) auto
    consider "c = CHR 0x7B" "take 1 (skip_space t) = [CHR 0x7D]" | "c = CHR 0x7B" "take 1 (skip_space t) \<noteq> [CHR 0x7D]"
      | "c = CHR 0x5B" "take 1 (skip_space t) = [CHR 0x5D]" | "c = CHR 0x5B" "take 1 (skip_space t) \<noteq> [CHR 0x5D]"
      | "c \<noteq> CHR 0x7B" "c \<noteq> CHR 0x5B" by blast
    then show "parse_value m d (s @ q) = Some (v, r @ q)"
    proof cases
      case 1
      then show ?thesis using 2(3) skip_space_take [OF 1(2)] unfolding s k by (auto split: if_splits)
    next
      case 2
      then obtain ms where d: "\<not> d \<le> 0" and v: "v = JObject ms" and ms: "parse_members n (d - 1) (skip_space t) = Some (ms, r)"
        using \<open>parse_value (Suc n) d s = Some (v, r)\<close> by (auto simp: s split: if_splits)
      have t: "skip_space t \<noteq> []" using parse_shrinks(3) [OF ms] by auto
      have "length (skip_space t) - length r < k"
        using m skip_space_shrinks [of t] parse_shrinks(3) [OF ms] unfolding s k by simp
      from extendsD [OF "2.IH"(1) [OF s 2(1) d 2(2) ms] this] q
      have "parse_members k (d - 1) (skip_space t @ q) = Some (ms, r @ q)" by blast
      then show ?thesis using 2 d v t skip_space_append [OF t] unfolding s k by (cases "skip_space t") auto
    next
      case 3
      then show ?thesis using 2(3) skip_space_take [OF 3(2)] unfolding s k by (auto split: if_splits)
    next
      case 4
      then obtain vs where d: "\<not> d \<le> 0" and v: "v = JArray vs" and vs: "parse_elements n (d - 1) (skip_space t) = Some (vs, r)"
        using 2(3) by (auto simp: s split: if_splits)
      have t: "skip_space t \<noteq> []" using parse_shrinks(2) [OF vs] by auto
      have "length (skip_space t) - length r < k"
        using m skip_space_shrinks [of t] parse_shrinks(2) [OF vs] unfolding s k by simp
      moreover have "c \<noteq> CHR 0x7B" using 4 by simp
      ultimately have "parse_elements k (d - 1) (skip_space t @ q) = Some (vs, r @ q)"
        using extendsD [OF "2.IH"(2) [OF s _ 4(1) d 4(2) vs]] q by blast
      then show ?thesis using 4 d v t skip_space_append [OF t] unfolding s k by (cases "skip_space t") auto
    next
      case 5
      then have "scan_scalar s = Some (v, r)" using 2(3) by (simp add: s)
      then show ?thesis using 5 scan_scalar_extends [of s v r q] q unfolding s k by simp
    qed
  qed
next
  case (4 n d s)
  from 4(3) obtain v r0 where v: "parse_value n d s = Some (v, r0)" by (auto split: option.splits)
  define sub where "sub = skip_space (drop 1 (skip_space r0))"
  show ?case unfolding extends_def
  proof (intro allI impI)
    fix m q assume m: "length s - length r < m" and q: "r = [] \<longrightarrow> delimited q"
    have shorter: "length r0 < length s" "length r < length s" using parse_shrinks(1) [OF v] parse_shrinks(2) [OF 4(3)] by simp_all
    with m obtain k where k: "m = Suc k" by (cases m) auto
    have val: "parse_value k d (s @ q) = Some (v, r0 @ q)" if "length r < length r0"
      using extendsD [OF 4(1) [OF v], of k q] that m k shorter by fastforce
    show "parse_elements m d (s @ q) = Some (vs, r @ q)"
    proof (cases "take 1 (skip_space r0) = '',''")
      case True
      then obtain vs' where vs': "parse_elements n d sub = Some (vs', r)" "vs = (consumed s r0, v) # vs'"
        using 4(3) v by (auto simp: Let_def sub_def split: option.splits)
      note sp = skip_space_take [OF True]
      have len: "length r < length sub" "length sub < length r0"
        using parse_shrinks(2) [OF vs'(1)] skip_space_shrinks [of "drop 1 (skip_space r0)"] sp(3) by (simp_all add: sub_def)
      have "skip_space (drop 1 (skip_space r0) @ q) = sub @ q" using len(1) unfolding sub_def by (intro skip_space_append) auto
      moreover have "parse_elements k d (sub @ q) = Some (vs', r @ q)"
        using extendsD [OF 4(2) [OF v refl refl True vs'(1) [unfolded sub_def]], of k q] q m len shorter unfolding k sub_def by fastforce
      ultimately show ?thesis
        using val len sp(2) vs'(2) consumed_extends [OF shorter(1), of q] unfolding k by simp
    next
      case False
      then have end1: "take 1 (skip_space r0) = [CHR 0x5D]" "r = drop 1 (skip_space r0)" "vs = [(consumed s r0, v)]"
        using 4(3) v by (auto simp: Let_def split: if_splits)
      note sp = skip_space_take [OF end1(1)]
      show ?thesis using val sp(2,3) end1 consumed_extends [OF shorter(1), of q] unfolding k by simp
    qed
  qed
next
  case (6 n d s)
  from 6(3) obtain x r0 where x: "scan_scalar s = Some (JString x, r0)" "take 1 s = [CHR 0x22]" "take 1 (skip_space r0) = '':''"
    by (auto simp: Let_def split: option.splits if_splits json.splits)
  define s2 where "s2 = skip_space (drop 1 (skip_space r0))"
  from 6(3) x obtain v r2 where v: "parse_value n d s2 = Some (v, r2)" by (auto simp: Let_def s2_def split: option.splits)
  define sub where "sub = skip_space (drop 1 (skip_space r2))"
  have IH: "extends (\<lambda>m. parse_value m d) s2 v r2"
    using 6(1) x v unfolding s2_def by blast
  show ?case unfolding extends_def
  proof (intro allI impI)
    fix m q assume m: "length s - length r < m" and q: "r = [] \<longrightarrow> delimited q"
    note sp0 = skip_space_take [OF x(3)]
    have "length r2 < length s2" by (rule parse_shrinks(1) [OF v])
    then have shorter: "length r2 < length s2" "length s2 < length s" "length r < length s" "s2 \<noteq> []"
      using sp0(3) skip_space_shrinks [of "drop 1 (skip_space r0)"] scan_scalar_shrinks [OF x(1)] parse_shrinks(3) [OF 6(3)]
      by (auto simp: s2_def)
    with m obtain k where k: "m = Suc k" by (cases m) auto
    have "r0 \<noteq> []" using x(3) by (auto simp: skip_space_def)
    then have key: "scan_scalar (s @ q) = Some (JString x, r0 @ q)" using scan_scalar_extends [OF x(1)] by blast
    have quote: "take 1 (s @ q) = [CHR 0x22]" using x(2) by (cases s) auto
    have colon: "skip_space (drop 1 (skip_space r0) @ q) = s2 @ q" using shorter(4) unfolding s2_def by (rule skip_space_append)
    have val: "parse_value k d (s2 @ q) = Some (v, r2 @ q)" if "length r < length r2"
      using extendsD [OF IH, of k q] that m k shorter by fastforce
    show "parse_members m d (s @ q) = Some (ms, r @ q)"
    proof (cases "take 1 (skip_space r2) = '',''")
      case True
      then obtain ms' where ms': "parse_members n d sub = Some (ms', r)" "ms = (x, consumed s2 r2, v) # ms'"
        using 6(3) v x by (auto simp: Let_def s2_def sub_def split: option.splits)
      note sp = skip_space_take [OF True]
      have len: "length r < length sub" "length sub < length r2"
        using parse_shrinks(3) [OF ms'(1)] skip_space_shrinks [of "drop 1 (skip_space r2)"] sp(3) by (simp_all add: sub_def)
      have "skip_space (drop 1 (skip_space r2) @ q) = sub @ q" using len(1) unfolding sub_def by (intro skip_space_append) auto
      moreover have "extends (\<lambda>m. parse_members m d) sub ms' r" using 6(2) x v True ms'(1) unfolding s2_def sub_def by blast
      then have "parse_members k d (sub @ q) = Some (ms', r @ q)"
        using q m len shorter unfolding k by (intro extendsD) auto
      ultimately show ?thesis
        using key quote sp0(2) colon val len sp(2) ms'(2) consumed_extends [OF shorter(1), of q] unfolding k by simp
    next
      case False
      then have end1: "take 1 (skip_space r2) = [CHR 0x7D]" "r = drop 1 (skip_space r2)" "ms = [(x, consumed s2 r2, v)]"
        using 6(3) v x by (auto simp: Let_def s2_def split: if_splits)
      note sp = skip_space_take [OF end1(1)]
      show ?thesis
        using key quote sp0(2) colon val sp(2,3) end1 consumed_extends [OF shorter(1), of q] unfolding k by simp
    qed
  qed
qed simp_all

lemma writes_parsed:
  assumes "parse_value n d t = Some (v, [])" "starts_value t"
  shows "writes d t v"
  using extendsD [OF parse_extends(1) [OF assms(1)]] assms(2) by (simp add: writes_def)

end
