(* ===== verification/Snapshot_Wire.thy ===== *)
theory Snapshot_Wire
  imports Wire Time_Roundtrip Json_Suffix
begin

section \<open>Snapshots on the wire\<close>

text \<open>
  What the data plane writes for a snapshot (\<open>internal/dataplane/snapshot.go\<close>) is what the client of the agent reads
  (\<open>internal/agent/client.go\<close>): texts, numbers, the time, and the raw values, which the encoder compacts.
\<close>

subsection \<open>Times\<close>

definition unescaped :: "char \<Rightarrow> bool" where
  "unescaped c \<longleftrightarrow> 32 \<le> byte_of c \<and> byte_of c < 128 \<and> c \<notin> {CHR 0x22, CHR 0x5C, CHR ''<'', CHR ''>'', CHR ''&''}"

lemma escape_ascii_plain: "unescaped c \<Longrightarrow> escape_ascii c = [c]"
proof -
  assume c: "unescaped c"
  then have "c \<noteq> x" if "byte_of x < 32" for x using that by (auto simp: unescaped_def)
  from this [of "CHR 0x08"] this [of "CHR 0x0C"] this [of "CHR 0x0A"] this [of "CHR 0x0D"] this [of "CHR 0x09"] show ?thesis
    using c by (simp add: unescaped_def escape_ascii_def byte_of_def)
qed

lemma escape_plain: "list_all unescaped s \<Longrightarrow> escape_string s = s"
proof (induction s)
  case (Cons c s)
  then have "rune_len (c # s) = 1" by (simp add: unescaped_def)
  then show ?case using Cons by (subst escape_string.simps) (simp add: escape_ascii_plain)
qed (simp add: escape_string.simps)

definition time_char :: "char \<Rightarrow> bool" where
  "time_char c \<longleftrightarrow> json_digit c \<or> c \<in> set ''-:T.Z''"

lemma time_char_plain: "time_char c \<Longrightarrow> unescaped c"
  by (auto simp: time_char_def unescaped_def json_digit_def byte_of_def Let_def)

lemma pad_time_chars: "0 \<le> n \<Longrightarrow> list_all time_char (pad k n)"
  using show_uint_json [of n] by (auto simp: pad_def Let_def list_all_iff time_char_def json_digit_def)

lemma rfc3339_time_chars: "0 \<le> fst (civil (t div 1000000000 div 86400)) \<Longrightarrow> list_all time_char (rfc3339 t)"
proof -
  obtain y m d where date: "civil (t div 1000000000 div 86400) = (y, m, d)" by (cases "civil (t div 1000000000 div 86400)") auto
  assume "0 \<le> fst (civil (t div 1000000000 div 86400))"
  then have "0 \<le> y" "0 \<le> m" "0 \<le> d" using civil_date [OF date] by (simp_all add: date)
  moreover have "list_all time_char (fraction (t mod 1000000000))"
    using pad_time_chars [of "t mod 1000000000" 9] set_dropWhileD by (fastforce simp: fraction_def list_all_iff time_char_def)
  moreover have "list_all time_char ''-''" "list_all time_char '':''" "list_all time_char ''T''" "list_all time_char ''Z''"
    by (simp_all add: time_char_def)
  ultimately show ?thesis by (simp add: rfc3339_def Let_def date pad_time_chars)
qed

lemma json_time_text:
  assumes "json_time t = Inr txt"
  shows "txt = json_string (rfc3339 t)" "writes d txt (JString (sanitize (rfc3339 t)))" "dec_time old txt (JString s) = Inr t"
proof -
  have "0 \<le> fst (civil (t div 1000000000 div 86400))" "txt = CHR 0x22 # rfc3339 t @ [CHR 0x22]"
    using assms by (auto simp: json_time_def Let_def split: if_splits)
  moreover from this have "escape_string (rfc3339 t) = rfc3339 t"
    by (intro escape_plain list.pred_mono_strong [OF rfc3339_time_chars] time_char_plain)
  ultimately show written: "txt = json_string (rfc3339 t)" by (simp add: json_string_def)
  show "writes d txt (JString (sanitize (rfc3339 t)))" unfolding written by (rule writes_string)
  show "dec_time old txt (JString s) = Inr t"
    using \<open>txt = CHR 0x22 # rfc3339 t @ [CHR 0x22]\<close> rfc3339_read [OF assms] by (simp add: dec_time_def)
qed

subsection \<open>Values\<close>

text \<open>A value that is written and read at the place of a value in a snapshot, three brackets deep.\<close>

definition raw_text :: "RawMessage \<Rightarrow> string" where
  "raw_text v = (case json_raw v of Inl _ \<Rightarrow> [] | Inr t \<Rightarrow> t)"

definition wire_value :: "RawMessage \<Rightarrow> bool" where
  "wire_value v \<longleftrightarrow> json_raw v = Inr (raw_text v) \<and> map_option snd (parse_value (fuel_for (raw_text v)) (maxNestingDepth - 3) (raw_text v)) = Some []"

lemma parse_starts:
  assumes "parse_value n d t = Some (v, r)"
  shows "starts_value t"
proof (rule ccontr)
  assume no: "\<not> starts_value t"
  obtain k c t' where k: "n = Suc k" and t: "t = c # t'" using assms by (cases n; cases t) auto
  have "c \<in> {CHR 0x20, CHR 0x09, CHR 0x0D, CHR 0x0A, CHR '','', CHR 0x5D, CHR 0x7D}"
    using no by (auto simp: t starts_value_def json_space_def)
  then have "parse_value n d t = None"
    unfolding k t by (elim insertE emptyE) (simp_all add: scan_scalar_def scan_number_def scan_integer_def json_digit_def)
  then show False using assms by simp
qed

lemma wire_value_writes: "wire_value v \<Longrightarrow> \<exists>x. writes (maxNestingDepth - 3) (raw_text v) x"
  by (auto simp: wire_value_def intro: writes_parsed parse_starts)

subsection \<open>Snapshots\<close>

lemma member_simps [simp]:
  "fields_text ((k, t, v) # ms) = json_field k t # fields_text ms" "members_of ((k, t, v) # ms) = (sanitize k, t, v) # members_of ms"
  by (simp_all add: fields_text_def members_of_def)

definition assignment_members :: "Assignment \<Rightarrow> (string \<times> string \<times> json) list" where
  "assignment_members a =
     (if asg_RolloutID a = [] then [] else [string_member ''rolloutId'' (asg_RolloutID a)]) @
     (if asg_StageID a = [] then [] else [string_member ''stageId'' (asg_StageID a)])"

definition item_members :: "SnapshotItem \<Rightarrow> json \<Rightarrow> (string \<times> string \<times> json) list" where
  "item_members i x =
     [string_member ''configDefinitionId'' (si_ConfigDefinitionID i), string_member ''key'' (si_Key i),
      string_member ''versionId'' (si_VersionID i), int_member ''version'' (si_Version i), (''value'', raw_text (si_Value i), x),
      string_member ''checksum'' (si_Checksum i),
      (''assignment'', json_object (fields_text (assignment_members (si_Assignment i))), JObject (members_of (assignment_members (si_Assignment i))))]"

text \<open>What arrives: bytes that are no UTF-8 are replaced, values are compacted.\<close>

definition received_item :: "SnapshotItem \<Rightarrow> SnapshotItem" where
  "received_item i =
     \<lparr>si_ConfigDefinitionID = sanitize (si_ConfigDefinitionID i), si_Key = sanitize (si_Key i), si_VersionID = sanitize (si_VersionID i),
      si_Version = si_Version i, si_Value = raw_text (si_Value i), si_Checksum = sanitize (si_Checksum i),
      si_Assignment = \<lparr>asg_RolloutID = sanitize (asg_RolloutID (si_Assignment i)), asg_StageID = sanitize (asg_StageID (si_Assignment i))\<rparr>\<rparr>"

definition received_snapshot :: "Snapshot \<Rightarrow> Snapshot" where
  "received_snapshot s = s\<lparr>snap_Configs := map received_item (snap_Configs s)\<rparr>"

definition wire_snapshot :: "Snapshot \<Rightarrow> bool" where
  "wire_snapshot s \<longleftrightarrow> in_int64 (snap_Revision s) \<and> list_all (\<lambda>i. in_int64 (si_Version i) \<and> wire_value (si_Value i)) (snap_Configs s)"

lemma sanitize_Nil [simp]: "sanitize [] = []"
  by (simp add: sanitize.simps)

lemma assignment_written: "writes d (json_object (fields_text (assignment_members a))) (JObject (members_of (assignment_members a)))" if "0 < d"
  using that by (intro writes_object) (simp_all add: assignment_members_def)

lemma item_written:
  assumes "wire_value (si_Value i)" "in_int64 (si_Version i)"
  obtains x where "SnapshotItem_json i = Inr (json_object (fields_text (item_members i x)))"
    "writes (maxNestingDepth - 2) (json_object (fields_text (item_members i x))) (JObject (members_of (item_members i x)))"
    "\<And>raw. SnapshotItem_decoder zero_item raw (JObject (members_of (item_members i x))) = Inr (received_item i)"
proof -
  obtain x where x: "writes (maxNestingDepth - 3) (raw_text (si_Value i)) x" using wire_value_writes [OF assms(1)] by blast
  have "json_raw (si_Value i) = Inr (raw_text (si_Value i))" using assms(1) by (simp add: wire_value_def)
  then have "SnapshotItem_json i = Inr (json_object (fields_text (item_members i x)))"
    by (simp add: SnapshotItem_json_def item_members_def Assignment_json_def assignment_members_def)
  moreover have "list_all (\<lambda>(k, t, v). writes (maxNestingDepth - 2 - 1) t v) (item_members i x)"
    using x assignment_written [of "maxNestingDepth - 3"] by (simp add: item_members_def maxNestingDepth_def)
  then have "writes (maxNestingDepth - 2) (json_object (fields_text (item_members i x))) (JObject (members_of (item_members i x)))"
    by (intro writes_object) (simp_all add: maxNestingDepth_def)
  moreover have "Assignment_decoder \<lparr>asg_RolloutID = [], asg_StageID = []\<rparr> raw (JObject (members_of (assignment_members a))) =
      Inr \<lparr>asg_RolloutID = sanitize (asg_RolloutID a), asg_StageID = sanitize (asg_StageID a)\<rparr>" for a raw
    by (simp add: assignment_members_def Assignment_decoder_def decode_wire sanitize_ascii byte_of_def)
  then have "SnapshotItem_decoder zero_item raw (JObject (members_of (item_members i x))) = Inr (received_item i)" for raw
    using assms(2) by (simp add: item_members_def SnapshotItem_decoder_def zero_item_def received_item_def decode_wire dec_raw_def sanitize_ascii byte_of_def)
  ultimately show thesis by (rule that)
qed

lemma items_written:
  assumes "list_all (\<lambda>i. in_int64 (si_Version i) \<and> wire_value (si_Value i)) is"
  obtains xs where "items_json is = Inr (map fst xs)" "list_all (\<lambda>(t, v). writes (maxNestingDepth - 2) t v) xs"
    "dec_elements zero_item SnapshotItem_decoder [] xs = Inr (map received_item is)"
proof -
  have "\<exists>xs. items_json is = Inr (map fst xs) \<and> list_all (\<lambda>(t, v). writes (maxNestingDepth - 2) t v) xs \<and>
      dec_elements zero_item SnapshotItem_decoder [] xs = Inr (map received_item is)"
    using assms
  proof (induction "is")
    case (Cons i "is")
    then obtain xs where xs: "items_json is = Inr (map fst xs)" "list_all (\<lambda>(t, v). writes (maxNestingDepth - 2) t v) xs"
      "dec_elements zero_item SnapshotItem_decoder [] xs = Inr (map received_item is)" by auto
    have i: "wire_value (si_Value i)" "in_int64 (si_Version i)" using Cons.prems by simp_all
    obtain x where x: "SnapshotItem_json i = Inr (json_object (fields_text (item_members i x)))"
      "writes (maxNestingDepth - 2) (json_object (fields_text (item_members i x))) (JObject (members_of (item_members i x)))"
      "\<And>raw. SnapshotItem_decoder zero_item raw (JObject (members_of (item_members i x))) = Inr (received_item i)"
      using item_written [OF i] by metis
    show ?case
      by (rule exI [of _ "(json_object (fields_text (item_members i x)), JObject (members_of (item_members i x))) # xs"]) (use xs x in simp)
  qed simp
  then show thesis using that by blast
qed

lemma snapshot_decoded:
  assumes "wire_snapshot s" "Snapshot_Marshal s = Inr b"
  shows "decode_body Snapshot_decoder zero_snapshot (b @ rest, None) = Inr (received_snapshot s)"
proof -
  obtain quoted where t: "json_time (snap_GeneratedAt s) = Inr quoted" using assms(2) by (auto simp: Snapshot_Marshal_def split: sum.splits)
  note time = json_time_text [OF t]
  obtain xs where xs: "items_json (snap_Configs s) = Inr (map fst xs)" "list_all (\<lambda>(t, v). writes (maxNestingDepth - 2) t v) xs"
    "dec_elements zero_item SnapshotItem_decoder [] xs = Inr (map received_item (snap_Configs s))"
    using items_written assms(1) unfolding wire_snapshot_def by blast
  define ms where "ms = [int_member ''revision'' (snap_Revision s), (''generatedAt'', quoted, JString (sanitize (rfc3339 (snap_GeneratedAt s)))),
    (''configs'', json_array (map fst xs), JArray xs)]"
  have b: "b = json_object (fields_text ms)" using assms(2) t xs(1) by (simp add: Snapshot_Marshal_def ms_def)
  have "writes (maxNestingDepth - 1) (json_array (map fst xs)) (JArray xs)"
    using xs(2) by (intro writes_array) (simp_all add: maxNestingDepth_def)
  then have "list_all (\<lambda>(k, t, v). writes (maxNestingDepth - 1) t v) ms" using time(2) by (simp add: ms_def)
  note read = json_first_object [OF this]
  show ?thesis
    unfolding b decode_body_def prod.case read using assms(1) xs(3) time(3)
    by (simp add: ms_def Snapshot_decoder_def zero_snapshot_def decode_wire dec_slice_def received_snapshot_def wire_snapshot_def sanitize_ascii byte_of_def)
qed

text \<open>An item that loses nothing: its texts are UTF-8, its number has 64 bits, its value is compact already.\<close>

definition faithful_item :: "SnapshotItem \<Rightarrow> bool" where
  "faithful_item i \<longleftrightarrow> list_all valid_utf8 [si_ConfigDefinitionID i, si_Key i, si_VersionID i, si_Checksum i,
       asg_RolloutID (si_Assignment i), asg_StageID (si_Assignment i)] \<and>
     in_int64 (si_Version i) \<and> wire_value (si_Value i) \<and> raw_text (si_Value i) = si_Value i"

lemma received_faithful: "list_all faithful_item (snap_Configs s) \<Longrightarrow> received_snapshot s = s"
proof -
  assume "list_all faithful_item (snap_Configs s)"
  moreover have "received_item i = i" if "faithful_item i" for i
    using that by (simp add: faithful_item_def received_item_def sanitize_valid)
  ultimately have "map received_item (snap_Configs s) = snap_Configs s" by (simp add: list_all_iff map_idI)
  then show ?thesis by (simp add: received_snapshot_def)
qed

text \<open>C39 (roundtrip). A snapshot that the data plane can encode arrives at the client of the agent as it was: revision, time of generation, and every
  item with its identifiers, number, raw value, checksum and assignment, when the texts are UTF-8 and the values compact JSON. A value with white
  space arrives compacted and a text that is no UTF-8 with replaced bytes, whatever follows the body.\<close>

theorem snapshots_arrive_as_sent:
  assumes "wire_snapshot s" "Snapshot_Marshal s = Inr b"
  shows "decode_body Snapshot_decoder zero_snapshot (b @ rest, None) =
      Inr (if list_all faithful_item (snap_Configs s) then s
           else s\<lparr>snap_Configs := map received_item (snap_Configs s)\<rparr>)"
  using snapshot_decoded [OF assms, of rest] received_faithful [of s] by (simp add: received_snapshot_def)

text \<open>A value with an object, a number and a string with an escape, in an item of a rollout.\<close>

definition demo_value :: bytes where
  "demo_value = json_object [json_field ''limit'' ''[1,-2.50e+1,true]'', json_field ''name'' (json_string [CHR 0x22, CHR ''x''])]"

definition demo_sent :: Snapshot where
  "demo_sent = \<lparr>snap_Revision = 7, snap_GeneratedAt = 63892281600 * 1000000000 + 500,
     snap_Configs = [\<lparr>si_ConfigDefinitionID = ''cfg-1'', si_Key = ''k'', si_VersionID = ''v-1'', si_Version = 2, si_Value = demo_value,
       si_Checksum = ''c'', si_Assignment = \<lparr>asg_RolloutID = ''r-1'', asg_StageID = ''stage-5''\<rparr>\<rparr>]\<rparr>"

theorem snapshots_arrive_as_sent_witness:
  "\<exists>b. Snapshot_Marshal demo_sent = Inr b \<and> decode_body Snapshot_decoder zero_snapshot (b, None) = Inr demo_sent"
proof -
  have sent: "wire_snapshot demo_sent" "list_all faithful_item (snap_Configs demo_sent)" "\<not> isl (Snapshot_Marshal demo_sent)" by code_simp+
  then obtain b where b: "Snapshot_Marshal demo_sent = Inr b" by (cases "Snapshot_Marshal demo_sent") auto
  from snapshots_arrive_as_sent [OF sent(1) b, of "[]"] show ?thesis using b sent(2) by simp
qed

end
