(* ===== verification/Spec2Isabelle.thy ===== *)
theory Spec2Isabelle
  imports Plane_Liveness Plane_Http Agent_Sync Postgres_Theorems Cfgctl Simulator_Ends Programs Reliability_Theorems Tools Snapshot_Wire
begin

text \<open>
  SafeConfig (config-rollout-plane): a control plane that stores versioned configuration, rolls a candidate version out to agents stage by
  stage, and rolls it back when it does not prove healthy. This development models the Go code of the repository and proves what makes it
  correct. Definitions carry the names of the source; a suffix or a prefix (\<open>cr_\<close>, \<open>ag_\<close>, \<open>ro_\<close>, \<open>h_\<close>, \<open>cp_\<close>, \<open>dp_\<close>) tells apart names that
  several packages use.

  \<^bold>\<open>The language level.\<close> \<open>Prelude\<close>: errors as values that keep their format and wrapped causes (\<open>errors_Is\<close>), the effect type
  \<open>('w, 'a) M\<close> of code on stores (a function of a world that returns an error or a value and the new world, on the error path too) with its
  weakest preconditions \<open>wp\<close> and contracts, Go maps as association lists, byte strings, times and durations in nanoseconds with the wrap-around
  of \<open>int64\<close>. \<open>Float64\<close>: IEEE doubles as rationals rounded to even, infinities and NaN (one zero). \<open>Sha256\<close>: the hash over 32-bit words.
  \<open>Json\<close>, \<open>Json_Encode\<close>, \<open>Json_Decode\<close>, \<open>Json_Float\<close>: validity, compaction, indentation, writing and reading of JSON as \<open>encoding/json\<close>
  does them, with the nesting bound; the parser's fuel \<open>fuel_for\<close> is proved enough (\<open>parse_fuel\<close>). \<open>Json_Roundtrip\<close>: what is written is read back.
  \<open>Http\<close>: HTTP clients over a network that is a parameter; \<open>Path\<close>: file paths.

  \<^bold>\<open>The packages.\<close>
  \<^item> \<open>Domain\<close> (\<open>internal/domain\<close>): the records and their validation.
  \<^item> \<open>Guardrail\<close>, \<open>Prometheus\<close> (\<open>internal/guardrail\<close>): rules, evaluation with consecutive failures, the Prometheus client.
  \<^item> \<open>Rollout_Core\<close> (\<open>state.go\<close>, \<open>bucket.go\<close>, \<open>stage.go\<close>, \<open>target.go\<close>, \<open>promotion.go\<close>, \<open>effective.go\<close>): the pure functions of the rollout package.
  \<^item> \<open>Rollout_Store\<close>, \<open>Config_Registry\<close>, \<open>Agent_Registry\<close> (the \<open>memory_store.go\<close> and \<open>service.go\<close> of the three registries): the stores, each with the
    contracts of its operations over an abstract database, and the services.
  \<^item> \<open>Rollout_Service\<close> (\<open>internal/rollout/service.go\<close>): creation, acknowledgement, reconciliation, promotion and rollback.
  \<^item> \<open>Data_Plane\<close> (\<open>internal/dataplane\<close>): credentials, snapshots and their endpoint.
  \<^item> \<open>Agent_Cache\<close>, \<open>Agent_Sync\<close> (\<open>internal/agent\<close>): the snapshot cache on a disk whose every operation may fail or be the last before the power fails, the
    clients, the synchronisation loop and the local endpoint.
  \<^item> \<open>Control_Handler\<close> (\<open>internal/controlplane/handler.go\<close>): all endpoints.
  \<^item> \<open>Manifest\<close>, \<open>Validator\<close>, \<open>Apply\<close> (\<open>internal/configcode\<close>): configuration as code.
  \<^item> \<open>Postgres\<close>, \<open>Postgres_Rollouts\<close> (\<open>internal/storage/postgres/store.go\<close> over \<open>migrations/\<close>): the three store interfaces as SQL statements over
    tables with their constraints, and transactions; \<open>Postgres_Integrity\<close> and \<open>Postgres_Theorems\<close> have what the tables satisfy after any calls.
  \<^item> \<open>Runtime\<close> (\<open>internal/runtime\<close>, \<open>internal/logging\<close>, \<open>internal/health\<close>): environment variables, the server loop, health checks; \<open>Cfgctl\<close>
    (\<open>cmd/cfgctl\<close>): the command line tool over \<open>internal/configcode\<close>, which loads the files twice, each time as they are then.
  \<^item> \<open>Parallel\<close>: the worker pool \<open>parallel\<close> / \<open>runParallel\<close> with its goroutines and channels, as steps of which a list is an interleaving; the locale
    \<open>pool_jobs\<close> is the rule for reasoning about the jobs of a call. \<open>Simulator\<close> (\<open>internal/simulator\<close>): a whole simulation over the services;
    \<open>Simulator_Ends\<close>: it comes to an end.
  \<^item> \<open>Programs\<close> (\<open>cmd/control-plane\<close>, \<open>cmd/data-plane\<close>, \<open>cmd/agent\<close>): what the environment makes of the three servers, and the tenant filter.
  \<^item> \<open>Serving\<close>: the JSON text of the responses, the routes of the servers and how \<open>net/http\<close> matches a path to them.
  \<^item> \<open>Reliability\<close>, \<open>Reliability_Scenarios\<close> (\<open>internal/reliability\<close>): the harness that runs both planes on one world, stops and restarts them, and
    talks to them over HTTP; the runner and the scenarios. \<open>Reliability_Theorems\<close>: what they show.
  \<^item> \<open>Tools\<close> (\<open>cmd/simulator\<close>, \<open>cmd/reliability\<close>): flags, runs, reports as text and JSON, exit status.

  \<^bold>\<open>How they interact.\<close> A service takes its stores, the other services, the clock and the source of identifiers as records of operations in \<open>M\<close>.
  The locales \<open>rollout_store\<close>, \<open>config_store\<close>, \<open>agent_store\<close> and those that extend them state what the services rely on; \<open>Control_World\<close>
  interprets them on the in-memory stores. \<open>Control_World\<close> and \<open>Control_Plane\<close> put the program of \<open>cmd/control-plane\<close> together: the \<open>World\<close> has the
  three stores and a tick that drives the oracle for time, entropy, cancellation, query answers and map order; \<open>serve\<close> runs one call and
  \<open>reachable\<close> holds of the worlds after any sequence of calls. Calls follow one another: the rollout service holds its mutex during a call that
  writes, while the registries hold the one of the store during each store operation only, and an interleaving of their operations is not modelled.

  \<^bold>\<open>What the lemmas show.\<close> \<open>Rollout_Steps\<close> is the abstract specification: steps of a rollout database, with \<open>progress\<close> and well-formedness
  kept by every step; \<open>Rollout_Refinement\<close> shows that the operations of the service are sequences of these steps over any stores with the
  laws of the locales; \<open>Plane_Theorems\<close>, \<open>Plane_Liveness\<close>, \<open>Plane_Snapshots\<close> and \<open>Plane_Http\<close> draw the properties of the running program
  (\<open>http_history_refines_calls\<close>: HTTP histories change the stores as the calls \<open>request_calls\<close> of their requests do). \<open>Rollout_Decision\<close> analyses one reconciliation. \<open>Scenario\<close> has the worlds on which
  the witnesses evaluate. \<open>Wire\<close> and \<open>Snapshot_Wire\<close> connect the
  encoders of one program with the decoders of another, over \<open>Time_Roundtrip\<close> (times) and \<open>Json_Suffix\<close> (raw values inside a document); \<open>Config_Code\<close> has the properties of
  configuration as code.

  \<^bold>\<open>Parameters.\<close> Code that is not in the repository is a parameter: the JSON schema compiler (\<open>jsonschema\<close>), the YAML library
  (\<open>yaml_node\<close>, \<open>yaml_document\<close>), the network (in the harness \<open>Internet\<close>: which URL a listener gets, which connection fails and when), the disk, the clock and the random source, the answer to a path that \<open>net/http\<close> redirects, and of the PostgreSQL server its \<open>JSONB\<close>, its collation
  and the faults of the connection.

  \<^bold>\<open>Fuel.\<close> The worker pool runs with the bound of its measure (\<open>parallel_returned\<close>: it has returned then); the JSON parser with \<open>fuel_for\<close>; the
  stages of a simulation with a fuel that is a parameter, and \<open>None\<close> when it is spent, which does not happen with a fuel of three on a clock that stays within
  the deployment timeout (\<open>simulation_ends\<close>); on a slower one the loop of the program may not end.

  \<^bold>\<open>The disk.\<close> A written file is unsynced until \<open>Sync\<close>; when the power fails, an unsynced file has any content or none (\<open>after_power_loss\<close>). Renames and
  removals take effect in their order, as on a journaling file system; \<open>Save\<close> does not sync the directory.

  \<^bold>\<open>Not modelled.\<close> Signals, log records and the text that the \<open>flag\<close> package writes; interleavings of the operations inside two calls to one
  server; a \<open>COMMIT\<close> of PostgreSQL that is done although its reply is lost (a fault at \<open>COMMIT\<close> is a rollback here); the compression, the keep-alive and the time-outs of HTTP connections; container and deployment files; tests.
\<close>

end
